(* ===== verification/Prelude.thy ===== *)
theory Prelude
  imports Main "HOL-Library.State_Monad" "HOL-Library.AList"
begin

text \<open>
  Shared material of the development: the weakest-precondition calculus for the state monad in
  which every controller is written, the early-return loop of the Go sources, and Go's
  \<open>map[string]string\<close> as an optional association list (\<open>None\<close> is the nil map).
\<close>

section \<open>Weakest preconditions for the state monad\<close>

named_theorems wp_simps \<open>unfolding rules of wp, one per program construct\<close>

definition wp :: "('s, 'a) state \<Rightarrow> ('a \<Rightarrow> 's \<Rightarrow> bool) \<Rightarrow> 's \<Rightarrow> bool" where
  "wp m Q s = (case run_state m s of (x, s') \<Rightarrow> Q x s')"

lemma wp_return [wp_simps]: "wp (State_Monad.return x) Q s = Q x s"
  by (simp add: wp_def)

lemma wp_bind [wp_simps]: "wp (State_Monad.bind m f) Q s = wp m (\<lambda>x. wp (f x) Q) s"
  by (simp add: wp_def split: prod.splits)

lemma wp_if [wp_simps]: "wp (if b then m else n) Q s = (if b then wp m Q s else wp n Q s)"
  by simp

lemma wp_let [wp_simps]: "wp (let x = a in f x) Q s = (let x = a in wp (f x) Q s)"
  by simp

lemma wp_case_option [wp_simps]:
  "wp (case v of None \<Rightarrow> m | Some y \<Rightarrow> f y) Q s = (case v of None \<Rightarrow> wp m Q s | Some y \<Rightarrow> wp (f y) Q s)"
  by (cases v) simp_all

lemma wp_case_sum [wp_simps]:
  "wp (case v of Inl a \<Rightarrow> m a | Inr b \<Rightarrow> n b) Q s = (case v of Inl a \<Rightarrow> wp (m a) Q s | Inr b \<Rightarrow> wp (n b) Q s)"
  by (cases v) simp_all

lemma wp_case_prod [wp_simps]:
  "wp (case v of (a, b) \<Rightarrow> m a b) Q s = (case v of (a, b) \<Rightarrow> wp (m a b) Q s)"
  by (cases v) simp

lemma wp_case_list [wp_simps]:
  "wp (case v of [] \<Rightarrow> m | y # ys \<Rightarrow> f y ys) Q s = (case v of [] \<Rightarrow> wp m Q s | y # ys \<Rightarrow> wp (f y ys) Q s)"
  by (cases v) simp_all

lemma wp_mono: "wp m P s \<Longrightarrow> (\<And>x t. P x t \<Longrightarrow> Q x t) \<Longrightarrow> wp m Q s"
  by (auto simp: wp_def split: prod.splits)

lemma wp_conj: "wp m P s \<Longrightarrow> wp m Q s \<Longrightarrow> wp m (\<lambda>x t. P x t \<and> Q x t) s"
  by (auto simp: wp_def split: prod.splits)

lemma wp_run: "wp m Q s \<Longrightarrow> run_state m s = (x, t) \<Longrightarrow> Q x t"
  by (simp add: wp_def)

lemma wp_fst_snd: "wp m Q s = Q (fst (run_state m s)) (snd (run_state m s))"
  by (simp add: wp_def split: prod.splits)

section \<open>Loops that may return early\<close>

text \<open>
  A Go \<open>for _, x := range xs\<close> whose body may \<open>return\<close>: the body yields \<open>Inl e\<close> to leave the
  surrounding function with \<open>e\<close> and \<open>Inr acc\<close> to go on (also for \<open>continue\<close>) with the loop's
  variables \<open>acc\<close>.
\<close>

fun for_each :: "'a list \<Rightarrow> 'b \<Rightarrow> ('a \<Rightarrow> 'b \<Rightarrow> ('s, 'e + 'b) state) \<Rightarrow> ('s, 'e + 'b) state" where
  "for_each [] acc body = State_Monad.return (Inr acc)"
| "for_each (x # xs) acc body = do {
     r \<leftarrow> body x acc;
     (case r of Inl e \<Rightarrow> State_Monad.return (Inl e) | Inr acc' \<Rightarrow> for_each xs acc' body)
   }"

lemma wp_for_each_gen:
  assumes step: "\<And>x rest don acc t. \<lbrakk>xs = x # rest \<or> (\<exists>pre. xs = pre @ x # rest); I don acc t\<rbrakk> \<Longrightarrow>
      wp (body x acc) (\<lambda>r u. case r of Inl e \<Rightarrow> Q (Inl e) u | Inr acc' \<Rightarrow> I (don @ [x]) acc' u) t"
    and init: "I don0 acc s"
    and final: "\<And>acc t. I (don0 @ xs) acc t \<Longrightarrow> Q (Inr acc) t"
  shows "wp (for_each xs acc body) Q s"
  using assms
proof (induction xs arbitrary: acc s don0)
  case Nil
  then show ?case by (simp add: wp_simps)
next
  case (Cons x xs)
  have body: "wp (body x acc) (\<lambda>r u. case r of Inl e \<Rightarrow> Q (Inl e) u | Inr acc' \<Rightarrow> I (don0 @ [x]) acc' u) s"
    by (rule Cons.prems(1) [where rest = xs]) (simp_all add: Cons.prems(2))
  have rest: "wp (for_each xs acc' body) Q u" if "I (don0 @ [x]) acc' u" for acc' u
  proof (rule Cons.IH [where ?don0.0 = "don0 @ [x]"])
    show "I (don0 @ [x]) acc' u" by (rule that)
    show "wp (body y a) (\<lambda>r u. case r of Inl e \<Rightarrow> Q (Inl e) u | Inr acc' \<Rightarrow> I (don @ [y]) acc' u) t"
      if "xs = y # rest \<or> (\<exists>pre. xs = pre @ y # rest)" and "I don a t" for y rest don a t
    proof (rule Cons.prems(1))
      from that(1) obtain pre where "xs = pre @ y # rest" by (metis append_Nil)
      then have "x # xs = (x # pre) @ y # rest" by simp
      then show "x # xs = y # rest \<or> (\<exists>pre. x # xs = pre @ y # rest)" by blast
    qed (rule that(2))
    show "Q (Inr a) t" if "I ((don0 @ [x]) @ xs) a t" for a t
      using that Cons.prems(3) by simp
  qed
  show ?case
    by (simp add: wp_simps) (rule wp_mono [OF body], auto simp: rest wp_simps split: sum.splits)
qed

text \<open>The rule used by the controllers: the invariant sees the elements already visited.\<close>

lemma wp_for_each:
  assumes "I [] acc s"
    and "\<And>x don acc t. x \<in> set xs \<Longrightarrow> I don acc t \<Longrightarrow>
      wp (body x acc) (\<lambda>r u. case r of Inl e \<Rightarrow> Q (Inl e) u | Inr acc' \<Rightarrow> I (don @ [x]) acc' u) t"
    and "\<And>acc t. I xs acc t \<Longrightarrow> Q (Inr acc) t"
  shows "wp (for_each xs acc body) Q s"
  by (rule wp_for_each_gen [where I = I and ?don0.0 = "[]"]) (use assms in auto)

text \<open>The common case of an invariant that does not mention the visited elements.\<close>

lemma wp_for_each_inv:
  assumes "I acc s"
    and "\<And>x acc t. x \<in> set xs \<Longrightarrow> I acc t \<Longrightarrow>
      wp (body x acc) (\<lambda>r u. case r of Inl e \<Rightarrow> Q (Inl e) u | Inr acc' \<Rightarrow> I acc' u) t"
    and "\<And>acc t. I acc t \<Longrightarrow> Q (Inr acc) t"
  shows "wp (for_each xs acc body) Q s"
  by (rule wp_for_each [where I = "\<lambda>_. I"]) (use assms in auto)

text \<open>The loop \<open>for _, g := range xs { if p(g) { found = &g } }\<close>: the last match.\<close>

definition find_last :: "('a \<Rightarrow> bool) \<Rightarrow> 'a list \<Rightarrow> 'a option" where
  "find_last p xs = fold (\<lambda>x found. if p x then Some x else found) xs None"

lemma find_last_Nil [simp]: "find_last p [] = None"
  by (simp add: find_last_def)

lemma find_last_snoc: "find_last p (xs @ [x]) = (if p x then Some x else find_last p xs)"
  by (simp add: find_last_def)

lemma find_last_None: "find_last p xs = None \<longleftrightarrow> (\<forall>x \<in> set xs. \<not> p x)"
  by (induction xs rule: rev_induct) (auto simp: find_last_snoc)

lemma find_last_Some: "find_last p xs = Some x \<Longrightarrow> x \<in> set xs \<and> p x"
  by (induction xs rule: rev_induct) (auto simp: find_last_snoc split: if_splits)

section \<open>Go maps from strings to strings\<close>

type_synonym gomap = "(string \<times> string) list option"

definition gm_entries :: "gomap \<Rightarrow> (string \<times> string) list" where
  "gm_entries m = (case m of None \<Rightarrow> [] | Some al \<Rightarrow> al)"

text \<open>\<open>v, ok := m[k]\<close>: reading a nil map finds nothing.\<close>

definition gm_get :: "gomap \<Rightarrow> string \<Rightarrow> string option" where
  "gm_get m k = map_of (gm_entries m) k"

text \<open>\<open>m[k]\<close> in value position: the zero value when the key is absent.\<close>

definition gm_val :: "gomap \<Rightarrow> string \<Rightarrow> string" where
  "gm_val m k = (case gm_get m k of None \<Rightarrow> '''' | Some v \<Rightarrow> v)"

text \<open>\<open>m[k] = v\<close>: panics (\<open>None\<close>) on a nil map.\<close>

definition gm_put :: "string \<Rightarrow> string \<Rightarrow> gomap \<Rightarrow> gomap option" where
  "gm_put k v m = (case m of None \<Rightarrow> None | Some al \<Rightarrow> Some (Some (AList.update k v al)))"

text \<open>\<open>delete(m, k)\<close>: a no-op on a nil map.\<close>

definition gm_delete :: "string \<Rightarrow> gomap \<Rightarrow> gomap" where
  "gm_delete k m = map_option (AList.delete k) m"

text \<open>\<open>if m == nil { m = make(map[string]string) }\<close> followed by \<open>m[k] = v\<close>.\<close>

definition gm_make_put :: "string \<Rightarrow> string \<Rightarrow> gomap \<Rightarrow> gomap" where
  "gm_make_put k v m = Some (AList.update k v (gm_entries m))"

text \<open>\<open>maps.Copy(dst, src)\<close>: a nil \<open>dst\<close> is written to, which panics (\<open>None\<close>), unless \<open>src\<close> is empty.\<close>

definition maps_copy :: "gomap \<Rightarrow> gomap \<Rightarrow> gomap option" where
  "maps_copy dst src = fold (\<lambda>(k, v) m. Option.bind m (gm_put k v)) (gm_entries src) (Some dst)"

text \<open>\<open>maps.Equal\<close>: same length and the same value at every key.\<close>

definition gm_equal :: "gomap \<Rightarrow> gomap \<Rightarrow> bool" where
  "gm_equal a b = (card (set (map fst (gm_entries a))) = card (set (map fst (gm_entries b))) \<and>
     (\<forall>k \<in> set (map fst (gm_entries a)). gm_get a k = gm_get b k))"

lemma gm_get_put: "gm_put k v m = Some m' \<Longrightarrow> gm_get m' k' = (if k' = k then Some v else gm_get m k')"
  by (auto simp: gm_put_def gm_get_def gm_entries_def update_conv' split: option.splits)

lemma gm_get_make_put [simp]: "gm_get (gm_make_put k v m) k' = (if k' = k then Some v else gm_get m k')"
  by (auto simp: gm_make_put_def gm_get_def gm_entries_def update_conv')

lemma gm_get_delete [simp]: "gm_get (gm_delete k m) k' = (if k' = k then None else gm_get m k')"
  by (cases m) (auto simp: gm_delete_def gm_get_def gm_entries_def delete_conv')

lemma gm_put_nil [simp]: "gm_put k v None = None"
  by (simp add: gm_put_def)

lemma gm_get_nil [simp]: "gm_get None k = None"
  by (simp add: gm_get_def gm_entries_def)

lemma gm_dom: "set (map fst (gm_entries m)) = dom (gm_get m)"
  by (simp add: dom_map_of_conv_image_fst gm_get_def [abs_def])

lemma gm_equal_iff: "gm_equal a b \<longleftrightarrow> gm_get a = gm_get b"
proof
  assume eq: "gm_equal a b"
  then have card: "card (dom (gm_get a)) = card (dom (gm_get b))"
    and agree: "\<forall>k \<in> dom (gm_get a). gm_get a k = gm_get b k"
    unfolding gm_equal_def gm_dom by simp_all
  have fin: "finite (dom (gm_get b))" unfolding gm_dom [symmetric] by simp
  from agree have "dom (gm_get a) \<subseteq> dom (gm_get b)" by (force simp: dom_def)
  then have "dom (gm_get a) = dom (gm_get b)" using card fin by (simp add: card_subset_eq)
  with agree show "gm_get a = gm_get b" by (metis domIff ext)
next
  assume "gm_get a = gm_get b"
  then show "gm_equal a b" unfolding gm_equal_def gm_dom by simp
qed

end
