(* ===== verification/Go_Strings.thy ===== *)
theory Go_Strings
  imports Prelude "HOL-Library.Sublist" "HOL-Library.Word"
begin

text \<open>
  The parts of Go's \<open>strings\<close>, \<open>strconv\<close> and \<open>slices\<close> packages that the operator uses, on
  byte strings (\<open>string\<close>). White space and letter case are those of ASCII. A Go \<open>int32\<close> is a
  32-bit word read through \<open>sint\<close>.
\<close>

section \<open>Substrings\<close>

text \<open>\<open>strings.Contains(s, sub)\<close>\<close>

fun str_contains :: "string \<Rightarrow> string \<Rightarrow> bool" where
  "str_contains [] sub = (sub = [])"
| "str_contains (c # cs) sub = (prefix sub (c # cs) \<or> str_contains cs sub)"

lemma str_contains_sublist: "str_contains s sub \<longleftrightarrow> sublist sub s"
  by (induction s) (auto simp: sublist_Cons_right)

lemma str_contains_length: "str_contains s sub \<Longrightarrow> length sub \<le> length s"
  by (simp add: str_contains_sublist sublist_length_le)

section \<open>Splitting and joining\<close>

text \<open>
  \<open>strings.Split(s, sep)\<close>: \<open>acc\<close> collects the current piece; an empty separator explodes the
  string into its characters.
\<close>

function split_at :: "string \<Rightarrow> string \<Rightarrow> string \<Rightarrow> string list" where
  "split_at sep acc s =
     (if sep = [] then map (\<lambda>c. [c]) (acc @ s)
      else if prefix sep s then acc # split_at sep [] (drop (length sep) s)
      else case s of [] \<Rightarrow> [acc] | c # cs \<Rightarrow> split_at sep (acc @ [c]) cs)"
  by pat_completeness auto
termination
proof (relation "measure (\<lambda>(sep, acc, s). length s)", goal_cases)
  case (2 sep acc s)
  then have "0 < length sep" and "length sep \<le> length s" by (auto dest: prefix_length_le)
  then have "length s - length sep < length s" by linarith
  then show ?case by simp
qed auto

declare split_at.simps [simp del]

definition str_split :: "string \<Rightarrow> string \<Rightarrow> string list" where
  "str_split s sep = split_at sep [] s"

text \<open>\<open>strings.Join(xs, sep)\<close>\<close>

fun str_join :: "string \<Rightarrow> string list \<Rightarrow> string" where
  "str_join sep [] = []"
| "str_join sep [x] = x"
| "str_join sep (x # y # ys) = x @ sep @ str_join sep (y # ys)"

text \<open>\<open>strings.ReplaceAll(s, old, new)\<close>\<close>

definition str_replace_all :: "string \<Rightarrow> string \<Rightarrow> string \<Rightarrow> string" where
  "str_replace_all s old new =
     (if old = [] then new @ concat (map (\<lambda>c. c # new) s) else str_join new (str_split s old))"

text \<open>\<open>before, after, found := strings.Cut(s, sep)\<close>\<close>

fun str_cut :: "string \<Rightarrow> string \<Rightarrow> string \<times> string \<times> bool" where
  "str_cut [] sep = (if sep = [] then ([], [], True) else ([], [], False))"
| "str_cut (c # cs) sep =
     (if prefix sep (c # cs) then ([], drop (length sep) (c # cs), True)
      else case str_cut cs sep of (b, a, ok) \<Rightarrow> (c # b, a, ok))"

text \<open>A one-character separator: the reference definition that proofs use.\<close>

fun split_on :: "char \<Rightarrow> string \<Rightarrow> string list" where
  "split_on d [] = [[]]"
| "split_on d (c # cs) =
     (if c = d then [] # split_on d cs
      else case split_on d cs of [] \<Rightarrow> [[c]] | y # ys \<Rightarrow> (c # y) # ys)"

lemma split_on_not_Nil [simp]: "split_on d s \<noteq> []"
  by (induction s) (auto split: list.splits)

lemma split_at_char:
  "split_at [d] acc s = (case split_on d s of [] \<Rightarrow> [acc] | y # ys \<Rightarrow> (acc @ y) # ys)"
proof (induction s arbitrary: acc)
  case Nil
  then show ?case by (subst split_at.simps) simp
next
  case (Cons c cs)
  show ?case
    by (cases "c = d"; subst split_at.simps; cases "split_on d cs") (simp_all add: Cons.IH)
qed

lemma str_split_char: "str_split s [d] = split_on d s"
  by (simp add: str_split_def split_at_char split: list.splits)

lemma str_join_split_on: "str_join [d] (split_on d s) = s"
proof (induction s)
  case (Cons c cs)
  obtain y ys where yys: "split_on d cs = y # ys" by (cases "split_on d cs") auto
  show ?case using Cons yys by (cases ys) auto
qed simp

lemma split_on_append:
  "d \<notin> set x \<Longrightarrow> split_on d (x @ d # s) = x # split_on d s"
  by (induction x) auto

lemma split_on_nosep: "d \<notin> set x \<Longrightarrow> split_on d x = [x]"
  by (induction x) auto

lemma split_on_pieces: "y \<in> set (split_on d s) \<Longrightarrow> d \<notin> set y"
  by (induction s arbitrary: y) (auto split: list.splits if_splits)

text \<open>Splitting undoes joining when no piece contains the separator.\<close>

lemma split_on_join:
  "xs \<noteq> [] \<Longrightarrow> \<forall>x \<in> set xs. d \<notin> set x \<Longrightarrow> split_on d (str_join [d] xs) = xs"
  by (induction "[d]" xs rule: str_join.induct) (auto simp: split_on_append split_on_nosep)

section \<open>Case and white space\<close>

definition lower_char :: "char \<Rightarrow> char" where
  "lower_char c = (let n = of_char c :: nat in if 65 \<le> n \<and> n \<le> 90 then char_of (n + 32) else c)"

definition upper_char :: "char \<Rightarrow> char" where
  "upper_char c = (let n = of_char c :: nat in if 97 \<le> n \<and> n \<le> 122 then char_of (n - 32) else c)"

definition str_to_lower :: "string \<Rightarrow> string" where
  "str_to_lower s = map lower_char s"

definition str_to_upper :: "string \<Rightarrow> string" where
  "str_to_upper s = map upper_char s"

definition is_space :: "char \<Rightarrow> bool" where
  "is_space c = (let n = of_char c :: nat in n = 32 \<or> (9 \<le> n \<and> n \<le> 13))"

text \<open>\<open>strings.TrimSpace\<close>\<close>

definition str_trim :: "string \<Rightarrow> string" where
  "str_trim s = rev (dropWhile is_space (rev (dropWhile is_space s)))"

lemma str_trim_id: "s = [] \<or> (\<not> is_space (hd s) \<and> \<not> is_space (last s)) \<Longrightarrow> str_trim s = s"
  by (cases s) (auto simp: str_trim_def hd_rev [symmetric] dropWhile_eq_self_iff)

lemma str_trim_set: "set (str_trim s) \<subseteq> set s"
  by (auto simp: str_trim_def dest!: set_dropWhileD)

lemma str_trim_ends: "str_trim s \<noteq> [] \<Longrightarrow> \<not> is_space (hd (str_trim s)) \<and> \<not> is_space (last (str_trim s))"
proof -
  assume ne: "str_trim s \<noteq> []"
  define t where "t = dropWhile is_space s"
  have tr: "str_trim s = rev (dropWhile is_space (rev t))" by (simp add: str_trim_def t_def)
  from ne tr have dne: "dropWhile is_space (rev t) \<noteq> []" by simp
  have "\<not> is_space (hd (dropWhile is_space (rev t)))" by (rule hd_dropWhile [OF dne])
  then have lst: "\<not> is_space (last (str_trim s))" using tr dne by (simp add: last_rev)
  have app: "rev t = takeWhile is_space (rev t) @ dropWhile is_space (rev t)" by simp
  then have "t = str_trim s @ rev (takeWhile is_space (rev t))" using tr by (metis rev_append rev_rev_ident)
  then have "hd t = hd (str_trim s)" using ne by (metis hd_append2)
  moreover have "t \<noteq> []" using dne by auto
  then have "\<not> is_space (hd t)" unfolding t_def by (rule hd_dropWhile)
  ultimately show ?thesis using lst by simp
qed

lemma str_trim_idem [simp]: "str_trim (str_trim s) = str_trim s"
  by (rule str_trim_id) (use str_trim_ends in blast)

section \<open>Decimal numbers\<close>

definition digit_char :: "nat \<Rightarrow> char" where
  "digit_char n = char_of (48 + n)"

definition char_digit :: "char \<Rightarrow> nat option" where
  "char_digit c = (let n = of_char c :: nat in if 48 \<le> n \<and> n \<le> 57 then Some (n - 48) else None)"

fun show_nat :: "nat \<Rightarrow> string" where
  "show_nat n = (if n < 10 then [digit_char n] else show_nat (n div 10) @ [digit_char (n mod 10)])"

declare show_nat.simps [simp del]

text \<open>\<open>strconv.FormatInt(n, 10)\<close>\<close>

definition format_int :: "int \<Rightarrow> string" where
  "format_int n = (if n < 0 then CHR ''-'' # show_nat (nat (- n)) else show_nat (nat n))"

fun parse_digits :: "nat \<Rightarrow> string \<Rightarrow> nat option" where
  "parse_digits acc [] = Some acc"
| "parse_digits acc (c # cs) =
     (case char_digit c of None \<Rightarrow> None | Some d \<Rightarrow> parse_digits (10 * acc + d) cs)"

text \<open>
  \<open>strconv.ParseInt(s, 10, 64)\<close>: an optional sign, at least one digit, and a value that fits in
  64 bits; \<open>None\<close> stands for the syntax and the range error.
\<close>

definition parse_int64 :: "string \<Rightarrow> int option" where
  "parse_int64 s =
     (let neg = (s \<noteq> [] \<and> hd s = CHR ''-'');
          ds = (if s \<noteq> [] \<and> (hd s = CHR ''-'' \<or> hd s = CHR ''+'') then tl s else s)
      in if ds = [] then None
         else case parse_digits 0 ds of
                None \<Rightarrow> None
              | Some n \<Rightarrow> (let v = (if neg then - int n else int n)
                          in if - (2 ^ 63) \<le> v \<and> v < 2 ^ 63 then Some v else None))"

lemma char_digit_digit_char [simp]: "d < 10 \<Longrightarrow> char_digit (digit_char d) = Some d"
  by (simp add: char_digit_def digit_char_def Let_def take_bit_eq_mod)

lemma parse_digits_append:
  "parse_digits acc (xs @ ys) = (case parse_digits acc xs of None \<Rightarrow> None | Some a \<Rightarrow> parse_digits a ys)"
  by (induction xs arbitrary: acc) (auto split: option.splits)

lemma parse_digits_show_nat: "parse_digits 0 (show_nat n) = Some n"
proof (induction n rule: show_nat.induct)
  case (1 n)
  show ?case
    by (cases "n < 10") (auto simp: show_nat.simps [of n] parse_digits_append 1)
qed

lemma show_nat_not_Nil [simp]: "show_nat n \<noteq> []"
  by (subst show_nat.simps) simp

lemma show_nat_digits: "c \<in> set (show_nat n) \<Longrightarrow> \<exists>d < 10. c = digit_char d"
proof (induction n rule: show_nat.induct)
  case (1 n)
  show ?case
  proof (cases "n < 10")
    case True
    with 1(2) show ?thesis by (auto simp: show_nat.simps [of n])
  next
    case False
    with 1(2) consider "c \<in> set (show_nat (n div 10))" | "c = digit_char (n mod 10)"
      by (auto simp: show_nat.simps [of n])
    then show ?thesis
    proof cases
      case 1
      then show ?thesis using False "1.IH" by simp
    next
      case 2
      then show ?thesis by (intro exI [of _ "n mod 10"]) simp
    qed
  qed
qed

lemma digit_char_no_sign: "d < 10 \<Longrightarrow> digit_char d \<noteq> CHR ''-'' \<and> digit_char d \<noteq> CHR ''+''"
proof -
  assume "d < 10"
  then have "char_digit (digit_char d) \<noteq> None" by simp
  moreover have "char_digit (CHR ''-'') = None" "char_digit (CHR ''+'') = None"
    by (simp_all add: char_digit_def)
  ultimately show ?thesis by metis
qed

lemma show_nat_hd_no_sign: "hd (show_nat n) \<noteq> CHR ''-'' \<and> hd (show_nat n) \<noteq> CHR ''+''"
  using show_nat_digits [of "hd (show_nat n)" n] digit_char_no_sign by (metis hd_in_set show_nat_not_Nil)

lemma parse_format_int:
  assumes "- (2 ^ 63) \<le> v" "v < 2 ^ 63"
  shows "parse_int64 (format_int v) = Some v"
proof (cases "v < 0")
  case True
  with assms show ?thesis
    by (simp add: parse_int64_def format_int_def parse_digits_show_nat)
next
  case False
  with assms show_nat_hd_no_sign [of "nat v"] show ?thesis
    by (simp add: parse_int64_def format_int_def parse_digits_show_nat)
qed

section \<open>32-bit integers\<close>

type_synonym int32 = "32 word"

text \<open>The conversion \<open>int32(v)\<close> of a wider integer keeps the low 32 bits.\<close>

definition to_int32 :: "int \<Rightarrow> int32" where
  "to_int32 v = word_of_int v"

lemma sint_to_int32: "- (2 ^ 31) \<le> v \<Longrightarrow> v < 2 ^ 31 \<Longrightarrow> sint (to_int32 v) = v"
  by (simp add: to_int32_def sint_sbintrunc' signed_take_bit_int_eq_self)

lemma to_int32_wraps: "to_int32 (v + 2 ^ 32) = to_int32 v"
  by (simp add: to_int32_def word_of_int_eq_iff)

text \<open>\<open>slices.Sort\<close> on \<open>[]int32\<close>\<close>

definition sort_int32 :: "int32 list \<Rightarrow> int32 list" where
  "sort_int32 xs = sort_key sint xs"

end
