(* ===== verification/Util.thy ===== *)
theory Util
  imports Go_Strings "HOL-Library.Multiset"
begin

text \<open>
  The operator's own helpers: \<open>internal/util/slices.go\<close> and \<open>internal/k8sutil/finalizer.go\<close>,
  with the facts about them that the controllers use.
\<close>

section \<open>Slices\<close>

text \<open>\<open>util.Without\<close>: the elements of \<open>x\<close> in order, except \<open>y\<close>.\<close>

fun Without :: "'a list \<Rightarrow> 'a \<Rightarrow> 'a list" where
  "Without [] y = []"
| "Without (v # x) y = (if v \<noteq> y then v # Without x y else Without x y)"

text \<open>\<open>util.Equivalent\<close>: equal lengths, and every element of \<open>y\<close> is a key of the map built from \<open>x\<close>.\<close>

definition Equivalent :: "'a list \<Rightarrow> 'a list \<Rightarrow> bool" where
  "Equivalent x y =
     (if length x \<noteq> length y then False
      else list_all (\<lambda>v. List.member x v) y)"

text \<open>\<open>util.SplitTrim\<close>\<close>

definition SplitTrim :: "string \<Rightarrow> string \<Rightarrow> string list" where
  "SplitTrim str sep =
     (if length str = 0 then [] else map str_trim (str_split str sep))"

section \<open>Finalizer names\<close>

definition openZroFinalizer :: string where
  "openZroFinalizer = ''finalizers.openzro.io''"

text \<open>\<open>k8sutil.Finalizer\<close>\<close>

definition Finalizer :: "string \<Rightarrow> string" where
  "Finalizer kind = openZroFinalizer @ ''/'' @ kind"

section \<open>Facts\<close>

lemma Without_filter: "Without x y = filter (\<lambda>v. v \<noteq> y) x"
  by (induction x) auto

lemma set_Without [simp]: "set (Without x y) = set x - {y}"
  by (auto simp: Without_filter)

lemma Without_absent: "y \<notin> set x \<Longrightarrow> Without x y = x"
  by (auto simp: Without_filter filter_id_conv)

lemma Equivalent_iff: "Equivalent x y \<longleftrightarrow> length x = length y \<and> set y \<subseteq> set x"
  by (auto simp: Equivalent_def list_all_iff)

lemma Equivalent_refl [simp]: "Equivalent x x"
  by (simp add: Equivalent_iff)

lemma Equivalent_Nil [simp]: "Equivalent [] y \<longleftrightarrow> y = []" "Equivalent x [] \<longleftrightarrow> x = []"
  by (auto simp: Equivalent_iff)

lemma Equivalent_mset: "mset x = mset y \<Longrightarrow> Equivalent x y"
  by (auto simp: Equivalent_iff dest: mset_eq_length mset_eq_setD)

lemma Equivalent_distinct:
  assumes "distinct y"
  shows "Equivalent x y \<longleftrightarrow> mset x = mset y"
proof
  assume "Equivalent x y"
  then have len: "length x = length y" and sub: "set y \<subseteq> set x" by (auto simp: Equivalent_iff)
  have "card (set x) \<le> length x" by (rule card_length)
  also have "length x = card (set y)" using assms len by (simp add: distinct_card)
  finally have eq: "set y = set x" using sub by (simp add: card_seteq)
  then have "distinct x" using len assms by (metis card_distinct distinct_card)
  with assms eq show "mset x = mset y" by (simp add: set_eq_iff_mset_eq_distinct)
qed (rule Equivalent_mset)

lemma Finalizer_inj: "Finalizer k = Finalizer k' \<longleftrightarrow> k = k'"
  by (simp add: Finalizer_def)

lemma SplitTrim_pieces: "p \<in> set (SplitTrim s [d]) \<Longrightarrow> d \<notin> set p"
  by (auto simp: SplitTrim_def str_split_char dest: split_on_pieces str_trim_set [THEN subsetD] split: if_splits)

lemma SplitTrim_join:
  assumes "xs \<noteq> []" "str_join [d] xs \<noteq> []" "\<forall>x \<in> set xs. d \<notin> set x \<and> str_trim x = x"
  shows "SplitTrim (str_join [d] xs) [d] = xs"
proof -
  have "map str_trim xs = xs" using assms(3) by (induction xs) auto
  with assms show ?thesis by (simp add: SplitTrim_def str_split_char split_on_join)
qed

end
