(* ===== verification/Api_Types.thy ===== *)
theory Api_Types
  imports Util
begin

text \<open>
  The data of the operator: Kubernetes object metadata and the core objects as far as the sources
  read or write them, the custom resources of \<open>api/v1\<close> and \<open>api/v1alpha1\<close> with their \<open>Equal\<close>
  methods and helpers, the Gateway API objects, and the values exchanged with the openZro
  management API. Parts of core objects that the operator only copies (tolerations, volumes,
  resource requirements) are opaque strings. A Go pointer is an \<open>option\<close>, a slice is a list, a
  \<open>map[string]string\<close> is a \<open>gomap\<close>. A \<open>time\<close> stands for a whole \<open>metav1.Time\<close> value.
\<close>

section \<open>Kubernetes metadata and core objects\<close>

type_synonym time = int

text \<open>\<open>types.NamespacedName\<close>: namespace and name.\<close>

type_synonym nn = "string \<times> string"

definition nn_String :: "nn \<Rightarrow> string" where
  "nn_String k = fst k @ ''/'' @ snd k"

record TypeMeta =
  tm_Kind :: string
  tm_Group :: string

record OwnerReference =
  or_APIVersion :: string
  or_Kind :: string
  or_Name :: string
  or_UID :: string
  or_Controller :: "bool option"
  or_BlockOwnerDeletion :: "bool option"

record ObjectMeta =
  om_Name :: string
  om_Namespace :: string
  om_UID :: string
  om_Finalizers :: "string list"
  om_OwnerReferences :: "OwnerReference list"
  om_Labels :: gomap
  om_Annotations :: gomap
  om_DeletionTimestamp :: "time option"

definition zero_ObjectMeta :: ObjectMeta where
  "zero_ObjectMeta = \<lparr>om_Name = '''', om_Namespace = '''', om_UID = '''', om_Finalizers = [],
     om_OwnerReferences = [], om_Labels = None, om_Annotations = None, om_DeletionTimestamp = None\<rparr>"

definition zero_TypeMeta :: TypeMeta where
  "zero_TypeMeta = \<lparr>tm_Kind = '''', tm_Group = ''''\<rparr>"

record SecretKeySelector =
  sks_Name :: string
  sks_Key :: string

record Secret =
  sec_Meta :: ObjectMeta
  sec_Data :: gomap
  sec_StringData :: gomap

record ServicePort =
  svp_Protocol :: string
  svp_Port :: int32

record Service =
  svc_Meta :: ObjectMeta
  svc_Type :: string
  svc_ClusterIP :: string
  svc_Ports :: "ServicePort list"

record EnvVar =
  env_Name :: string
  env_Value :: string
  env_SecretKeyRef :: "SecretKeySelector option"

record SecurityContext =
  sc_CapabilitiesAdd :: "string list"
  sc_Privileged :: "bool option"

record Container =
  ct_Name :: string
  ct_Image :: string
  ct_Env :: "EnvVar list"
  ct_SecurityContext :: "SecurityContext option"
  ct_Resources :: string
  ct_VolumeMounts :: "string list"
  ct_RestartPolicy :: "string option"
  ct_StartupProbe :: "string list option"
  ct_ReadinessProbe :: "string list option"

definition zero_Container :: Container where
  "zero_Container = \<lparr>ct_Name = '''', ct_Image = '''', ct_Env = [], ct_SecurityContext = None,
     ct_Resources = '''', ct_VolumeMounts = [], ct_RestartPolicy = None,
     ct_StartupProbe = None, ct_ReadinessProbe = None\<rparr>"

record PodTemplateSpec =
  pts_Labels :: gomap
  pts_NodeSelector :: gomap
  pts_Tolerations :: "string list"
  pts_Containers :: "Container list"
  pts_Volumes :: "string list"

record Deployment =
  dep_Meta :: ObjectMeta
  dep_Replicas :: "int32 option"
  dep_MatchLabels :: gomap
  dep_Template :: PodTemplateSpec
  dep_StatusReplicas :: int32
  dep_ReadyReplicas :: int32

record Pod =
  pod_Meta :: ObjectMeta
  pod_InitContainers :: "Container list"
  pod_Containers :: "Container list"
  pod_Volumes :: "string list"

section \<open>Conditions of the v1 resources\<close>

record OZCondition =
  ozc_Type :: string
  ozc_Status :: string
  ozc_LastProbeTime :: time
  ozc_LastTransitionTime :: time
  ozc_Reason :: string
  ozc_Message :: string

definition OZSetupKeyReady :: string where
  "OZSetupKeyReady = ''Ready''"

text \<open>\<open>OZConditionTrue\<close> and \<open>OZConditionFalse\<close>; the two readings of the clock are arguments.\<close>

definition OZConditionTrue :: "time \<Rightarrow> time \<Rightarrow> OZCondition list" where
  "OZConditionTrue t1 t2 =
     [\<lparr>ozc_Type = OZSetupKeyReady, ozc_Status = ''True'', ozc_LastProbeTime = t1,
       ozc_LastTransitionTime = t2, ozc_Reason = '''', ozc_Message = ''''\<rparr>]"

definition OZConditionFalse :: "time \<Rightarrow> time \<Rightarrow> string \<Rightarrow> string \<Rightarrow> OZCondition list" where
  "OZConditionFalse t1 t2 reason msg =
     [\<lparr>ozc_Type = OZSetupKeyReady, ozc_Status = ''False'', ozc_LastProbeTime = t1,
       ozc_LastTransitionTime = t2, ozc_Reason = reason, ozc_Message = msg\<rparr>]"

section \<open>Custom resources of \<open>api/v1\<close>\<close>

text \<open>
  \<open>==\<close> on two pointers taken from an object and from its \<open>DeepCopy\<close>: the copy's pointers are
  fresh, so they are equal only when both are nil. Every call of an \<open>Equal\<close> method on a status
  compares an object with a deep copy of it.
\<close>

definition ptr_eq_copy :: "'a option \<Rightarrow> 'a option \<Rightarrow> bool" where
  "ptr_eq_copy a b = (a = None \<and> b = None)"

record OZGroupSpec =
  ozg_Name :: string

record OZGroupStatus =
  ozg_GroupID :: "string option"
  ozg_Conditions :: "OZCondition list"

record OZGroup =
  ozg_Meta :: ObjectMeta
  ozg_Spec :: OZGroupSpec
  ozg_Status :: OZGroupStatus

definition OZGroupStatus_Equal :: "OZGroupStatus \<Rightarrow> OZGroupStatus \<Rightarrow> bool" where
  "OZGroupStatus_Equal a b =
     ((ptr_eq_copy (ozg_GroupID a) (ozg_GroupID b) \<or>
       (ozg_GroupID a \<noteq> None \<and> ozg_GroupID b \<noteq> None \<and> the (ozg_GroupID a) = the (ozg_GroupID b))) \<and>
      Equivalent (ozg_Conditions a) (ozg_Conditions b))"

record OZPolicySpec =
  ozp_Name :: string
  ozp_Description :: string
  ozp_SourceGroups :: "string list"
  ozp_DestinationGroups :: "string list"
  ozp_Protocols :: "string list"
  ozp_Ports :: "int32 list"
  ozp_Bidirectional :: bool

record OZPolicyStatus =
  ozp_TCPPolicyID :: "string option"
  ozp_UDPPolicyID :: "string option"
  ozp_LastUpdatedAt :: "time option"
  ozp_ManagedServiceList :: "string list"
  ozp_Conditions :: "OZCondition list"

record OZPolicy =
  ozp_Meta :: ObjectMeta
  ozp_Spec :: OZPolicySpec
  ozp_Status :: OZPolicyStatus

definition OZPolicyStatus_Equal :: "OZPolicyStatus \<Rightarrow> OZPolicyStatus \<Rightarrow> bool" where
  "OZPolicyStatus_Equal a b =
     (ptr_eq_copy (ozp_TCPPolicyID a) (ozp_TCPPolicyID b) \<and>
      ptr_eq_copy (ozp_UDPPolicyID a) (ozp_UDPPolicyID b) \<and>
      ptr_eq_copy (ozp_LastUpdatedAt a) (ozp_LastUpdatedAt b) \<and>
      Equivalent (ozp_ManagedServiceList a) (ozp_ManagedServiceList b) \<and>
      Equivalent (ozp_Conditions a) (ozp_Conditions b))"

definition zero_OZPolicyStatus :: OZPolicyStatus where
  "zero_OZPolicyStatus = \<lparr>ozp_TCPPolicyID = None, ozp_UDPPolicyID = None, ozp_LastUpdatedAt = None,
     ozp_ManagedServiceList = [], ozp_Conditions = []\<rparr>"

record OZResourceSpec =
  ozr_Name :: string
  ozr_NetworkID :: string
  ozr_Address :: string
  ozr_Groups :: "string list"
  ozr_PolicyName :: string
  ozr_PolicySourceGroups :: "string list"
  ozr_PolicyFriendlyName :: gomap
  ozr_TCPPorts :: "int32 list"
  ozr_UDPPorts :: "int32 list"

definition OZResourceSpec_Equal :: "OZResourceSpec \<Rightarrow> OZResourceSpec \<Rightarrow> bool" where
  "OZResourceSpec_Equal a b =
     (ozr_Name a = ozr_Name b \<and>
      ozr_NetworkID a = ozr_NetworkID b \<and>
      ozr_Address a = ozr_Address b \<and>
      Equivalent (ozr_Groups a) (ozr_Groups b) \<and>
      ozr_PolicyName a = ozr_PolicyName b \<and>
      Equivalent (ozr_TCPPorts a) (ozr_TCPPorts b) \<and>
      Equivalent (ozr_UDPPorts a) (ozr_UDPPorts b) \<and>
      Equivalent (ozr_PolicySourceGroups a) (ozr_PolicySourceGroups b))"

record OZResourceStatus =
  ors_NetworkResourceID :: "string option"
  ors_PolicyName :: "string option"
  ors_TCPPorts :: "int32 list"
  ors_UDPPorts :: "int32 list"
  ors_Groups :: "string list"
  ors_PolicySourceGroups :: "string list"
  ors_PolicyFriendlyName :: gomap
  ors_Conditions :: "OZCondition list"
  ors_PolicyNameMapping :: gomap

definition OZResourceStatus_Equal :: "OZResourceStatus \<Rightarrow> OZResourceStatus \<Rightarrow> bool" where
  "OZResourceStatus_Equal a b =
     (ptr_eq_copy (ors_NetworkResourceID a) (ors_NetworkResourceID b) \<and>
      ptr_eq_copy (ors_PolicyName a) (ors_PolicyName b) \<and>
      Equivalent (ors_TCPPorts a) (ors_TCPPorts b) \<and>
      Equivalent (ors_UDPPorts a) (ors_UDPPorts b) \<and>
      Equivalent (ors_Groups a) (ors_Groups b) \<and>
      Equivalent (ors_Conditions a) (ors_Conditions b) \<and>
      Equivalent (ors_PolicySourceGroups a) (ors_PolicySourceGroups b) \<and>
      gm_equal (ors_PolicyFriendlyName a) (ors_PolicyFriendlyName b) \<and>
      gm_equal (ors_PolicyNameMapping a) (ors_PolicyNameMapping b))"

record OZResource =
  ozr_Type :: TypeMeta
  ozr_Meta :: ObjectMeta
  ozr_Spec :: OZResourceSpec
  ozr_Status :: OZResourceStatus

definition zero_OZResource :: OZResource where
  "zero_OZResource = \<lparr>ozr_Type = zero_TypeMeta, ozr_Meta = zero_ObjectMeta,
     ozr_Spec = \<lparr>ozr_Name = '''', ozr_NetworkID = '''', ozr_Address = '''', ozr_Groups = [],
       ozr_PolicyName = '''', ozr_PolicySourceGroups = [], ozr_PolicyFriendlyName = None,
       ozr_TCPPorts = [], ozr_UDPPorts = []\<rparr>,
     ozr_Status = \<lparr>ors_NetworkResourceID = None, ors_PolicyName = None, ors_TCPPorts = [],
       ors_UDPPorts = [], ors_Groups = [], ors_PolicySourceGroups = [],
       ors_PolicyFriendlyName = None, ors_Conditions = [], ors_PolicyNameMapping = None\<rparr>\<rparr>"

record OZRoutingPeerSpec =
  orp_Replicas :: "int32 option"
  orp_Resources :: string
  orp_Labels :: gomap
  orp_Annotations :: gomap
  orp_NodeSelector :: gomap
  orp_Tolerations :: "string list"
  orp_Volumes :: "string list"
  orp_VolumeMounts :: "string list"
  orp_Privileged :: "bool option"
  orp_Ephemeral :: "bool option"
  orp_ExemptFromAdmission :: "bool option"

definition zero_OZRoutingPeerSpec :: OZRoutingPeerSpec where
  "zero_OZRoutingPeerSpec = \<lparr>orp_Replicas = None, orp_Resources = '''', orp_Labels = None,
     orp_Annotations = None, orp_NodeSelector = None, orp_Tolerations = [], orp_Volumes = [],
     orp_VolumeMounts = [], orp_Privileged = None, orp_Ephemeral = None,
     orp_ExemptFromAdmission = None\<rparr>"

record OZRoutingPeerStatus =
  orp_NetworkID :: "string option"
  orp_SetupKeyID :: "string option"
  orp_RouterID :: "string option"
  orp_Conditions :: "OZCondition list"

definition zero_OZRoutingPeerStatus :: OZRoutingPeerStatus where
  "zero_OZRoutingPeerStatus = \<lparr>orp_NetworkID = None, orp_SetupKeyID = None, orp_RouterID = None,
     orp_Conditions = []\<rparr>"

definition OZRoutingPeerStatus_Equal :: "OZRoutingPeerStatus \<Rightarrow> OZRoutingPeerStatus \<Rightarrow> bool" where
  "OZRoutingPeerStatus_Equal a b =
     (ptr_eq_copy (orp_NetworkID a) (orp_NetworkID b) \<and>
      ptr_eq_copy (orp_SetupKeyID a) (orp_SetupKeyID b) \<and>
      ptr_eq_copy (orp_RouterID a) (orp_RouterID b) \<and>
      Equivalent (orp_Conditions a) (orp_Conditions b))"

record OZRoutingPeer =
  orp_Type :: TypeMeta
  orp_Meta :: ObjectMeta
  orp_Spec :: OZRoutingPeerSpec
  orp_Status :: OZRoutingPeerStatus

record OZSetupKeySpec =
  osk_SecretKeyRef :: SecretKeySelector
  osk_ManagementURL :: string
  osk_Volumes :: "string list"
  osk_VolumeMounts :: "string list"

record OZSetupKeyStatus =
  osk_Conditions :: "OZCondition list"

record OZSetupKey =
  osk_Meta :: ObjectMeta
  osk_Spec :: OZSetupKeySpec
  osk_Status :: OZSetupKeyStatus

section \<open>Custom resources of \<open>api/v1alpha1\<close>\<close>

record Condition =
  cond_Type :: string
  cond_Status :: string
  cond_Reason :: string
  cond_Message :: string

definition ReadyCondition :: string where "ReadyCondition = ''Ready''"
definition ReconciledReason :: string where "ReconciledReason = ''Reconciled''"
definition DependencyReason :: string where "DependencyReason = ''Dependency''"

record GroupReference =
  gref_Name :: "string option"
  gref_ID :: "string option"
  gref_LocalRef :: "string option"

record Group =
  grp_Meta :: ObjectMeta
  grp_SpecName :: string
  grp_Conditions :: "Condition list"
  grp_GroupID :: string

record SetupKeySpec =
  sk_Name :: string
  sk_Ephemeral :: bool
  sk_Duration :: "int option"
  sk_AutoGroups :: "GroupReference list"

record SetupKey =
  sk_Meta :: ObjectMeta
  sk_Spec :: SetupKeySpec
  sk_Conditions :: "Condition list"
  sk_SetupKeyID :: string

definition SetupKey_SecretName :: "SetupKey \<Rightarrow> string" where
  "SetupKey_SecretName sk = ''setup-key-'' @ om_Name (sk_Meta sk)"

record WorkloadOverride =
  wo_Labels :: gomap
  wo_Annotations :: gomap
  wo_Replicas :: "int32 option"
  wo_PodTemplate :: "string option"

record NetworkRouterSpec =
  nro_DNSZoneRef :: string
  nro_WorkloadOverride :: "WorkloadOverride option"

record NetworkRouter =
  nro_Meta :: ObjectMeta
  nro_Spec :: NetworkRouterSpec
  nro_Conditions :: "Condition list"
  nro_RoutingPeerID :: string
  nro_NetworkID :: string

record CrossNamespaceReference =
  xref_Name :: string
  xref_Namespace :: string

record NetworkResourceSpec =
  nrs_NetworkRouterRef :: CrossNamespaceReference
  nrs_ServiceRef :: string
  nrs_Groups :: "GroupReference list"

record NetworkResource =
  nrs_Meta :: ObjectMeta
  nrs_Spec :: NetworkResourceSpec
  nrs_Conditions :: "Condition list"
  nrs_NetworkID :: string
  nrs_ResourceID :: string
  nrs_DNSZoneID :: string
  nrs_DNSRecordID :: string

record ContainerOverride =
  co_Image :: string
  co_Env :: "EnvVar list"
  co_SecurityContext :: "SecurityContext option"

text \<open>A label selector is opaque: \<open>lsel_Size\<close> is the serialised size the webhook tests against 0.\<close>

record LabelSelector =
  lsel_Size :: nat
  lsel_Terms :: string

record SidecarProfileSpec =
  sp_SetupKeyRef :: string
  sp_PodSelector :: "LabelSelector option"
  sp_InjectionMode :: string
  sp_ExtraDNSLabels :: "string list"
  sp_ContainerOverride :: "ContainerOverride option"

record SidecarProfile =
  sp_Meta :: ObjectMeta
  sp_Spec :: SidecarProfileSpec

section \<open>Gateway API objects\<close>

record GatewayClass =
  gwc_Meta :: ObjectMeta
  gwc_ControllerName :: string
  gwc_ParametersRef :: "string option"
  gwc_Conditions :: "Condition list"

record Listener =
  lst_Name :: string
  lst_Protocol :: string

record Gateway =
  gw_Type :: TypeMeta
  gw_Meta :: ObjectMeta
  gw_GatewayClassName :: string
  gw_Listeners :: "Listener list"
  gw_Conditions :: "Condition list"

record ParentReference =
  pref_Group :: "string option"
  pref_Kind :: "string option"
  pref_Namespace :: "string option"
  pref_Name :: string

record HTTPRoute =
  hr_Meta :: ObjectMeta
  hr_ParentRefs :: "ParentReference list"
  hr_Hostnames :: "string list"
  hr_Rules :: "string list list"

record TCPRoute =
  tr_Meta :: ObjectMeta
  tr_ParentRefs :: "ParentReference list"
  tr_Rules :: "string list list"

section \<open>Values of the openZro management API\<close>

record ApiGroup =
  ag_Id :: string
  ag_Name :: string

record ApiSetupKey =
  ask_Id :: string
  ask_AutoGroups :: "string list"
  ask_Key :: string
  ask_Revoked :: bool
  ask_State :: string

record SetupKeyRequest =
  skr_AllowExtraDnsLabels :: "bool option"
  skr_AutoGroups :: "string list"
  skr_Ephemeral :: "bool option"
  skr_ExpiresIn :: int
  skr_Name :: string
  skr_Type :: string
  skr_UsageLimit :: int

record ApiNetwork =
  an_Id :: string
  an_Name :: string
  an_Description :: "string option"

record NetworkRequest =
  nwr_Name :: string
  nwr_Description :: "string option"

record ApiRouter =
  ar_Id :: string
  ar_Enabled :: bool
  ar_Masquerade :: bool
  ar_Metric :: int
  ar_PeerGroups :: "string list option"

record RouterRequest =
  rr_Enabled :: bool
  rr_Masquerade :: bool
  rr_Metric :: int
  rr_PeerGroups :: "string list option"

record ApiResource =
  ares_Id :: string
  ares_Address :: string
  ares_Enabled :: bool
  ares_Groups :: "string list"
  ares_Description :: "string option"
  ares_Name :: string

record ResourceRequest =
  resr_Address :: string
  resr_Enabled :: bool
  resr_Groups :: "string list"
  resr_Description :: "string option"
  resr_Name :: string

text \<open>A policy request with its single rule.\<close>

record PolicyRule =
  pru_Enabled :: bool
  pru_Name :: string
  pru_Description :: "string option"
  pru_Action :: string
  pru_Protocol :: string
  pru_Bidirectional :: bool
  pru_Sources :: "string list option"
  pru_Destinations :: "string list option"
  pru_Ports :: "string list option"

record PolicyRequest =
  polr_Enabled :: bool
  polr_Name :: string
  polr_Description :: "string option"
  polr_Rules :: "PolicyRule list"

record AccountSettings =
  as_AdmissionExemptGroups :: "string list option"
  as_Other :: string

record Account =
  ac_Id :: string
  ac_Settings :: AccountSettings

record DNSZoneRequest =
  zr_Name :: string
  zr_Domain :: string
  zr_DistributionGroups :: "string list"
  zr_EnableSearchDomain :: bool
  zr_Enabled :: "bool option"

record DNSZone =
  dz_Id :: string
  dz_Name :: string
  dz_Domain :: string
  dz_DistributionGroups :: "string list"
  dz_EnableSearchDomain :: bool
  dz_Enabled :: "bool option"

record DNSRecordRequest =
  drr_Content :: string
  drr_Name :: string
  drr_Ttl :: "int option"
  drr_Type :: string

record DNSRecord =
  dr_Id :: string
  dr_Content :: string
  dr_Name :: string
  dr_Ttl :: "int option"
  dr_Type :: string

record ServiceTarget =
  tgt_Enabled :: bool
  tgt_TargetId :: string
  tgt_Protocol :: string
  tgt_TargetType :: string

record ProxyRequest =
  pxr_Domain :: string
  pxr_Enabled :: bool
  pxr_Name :: string
  pxr_Mode :: "string option"
  pxr_PassHostHeader :: "bool option"
  pxr_RewriteRedirects :: "bool option"
  pxr_Targets :: "ServiceTarget list option"

record ProxyService =
  px_Id :: string
  px_Domain :: string

section \<open>Facts about the Equal methods\<close>

lemma ptr_eq_copy_simps [simp]:
  "ptr_eq_copy None None" "\<not> ptr_eq_copy (Some x) b" "\<not> ptr_eq_copy a (Some y)"
  by (simp_all add: ptr_eq_copy_def)

lemma OZGroupStatus_Equal_iff:
  "OZGroupStatus_Equal a b \<longleftrightarrow>
     ozg_GroupID a = ozg_GroupID b \<and> Equivalent (ozg_Conditions a) (ozg_Conditions b)"
  by (cases "ozg_GroupID a"; cases "ozg_GroupID b") (auto simp: OZGroupStatus_Equal_def)

lemma OZGroupStatus_Equal_refl [simp]: "OZGroupStatus_Equal a a"
  by (simp add: OZGroupStatus_Equal_iff)

lemma nn_String_Pair [simp]: "nn_String (ns, n) = ns @ ''/'' @ n"
  by (simp add: nn_String_def)

end
