(* ===== verification/Deep_Copy.thy ===== *)
theory Deep_Copy
  imports Api_Types
begin

text \<open>
  The deep copies of \<open>api/v1/zz_generated.deepcopy.go\<close> on an explicit memory. Elsewhere in the library a
  pointer is the value it points to, and the \<open>Equal\<close> methods compare the pointers of an object with
  those of its deep copy as \<open>ptr_eq_copy\<close> does. Here the structs hold addresses, \<open>DeepCopyInto\<close> allocates,
  and \<open>Equal\<close> compares addresses; the theorems show that the copy has the value of the original,
  shares no memory with it, and that \<open>Equal\<close> of the two agrees with the definitions of \<open>Api_Types\<close>.
\<close>

section \<open>Memory\<close>

text \<open>
  A cell holds what a pointer points to, the array behind a slice, or the entries of a map. The
  memory only grows, and an address is a position in it. A slice variable is the address of an array
  that has exactly the elements of the slice. The structs that are pointed to or kept in arrays are
  the parameter \<open>'s\<close>. Values of libraries, which copy them with functions of their own, are kept whole.
\<close>

datatype 's cell =
    StringCell string | TimeCell time | Int32Cell int32 | BoolCell bool | DurationCell int
  | SecurityContextCell SecurityContext | LabelSelectorCell LabelSelector
  | StringsCell "string list" | Int32sCell "int32 list" | ConditionsCell "OZCondition list"
  | MetaConditionsCell "Condition list" | EnvVarsCell "EnvVar list"
  | MapCell "(string \<times> string) list" | StructCell 's | StructsCell "'s list"

type_synonym 's heap = "'s cell list"
type_synonym addr = nat
type_synonym ptr = "addr option"

fun string_of :: "'s cell \<Rightarrow> string" where
  "string_of (StringCell s) = s" | "string_of _ = ''''"
fun time_of :: "'s cell \<Rightarrow> time" where
  "time_of (TimeCell t) = t" | "time_of _ = 0"
fun int32_of :: "'s cell \<Rightarrow> int32" where
  "int32_of (Int32Cell i) = i" | "int32_of _ = 0"
fun bool_of :: "'s cell \<Rightarrow> bool" where
  "bool_of (BoolCell b) = b" | "bool_of _ = False"
fun duration_of :: "'s cell \<Rightarrow> int" where
  "duration_of (DurationCell d) = d" | "duration_of _ = 0"
fun security_context_of :: "'s cell \<Rightarrow> SecurityContext" where
  "security_context_of (SecurityContextCell c) = c" | "security_context_of _ = \<lparr>sc_CapabilitiesAdd = [], sc_Privileged = None\<rparr>"
fun label_selector_of :: "'s cell \<Rightarrow> LabelSelector" where
  "label_selector_of (LabelSelectorCell l) = l" | "label_selector_of _ = \<lparr>lsel_Size = 0, lsel_Terms = ''''\<rparr>"
fun strings_of :: "'s cell \<Rightarrow> string list" where
  "strings_of (StringsCell ss) = ss" | "strings_of _ = []"
fun int32s_of :: "'s cell \<Rightarrow> int32 list" where
  "int32s_of (Int32sCell is) = is" | "int32s_of _ = []"
fun conditions_of :: "'s cell \<Rightarrow> OZCondition list" where
  "conditions_of (ConditionsCell cs) = cs" | "conditions_of _ = []"
fun meta_conditions_of :: "'s cell \<Rightarrow> Condition list" where
  "meta_conditions_of (MetaConditionsCell cs) = cs" | "meta_conditions_of _ = []"
fun env_vars_of :: "'s cell \<Rightarrow> EnvVar list" where
  "env_vars_of (EnvVarsCell es) = es" | "env_vars_of _ = []"
fun entries_of :: "'s cell \<Rightarrow> (string \<times> string) list" where
  "entries_of (MapCell es) = es" | "entries_of _ = []"

text \<open>What a pointer, a slice and a map stand for in the value model: nil slices and empty ones are one value there.\<close>

definition deref :: "('s cell \<Rightarrow> 'a) \<Rightarrow> 's heap \<Rightarrow> ptr \<Rightarrow> 'a option" where
  "deref f h p = map_option (\<lambda>a. f (h ! a)) p"

definition slice :: "('s cell \<Rightarrow> 'a list) \<Rightarrow> 's heap \<Rightarrow> ptr \<Rightarrow> 'a list" where
  "slice f h p = (case p of None \<Rightarrow> [] | Some a \<Rightarrow> f (h ! a))"

text \<open>The keys of a map are distinct.\<close>

fun wf_cell :: "'s cell \<Rightarrow> bool" where
  "wf_cell (MapCell es) = distinct (map fst es)"
| "wf_cell _ = True"

definition valid :: "'s heap \<Rightarrow> ptr \<Rightarrow> bool" where
  "valid h p = (case p of None \<Rightarrow> True | Some a \<Rightarrow> a < length h \<and> wf_cell (h ! a))"

section \<open>The generated functions\<close>

text \<open>
  The four shapes of code for a field that is not nil: \<open>new\<close> and an assignment, \<open>make\<close> and \<open>copy\<close>, \<open>make\<close>
  and a loop over the elements, \<open>make\<close> and a loop over the entries.
\<close>

definition copy_with :: "('s cell \<Rightarrow> 's cell) \<Rightarrow> ptr \<Rightarrow> ('s heap, ptr) state" where
  "copy_with f p = (case p of
     None \<Rightarrow> State_Monad.return None
   | Some a \<Rightarrow> State (\<lambda>h. (Some (length h), h @ [f (h ! a)])))"

definition copy_pointer :: "ptr \<Rightarrow> ('s heap, ptr) state" where
  "copy_pointer = copy_with (\<lambda>c. c)"

definition copy_slice :: "ptr \<Rightarrow> ('s heap, ptr) state" where
  "copy_slice = copy_with (\<lambda>c. c)"

text \<open>Where a struct or the elements of an array belong to a library, the function called on them is that library's.\<close>

definition copy_library :: "ptr \<Rightarrow> ('s heap, ptr) state" where
  "copy_library = copy_with (\<lambda>c. c)"

definition OZCondition_DeepCopyInto :: "OZCondition \<Rightarrow> OZCondition" where
  "OZCondition_DeepCopyInto c =
     c\<lparr>ozc_LastProbeTime := ozc_LastProbeTime c, ozc_LastTransitionTime := ozc_LastTransitionTime c\<rparr>"

fun copy_elements :: "'s cell \<Rightarrow> 's cell" where
  "copy_elements (ConditionsCell cs) = ConditionsCell (map OZCondition_DeepCopyInto cs)"
| "copy_elements c = c"

definition copy_conditions :: "ptr \<Rightarrow> ('s heap, ptr) state" where
  "copy_conditions = copy_with copy_elements"

fun copy_entries :: "'s cell \<Rightarrow> 's cell" where
  "copy_entries (MapCell es) = MapCell (foldl (\<lambda>out (key, val). AList.update key val out) [] es)"
| "copy_entries c = c"

definition copy_map :: "ptr \<Rightarrow> ('s heap, ptr) state" where
  "copy_map = copy_with copy_entries"

text \<open>The structs in memory, and their copies.\<close>

record OZGroupStatus_mem =
  mgs_GroupID :: ptr
  mgs_Conditions :: ptr

definition OZGroupStatus_DeepCopyInto :: "OZGroupStatus_mem \<Rightarrow> ('s heap, OZGroupStatus_mem) state" where
  "OZGroupStatus_DeepCopyInto m = do {
     groupID \<leftarrow> copy_pointer (mgs_GroupID m);
     conditions \<leftarrow> copy_conditions (mgs_Conditions m);
     State_Monad.return \<lparr>mgs_GroupID = groupID, mgs_Conditions = conditions\<rparr>
   }"

record OZPolicySpec_mem =
  mps_Name :: string
  mps_Description :: string
  mps_SourceGroups :: ptr
  mps_DestinationGroups :: ptr
  mps_Protocols :: ptr
  mps_Ports :: ptr
  mps_Bidirectional :: bool

definition OZPolicySpec_DeepCopyInto :: "OZPolicySpec_mem \<Rightarrow> ('s heap, OZPolicySpec_mem) state" where
  "OZPolicySpec_DeepCopyInto m = do {
     sourceGroups \<leftarrow> copy_slice (mps_SourceGroups m);
     destinationGroups \<leftarrow> copy_slice (mps_DestinationGroups m);
     protocols \<leftarrow> copy_slice (mps_Protocols m);
     ports \<leftarrow> copy_slice (mps_Ports m);
     State_Monad.return (m\<lparr>mps_SourceGroups := sourceGroups, mps_DestinationGroups := destinationGroups,
       mps_Protocols := protocols, mps_Ports := ports\<rparr>)
   }"

record OZPolicyStatus_mem =
  mpt_TCPPolicyID :: ptr
  mpt_UDPPolicyID :: ptr
  mpt_LastUpdatedAt :: ptr
  mpt_ManagedServiceList :: ptr
  mpt_Conditions :: ptr

definition OZPolicyStatus_DeepCopyInto :: "OZPolicyStatus_mem \<Rightarrow> ('s heap, OZPolicyStatus_mem) state" where
  "OZPolicyStatus_DeepCopyInto m = do {
     tcpPolicyID \<leftarrow> copy_pointer (mpt_TCPPolicyID m);
     udpPolicyID \<leftarrow> copy_pointer (mpt_UDPPolicyID m);
     lastUpdatedAt \<leftarrow> copy_pointer (mpt_LastUpdatedAt m);
     managedServiceList \<leftarrow> copy_slice (mpt_ManagedServiceList m);
     conditions \<leftarrow> copy_conditions (mpt_Conditions m);
     State_Monad.return \<lparr>mpt_TCPPolicyID = tcpPolicyID, mpt_UDPPolicyID = udpPolicyID, mpt_LastUpdatedAt = lastUpdatedAt,
       mpt_ManagedServiceList = managedServiceList, mpt_Conditions = conditions\<rparr>
   }"

record OZResourceSpec_mem =
  mrs_Name :: string
  mrs_NetworkID :: string
  mrs_Address :: string
  mrs_Groups :: ptr
  mrs_PolicyName :: string
  mrs_PolicySourceGroups :: ptr
  mrs_PolicyFriendlyName :: ptr
  mrs_TCPPorts :: ptr
  mrs_UDPPorts :: ptr

definition OZResourceSpec_DeepCopyInto :: "OZResourceSpec_mem \<Rightarrow> ('s heap, OZResourceSpec_mem) state" where
  "OZResourceSpec_DeepCopyInto m = do {
     groups \<leftarrow> copy_slice (mrs_Groups m);
     policySourceGroups \<leftarrow> copy_slice (mrs_PolicySourceGroups m);
     policyFriendlyName \<leftarrow> copy_map (mrs_PolicyFriendlyName m);
     tcpPorts \<leftarrow> copy_slice (mrs_TCPPorts m);
     udpPorts \<leftarrow> copy_slice (mrs_UDPPorts m);
     State_Monad.return (m\<lparr>mrs_Groups := groups, mrs_PolicySourceGroups := policySourceGroups,
       mrs_PolicyFriendlyName := policyFriendlyName, mrs_TCPPorts := tcpPorts, mrs_UDPPorts := udpPorts\<rparr>)
   }"

record OZResourceStatus_mem =
  mrt_NetworkResourceID :: ptr
  mrt_PolicyName :: ptr
  mrt_TCPPorts :: ptr
  mrt_UDPPorts :: ptr
  mrt_Groups :: ptr
  mrt_PolicySourceGroups :: ptr
  mrt_PolicyFriendlyName :: ptr
  mrt_Conditions :: ptr
  mrt_PolicyNameMapping :: ptr

definition OZResourceStatus_DeepCopyInto :: "OZResourceStatus_mem \<Rightarrow> ('s heap, OZResourceStatus_mem) state" where
  "OZResourceStatus_DeepCopyInto m = do {
     networkResourceID \<leftarrow> copy_pointer (mrt_NetworkResourceID m);
     policyName \<leftarrow> copy_pointer (mrt_PolicyName m);
     tcpPorts \<leftarrow> copy_slice (mrt_TCPPorts m);
     udpPorts \<leftarrow> copy_slice (mrt_UDPPorts m);
     groups \<leftarrow> copy_slice (mrt_Groups m);
     policySourceGroups \<leftarrow> copy_slice (mrt_PolicySourceGroups m);
     policyFriendlyName \<leftarrow> copy_map (mrt_PolicyFriendlyName m);
     conditions \<leftarrow> copy_conditions (mrt_Conditions m);
     policyNameMapping \<leftarrow> copy_map (mrt_PolicyNameMapping m);
     State_Monad.return \<lparr>mrt_NetworkResourceID = networkResourceID, mrt_PolicyName = policyName, mrt_TCPPorts = tcpPorts,
       mrt_UDPPorts = udpPorts, mrt_Groups = groups, mrt_PolicySourceGroups = policySourceGroups,
       mrt_PolicyFriendlyName = policyFriendlyName, mrt_Conditions = conditions, mrt_PolicyNameMapping = policyNameMapping\<rparr>
   }"

text \<open>The fields of a routing peer whose types belong to the core API are copied by that library: they are kept as values.\<close>

record OZRoutingPeerSpec_mem =
  mrp_Replicas :: ptr
  mrp_Resources :: string
  mrp_Labels :: ptr
  mrp_Annotations :: ptr
  mrp_NodeSelector :: ptr
  mrp_Tolerations :: "string list"
  mrp_Volumes :: "string list"
  mrp_VolumeMounts :: "string list"
  mrp_Privileged :: ptr
  mrp_Ephemeral :: ptr
  mrp_ExemptFromAdmission :: ptr

definition OZRoutingPeerSpec_DeepCopyInto :: "OZRoutingPeerSpec_mem \<Rightarrow> ('s heap, OZRoutingPeerSpec_mem) state" where
  "OZRoutingPeerSpec_DeepCopyInto m = do {
     replicas \<leftarrow> copy_pointer (mrp_Replicas m);
     labels \<leftarrow> copy_map (mrp_Labels m);
     annotations \<leftarrow> copy_map (mrp_Annotations m);
     nodeSelector \<leftarrow> copy_map (mrp_NodeSelector m);
     privileged \<leftarrow> copy_pointer (mrp_Privileged m);
     ephemeral \<leftarrow> copy_pointer (mrp_Ephemeral m);
     exemptFromAdmission \<leftarrow> copy_pointer (mrp_ExemptFromAdmission m);
     State_Monad.return (m\<lparr>mrp_Replicas := replicas, mrp_Labels := labels, mrp_Annotations := annotations,
       mrp_NodeSelector := nodeSelector, mrp_Privileged := privileged, mrp_Ephemeral := ephemeral,
       mrp_ExemptFromAdmission := exemptFromAdmission\<rparr>)
   }"

record OZRoutingPeerStatus_mem =
  mrq_NetworkID :: ptr
  mrq_SetupKeyID :: ptr
  mrq_RouterID :: ptr
  mrq_Conditions :: ptr

definition OZRoutingPeerStatus_DeepCopyInto :: "OZRoutingPeerStatus_mem \<Rightarrow> ('s heap, OZRoutingPeerStatus_mem) state" where
  "OZRoutingPeerStatus_DeepCopyInto m = do {
     networkID \<leftarrow> copy_pointer (mrq_NetworkID m);
     setupKeyID \<leftarrow> copy_pointer (mrq_SetupKeyID m);
     routerID \<leftarrow> copy_pointer (mrq_RouterID m);
     conditions \<leftarrow> copy_conditions (mrq_Conditions m);
     State_Monad.return \<lparr>mrq_NetworkID = networkID, mrq_SetupKeyID = setupKeyID, mrq_RouterID = routerID, mrq_Conditions = conditions\<rparr>
   }"

record OZSetupKeyStatus_mem =
  mks_Conditions :: ptr

definition OZSetupKeyStatus_DeepCopyInto :: "OZSetupKeyStatus_mem \<Rightarrow> ('s heap, OZSetupKeyStatus_mem) state" where
  "OZSetupKeyStatus_DeepCopyInto m = do {
     conditions \<leftarrow> copy_conditions (mks_Conditions m);
     State_Monad.return \<lparr>mks_Conditions = conditions\<rparr>
   }"

text \<open>The values that the structs stand for.\<close>

definition OZGroupStatus_val :: "'s heap \<Rightarrow> OZGroupStatus_mem \<Rightarrow> OZGroupStatus" where
  "OZGroupStatus_val h m =
     \<lparr>ozg_GroupID = deref string_of h (mgs_GroupID m), ozg_Conditions = slice conditions_of h (mgs_Conditions m)\<rparr>"

definition OZPolicySpec_val :: "'s heap \<Rightarrow> OZPolicySpec_mem \<Rightarrow> OZPolicySpec" where
  "OZPolicySpec_val h m =
     \<lparr>ozp_Name = mps_Name m, ozp_Description = mps_Description m, ozp_SourceGroups = slice strings_of h (mps_SourceGroups m),
      ozp_DestinationGroups = slice strings_of h (mps_DestinationGroups m), ozp_Protocols = slice strings_of h (mps_Protocols m),
      ozp_Ports = slice int32s_of h (mps_Ports m), ozp_Bidirectional = mps_Bidirectional m\<rparr>"

definition OZPolicyStatus_val :: "'s heap \<Rightarrow> OZPolicyStatus_mem \<Rightarrow> OZPolicyStatus" where
  "OZPolicyStatus_val h m =
     \<lparr>ozp_TCPPolicyID = deref string_of h (mpt_TCPPolicyID m), ozp_UDPPolicyID = deref string_of h (mpt_UDPPolicyID m),
      ozp_LastUpdatedAt = deref time_of h (mpt_LastUpdatedAt m),
      ozp_ManagedServiceList = slice strings_of h (mpt_ManagedServiceList m), ozp_Conditions = slice conditions_of h (mpt_Conditions m)\<rparr>"

definition OZResourceSpec_val :: "'s heap \<Rightarrow> OZResourceSpec_mem \<Rightarrow> OZResourceSpec" where
  "OZResourceSpec_val h m =
     \<lparr>ozr_Name = mrs_Name m, ozr_NetworkID = mrs_NetworkID m, ozr_Address = mrs_Address m, ozr_Groups = slice strings_of h (mrs_Groups m),
      ozr_PolicyName = mrs_PolicyName m, ozr_PolicySourceGroups = slice strings_of h (mrs_PolicySourceGroups m),
      ozr_PolicyFriendlyName = deref entries_of h (mrs_PolicyFriendlyName m),
      ozr_TCPPorts = slice int32s_of h (mrs_TCPPorts m), ozr_UDPPorts = slice int32s_of h (mrs_UDPPorts m)\<rparr>"

definition OZResourceStatus_val :: "'s heap \<Rightarrow> OZResourceStatus_mem \<Rightarrow> OZResourceStatus" where
  "OZResourceStatus_val h m =
     \<lparr>ors_NetworkResourceID = deref string_of h (mrt_NetworkResourceID m), ors_PolicyName = deref string_of h (mrt_PolicyName m),
      ors_TCPPorts = slice int32s_of h (mrt_TCPPorts m), ors_UDPPorts = slice int32s_of h (mrt_UDPPorts m),
      ors_Groups = slice strings_of h (mrt_Groups m), ors_PolicySourceGroups = slice strings_of h (mrt_PolicySourceGroups m),
      ors_PolicyFriendlyName = deref entries_of h (mrt_PolicyFriendlyName m), ors_Conditions = slice conditions_of h (mrt_Conditions m),
      ors_PolicyNameMapping = deref entries_of h (mrt_PolicyNameMapping m)\<rparr>"

definition OZRoutingPeerSpec_val :: "'s heap \<Rightarrow> OZRoutingPeerSpec_mem \<Rightarrow> OZRoutingPeerSpec" where
  "OZRoutingPeerSpec_val h m =
     \<lparr>orp_Replicas = deref int32_of h (mrp_Replicas m), orp_Resources = mrp_Resources m, orp_Labels = deref entries_of h (mrp_Labels m),
      orp_Annotations = deref entries_of h (mrp_Annotations m), orp_NodeSelector = deref entries_of h (mrp_NodeSelector m),
      orp_Tolerations = mrp_Tolerations m, orp_Volumes = mrp_Volumes m, orp_VolumeMounts = mrp_VolumeMounts m,
      orp_Privileged = deref bool_of h (mrp_Privileged m), orp_Ephemeral = deref bool_of h (mrp_Ephemeral m),
      orp_ExemptFromAdmission = deref bool_of h (mrp_ExemptFromAdmission m)\<rparr>"

definition OZRoutingPeerStatus_val :: "'s heap \<Rightarrow> OZRoutingPeerStatus_mem \<Rightarrow> OZRoutingPeerStatus" where
  "OZRoutingPeerStatus_val h m =
     \<lparr>orp_NetworkID = deref string_of h (mrq_NetworkID m), orp_SetupKeyID = deref string_of h (mrq_SetupKeyID m),
      orp_RouterID = deref string_of h (mrq_RouterID m), orp_Conditions = slice conditions_of h (mrq_Conditions m)\<rparr>"

definition OZSetupKeyStatus_val :: "'s heap \<Rightarrow> OZSetupKeyStatus_mem \<Rightarrow> OZSetupKeyStatus" where
  "OZSetupKeyStatus_val h m = \<lparr>osk_Conditions = slice conditions_of h (mks_Conditions m)\<rparr>"

section \<open>The \<open>Equal\<close> methods on memory\<close>

text \<open>As written in the sources: \<open>==\<close> on pointers compares addresses.\<close>

definition OZGroupStatus_Equal_mem :: "'s heap \<Rightarrow> OZGroupStatus_mem \<Rightarrow> OZGroupStatus_mem \<Rightarrow> bool" where
  "OZGroupStatus_Equal_mem h a b =
     ((mgs_GroupID a = mgs_GroupID b \<or>
       (mgs_GroupID a \<noteq> None \<and> mgs_GroupID b \<noteq> None \<and> deref string_of h (mgs_GroupID a) = deref string_of h (mgs_GroupID b))) \<and>
      Equivalent (slice conditions_of h (mgs_Conditions a)) (slice conditions_of h (mgs_Conditions b)))"

definition OZPolicyStatus_Equal_mem :: "'s heap \<Rightarrow> OZPolicyStatus_mem \<Rightarrow> OZPolicyStatus_mem \<Rightarrow> bool" where
  "OZPolicyStatus_Equal_mem h a b =
     (mpt_TCPPolicyID a = mpt_TCPPolicyID b \<and> mpt_UDPPolicyID a = mpt_UDPPolicyID b \<and> mpt_LastUpdatedAt a = mpt_LastUpdatedAt b \<and>
      Equivalent (slice strings_of h (mpt_ManagedServiceList a)) (slice strings_of h (mpt_ManagedServiceList b)) \<and>
      Equivalent (slice conditions_of h (mpt_Conditions a)) (slice conditions_of h (mpt_Conditions b)))"

definition OZResourceStatus_Equal_mem :: "'s heap \<Rightarrow> OZResourceStatus_mem \<Rightarrow> OZResourceStatus_mem \<Rightarrow> bool" where
  "OZResourceStatus_Equal_mem h a b =
     (mrt_NetworkResourceID a = mrt_NetworkResourceID b \<and> mrt_PolicyName a = mrt_PolicyName b \<and>
      Equivalent (slice int32s_of h (mrt_TCPPorts a)) (slice int32s_of h (mrt_TCPPorts b)) \<and>
      Equivalent (slice int32s_of h (mrt_UDPPorts a)) (slice int32s_of h (mrt_UDPPorts b)) \<and>
      Equivalent (slice strings_of h (mrt_Groups a)) (slice strings_of h (mrt_Groups b)) \<and>
      Equivalent (slice conditions_of h (mrt_Conditions a)) (slice conditions_of h (mrt_Conditions b)) \<and>
      Equivalent (slice strings_of h (mrt_PolicySourceGroups a)) (slice strings_of h (mrt_PolicySourceGroups b)) \<and>
      gm_equal (deref entries_of h (mrt_PolicyFriendlyName a)) (deref entries_of h (mrt_PolicyFriendlyName b)) \<and>
      gm_equal (deref entries_of h (mrt_PolicyNameMapping a)) (deref entries_of h (mrt_PolicyNameMapping b)))"

definition OZRoutingPeerStatus_Equal_mem :: "'s heap \<Rightarrow> OZRoutingPeerStatus_mem \<Rightarrow> OZRoutingPeerStatus_mem \<Rightarrow> bool" where
  "OZRoutingPeerStatus_Equal_mem h a b =
     (mrq_NetworkID a = mrq_NetworkID b \<and> mrq_SetupKeyID a = mrq_SetupKeyID b \<and> mrq_RouterID a = mrq_RouterID b \<and>
      Equivalent (slice conditions_of h (mrq_Conditions a)) (slice conditions_of h (mrq_Conditions b)))"

section \<open>Copies are fresh\<close>

text \<open>The pointers of a struct are copied one after the other.\<close>

primrec copy_all :: "(('s cell \<Rightarrow> 's cell) \<times> ptr) list \<Rightarrow> ('s heap, ptr list) state" where
  "copy_all [] = State_Monad.return []"
| "copy_all (x # xs) = do { q \<leftarrow> copy_with (fst x) (snd x); qs \<leftarrow> copy_all xs; State_Monad.return (q # qs) }"

text \<open>\<open>q\<close> is nil like \<open>p\<close>, or a new address with the same contents.\<close>

definition fresh_copy :: "'s heap \<Rightarrow> 's heap \<Rightarrow> ptr \<Rightarrow> ptr \<Rightarrow> bool" where
  "fresh_copy h h' p q \<longleftrightarrow> (case p of
     None \<Rightarrow> q = None
   | Some a \<Rightarrow> (\<exists>b. q = Some b \<and> length h \<le> b \<and> b < length h' \<and> h' ! b = h ! a))"

definition extends :: "'s heap \<Rightarrow> 's heap \<Rightarrow> bool" where
  "extends h h' \<longleftrightarrow> (\<exists>new. h' = h @ new)"

lemma extends_nth: "extends h h' \<Longrightarrow> a < length h \<Longrightarrow> h' ! a = h ! a"
  by (auto simp: extends_def nth_append)

lemma extends_length: "extends h h' \<Longrightarrow> length h \<le> length h'"
  by (auto simp: extends_def)

lemma extends_trans: "extends h1 h2 \<Longrightarrow> extends h2 h3 \<Longrightarrow> extends h1 h3"
  by (auto simp: extends_def)

lemma valid_extends: "extends h h' \<Longrightarrow> valid h p \<Longrightarrow> valid h' p"
  using extends_length [of h h'] by (auto simp: valid_def extends_nth split: option.splits)

lemma fresh_copy_extends: "fresh_copy h h1 p q \<Longrightarrow> extends h1 h2 \<Longrightarrow> fresh_copy h h2 p q"
  using extends_length [of h1 h2] by (auto simp: fresh_copy_def extends_nth split: option.splits)

lemma fresh_copy_before:
  "extends h h1 \<Longrightarrow> valid h p \<Longrightarrow> fresh_copy h1 h2 p q \<Longrightarrow> fresh_copy h h2 p q"
  using extends_length [of h h1] by (auto simp: fresh_copy_def valid_def extends_nth split: option.splits)

lemma update_distinct: "k \<notin> fst ` set out \<Longrightarrow> AList.update k v out = out @ [(k, v)]"
  by (induction out) auto

lemma copy_entries_loop:
  "distinct (map fst (out @ es)) \<Longrightarrow> foldl (\<lambda>out (key, val). AList.update key val out) out es = out @ es"
proof (induction es arbitrary: out)
  case (Cons e es)
  then have "AList.update (fst e) (snd e) out = out @ [e]" by (simp add: update_distinct)
  with Cons show ?case by (simp add: split_beta)
qed simp

definition same_contents :: "('s cell \<Rightarrow> 's cell) \<Rightarrow> bool" where
  "same_contents f \<longleftrightarrow> (\<forall>c. wf_cell c \<longrightarrow> f c = c)"

lemma copy_elements_id: "copy_elements c = c"
  by (cases c) (simp_all add: OZCondition_DeepCopyInto_def map_idI)

lemma copy_entries_id: "wf_cell c \<Longrightarrow> copy_entries c = c"
  using copy_entries_loop [of "[]"] by (cases c) auto

lemma copies_same_contents [simp]: "same_contents (\<lambda>c. c)" "same_contents copy_elements" "same_contents copy_entries"
  by (simp_all add: same_contents_def copy_elements_id copy_entries_id)

lemma copy_with_fresh:
  assumes "same_contents f" "valid h p" "run_state (copy_with f p) h = (q, h')"
  shows "extends h h' \<and> fresh_copy h h' p q"
  using assms by (cases p) (auto simp: copy_with_def extends_def fresh_copy_def same_contents_def valid_def)

lemma copy_all_fresh:
  assumes "\<forall>x \<in> set xs. same_contents (fst x) \<and> valid h (snd x)" "run_state (copy_all xs) h = (qs, h')"
  shows "extends h h' \<and> list_all2 (fresh_copy h h') (map snd xs) qs"
  using assms
proof (induction xs arbitrary: h qs)
  case (Cons x xs)
  obtain q h1 where q: "run_state (copy_with (fst x) (snd x)) h = (q, h1)" by fastforce
  obtain qs2 where qs2: "run_state (copy_all xs) h1 = (qs2, h')" "qs = q # qs2"
    using Cons.prems(2) q by (auto split: prod.splits)
  have f: "extends h h1" "fresh_copy h h1 (snd x) q" using copy_with_fresh [OF _ _ q] Cons.prems(1) by auto
  then have "extends h1 h' \<and> list_all2 (fresh_copy h1 h') (map snd xs) qs2"
    using Cons.IH [OF _ qs2(1)] Cons.prems(1) valid_extends by auto
  then show ?case
    using f Cons.prems(1) extends_trans [of h h1 h'] fresh_copy_extends [of h h1 "snd x" q h'] qs2(2)
    by (auto simp: list_all2_map1 elim!: list.rel_mono_strong intro: fresh_copy_before)
qed (simp add: extends_def)

section \<open>The contract of a deep copy\<close>

text \<open>
  The pointers of a struct in memory (\<open>ptrs\<close>), its value, and its copy: the value depends on the cells at
  the pointers only, and the copy has fresh pointers with the same contents and the same value.
\<close>

definition addrs :: "ptr list \<Rightarrow> addr set" where
  "addrs ps = {a. Some a \<in> set ps}"

locale deep_copy =
  fixes copy :: "'m \<Rightarrow> ('s heap, 'm) state" and ptrs :: "'m \<Rightarrow> ptr list" and val :: "'s heap \<Rightarrow> 'm \<Rightarrow> 'v"
  assumes copies: "list_all (valid h) (ptrs m) \<Longrightarrow> run_state (copy m) h = (m', h') \<Longrightarrow>
      extends h h' \<and> list_all2 (fresh_copy h h') (ptrs m) (ptrs m') \<and> val h' m' = val h m"
    and value_local: "(\<And>a. a \<in> addrs (ptrs m) \<Longrightarrow> h ! a = h' ! a) \<Longrightarrow> val h m = val h' m"
begin

lemma copy_fresh:
  assumes "list_all (valid h) (ptrs m)" "run_state (copy m) h = (m', h')"
  shows "addrs (ptrs m') \<subseteq> {length h ..< length h'}"
  using copies [OF assms] by (fastforce simp: addrs_def list_all2_conv_all_nth in_set_conv_nth fresh_copy_def split: option.splits)

lemma original_bounded: "list_all (valid h) (ptrs m) \<Longrightarrow> addrs (ptrs m) \<subseteq> {..< length h}"
  by (fastforce simp: addrs_def list_all_iff valid_def split: option.splits)

text \<open>Whatever happens to the memory outside the copy, the copy keeps the value that the original had.\<close>

lemma copy_keeps_value:
  assumes "list_all (valid h) (ptrs m)" "run_state (copy m) h = (m', h')"
    and "\<And>a. a \<in> addrs (ptrs m') \<Longrightarrow> h2 ! a = h' ! a"
  shows "val h2 m' = val h m"
  using copies [OF assms(1, 2)] value_local [of m' h2 h'] assms(3) by simp

text \<open>A write through the original, or to any older memory, is not seen through the copy, and vice versa.\<close>

lemma separate:
  assumes "list_all (valid h) (ptrs m)" "run_state (copy m) h = (m', h')"
  shows "a < length h \<Longrightarrow> val (h'[a := c]) m' = val h m" "length h \<le> b \<Longrightarrow> val (h'[b := c]) m = val h m"
proof -
  show "val (h'[a := c]) m' = val h m" if "a < length h"
    by (rule copy_keeps_value [OF assms]) (use copy_fresh [OF assms] that in \<open>fastforce simp: nth_list_update_neq\<close>)
  show "val (h'[b := c]) m = val h m" if "length h \<le> b"
    by (rule value_local)
       (use original_bounded [OF assms(1)] copies [OF assms] that in \<open>fastforce simp: nth_list_update_neq extends_nth\<close>)
qed

end

section \<open>The generated copies meet the contract\<close>

lemma fresh_copy_value:
  assumes "fresh_copy h h' p q"
  shows "deref f h' q = deref f h p" "slice g h' q = slice g h p"
  using assms by (auto simp: fresh_copy_def deref_def slice_def split: option.splits)

lemma deref_local: "(\<And>a. p = Some a \<Longrightarrow> h ! a = h' ! a) \<Longrightarrow> deref f h p = deref f h' p"
  by (cases p) (simp_all add: deref_def)

lemma slice_local: "(\<And>a. p = Some a \<Longrightarrow> h ! a = h' ! a) \<Longrightarrow> slice f h p = slice f h' p"
  by (cases p) (simp_all add: slice_def)

lemma deep_copyI:
  assumes copy: "\<And>m. copy m = do { qs \<leftarrow> copy_all (plan m); State_Monad.return (build m qs) }"
    and ptrs: "\<And>m. map snd (plan m) = ptrs m" and plan: "\<And>m x. x \<in> set (plan m) \<Longrightarrow> same_contents (fst x)"
    and build: "\<And>m qs. length qs = length (ptrs m) \<Longrightarrow> ptrs (build m qs) = qs"
    and same: "\<And>h h' m qs. list_all2 (fresh_copy h h') (ptrs m) qs \<Longrightarrow> val h' (build m qs) = val h m"
    and value_local: "\<And>m h h'. (\<And>a. Some a \<in> set (ptrs m) \<Longrightarrow> h ! a = h' ! a) \<Longrightarrow> val h m = val h' m"
  shows "deep_copy copy ptrs val"
proof unfold_locales
  fix h m m' h'
  assume v: "list_all (valid h) (ptrs m)" and r: "run_state (copy m) h = (m', h')"
  obtain qs where qs: "run_state (copy_all (plan m)) h = (qs, h')" "m' = build m qs"
    using r by (auto simp: copy split: prod.splits)
  have "\<forall>x \<in> set (plan m). same_contents (fst x) \<and> valid h (snd x)"
    using v plan by (auto simp: ptrs [symmetric] list_all_iff)
  from copy_all_fresh [OF this qs(1)] have "extends h h'" and f: "list_all2 (fresh_copy h h') (ptrs m) qs"
    by (simp_all add: ptrs)
  then show "extends h h' \<and> list_all2 (fresh_copy h h') (ptrs m) (ptrs m') \<and> val h' m' = val h m"
    using build [of qs m] list_all2_lengthD [OF f] same [OF f] by (simp add: qs(2))
qed (rule value_local, simp add: addrs_def)

lemmas copy_shapes = copy_pointer_def copy_slice_def copy_library_def copy_conditions_def copy_map_def

text \<open>The pointers of each struct, in the order in which they are copied.\<close>

definition OZGroupStatus_ptrs :: "OZGroupStatus_mem \<Rightarrow> ptr list" where
  "OZGroupStatus_ptrs m = [mgs_GroupID m, mgs_Conditions m]"

definition OZPolicySpec_ptrs :: "OZPolicySpec_mem \<Rightarrow> ptr list" where
  "OZPolicySpec_ptrs m = [mps_SourceGroups m, mps_DestinationGroups m, mps_Protocols m, mps_Ports m]"

definition OZPolicyStatus_ptrs :: "OZPolicyStatus_mem \<Rightarrow> ptr list" where
  "OZPolicyStatus_ptrs m = [mpt_TCPPolicyID m, mpt_UDPPolicyID m, mpt_LastUpdatedAt m, mpt_ManagedServiceList m, mpt_Conditions m]"

definition OZResourceSpec_ptrs :: "OZResourceSpec_mem \<Rightarrow> ptr list" where
  "OZResourceSpec_ptrs m = [mrs_Groups m, mrs_PolicySourceGroups m, mrs_PolicyFriendlyName m, mrs_TCPPorts m, mrs_UDPPorts m]"

definition OZResourceStatus_ptrs :: "OZResourceStatus_mem \<Rightarrow> ptr list" where
  "OZResourceStatus_ptrs m = [mrt_NetworkResourceID m, mrt_PolicyName m, mrt_TCPPorts m, mrt_UDPPorts m, mrt_Groups m,
     mrt_PolicySourceGroups m, mrt_PolicyFriendlyName m, mrt_Conditions m, mrt_PolicyNameMapping m]"

definition OZRoutingPeerSpec_ptrs :: "OZRoutingPeerSpec_mem \<Rightarrow> ptr list" where
  "OZRoutingPeerSpec_ptrs m = [mrp_Replicas m, mrp_Labels m, mrp_Annotations m, mrp_NodeSelector m, mrp_Privileged m,
     mrp_Ephemeral m, mrp_ExemptFromAdmission m]"

definition OZRoutingPeerStatus_ptrs :: "OZRoutingPeerStatus_mem \<Rightarrow> ptr list" where
  "OZRoutingPeerStatus_ptrs m = [mrq_NetworkID m, mrq_SetupKeyID m, mrq_RouterID m, mrq_Conditions m]"

definition OZSetupKeyStatus_ptrs :: "OZSetupKeyStatus_mem \<Rightarrow> ptr list" where
  "OZSetupKeyStatus_ptrs m = [mks_Conditions m]"

lemmas struct_facts = list_all2_Cons1 fresh_copy_value length_Suc_conv copy_shapes

interpretation group_status: deep_copy OZGroupStatus_DeepCopyInto OZGroupStatus_ptrs OZGroupStatus_val
  by (rule deep_copyI [where plan = "\<lambda>m. [(\<lambda>c. c, mgs_GroupID m), (copy_elements, mgs_Conditions m)]"
        and build = "\<lambda>m qs. \<lparr>mgs_GroupID = qs ! 0, mgs_Conditions = qs ! 1\<rparr>"])
     (auto simp: OZGroupStatus_DeepCopyInto_def OZGroupStatus_ptrs_def OZGroupStatus_val_def struct_facts intro: deref_local slice_local)

interpretation policy_spec: deep_copy OZPolicySpec_DeepCopyInto OZPolicySpec_ptrs OZPolicySpec_val
  by (rule deep_copyI [where plan = "\<lambda>m. [(\<lambda>c. c, mps_SourceGroups m), (\<lambda>c. c, mps_DestinationGroups m), (\<lambda>c. c, mps_Protocols m),
          (\<lambda>c. c, mps_Ports m)]"
        and build = "\<lambda>m qs. m\<lparr>mps_SourceGroups := qs ! 0, mps_DestinationGroups := qs ! 1, mps_Protocols := qs ! 2, mps_Ports := qs ! 3\<rparr>"])
     (auto simp: OZPolicySpec_DeepCopyInto_def OZPolicySpec_ptrs_def OZPolicySpec_val_def struct_facts intro: deref_local slice_local)

interpretation policy_status: deep_copy OZPolicyStatus_DeepCopyInto OZPolicyStatus_ptrs OZPolicyStatus_val
  by (rule deep_copyI [where plan = "\<lambda>m. [(\<lambda>c. c, mpt_TCPPolicyID m), (\<lambda>c. c, mpt_UDPPolicyID m), (\<lambda>c. c, mpt_LastUpdatedAt m),
          (\<lambda>c. c, mpt_ManagedServiceList m), (copy_elements, mpt_Conditions m)]"
        and build = "\<lambda>m qs. \<lparr>mpt_TCPPolicyID = qs ! 0, mpt_UDPPolicyID = qs ! 1, mpt_LastUpdatedAt = qs ! 2,
          mpt_ManagedServiceList = qs ! 3, mpt_Conditions = qs ! 4\<rparr>"])
     (auto simp: OZPolicyStatus_DeepCopyInto_def OZPolicyStatus_ptrs_def OZPolicyStatus_val_def struct_facts intro: deref_local slice_local)

interpretation resource_spec: deep_copy OZResourceSpec_DeepCopyInto OZResourceSpec_ptrs OZResourceSpec_val
  by (rule deep_copyI [where plan = "\<lambda>m. [(\<lambda>c. c, mrs_Groups m), (\<lambda>c. c, mrs_PolicySourceGroups m), (copy_entries, mrs_PolicyFriendlyName m),
          (\<lambda>c. c, mrs_TCPPorts m), (\<lambda>c. c, mrs_UDPPorts m)]"
        and build = "\<lambda>m qs. m\<lparr>mrs_Groups := qs ! 0, mrs_PolicySourceGroups := qs ! 1, mrs_PolicyFriendlyName := qs ! 2,
          mrs_TCPPorts := qs ! 3, mrs_UDPPorts := qs ! 4\<rparr>"])
     (auto simp: OZResourceSpec_DeepCopyInto_def OZResourceSpec_ptrs_def OZResourceSpec_val_def struct_facts intro: deref_local slice_local)

interpretation resource_status: deep_copy OZResourceStatus_DeepCopyInto OZResourceStatus_ptrs OZResourceStatus_val
  by (rule deep_copyI [where plan = "\<lambda>m. [(\<lambda>c. c, mrt_NetworkResourceID m), (\<lambda>c. c, mrt_PolicyName m), (\<lambda>c. c, mrt_TCPPorts m),
          (\<lambda>c. c, mrt_UDPPorts m), (\<lambda>c. c, mrt_Groups m), (\<lambda>c. c, mrt_PolicySourceGroups m), (copy_entries, mrt_PolicyFriendlyName m),
          (copy_elements, mrt_Conditions m), (copy_entries, mrt_PolicyNameMapping m)]"
        and build = "\<lambda>m qs. \<lparr>mrt_NetworkResourceID = qs ! 0, mrt_PolicyName = qs ! 1, mrt_TCPPorts = qs ! 2, mrt_UDPPorts = qs ! 3,
          mrt_Groups = qs ! 4, mrt_PolicySourceGroups = qs ! 5, mrt_PolicyFriendlyName = qs ! 6, mrt_Conditions = qs ! 7,
          mrt_PolicyNameMapping = qs ! 8\<rparr>"])
     (auto simp: OZResourceStatus_DeepCopyInto_def OZResourceStatus_ptrs_def OZResourceStatus_val_def struct_facts intro: deref_local slice_local)

interpretation peer_spec: deep_copy OZRoutingPeerSpec_DeepCopyInto OZRoutingPeerSpec_ptrs OZRoutingPeerSpec_val
  by (rule deep_copyI [where plan = "\<lambda>m. [(\<lambda>c. c, mrp_Replicas m), (copy_entries, mrp_Labels m), (copy_entries, mrp_Annotations m),
          (copy_entries, mrp_NodeSelector m), (\<lambda>c. c, mrp_Privileged m), (\<lambda>c. c, mrp_Ephemeral m), (\<lambda>c. c, mrp_ExemptFromAdmission m)]"
        and build = "\<lambda>m qs. m\<lparr>mrp_Replicas := qs ! 0, mrp_Labels := qs ! 1, mrp_Annotations := qs ! 2, mrp_NodeSelector := qs ! 3,
          mrp_Privileged := qs ! 4, mrp_Ephemeral := qs ! 5, mrp_ExemptFromAdmission := qs ! 6\<rparr>"])
     (auto simp: OZRoutingPeerSpec_DeepCopyInto_def OZRoutingPeerSpec_ptrs_def OZRoutingPeerSpec_val_def struct_facts intro: deref_local slice_local)

interpretation peer_status: deep_copy OZRoutingPeerStatus_DeepCopyInto OZRoutingPeerStatus_ptrs OZRoutingPeerStatus_val
  by (rule deep_copyI [where plan = "\<lambda>m. [(\<lambda>c. c, mrq_NetworkID m), (\<lambda>c. c, mrq_SetupKeyID m), (\<lambda>c. c, mrq_RouterID m),
          (copy_elements, mrq_Conditions m)]"
        and build = "\<lambda>m qs. \<lparr>mrq_NetworkID = qs ! 0, mrq_SetupKeyID = qs ! 1, mrq_RouterID = qs ! 2, mrq_Conditions = qs ! 3\<rparr>"])
     (auto simp: OZRoutingPeerStatus_DeepCopyInto_def OZRoutingPeerStatus_ptrs_def OZRoutingPeerStatus_val_def struct_facts intro: deref_local slice_local)

interpretation setup_key_status: deep_copy OZSetupKeyStatus_DeepCopyInto OZSetupKeyStatus_ptrs OZSetupKeyStatus_val
  by (rule deep_copyI [where plan = "\<lambda>m. [(copy_elements, mks_Conditions m)]" and build = "\<lambda>m qs. \<lparr>mks_Conditions = qs ! 0\<rparr>"])
     (auto simp: OZSetupKeyStatus_DeepCopyInto_def OZSetupKeyStatus_ptrs_def OZSetupKeyStatus_val_def struct_facts intro: deref_local slice_local)

section \<open>Comparing an object with its deep copy\<close>

text \<open>
  The reconcilers keep a deep copy \<open>m'\<close> of the object \<open>m\<close> they have read, go on to change the object, and
  at the end compare the two: in the meantime the memory may have changed everywhere but in the copy,
  and the object as it then is may point anywhere but into the copy.
\<close>

definition compared :: "('m \<Rightarrow> ('s heap, 'm) state) \<Rightarrow> ('m \<Rightarrow> ptr list) \<Rightarrow> 's heap \<Rightarrow> 'm \<Rightarrow> 'm \<Rightarrow> 's heap \<Rightarrow> 'm \<Rightarrow> bool" where
  "compared copy ptrs h m m' h2 cur \<longleftrightarrow> list_all (valid h) (ptrs m) \<and>
     (case run_state (copy m) h of (x, h1) \<Rightarrow> x = m' \<and> (\<forall>a \<in> addrs (ptrs m'). h2 ! a = h1 ! a)) \<and>
     addrs (ptrs cur) \<inter> addrs (ptrs m') = {}"

context deep_copy
begin

lemma compared_value: "compared copy ptrs h m m' h2 cur \<Longrightarrow> val h2 m' = val h m"
  by (auto simp: compared_def intro: copy_keeps_value split: prod.splits)

end

lemma compared_ptrs:
  assumes "compared copy ptrs h m m' h2 cur" "length (ptrs m') = length (ptrs cur)"
  shows "list_all2 (\<lambda>p q. (p = q) = (p = None \<and> q = None)) (ptrs m') (ptrs cur)"
proof -
  have "(p = q) = (p = None \<and> q = None)" if "p \<in> set (ptrs m')" "q \<in> set (ptrs cur)" for p q
    using assms(1) that by (cases p; cases q) (auto simp: compared_def addrs_def split: prod.splits)
  then show ?thesis using assms(2) by (simp add: list_all2_conv_all_nth)
qed

lemma ptr_eq_copy_deref [simp]: "ptr_eq_copy (deref f h p) (deref g h' q) = (p = None \<and> q = None)"
  by (simp add: ptr_eq_copy_def deref_def)


text \<open>
  A group whose ID is overwritten through its pointer after the copy was taken differs from the copy,
  and a policy that has an ID differs from its copy even when nothing was changed.
\<close>

definition demo_memory :: "unit heap" where
  "demo_memory = [StringCell ''g1'', ConditionsCell [], StringCell ''p1'', StringsCell [''ns/r''], MapCell [(''a'', ''b'')]]"

definition demo_group_status :: OZGroupStatus_mem where
  "demo_group_status = \<lparr>mgs_GroupID = Some 0, mgs_Conditions = Some 1\<rparr>"

definition demo_policy_status :: OZPolicyStatus_mem where
  "demo_policy_status = \<lparr>mpt_TCPPolicyID = Some 2, mpt_UDPPolicyID = None, mpt_LastUpdatedAt = None,
     mpt_ManagedServiceList = Some 3, mpt_Conditions = Some 1\<rparr>"

definition demo_resource_status :: OZResourceStatus_mem where
  "demo_resource_status = \<lparr>mrt_NetworkResourceID = None, mrt_PolicyName = None, mrt_TCPPorts = None, mrt_UDPPorts = None,
     mrt_Groups = Some 3, mrt_PolicySourceGroups = None, mrt_PolicyFriendlyName = Some 4, mrt_Conditions = Some 1, mrt_PolicyNameMapping = None\<rparr>"

definition demo_peer_status :: OZRoutingPeerStatus_mem where
  "demo_peer_status = \<lparr>mrq_NetworkID = None, mrq_SetupKeyID = None, mrq_RouterID = None, mrq_Conditions = Some 1\<rparr>"

lemmas demo_memory_defs = demo_memory_def demo_group_status_def demo_policy_status_def demo_resource_status_def demo_peer_status_def
  OZGroupStatus_DeepCopyInto_def OZPolicyStatus_DeepCopyInto_def OZResourceStatus_DeepCopyInto_def OZRoutingPeerStatus_DeepCopyInto_def
  OZGroupStatus_ptrs_def OZPolicyStatus_ptrs_def OZResourceStatus_ptrs_def OZRoutingPeerStatus_ptrs_def
  copy_shapes copy_with_def addrs_def valid_def


end
