(* ===== verification/Memory_Layout.thy ===== *)
theory Memory_Layout
  imports Deep_Copy
begin

text \<open>
  How Go values lie in the memory of \<open>Deep_Copy\<close> when their structs point to structs and to arrays of structs. A layout knows
  the copy of a type, what a value of the type reaches, and what it stands for; layouts of compound types are put together from
  those of their parts, and so are the proofs that a copy keeps the value and shares no memory with the original.
\<close>

section \<open>Layouts\<close>

text \<open>
  How a type lies in memory: its copy, the addresses that a value of it reaches, the value it stands
  for, and whether everything it reaches is there and has the type that is expected.
\<close>

record ('s, 'm, 'v) layout =
  lay_copy :: "'m \<Rightarrow> ('s heap, 'm) state"
  lay_reach :: "'s heap \<Rightarrow> 'm \<Rightarrow> addr set"
  lay_val :: "'s heap \<Rightarrow> 'm \<Rightarrow> 'v"
  lay_ok :: "'s heap \<Rightarrow> 'm \<Rightarrow> bool"

text \<open>
  The contract of a copy: the memory it leaves has new cells only, what the copy reaches is among
  them, and the value is the same. The value, what is reached and its being well formed depend on what is
  reached only.
\<close>

locale object_copy =
  fixes copy :: "'m \<Rightarrow> ('s heap, 'm) state" and reach :: "'s heap \<Rightarrow> 'm \<Rightarrow> addr set"
    and val :: "'s heap \<Rightarrow> 'm \<Rightarrow> 'v" and ok :: "'s heap \<Rightarrow> 'm \<Rightarrow> bool"
  assumes copies: "ok h m \<Longrightarrow> run_state (copy m) h = (m', h') \<Longrightarrow>
      extends h h' \<and> ok h' m' \<and> reach h' m' \<subseteq> {length h ..< length h'} \<and> val h' m' = val h m"
    and reach_bounded: "ok h m \<Longrightarrow> reach h m \<subseteq> {..< length h}"
    and reach_local: "(\<And>a. a \<in> reach h m \<Longrightarrow> h' ! a = h ! a) \<Longrightarrow> reach h' m = reach h m"
    and val_local: "(\<And>a. a \<in> reach h m \<Longrightarrow> h' ! a = h ! a) \<Longrightarrow> val h' m = val h m"
    and ok_local: "(\<And>a. a \<in> reach h m \<Longrightarrow> h' ! a = h ! a) \<Longrightarrow> length h \<le> length h' \<Longrightarrow> ok h m \<Longrightarrow> ok h' m"
begin

lemma older:
  assumes "extends h h'" "ok h m"
  shows "ok h' m" "reach h' m = reach h m" "val h' m = val h m"
proof -
  have "h' ! a = h ! a" if "a \<in> reach h m" for a
    using reach_bounded [OF assms(2)] that extends_nth [OF assms(1)] by auto
  then show "ok h' m" "reach h' m = reach h m" "val h' m = val h m"
    using ok_local reach_local val_local extends_length [OF assms(1)] assms(2) by blast+
qed

text \<open>Whatever is written outside the copy is not seen through it, and whatever is written to new memory not through the original.\<close>

lemma copy_unaffected:
  assumes "ok h m" "run_state (copy m) h = (m', h')" "\<And>a. length h \<le> a \<Longrightarrow> a < length h' \<Longrightarrow> h2 ! a = h' ! a"
  shows "val h2 m' = val h m"
  using val_local [of h' m' h2] copies [OF assms(1, 2)] assms(3) by fastforce

lemma original_unaffected:
  assumes "ok h m" "\<And>a. a < length h \<Longrightarrow> h2 ! a = h ! a"
  shows "val h2 m = val h m"
  using val_local [of h m h2] reach_bounded [OF assms(1)] assms(2) by fastforce

end

definition lawful_layout :: "('s, 'm, 'v) layout \<Rightarrow> bool" where
  "lawful_layout L \<longleftrightarrow> object_copy (lay_copy L) (lay_reach L) (lay_val L) (lay_ok L)"

text \<open>A struct whose pointers lead to no further ones.\<close>

definition flat_layout :: "('m \<Rightarrow> ('s heap, 'm) state) \<Rightarrow> ('m \<Rightarrow> ptr list) \<Rightarrow> ('s heap \<Rightarrow> 'm \<Rightarrow> 'v) \<Rightarrow> ('s, 'm, 'v) layout" where
  "flat_layout copy ptrs val = \<lparr>lay_copy = copy, lay_reach = \<lambda>_ m. addrs (ptrs m), lay_val = val, lay_ok = \<lambda>h m. list_all (valid h) (ptrs m)\<rparr>"

lemma fresh_valid: "fresh_copy h h' p q \<Longrightarrow> valid h p \<Longrightarrow> valid h' q"
  by (auto simp: fresh_copy_def valid_def split: option.splits)

lemma fresh_all_valid: "list_all2 (fresh_copy h h') ps qs \<Longrightarrow> list_all (valid h) ps \<Longrightarrow> list_all (valid h') qs"
  by (induction rule: list_all2_induct) (auto intro: fresh_valid)

lemma valid_local: "(\<And>a. p = Some a \<Longrightarrow> h' ! a = h ! a) \<Longrightarrow> length h \<le> length h' \<Longrightarrow> valid h p \<Longrightarrow> valid h' p"
  by (cases p) (auto simp: valid_def)

sublocale deep_copy \<subseteq> object_copy copy "\<lambda>_ m. addrs (ptrs m)" val "\<lambda>h m. list_all (valid h) (ptrs m)"
proof unfold_locales
  show "extends h h' \<and> list_all (valid h') (ptrs m') \<and> addrs (ptrs m') \<subseteq> {length h ..< length h'} \<and> val h' m' = val h m"
    if "list_all (valid h) (ptrs m)" "run_state (copy m) h = (m', h')" for h m m' h'
    using copies [OF that] copy_fresh [OF that] fresh_all_valid that(1) by blast
  show "addrs (ptrs m) \<subseteq> {..< length h}" if "list_all (valid h) (ptrs m)" for h m
    using original_bounded [OF that] .
  show "val h' m = val h m" if "\<And>a. a \<in> addrs (ptrs m) \<Longrightarrow> h' ! a = h ! a" for h h' m
    using value_local [of m h h'] that by simp
  show "list_all (valid h') (ptrs m)"
    if "\<And>a. a \<in> addrs (ptrs m) \<Longrightarrow> h' ! a = h ! a" "length h \<le> length h'" "list_all (valid h) (ptrs m)" for h h' m
    unfolding list_all_iff
  proof
    fix p
    assume "p \<in> set (ptrs m)"
    with that show "valid h' p" by (intro valid_local [of p h' h]) (auto simp: addrs_def list_all_iff)
  qed
qed simp

context deep_copy
begin

lemma flat_lawful: "lawful_layout (flat_layout copy ptrs val)"
  by (simp add: lawful_layout_def flat_layout_def object_copy_axioms)

end


section \<open>Pointers to structs and arrays of structs\<close>

definition read_cell :: "addr \<Rightarrow> ('s heap, 's cell) state" where
  "read_cell a = State (\<lambda>h. (h ! a, h))"

definition alloc :: "'s cell \<Rightarrow> ('s heap, addr) state" where
  "alloc c = State (\<lambda>h. (length h, h @ [c]))"

definition write_cell :: "addr \<Rightarrow> 's cell \<Rightarrow> ('s heap, unit) state" where
  "write_cell a c = State (\<lambda>h. ((), h[a := c]))"

text \<open>
  The two shapes of code for a field that is not nil and leads to structs of this package, \<open>new\<close> and
  \<open>DeepCopyInto\<close>, and \<open>make\<close> and \<open>DeepCopyInto\<close> for every element: the new cell starts as a shallow copy, as \<open>*out = *in\<close>
  has it, and holds the deep copy at the end. \<open>dec\<close> and \<open>enc\<close> take the struct or the elements out of the cell and
  put them back. \<open>DeepCopy\<close> is the first shape for the receiver.
\<close>

definition copy_box :: "('m \<Rightarrow> 's cell) \<Rightarrow> ('s cell \<Rightarrow> 'm option) \<Rightarrow> ('m \<Rightarrow> ('s heap, 'm) state) \<Rightarrow> ptr \<Rightarrow> ('s heap, ptr) state" where
  "copy_box enc dec into p = (case p of
     None \<Rightarrow> State_Monad.return None
   | Some a \<Rightarrow> do {
       c \<leftarrow> read_cell a;
       new \<leftarrow> alloc c;
       (case dec c of
          None \<Rightarrow> State_Monad.return ()
        | Some m \<Rightarrow> do { out \<leftarrow> into m; write_cell new (enc out) });
       State_Monad.return (Some new) })"

primrec copy_list :: "('m \<Rightarrow> ('s heap, 'm) state) \<Rightarrow> 'm list \<Rightarrow> ('s heap, 'm list) state" where
  "copy_list into [] = State_Monad.return []"
| "copy_list into (m # ms) = do { m' \<leftarrow> into m; ms' \<leftarrow> copy_list into ms; State_Monad.return (m' # ms') }"

fun struct_in :: "('s \<Rightarrow> 'm option) \<Rightarrow> 's cell \<Rightarrow> 'm option" where
  "struct_in prj (StructCell s) = prj s" | "struct_in prj _ = None"
fun structs_in :: "('s \<Rightarrow> 'm option) \<Rightarrow> 's cell \<Rightarrow> 'm list option" where
  "structs_in prj (StructsCell ss) = those (map prj ss)" | "structs_in prj _ = None"

definition copy_struct :: "('m \<Rightarrow> 's) \<Rightarrow> ('s \<Rightarrow> 'm option) \<Rightarrow> ('m \<Rightarrow> ('s heap, 'm) state) \<Rightarrow> ptr \<Rightarrow> ('s heap, ptr) state" where
  "copy_struct tag prj into = copy_box (\<lambda>m. StructCell (tag m)) (struct_in prj) into"

definition copy_structs :: "('m \<Rightarrow> 's) \<Rightarrow> ('s \<Rightarrow> 'm option) \<Rightarrow> ('m \<Rightarrow> ('s heap, 'm) state) \<Rightarrow> ptr \<Rightarrow> ('s heap, ptr) state" where
  "copy_structs tag prj into = copy_box (\<lambda>ms. StructsCell (map tag ms)) (structs_in prj) (copy_list into)"

section \<open>Layouts of compound types\<close>

definition pair_layout :: "('s, 'm, 'v) layout \<Rightarrow> ('s, 'n, 'w) layout \<Rightarrow> ('s, 'm \<times> 'n, 'v \<times> 'w) layout" where
  "pair_layout L K =
     \<lparr>lay_copy = \<lambda>(m, n). do { m' \<leftarrow> lay_copy L m; n' \<leftarrow> lay_copy K n; State_Monad.return (m', n') },
      lay_reach = \<lambda>h (m, n). lay_reach L h m \<union> lay_reach K h n, lay_val = \<lambda>h (m, n). (lay_val L h m, lay_val K h n),
      lay_ok = \<lambda>h (m, n). lay_ok L h m \<and> lay_ok K h n\<rparr>"

definition list_layout :: "('s, 'm, 'v) layout \<Rightarrow> ('s, 'm list, 'v list) layout" where
  "list_layout L = \<lparr>lay_copy = copy_list (lay_copy L), lay_reach = \<lambda>h ms. \<Union>m \<in> set ms. lay_reach L h m,
     lay_val = \<lambda>h. map (lay_val L h), lay_ok = \<lambda>h. list_all (lay_ok L h)\<rparr>"

definition box_layout :: "('m \<Rightarrow> 's cell) \<Rightarrow> ('s cell \<Rightarrow> 'm option) \<Rightarrow> ('s, 'm, 'v) layout \<Rightarrow> ('s, ptr, 'v option) layout" where
  "box_layout enc dec L =
     \<lparr>lay_copy = copy_box enc dec (lay_copy L),
      lay_reach = \<lambda>h p. (case p of None \<Rightarrow> {} | Some a \<Rightarrow> insert a (case dec (h ! a) of None \<Rightarrow> {} | Some m \<Rightarrow> lay_reach L h m)),
      lay_val = \<lambda>h p. Option.bind p (\<lambda>a. map_option (lay_val L h) (dec (h ! a))),
      lay_ok = \<lambda>h p. (case p of None \<Rightarrow> True | Some a \<Rightarrow> a < length h \<and> (case dec (h ! a) of None \<Rightarrow> False | Some m \<Rightarrow> lay_ok L h m))\<rparr>"

definition struct_layout :: "('n \<Rightarrow> 'm) \<Rightarrow> ('n \<Rightarrow> 'm \<Rightarrow> 'n) \<Rightarrow> ('n \<Rightarrow> 'v \<Rightarrow> 'w) \<Rightarrow> ('s, 'm, 'v) layout \<Rightarrow> ('s, 'n, 'w) layout" where
  "struct_layout parts build f L =
     \<lparr>lay_copy = \<lambda>n. do { x \<leftarrow> lay_copy L (parts n); State_Monad.return (build n x) },
      lay_reach = \<lambda>h n. lay_reach L h (parts n), lay_val = \<lambda>h n. f n (lay_val L h (parts n)), lay_ok = \<lambda>h n. lay_ok L h (parts n)\<rparr>"

definition value_layout :: "('s, 'm, 'm) layout" where
  "value_layout = \<lparr>lay_copy = State_Monad.return, lay_reach = \<lambda>_ _. {}, lay_val = \<lambda>_ m. m, lay_ok = \<lambda>_ _. True\<rparr>"

lemma extends_refl [simp]: "extends h h"
  by (simp add: extends_def)

lemma value_lawful: "lawful_layout value_layout"
  unfolding lawful_layout_def value_layout_def layout.simps by unfold_locales simp_all

lemma new_memory:
  assumes "extends h h1" "extends h2 h3" "A \<subseteq> {length h1 ..< length h2}"
  shows "A \<subseteq> {length h ..< length h3}"
  using assms(3) extends_length [OF assms(1)] extends_length [OF assms(2)] by auto

lemma pair_lawful:
  assumes "lawful_layout L" "lawful_layout K"
  shows "lawful_layout (pair_layout L K)"
proof -
  note L = assms(1) [unfolded lawful_layout_def] and K = assms(2) [unfolded lawful_layout_def]
  show ?thesis
    unfolding lawful_layout_def pair_layout_def layout.simps
  proof (unfold_locales, goal_cases)
    case (1 h mn mn' h2)
    obtain m n m' h1 n' where s: "mn = (m, n)" "mn' = (m', n')" "run_state (lay_copy L m) h = (m', h1)" "run_state (lay_copy K n) h1 = (n', h2)"
      using 1(2) by (cases mn) (auto split: prod.splits)
    have o: "lay_ok L h m" "lay_ok K h n" using 1(1) s(1) by simp_all
    from object_copy.copies [OF L o(1) s(3)] have c: "extends h h1" "lay_ok L h1 m'" "lay_reach L h1 m' \<subseteq> {length h ..< length h1}"
      "lay_val L h1 m' = lay_val L h m" by simp_all
    note n = object_copy.older [OF K c(1) o(2)]
    from object_copy.copies [OF K n(1) s(4)] have d: "extends h1 h2" "lay_ok K h2 n'" "lay_reach K h2 n' \<subseteq> {length h1 ..< length h2}"
      "lay_val K h2 n' = lay_val K h n" by (simp_all add: n)
    note m' = object_copy.older [OF L d(1) c(2)]
    have "lay_reach L h2 m' \<union> lay_reach K h2 n' \<subseteq> {length h ..< length h2}"
      unfolding m'(2) by (intro Un_least new_memory [OF _ _ c(3)] new_memory [OF _ _ d(3)] extends_refl c(1) d(1))
    moreover have "lay_val L h2 m' = lay_val L h m" by (rule trans [OF m'(3) c(4)])
    ultimately show ?case using extends_trans [OF c(1) d(1)] m'(1) d(2, 4) unfolding s(1, 2) prod.case
      by (intro conjI arg_cong2 [where f = Pair])
  next
    case (2 h mn)
    then show ?case
      by (cases mn) (simp add: object_copy.reach_bounded [OF L, simplified] object_copy.reach_bounded [OF K, simplified])
  next
    case (3 h mn h')
    then show ?case
      using object_copy.reach_local [OF L, of h "fst mn" h'] object_copy.reach_local [OF K, of h "snd mn" h'] by (cases mn) simp
  next
    case (4 h mn h')
    then show ?case
      using object_copy.val_local [OF L, of h "fst mn" h'] object_copy.val_local [OF K, of h "snd mn" h'] by (cases mn) simp
  next
    case (5 h mn h')
    then show ?case
      using object_copy.ok_local [OF L, of h "fst mn" h'] object_copy.ok_local [OF K, of h "snd mn" h'] by (cases mn) simp
  qed
qed

lemma copy_list_copies:
  assumes L: "object_copy copy reach val ok" and "list_all (ok h) ms" "run_state (copy_list copy ms) h = (ms', h')"
  shows "extends h h' \<and> list_all (ok h') ms' \<and> (\<Union>m \<in> set ms'. reach h' m) \<subseteq> {length h ..< length h'} \<and> map (val h') ms' = map (val h) ms"
  using assms(2, 3)
proof (induction ms arbitrary: h ms')
  case (Cons m ms)
  obtain m' h1 rest where s: "ms' = m' # rest" "run_state (copy m) h = (m', h1)" "run_state (copy_list copy ms) h1 = (rest, h')"
    using Cons.prems(2) by (auto split: prod.splits)
  from object_copy.copies [OF L _ s(2)] Cons.prems(1)
  have c: "extends h h1" "ok h1 m'" "reach h1 m' \<subseteq> {length h ..< length h1}" "val h1 m' = val h m" by simp_all
  have n: "list_all (ok h1) ms" "map (val h1) ms = map (val h) ms"
    using object_copy.older [OF L c(1)] Cons.prems(1) by (auto simp: list_all_iff)
  from Cons.IH [OF n(1) s(3)]
  have d: "extends h1 h'" "list_all (ok h') rest" "(\<Union>m \<in> set rest. reach h' m) \<subseteq> {length h1 ..< length h'}"
    "map (val h') rest = map (val h1) ms" by blast+
  note m' = object_copy.older [OF L d(1) c(2)]
  have "reach h' m' \<union> (\<Union>m \<in> set rest. reach h' m) \<subseteq> {length h ..< length h'}"
    unfolding m'(2) by (intro Un_least new_memory [OF _ _ c(3)] new_memory [OF _ _ d(3)] extends_refl c(1) d(1))
  then show ?case using extends_trans [OF c(1) d(1)] m'(1, 3) c(4) d(2, 4) n(2) by (simp add: s(1))
qed simp

lemma list_lawful:
  assumes "lawful_layout L"
  shows "lawful_layout (list_layout L)"
proof -
  note L = assms [unfolded lawful_layout_def]
  show ?thesis
    unfolding lawful_layout_def list_layout_def layout.simps
  proof (unfold_locales, goal_cases)
    case (1 h ms ms' h')
    then show ?case by (rule copy_list_copies [OF L])
  next
    case (2 h ms)
    then show ?case using object_copy.reach_bounded [OF L] by (fastforce simp: list_all_iff)
  next
    case (3 h ms h')
    have "lay_reach L h' m = lay_reach L h m" if "m \<in> set ms" for m by (rule object_copy.reach_local [OF L]) (use 3 that in auto)
    then show ?case by simp
  next
    case (4 h ms h')
    have "lay_val L h' m = lay_val L h m" if "m \<in> set ms" for m by (rule object_copy.val_local [OF L]) (use 4 that in auto)
    then show ?case by simp
  next
    case (5 h ms h')
    have "lay_ok L h' m" if "m \<in> set ms" for m
      by (rule object_copy.ok_local [OF L, of h]) (use 5 that in \<open>auto simp: list_all_iff\<close>)
    then show ?case by (simp add: list_all_iff)
  qed
qed

lemma struct_lawful:
  assumes "lawful_layout L" "\<And>n x. parts (build n x) = x" "\<And>n x v. f (build n x) v = f n v"
  shows "lawful_layout (struct_layout parts build f L)"
proof -
  note L = assms(1) [unfolded lawful_layout_def]
  show ?thesis
    unfolding lawful_layout_def struct_layout_def layout.simps
  proof (unfold_locales, goal_cases)
    case (1 h n n' h')
    then obtain x where "run_state (lay_copy L (parts n)) h = (x, h')" "n' = build n x" by (auto split: prod.splits)
    with object_copy.copies [OF L 1(1)] show ?case by (simp add: assms(2, 3))
  next
    case (2 h n) then show ?case by (rule object_copy.reach_bounded [OF L])
  next
    case (3 h n h') then show ?case by (rule object_copy.reach_local [OF L])
  next
    case (4 h n h') then show ?case using object_copy.val_local [OF L, of h "parts n" h'] by simp
  next
    case (5 h n h') then show ?case by (rule object_copy.ok_local [OF L, of h])
  qed
qed

text \<open>The new cell of a box is written after what it leads to has been copied.\<close>

lemma copy_box_copies:
  assumes L: "object_copy copy reach val ok" and dec: "\<And>m. dec (enc m) = Some m"
    and a: "a < length h" "dec (h ! a) = Some m" "ok h m" and r: "run_state (copy_box enc dec copy (Some a)) h = (q, h')"
  shows "\<exists>out. q = Some (length h) \<and> extends h h' \<and> length h < length h' \<and> dec (h' ! length h) = Some out \<and> ok h' out \<and>
    reach h' out \<subseteq> {length h ..< length h'} \<and> val h' out = val h m"
proof -
  let ?b = "length h" and ?h0 = "h @ [h ! a]"
  obtain out h1 where s: "run_state (copy m) ?h0 = (out, h1)" "q = Some ?b" "h' = h1[?b := enc out]"
    using r a(2) by (auto simp: copy_box_def read_cell_def alloc_def write_cell_def split: prod.splits)
  have "extends h ?h0" by (simp add: extends_def)
  note m = object_copy.older [OF L this a(3)]
  from object_copy.copies [OF L m(1) s(1)]
  have c: "extends ?h0 h1" "ok h1 out" "reach h1 out \<subseteq> {length ?h0 ..< length h1}" "val h1 out = val h m" by (simp_all add: m)
  then obtain new where h1: "h1 = h @ [h ! a] @ new" by (auto simp: extends_def)
  have same: "h' ! x = h1 ! x" if "x \<in> reach h1 out" for x
    using c(3) that by (fastforce simp: s(3))
  have out: "reach h' out = reach h1 out" "val h' out = val h1 out" "ok h' out"
    using object_copy.reach_local [OF L same] object_copy.val_local [OF L same] object_copy.ok_local [OF L same _ c(2)] by (simp_all add: s(3))
  moreover have "h' = h @ [enc out] @ new" by (simp add: s(3) h1)
  ultimately show ?thesis
    using c(3, 4) s(2) by (intro exI [of _ out]) (auto simp: extends_def dec h1)
qed

lemma box_lawful:
  assumes "lawful_layout L" "\<And>m. dec (enc m) = Some m"
  shows "lawful_layout (box_layout enc dec L)"
proof -
  note L = assms(1) [unfolded lawful_layout_def]
  show ?thesis
    unfolding lawful_layout_def box_layout_def layout.simps
  proof (unfold_locales, goal_cases)
    case (1 h p q h')
    show ?case
    proof (cases p)
      case None
      with 1(2) show ?thesis by (auto simp: copy_box_def)
    next
      case (Some a)
      with 1(1) obtain m where m: "a < length h" "dec (h ! a) = Some m" "lay_ok L h m" by (auto split: option.splits)
      from copy_box_copies [OF L assms(2) m, of q h'] 1(2) Some
      obtain out where "q = Some (length h)" "extends h h'" "length h < length h'" "dec (h' ! length h) = Some out" "lay_ok L h' out"
        "lay_reach L h' out \<subseteq> {length h ..< length h'}" "lay_val L h' out = lay_val L h m" by blast
      then show ?thesis by (simp add: Some m(2))
    qed
  next
    case (2 h p)
    then show ?case using object_copy.reach_bounded [OF L] by (fastforce split: option.splits)
  next
    case (3 h p h')
    then show ?case using object_copy.reach_local [OF L, of h _ h'] by (auto split: option.splits)
  next
    case (4 h p h')
    then show ?case using object_copy.val_local [OF L, of h _ h'] by (cases p) (auto split: option.splits intro!: option.map_cong)
  next
    case (5 h p h')
    then show ?case using object_copy.ok_local [OF L, of h _ h'] by (auto split: option.splits)
  qed
qed

text \<open>A pointer and a slice whose cell has no pointers.\<close>

definition pointer_layout :: "('s cell \<Rightarrow> 'v) \<Rightarrow> ('s cell \<Rightarrow> 's cell) \<Rightarrow> ('s, ptr, 'v option) layout" where
  "pointer_layout sel f = flat_layout (copy_with f) (\<lambda>p. [p]) (deref sel)"

definition slice_layout :: "('s cell \<Rightarrow> 'v list) \<Rightarrow> ('s cell \<Rightarrow> 's cell) \<Rightarrow> ('s, ptr, 'v list) layout" where
  "slice_layout sel f = flat_layout (copy_with f) (\<lambda>p. [p]) (slice sel)"

lemma pointer_lawful:
  assumes "same_contents f"
  shows "lawful_layout (pointer_layout sel f)" "lawful_layout (slice_layout sel' f)"
proof -
  have "deep_copy (copy_with f) (\<lambda>p. [p]) (deref sel)"
    by (rule deep_copyI [where plan = "\<lambda>p. [(f, p)]" and build = "\<lambda>_ qs. qs ! 0"])
       (auto simp: assms struct_facts intro: deref_local)
  then show "lawful_layout (pointer_layout sel f)" unfolding pointer_layout_def by (rule deep_copy.flat_lawful)
  have "deep_copy (copy_with f) (\<lambda>p. [p]) (slice sel')"
    by (rule deep_copyI [where plan = "\<lambda>p. [(f, p)]" and build = "\<lambda>_ qs. qs ! 0"])
       (auto simp: assms struct_facts intro: slice_local)
  then show "lawful_layout (slice_layout sel' f)" unfolding slice_layout_def by (rule deep_copy.flat_lawful)
qed

lemma those_tags: "(\<And>m. prj (tag m) = Some m) \<Longrightarrow> those (map prj (map tag ms)) = Some ms"
  by (induction ms) simp_all

definition struct_at :: "('m \<Rightarrow> 's) \<Rightarrow> ('s \<Rightarrow> 'm option) \<Rightarrow> ('s, 'm, 'v) layout \<Rightarrow> ('s, ptr, 'v option) layout" where
  "struct_at tag prj L = box_layout (\<lambda>m. StructCell (tag m)) (struct_in prj) L"

definition structs_at :: "('m \<Rightarrow> 's) \<Rightarrow> ('s \<Rightarrow> 'm option) \<Rightarrow> ('s, 'm, 'v) layout \<Rightarrow> ('s, ptr, 'v list option) layout" where
  "structs_at tag prj L = box_layout (\<lambda>ms. StructsCell (map tag ms)) (structs_in prj) (list_layout L)"

lemma boxes_lawful:
  assumes "lawful_layout L" "\<And>m. prj (tag m) = Some m"
  shows "lawful_layout (struct_at tag prj L)" "lawful_layout (structs_at tag prj L)"
  unfolding struct_at_def structs_at_def
  by (rule box_lawful, (simp_all add: assms list_lawful those_tags del: map_map)[2])+

end
