(* ===== verification/Object_Copy.thy ===== *)
theory Object_Copy
  imports Memory_Layout
begin

text \<open>
  The deep copies of whole objects and lists, \<open>DeepCopyInto\<close>, \<open>DeepCopy\<close> and \<open>DeepCopyObject\<close> in
  \<open>api/v1/zz_generated.deepcopy.go\<close> and \<open>api/v1alpha1/zz_generated.deepcopy.go\<close>. Their structs point to structs and to arrays
  of structs, so that what belongs to an object is found by following its pointers through memory. Values of libraries
  (metadata, volumes, environment variables, security contexts, label selectors, pod templates) are copied by these.
\<close>

section \<open>Structs in memory\<close>

text \<open>The specs and statuses of \<open>api/v1alpha1\<close>, and the spec of \<open>OZSetupKey\<close>. What lies behind a \<open>LocalObjectReference\<close> is its name.\<close>

record GroupReference_mem =
  mgr_Name :: ptr
  mgr_ID :: ptr
  mgr_LocalRef :: ptr

record WorkloadOverride_mem =
  mwo_Labels :: ptr
  mwo_Annotations :: ptr
  mwo_Replicas :: ptr
  mwo_PodTemplate :: ptr

record ContainerOverride_mem =
  mco_Image :: string
  mco_Env :: ptr
  mco_SecurityContext :: ptr

record NetworkResourceSpec_mem =
  mns_NetworkRouterRef :: CrossNamespaceReference
  mns_ServiceRef :: string
  mns_Groups :: ptr

record SetupKeySpec_mem =
  msk_Name :: string
  msk_Ephemeral :: bool
  msk_Duration :: ptr
  msk_AutoGroups :: ptr

record NetworkRouterSpec_mem =
  mnr_DNSZoneRef :: string
  mnr_WorkloadOverride :: ptr

record SidecarProfileSpec_mem =
  msp_SetupKeyRef :: string
  msp_PodSelector :: ptr
  msp_InjectionMode :: string
  msp_ExtraDNSLabels :: ptr
  msp_ContainerOverride :: ptr

record OZSetupKeySpec_mem =
  mos_SecretKeyRef :: SecretKeySelector
  mos_ManagementURL :: string
  mos_Volumes :: ptr
  mos_VolumeMounts :: ptr

record GroupStatus_mem =
  mgt_Conditions :: ptr
  mgt_GroupID :: string

record SetupKeyStatus_mem =
  mst_Conditions :: ptr
  mst_SetupKeyID :: string

record NetworkRouterStatus_mem =
  mnt_Conditions :: ptr
  mnt_RoutingPeerID :: string
  mnt_NetworkID :: string

record NetworkResourceStatus_mem =
  mnx_Conditions :: ptr
  mnx_NetworkID :: string
  mnx_ResourceID :: string
  mnx_DNSZoneID :: string
  mnx_DNSRecordID :: string

record SidecarProfileStatus_mem =
  mpx_Conditions :: ptr

text \<open>
  The objects of both packages: metadata, which a library copies, spec and status, and the lists: metadata and an
  array of objects. The specs of \<open>OZGroup\<close> and \<open>Group\<close> are names.
\<close>

record ('spec, 'status) object_mem =
  obj_TypeMeta :: TypeMeta
  obj_ObjectMeta :: ObjectMeta
  obj_Spec :: 'spec
  obj_Status :: 'status

record list_mem =
  lst_TypeMeta :: TypeMeta
  lst_ListMeta :: string
  lst_Items :: ptr

type_synonym OZGroup_mem = "(OZGroupSpec, OZGroupStatus_mem) object_mem"
type_synonym OZPolicy_mem = "(OZPolicySpec_mem, OZPolicyStatus_mem) object_mem"
type_synonym OZResource_mem = "(OZResourceSpec_mem, OZResourceStatus_mem) object_mem"
type_synonym OZRoutingPeer_mem = "(OZRoutingPeerSpec_mem, OZRoutingPeerStatus_mem) object_mem"
type_synonym OZSetupKey_mem = "(OZSetupKeySpec_mem, OZSetupKeyStatus_mem) object_mem"
type_synonym Group_mem = "(string, GroupStatus_mem) object_mem"
type_synonym SetupKey_mem = "(SetupKeySpec_mem, SetupKeyStatus_mem) object_mem"
type_synonym NetworkRouter_mem = "(NetworkRouterSpec_mem, NetworkRouterStatus_mem) object_mem"
type_synonym NetworkResource_mem = "(NetworkResourceSpec_mem, NetworkResourceStatus_mem) object_mem"
type_synonym SidecarProfile_mem = "(SidecarProfileSpec_mem, SidecarProfileStatus_mem) object_mem"

text \<open>What a cell with structs can hold: an object, a list, or a part of an object.\<close>

datatype part =
    OZConditionP OZCondition | OZGroupSpecP OZGroupSpec | OZGroupStatusP OZGroupStatus_mem | OZPolicySpecP OZPolicySpec_mem | OZPolicyStatusP OZPolicyStatus_mem | OZResourceSpecP OZResourceSpec_mem
  | OZResourceStatusP OZResourceStatus_mem | OZRoutingPeerSpecP OZRoutingPeerSpec_mem | OZRoutingPeerStatusP OZRoutingPeerStatus_mem | OZSetupKeySpecP OZSetupKeySpec_mem | OZSetupKeyStatusP OZSetupKeyStatus_mem
  | CrossNamespaceReferenceP CrossNamespaceReference | DNSZoneReferenceP string | GroupSpecP string | GroupStatusP GroupStatus_mem | NetworkResourceSpecP NetworkResourceSpec_mem | NetworkResourceStatusP NetworkResourceStatus_mem
  | NetworkRouterSpecP NetworkRouterSpec_mem | NetworkRouterStatusP NetworkRouterStatus_mem | SetupKeySpecP SetupKeySpec_mem | SetupKeyStatusP SetupKeyStatus_mem | SidecarProfileSpecP SidecarProfileSpec_mem | SidecarProfileStatusP SidecarProfileStatus_mem

datatype struct =
    GroupReferenceS GroupReference_mem | WorkloadOverrideS WorkloadOverride_mem | ContainerOverrideS ContainerOverride_mem
  | OZGroupS OZGroup_mem | OZPolicyS OZPolicy_mem | OZResourceS OZResource_mem | OZRoutingPeerS OZRoutingPeer_mem | OZSetupKeyS OZSetupKey_mem
  | GroupS Group_mem | SetupKeyS SetupKey_mem | NetworkRouterS NetworkRouter_mem | NetworkResourceS NetworkResource_mem
  | SidecarProfileS SidecarProfile_mem
  | OZGroupListS list_mem | OZPolicyListS list_mem | OZResourceListS list_mem | OZRoutingPeerListS list_mem | OZSetupKeyListS list_mem
  | GroupListS list_mem | SetupKeyListS list_mem | NetworkRouterListS list_mem | NetworkResourceListS list_mem | SidecarProfileListS list_mem
  | PartS part

type_synonym memory = "struct heap"

section \<open>Structs in cells\<close>

definition as_GroupReference :: "struct \<Rightarrow> GroupReference_mem option" where
  "as_GroupReference s = (case s of GroupReferenceS m \<Rightarrow> Some m | _ \<Rightarrow> None)"
definition as_WorkloadOverride :: "struct \<Rightarrow> WorkloadOverride_mem option" where
  "as_WorkloadOverride s = (case s of WorkloadOverrideS m \<Rightarrow> Some m | _ \<Rightarrow> None)"
definition as_ContainerOverride :: "struct \<Rightarrow> ContainerOverride_mem option" where
  "as_ContainerOverride s = (case s of ContainerOverrideS m \<Rightarrow> Some m | _ \<Rightarrow> None)"
definition as_OZGroup :: "struct \<Rightarrow> OZGroup_mem option" where
  "as_OZGroup s = (case s of OZGroupS m \<Rightarrow> Some m | _ \<Rightarrow> None)"
definition as_OZPolicy :: "struct \<Rightarrow> OZPolicy_mem option" where
  "as_OZPolicy s = (case s of OZPolicyS m \<Rightarrow> Some m | _ \<Rightarrow> None)"
definition as_OZResource :: "struct \<Rightarrow> OZResource_mem option" where
  "as_OZResource s = (case s of OZResourceS m \<Rightarrow> Some m | _ \<Rightarrow> None)"
definition as_OZRoutingPeer :: "struct \<Rightarrow> OZRoutingPeer_mem option" where
  "as_OZRoutingPeer s = (case s of OZRoutingPeerS m \<Rightarrow> Some m | _ \<Rightarrow> None)"
definition as_OZSetupKey :: "struct \<Rightarrow> OZSetupKey_mem option" where
  "as_OZSetupKey s = (case s of OZSetupKeyS m \<Rightarrow> Some m | _ \<Rightarrow> None)"
definition as_Group :: "struct \<Rightarrow> Group_mem option" where
  "as_Group s = (case s of GroupS m \<Rightarrow> Some m | _ \<Rightarrow> None)"
definition as_SetupKey :: "struct \<Rightarrow> SetupKey_mem option" where
  "as_SetupKey s = (case s of SetupKeyS m \<Rightarrow> Some m | _ \<Rightarrow> None)"
definition as_NetworkRouter :: "struct \<Rightarrow> NetworkRouter_mem option" where
  "as_NetworkRouter s = (case s of NetworkRouterS m \<Rightarrow> Some m | _ \<Rightarrow> None)"
definition as_NetworkResource :: "struct \<Rightarrow> NetworkResource_mem option" where
  "as_NetworkResource s = (case s of NetworkResourceS m \<Rightarrow> Some m | _ \<Rightarrow> None)"
definition as_SidecarProfile :: "struct \<Rightarrow> SidecarProfile_mem option" where
  "as_SidecarProfile s = (case s of SidecarProfileS m \<Rightarrow> Some m | _ \<Rightarrow> None)"
definition as_OZGroupList :: "struct \<Rightarrow> list_mem option" where
  "as_OZGroupList s = (case s of OZGroupListS m \<Rightarrow> Some m | _ \<Rightarrow> None)"
definition as_OZPolicyList :: "struct \<Rightarrow> list_mem option" where
  "as_OZPolicyList s = (case s of OZPolicyListS m \<Rightarrow> Some m | _ \<Rightarrow> None)"
definition as_OZResourceList :: "struct \<Rightarrow> list_mem option" where
  "as_OZResourceList s = (case s of OZResourceListS m \<Rightarrow> Some m | _ \<Rightarrow> None)"
definition as_OZRoutingPeerList :: "struct \<Rightarrow> list_mem option" where
  "as_OZRoutingPeerList s = (case s of OZRoutingPeerListS m \<Rightarrow> Some m | _ \<Rightarrow> None)"
definition as_OZSetupKeyList :: "struct \<Rightarrow> list_mem option" where
  "as_OZSetupKeyList s = (case s of OZSetupKeyListS m \<Rightarrow> Some m | _ \<Rightarrow> None)"
definition as_GroupList :: "struct \<Rightarrow> list_mem option" where
  "as_GroupList s = (case s of GroupListS m \<Rightarrow> Some m | _ \<Rightarrow> None)"
definition as_SetupKeyList :: "struct \<Rightarrow> list_mem option" where
  "as_SetupKeyList s = (case s of SetupKeyListS m \<Rightarrow> Some m | _ \<Rightarrow> None)"
definition as_NetworkRouterList :: "struct \<Rightarrow> list_mem option" where
  "as_NetworkRouterList s = (case s of NetworkRouterListS m \<Rightarrow> Some m | _ \<Rightarrow> None)"
definition as_NetworkResourceList :: "struct \<Rightarrow> list_mem option" where
  "as_NetworkResourceList s = (case s of NetworkResourceListS m \<Rightarrow> Some m | _ \<Rightarrow> None)"
definition as_SidecarProfileList :: "struct \<Rightarrow> list_mem option" where
  "as_SidecarProfileList s = (case s of SidecarProfileListS m \<Rightarrow> Some m | _ \<Rightarrow> None)"

lemma as_tags [simp]:
  "as_GroupReference (GroupReferenceS gr0) = Some gr0"
  "as_WorkloadOverride (WorkloadOverrideS wo1) = Some wo1"
  "as_ContainerOverride (ContainerOverrideS co2) = Some co2"
  "as_OZGroup (OZGroupS oz3) = Some oz3"
  "as_OZPolicy (OZPolicyS oz4) = Some oz4"
  "as_OZResource (OZResourceS oz5) = Some oz5"
  "as_OZRoutingPeer (OZRoutingPeerS oz6) = Some oz6"
  "as_OZSetupKey (OZSetupKeyS oz7) = Some oz7"
  "as_Group (GroupS gr8) = Some gr8"
  "as_SetupKey (SetupKeyS se9) = Some se9"
  "as_NetworkRouter (NetworkRouterS ne10) = Some ne10"
  "as_NetworkResource (NetworkResourceS ne11) = Some ne11"
  "as_SidecarProfile (SidecarProfileS si12) = Some si12"
  "as_OZGroupList (OZGroupListS l) = Some l"
  "as_OZPolicyList (OZPolicyListS l) = Some l"
  "as_OZResourceList (OZResourceListS l) = Some l"
  "as_OZRoutingPeerList (OZRoutingPeerListS l) = Some l"
  "as_OZSetupKeyList (OZSetupKeyListS l) = Some l"
  "as_GroupList (GroupListS l) = Some l"
  "as_SetupKeyList (SetupKeyListS l) = Some l"
  "as_NetworkRouterList (NetworkRouterListS l) = Some l"
  "as_NetworkResourceList (NetworkResourceListS l) = Some l"
  "as_SidecarProfileList (SidecarProfileListS l) = Some l"
  by (simp_all add: as_GroupReference_def as_WorkloadOverride_def as_ContainerOverride_def as_OZGroup_def as_OZPolicy_def as_OZResource_def as_OZRoutingPeer_def as_OZSetupKey_def as_Group_def as_SetupKey_def as_NetworkRouter_def as_NetworkResource_def as_SidecarProfile_def as_OZGroupList_def as_OZPolicyList_def as_OZResourceList_def as_OZRoutingPeerList_def as_OZSetupKeyList_def as_GroupList_def as_SetupKeyList_def as_NetworkRouterList_def as_NetworkResourceList_def as_SidecarProfileList_def)

section \<open>The generated functions\<close>

definition GroupReference_DeepCopyInto :: "GroupReference_mem \<Rightarrow> (memory, GroupReference_mem) state" where
  "GroupReference_DeepCopyInto m = do {
     name \<leftarrow> copy_pointer (mgr_Name m);
     groupID \<leftarrow> copy_pointer (mgr_ID m);
     localRef \<leftarrow> copy_pointer (mgr_LocalRef m);
     State_Monad.return (m\<lparr>mgr_Name := name, mgr_ID := groupID, mgr_LocalRef := localRef\<rparr>)
   }"

definition WorkloadOverride_DeepCopyInto :: "WorkloadOverride_mem \<Rightarrow> (memory, WorkloadOverride_mem) state" where
  "WorkloadOverride_DeepCopyInto m = do {
     labels \<leftarrow> copy_map (mwo_Labels m);
     annotations \<leftarrow> copy_map (mwo_Annotations m);
     replicas \<leftarrow> copy_pointer (mwo_Replicas m);
     podTemplate \<leftarrow> copy_library (mwo_PodTemplate m);
     State_Monad.return (m\<lparr>mwo_Labels := labels, mwo_Annotations := annotations, mwo_Replicas := replicas, mwo_PodTemplate := podTemplate\<rparr>)
   }"

definition ContainerOverride_DeepCopyInto :: "ContainerOverride_mem \<Rightarrow> (memory, ContainerOverride_mem) state" where
  "ContainerOverride_DeepCopyInto m = do {
     env \<leftarrow> copy_library (mco_Env m);
     securityContext \<leftarrow> copy_library (mco_SecurityContext m);
     State_Monad.return (m\<lparr>mco_Env := env, mco_SecurityContext := securityContext\<rparr>)
   }"

definition OZSetupKeySpec_DeepCopyInto :: "OZSetupKeySpec_mem \<Rightarrow> (memory, OZSetupKeySpec_mem) state" where
  "OZSetupKeySpec_DeepCopyInto m = do {
     volumes \<leftarrow> copy_library (mos_Volumes m);
     volumeMounts \<leftarrow> copy_library (mos_VolumeMounts m);
     State_Monad.return (m\<lparr>mos_Volumes := volumes, mos_VolumeMounts := volumeMounts\<rparr>)
   }"

definition NetworkResourceSpec_DeepCopyInto :: "NetworkResourceSpec_mem \<Rightarrow> (memory, NetworkResourceSpec_mem) state" where
  "NetworkResourceSpec_DeepCopyInto m = do {
     groups \<leftarrow> copy_structs GroupReferenceS as_GroupReference GroupReference_DeepCopyInto (mns_Groups m);
     State_Monad.return (m\<lparr>mns_Groups := groups\<rparr>)
   }"

definition SetupKeySpec_DeepCopyInto :: "SetupKeySpec_mem \<Rightarrow> (memory, SetupKeySpec_mem) state" where
  "SetupKeySpec_DeepCopyInto m = do {
     duration \<leftarrow> copy_pointer (msk_Duration m);
     autoGroups \<leftarrow> copy_structs GroupReferenceS as_GroupReference GroupReference_DeepCopyInto (msk_AutoGroups m);
     State_Monad.return (m\<lparr>msk_Duration := duration, msk_AutoGroups := autoGroups\<rparr>)
   }"

definition NetworkRouterSpec_DeepCopyInto :: "NetworkRouterSpec_mem \<Rightarrow> (memory, NetworkRouterSpec_mem) state" where
  "NetworkRouterSpec_DeepCopyInto m = do {
     workloadOverride \<leftarrow> copy_struct WorkloadOverrideS as_WorkloadOverride WorkloadOverride_DeepCopyInto (mnr_WorkloadOverride m);
     State_Monad.return (m\<lparr>mnr_WorkloadOverride := workloadOverride\<rparr>)
   }"

definition SidecarProfileSpec_DeepCopyInto :: "SidecarProfileSpec_mem \<Rightarrow> (memory, SidecarProfileSpec_mem) state" where
  "SidecarProfileSpec_DeepCopyInto m = do {
     podSelector \<leftarrow> copy_library (msp_PodSelector m);
     extraDNSLabels \<leftarrow> copy_slice (msp_ExtraDNSLabels m);
     containerOverride \<leftarrow> copy_struct ContainerOverrideS as_ContainerOverride ContainerOverride_DeepCopyInto (msp_ContainerOverride m);
     State_Monad.return (m\<lparr>msp_PodSelector := podSelector, msp_ExtraDNSLabels := extraDNSLabels, msp_ContainerOverride := containerOverride\<rparr>)
   }"

definition GroupStatus_DeepCopyInto :: "GroupStatus_mem \<Rightarrow> (memory, GroupStatus_mem) state" where
  "GroupStatus_DeepCopyInto m = do { conditions \<leftarrow> copy_library (mgt_Conditions m); State_Monad.return (m\<lparr>mgt_Conditions := conditions\<rparr>) }"

definition SetupKeyStatus_DeepCopyInto :: "SetupKeyStatus_mem \<Rightarrow> (memory, SetupKeyStatus_mem) state" where
  "SetupKeyStatus_DeepCopyInto m = do { conditions \<leftarrow> copy_library (mst_Conditions m); State_Monad.return (m\<lparr>mst_Conditions := conditions\<rparr>) }"

definition NetworkRouterStatus_DeepCopyInto :: "NetworkRouterStatus_mem \<Rightarrow> (memory, NetworkRouterStatus_mem) state" where
  "NetworkRouterStatus_DeepCopyInto m = do { conditions \<leftarrow> copy_library (mnt_Conditions m); State_Monad.return (m\<lparr>mnt_Conditions := conditions\<rparr>) }"

definition NetworkResourceStatus_DeepCopyInto :: "NetworkResourceStatus_mem \<Rightarrow> (memory, NetworkResourceStatus_mem) state" where
  "NetworkResourceStatus_DeepCopyInto m = do { conditions \<leftarrow> copy_library (mnx_Conditions m); State_Monad.return (m\<lparr>mnx_Conditions := conditions\<rparr>) }"

definition SidecarProfileStatus_DeepCopyInto :: "SidecarProfileStatus_mem \<Rightarrow> (memory, SidecarProfileStatus_mem) state" where
  "SidecarProfileStatus_DeepCopyInto m = do { conditions \<leftarrow> copy_library (mpx_Conditions m); State_Monad.return (m\<lparr>mpx_Conditions := conditions\<rparr>) }"

text \<open>The objects.\<close>

definition OZGroup_DeepCopyInto :: "OZGroup_mem \<Rightarrow> (memory, OZGroup_mem) state" where
  "OZGroup_DeepCopyInto m = do { status \<leftarrow> OZGroupStatus_DeepCopyInto (obj_Status m); State_Monad.return (m\<lparr>obj_Status := status\<rparr>) }"

definition OZPolicy_DeepCopyInto :: "OZPolicy_mem \<Rightarrow> (memory, OZPolicy_mem) state" where
  "OZPolicy_DeepCopyInto m = do {
     spec \<leftarrow> OZPolicySpec_DeepCopyInto (obj_Spec m);
     status \<leftarrow> OZPolicyStatus_DeepCopyInto (obj_Status m);
     State_Monad.return (m\<lparr>obj_Spec := spec, obj_Status := status\<rparr>)
   }"

definition OZResource_DeepCopyInto :: "OZResource_mem \<Rightarrow> (memory, OZResource_mem) state" where
  "OZResource_DeepCopyInto m = do {
     spec \<leftarrow> OZResourceSpec_DeepCopyInto (obj_Spec m);
     status \<leftarrow> OZResourceStatus_DeepCopyInto (obj_Status m);
     State_Monad.return (m\<lparr>obj_Spec := spec, obj_Status := status\<rparr>)
   }"

definition OZRoutingPeer_DeepCopyInto :: "OZRoutingPeer_mem \<Rightarrow> (memory, OZRoutingPeer_mem) state" where
  "OZRoutingPeer_DeepCopyInto m = do {
     spec \<leftarrow> OZRoutingPeerSpec_DeepCopyInto (obj_Spec m);
     status \<leftarrow> OZRoutingPeerStatus_DeepCopyInto (obj_Status m);
     State_Monad.return (m\<lparr>obj_Spec := spec, obj_Status := status\<rparr>)
   }"

definition OZSetupKey_DeepCopyInto :: "OZSetupKey_mem \<Rightarrow> (memory, OZSetupKey_mem) state" where
  "OZSetupKey_DeepCopyInto m = do {
     spec \<leftarrow> OZSetupKeySpec_DeepCopyInto (obj_Spec m);
     status \<leftarrow> OZSetupKeyStatus_DeepCopyInto (obj_Status m);
     State_Monad.return (m\<lparr>obj_Spec := spec, obj_Status := status\<rparr>)
   }"

definition Group_DeepCopyInto :: "Group_mem \<Rightarrow> (memory, Group_mem) state" where
  "Group_DeepCopyInto m = do { status \<leftarrow> GroupStatus_DeepCopyInto (obj_Status m); State_Monad.return (m\<lparr>obj_Status := status\<rparr>) }"

definition SetupKey_DeepCopyInto :: "SetupKey_mem \<Rightarrow> (memory, SetupKey_mem) state" where
  "SetupKey_DeepCopyInto m = do {
     spec \<leftarrow> SetupKeySpec_DeepCopyInto (obj_Spec m);
     status \<leftarrow> SetupKeyStatus_DeepCopyInto (obj_Status m);
     State_Monad.return (m\<lparr>obj_Spec := spec, obj_Status := status\<rparr>)
   }"

definition NetworkRouter_DeepCopyInto :: "NetworkRouter_mem \<Rightarrow> (memory, NetworkRouter_mem) state" where
  "NetworkRouter_DeepCopyInto m = do {
     spec \<leftarrow> NetworkRouterSpec_DeepCopyInto (obj_Spec m);
     status \<leftarrow> NetworkRouterStatus_DeepCopyInto (obj_Status m);
     State_Monad.return (m\<lparr>obj_Spec := spec, obj_Status := status\<rparr>)
   }"

definition NetworkResource_DeepCopyInto :: "NetworkResource_mem \<Rightarrow> (memory, NetworkResource_mem) state" where
  "NetworkResource_DeepCopyInto m = do {
     spec \<leftarrow> NetworkResourceSpec_DeepCopyInto (obj_Spec m);
     status \<leftarrow> NetworkResourceStatus_DeepCopyInto (obj_Status m);
     State_Monad.return (m\<lparr>obj_Spec := spec, obj_Status := status\<rparr>)
   }"

definition SidecarProfile_DeepCopyInto :: "SidecarProfile_mem \<Rightarrow> (memory, SidecarProfile_mem) state" where
  "SidecarProfile_DeepCopyInto m = do {
     spec \<leftarrow> SidecarProfileSpec_DeepCopyInto (obj_Spec m);
     status \<leftarrow> SidecarProfileStatus_DeepCopyInto (obj_Status m);
     State_Monad.return (m\<lparr>obj_Spec := spec, obj_Status := status\<rparr>)
   }"

text \<open>The lists.\<close>

definition OZGroupList_DeepCopyInto :: "list_mem \<Rightarrow> (memory, list_mem) state" where
  "OZGroupList_DeepCopyInto m = do {
     items \<leftarrow> copy_structs OZGroupS as_OZGroup OZGroup_DeepCopyInto (lst_Items m);
     State_Monad.return (m\<lparr>lst_Items := items\<rparr>)
   }"

definition OZPolicyList_DeepCopyInto :: "list_mem \<Rightarrow> (memory, list_mem) state" where
  "OZPolicyList_DeepCopyInto m = do {
     items \<leftarrow> copy_structs OZPolicyS as_OZPolicy OZPolicy_DeepCopyInto (lst_Items m);
     State_Monad.return (m\<lparr>lst_Items := items\<rparr>)
   }"

definition OZResourceList_DeepCopyInto :: "list_mem \<Rightarrow> (memory, list_mem) state" where
  "OZResourceList_DeepCopyInto m = do {
     items \<leftarrow> copy_structs OZResourceS as_OZResource OZResource_DeepCopyInto (lst_Items m);
     State_Monad.return (m\<lparr>lst_Items := items\<rparr>)
   }"

definition OZRoutingPeerList_DeepCopyInto :: "list_mem \<Rightarrow> (memory, list_mem) state" where
  "OZRoutingPeerList_DeepCopyInto m = do {
     items \<leftarrow> copy_structs OZRoutingPeerS as_OZRoutingPeer OZRoutingPeer_DeepCopyInto (lst_Items m);
     State_Monad.return (m\<lparr>lst_Items := items\<rparr>)
   }"

definition OZSetupKeyList_DeepCopyInto :: "list_mem \<Rightarrow> (memory, list_mem) state" where
  "OZSetupKeyList_DeepCopyInto m = do {
     items \<leftarrow> copy_structs OZSetupKeyS as_OZSetupKey OZSetupKey_DeepCopyInto (lst_Items m);
     State_Monad.return (m\<lparr>lst_Items := items\<rparr>)
   }"

definition GroupList_DeepCopyInto :: "list_mem \<Rightarrow> (memory, list_mem) state" where
  "GroupList_DeepCopyInto m = do {
     items \<leftarrow> copy_structs GroupS as_Group Group_DeepCopyInto (lst_Items m);
     State_Monad.return (m\<lparr>lst_Items := items\<rparr>)
   }"

definition SetupKeyList_DeepCopyInto :: "list_mem \<Rightarrow> (memory, list_mem) state" where
  "SetupKeyList_DeepCopyInto m = do {
     items \<leftarrow> copy_structs SetupKeyS as_SetupKey SetupKey_DeepCopyInto (lst_Items m);
     State_Monad.return (m\<lparr>lst_Items := items\<rparr>)
   }"

definition NetworkRouterList_DeepCopyInto :: "list_mem \<Rightarrow> (memory, list_mem) state" where
  "NetworkRouterList_DeepCopyInto m = do {
     items \<leftarrow> copy_structs NetworkRouterS as_NetworkRouter NetworkRouter_DeepCopyInto (lst_Items m);
     State_Monad.return (m\<lparr>lst_Items := items\<rparr>)
   }"

definition NetworkResourceList_DeepCopyInto :: "list_mem \<Rightarrow> (memory, list_mem) state" where
  "NetworkResourceList_DeepCopyInto m = do {
     items \<leftarrow> copy_structs NetworkResourceS as_NetworkResource NetworkResource_DeepCopyInto (lst_Items m);
     State_Monad.return (m\<lparr>lst_Items := items\<rparr>)
   }"

definition SidecarProfileList_DeepCopyInto :: "list_mem \<Rightarrow> (memory, list_mem) state" where
  "SidecarProfileList_DeepCopyInto m = do {
     items \<leftarrow> copy_structs SidecarProfileS as_SidecarProfile SidecarProfile_DeepCopyInto (lst_Items m);
     State_Monad.return (m\<lparr>lst_Items := items\<rparr>)
   }"

text \<open>
  \<open>DeepCopy\<close> allocates the copy unless the receiver is nil. \<open>DeepCopyObject\<close> puts the pointer into an interface: \<open>None\<close> is
  the nil interface, and \<open>Some None\<close> would be an interface that holds a nil pointer and is not nil itself.
\<close>

definition OZGroup_DeepCopy :: "ptr \<Rightarrow> (memory, ptr) state" where
  "OZGroup_DeepCopy = copy_struct OZGroupS as_OZGroup OZGroup_DeepCopyInto"
definition OZGroup_DeepCopyObject :: "ptr \<Rightarrow> (memory, ptr option) state" where
  "OZGroup_DeepCopyObject p = do { c \<leftarrow> OZGroup_DeepCopy p; State_Monad.return (if c \<noteq> None then Some c else None) }"
definition OZPolicy_DeepCopy :: "ptr \<Rightarrow> (memory, ptr) state" where
  "OZPolicy_DeepCopy = copy_struct OZPolicyS as_OZPolicy OZPolicy_DeepCopyInto"
definition OZPolicy_DeepCopyObject :: "ptr \<Rightarrow> (memory, ptr option) state" where
  "OZPolicy_DeepCopyObject p = do { c \<leftarrow> OZPolicy_DeepCopy p; State_Monad.return (if c \<noteq> None then Some c else None) }"
definition OZResource_DeepCopy :: "ptr \<Rightarrow> (memory, ptr) state" where
  "OZResource_DeepCopy = copy_struct OZResourceS as_OZResource OZResource_DeepCopyInto"
definition OZResource_DeepCopyObject :: "ptr \<Rightarrow> (memory, ptr option) state" where
  "OZResource_DeepCopyObject p = do { c \<leftarrow> OZResource_DeepCopy p; State_Monad.return (if c \<noteq> None then Some c else None) }"
definition OZRoutingPeer_DeepCopy :: "ptr \<Rightarrow> (memory, ptr) state" where
  "OZRoutingPeer_DeepCopy = copy_struct OZRoutingPeerS as_OZRoutingPeer OZRoutingPeer_DeepCopyInto"
definition OZRoutingPeer_DeepCopyObject :: "ptr \<Rightarrow> (memory, ptr option) state" where
  "OZRoutingPeer_DeepCopyObject p = do { c \<leftarrow> OZRoutingPeer_DeepCopy p; State_Monad.return (if c \<noteq> None then Some c else None) }"
definition OZSetupKey_DeepCopy :: "ptr \<Rightarrow> (memory, ptr) state" where
  "OZSetupKey_DeepCopy = copy_struct OZSetupKeyS as_OZSetupKey OZSetupKey_DeepCopyInto"
definition OZSetupKey_DeepCopyObject :: "ptr \<Rightarrow> (memory, ptr option) state" where
  "OZSetupKey_DeepCopyObject p = do { c \<leftarrow> OZSetupKey_DeepCopy p; State_Monad.return (if c \<noteq> None then Some c else None) }"
definition Group_DeepCopy :: "ptr \<Rightarrow> (memory, ptr) state" where
  "Group_DeepCopy = copy_struct GroupS as_Group Group_DeepCopyInto"
definition Group_DeepCopyObject :: "ptr \<Rightarrow> (memory, ptr option) state" where
  "Group_DeepCopyObject p = do { c \<leftarrow> Group_DeepCopy p; State_Monad.return (if c \<noteq> None then Some c else None) }"
definition SetupKey_DeepCopy :: "ptr \<Rightarrow> (memory, ptr) state" where
  "SetupKey_DeepCopy = copy_struct SetupKeyS as_SetupKey SetupKey_DeepCopyInto"
definition SetupKey_DeepCopyObject :: "ptr \<Rightarrow> (memory, ptr option) state" where
  "SetupKey_DeepCopyObject p = do { c \<leftarrow> SetupKey_DeepCopy p; State_Monad.return (if c \<noteq> None then Some c else None) }"
definition NetworkRouter_DeepCopy :: "ptr \<Rightarrow> (memory, ptr) state" where
  "NetworkRouter_DeepCopy = copy_struct NetworkRouterS as_NetworkRouter NetworkRouter_DeepCopyInto"
definition NetworkRouter_DeepCopyObject :: "ptr \<Rightarrow> (memory, ptr option) state" where
  "NetworkRouter_DeepCopyObject p = do { c \<leftarrow> NetworkRouter_DeepCopy p; State_Monad.return (if c \<noteq> None then Some c else None) }"
definition NetworkResource_DeepCopy :: "ptr \<Rightarrow> (memory, ptr) state" where
  "NetworkResource_DeepCopy = copy_struct NetworkResourceS as_NetworkResource NetworkResource_DeepCopyInto"
definition NetworkResource_DeepCopyObject :: "ptr \<Rightarrow> (memory, ptr option) state" where
  "NetworkResource_DeepCopyObject p = do { c \<leftarrow> NetworkResource_DeepCopy p; State_Monad.return (if c \<noteq> None then Some c else None) }"
definition SidecarProfile_DeepCopy :: "ptr \<Rightarrow> (memory, ptr) state" where
  "SidecarProfile_DeepCopy = copy_struct SidecarProfileS as_SidecarProfile SidecarProfile_DeepCopyInto"
definition SidecarProfile_DeepCopyObject :: "ptr \<Rightarrow> (memory, ptr option) state" where
  "SidecarProfile_DeepCopyObject p = do { c \<leftarrow> SidecarProfile_DeepCopy p; State_Monad.return (if c \<noteq> None then Some c else None) }"
definition OZGroupList_DeepCopy :: "ptr \<Rightarrow> (memory, ptr) state" where
  "OZGroupList_DeepCopy = copy_struct OZGroupListS as_OZGroupList OZGroupList_DeepCopyInto"
definition OZGroupList_DeepCopyObject :: "ptr \<Rightarrow> (memory, ptr option) state" where
  "OZGroupList_DeepCopyObject p = do { c \<leftarrow> OZGroupList_DeepCopy p; State_Monad.return (if c \<noteq> None then Some c else None) }"
definition OZPolicyList_DeepCopy :: "ptr \<Rightarrow> (memory, ptr) state" where
  "OZPolicyList_DeepCopy = copy_struct OZPolicyListS as_OZPolicyList OZPolicyList_DeepCopyInto"
definition OZPolicyList_DeepCopyObject :: "ptr \<Rightarrow> (memory, ptr option) state" where
  "OZPolicyList_DeepCopyObject p = do { c \<leftarrow> OZPolicyList_DeepCopy p; State_Monad.return (if c \<noteq> None then Some c else None) }"
definition OZResourceList_DeepCopy :: "ptr \<Rightarrow> (memory, ptr) state" where
  "OZResourceList_DeepCopy = copy_struct OZResourceListS as_OZResourceList OZResourceList_DeepCopyInto"
definition OZResourceList_DeepCopyObject :: "ptr \<Rightarrow> (memory, ptr option) state" where
  "OZResourceList_DeepCopyObject p = do { c \<leftarrow> OZResourceList_DeepCopy p; State_Monad.return (if c \<noteq> None then Some c else None) }"
definition OZRoutingPeerList_DeepCopy :: "ptr \<Rightarrow> (memory, ptr) state" where
  "OZRoutingPeerList_DeepCopy = copy_struct OZRoutingPeerListS as_OZRoutingPeerList OZRoutingPeerList_DeepCopyInto"
definition OZRoutingPeerList_DeepCopyObject :: "ptr \<Rightarrow> (memory, ptr option) state" where
  "OZRoutingPeerList_DeepCopyObject p = do { c \<leftarrow> OZRoutingPeerList_DeepCopy p; State_Monad.return (if c \<noteq> None then Some c else None) }"
definition OZSetupKeyList_DeepCopy :: "ptr \<Rightarrow> (memory, ptr) state" where
  "OZSetupKeyList_DeepCopy = copy_struct OZSetupKeyListS as_OZSetupKeyList OZSetupKeyList_DeepCopyInto"
definition OZSetupKeyList_DeepCopyObject :: "ptr \<Rightarrow> (memory, ptr option) state" where
  "OZSetupKeyList_DeepCopyObject p = do { c \<leftarrow> OZSetupKeyList_DeepCopy p; State_Monad.return (if c \<noteq> None then Some c else None) }"
definition GroupList_DeepCopy :: "ptr \<Rightarrow> (memory, ptr) state" where
  "GroupList_DeepCopy = copy_struct GroupListS as_GroupList GroupList_DeepCopyInto"
definition GroupList_DeepCopyObject :: "ptr \<Rightarrow> (memory, ptr option) state" where
  "GroupList_DeepCopyObject p = do { c \<leftarrow> GroupList_DeepCopy p; State_Monad.return (if c \<noteq> None then Some c else None) }"
definition SetupKeyList_DeepCopy :: "ptr \<Rightarrow> (memory, ptr) state" where
  "SetupKeyList_DeepCopy = copy_struct SetupKeyListS as_SetupKeyList SetupKeyList_DeepCopyInto"
definition SetupKeyList_DeepCopyObject :: "ptr \<Rightarrow> (memory, ptr option) state" where
  "SetupKeyList_DeepCopyObject p = do { c \<leftarrow> SetupKeyList_DeepCopy p; State_Monad.return (if c \<noteq> None then Some c else None) }"
definition NetworkRouterList_DeepCopy :: "ptr \<Rightarrow> (memory, ptr) state" where
  "NetworkRouterList_DeepCopy = copy_struct NetworkRouterListS as_NetworkRouterList NetworkRouterList_DeepCopyInto"
definition NetworkRouterList_DeepCopyObject :: "ptr \<Rightarrow> (memory, ptr option) state" where
  "NetworkRouterList_DeepCopyObject p = do { c \<leftarrow> NetworkRouterList_DeepCopy p; State_Monad.return (if c \<noteq> None then Some c else None) }"
definition NetworkResourceList_DeepCopy :: "ptr \<Rightarrow> (memory, ptr) state" where
  "NetworkResourceList_DeepCopy = copy_struct NetworkResourceListS as_NetworkResourceList NetworkResourceList_DeepCopyInto"
definition NetworkResourceList_DeepCopyObject :: "ptr \<Rightarrow> (memory, ptr option) state" where
  "NetworkResourceList_DeepCopyObject p = do { c \<leftarrow> NetworkResourceList_DeepCopy p; State_Monad.return (if c \<noteq> None then Some c else None) }"
definition SidecarProfileList_DeepCopy :: "ptr \<Rightarrow> (memory, ptr) state" where
  "SidecarProfileList_DeepCopy = copy_struct SidecarProfileListS as_SidecarProfileList SidecarProfileList_DeepCopyInto"
definition SidecarProfileList_DeepCopyObject :: "ptr \<Rightarrow> (memory, ptr option) state" where
  "SidecarProfileList_DeepCopyObject p = do { c \<leftarrow> SidecarProfileList_DeepCopy p; State_Monad.return (if c \<noteq> None then Some c else None) }"

section \<open>The layouts of the structs\<close>

definition GroupReference_layout :: "(struct, GroupReference_mem, GroupReference) layout" where
  "GroupReference_layout = struct_layout (\<lambda>m. (mgr_Name m, mgr_ID m, mgr_LocalRef m))
     (\<lambda>m (a, b, c). m\<lparr>mgr_Name := a, mgr_ID := b, mgr_LocalRef := c\<rparr>) (\<lambda>_ (a, b, c). \<lparr>gref_Name = a, gref_ID = b, gref_LocalRef = c\<rparr>)
     (pair_layout (pointer_layout string_of (\<lambda>c. c)) (pair_layout (pointer_layout string_of (\<lambda>c. c)) (pointer_layout string_of (\<lambda>c. c))))"

definition WorkloadOverride_layout :: "(struct, WorkloadOverride_mem, WorkloadOverride) layout" where
  "WorkloadOverride_layout = struct_layout (\<lambda>m. (mwo_Labels m, mwo_Annotations m, mwo_Replicas m, mwo_PodTemplate m))
     (\<lambda>m (a, b, c, d). m\<lparr>mwo_Labels := a, mwo_Annotations := b, mwo_Replicas := c, mwo_PodTemplate := d\<rparr>)
     (\<lambda>_ (a, b, c, d). \<lparr>wo_Labels = a, wo_Annotations = b, wo_Replicas = c, wo_PodTemplate = d\<rparr>)
     (pair_layout (pointer_layout entries_of copy_entries) (pair_layout (pointer_layout entries_of copy_entries)
       (pair_layout (pointer_layout int32_of (\<lambda>c. c)) (pointer_layout string_of (\<lambda>c. c)))))"

definition ContainerOverride_layout :: "(struct, ContainerOverride_mem, ContainerOverride) layout" where
  "ContainerOverride_layout = struct_layout (\<lambda>m. (mco_Env m, mco_SecurityContext m)) (\<lambda>m (a, b). m\<lparr>mco_Env := a, mco_SecurityContext := b\<rparr>)
     (\<lambda>m (a, b). \<lparr>co_Image = mco_Image m, co_Env = a, co_SecurityContext = b\<rparr>)
     (pair_layout (slice_layout env_vars_of (\<lambda>c. c)) (pointer_layout security_context_of (\<lambda>c. c)))"

definition OZSetupKeySpec_layout :: "(struct, OZSetupKeySpec_mem, OZSetupKeySpec) layout" where
  "OZSetupKeySpec_layout = struct_layout (\<lambda>m. (mos_Volumes m, mos_VolumeMounts m)) (\<lambda>m (a, b). m\<lparr>mos_Volumes := a, mos_VolumeMounts := b\<rparr>)
     (\<lambda>m (a, b). \<lparr>osk_SecretKeyRef = mos_SecretKeyRef m, osk_ManagementURL = mos_ManagementURL m, osk_Volumes = a, osk_VolumeMounts = b\<rparr>)
     (pair_layout (slice_layout strings_of (\<lambda>c. c)) (slice_layout strings_of (\<lambda>c. c)))"

text \<open>A nil slice and an empty one are one value.\<close>

definition elements :: "'a list option \<Rightarrow> 'a list" where
  "elements x = (case x of None \<Rightarrow> [] | Some xs \<Rightarrow> xs)"

definition NetworkResourceSpec_layout :: "(struct, NetworkResourceSpec_mem, NetworkResourceSpec) layout" where
  "NetworkResourceSpec_layout = struct_layout mns_Groups (\<lambda>m a. m\<lparr>mns_Groups := a\<rparr>)
     (\<lambda>m a. \<lparr>nrs_NetworkRouterRef = mns_NetworkRouterRef m, nrs_ServiceRef = mns_ServiceRef m, nrs_Groups = elements a\<rparr>)
     (structs_at GroupReferenceS as_GroupReference GroupReference_layout)"

definition SetupKeySpec_layout :: "(struct, SetupKeySpec_mem, SetupKeySpec) layout" where
  "SetupKeySpec_layout = struct_layout (\<lambda>m. (msk_Duration m, msk_AutoGroups m)) (\<lambda>m (a, b). m\<lparr>msk_Duration := a, msk_AutoGroups := b\<rparr>)
     (\<lambda>m (a, b). \<lparr>sk_Name = msk_Name m, sk_Ephemeral = msk_Ephemeral m, sk_Duration = a, sk_AutoGroups = elements b\<rparr>)
     (pair_layout (pointer_layout duration_of (\<lambda>c. c)) (structs_at GroupReferenceS as_GroupReference GroupReference_layout))"

definition NetworkRouterSpec_layout :: "(struct, NetworkRouterSpec_mem, NetworkRouterSpec) layout" where
  "NetworkRouterSpec_layout = struct_layout mnr_WorkloadOverride (\<lambda>m a. m\<lparr>mnr_WorkloadOverride := a\<rparr>)
     (\<lambda>m a. \<lparr>nro_DNSZoneRef = mnr_DNSZoneRef m, nro_WorkloadOverride = a\<rparr>)
     (struct_at WorkloadOverrideS as_WorkloadOverride WorkloadOverride_layout)"

definition SidecarProfileSpec_layout :: "(struct, SidecarProfileSpec_mem, SidecarProfileSpec) layout" where
  "SidecarProfileSpec_layout = struct_layout (\<lambda>m. (msp_PodSelector m, msp_ExtraDNSLabels m, msp_ContainerOverride m))
     (\<lambda>m (a, b, c). m\<lparr>msp_PodSelector := a, msp_ExtraDNSLabels := b, msp_ContainerOverride := c\<rparr>)
     (\<lambda>m (a, b, c). \<lparr>sp_SetupKeyRef = msp_SetupKeyRef m, sp_PodSelector = a, sp_InjectionMode = msp_InjectionMode m,
        sp_ExtraDNSLabels = b, sp_ContainerOverride = c\<rparr>)
     (pair_layout (pointer_layout label_selector_of (\<lambda>c. c)) (pair_layout (slice_layout strings_of (\<lambda>c. c))
       (struct_at ContainerOverrideS as_ContainerOverride ContainerOverride_layout)))"

text \<open>The value of a status: its conditions, and the other fields.\<close>

definition GroupStatus_layout :: "(struct, GroupStatus_mem, Condition list \<times> string list) layout" where
  "GroupStatus_layout = struct_layout mgt_Conditions (\<lambda>m a. m\<lparr>mgt_Conditions := a\<rparr>) (\<lambda>m a. (a, [mgt_GroupID m]))
     (slice_layout meta_conditions_of (\<lambda>c. c))"

definition SetupKeyStatus_layout :: "(struct, SetupKeyStatus_mem, Condition list \<times> string list) layout" where
  "SetupKeyStatus_layout = struct_layout mst_Conditions (\<lambda>m a. m\<lparr>mst_Conditions := a\<rparr>) (\<lambda>m a. (a, [mst_SetupKeyID m]))
     (slice_layout meta_conditions_of (\<lambda>c. c))"

definition NetworkRouterStatus_layout :: "(struct, NetworkRouterStatus_mem, Condition list \<times> string list) layout" where
  "NetworkRouterStatus_layout = struct_layout mnt_Conditions (\<lambda>m a. m\<lparr>mnt_Conditions := a\<rparr>) (\<lambda>m a. (a, [mnt_RoutingPeerID m, mnt_NetworkID m]))
     (slice_layout meta_conditions_of (\<lambda>c. c))"

definition NetworkResourceStatus_layout :: "(struct, NetworkResourceStatus_mem, Condition list \<times> string list) layout" where
  "NetworkResourceStatus_layout = struct_layout mnx_Conditions (\<lambda>m a. m\<lparr>mnx_Conditions := a\<rparr>) (\<lambda>m a. (a, [mnx_NetworkID m, mnx_ResourceID m, mnx_DNSZoneID m, mnx_DNSRecordID m]))
     (slice_layout meta_conditions_of (\<lambda>c. c))"

definition SidecarProfileStatus_layout :: "(struct, SidecarProfileStatus_mem, Condition list \<times> string list) layout" where
  "SidecarProfileStatus_layout = struct_layout mpx_Conditions (\<lambda>m a. m\<lparr>mpx_Conditions := a\<rparr>) (\<lambda>m a. (a, []))
     (slice_layout meta_conditions_of (\<lambda>c. c))"

text \<open>The value of an object is the object with its spec and status as values.\<close>

definition object_layout ::
  "('s, 'spec, 'v) layout \<Rightarrow> ('s, 'status, 'w) layout \<Rightarrow> ('s, ('spec, 'status) object_mem, ('v, 'w) object_mem) layout" where
  "object_layout S T = struct_layout (\<lambda>m. (obj_Spec m, obj_Status m)) (\<lambda>m (a, b). m\<lparr>obj_Spec := a, obj_Status := b\<rparr>)
     (\<lambda>m (a, b). \<lparr>obj_TypeMeta = obj_TypeMeta m, obj_ObjectMeta = obj_ObjectMeta m, obj_Spec = a, obj_Status = b\<rparr>) (pair_layout S T)"

definition objects_layout :: "('m \<Rightarrow> 's) \<Rightarrow> ('s \<Rightarrow> 'm option) \<Rightarrow> ('s, 'm, 'v) layout \<Rightarrow> ('s, list_mem, TypeMeta \<times> string \<times> 'v list) layout" where
  "objects_layout tag prj L = struct_layout lst_Items (\<lambda>m a. m\<lparr>lst_Items := a\<rparr>) (\<lambda>m a. (lst_TypeMeta m, lst_ListMeta m, elements a))
     (structs_at tag prj L)"

lemma objects_lawful:
  "lawful_layout S \<Longrightarrow> lawful_layout T \<Longrightarrow> lawful_layout (object_layout S T)"
  "lawful_layout L \<Longrightarrow> (\<And>m. prj (tag m) = Some m) \<Longrightarrow> lawful_layout (objects_layout tag prj L)"
  unfolding object_layout_def objects_layout_def by (intro struct_lawful pair_lawful boxes_lawful; auto)+

definition OZGroup_layout :: "(struct, OZGroup_mem, (OZGroupSpec, OZGroupStatus) object_mem) layout" where
  "OZGroup_layout = object_layout value_layout (flat_layout OZGroupStatus_DeepCopyInto OZGroupStatus_ptrs OZGroupStatus_val)"
definition OZPolicy_layout :: "(struct, OZPolicy_mem, (OZPolicySpec, OZPolicyStatus) object_mem) layout" where
  "OZPolicy_layout = object_layout (flat_layout OZPolicySpec_DeepCopyInto OZPolicySpec_ptrs OZPolicySpec_val) (flat_layout OZPolicyStatus_DeepCopyInto OZPolicyStatus_ptrs OZPolicyStatus_val)"
definition OZResource_layout :: "(struct, OZResource_mem, (OZResourceSpec, OZResourceStatus) object_mem) layout" where
  "OZResource_layout = object_layout (flat_layout OZResourceSpec_DeepCopyInto OZResourceSpec_ptrs OZResourceSpec_val) (flat_layout OZResourceStatus_DeepCopyInto OZResourceStatus_ptrs OZResourceStatus_val)"
definition OZRoutingPeer_layout :: "(struct, OZRoutingPeer_mem, (OZRoutingPeerSpec, OZRoutingPeerStatus) object_mem) layout" where
  "OZRoutingPeer_layout = object_layout (flat_layout OZRoutingPeerSpec_DeepCopyInto OZRoutingPeerSpec_ptrs OZRoutingPeerSpec_val) (flat_layout OZRoutingPeerStatus_DeepCopyInto OZRoutingPeerStatus_ptrs OZRoutingPeerStatus_val)"
definition OZSetupKey_layout :: "(struct, OZSetupKey_mem, (OZSetupKeySpec, OZSetupKeyStatus) object_mem) layout" where
  "OZSetupKey_layout = object_layout OZSetupKeySpec_layout (flat_layout OZSetupKeyStatus_DeepCopyInto OZSetupKeyStatus_ptrs OZSetupKeyStatus_val)"
definition Group_layout :: "(struct, Group_mem, (string, Condition list \<times> string list) object_mem) layout" where
  "Group_layout = object_layout value_layout GroupStatus_layout"
definition SetupKey_layout :: "(struct, SetupKey_mem, (SetupKeySpec, Condition list \<times> string list) object_mem) layout" where
  "SetupKey_layout = object_layout SetupKeySpec_layout SetupKeyStatus_layout"
definition NetworkRouter_layout :: "(struct, NetworkRouter_mem, (NetworkRouterSpec, Condition list \<times> string list) object_mem) layout" where
  "NetworkRouter_layout = object_layout NetworkRouterSpec_layout NetworkRouterStatus_layout"
definition NetworkResource_layout :: "(struct, NetworkResource_mem, (NetworkResourceSpec, Condition list \<times> string list) object_mem) layout" where
  "NetworkResource_layout = object_layout NetworkResourceSpec_layout NetworkResourceStatus_layout"
definition SidecarProfile_layout :: "(struct, SidecarProfile_mem, (SidecarProfileSpec, Condition list \<times> string list) object_mem) layout" where
  "SidecarProfile_layout = object_layout SidecarProfileSpec_layout SidecarProfileStatus_layout"

lemmas inner_layouts = GroupReference_layout_def WorkloadOverride_layout_def ContainerOverride_layout_def
lemmas part_layouts = OZSetupKeySpec_layout_def NetworkResourceSpec_layout_def SetupKeySpec_layout_def NetworkRouterSpec_layout_def SidecarProfileSpec_layout_def GroupStatus_layout_def SetupKeyStatus_layout_def NetworkRouterStatus_layout_def NetworkResourceStatus_layout_def SidecarProfileStatus_layout_def
lemmas part_copies = GroupReference_DeepCopyInto_def WorkloadOverride_DeepCopyInto_def ContainerOverride_DeepCopyInto_def OZSetupKeySpec_DeepCopyInto_def NetworkResourceSpec_DeepCopyInto_def SetupKeySpec_DeepCopyInto_def NetworkRouterSpec_DeepCopyInto_def SidecarProfileSpec_DeepCopyInto_def GroupStatus_DeepCopyInto_def SetupKeyStatus_DeepCopyInto_def NetworkRouterStatus_DeepCopyInto_def NetworkResourceStatus_DeepCopyInto_def SidecarProfileStatus_DeepCopyInto_def

lemmas lawful_intros = struct_lawful pair_lawful pointer_lawful boxes_lawful value_lawful objects_lawful

text \<open>The layouts are those of the generated functions.\<close>

lemma lay_copy_simps:
  "lay_copy (flat_layout copy ptrs val) = copy" "lay_copy (pointer_layout sel f1) = copy_with f1" "lay_copy (slice_layout sel' f2) = copy_with f2"
  "lay_copy value_layout = State_Monad.return"
  "lay_copy (struct_at tag prj L1) = copy_struct tag prj (lay_copy L1)" "lay_copy (structs_at tag' prj' L2) = copy_structs tag' prj' (lay_copy L2)"
  "lay_copy (pair_layout L3 K) (m, n) = do { m' \<leftarrow> lay_copy L3 m; n' \<leftarrow> lay_copy K n; State_Monad.return (m', n') }"
  "lay_copy (struct_layout parts build f' L4) z = do { x \<leftarrow> lay_copy L4 (parts z); State_Monad.return (build z x) }"
  by (simp_all add: flat_layout_def pointer_layout_def slice_layout_def value_layout_def struct_at_def structs_at_def box_layout_def
      list_layout_def copy_struct_def copy_structs_def pair_layout_def struct_layout_def)


lemma part_copy [simp]:
  "lay_copy GroupReference_layout = GroupReference_DeepCopyInto"
  "lay_copy WorkloadOverride_layout = WorkloadOverride_DeepCopyInto"
  "lay_copy ContainerOverride_layout = ContainerOverride_DeepCopyInto"
  "lay_copy OZSetupKeySpec_layout = OZSetupKeySpec_DeepCopyInto"
  "lay_copy NetworkResourceSpec_layout = NetworkResourceSpec_DeepCopyInto"
  "lay_copy SetupKeySpec_layout = SetupKeySpec_DeepCopyInto"
  "lay_copy NetworkRouterSpec_layout = NetworkRouterSpec_DeepCopyInto"
  "lay_copy SidecarProfileSpec_layout = SidecarProfileSpec_DeepCopyInto"
  "lay_copy GroupStatus_layout = GroupStatus_DeepCopyInto"
  "lay_copy SetupKeyStatus_layout = SetupKeyStatus_DeepCopyInto"
  "lay_copy NetworkRouterStatus_layout = NetworkRouterStatus_DeepCopyInto"
  "lay_copy NetworkResourceStatus_layout = NetworkResourceStatus_DeepCopyInto"
  "lay_copy SidecarProfileStatus_layout = SidecarProfileStatus_DeepCopyInto"
proof -
  show g: "lay_copy GroupReference_layout = GroupReference_DeepCopyInto"
    and w: "lay_copy WorkloadOverride_layout = WorkloadOverride_DeepCopyInto"
    and c: "lay_copy ContainerOverride_layout = ContainerOverride_DeepCopyInto"
    by (rule ext, simp add: inner_layouts part_copies lay_copy_simps copy_shapes)+
  show "lay_copy OZSetupKeySpec_layout = OZSetupKeySpec_DeepCopyInto" "lay_copy NetworkResourceSpec_layout = NetworkResourceSpec_DeepCopyInto" "lay_copy SetupKeySpec_layout = SetupKeySpec_DeepCopyInto" "lay_copy NetworkRouterSpec_layout = NetworkRouterSpec_DeepCopyInto" "lay_copy SidecarProfileSpec_layout = SidecarProfileSpec_DeepCopyInto" "lay_copy GroupStatus_layout = GroupStatus_DeepCopyInto" "lay_copy SetupKeyStatus_layout = SetupKeyStatus_DeepCopyInto" "lay_copy NetworkRouterStatus_layout = NetworkRouterStatus_DeepCopyInto" "lay_copy NetworkResourceStatus_layout = NetworkResourceStatus_DeepCopyInto" "lay_copy SidecarProfileStatus_layout = SidecarProfileStatus_DeepCopyInto"
    by (rule ext, simp add: part_layouts part_copies lay_copy_simps copy_shapes g w c)+
qed

lemma inner_lawful:
  "lawful_layout GroupReference_layout" "lawful_layout WorkloadOverride_layout" "lawful_layout ContainerOverride_layout"
  unfolding inner_layouts by (rule struct_lawful, (intro lawful_intros; simp)[1], simp add: split_beta, simp add: split_beta)+

lemma part_lawful:
  "lawful_layout OZSetupKeySpec_layout"
  "lawful_layout NetworkResourceSpec_layout"
  "lawful_layout SetupKeySpec_layout"
  "lawful_layout NetworkRouterSpec_layout"
  "lawful_layout SidecarProfileSpec_layout"
  "lawful_layout GroupStatus_layout"
  "lawful_layout SetupKeyStatus_layout"
  "lawful_layout NetworkRouterStatus_layout"
  "lawful_layout NetworkResourceStatus_layout"
  "lawful_layout SidecarProfileStatus_layout"
  unfolding part_layouts by (rule struct_lawful, (intro lawful_intros inner_lawful; simp)[1], simp add: split_beta, simp add: split_beta)+

lemma object_copy_eq [simp]:
  "lay_copy OZGroup_layout = OZGroup_DeepCopyInto"
  "lay_copy OZPolicy_layout = OZPolicy_DeepCopyInto"
  "lay_copy OZResource_layout = OZResource_DeepCopyInto"
  "lay_copy OZRoutingPeer_layout = OZRoutingPeer_DeepCopyInto"
  "lay_copy OZSetupKey_layout = OZSetupKey_DeepCopyInto"
  "lay_copy Group_layout = Group_DeepCopyInto"
  "lay_copy SetupKey_layout = SetupKey_DeepCopyInto"
  "lay_copy NetworkRouter_layout = NetworkRouter_DeepCopyInto"
  "lay_copy NetworkResource_layout = NetworkResource_DeepCopyInto"
  "lay_copy SidecarProfile_layout = SidecarProfile_DeepCopyInto"
  by (rule ext, simp add: OZGroup_layout_def OZPolicy_layout_def OZResource_layout_def OZRoutingPeer_layout_def OZSetupKey_layout_def Group_layout_def SetupKey_layout_def NetworkRouter_layout_def NetworkResource_layout_def SidecarProfile_layout_def object_layout_def lay_copy_simps
      OZGroup_DeepCopyInto_def OZPolicy_DeepCopyInto_def OZResource_DeepCopyInto_def OZRoutingPeer_DeepCopyInto_def OZSetupKey_DeepCopyInto_def Group_DeepCopyInto_def SetupKey_DeepCopyInto_def NetworkRouter_DeepCopyInto_def NetworkResource_DeepCopyInto_def SidecarProfile_DeepCopyInto_def)+

lemma object_lawful:
  "lawful_layout OZGroup_layout"
  "lawful_layout OZPolicy_layout"
  "lawful_layout OZResource_layout"
  "lawful_layout OZRoutingPeer_layout"
  "lawful_layout OZSetupKey_layout"
  "lawful_layout Group_layout"
  "lawful_layout SetupKey_layout"
  "lawful_layout NetworkRouter_layout"
  "lawful_layout NetworkResource_layout"
  "lawful_layout SidecarProfile_layout"
  unfolding OZGroup_layout_def OZPolicy_layout_def OZResource_layout_def OZRoutingPeer_layout_def OZSetupKey_layout_def Group_layout_def SetupKey_layout_def NetworkRouter_layout_def NetworkResource_layout_def SidecarProfile_layout_def
  by (intro objects_lawful value_lawful part_lawful policy_spec.flat_lawful resource_spec.flat_lawful peer_spec.flat_lawful group_status.flat_lawful policy_status.flat_lawful resource_status.flat_lawful peer_status.flat_lawful setup_key_status.flat_lawful)+

lemma list_copy_eq:
  assumes "\<And>m. into m = do { items \<leftarrow> copy_structs tag prj (lay_copy L) (lst_Items m); State_Monad.return (m\<lparr>lst_Items := items\<rparr>) }"
  shows "lay_copy (objects_layout tag prj L) = into"
  by (rule ext) (simp add: assms objects_layout_def lay_copy_simps)

section \<open>Copies are independent\<close>

text \<open>
  \<open>copy\<close> of a pointer to a struct with the layout \<open>L\<close>, for a pointer whose memory is well formed: nil gives nil; otherwise the
  copy is a new struct, nothing in the old memory has changed, everything reached from the copy is new, and as long as this
  is not written to, the copy has the value that the original had, whatever is written anywhere else; and the
  other way round. \<open>copyObject\<close> gives the same pointer in an interface, and the nil interface for nil.
\<close>

definition independent_copy ::
  "('m \<Rightarrow> struct) \<Rightarrow> (struct \<Rightarrow> 'm option) \<Rightarrow> (struct, 'm, 'v) layout \<Rightarrow>
     (ptr \<Rightarrow> (memory, ptr) state) \<Rightarrow> (ptr \<Rightarrow> (memory, ptr option) state) \<Rightarrow> bool" where
  "independent_copy tag prj L copy copyObject \<longleftrightarrow> (\<forall>h p q h'.
     lay_ok (struct_at tag prj L) h p \<and> run_state (copy p) h = (q, h') \<longrightarrow>
       (p = None \<longrightarrow> q = None \<and> h' = h) \<and> (p \<noteq> None \<longrightarrow> q = Some (length h)) \<and>
       take (length h) h' = h \<and> lay_ok (struct_at tag prj L) h' q \<and>
       lay_reach (struct_at tag prj L) h p \<subseteq> {..< length h} \<and> lay_reach (struct_at tag prj L) h' q \<subseteq> {length h ..< length h'} \<and>
       (\<forall>h2. (\<forall>a \<in> lay_reach (struct_at tag prj L) h' q. h2 ! a = h' ! a) \<longrightarrow>
          lay_val (struct_at tag prj L) h2 q = lay_val (struct_at tag prj L) h p) \<and>
       (\<forall>h2. (\<forall>a \<in> lay_reach (struct_at tag prj L) h p. h2 ! a = h ! a) \<longrightarrow>
          lay_val (struct_at tag prj L) h2 p = lay_val (struct_at tag prj L) h p) \<and>
       run_state (copyObject p) h = (if p = None then None else Some q, h'))"

lemma copy_struct_address:
  assumes "run_state (copy_struct tag prj into p) h = (q, h')"
  shows "(p = None \<longrightarrow> q = None \<and> h' = h) \<and> (p \<noteq> None \<longrightarrow> q = Some (length h))"
  using assms
  by (auto simp: copy_struct_def copy_box_def read_cell_def alloc_def write_cell_def split: option.splits prod.splits)

lemma independentI:
  assumes L: "lawful_layout L" and prj: "\<And>m. prj (tag m) = Some m" and copy: "copy = copy_struct tag prj (lay_copy L)"
    and obj: "\<And>p. copyObject p = do { c \<leftarrow> copy p; State_Monad.return (if c \<noteq> None then Some c else None) }"
  shows "independent_copy tag prj L copy copyObject"
  unfolding independent_copy_def
proof (intro allI impI, elim conjE)
  fix h p q h'
  let ?P = "struct_at tag prj L"
  assume o: "lay_ok ?P h p" and r: "run_state (copy p) h = (q, h')"
  have P: "object_copy (lay_copy ?P) (lay_reach ?P) (lay_val ?P) (lay_ok ?P)"
    using boxes_lawful(1) [OF L prj] by (simp add: lawful_layout_def)
  have r': "run_state (lay_copy ?P p) h = (q, h')" using r by (simp add: copy lay_copy_simps)
  have q: "(p = None \<longrightarrow> q = None \<and> h' = h) \<and> (p \<noteq> None \<longrightarrow> q = Some (length h))" using copy_struct_address r copy by blast
  from object_copy.copies [OF P o r'] obtain new where c: "h' = h @ new" "lay_ok ?P h' q"
    "lay_reach ?P h' q \<subseteq> {length h ..< length h'}" "lay_val ?P h' q = lay_val ?P h p" by (auto simp: extends_def)
  have "run_state (copyObject p) h = (if p = None then None else Some q, h')"
    using q r by (cases p) (auto simp: obj)
  moreover have "lay_val ?P h2 q = lay_val ?P h p" if "\<forall>a \<in> lay_reach ?P h' q. h2 ! a = h' ! a" for h2
    using object_copy.val_local [OF P, of h' q h2] that c(4) by simp
  moreover have "lay_val ?P h2 p = lay_val ?P h p" if "\<forall>a \<in> lay_reach ?P h p. h2 ! a = h ! a" for h2
    using object_copy.val_local [OF P, of h p h2] that by simp
  moreover have "take (length h) h' = h" by (simp add: c(1))
  ultimately show "(p = None \<longrightarrow> q = None \<and> h' = h) \<and> (p \<noteq> None \<longrightarrow> q = Some (length h)) \<and>
       take (length h) h' = h \<and> lay_ok ?P h' q \<and> lay_reach ?P h p \<subseteq> {..< length h} \<and> lay_reach ?P h' q \<subseteq> {length h ..< length h'} \<and>
       (\<forall>h2. (\<forall>a \<in> lay_reach ?P h' q. h2 ! a = h' ! a) \<longrightarrow> lay_val ?P h2 q = lay_val ?P h p) \<and>
       (\<forall>h2. (\<forall>a \<in> lay_reach ?P h p. h2 ! a = h ! a) \<longrightarrow> lay_val ?P h2 p = lay_val ?P h p) \<and>
       run_state (copyObject p) h = (if p = None then None else Some q, h')"
    using q c(2, 3) object_copy.reach_bounded [OF P o] by (intro conjI) blast+
qed

lemma OZGroup_copies:
  "independent_copy OZGroupS as_OZGroup OZGroup_layout OZGroup_DeepCopy OZGroup_DeepCopyObject"
  "independent_copy OZGroupListS as_OZGroupList (objects_layout OZGroupS as_OZGroup OZGroup_layout) OZGroupList_DeepCopy OZGroupList_DeepCopyObject"
proof -
  show "independent_copy OZGroupS as_OZGroup OZGroup_layout OZGroup_DeepCopy OZGroup_DeepCopyObject"
    by (rule independentI [OF object_lawful(1)]) (simp_all add: OZGroup_DeepCopy_def OZGroup_DeepCopyObject_def)
  have "lay_copy (objects_layout OZGroupS as_OZGroup OZGroup_layout) = OZGroupList_DeepCopyInto"
    by (rule list_copy_eq) (simp add: OZGroupList_DeepCopyInto_def)
  then show "independent_copy OZGroupListS as_OZGroupList (objects_layout OZGroupS as_OZGroup OZGroup_layout) OZGroupList_DeepCopy OZGroupList_DeepCopyObject"
    by (intro independentI objects_lawful(2) object_lawful(1)) (simp_all add: OZGroupList_DeepCopy_def OZGroupList_DeepCopyObject_def)
qed

lemma OZPolicy_copies:
  "independent_copy OZPolicyS as_OZPolicy OZPolicy_layout OZPolicy_DeepCopy OZPolicy_DeepCopyObject"
  "independent_copy OZPolicyListS as_OZPolicyList (objects_layout OZPolicyS as_OZPolicy OZPolicy_layout) OZPolicyList_DeepCopy OZPolicyList_DeepCopyObject"
proof -
  show "independent_copy OZPolicyS as_OZPolicy OZPolicy_layout OZPolicy_DeepCopy OZPolicy_DeepCopyObject"
    by (rule independentI [OF object_lawful(2)]) (simp_all add: OZPolicy_DeepCopy_def OZPolicy_DeepCopyObject_def)
  have "lay_copy (objects_layout OZPolicyS as_OZPolicy OZPolicy_layout) = OZPolicyList_DeepCopyInto"
    by (rule list_copy_eq) (simp add: OZPolicyList_DeepCopyInto_def)
  then show "independent_copy OZPolicyListS as_OZPolicyList (objects_layout OZPolicyS as_OZPolicy OZPolicy_layout) OZPolicyList_DeepCopy OZPolicyList_DeepCopyObject"
    by (intro independentI objects_lawful(2) object_lawful(2)) (simp_all add: OZPolicyList_DeepCopy_def OZPolicyList_DeepCopyObject_def)
qed

lemma OZResource_copies:
  "independent_copy OZResourceS as_OZResource OZResource_layout OZResource_DeepCopy OZResource_DeepCopyObject"
  "independent_copy OZResourceListS as_OZResourceList (objects_layout OZResourceS as_OZResource OZResource_layout) OZResourceList_DeepCopy OZResourceList_DeepCopyObject"
proof -
  show "independent_copy OZResourceS as_OZResource OZResource_layout OZResource_DeepCopy OZResource_DeepCopyObject"
    by (rule independentI [OF object_lawful(3)]) (simp_all add: OZResource_DeepCopy_def OZResource_DeepCopyObject_def)
  have "lay_copy (objects_layout OZResourceS as_OZResource OZResource_layout) = OZResourceList_DeepCopyInto"
    by (rule list_copy_eq) (simp add: OZResourceList_DeepCopyInto_def)
  then show "independent_copy OZResourceListS as_OZResourceList (objects_layout OZResourceS as_OZResource OZResource_layout) OZResourceList_DeepCopy OZResourceList_DeepCopyObject"
    by (intro independentI objects_lawful(2) object_lawful(3)) (simp_all add: OZResourceList_DeepCopy_def OZResourceList_DeepCopyObject_def)
qed

lemma OZRoutingPeer_copies:
  "independent_copy OZRoutingPeerS as_OZRoutingPeer OZRoutingPeer_layout OZRoutingPeer_DeepCopy OZRoutingPeer_DeepCopyObject"
  "independent_copy OZRoutingPeerListS as_OZRoutingPeerList (objects_layout OZRoutingPeerS as_OZRoutingPeer OZRoutingPeer_layout) OZRoutingPeerList_DeepCopy OZRoutingPeerList_DeepCopyObject"
proof -
  show "independent_copy OZRoutingPeerS as_OZRoutingPeer OZRoutingPeer_layout OZRoutingPeer_DeepCopy OZRoutingPeer_DeepCopyObject"
    by (rule independentI [OF object_lawful(4)]) (simp_all add: OZRoutingPeer_DeepCopy_def OZRoutingPeer_DeepCopyObject_def)
  have "lay_copy (objects_layout OZRoutingPeerS as_OZRoutingPeer OZRoutingPeer_layout) = OZRoutingPeerList_DeepCopyInto"
    by (rule list_copy_eq) (simp add: OZRoutingPeerList_DeepCopyInto_def)
  then show "independent_copy OZRoutingPeerListS as_OZRoutingPeerList (objects_layout OZRoutingPeerS as_OZRoutingPeer OZRoutingPeer_layout) OZRoutingPeerList_DeepCopy OZRoutingPeerList_DeepCopyObject"
    by (intro independentI objects_lawful(2) object_lawful(4)) (simp_all add: OZRoutingPeerList_DeepCopy_def OZRoutingPeerList_DeepCopyObject_def)
qed

lemma OZSetupKey_copies:
  "independent_copy OZSetupKeyS as_OZSetupKey OZSetupKey_layout OZSetupKey_DeepCopy OZSetupKey_DeepCopyObject"
  "independent_copy OZSetupKeyListS as_OZSetupKeyList (objects_layout OZSetupKeyS as_OZSetupKey OZSetupKey_layout) OZSetupKeyList_DeepCopy OZSetupKeyList_DeepCopyObject"
proof -
  show "independent_copy OZSetupKeyS as_OZSetupKey OZSetupKey_layout OZSetupKey_DeepCopy OZSetupKey_DeepCopyObject"
    by (rule independentI [OF object_lawful(5)]) (simp_all add: OZSetupKey_DeepCopy_def OZSetupKey_DeepCopyObject_def)
  have "lay_copy (objects_layout OZSetupKeyS as_OZSetupKey OZSetupKey_layout) = OZSetupKeyList_DeepCopyInto"
    by (rule list_copy_eq) (simp add: OZSetupKeyList_DeepCopyInto_def)
  then show "independent_copy OZSetupKeyListS as_OZSetupKeyList (objects_layout OZSetupKeyS as_OZSetupKey OZSetupKey_layout) OZSetupKeyList_DeepCopy OZSetupKeyList_DeepCopyObject"
    by (intro independentI objects_lawful(2) object_lawful(5)) (simp_all add: OZSetupKeyList_DeepCopy_def OZSetupKeyList_DeepCopyObject_def)
qed

lemma Group_copies:
  "independent_copy GroupS as_Group Group_layout Group_DeepCopy Group_DeepCopyObject"
  "independent_copy GroupListS as_GroupList (objects_layout GroupS as_Group Group_layout) GroupList_DeepCopy GroupList_DeepCopyObject"
proof -
  show "independent_copy GroupS as_Group Group_layout Group_DeepCopy Group_DeepCopyObject"
    by (rule independentI [OF object_lawful(6)]) (simp_all add: Group_DeepCopy_def Group_DeepCopyObject_def)
  have "lay_copy (objects_layout GroupS as_Group Group_layout) = GroupList_DeepCopyInto"
    by (rule list_copy_eq) (simp add: GroupList_DeepCopyInto_def)
  then show "independent_copy GroupListS as_GroupList (objects_layout GroupS as_Group Group_layout) GroupList_DeepCopy GroupList_DeepCopyObject"
    by (intro independentI objects_lawful(2) object_lawful(6)) (simp_all add: GroupList_DeepCopy_def GroupList_DeepCopyObject_def)
qed

lemma SetupKey_copies:
  "independent_copy SetupKeyS as_SetupKey SetupKey_layout SetupKey_DeepCopy SetupKey_DeepCopyObject"
  "independent_copy SetupKeyListS as_SetupKeyList (objects_layout SetupKeyS as_SetupKey SetupKey_layout) SetupKeyList_DeepCopy SetupKeyList_DeepCopyObject"
proof -
  show "independent_copy SetupKeyS as_SetupKey SetupKey_layout SetupKey_DeepCopy SetupKey_DeepCopyObject"
    by (rule independentI [OF object_lawful(7)]) (simp_all add: SetupKey_DeepCopy_def SetupKey_DeepCopyObject_def)
  have "lay_copy (objects_layout SetupKeyS as_SetupKey SetupKey_layout) = SetupKeyList_DeepCopyInto"
    by (rule list_copy_eq) (simp add: SetupKeyList_DeepCopyInto_def)
  then show "independent_copy SetupKeyListS as_SetupKeyList (objects_layout SetupKeyS as_SetupKey SetupKey_layout) SetupKeyList_DeepCopy SetupKeyList_DeepCopyObject"
    by (intro independentI objects_lawful(2) object_lawful(7)) (simp_all add: SetupKeyList_DeepCopy_def SetupKeyList_DeepCopyObject_def)
qed

lemma NetworkRouter_copies:
  "independent_copy NetworkRouterS as_NetworkRouter NetworkRouter_layout NetworkRouter_DeepCopy NetworkRouter_DeepCopyObject"
  "independent_copy NetworkRouterListS as_NetworkRouterList (objects_layout NetworkRouterS as_NetworkRouter NetworkRouter_layout) NetworkRouterList_DeepCopy NetworkRouterList_DeepCopyObject"
proof -
  show "independent_copy NetworkRouterS as_NetworkRouter NetworkRouter_layout NetworkRouter_DeepCopy NetworkRouter_DeepCopyObject"
    by (rule independentI [OF object_lawful(8)]) (simp_all add: NetworkRouter_DeepCopy_def NetworkRouter_DeepCopyObject_def)
  have "lay_copy (objects_layout NetworkRouterS as_NetworkRouter NetworkRouter_layout) = NetworkRouterList_DeepCopyInto"
    by (rule list_copy_eq) (simp add: NetworkRouterList_DeepCopyInto_def)
  then show "independent_copy NetworkRouterListS as_NetworkRouterList (objects_layout NetworkRouterS as_NetworkRouter NetworkRouter_layout) NetworkRouterList_DeepCopy NetworkRouterList_DeepCopyObject"
    by (intro independentI objects_lawful(2) object_lawful(8)) (simp_all add: NetworkRouterList_DeepCopy_def NetworkRouterList_DeepCopyObject_def)
qed

lemma NetworkResource_copies:
  "independent_copy NetworkResourceS as_NetworkResource NetworkResource_layout NetworkResource_DeepCopy NetworkResource_DeepCopyObject"
  "independent_copy NetworkResourceListS as_NetworkResourceList (objects_layout NetworkResourceS as_NetworkResource NetworkResource_layout) NetworkResourceList_DeepCopy NetworkResourceList_DeepCopyObject"
proof -
  show "independent_copy NetworkResourceS as_NetworkResource NetworkResource_layout NetworkResource_DeepCopy NetworkResource_DeepCopyObject"
    by (rule independentI [OF object_lawful(9)]) (simp_all add: NetworkResource_DeepCopy_def NetworkResource_DeepCopyObject_def)
  have "lay_copy (objects_layout NetworkResourceS as_NetworkResource NetworkResource_layout) = NetworkResourceList_DeepCopyInto"
    by (rule list_copy_eq) (simp add: NetworkResourceList_DeepCopyInto_def)
  then show "independent_copy NetworkResourceListS as_NetworkResourceList (objects_layout NetworkResourceS as_NetworkResource NetworkResource_layout) NetworkResourceList_DeepCopy NetworkResourceList_DeepCopyObject"
    by (intro independentI objects_lawful(2) object_lawful(9)) (simp_all add: NetworkResourceList_DeepCopy_def NetworkResourceList_DeepCopyObject_def)
qed

lemma SidecarProfile_copies:
  "independent_copy SidecarProfileS as_SidecarProfile SidecarProfile_layout SidecarProfile_DeepCopy SidecarProfile_DeepCopyObject"
  "independent_copy SidecarProfileListS as_SidecarProfileList (objects_layout SidecarProfileS as_SidecarProfile SidecarProfile_layout) SidecarProfileList_DeepCopy SidecarProfileList_DeepCopyObject"
proof -
  show "independent_copy SidecarProfileS as_SidecarProfile SidecarProfile_layout SidecarProfile_DeepCopy SidecarProfile_DeepCopyObject"
    by (rule independentI [OF object_lawful(10)]) (simp_all add: SidecarProfile_DeepCopy_def SidecarProfile_DeepCopyObject_def)
  have "lay_copy (objects_layout SidecarProfileS as_SidecarProfile SidecarProfile_layout) = SidecarProfileList_DeepCopyInto"
    by (rule list_copy_eq) (simp add: SidecarProfileList_DeepCopyInto_def)
  then show "independent_copy SidecarProfileListS as_SidecarProfileList (objects_layout SidecarProfileS as_SidecarProfile SidecarProfile_layout) SidecarProfileList_DeepCopy SidecarProfileList_DeepCopyObject"
    by (intro independentI objects_lawful(2) object_lawful(10)) (simp_all add: SidecarProfileList_DeepCopy_def SidecarProfileList_DeepCopyObject_def)
qed

interpretation oz_group_object: object_copy OZGroup_DeepCopyInto "lay_reach OZGroup_layout" "lay_val OZGroup_layout" "lay_ok OZGroup_layout"
  using object_lawful(1) by (simp add: lawful_layout_def)
interpretation oz_policy_object: object_copy OZPolicy_DeepCopyInto "lay_reach OZPolicy_layout" "lay_val OZPolicy_layout" "lay_ok OZPolicy_layout"
  using object_lawful(2) by (simp add: lawful_layout_def)
interpretation oz_resource_object: object_copy OZResource_DeepCopyInto "lay_reach OZResource_layout" "lay_val OZResource_layout" "lay_ok OZResource_layout"
  using object_lawful(3) by (simp add: lawful_layout_def)
interpretation oz_peer_object: object_copy OZRoutingPeer_DeepCopyInto "lay_reach OZRoutingPeer_layout" "lay_val OZRoutingPeer_layout" "lay_ok OZRoutingPeer_layout"
  using object_lawful(4) by (simp add: lawful_layout_def)
interpretation oz_setup_key_object: object_copy OZSetupKey_DeepCopyInto "lay_reach OZSetupKey_layout" "lay_val OZSetupKey_layout" "lay_ok OZSetupKey_layout"
  using object_lawful(5) by (simp add: lawful_layout_def)
interpretation alpha_group_object: object_copy Group_DeepCopyInto "lay_reach Group_layout" "lay_val Group_layout" "lay_ok Group_layout"
  using object_lawful(6) by (simp add: lawful_layout_def)
interpretation alpha_setup_key_object: object_copy SetupKey_DeepCopyInto "lay_reach SetupKey_layout" "lay_val SetupKey_layout" "lay_ok SetupKey_layout"
  using object_lawful(7) by (simp add: lawful_layout_def)
interpretation alpha_router_object: object_copy NetworkRouter_DeepCopyInto "lay_reach NetworkRouter_layout" "lay_val NetworkRouter_layout" "lay_ok NetworkRouter_layout"
  using object_lawful(8) by (simp add: lawful_layout_def)
interpretation alpha_resource_object: object_copy NetworkResource_DeepCopyInto "lay_reach NetworkResource_layout" "lay_val NetworkResource_layout" "lay_ok NetworkResource_layout"
  using object_lawful(9) by (simp add: lawful_layout_def)
interpretation alpha_profile_object: object_copy SidecarProfile_DeepCopyInto "lay_reach SidecarProfile_layout" "lay_val SidecarProfile_layout" "lay_ok SidecarProfile_layout"
  using object_lawful(10) by (simp add: lawful_layout_def)

text \<open>
  A setup key in memory with one group to join: its copy leads to new memory all the way down, and renaming the group
  through the original does not change the copy.
\<close>

definition demo_key :: memory where
  "demo_key = [StringCell ''g1'', StructsCell [GroupReferenceS \<lparr>mgr_Name = None, mgr_ID = Some 0, mgr_LocalRef = None\<rparr>], MetaConditionsCell [],
     StructCell (SetupKeyS \<lparr>obj_TypeMeta = zero_TypeMeta, obj_ObjectMeta = zero_ObjectMeta,
       obj_Spec = \<lparr>msk_Name = ''key'', msk_Ephemeral = True, msk_Duration = None, msk_AutoGroups = Some 1\<rparr>,
       obj_Status = \<lparr>mst_Conditions = Some 2, mst_SetupKeyID = ''k1''\<rparr>\<rparr>)]"

lemmas demo_key_defs = demo_key_def SetupKey_layout_def object_layout_def struct_layout_def pair_layout_def struct_at_def structs_at_def
  box_layout_def list_layout_def pointer_layout_def slice_layout_def flat_layout_def SetupKeySpec_layout_def SetupKeyStatus_layout_def
  GroupReference_layout_def valid_def addrs_def deref_def slice_def elements_def

lemma demo_key_ok: "lay_ok (struct_at SetupKeyS as_SetupKey SetupKey_layout) demo_key (Some 3)"
  by (simp add: demo_key_defs)

lemma demo_key_copied:
  "fst (run_state (SetupKey_DeepCopy (Some 3)) demo_key) = Some 4"
  "map_option (\<lambda>o'. sk_AutoGroups (obj_Spec o')) (lay_val (struct_at SetupKeyS as_SetupKey SetupKey_layout)
      ((snd (run_state (SetupKey_DeepCopy (Some 3)) demo_key))[0 := StringCell ''g2'']) (Some 4)) =
     Some [\<lparr>gref_Name = None, gref_ID = Some ''g1'', gref_LocalRef = None\<rparr>]"
proof -
  obtain q h' where r: "run_state (SetupKey_DeepCopy (Some 3)) demo_key = (q, h')" by fastforce
  note c = SetupKey_copies(1) [unfolded independent_copy_def, rule_format, OF conjI, OF demo_key_ok r]
  from c have q: "q = Some 4" by (simp add: demo_key_def)
  with r show "fst (run_state (SetupKey_DeepCopy (Some 3)) demo_key) = Some 4" by simp
  have v: "lay_val (struct_at SetupKeyS as_SetupKey SetupKey_layout) (h'[0 := StringCell ''g2'']) q =
      lay_val (struct_at SetupKeyS as_SetupKey SetupKey_layout) demo_key (Some 3)"
  proof -
    have "h'[0 := StringCell ''g2''] ! a = h' ! a" if "a \<in> lay_reach (struct_at SetupKeyS as_SetupKey SetupKey_layout) h' q" for a
    proof -
      have "a \<in> {length demo_key ..< length h'}" using c that by blast
      then show ?thesis by (simp add: demo_key_def)
    qed
    with c show ?thesis by blast
  qed
  have "map_option (\<lambda>o'. sk_AutoGroups (obj_Spec o')) (lay_val (struct_at SetupKeyS as_SetupKey SetupKey_layout) demo_key (Some 3)) =
     Some [\<lparr>gref_Name = None, gref_ID = Some ''g1'', gref_LocalRef = None\<rparr>]"
    by (simp add: demo_key_defs)
  with v show "map_option (\<lambda>o'. sk_AutoGroups (obj_Spec o')) (lay_val (struct_at SetupKeyS as_SetupKey SetupKey_layout)
      ((snd (run_state (SetupKey_DeepCopy (Some 3)) demo_key))[0 := StringCell ''g2'']) (Some 4)) =
     Some [\<lparr>gref_Name = None, gref_ID = Some ''g1'', gref_LocalRef = None\<rparr>]"
    unfolding q r by simp
qed


end
