(* ===== verification/Part_Copy.thy ===== *)
theory Part_Copy
  imports Object_Copy
begin

text \<open>
  \<open>DeepCopy\<close> of the parts of objects, in \<open>api/v1/zz_generated.deepcopy.go\<close> and \<open>api/v1alpha1/zz_generated.deepcopy.go\<close>: specs,
  statuses, conditions, references and overrides. A struct without pointers is copied by an assignment.
\<close>

section \<open>Parts in cells\<close>

definition as_OZCondition :: "struct \<Rightarrow> OZCondition option" where
  "as_OZCondition s = (case s of PartS (OZConditionP m) \<Rightarrow> Some m | _ \<Rightarrow> None)"
definition as_OZGroupSpec :: "struct \<Rightarrow> OZGroupSpec option" where
  "as_OZGroupSpec s = (case s of PartS (OZGroupSpecP m) \<Rightarrow> Some m | _ \<Rightarrow> None)"
definition as_OZGroupStatus :: "struct \<Rightarrow> OZGroupStatus_mem option" where
  "as_OZGroupStatus s = (case s of PartS (OZGroupStatusP m) \<Rightarrow> Some m | _ \<Rightarrow> None)"
definition as_OZPolicySpec :: "struct \<Rightarrow> OZPolicySpec_mem option" where
  "as_OZPolicySpec s = (case s of PartS (OZPolicySpecP m) \<Rightarrow> Some m | _ \<Rightarrow> None)"
definition as_OZPolicyStatus :: "struct \<Rightarrow> OZPolicyStatus_mem option" where
  "as_OZPolicyStatus s = (case s of PartS (OZPolicyStatusP m) \<Rightarrow> Some m | _ \<Rightarrow> None)"
definition as_OZResourceSpec :: "struct \<Rightarrow> OZResourceSpec_mem option" where
  "as_OZResourceSpec s = (case s of PartS (OZResourceSpecP m) \<Rightarrow> Some m | _ \<Rightarrow> None)"
definition as_OZResourceStatus :: "struct \<Rightarrow> OZResourceStatus_mem option" where
  "as_OZResourceStatus s = (case s of PartS (OZResourceStatusP m) \<Rightarrow> Some m | _ \<Rightarrow> None)"
definition as_OZRoutingPeerSpec :: "struct \<Rightarrow> OZRoutingPeerSpec_mem option" where
  "as_OZRoutingPeerSpec s = (case s of PartS (OZRoutingPeerSpecP m) \<Rightarrow> Some m | _ \<Rightarrow> None)"
definition as_OZRoutingPeerStatus :: "struct \<Rightarrow> OZRoutingPeerStatus_mem option" where
  "as_OZRoutingPeerStatus s = (case s of PartS (OZRoutingPeerStatusP m) \<Rightarrow> Some m | _ \<Rightarrow> None)"
definition as_OZSetupKeySpec :: "struct \<Rightarrow> OZSetupKeySpec_mem option" where
  "as_OZSetupKeySpec s = (case s of PartS (OZSetupKeySpecP m) \<Rightarrow> Some m | _ \<Rightarrow> None)"
definition as_OZSetupKeyStatus :: "struct \<Rightarrow> OZSetupKeyStatus_mem option" where
  "as_OZSetupKeyStatus s = (case s of PartS (OZSetupKeyStatusP m) \<Rightarrow> Some m | _ \<Rightarrow> None)"
definition as_CrossNamespaceReference :: "struct \<Rightarrow> CrossNamespaceReference option" where
  "as_CrossNamespaceReference s = (case s of PartS (CrossNamespaceReferenceP m) \<Rightarrow> Some m | _ \<Rightarrow> None)"
definition as_DNSZoneReference :: "struct \<Rightarrow> string option" where
  "as_DNSZoneReference s = (case s of PartS (DNSZoneReferenceP m) \<Rightarrow> Some m | _ \<Rightarrow> None)"
definition as_GroupSpec :: "struct \<Rightarrow> string option" where
  "as_GroupSpec s = (case s of PartS (GroupSpecP m) \<Rightarrow> Some m | _ \<Rightarrow> None)"
definition as_GroupStatus :: "struct \<Rightarrow> GroupStatus_mem option" where
  "as_GroupStatus s = (case s of PartS (GroupStatusP m) \<Rightarrow> Some m | _ \<Rightarrow> None)"
definition as_NetworkResourceSpec :: "struct \<Rightarrow> NetworkResourceSpec_mem option" where
  "as_NetworkResourceSpec s = (case s of PartS (NetworkResourceSpecP m) \<Rightarrow> Some m | _ \<Rightarrow> None)"
definition as_NetworkResourceStatus :: "struct \<Rightarrow> NetworkResourceStatus_mem option" where
  "as_NetworkResourceStatus s = (case s of PartS (NetworkResourceStatusP m) \<Rightarrow> Some m | _ \<Rightarrow> None)"
definition as_NetworkRouterSpec :: "struct \<Rightarrow> NetworkRouterSpec_mem option" where
  "as_NetworkRouterSpec s = (case s of PartS (NetworkRouterSpecP m) \<Rightarrow> Some m | _ \<Rightarrow> None)"
definition as_NetworkRouterStatus :: "struct \<Rightarrow> NetworkRouterStatus_mem option" where
  "as_NetworkRouterStatus s = (case s of PartS (NetworkRouterStatusP m) \<Rightarrow> Some m | _ \<Rightarrow> None)"
definition as_SetupKeySpec :: "struct \<Rightarrow> SetupKeySpec_mem option" where
  "as_SetupKeySpec s = (case s of PartS (SetupKeySpecP m) \<Rightarrow> Some m | _ \<Rightarrow> None)"
definition as_SetupKeyStatus :: "struct \<Rightarrow> SetupKeyStatus_mem option" where
  "as_SetupKeyStatus s = (case s of PartS (SetupKeyStatusP m) \<Rightarrow> Some m | _ \<Rightarrow> None)"
definition as_SidecarProfileSpec :: "struct \<Rightarrow> SidecarProfileSpec_mem option" where
  "as_SidecarProfileSpec s = (case s of PartS (SidecarProfileSpecP m) \<Rightarrow> Some m | _ \<Rightarrow> None)"
definition as_SidecarProfileStatus :: "struct \<Rightarrow> SidecarProfileStatus_mem option" where
  "as_SidecarProfileStatus s = (case s of PartS (SidecarProfileStatusP m) \<Rightarrow> Some m | _ \<Rightarrow> None)"

lemma as_parts [simp]:
  "as_OZCondition (PartS (OZConditionP m0)) = Some m0"
  "as_OZGroupSpec (PartS (OZGroupSpecP m1)) = Some m1"
  "as_OZGroupStatus (PartS (OZGroupStatusP m2)) = Some m2"
  "as_OZPolicySpec (PartS (OZPolicySpecP m3)) = Some m3"
  "as_OZPolicyStatus (PartS (OZPolicyStatusP m4)) = Some m4"
  "as_OZResourceSpec (PartS (OZResourceSpecP m5)) = Some m5"
  "as_OZResourceStatus (PartS (OZResourceStatusP m6)) = Some m6"
  "as_OZRoutingPeerSpec (PartS (OZRoutingPeerSpecP m7)) = Some m7"
  "as_OZRoutingPeerStatus (PartS (OZRoutingPeerStatusP m8)) = Some m8"
  "as_OZSetupKeySpec (PartS (OZSetupKeySpecP m9)) = Some m9"
  "as_OZSetupKeyStatus (PartS (OZSetupKeyStatusP m10)) = Some m10"
  "as_CrossNamespaceReference (PartS (CrossNamespaceReferenceP m11)) = Some m11"
  "as_DNSZoneReference (PartS (DNSZoneReferenceP m12)) = Some m12"
  "as_GroupSpec (PartS (GroupSpecP m13)) = Some m13"
  "as_GroupStatus (PartS (GroupStatusP m14)) = Some m14"
  "as_NetworkResourceSpec (PartS (NetworkResourceSpecP m15)) = Some m15"
  "as_NetworkResourceStatus (PartS (NetworkResourceStatusP m16)) = Some m16"
  "as_NetworkRouterSpec (PartS (NetworkRouterSpecP m17)) = Some m17"
  "as_NetworkRouterStatus (PartS (NetworkRouterStatusP m18)) = Some m18"
  "as_SetupKeySpec (PartS (SetupKeySpecP m19)) = Some m19"
  "as_SetupKeyStatus (PartS (SetupKeyStatusP m20)) = Some m20"
  "as_SidecarProfileSpec (PartS (SidecarProfileSpecP m21)) = Some m21"
  "as_SidecarProfileStatus (PartS (SidecarProfileStatusP m22)) = Some m22"
  by (simp_all add: as_OZCondition_def as_OZGroupSpec_def as_OZGroupStatus_def as_OZPolicySpec_def as_OZPolicyStatus_def as_OZResourceSpec_def as_OZResourceStatus_def as_OZRoutingPeerSpec_def as_OZRoutingPeerStatus_def as_OZSetupKeySpec_def as_OZSetupKeyStatus_def as_CrossNamespaceReference_def as_DNSZoneReference_def as_GroupSpec_def as_GroupStatus_def as_NetworkResourceSpec_def as_NetworkResourceStatus_def as_NetworkRouterSpec_def as_NetworkRouterStatus_def as_SetupKeySpec_def as_SetupKeyStatus_def as_SidecarProfileSpec_def as_SidecarProfileStatus_def)

section \<open>The generated functions\<close>

definition OZGroupSpec_DeepCopyInto :: "OZGroupSpec \<Rightarrow> (memory, OZGroupSpec) state" where
  "OZGroupSpec_DeepCopyInto m = State_Monad.return m"
definition CrossNamespaceReference_DeepCopyInto :: "CrossNamespaceReference \<Rightarrow> (memory, CrossNamespaceReference) state" where
  "CrossNamespaceReference_DeepCopyInto m = State_Monad.return m"
definition DNSZoneReference_DeepCopyInto :: "string \<Rightarrow> (memory, string) state" where
  "DNSZoneReference_DeepCopyInto m = State_Monad.return m"
definition GroupSpec_DeepCopyInto :: "string \<Rightarrow> (memory, string) state" where
  "GroupSpec_DeepCopyInto m = State_Monad.return m"

definition OZCondition_DeepCopy :: "ptr \<Rightarrow> (memory, ptr) state" where
  "OZCondition_DeepCopy = copy_struct (\<lambda>m. PartS (OZConditionP m)) as_OZCondition (\<lambda>c. State_Monad.return (OZCondition_DeepCopyInto c))"
definition OZGroupSpec_DeepCopy :: "ptr \<Rightarrow> (memory, ptr) state" where
  "OZGroupSpec_DeepCopy = copy_struct (\<lambda>m. PartS (OZGroupSpecP m)) as_OZGroupSpec OZGroupSpec_DeepCopyInto"
definition OZGroupStatus_DeepCopy :: "ptr \<Rightarrow> (memory, ptr) state" where
  "OZGroupStatus_DeepCopy = copy_struct (\<lambda>m. PartS (OZGroupStatusP m)) as_OZGroupStatus OZGroupStatus_DeepCopyInto"
definition OZPolicySpec_DeepCopy :: "ptr \<Rightarrow> (memory, ptr) state" where
  "OZPolicySpec_DeepCopy = copy_struct (\<lambda>m. PartS (OZPolicySpecP m)) as_OZPolicySpec OZPolicySpec_DeepCopyInto"
definition OZPolicyStatus_DeepCopy :: "ptr \<Rightarrow> (memory, ptr) state" where
  "OZPolicyStatus_DeepCopy = copy_struct (\<lambda>m. PartS (OZPolicyStatusP m)) as_OZPolicyStatus OZPolicyStatus_DeepCopyInto"
definition OZResourceSpec_DeepCopy :: "ptr \<Rightarrow> (memory, ptr) state" where
  "OZResourceSpec_DeepCopy = copy_struct (\<lambda>m. PartS (OZResourceSpecP m)) as_OZResourceSpec OZResourceSpec_DeepCopyInto"
definition OZResourceStatus_DeepCopy :: "ptr \<Rightarrow> (memory, ptr) state" where
  "OZResourceStatus_DeepCopy = copy_struct (\<lambda>m. PartS (OZResourceStatusP m)) as_OZResourceStatus OZResourceStatus_DeepCopyInto"
definition OZRoutingPeerSpec_DeepCopy :: "ptr \<Rightarrow> (memory, ptr) state" where
  "OZRoutingPeerSpec_DeepCopy = copy_struct (\<lambda>m. PartS (OZRoutingPeerSpecP m)) as_OZRoutingPeerSpec OZRoutingPeerSpec_DeepCopyInto"
definition OZRoutingPeerStatus_DeepCopy :: "ptr \<Rightarrow> (memory, ptr) state" where
  "OZRoutingPeerStatus_DeepCopy = copy_struct (\<lambda>m. PartS (OZRoutingPeerStatusP m)) as_OZRoutingPeerStatus OZRoutingPeerStatus_DeepCopyInto"
definition OZSetupKeySpec_DeepCopy :: "ptr \<Rightarrow> (memory, ptr) state" where
  "OZSetupKeySpec_DeepCopy = copy_struct (\<lambda>m. PartS (OZSetupKeySpecP m)) as_OZSetupKeySpec OZSetupKeySpec_DeepCopyInto"
definition OZSetupKeyStatus_DeepCopy :: "ptr \<Rightarrow> (memory, ptr) state" where
  "OZSetupKeyStatus_DeepCopy = copy_struct (\<lambda>m. PartS (OZSetupKeyStatusP m)) as_OZSetupKeyStatus OZSetupKeyStatus_DeepCopyInto"
definition CrossNamespaceReference_DeepCopy :: "ptr \<Rightarrow> (memory, ptr) state" where
  "CrossNamespaceReference_DeepCopy = copy_struct (\<lambda>m. PartS (CrossNamespaceReferenceP m)) as_CrossNamespaceReference CrossNamespaceReference_DeepCopyInto"
definition DNSZoneReference_DeepCopy :: "ptr \<Rightarrow> (memory, ptr) state" where
  "DNSZoneReference_DeepCopy = copy_struct (\<lambda>m. PartS (DNSZoneReferenceP m)) as_DNSZoneReference DNSZoneReference_DeepCopyInto"
definition GroupSpec_DeepCopy :: "ptr \<Rightarrow> (memory, ptr) state" where
  "GroupSpec_DeepCopy = copy_struct (\<lambda>m. PartS (GroupSpecP m)) as_GroupSpec GroupSpec_DeepCopyInto"
definition GroupStatus_DeepCopy :: "ptr \<Rightarrow> (memory, ptr) state" where
  "GroupStatus_DeepCopy = copy_struct (\<lambda>m. PartS (GroupStatusP m)) as_GroupStatus GroupStatus_DeepCopyInto"
definition NetworkResourceSpec_DeepCopy :: "ptr \<Rightarrow> (memory, ptr) state" where
  "NetworkResourceSpec_DeepCopy = copy_struct (\<lambda>m. PartS (NetworkResourceSpecP m)) as_NetworkResourceSpec NetworkResourceSpec_DeepCopyInto"
definition NetworkResourceStatus_DeepCopy :: "ptr \<Rightarrow> (memory, ptr) state" where
  "NetworkResourceStatus_DeepCopy = copy_struct (\<lambda>m. PartS (NetworkResourceStatusP m)) as_NetworkResourceStatus NetworkResourceStatus_DeepCopyInto"
definition NetworkRouterSpec_DeepCopy :: "ptr \<Rightarrow> (memory, ptr) state" where
  "NetworkRouterSpec_DeepCopy = copy_struct (\<lambda>m. PartS (NetworkRouterSpecP m)) as_NetworkRouterSpec NetworkRouterSpec_DeepCopyInto"
definition NetworkRouterStatus_DeepCopy :: "ptr \<Rightarrow> (memory, ptr) state" where
  "NetworkRouterStatus_DeepCopy = copy_struct (\<lambda>m. PartS (NetworkRouterStatusP m)) as_NetworkRouterStatus NetworkRouterStatus_DeepCopyInto"
definition SetupKeySpec_DeepCopy :: "ptr \<Rightarrow> (memory, ptr) state" where
  "SetupKeySpec_DeepCopy = copy_struct (\<lambda>m. PartS (SetupKeySpecP m)) as_SetupKeySpec SetupKeySpec_DeepCopyInto"
definition SetupKeyStatus_DeepCopy :: "ptr \<Rightarrow> (memory, ptr) state" where
  "SetupKeyStatus_DeepCopy = copy_struct (\<lambda>m. PartS (SetupKeyStatusP m)) as_SetupKeyStatus SetupKeyStatus_DeepCopyInto"
definition SidecarProfileSpec_DeepCopy :: "ptr \<Rightarrow> (memory, ptr) state" where
  "SidecarProfileSpec_DeepCopy = copy_struct (\<lambda>m. PartS (SidecarProfileSpecP m)) as_SidecarProfileSpec SidecarProfileSpec_DeepCopyInto"
definition SidecarProfileStatus_DeepCopy :: "ptr \<Rightarrow> (memory, ptr) state" where
  "SidecarProfileStatus_DeepCopy = copy_struct (\<lambda>m. PartS (SidecarProfileStatusP m)) as_SidecarProfileStatus SidecarProfileStatus_DeepCopyInto"
definition GroupReference_DeepCopy :: "ptr \<Rightarrow> (memory, ptr) state" where
  "GroupReference_DeepCopy = copy_struct GroupReferenceS as_GroupReference GroupReference_DeepCopyInto"
definition WorkloadOverride_DeepCopy :: "ptr \<Rightarrow> (memory, ptr) state" where
  "WorkloadOverride_DeepCopy = copy_struct WorkloadOverrideS as_WorkloadOverride WorkloadOverride_DeepCopyInto"
definition ContainerOverride_DeepCopy :: "ptr \<Rightarrow> (memory, ptr) state" where
  "ContainerOverride_DeepCopy = copy_struct ContainerOverrideS as_ContainerOverride ContainerOverride_DeepCopyInto"

section \<open>Copies are independent\<close>

text \<open>A copied part is a new struct, and shares no memory with the original.\<close>

definition part_copied :: "('m \<Rightarrow> struct) \<Rightarrow> (struct \<Rightarrow> 'm option) \<Rightarrow> (struct, 'm, 'v) layout \<Rightarrow> (ptr \<Rightarrow> (memory, ptr) state) \<Rightarrow> bool" where
  "part_copied tag prj L copy \<longleftrightarrow>
     independent_copy tag prj L copy (\<lambda>p. do { c \<leftarrow> copy p; State_Monad.return (if c \<noteq> None then Some c else None) })"

lemma part_copiedI:
  assumes "lawful_layout L" "\<And>m. prj (tag m) = Some m" "copy = copy_struct tag prj (lay_copy L)"
  shows "part_copied tag prj L copy"
  unfolding part_copied_def by (rule independentI [OF assms]) simp_all

lemma plain_copies: "OZGroupSpec_DeepCopyInto = State_Monad.return" "CrossNamespaceReference_DeepCopyInto = State_Monad.return"
  "DNSZoneReference_DeepCopyInto = State_Monad.return" "GroupSpec_DeepCopyInto = State_Monad.return"
  "(\<lambda>c. State_Monad.return (OZCondition_DeepCopyInto c)) = State_Monad.return"
  by (rule ext, simp add: OZGroupSpec_DeepCopyInto_def CrossNamespaceReference_DeepCopyInto_def DNSZoneReference_DeepCopyInto_def
      GroupSpec_DeepCopyInto_def OZCondition_DeepCopyInto_def)+

theorem part_copies_independent:
  "part_copied (\<lambda>m. PartS (OZConditionP m)) as_OZCondition value_layout OZCondition_DeepCopy"
  "part_copied (\<lambda>m. PartS (OZGroupSpecP m)) as_OZGroupSpec value_layout OZGroupSpec_DeepCopy"
  "part_copied (\<lambda>m. PartS (OZGroupStatusP m)) as_OZGroupStatus (flat_layout OZGroupStatus_DeepCopyInto OZGroupStatus_ptrs OZGroupStatus_val) OZGroupStatus_DeepCopy"
  "part_copied (\<lambda>m. PartS (OZPolicySpecP m)) as_OZPolicySpec (flat_layout OZPolicySpec_DeepCopyInto OZPolicySpec_ptrs OZPolicySpec_val) OZPolicySpec_DeepCopy"
  "part_copied (\<lambda>m. PartS (OZPolicyStatusP m)) as_OZPolicyStatus (flat_layout OZPolicyStatus_DeepCopyInto OZPolicyStatus_ptrs OZPolicyStatus_val) OZPolicyStatus_DeepCopy"
  "part_copied (\<lambda>m. PartS (OZResourceSpecP m)) as_OZResourceSpec (flat_layout OZResourceSpec_DeepCopyInto OZResourceSpec_ptrs OZResourceSpec_val) OZResourceSpec_DeepCopy"
  "part_copied (\<lambda>m. PartS (OZResourceStatusP m)) as_OZResourceStatus (flat_layout OZResourceStatus_DeepCopyInto OZResourceStatus_ptrs OZResourceStatus_val) OZResourceStatus_DeepCopy"
  "part_copied (\<lambda>m. PartS (OZRoutingPeerSpecP m)) as_OZRoutingPeerSpec (flat_layout OZRoutingPeerSpec_DeepCopyInto OZRoutingPeerSpec_ptrs OZRoutingPeerSpec_val) OZRoutingPeerSpec_DeepCopy"
  "part_copied (\<lambda>m. PartS (OZRoutingPeerStatusP m)) as_OZRoutingPeerStatus (flat_layout OZRoutingPeerStatus_DeepCopyInto OZRoutingPeerStatus_ptrs OZRoutingPeerStatus_val) OZRoutingPeerStatus_DeepCopy"
  "part_copied (\<lambda>m. PartS (OZSetupKeySpecP m)) as_OZSetupKeySpec OZSetupKeySpec_layout OZSetupKeySpec_DeepCopy"
  "part_copied (\<lambda>m. PartS (OZSetupKeyStatusP m)) as_OZSetupKeyStatus (flat_layout OZSetupKeyStatus_DeepCopyInto OZSetupKeyStatus_ptrs OZSetupKeyStatus_val) OZSetupKeyStatus_DeepCopy"
  "part_copied (\<lambda>m. PartS (CrossNamespaceReferenceP m)) as_CrossNamespaceReference value_layout CrossNamespaceReference_DeepCopy"
  "part_copied (\<lambda>m. PartS (DNSZoneReferenceP m)) as_DNSZoneReference value_layout DNSZoneReference_DeepCopy"
  "part_copied (\<lambda>m. PartS (GroupSpecP m)) as_GroupSpec value_layout GroupSpec_DeepCopy"
  "part_copied (\<lambda>m. PartS (GroupStatusP m)) as_GroupStatus GroupStatus_layout GroupStatus_DeepCopy"
  "part_copied (\<lambda>m. PartS (NetworkResourceSpecP m)) as_NetworkResourceSpec NetworkResourceSpec_layout NetworkResourceSpec_DeepCopy"
  "part_copied (\<lambda>m. PartS (NetworkResourceStatusP m)) as_NetworkResourceStatus NetworkResourceStatus_layout NetworkResourceStatus_DeepCopy"
  "part_copied (\<lambda>m. PartS (NetworkRouterSpecP m)) as_NetworkRouterSpec NetworkRouterSpec_layout NetworkRouterSpec_DeepCopy"
  "part_copied (\<lambda>m. PartS (NetworkRouterStatusP m)) as_NetworkRouterStatus NetworkRouterStatus_layout NetworkRouterStatus_DeepCopy"
  "part_copied (\<lambda>m. PartS (SetupKeySpecP m)) as_SetupKeySpec SetupKeySpec_layout SetupKeySpec_DeepCopy"
  "part_copied (\<lambda>m. PartS (SetupKeyStatusP m)) as_SetupKeyStatus SetupKeyStatus_layout SetupKeyStatus_DeepCopy"
  "part_copied (\<lambda>m. PartS (SidecarProfileSpecP m)) as_SidecarProfileSpec SidecarProfileSpec_layout SidecarProfileSpec_DeepCopy"
  "part_copied (\<lambda>m. PartS (SidecarProfileStatusP m)) as_SidecarProfileStatus SidecarProfileStatus_layout SidecarProfileStatus_DeepCopy"
  "part_copied GroupReferenceS as_GroupReference GroupReference_layout GroupReference_DeepCopy"
  "part_copied WorkloadOverrideS as_WorkloadOverride WorkloadOverride_layout WorkloadOverride_DeepCopy"
  "part_copied ContainerOverrideS as_ContainerOverride ContainerOverride_layout ContainerOverride_DeepCopy"
  by (rule part_copiedI, (rule part_lawful inner_lawful value_lawful group_status.flat_lawful policy_spec.flat_lawful policy_status.flat_lawful resource_spec.flat_lawful
      resource_status.flat_lawful peer_spec.flat_lawful peer_status.flat_lawful setup_key_status.flat_lawful)[1], simp,
      simp add: lay_copy_simps plain_copies OZCondition_DeepCopy_def OZGroupSpec_DeepCopy_def OZGroupStatus_DeepCopy_def OZPolicySpec_DeepCopy_def OZPolicyStatus_DeepCopy_def OZResourceSpec_DeepCopy_def OZResourceStatus_DeepCopy_def OZRoutingPeerSpec_DeepCopy_def OZRoutingPeerStatus_DeepCopy_def OZSetupKeySpec_DeepCopy_def OZSetupKeyStatus_DeepCopy_def CrossNamespaceReference_DeepCopy_def DNSZoneReference_DeepCopy_def GroupSpec_DeepCopy_def GroupStatus_DeepCopy_def NetworkResourceSpec_DeepCopy_def NetworkResourceStatus_DeepCopy_def NetworkRouterSpec_DeepCopy_def NetworkRouterStatus_DeepCopy_def SetupKeySpec_DeepCopy_def SetupKeyStatus_DeepCopy_def SidecarProfileSpec_DeepCopy_def SidecarProfileStatus_DeepCopy_def GroupReference_DeepCopy_def WorkloadOverride_DeepCopy_def ContainerOverride_DeepCopy_def)+

end
