(* ===== verification/World.thy ===== *)
theory World
  imports Api_Types
begin

text \<open>
  What the operator talks to. The Kubernetes API client (controller-runtime) and the openZro
  management client are third-party code: they are records of operations on an unspecified
  environment state \<open>'w\<close>, arguments of every definition that calls them. A call may answer
  anything and change the environment in any way, so concurrent writers, failures and stale
  answers are included. Every call is recorded, with its payload and its error, in the log of the
  \<open>world\<close>; \<open>emits m P\<close> says that, whatever the environment answers, running \<open>m\<close> appends a list
  of calls \<open>evs\<close> to the log and returns \<open>x\<close> with \<open>P x evs\<close>.
\<close>

section \<open>Errors and results\<close>

text \<open>
  An error of the Kubernetes API (not found, already exists, any other), of the openZro API (not
  found, any other) or made by the operator itself, each with its text.
\<close>

datatype goerr =
    KNotFound string | KAlreadyExists string | KError string
  | ONotFound string | OError string
  | GoError string

text \<open>\<open>err.Error()\<close>\<close>

fun error_text :: "goerr \<Rightarrow> string" where
  "error_text (KNotFound m) = m" | "error_text (KAlreadyExists m) = m" | "error_text (KError m) = m"
| "error_text (ONotFound m) = m" | "error_text (OError m) = m"
| "error_text (GoError m) = m"

text \<open>\<open>kerrors.IsNotFound\<close>, \<open>kerrors.IsAlreadyExists\<close> and \<open>openzro.IsNotFound\<close>\<close>

fun k_IsNotFound :: "goerr \<Rightarrow> bool" where
  "k_IsNotFound (KNotFound _) = True" | "k_IsNotFound _ = False"

fun k_IsAlreadyExists :: "goerr \<Rightarrow> bool" where
  "k_IsAlreadyExists (KAlreadyExists _) = True" | "k_IsAlreadyExists _ = False"

fun o_IsNotFound :: "goerr \<Rightarrow> bool" where
  "o_IsNotFound (ONotFound _) = True" | "o_IsNotFound _ = False"

text \<open>What a function that can panic does: it returns, or it panics with a message.\<close>

datatype 'a outcome = Returned 'a | Panicked string

definition err_of :: "goerr + 'a \<Rightarrow> goerr option" where
  "err_of r = (case r of Inl e \<Rightarrow> Some e | Inr _ \<Rightarrow> None)"

lemma err_of_simps [simp]: "err_of (Inl e) = Some e" "err_of (Inr x) = None"
  by (simp_all add: err_of_def)

text \<open>\<open>ctrl.Result\<close>; durations are nanoseconds.\<close>

record Result =
  res_Requeue :: bool
  res_RequeueAfter :: int

definition zero_Result :: Result where
  "zero_Result = \<lparr>res_Requeue = False, res_RequeueAfter = 0\<rparr>"

definition Second :: int where "Second = 1000000000"
definition Minute :: int where "Minute = 60 * Second"

definition requeue_after :: "int \<Rightarrow> Result" where
  "requeue_after d = zero_Result\<lparr>res_RequeueAfter := d\<rparr>"

definition requeue_now :: Result where
  "requeue_now = zero_Result\<lparr>res_Requeue := True\<rparr>"

section \<open>Calls\<close>

datatype kobj =
    KOZGroup OZGroup | KOZPolicy OZPolicy | KOZResource OZResource | KOZRoutingPeer OZRoutingPeer
  | KOZSetupKey OZSetupKey | KService Service | KSecret Secret | KDeployment Deployment
  | KGroup Group | KSetupKey SetupKey | KNetworkRouter NetworkRouter | KNetworkResource NetworkResource
  | KGatewayClass GatewayClass | KGateway Gateway | KHTTPRoute HTTPRoute | KTCPRoute TCPRoute
  | KSidecarProfile SidecarProfile

datatype coll =
    CGroups | CSetupKeys | CNetworks | CRouters string | CResources string | CPolicies
  | CAccounts | CZones | CRecords string | CProxies

text \<open>What a call of the management API sends and what it answers.\<close>

datatype oreq =
    QGroup string | QSetupKey SetupKeyRequest | QSetupKeyGroups "string list"
  | QNetwork NetworkRequest | QRouter RouterRequest | QResource ResourceRequest
  | QPolicy PolicyRequest | QAccount AccountSettings | QRecord DNSRecordRequest
  | QProxy ProxyRequest | QZone DNSZoneRequest

datatype ores =
    RGroup ApiGroup | RSetupKey ApiSetupKey | RNetwork ApiNetwork | RRouter ApiRouter
  | RResource ApiResource | RPolicy "string option" | RAccount Account | RZone DNSZone
  | RRecord DNSRecord | RProxy ProxyService

text \<open>
  A call: a read of the cluster with its answer, a write of the cluster with its payload and its
  error (\<open>None\<close> when it succeeded; a patch answers the object as it then is), a call of the management
  API with its request and answer.
\<close>

datatype event =
    EGet string nn "goerr + kobj" | EList string "goerr + kobj list"
  | ECreate kobj "goerr option" | EUpdate kobj "goerr option" | EStatusUpdate kobj "goerr option"
  | EPatch kobj "goerr + kobj" | EApply kobj "goerr option" | EDelete kobj "goerr option"
  | OList coll "goerr + ores list" | OGet coll string "goerr + ores" | OCreate coll oreq "goerr + ores"
  | OUpdate coll string oreq "goerr + ores" | ODelete coll string "goerr option"

text \<open>The calls that can change the cluster or the management server.\<close>

fun is_write :: "event \<Rightarrow> bool" where
  "is_write (EGet _ _ _) = False" | "is_write (EList _ _) = False"
| "is_write (OList _ _) = False" | "is_write (OGet _ _ _) = False"
| "is_write _ = True"

record 'w world =
  wenv :: 'w
  wlog :: "event list"

section \<open>The two clients\<close>

text \<open>The client for one kind of object; writes return the object as the server stored it.\<close>

record ('w, 'o) kind_client =
  kc_get :: "nn \<Rightarrow> 'w \<Rightarrow> (goerr + 'o) \<times> 'w"
  kc_list :: "string option \<Rightarrow> 'w \<Rightarrow> (goerr + 'o list) \<times> 'w"
  kc_create :: "'o \<Rightarrow> 'w \<Rightarrow> (goerr + 'o) \<times> 'w"
  kc_update :: "'o \<Rightarrow> 'w \<Rightarrow> (goerr + 'o) \<times> 'w"
  kc_status_update :: "'o \<Rightarrow> 'w \<Rightarrow> (goerr + 'o) \<times> 'w"
  kc_patch :: "'o \<Rightarrow> 'w \<Rightarrow> (goerr + 'o) \<times> 'w"
  kc_apply :: "'o \<Rightarrow> 'w \<Rightarrow> goerr option \<times> 'w"
  kc_delete :: "'o \<Rightarrow> 'w \<Rightarrow> goerr option \<times> 'w"

text \<open>
  The cluster: a client per kind, the clock, and the library helpers the sources call on finalizer
  lists, condition lists (\<open>conditions.Set\<close>, \<open>meta.SetStatusCondition\<close>) and owner references. \<open>GVKForObject\<close> answers the API version and the kind the
  scheme registers for an object.
\<close>

record 'w Client =
  c_OZGroups :: "('w, OZGroup) kind_client"
  c_OZPolicies :: "('w, OZPolicy) kind_client"
  c_OZResources :: "('w, OZResource) kind_client"
  c_OZRoutingPeers :: "('w, OZRoutingPeer) kind_client"
  c_OZSetupKeys :: "('w, OZSetupKey) kind_client"
  c_Services :: "('w, Service) kind_client"
  c_Secrets :: "('w, Secret) kind_client"
  c_Deployments :: "('w, Deployment) kind_client"
  c_AlphaGroups :: "('w, Group) kind_client"
  c_AlphaSetupKeys :: "('w, SetupKey) kind_client"
  c_NetworkRouters :: "('w, NetworkRouter) kind_client"
  c_NetworkResources :: "('w, NetworkResource) kind_client"
  c_GatewayClasses :: "('w, GatewayClass) kind_client"
  c_Gateways :: "('w, Gateway) kind_client"
  c_HTTPRoutes :: "('w, HTTPRoute) kind_client"
  c_TCPRoutes :: "('w, TCPRoute) kind_client"
  c_SidecarProfiles :: "('w, SidecarProfile) kind_client"
  clock :: "'w \<Rightarrow> time \<times> 'w"
  AddFinalizer :: "string \<Rightarrow> string list \<Rightarrow> string list"
  RemoveFinalizer :: "string \<Rightarrow> string list \<Rightarrow> string list"
  SetCondition :: "Condition \<Rightarrow> Condition list \<Rightarrow> Condition list"
  SetStatusCondition :: "Condition \<Rightarrow> Condition list \<Rightarrow> Condition list"
  HasCondition :: "string \<Rightarrow> Condition list \<Rightarrow> bool"
  IsStatusConditionTrue :: "string \<Rightarrow> Condition list \<Rightarrow> bool"
  GVKForObject :: "kobj \<Rightarrow> goerr + string \<times> string"
  RemoveOwnerReference :: "kobj \<Rightarrow> OwnerReference list \<Rightarrow> goerr + OwnerReference list"

text \<open>A collection of the management API: \<open>'q\<close> creates, \<open>'u\<close> updates, \<open>'r\<close> is what it returns.\<close>

record ('w, 'q, 'u, 'r) rest =
  rs_list :: "'w \<Rightarrow> (goerr + 'r list) \<times> 'w"
  rs_get :: "string \<Rightarrow> 'w \<Rightarrow> (goerr + 'r) \<times> 'w"
  rs_create :: "'q \<Rightarrow> 'w \<Rightarrow> (goerr + 'r) \<times> 'w"
  rs_update :: "string \<Rightarrow> 'u \<Rightarrow> 'w \<Rightarrow> (goerr + 'r) \<times> 'w"
  rs_delete :: "string \<Rightarrow> 'w \<Rightarrow> goerr option \<times> 'w"

record 'w OpenZro =
  oz_Groups :: "('w, string, string, ApiGroup) rest"
  oz_GroupByName :: "string \<Rightarrow> 'w \<Rightarrow> (goerr + ApiGroup) \<times> 'w"
  oz_SetupKeys :: "('w, SetupKeyRequest, string list, ApiSetupKey) rest"
  oz_Networks :: "('w, NetworkRequest, NetworkRequest, ApiNetwork) rest"
  oz_Routers :: "string \<Rightarrow> ('w, RouterRequest, RouterRequest, ApiRouter) rest"
  oz_Resources :: "string \<Rightarrow> ('w, ResourceRequest, ResourceRequest, ApiResource) rest"
  oz_Policies :: "('w, PolicyRequest, PolicyRequest, string option) rest"
  oz_Accounts :: "('w, AccountSettings, AccountSettings, Account) rest"
  oz_Zones :: "('w, DNSZoneRequest, DNSZoneRequest, DNSZone) rest"
  oz_Records :: "string \<Rightarrow> ('w, DNSRecordRequest, DNSRecordRequest, DNSRecord) rest"
  oz_Proxies :: "('w, ProxyRequest, ProxyRequest, ProxyService) rest"

section \<open>Recorded calls in the state monad\<close>

text \<open>A client together with how its objects, requests and answers appear in the log.\<close>

record ('w, 'o) kapi =
  ka_kind :: string
  ka_obj :: "'o \<Rightarrow> kobj"
  ka_client :: "('w, 'o) kind_client"

record ('w, 'q, 'u, 'r) oapi =
  oa_coll :: coll
  oa_create :: "'q \<Rightarrow> oreq"
  oa_update :: "'u \<Rightarrow> oreq"
  oa_answer :: "'r \<Rightarrow> ores"
  oa_rest :: "('w, 'q, 'u, 'r) rest"

definition OZGroups :: "'w Client \<Rightarrow> ('w, OZGroup) kapi" where
  "OZGroups c = \<lparr>ka_kind = ''OZGroup'', ka_obj = KOZGroup, ka_client = c_OZGroups c\<rparr>"
definition OZPolicies :: "'w Client \<Rightarrow> ('w, OZPolicy) kapi" where
  "OZPolicies c = \<lparr>ka_kind = ''OZPolicy'', ka_obj = KOZPolicy, ka_client = c_OZPolicies c\<rparr>"
definition OZResources :: "'w Client \<Rightarrow> ('w, OZResource) kapi" where
  "OZResources c = \<lparr>ka_kind = ''OZResource'', ka_obj = KOZResource, ka_client = c_OZResources c\<rparr>"
definition OZRoutingPeers :: "'w Client \<Rightarrow> ('w, OZRoutingPeer) kapi" where
  "OZRoutingPeers c = \<lparr>ka_kind = ''OZRoutingPeer'', ka_obj = KOZRoutingPeer, ka_client = c_OZRoutingPeers c\<rparr>"
definition OZSetupKeys :: "'w Client \<Rightarrow> ('w, OZSetupKey) kapi" where
  "OZSetupKeys c = \<lparr>ka_kind = ''OZSetupKey'', ka_obj = KOZSetupKey, ka_client = c_OZSetupKeys c\<rparr>"
definition Services :: "'w Client \<Rightarrow> ('w, Service) kapi" where
  "Services c = \<lparr>ka_kind = ''Service'', ka_obj = KService, ka_client = c_Services c\<rparr>"
definition Secrets :: "'w Client \<Rightarrow> ('w, Secret) kapi" where
  "Secrets c = \<lparr>ka_kind = ''Secret'', ka_obj = KSecret, ka_client = c_Secrets c\<rparr>"
definition Deployments :: "'w Client \<Rightarrow> ('w, Deployment) kapi" where
  "Deployments c = \<lparr>ka_kind = ''Deployment'', ka_obj = KDeployment, ka_client = c_Deployments c\<rparr>"
definition AlphaGroups :: "'w Client \<Rightarrow> ('w, Group) kapi" where
  "AlphaGroups c = \<lparr>ka_kind = ''Group'', ka_obj = KGroup, ka_client = c_AlphaGroups c\<rparr>"
definition AlphaSetupKeys :: "'w Client \<Rightarrow> ('w, SetupKey) kapi" where
  "AlphaSetupKeys c = \<lparr>ka_kind = ''SetupKey'', ka_obj = KSetupKey, ka_client = c_AlphaSetupKeys c\<rparr>"
definition NetworkRouters :: "'w Client \<Rightarrow> ('w, NetworkRouter) kapi" where
  "NetworkRouters c = \<lparr>ka_kind = ''NetworkRouter'', ka_obj = KNetworkRouter, ka_client = c_NetworkRouters c\<rparr>"
definition NetworkResources :: "'w Client \<Rightarrow> ('w, NetworkResource) kapi" where
  "NetworkResources c = \<lparr>ka_kind = ''NetworkResource'', ka_obj = KNetworkResource, ka_client = c_NetworkResources c\<rparr>"
definition GatewayClasses :: "'w Client \<Rightarrow> ('w, GatewayClass) kapi" where
  "GatewayClasses c = \<lparr>ka_kind = ''GatewayClass'', ka_obj = KGatewayClass, ka_client = c_GatewayClasses c\<rparr>"
definition Gateways :: "'w Client \<Rightarrow> ('w, Gateway) kapi" where
  "Gateways c = \<lparr>ka_kind = ''Gateway'', ka_obj = KGateway, ka_client = c_Gateways c\<rparr>"
definition HTTPRoutes :: "'w Client \<Rightarrow> ('w, HTTPRoute) kapi" where
  "HTTPRoutes c = \<lparr>ka_kind = ''HTTPRoute'', ka_obj = KHTTPRoute, ka_client = c_HTTPRoutes c\<rparr>"
definition TCPRoutes :: "'w Client \<Rightarrow> ('w, TCPRoute) kapi" where
  "TCPRoutes c = \<lparr>ka_kind = ''TCPRoute'', ka_obj = KTCPRoute, ka_client = c_TCPRoutes c\<rparr>"
definition SidecarProfiles :: "'w Client \<Rightarrow> ('w, SidecarProfile) kapi" where
  "SidecarProfiles c = \<lparr>ka_kind = ''SidecarProfile'', ka_obj = KSidecarProfile, ka_client = c_SidecarProfiles c\<rparr>"

definition Groups :: "'w OpenZro \<Rightarrow> ('w, string, string, ApiGroup) oapi" where
  "Groups z = \<lparr>oa_coll = CGroups, oa_create = QGroup, oa_update = QGroup, oa_answer = RGroup, oa_rest = oz_Groups z\<rparr>"
definition SetupKeys :: "'w OpenZro \<Rightarrow> ('w, SetupKeyRequest, string list, ApiSetupKey) oapi" where
  "SetupKeys z = \<lparr>oa_coll = CSetupKeys, oa_create = QSetupKey, oa_update = QSetupKeyGroups, oa_answer = RSetupKey, oa_rest = oz_SetupKeys z\<rparr>"
definition Networks :: "'w OpenZro \<Rightarrow> ('w, NetworkRequest, NetworkRequest, ApiNetwork) oapi" where
  "Networks z = \<lparr>oa_coll = CNetworks, oa_create = QNetwork, oa_update = QNetwork, oa_answer = RNetwork, oa_rest = oz_Networks z\<rparr>"
definition Routers :: "'w OpenZro \<Rightarrow> string \<Rightarrow> ('w, RouterRequest, RouterRequest, ApiRouter) oapi" where
  "Routers z n = \<lparr>oa_coll = CRouters n, oa_create = QRouter, oa_update = QRouter, oa_answer = RRouter, oa_rest = oz_Routers z n\<rparr>"
definition Resources :: "'w OpenZro \<Rightarrow> string \<Rightarrow> ('w, ResourceRequest, ResourceRequest, ApiResource) oapi" where
  "Resources z n = \<lparr>oa_coll = CResources n, oa_create = QResource, oa_update = QResource, oa_answer = RResource, oa_rest = oz_Resources z n\<rparr>"
definition Policies :: "'w OpenZro \<Rightarrow> ('w, PolicyRequest, PolicyRequest, string option) oapi" where
  "Policies z = \<lparr>oa_coll = CPolicies, oa_create = QPolicy, oa_update = QPolicy, oa_answer = RPolicy, oa_rest = oz_Policies z\<rparr>"
definition Accounts :: "'w OpenZro \<Rightarrow> ('w, AccountSettings, AccountSettings, Account) oapi" where
  "Accounts z = \<lparr>oa_coll = CAccounts, oa_create = QAccount, oa_update = QAccount, oa_answer = RAccount, oa_rest = oz_Accounts z\<rparr>"
definition Zones :: "'w OpenZro \<Rightarrow> ('w, DNSZoneRequest, DNSZoneRequest, DNSZone) oapi" where
  "Zones z = \<lparr>oa_coll = CZones, oa_create = QZone, oa_update = QZone, oa_answer = RZone, oa_rest = oz_Zones z\<rparr>"
definition Records :: "'w OpenZro \<Rightarrow> string \<Rightarrow> ('w, DNSRecordRequest, DNSRecordRequest, DNSRecord) oapi" where
  "Records z n = \<lparr>oa_coll = CRecords n, oa_create = QRecord, oa_update = QRecord, oa_answer = RRecord, oa_rest = oz_Records z n\<rparr>"
definition Proxies :: "'w OpenZro \<Rightarrow> ('w, ProxyRequest, ProxyRequest, ProxyService) oapi" where
  "Proxies z = \<lparr>oa_coll = CProxies, oa_create = QProxy, oa_update = QProxy, oa_answer = RProxy, oa_rest = oz_Proxies z\<rparr>"

lemmas api_defs = OZGroups_def OZPolicies_def OZResources_def OZRoutingPeers_def OZSetupKeys_def Services_def Secrets_def Deployments_def AlphaGroups_def AlphaSetupKeys_def NetworkRouters_def NetworkResources_def GatewayClasses_def Gateways_def HTTPRoutes_def TCPRoutes_def SidecarProfiles_def Groups_def SetupKeys_def Networks_def Routers_def Resources_def Policies_def Accounts_def Zones_def Records_def Proxies_def

type_synonym ('w, 'a) go = "('w world, 'a) state"

definition api_call :: "('w \<Rightarrow> 'r \<times> 'w) \<Rightarrow> ('r \<Rightarrow> event) \<Rightarrow> ('w, 'r) go" where
  "api_call op ev = State (\<lambda>s. case op (wenv s) of
     (r, e) \<Rightarrow> (r, s\<lparr>wenv := e, wlog := wlog s @ [ev r]\<rparr>))"

definition read_clock :: "'w Client \<Rightarrow> ('w, time) go" where
  "read_clock c = State (\<lambda>s. case clock c (wenv s) of (t, e) \<Rightarrow> (t, s\<lparr>wenv := e\<rparr>))"

definition answer :: "('a \<Rightarrow> 'b) \<Rightarrow> goerr + 'a \<Rightarrow> goerr + 'b" where
  "answer f r = map_sum id f r"

lemma answer_simps [simp]: "answer f (Inl e) = Inl e" "answer f (Inr x) = Inr (f x)"
  by (simp_all add: answer_def)

definition k_get :: "('w, 'o) kapi \<Rightarrow> nn \<Rightarrow> ('w, goerr + 'o) go" where
  "k_get a k = api_call (kc_get (ka_client a) k) (\<lambda>r. EGet (ka_kind a) k (answer (ka_obj a) r))"
definition k_list :: "('w, 'o) kapi \<Rightarrow> string option \<Rightarrow> ('w, goerr + 'o list) go" where
  "k_list a ns = api_call (kc_list (ka_client a) ns) (\<lambda>r. EList (ka_kind a) (answer (map (ka_obj a)) r))"
definition k_create :: "('w, 'o) kapi \<Rightarrow> 'o \<Rightarrow> ('w, goerr + 'o) go" where
  "k_create a obj = api_call (kc_create (ka_client a) obj) (\<lambda>r. ECreate (ka_obj a obj) (err_of r))"
definition k_update :: "('w, 'o) kapi \<Rightarrow> 'o \<Rightarrow> ('w, goerr + 'o) go" where
  "k_update a obj = api_call (kc_update (ka_client a) obj) (\<lambda>r. EUpdate (ka_obj a obj) (err_of r))"
definition k_status_update :: "('w, 'o) kapi \<Rightarrow> 'o \<Rightarrow> ('w, goerr + 'o) go" where
  "k_status_update a obj = api_call (kc_status_update (ka_client a) obj) (\<lambda>r. EStatusUpdate (ka_obj a obj) (err_of r))"
definition k_patch :: "('w, 'o) kapi \<Rightarrow> 'o \<Rightarrow> ('w, goerr + 'o) go" where
  "k_patch a obj = api_call (kc_patch (ka_client a) obj) (\<lambda>r. EPatch (ka_obj a obj) (answer (ka_obj a) r))"
definition k_apply :: "('w, 'o) kapi \<Rightarrow> 'o \<Rightarrow> ('w, goerr option) go" where
  "k_apply a obj = api_call (kc_apply (ka_client a) obj) (\<lambda>r. EApply (ka_obj a obj) r)"
definition k_delete :: "('w, 'o) kapi \<Rightarrow> 'o \<Rightarrow> ('w, goerr option) go" where
  "k_delete a obj = api_call (kc_delete (ka_client a) obj) (\<lambda>r. EDelete (ka_obj a obj) r)"

definition o_list :: "('w, 'q, 'u, 'r) oapi \<Rightarrow> ('w, goerr + 'r list) go" where
  "o_list a = api_call (rs_list (oa_rest a)) (\<lambda>r. OList (oa_coll a) (answer (map (oa_answer a)) r))"
definition o_get :: "('w, 'q, 'u, 'r) oapi \<Rightarrow> string \<Rightarrow> ('w, goerr + 'r) go" where
  "o_get a i = api_call (rs_get (oa_rest a) i) (\<lambda>r. OGet (oa_coll a) i (answer (oa_answer a) r))"
definition o_create :: "('w, 'q, 'u, 'r) oapi \<Rightarrow> 'q \<Rightarrow> ('w, goerr + 'r) go" where
  "o_create a q = api_call (rs_create (oa_rest a) q)
     (\<lambda>r. OCreate (oa_coll a) (oa_create a q) (answer (oa_answer a) r))"
definition o_update :: "('w, 'q, 'u, 'r) oapi \<Rightarrow> string \<Rightarrow> 'u \<Rightarrow> ('w, goerr + 'r) go" where
  "o_update a i u = api_call (rs_update (oa_rest a) i u)
     (\<lambda>r. OUpdate (oa_coll a) i (oa_update a u) (answer (oa_answer a) r))"
definition o_delete :: "('w, 'q, 'u, 'r) oapi \<Rightarrow> string \<Rightarrow> ('w, goerr option) go" where
  "o_delete a i = api_call (rs_delete (oa_rest a) i) (\<lambda>r. ODelete (oa_coll a) i r)"

text \<open>\<open>Groups.GetByName\<close>: recorded as a read of the group collection.\<close>

definition o_group_by_name :: "'w OpenZro \<Rightarrow> string \<Rightarrow> ('w, goerr + ApiGroup) go" where
  "o_group_by_name z n = api_call (oz_GroupByName z n) (\<lambda>r. OGet CGroups n (answer RGroup r))"

lemmas call_defs = k_get_def k_list_def k_create_def k_update_def k_status_update_def k_patch_def
  k_apply_def k_delete_def o_list_def o_get_def o_create_def o_update_def o_delete_def
  o_group_by_name_def api_defs

text \<open>\<open>openzrov1.OZConditionTrue()\<close> and \<open>OZConditionFalse(reason, msg)\<close>, which read the clock twice.\<close>

definition condition_true :: "'w Client \<Rightarrow> ('w, OZCondition list) go" where
  "condition_true c = do { t1 \<leftarrow> read_clock c; t2 \<leftarrow> read_clock c; State_Monad.return (OZConditionTrue t1 t2) }"

definition condition_false :: "'w Client \<Rightarrow> string \<Rightarrow> string \<Rightarrow> ('w, OZCondition list) go" where
  "condition_false c reason msg =
     do { t1 \<leftarrow> read_clock c; t2 \<leftarrow> read_clock c; State_Monad.return (OZConditionFalse t1 t2 reason msg) }"

section \<open>Reasoning about calls\<close>

lemma wp_case_outcome [wp_simps]:
  "wp (case v of Returned a \<Rightarrow> m a | Panicked p \<Rightarrow> n p) Q s =
     (case v of Returned a \<Rightarrow> wp (m a) Q s | Panicked p \<Rightarrow> wp (n p) Q s)"
  by (cases v) simp_all

lemma wp_api_call [wp_simps]:
  "wp (api_call op ev) Q s = (case op (wenv s) of (r, e) \<Rightarrow> Q r (s\<lparr>wenv := e, wlog := wlog s @ [ev r]\<rparr>))"
  by (simp add: wp_def api_call_def split: prod.splits)

lemma wp_read_clock [wp_simps]:
  "wp (read_clock c) Q s = (case clock c (wenv s) of (t, e) \<Rightarrow> Q t (s\<lparr>wenv := e\<rparr>))"
  by (simp add: wp_def read_clock_def split: prod.splits)

definition emits :: "('w, 'a) go \<Rightarrow> ('a \<Rightarrow> event list \<Rightarrow> bool) \<Rightarrow> bool" where
  "emits m P = (\<forall>s. wp m (\<lambda>x t. \<exists>evs. wlog t = wlog s @ evs \<and> P x evs) s)"

named_theorems emits_intros \<open>introduction rules of emits, one per program construct\<close>

lemma emits_mono: "emits m P \<Longrightarrow> (\<And>x evs. P x evs \<Longrightarrow> Q x evs) \<Longrightarrow> emits m Q"
  unfolding emits_def by (blast intro: wp_mono)

lemma emits_conj: "emits m P \<Longrightarrow> emits m Q \<Longrightarrow> emits m (\<lambda>x evs. P x evs \<and> Q x evs)"
  unfolding emits_def
proof
  fix s
  assume a: "\<forall>s. wp m (\<lambda>x t. \<exists>evs. wlog t = wlog s @ evs \<and> P x evs) s"
    and b: "\<forall>s. wp m (\<lambda>x t. \<exists>evs. wlog t = wlog s @ evs \<and> Q x evs) s"
  have "wp m (\<lambda>x t. (\<exists>evs. wlog t = wlog s @ evs \<and> P x evs) \<and> (\<exists>evs. wlog t = wlog s @ evs \<and> Q x evs)) s"
    using a b by (simp add: wp_conj)
  then show "wp m (\<lambda>x t. \<exists>evs. wlog t = wlog s @ evs \<and> P x evs \<and> Q x evs) s"
    by (rule wp_mono) auto
qed

lemma emits_return [emits_intros]: "P x [] \<Longrightarrow> emits (State_Monad.return x) P"
  by (simp add: emits_def wp_simps)

lemma emits_bind:
  fixes m :: "('w, 'a) go"
  assumes "emits m R" "\<And>x e1. R x e1 \<Longrightarrow> emits (f x) (\<lambda>y e2. P y (e1 @ e2))"
  shows "emits (State_Monad.bind m f) P"
  unfolding emits_def
proof
  fix s
  have "wp m (\<lambda>x t. \<exists>e1. wlog t = wlog s @ e1 \<and> R x e1) s"
    using assms(1) by (simp add: emits_def)
  then show "wp (State_Monad.bind m f) (\<lambda>y u. \<exists>evs. wlog u = wlog s @ evs \<and> P y evs) s"
    unfolding wp_bind
  proof (rule wp_mono)
    fix x and t :: "'w world"
    assume "\<exists>e1. wlog t = wlog s @ e1 \<and> R x e1"
    then obtain e1 where t: "wlog t = wlog s @ e1" and "R x e1" by blast
    then have "emits (f x) (\<lambda>y e2. P y (e1 @ e2))" using assms(2) by blast
    then have "wp (f x) (\<lambda>y u. \<exists>e2. wlog u = wlog t @ e2 \<and> P y (e1 @ e2)) t"
      by (simp add: emits_def)
    then show "wp (f x) (\<lambda>y u. \<exists>evs. wlog u = wlog s @ evs \<and> P y evs) t"
      by (rule wp_mono) (auto simp: t)
  qed
qed

lemma emits_bind_return [emits_intros]:
  "emits (f x) P \<Longrightarrow> emits (State_Monad.bind (State_Monad.return x) f) P"
  by simp

lemma emits_bind_assoc [emits_intros]:
  "emits (State_Monad.bind m (\<lambda>x. State_Monad.bind (f x) g)) P \<Longrightarrow>
   emits (State_Monad.bind (State_Monad.bind m f) g) P"
  by simp

lemma emits_api_call [emits_intros]: "(\<And>r. P r [ev r]) \<Longrightarrow> emits (api_call op ev) P"
  by (auto simp: emits_def wp_simps split: prod.splits)

lemma emits_bind_api_call [emits_intros]:
  assumes "\<And>r. emits (f r) (\<lambda>y e2. P y (ev r # e2))"
  shows "emits (State_Monad.bind (api_call op ev) f) P"
  by (rule emits_bind [where R = "\<lambda>r e. e = [ev r]"]) (use assms in \<open>auto intro: emits_api_call\<close>)

lemma emits_bind_read_clock [emits_intros]:
  assumes "\<And>t. emits (f t) P"
  shows "emits (State_Monad.bind (read_clock c) f) P"
proof -
  have "emits (read_clock c) (\<lambda>_ evs. evs = [])"
    by (auto simp: emits_def wp_simps split: prod.splits)
  then show ?thesis by (rule emits_bind) (use assms in simp)
qed

lemma emits_bind_condition_true [emits_intros]:
  "(\<And>c. emits (f c) P) \<Longrightarrow> emits (State_Monad.bind (condition_true cl) f) P"
  unfolding condition_true_def by (auto intro!: emits_intros)

lemma emits_bind_condition_false [emits_intros]:
  "(\<And>c. emits (f c) P) \<Longrightarrow> emits (State_Monad.bind (condition_false cl rs ms) f) P"
  unfolding condition_false_def by (auto intro!: emits_intros)

lemma emits_let [emits_intros]: "(\<And>x. x = a \<Longrightarrow> emits (f x) P) \<Longrightarrow> emits (let x = a in f x) P"
  by simp

text \<open>Loops: the invariant sees the elements already visited, the loop's variables and the calls so far.\<close>

lemma emits_for_each_visited:
  fixes body :: "'a \<Rightarrow> 'b \<Rightarrow> ('w, 'e + 'b) go"
  assumes "I [] acc []"
    and "\<And>x don acc e1. x \<in> set xs \<Longrightarrow> I don acc e1 \<Longrightarrow>
      emits (body x acc) (\<lambda>r e2. case r of Inl e \<Rightarrow> P (Inl e) (e1 @ e2) | Inr acc' \<Rightarrow> I (don @ [x]) acc' (e1 @ e2))"
    and "\<And>acc evs. I xs acc evs \<Longrightarrow> P (Inr acc) evs"
  shows "emits (for_each xs acc body) P"
  unfolding emits_def
proof
  fix s
  show "wp (for_each xs acc body) (\<lambda>x t. \<exists>evs. wlog t = wlog s @ evs \<and> P x evs) s"
  proof (rule wp_for_each [where I = "\<lambda>don acc t. \<exists>e1. wlog t = wlog s @ e1 \<and> I don acc e1"])
    show "\<exists>e1. wlog s = wlog s @ e1 \<and> I [] acc e1" using assms(1) by simp
  next
    fix x don acc and t :: "'w world"
    assume "x \<in> set xs" and "\<exists>e1. wlog t = wlog s @ e1 \<and> I don acc e1"
    then obtain e1 where t: "wlog t = wlog s @ e1" and inv: "I don acc e1" by blast
    from assms(2) [OF \<open>x \<in> set xs\<close> inv]
    have "wp (body x acc) (\<lambda>r u. \<exists>e2. wlog u = wlog t @ e2 \<and>
       (case r of Inl e \<Rightarrow> P (Inl e) (e1 @ e2) | Inr acc' \<Rightarrow> I (don @ [x]) acc' (e1 @ e2))) t"
      by (simp add: emits_def)
    then show "wp (body x acc) (\<lambda>r u. case r of Inl e \<Rightarrow> \<exists>evs. wlog u = wlog s @ evs \<and> P (Inl e) evs
        | Inr acc' \<Rightarrow> \<exists>e1. wlog u = wlog s @ e1 \<and> I (don @ [x]) acc' e1) t"
      by (rule wp_mono) (auto simp: t split: sum.splits)
  next
    fix acc and t :: "'w world"
    assume "\<exists>e1. wlog t = wlog s @ e1 \<and> I xs acc e1"
    then show "\<exists>evs. wlog t = wlog s @ evs \<and> P (Inr acc) evs" using assms(3) by blast
  qed
qed

lemma emits_for_each:
  fixes body :: "'a \<Rightarrow> 'b \<Rightarrow> ('w, 'e + 'b) go"
  assumes "I acc []"
    and "\<And>x acc e1. x \<in> set xs \<Longrightarrow> I acc e1 \<Longrightarrow>
      emits (body x acc) (\<lambda>r e2. case r of Inl e \<Rightarrow> P (Inl e) (e1 @ e2) | Inr acc' \<Rightarrow> I acc' (e1 @ e2))"
    and "\<And>acc evs. I acc evs \<Longrightarrow> P (Inr acc) evs"
  shows "emits (for_each xs acc body) P"
  by (rule emits_for_each_visited [where I = "\<lambda>_. I"]) (use assms in auto)

text \<open>Every object update of the log satisfies \<open>P\<close>; no status is written.\<close>

definition updates_only :: "(kobj \<Rightarrow> bool) \<Rightarrow> event list \<Rightarrow> bool" where
  "updates_only P evs = (\<forall>x er. EUpdate x er \<in> set evs \<longrightarrow> P x)"

definition no_status_update :: "event list \<Rightarrow> bool" where
  "no_status_update evs = (\<forall>x er. EStatusUpdate x er \<notin> set evs)"

text \<open>Every object of this kind that is read has a key in \<open>P\<close>.\<close>

definition reads_only :: "string \<Rightarrow> (nn \<Rightarrow> bool) \<Rightarrow> event list \<Rightarrow> bool" where
  "reads_only kind P evs = (\<forall>k a. EGet kind k a \<in> set evs \<longrightarrow> P k)"

lemma reads_only_simps [simp]:
  "reads_only kind P []"
  "reads_only kind P (ev # evs) \<longleftrightarrow> (\<forall>k a. ev = EGet kind k a \<longrightarrow> P k) \<and> reads_only kind P evs"
  "reads_only kind P (e1 @ e2) \<longleftrightarrow> reads_only kind P e1 \<and> reads_only kind P e2"
  unfolding reads_only_def by (simp, fastforce, fastforce)

text \<open>No object is deleted from the cluster.\<close>

definition no_delete :: "event list \<Rightarrow> bool" where
  "no_delete evs = (\<forall>x er. EDelete x er \<notin> set evs)"

lemma no_delete_simps [simp]:
  "no_delete []"
  "no_delete (ev # evs) \<longleftrightarrow> (\<forall>x er. ev \<noteq> EDelete x er) \<and> no_delete evs"
  "no_delete (e1 @ e2) \<longleftrightarrow> no_delete e1 \<and> no_delete e2"
  by (auto simp: no_delete_def)

lemma updates_only_simps [simp]:
  "updates_only P []"
  "updates_only P (ev # evs) \<longleftrightarrow> (\<forall>x er. ev = EUpdate x er \<longrightarrow> P x) \<and> updates_only P evs"
  "updates_only P (e1 @ e2) \<longleftrightarrow> updates_only P e1 \<and> updates_only P e2"
  by (auto simp: updates_only_def)

lemma no_status_update_simps [simp]:
  "no_status_update []"
  "no_status_update (ev # evs) \<longleftrightarrow> (\<forall>x er. ev \<noteq> EStatusUpdate x er) \<and> no_status_update evs"
  "no_status_update (e1 @ e2) \<longleftrightarrow> no_status_update e1 \<and> no_status_update e2"
  by (auto simp: no_status_update_def)

text \<open>Running from an empty log.\<close>

lemma emits_run:
  assumes "emits m P" "run_state m \<lparr>wenv = w, wlog = []\<rparr> = (x, t)"
  shows "P x (wlog t)"
proof -
  have "wp m (\<lambda>x t. \<exists>evs. wlog t = wlog \<lparr>wenv = w, wlog = []\<rparr> @ evs \<and> P x evs) \<lparr>wenv = w, wlog = []\<rparr>"
    using assms(1) unfolding emits_def by blast
  from wp_run [OF this assms(2)] show ?thesis by simp
qed

section \<open>Environments for concrete runs\<close>

text \<open>
  Clients whose every call fails; a concrete environment is one of these with the calls of
  interest replaced. They instantiate the parameters at the concrete inputs of the witnesses.
\<close>

definition down_kind :: "('w, 'o) kind_client" where
  "down_kind = \<lparr>kc_get = \<lambda>_ w. (Inl (KError ''down''), w), kc_list = \<lambda>_ w. (Inl (KError ''down''), w),
     kc_create = \<lambda>_ w. (Inl (KError ''down''), w), kc_update = \<lambda>_ w. (Inl (KError ''down''), w),
     kc_status_update = \<lambda>_ w. (Inl (KError ''down''), w), kc_patch = \<lambda>_ w. (Inl (KError ''down''), w),
     kc_apply = \<lambda>_ w. (Some (KError ''down''), w), kc_delete = \<lambda>_ w. (Some (KError ''down''), w)\<rparr>"

definition down_rest :: "('w, 'q, 'u, 'r) rest" where
  "down_rest = \<lparr>rs_list = \<lambda>w. (Inl (OError ''down''), w), rs_get = \<lambda>_ w. (Inl (OError ''down''), w),
     rs_create = \<lambda>_ w. (Inl (OError ''down''), w), rs_update = \<lambda>_ _ w. (Inl (OError ''down''), w),
     rs_delete = \<lambda>_ w. (Some (OError ''down''), w)\<rparr>"

definition down_Client :: "'w Client" where
  "down_Client = \<lparr>c_OZGroups = down_kind, c_OZPolicies = down_kind, c_OZResources = down_kind,
     c_OZRoutingPeers = down_kind, c_OZSetupKeys = down_kind, c_Services = down_kind, c_Secrets = down_kind,
     c_Deployments = down_kind, c_AlphaGroups = down_kind, c_AlphaSetupKeys = down_kind,
     c_NetworkRouters = down_kind, c_NetworkResources = down_kind, c_GatewayClasses = down_kind,
     c_Gateways = down_kind, c_HTTPRoutes = down_kind, c_TCPRoutes = down_kind, c_SidecarProfiles = down_kind,
     clock = \<lambda>w. (0, w),
     AddFinalizer = \<lambda>f fs. if f \<in> set fs then fs else fs @ [f],
     RemoveFinalizer = \<lambda>f fs. filter (\<lambda>g. g \<noteq> f) fs,
     SetCondition = \<lambda>c cs. filter (\<lambda>d. cond_Type d \<noteq> cond_Type c) cs @ [c],
     SetStatusCondition = \<lambda>c cs. filter (\<lambda>d. cond_Type d \<noteq> cond_Type c) cs @ [c],
     HasCondition = \<lambda>t cs. \<exists>c \<in> set cs. cond_Type c = t,
     IsStatusConditionTrue = \<lambda>t cs. \<exists>c \<in> set cs. cond_Type c = t \<and> cond_Status c = ''True'',
     GVKForObject = \<lambda>_. Inr (''v1'', ''Kind''),
     RemoveOwnerReference = \<lambda>_ refs. case refs of [] \<Rightarrow> Inl (GoError ''no owner reference'') | _ # refs' \<Rightarrow> Inr refs'\<rparr>"

definition down_OpenZro :: "'w OpenZro" where
  "down_OpenZro = \<lparr>oz_Groups = down_rest, oz_GroupByName = \<lambda>_ w. (Inl (OError ''down''), w),
     oz_SetupKeys = down_rest, oz_Networks = down_rest, oz_Routers = \<lambda>_. down_rest,
     oz_Resources = \<lambda>_. down_rest, oz_Policies = down_rest, oz_Accounts = down_rest,
     oz_Zones = down_rest, oz_Records = \<lambda>_. down_rest, oz_Proxies = down_rest\<rparr>"

definition start :: "unit world" where
  "start = \<lparr>wenv = (), wlog = []\<rparr>"

lemma start_simps [simp]: "wenv start = ()" "wlog start = []"
  by (simp_all add: start_def)

lemma emits_start: "emits m P \<Longrightarrow> P (fst (run_state m start)) (wlog (snd (run_state m start)))"
  using emits_run [of m P "()"] by (simp add: start_def split: prod.splits)

lemma run_api_call [simp]:
  "run_state (api_call op ev) s = (case op (wenv s) of (r, e) \<Rightarrow> (r, s\<lparr>wenv := e, wlog := wlog s @ [ev r]\<rparr>))"
  by (simp add: api_call_def)

lemma run_read_clock [simp]:
  "run_state (read_clock c) s = (case clock c (wenv s) of (t, e) \<Rightarrow> (t, s\<lparr>wenv := e\<rparr>))"
  by (simp add: read_clock_def)

lemmas down_defs = down_kind_def down_rest_def down_Client_def down_OpenZro_def

end
