(* ===== verification/Constants.thy ===== *)
theory Constants
  imports World
begin

text \<open>
  \<open>internal/controller/constants.go\<close>, and the few helpers that several controllers share: the text
  of an error under \<open>%v\<close>, \<open>slices.Delete\<close> of one element, and giving up the ownership of an
  \<open>OZGroup\<close>, which the OZResource and OZRoutingPeer reconcilers write out in the same way.
\<close>

section \<open>Constants\<close>

definition FinalizerResourceCleanup :: string where
  "FinalizerResourceCleanup = ''openzro.io/cleanup''"
definition FinalizerGroupCleanup :: string where
  "FinalizerGroupCleanup = ''openzro.io/group-cleanup''"
definition FinalizerRoutingPeerCleanup :: string where
  "FinalizerRoutingPeerCleanup = ''openzro.io/routing-peer-cleanup''"
definition FinalizerOZResourceCleanup :: string where
  "FinalizerOZResourceCleanup = ''openzro.io/resource-cleanup''"
definition KubernetesDefaultNamespace :: string where
  "KubernetesDefaultNamespace = ''default''"
definition KubernetesAPIServiceName :: string where
  "KubernetesAPIServiceName = ''kubernetes''"
definition DefaultRouterName :: string where
  "DefaultRouterName = ''router''"
definition LabelAppKubernetesName :: string where
  "LabelAppKubernetesName = ''app.kubernetes.io/name''"
definition LabelValueRouter :: string where
  "LabelValueRouter = ''openzro-router''"
definition KindOZRoutingPeer :: string where
  "KindOZRoutingPeer = ''OZRoutingPeer''"
definition KindOZResource :: string where
  "KindOZResource = ''OZResource''"
definition SecretKeySetupKey :: string where
  "SecretKeySetupKey = ''setupKey''"

text \<open>The entry of the secret of a v1alpha1 setup key (\<open>setupkey_controller.go\<close>).\<close>

definition SetupKeySecretKey :: string where "SetupKeySecretKey = ''setup-key''"

lemmas constant_defs = FinalizerResourceCleanup_def FinalizerGroupCleanup_def FinalizerRoutingPeerCleanup_def
  FinalizerOZResourceCleanup_def KubernetesDefaultNamespace_def KubernetesAPIServiceName_def DefaultRouterName_def
  LabelAppKubernetesName_def LabelValueRouter_def KindOZRoutingPeer_def KindOZResource_def SecretKeySetupKey_def

text \<open>\<open>fmt.Sprintf("%v", err)\<close>\<close>

definition err_v :: "goerr option \<Rightarrow> string" where
  "err_v err = (case err of None \<Rightarrow> ''<nil>'' | Some e \<Rightarrow> error_text e)"

text \<open>\<open>slices.Delete(xs, i, i + 1)\<close>\<close>

definition slices_delete1 :: "nat \<Rightarrow> 'a list \<Rightarrow> 'a list" where
  "slices_delete1 i xs = take i xs @ drop (Suc i) xs"

section \<open>Owners of groups\<close>

text \<open>\<open>openzrov1.GroupVersion.Identifier()\<close>\<close>

definition GroupVersion :: string where
  "GroupVersion = ''openzro.io/v1''"

text \<open>The index of the first owner reference with the given UID; \<open>None\<close> is -1.\<close>

fun owner_index :: "string \<Rightarrow> OwnerReference list \<Rightarrow> nat option" where
  "owner_index uid [] = None"
| "owner_index uid (o' # os) = (if or_UID o' = uid then Some 0 else map_option Suc (owner_index uid os))"

text \<open>The group as it is updated when the owner with this UID gives it up; \<open>None\<close> when it is not an owner.\<close>

definition disowned :: "string \<Rightarrow> string \<Rightarrow> OZGroup \<Rightarrow> OZGroup option" where
  "disowned fin uid g =
     (case owner_index uid (om_OwnerReferences (ozg_Meta g)) of
        None \<Rightarrow> None
      | Some i \<Rightarrow>
          if 1 < length (om_OwnerReferences (ozg_Meta g))
          then Some (g\<lparr>ozg_Meta := (ozg_Meta g)\<lparr>om_OwnerReferences :=
            slices_delete1 i (om_OwnerReferences (ozg_Meta g))\<rparr>\<rparr>)
          else Some (g\<lparr>ozg_Meta := (ozg_Meta g)\<lparr>om_Finalizers :=
            Without (om_Finalizers (ozg_Meta g)) fin\<rparr>\<rparr>))"

text \<open>One iteration of the loop over the groups: update the group, tolerate that it is gone.\<close>

definition disown_group :: "'w Client \<Rightarrow> string \<Rightarrow> string \<Rightarrow> OZGroup \<Rightarrow> ('w, goerr option) go" where
  "disown_group c fin uid g =
     (case disowned fin uid g of
        None \<Rightarrow> State_Monad.return None
      | Some g' \<Rightarrow> do {
          ur \<leftarrow> k_update (OZGroups c) g';
          State_Monad.return (case err_of ur of
            Some e \<Rightarrow> if \<not> k_IsNotFound e then Some e else None
          | None \<Rightarrow> None) })"

section \<open>Facts\<close>

lemma map_sum_eq_Inr: "map_sum f g v = Inr y \<longleftrightarrow> (\<exists>z. v = Inr z \<and> y = g z)"
  by (cases v) auto

lemma k_IsNotFound_iff: "k_IsNotFound e \<longleftrightarrow> (\<exists>m. e = KNotFound m)"
  by (cases e) auto

lemma o_IsNotFound_iff: "o_IsNotFound e \<longleftrightarrow> (\<exists>m. e = ONotFound m)"
  by (cases e) auto

lemma owner_index_None: "owner_index uid os = None \<longleftrightarrow> (\<forall>o' \<in> set os. or_UID o' \<noteq> uid)"
  by (induction os) auto

lemma owner_index_Some:
  "owner_index uid os = Some i \<Longrightarrow> i < length os \<and> or_UID (os ! i) = uid \<and> (\<forall>j < i. or_UID (os ! j) \<noteq> uid)"
proof (induction os arbitrary: i)
  case (Cons o' os)
  then show ?case
    by (cases "or_UID o' = uid") (auto simp: less_Suc_eq_0_disj, blast)
qed simp

lemma length_slices_delete1 [simp]: "i < length xs \<Longrightarrow> length (slices_delete1 i xs) = length xs - 1"
  by (simp add: slices_delete1_def)

lemma slices_delete1_distinct:
  assumes "distinct (map f xs)" "i < length xs"
  shows "set (slices_delete1 i xs) = {x \<in> set xs. f x \<noteq> f (xs ! i)}"
proof -
  have xs: "xs = take i xs @ xs ! i # drop (Suc i) xs" using assms(2) by (rule id_take_nth_drop)
  have "distinct (map f (take i xs @ xs ! i # drop (Suc i) xs))" using assms(1) xs by simp
  then have "\<forall>x \<in> set (take i xs @ drop (Suc i) xs). f x \<noteq> f (xs ! i)"
    by (simp del: append_take_drop_id add: image_iff) fastforce
  moreover have "set xs = insert (xs ! i) (set (take i xs @ drop (Suc i) xs))"
    using xs by (metis Un_insert_right list.simps(15) set_append)
  ultimately show ?thesis by (auto simp: slices_delete1_def)
qed

text \<open>
  Giving a group up: with unique owners, the caller is no longer one of several owners, while a
  sole owner keeps its reference and only the cleanup finalizer goes; nothing else changes.
\<close>

lemma disowned_spec:
  assumes "disowned fin uid g = Some g'" "distinct (map or_UID (om_OwnerReferences (ozg_Meta g)))"
  shows "ozg_Spec g' = ozg_Spec g \<and> ozg_Status g' = ozg_Status g \<and>
    (if 1 < length (om_OwnerReferences (ozg_Meta g))
     then set (om_OwnerReferences (ozg_Meta g')) = {o' \<in> set (om_OwnerReferences (ozg_Meta g)). or_UID o' \<noteq> uid} \<and>
          om_Finalizers (ozg_Meta g') = om_Finalizers (ozg_Meta g)
     else om_OwnerReferences (ozg_Meta g') = om_OwnerReferences (ozg_Meta g) \<and> fin \<notin> set (om_Finalizers (ozg_Meta g')))"
  using assms owner_index_Some [of uid "om_OwnerReferences (ozg_Meta g)"]
    slices_delete1_distinct [of or_UID "om_OwnerReferences (ozg_Meta g)"]
  by (auto simp: disowned_def split: option.splits if_splits)

lemma emits_disown_group:
  "emits (disown_group c fin uid g) (\<lambda>err evs. case disowned fin uid g of
     None \<Rightarrow> err = None \<and> evs = []
   | Some g' \<Rightarrow> (\<exists>er. evs = [EUpdate (KOZGroup g') er] \<and> (err = None \<longrightarrow> (er = None \<or> (\<exists>m. er = Some (KNotFound m))))))"
  unfolding disown_group_def call_defs
  by (auto intro!: emits_intros split: option.split simp: k_IsNotFound_iff)

text \<open>The loop that gives up a list of groups.\<close>

definition disown_all :: "'w Client \<Rightarrow> string \<Rightarrow> string \<Rightarrow> OZGroup list \<Rightarrow> ('w, goerr option) go" where
  "disown_all c fin uid items = do {
     l \<leftarrow> for_each items () (\<lambda>g _. do {
       err \<leftarrow> disown_group c fin uid g;
       State_Monad.return (case err of Some e \<Rightarrow> Inl e | None \<Rightarrow> Inr ()) });
     State_Monad.return (case l of Inl e \<Rightarrow> Some e | Inr _ \<Rightarrow> None)
   }"

definition disown_updates :: "string \<Rightarrow> string \<Rightarrow> OZGroup list \<Rightarrow> kobj \<Rightarrow> bool" where
  "disown_updates fin uid items o' = (\<exists>g \<in> set items. map_option KOZGroup (disowned fin uid g) = Some o')"

definition given_up :: "string \<Rightarrow> string \<Rightarrow> event list \<Rightarrow> OZGroup \<Rightarrow> bool" where
  "given_up fin uid evs g = (case disowned fin uid g of None \<Rightarrow> True
     | Some g' \<Rightarrow> EUpdate (KOZGroup g') None \<in> set evs \<or> (\<exists>m. EUpdate (KOZGroup g') (Some (KNotFound m)) \<in> set evs))"

lemma given_up_append [simp]:
  "given_up fin uid e1 g \<Longrightarrow> given_up fin uid (e1 @ e2) g"
  "given_up fin uid e2 g \<Longrightarrow> given_up fin uid (e1 @ e2) g"
  by (auto simp: given_up_def split: option.splits)

lemma emits_disown_one:
  "g \<in> set items \<Longrightarrow> emits (disown_group c fin uid g) (\<lambda>err evs. no_status_update evs \<and> no_delete evs \<and>
     updates_only (disown_updates fin uid items) evs \<and> (err = None \<longrightarrow> given_up fin uid evs g))"
  by (rule emits_mono [OF emits_disown_group])
     (auto simp: disown_updates_def given_up_def split: option.splits)

lemma emits_disown_all:
  "emits (disown_all c fin uid items) (\<lambda>err evs. no_status_update evs \<and> no_delete evs \<and>
     updates_only (disown_updates fin uid items) evs \<and> (err = None \<longrightarrow> (\<forall>g \<in> set items. given_up fin uid evs g)))"
proof -
  have "emits (for_each items () (\<lambda>g _. do {
       err \<leftarrow> disown_group c fin uid g;
       State_Monad.return (case err of Some e \<Rightarrow> Inl e | None \<Rightarrow> Inr ()) }))
     (\<lambda>l evs. no_status_update evs \<and> no_delete evs \<and> updates_only (disown_updates fin uid items) evs \<and>
        (case l of Inl e \<Rightarrow> True | Inr _ \<Rightarrow> \<forall>g \<in> set items. given_up fin uid evs g))"
    by (rule emits_for_each_visited [where I = "\<lambda>don _ evs. no_status_update evs \<and> no_delete evs \<and>
          updates_only (disown_updates fin uid items) evs \<and> (\<forall>g \<in> set don. given_up fin uid evs g)"])
       (auto intro!: emits_intros emits_bind [OF emits_disown_one [where items = items]] split: option.splits)
  then show ?thesis
    unfolding disown_all_def by (rule emits_bind) (auto intro!: emits_intros split: sum.splits)
qed

text \<open>Updates of groups, or of objects in \<open>Q\<close>.\<close>

definition group_or :: "(kobj \<Rightarrow> bool) \<Rightarrow> kobj \<Rightarrow> bool" where
  "group_or Q o' = (case o' of KOZGroup _ \<Rightarrow> True | _ \<Rightarrow> Q o')"

lemma disown_updates_groups: "updates_only (disown_updates fin uid items) evs \<Longrightarrow> updates_only (group_or Q) evs"
  by (fastforce simp: updates_only_def disown_updates_def group_or_def)

lemma disown_no_reads:
  "emits (disown_all c fin uid items) (\<lambda>_ evs. \<forall>kind P. reads_only kind P evs)"
proof -
  have one: "emits (disown_group c fin uid g) (\<lambda>_ evs. \<forall>kind P. reads_only kind P evs)" for g
    unfolding disown_group_def call_defs by (auto intro!: emits_intros split: option.split)
  have "emits (for_each items () (\<lambda>g _. do {
       err \<leftarrow> disown_group c fin uid g;
       State_Monad.return (case err of Some e \<Rightarrow> Inl e | None \<Rightarrow> Inr ()) })) (\<lambda>_ evs. \<forall>kind P. reads_only kind P evs)"
    by (rule emits_for_each [where I = "\<lambda>_ evs. \<forall>kind P. reads_only kind P evs"])
       (auto intro!: emits_intros emits_bind [OF one] split: sum.split)
  then show ?thesis
    unfolding disown_all_def by (rule emits_bind) (auto intro!: emits_intros)
qed

end
