(* ===== verification/Alpha_Common.thy ===== *)
theory Alpha_Common
  imports Constants
begin

text \<open>
  What the v1alpha1 controllers share: \<open>internal/openzroutil\<close>, \<open>internal/k8sutil/owner.go\<close>, and the
  idioms of their reconcilers (update by recorded ID and create when the ID is unknown, delete and
  tolerate "not found"). The first idiom is the contract \<open>upserting\<close>, which every collection the
  controllers write meets.
\<close>

section \<open>Owner references\<close>

text \<open>\<open>k8sutil.ControllerReference\<close> and \<open>k8sutil.OwnerReference\<close>\<close>

definition ControllerReference :: "'w Client \<Rightarrow> kobj \<Rightarrow> ObjectMeta \<Rightarrow> goerr + OwnerReference" where
  "ControllerReference c owner m = (case GVKForObject c owner of
     Inl err \<Rightarrow> Inl err
   | Inr (groupVersion, kind) \<Rightarrow> Inr \<lparr>or_APIVersion = groupVersion, or_Kind = kind, or_Name = om_Name m,
       or_UID = om_UID m, or_Controller = Some True, or_BlockOwnerDeletion = Some True\<rparr>)"

definition OwnerReference_fn :: "'w Client \<Rightarrow> kobj \<Rightarrow> ObjectMeta \<Rightarrow> goerr + OwnerReference" where
  "OwnerReference_fn c owner m = (case GVKForObject c owner of
     Inl err \<Rightarrow> Inl err
   | Inr (groupVersion, kind) \<Rightarrow> Inr \<lparr>or_APIVersion = groupVersion, or_Kind = kind, or_Name = om_Name m,
       or_UID = om_UID m, or_Controller = Some False, or_BlockOwnerDeletion = Some False\<rparr>)"

section \<open>Lookups\<close>

text \<open>One reference of \<open>GetGroupIDs\<close>: the group's ID, or nothing when no field of the reference is set.\<close>

definition resolve_ref :: "'w Client \<Rightarrow> 'w OpenZro \<Rightarrow> string \<Rightarrow> GroupReference \<Rightarrow> ('w, goerr + string option) go" where
  "resolve_ref k8sClient nbClient namespace ref =
     (case gref_Name ref of
        Some n \<Rightarrow> do {
          gr \<leftarrow> o_group_by_name nbClient n;
          State_Monad.return (case gr of Inl err \<Rightarrow> Inl err | Inr grp \<Rightarrow> Inr (Some (ag_Id grp))) }
      | None \<Rightarrow>
     (case gref_ID ref of
        Some i \<Rightarrow> do {
          gr \<leftarrow> o_get (Groups nbClient) i;
          State_Monad.return (case gr of Inl err \<Rightarrow> Inl err | Inr grp \<Rightarrow> Inr (Some (ag_Id grp))) }
      | None \<Rightarrow>
     (case gref_LocalRef ref of
        Some n \<Rightarrow> do {
          gr \<leftarrow> k_get (AlphaGroups k8sClient) (namespace, n);
          State_Monad.return (case gr of
            Inl err \<Rightarrow> Inl err
          | Inr grp \<Rightarrow>
              if grp_GroupID grp = ''''
              then Inl (GoError (''group '' @ om_Name (grp_Meta grp) @ '' in groups list is not ready''))
              else Inr (Some (grp_GroupID grp))) }
      | None \<Rightarrow> State_Monad.return (Inr None))))"

definition GetGroupIDs ::
  "'w Client \<Rightarrow> 'w OpenZro \<Rightarrow> GroupReference list \<Rightarrow> string \<Rightarrow> ('w, goerr + string list) go" where
  "GetGroupIDs k8sClient nbClient refs namespace = for_each refs [] (\<lambda>ref groupIDs. do {
     rr \<leftarrow> resolve_ref k8sClient nbClient namespace ref;
     State_Monad.return (case rr of
       Inl err \<Rightarrow> Inl err
     | Inr None \<Rightarrow> Inr groupIDs
     | Inr (Some i) \<Rightarrow> Inr (groupIDs @ [i]))
   })"

definition GetDNSZoneByName :: "'w OpenZro \<Rightarrow> string \<Rightarrow> ('w, goerr + DNSZone) go" where
  "GetDNSZoneByName nbClient n = do {
     lr \<leftarrow> o_list (Zones nbClient);
     State_Monad.return (case lr of
       Inl err \<Rightarrow> Inl err
     | Inr resp \<Rightarrow>
         (case List.find (\<lambda>zone. dz_Name zone = n) resp of
            None \<Rightarrow> Inl (GoError (''zone with name '' @ n @ '' cannot be found''))
          | Some zone \<Rightarrow> Inr zone))
   }"

section \<open>Idioms of the reconcilers\<close>

text \<open>\<open>client.IgnoreNotFound\<close>\<close>

definition IgnoreNotFound :: "goerr \<Rightarrow> goerr option" where
  "IgnoreNotFound err = (if k_IsNotFound err then None else Some err)"

text \<open>\<open>conditions.MarkTrue(obj, ReadyCondition, ReconciledReason, "")\<close> and \<open>conditions.MarkFalse\<close>\<close>

definition mark_ready :: "'w Client \<Rightarrow> Condition list \<Rightarrow> Condition list" where
  "mark_ready c = SetCondition c \<lparr>cond_Type = ReadyCondition, cond_Status = ''True'',
     cond_Reason = ReconciledReason, cond_Message = ''''\<rparr>"

definition mark_not_ready :: "'w Client \<Rightarrow> string \<Rightarrow> string \<Rightarrow> Condition list \<Rightarrow> Condition list" where
  "mark_not_ready c reason msg = SetCondition c \<lparr>cond_Type = ReadyCondition, cond_Status = ''False'',
     cond_Reason = reason, cond_Message = msg\<rparr>"

text \<open>
  The function literal of the reconcilers: update the recorded object (\<open>recorded\<close>, when there is
  one), and create it when there is none or the API does not find it. The record is updated through
  \<open>ua\<close> and created through \<open>ca\<close>, which differ for DNS records only.
\<close>

definition upsert ::
  "('w, 'q, 'q, 'r) oapi \<Rightarrow> ('w, 'q, 'q, 'r) oapi \<Rightarrow> ('r \<Rightarrow> string) \<Rightarrow> string option \<Rightarrow> 'q \<Rightarrow> ('w, goerr + string) go" where
  "upsert ua ca idOf recorded req =
     (let create = do {
            cr \<leftarrow> o_create ca req;
            State_Monad.return (case cr of Inl err \<Rightarrow> Inl err | Inr resp \<Rightarrow> Inr (idOf resp)) }
      in case recorded of
           None \<Rightarrow> create
         | Some i \<Rightarrow> do {
             ur \<leftarrow> o_update ua i req;
             (case ur of
                Inr resp \<Rightarrow> State_Monad.return (Inr (idOf resp))
              | Inl err \<Rightarrow> if \<not> o_IsNotFound err then State_Monad.return (Inl err) else create) })"

text \<open>\<open>id != ""\<close> before an ID is used.\<close>

definition nonempty :: "string \<Rightarrow> string option" where
  "nonempty i = (if i \<noteq> '''' then Some i else None)"

text \<open>Delete what is recorded; \<open>openzro.IsNotFound\<close> is tolerated.\<close>

definition delete_recorded :: "('w, 'q, 'u, 'r) oapi \<Rightarrow> string option \<Rightarrow> ('w, goerr option) go" where
  "delete_recorded a recorded =
     (case recorded of
        None \<Rightarrow> State_Monad.return None
      | Some i \<Rightarrow> do {
          err \<leftarrow> o_delete a i;
          State_Monad.return (case err of
            None \<Rightarrow> None
          | Some e \<Rightarrow> if o_IsNotFound e then None else Some e) })"

section \<open>Stages that may end the function\<close>

text \<open>
  A stage of a reconciler yields \<open>Inl\<close> what the function returns early or \<open>Inr\<close> what the next stage
  needs; \<open>failed err\<close> is \<open>return ctrl.Result{}, err\<close>.
\<close>

definition early :: "('w, 'e + 'a) go \<Rightarrow> ('a \<Rightarrow> ('w, 'e) go) \<Rightarrow> ('w, 'e) go" where
  "early m f = do {
     x \<leftarrow> m;
     (case x of Inl e \<Rightarrow> State_Monad.return e | Inr y \<Rightarrow> f y)
   }"

definition failed :: "goerr \<Rightarrow> (Result \<times> goerr option) + 'a" where
  "failed err = Inl (zero_Result, Some err)"

lemma failed_Inr [simp]: "failed err \<noteq> Inr x" "Inr x \<noteq> failed err"
  by (simp_all add: failed_def)

lemma emits_early:
  assumes "emits m R" "\<And>e evs. R (Inl e) evs \<Longrightarrow> P e evs"
    "\<And>x e1. R (Inr x) e1 \<Longrightarrow> emits (f x) (\<lambda>y e2. P y (e1 @ e2))"
  shows "emits (early m f) P"
  unfolding early_def
  by (rule emits_bind [OF assms(1)]) (auto intro!: emits_intros assms(2, 3) split: sum.splits)

section \<open>Orders of calls\<close>

text \<open>Every call in \<open>q\<close> comes after some call in \<open>p\<close>.\<close>

fun precedes :: "(event \<Rightarrow> bool) \<Rightarrow> (event \<Rightarrow> bool) \<Rightarrow> event list \<Rightarrow> bool" where
  "precedes p q [] \<longleftrightarrow> True"
| "precedes p q (e # es) \<longleftrightarrow> \<not> q e \<and> (p e \<or> precedes p q es)"

lemma precedes_append [simp]:
  "precedes p q (as @ bs) \<longleftrightarrow> precedes p q as \<and> ((\<exists>e \<in> set as. p e) \<or> precedes p q bs)"
  by (induction as) auto

lemma precedes_iff:
  "precedes p q es \<longleftrightarrow> (\<forall>pre e post. es = pre @ e # post \<longrightarrow> q e \<longrightarrow> (\<exists>x \<in> set pre. p x))"
proof (induction es)
  case (Cons x es)
  show ?case (is "?l = ?r")
  proof
    assume ?l
    then show ?r using Cons by (auto simp: Cons_eq_append_conv)
  next
    assume r: ?r
    then have "\<not> q x" by fastforce
    moreover have "p x \<or> precedes p q es"
    proof (cases "p x")
      case False
      have "\<exists>y \<in> set pre. p y" if "es = pre @ e # post" "q e" for pre e post
        using r [rule_format, of "x # pre" e post] that False by auto
      then show ?thesis using Cons by blast
    qed simp
    ultimately show ?l by simp
  qed
qed simp

section \<open>The contract of updating or creating\<close>

text \<open>
  The calls of an update-or-create with recorded ID \<open>i\<close> and request \<open>q\<close> (as they appear in the log: the
  collection \<open>cu\<close> for updates, \<open>cc\<close> for creations) together with its result.
\<close>

definition create_trace :: "coll \<Rightarrow> ('r \<Rightarrow> ores) \<Rightarrow> ('r \<Rightarrow> string) \<Rightarrow> oreq \<Rightarrow> goerr + string \<Rightarrow> event list \<Rightarrow> bool" where
  "create_trace cc ans idOf q res evs \<longleftrightarrow>
     (\<exists>err. evs = [OCreate cc q (Inl err)] \<and> res = Inl err) \<or>
     (\<exists>resp. evs = [OCreate cc q (Inr (ans resp))] \<and> res = Inr (idOf resp))"

definition upsert_trace ::
  "coll \<Rightarrow> coll \<Rightarrow> ('r \<Rightarrow> ores) \<Rightarrow> ('r \<Rightarrow> string) \<Rightarrow> string option \<Rightarrow> oreq \<Rightarrow> goerr + string \<Rightarrow> event list \<Rightarrow> bool" where
  "upsert_trace cu cc ans idOf i q res evs \<longleftrightarrow>
     (case i of
        None \<Rightarrow> create_trace cc ans idOf q res evs
      | Some k \<Rightarrow>
          (\<exists>resp. evs = [OUpdate cu k q (Inr (ans resp))] \<and> res = Inr (idOf resp)) \<or>
          (\<exists>err. evs = [OUpdate cu k q (Inl err)] \<and> res = Inl err \<and> \<not> o_IsNotFound err) \<or>
          (\<exists>err crt. evs = OUpdate cu k q (Inl err) # crt \<and> o_IsNotFound err \<and> create_trace cc ans idOf q res crt))"

lemmas trace_defs = create_trace_def upsert_trace_def

locale upserting =
  fixes ensure :: "string option \<Rightarrow> 'q \<Rightarrow> ('w, goerr + string) go"
    and cu cc :: coll and enc :: "'q \<Rightarrow> oreq" and ans :: "'r \<Rightarrow> ores" and idOf :: "'r \<Rightarrow> string"
  assumes ensure_trace: "emits (ensure i q) (upsert_trace cu cc ans idOf i (enc q))"
begin

text \<open>The ID that is returned is one the API answered to a request with the wanted settings.\<close>

lemma ensure_result:
  "emits (ensure i q) (\<lambda>res evs. \<forall>j. res = Inr j \<longrightarrow> (\<exists>resp. j = idOf resp \<and>
     (OCreate cc (enc q) (Inr (ans resp)) \<in> set evs \<or>
      (\<exists>k. i = Some k \<and> OUpdate cu k (enc q) (Inr (ans resp)) \<in> set evs))))"
  by (rule emits_mono [OF ensure_trace]) (auto simp: trace_defs split: option.splits)

text \<open>Nothing is created while the recorded object is known to the API, and nothing twice.\<close>

lemma ensure_creates:
  "emits (ensure i q) (\<lambda>res evs. \<forall>c q' a. OCreate c q' a \<in> set evs \<longrightarrow> c = cc \<and> q' = enc q \<and>
     (\<forall>k. i = Some k \<longrightarrow> (\<exists>err. OUpdate cu k (enc q) (Inl err) \<in> set evs \<and> o_IsNotFound err)))"
  by (rule emits_mono [OF ensure_trace]) (auto simp: trace_defs split: option.splits)

lemma ensure_creates_once:
  "emits (ensure i q) (\<lambda>res evs. length (filter (\<lambda>e. \<exists>c q a. e = OCreate c q a) evs) \<le> 1)"
  by (rule emits_mono [OF ensure_trace]) (auto simp: trace_defs split: option.splits)

text \<open>Only the two collections are touched.\<close>

lemma ensure_frame:
  "emits (ensure i q) (\<lambda>res evs. \<forall>e \<in> set evs. (\<exists>k a. i = Some k \<and> e = OUpdate cu k (enc q) a) \<or> (\<exists>a. e = OCreate cc (enc q) a))"
  by (rule emits_mono [OF ensure_trace]) (auto simp: trace_defs split: option.splits)

end

lemma upserting_upsert:
  assumes "oa_coll ua = cu" "oa_coll ca = cc" "oa_create ca = enc" "oa_update ua = enc"
    "oa_answer ca = ans" "oa_answer ua = ans"
  shows "upserting (upsert ua ca idOf) cu cc enc ans idOf"
proof
  show "emits (upsert ua ca idOf i q) (upsert_trace cu cc ans idOf i (enc q))" for i q
    unfolding upsert_def o_create_def o_update_def Let_def assms
    by (cases i) (auto intro!: emits_intros simp: trace_defs answer_def split: sum.splits, blast+)
qed

interpretation groups: upserting "upsert (Groups z) (Groups z) ag_Id" CGroups CGroups QGroup RGroup ag_Id for z
  by (rule upserting_upsert) (simp_all add: Groups_def)

interpretation networks: upserting "upsert (Networks z) (Networks z) an_Id" CNetworks CNetworks QNetwork RNetwork an_Id for z
  by (rule upserting_upsert) (simp_all add: Networks_def)

interpretation routers: upserting "upsert (Routers z n) (Routers z n) ar_Id" "CRouters n" "CRouters n" QRouter RRouter ar_Id for z n
  by (rule upserting_upsert) (simp_all add: Routers_def)

interpretation resources: upserting "upsert (Resources z n) (Resources z n) ares_Id" "CResources n" "CResources n" QResource RResource ares_Id for z n
  by (rule upserting_upsert) (simp_all add: Resources_def)

interpretation records: upserting "upsert (Records z n) (Records z m) dr_Id" "CRecords n" "CRecords m" QRecord RRecord dr_Id for z n m
  by (rule upserting_upsert) (simp_all add: Records_def)

section \<open>Facts about the shared operations\<close>

text \<open>Every object that is patched satisfies \<open>P\<close>; nothing is created upstream.\<close>

definition patches_only :: "(kobj \<Rightarrow> bool) \<Rightarrow> event list \<Rightarrow> bool" where
  "patches_only P evs = (\<forall>x er. EPatch x er \<in> set evs \<longrightarrow> P x)"

definition no_creates :: "event list \<Rightarrow> bool" where
  "no_creates evs = (\<forall>c q a. OCreate c q a \<notin> set evs)"

lemma patches_only_simps [simp]:
  "patches_only P []"
  "patches_only P (ev # evs) \<longleftrightarrow> (\<forall>x er. ev = EPatch x er \<longrightarrow> P x) \<and> patches_only P evs"
  "patches_only P (e1 @ e2) \<longleftrightarrow> patches_only P e1 \<and> patches_only P e2"
  by (auto simp: patches_only_def)

lemma no_creates_simps [simp]:
  "no_creates []"
  "no_creates (ev # evs) \<longleftrightarrow> (\<forall>c q a. ev \<noteq> OCreate c q a) \<and> no_creates evs"
  "no_creates (e1 @ e2) \<longleftrightarrow> no_creates e1 \<and> no_creates e2"
  by (auto simp: no_creates_def)

text \<open>What the deletion of a recorded object guarantees when it reports no error: it is gone upstream.\<close>

definition gone :: "coll \<Rightarrow> string option \<Rightarrow> event list \<Rightarrow> bool" where
  "gone c i evs = (case i of None \<Rightarrow> True
     | Some k \<Rightarrow> \<exists>er. ODelete c k er \<in> set evs \<and> (\<forall>e. er = Some e \<longrightarrow> o_IsNotFound e))"

lemma gone_mono: "gone c i evs \<Longrightarrow> set evs \<subseteq> set evs' \<Longrightarrow> gone c i evs'"
  by (auto simp: gone_def split: option.splits)

lemma gone_in_append [simp]: "gone c i (as @ bs) \<longleftrightarrow> gone c i as \<or> gone c i bs"
  by (auto simp: gone_def split: option.splits)

lemma gone_Cons [simp]: "(\<And>k er. e \<noteq> ODelete c k er) \<Longrightarrow> gone c i (e # es) \<longleftrightarrow> gone c i es"
  by (auto simp: gone_def split: option.splits)

lemma emits_delete_recorded:
  "emits (delete_recorded a i) (\<lambda>err evs. (err \<noteq> None \<or> gone (oa_coll a) i evs) \<and> no_creates evs \<and>
     (\<forall>P. patches_only P evs))"
  unfolding delete_recorded_def o_delete_def
  by (auto intro!: emits_intros simp: gone_def split: option.splits)

lemma find_SomeD: "List.find P xs = Some x \<Longrightarrow> x \<in> set xs \<and> P x"
  by (auto simp: find_Some_iff)

text \<open>The zone that is found is one the API listed under that name.\<close>

lemma emits_GetDNSZoneByName:
  "emits (GetDNSZoneByName z n) (\<lambda>res evs. (\<exists>a. evs = [OList CZones a]) \<and>
     (\<forall>zone. res = Inr zone \<longrightarrow> dz_Name zone = n \<and> (\<exists>rs. evs = [OList CZones (Inr rs)] \<and> RZone zone \<in> set rs)))"
  unfolding GetDNSZoneByName_def call_defs
  by (auto intro!: emits_intros dest!: find_SomeD split: sum.splits option.splits)

text \<open>What \<open>GetGroupIDs\<close> has read for a reference that names a group, and the references that do.\<close>

definition names_group :: "GroupReference \<Rightarrow> bool" where
  "names_group ref \<longleftrightarrow> gref_Name ref \<noteq> None \<or> gref_ID ref \<noteq> None \<or> gref_LocalRef ref \<noteq> None"

definition resolved :: "string \<Rightarrow> event list \<Rightarrow> GroupReference \<Rightarrow> string \<Rightarrow> bool" where
  "resolved ns evs ref i =
     (case (gref_Name ref, gref_ID ref) of
        (Some n, _) \<Rightarrow> \<exists>g. OGet CGroups n (Inr (RGroup g)) \<in> set evs \<and> i = ag_Id g
      | (None, Some k) \<Rightarrow> \<exists>g. OGet CGroups k (Inr (RGroup g)) \<in> set evs \<and> i = ag_Id g
      | (None, None) \<Rightarrow> \<exists>n g. gref_LocalRef ref = Some n \<and> EGet ''Group'' (ns, n) (Inr (KGroup g)) \<in> set evs \<and>
          i = grp_GroupID g \<and> i \<noteq> '''')"

lemma resolved_mono: "resolved ns evs ref i \<Longrightarrow> set evs \<subseteq> set evs' \<Longrightarrow> resolved ns evs' ref i"
  unfolding resolved_def by (auto split: option.splits)

lemma emits_resolve_ref:
  "emits (resolve_ref c z ns ref) (\<lambda>res evs. case res of
     Inl err \<Rightarrow> True
   | Inr None \<Rightarrow> \<not> names_group ref
   | Inr (Some i) \<Rightarrow> names_group ref \<and> resolved ns evs ref i)"
  unfolding resolve_ref_def call_defs
  by (auto intro!: emits_intros simp: names_group_def resolved_def split: option.splits sum.splits if_splits)

lemma emits_resolve_ref_reads:
  "emits (resolve_ref c z ns ref) (\<lambda>res evs. \<forall>e \<in> set evs. \<not> is_write e)"
  unfolding resolve_ref_def call_defs
  by (auto intro!: emits_intros split: option.splits sum.splits)

lemma GetGroupIDs_resolves:
  "emits (GetGroupIDs c z refs ns) (\<lambda>res evs. (\<forall>e \<in> set evs. \<not> is_write e) \<and>
     (\<forall>ids. res = Inr ids \<longrightarrow> list_all2 (resolved ns evs) (filter names_group refs) ids))"
  unfolding GetGroupIDs_def
proof (rule emits_for_each_visited [where I = "\<lambda>don ids evs. (\<forall>e \<in> set evs. \<not> is_write e) \<and>
    list_all2 (resolved ns evs) (filter names_group don) ids"])
  fix ref don ids and e1 :: "event list"
  assume inv: "(\<forall>e \<in> set e1. \<not> is_write e) \<and> list_all2 (resolved ns e1) (filter names_group don) ids"
  have mono: "list_all2 (resolved ns (e1 @ e2)) (filter names_group don) ids" for e2
    using inv by (auto elim!: list_all2_mono intro: resolved_mono)
  show "emits (resolve_ref c z ns ref \<bind> (\<lambda>rr. State_Monad.return (case rr of Inl err \<Rightarrow> Inl err
      | Inr None \<Rightarrow> Inr ids | Inr (Some i) \<Rightarrow> Inr (ids @ [i]))))
     (\<lambda>r e2. case r of Inl e \<Rightarrow> (\<forall>e \<in> set (e1 @ e2). \<not> is_write e) \<and>
         (\<forall>ids. Inl e = Inr ids \<longrightarrow> list_all2 (resolved ns (e1 @ e2)) (filter names_group refs) ids)
      | Inr ids \<Rightarrow> (\<forall>e \<in> set (e1 @ e2). \<not> is_write e) \<and> list_all2 (resolved ns (e1 @ e2)) (filter names_group (don @ [ref])) ids)"
    by (rule emits_bind [OF emits_conj [OF emits_resolve_ref emits_resolve_ref_reads]])
       (auto intro!: emits_intros mono list_all2_appendI intro: resolved_mono simp: inv split: sum.splits option.splits)
qed auto

section \<open>The contract of a reconciler with a finalizer\<close>

definition is_create :: "event \<Rightarrow> bool" where
  "is_create e = (\<exists>c q a. e = OCreate c q a)"

lemma is_create_simps [simp]:
  "is_create (OCreate c q a)" "\<not> is_create (EGet k n g)" "\<not> is_create (EPatch x pr)" "\<not> is_create (EApply x er)"
  "\<not> is_create (OGet c i b)" "\<not> is_create (OUpdate c i q b)" "\<not> is_create (ODelete c i er)" "\<not> is_create (OList c l)"
  "\<not> is_create (EList k kl)" "\<not> is_create (EUpdate x er)" "\<not> is_create (EDelete x er)"
  by (simp_all add: is_create_def)

lemma no_write_no_create: "\<forall>e \<in> set evs. \<not> is_write e \<Longrightarrow> no_creates evs \<and> patches_only P evs \<and> precedes p is_create evs"
  by (induction evs) (auto simp: is_create_def)

lemma precedes_mono: "precedes p q es \<Longrightarrow> (\<And>e. p e \<Longrightarrow> p' e) \<Longrightarrow> precedes p' q es"
  by (induction es) auto

lemma emits_imp:
  "emits m (\<lambda>_ _. True) \<Longrightarrow> (b \<Longrightarrow> emits m P) \<Longrightarrow> emits m (\<lambda>x evs. b \<longrightarrow> P x evs)"
  by (cases b) (auto elim: emits_mono)

text \<open>
  A reconciler reads its object and ends when there is none; otherwise \<open>body\<close> takes over. While the
  object is being deleted, it is patched only to its \<open>released\<close> form, only once what it stands for
  is cleaned up, and nothing is created upstream.
\<close>

locale finalized =
  fixes api :: "('w, 'o) kapi" and meta :: "'o \<Rightarrow> ObjectMeta"
    and ret :: "Result \<times> goerr option \<Rightarrow> 'a"
    and reconcile :: "nn \<Rightarrow> ('w, 'a) go" and body :: "nn \<Rightarrow> 'o \<Rightarrow> ('w, 'a) go"
    and released :: "'o \<Rightarrow> 'o" and cleaned :: "'o \<Rightarrow> event list \<Rightarrow> bool"
  assumes reconcile_reads: "reconcile req = k_get api req \<bind> (\<lambda>gr. case gr of
      Inl err \<Rightarrow> State_Monad.return (ret (zero_Result, IgnoreNotFound err)) | Inr x \<Rightarrow> body req x)"
    and body_logs: "emits (body req x) (\<lambda>_ _. True)"
    and body_deleted: "om_DeletionTimestamp (meta x) \<noteq> None \<Longrightarrow> emits (body req x) (\<lambda>_ evs.
      no_creates evs \<and> patches_only (\<lambda>o'. o' = ka_obj api (released x) \<and> cleaned x evs) evs)"
    and obj_inj: "ka_obj api x = ka_obj api y \<Longrightarrow> x = y"
begin

lemma reconcile_emits:
  assumes "\<And>x. emits (body req x) (Q x)"
  shows "emits (reconcile req) (\<lambda>out evs.
     (\<exists>err. evs = [EGet (ka_kind api) req (Inl err)] \<and> out = ret (zero_Result, IgnoreNotFound err)) \<or>
     (\<exists>x rest. evs = EGet (ka_kind api) req (Inr (ka_obj api x)) # rest \<and> Q x out rest))"
  unfolding reconcile_reads k_get_def
  by (rule emits_bind_api_call) (auto intro!: emits_intros emits_mono [OF assms] split: sum.splits)

lemma body_cases:
  "emits (body req x) (\<lambda>_ evs. om_DeletionTimestamp (meta x) \<noteq> None \<longrightarrow>
     no_creates evs \<and> patches_only (\<lambda>o'. o' = ka_obj api (released x) \<and> cleaned x evs) evs)"
  by (rule emits_imp [OF body_logs body_deleted])

text \<open>A deleted object is released only after its clean-up.\<close>

lemma reconcile_deleted:
  "emits (reconcile req) (\<lambda>_ evs. \<forall>x. hd evs = EGet (ka_kind api) req (Inr (ka_obj api x)) \<longrightarrow>
     om_DeletionTimestamp (meta x) \<noteq> None \<longrightarrow>
     no_creates evs \<and> patches_only (\<lambda>o'. o' = ka_obj api (released x) \<and> cleaned x (tl evs)) evs)"
  by (rule emits_mono [OF reconcile_emits [OF body_cases]])
     (auto dest!: obj_inj)

end

text \<open>Moreover, the finalizer is stored before anything is created upstream, so nothing can be left behind.\<close>

locale finalizer_first = finalized +
  fixes guarded :: "'o \<Rightarrow> 'o"
  assumes body_guarded: "om_DeletionTimestamp (meta x) = None \<Longrightarrow> emits (body req x) (\<lambda>_ evs.
      precedes (\<lambda>e. \<exists>y. e = EPatch (ka_obj api (guarded x)) (Inr y)) is_create evs)"
begin

lemma no_creates_precedes: "no_creates evs \<Longrightarrow> precedes p is_create evs"
  by (induction evs) (auto simp: is_create_def)

lemma body_precedes:
  "emits (body req x) (\<lambda>_ evs. precedes (\<lambda>e. \<exists>y. e = EPatch (ka_obj api (guarded x)) (Inr y)) is_create evs)"
  by (cases "om_DeletionTimestamp (meta x) = None")
     (auto intro: body_guarded emits_mono [OF body_deleted] no_creates_precedes)

lemma reconcile_guarded:
  "emits (reconcile req) (\<lambda>_ evs. precedes (\<lambda>e. \<exists>x y. e = EPatch (ka_obj api (guarded x)) (Inr y) \<and>
     hd evs = EGet (ka_kind api) req (Inr (ka_obj api x))) is_create evs)"
proof (rule emits_mono [OF reconcile_emits [OF body_precedes]], elim disjE exE conjE)
  fix evs x rest
  assume evs: "evs = EGet (ka_kind api) req (Inr (ka_obj api x)) # rest"
    and "precedes (\<lambda>e. \<exists>y. e = EPatch (ka_obj api (guarded x)) (Inr y)) is_create rest"
  then have "precedes (\<lambda>e. \<exists>x y. e = EPatch (ka_obj api (guarded x)) (Inr y) \<and>
      hd evs = EGet (ka_kind api) req (Inr (ka_obj api x))) is_create rest"
    by - (erule precedes_mono, auto)
  then show "precedes (\<lambda>e. \<exists>x y. e = EPatch (ka_obj api (guarded x)) (Inr y) \<and>
      hd evs = EGet (ka_kind api) req (Inr (ka_obj api x))) is_create evs"
    by (simp add: evs)
qed simp

end

end
