(* ===== verification/NetworkRouter_Controller.thy ===== *)
theory NetworkRouter_Controller
  imports Alpha_Common
begin

text \<open>
  \<open>internal/controller/networkrouter_controller.go\<close>: the controller of network routers. Two functions
  of libraries are fields of the reconciler: the eight hexadecimal digits of the SHA-256 digest of a UID
  (\<open>nrr_digest\<close>) and the strategic merge of a pod template with an override (\<open>nrr_merge\<close>, including the JSON
  conversions around it). What is applied to the cluster appears as an object whose unset fields are zero.
\<close>

section \<open>The controller\<close>

record 'w NetworkRouterReconciler =
  nrr_Client :: "'w Client"
  nrr_OpenZro :: "'w OpenZro"
  nrr_ManagementURL :: string
  nrr_ClientImage :: string
  nrr_digest :: "string \<Rightarrow> string"
  nrr_merge :: "PodTemplateSpec \<Rightarrow> string \<Rightarrow> goerr + PodTemplateSpec"

definition set_nro_finalizers :: "(string list \<Rightarrow> string list) \<Rightarrow> NetworkRouter \<Rightarrow> NetworkRouter" where
  "set_nro_finalizers f n = n\<lparr>nro_Meta := (nro_Meta n)\<lparr>om_Finalizers := f (om_Finalizers (nro_Meta n))\<rparr>\<rparr>"

definition NetworkRouter_guarded :: "'w NetworkRouterReconciler \<Rightarrow> NetworkRouter \<Rightarrow> NetworkRouter" where
  "NetworkRouter_guarded r = set_nro_finalizers (AddFinalizer (nrr_Client r) (Finalizer ''networkrouter''))"

definition NetworkRouter_released :: "'w NetworkRouterReconciler \<Rightarrow> NetworkRouter \<Rightarrow> NetworkRouter" where
  "NetworkRouter_released r = set_nro_finalizers (RemoveFinalizer (nrr_Client r) (Finalizer ''networkrouter''))"

text \<open>The zone must exist; then the network is ensured and stored together with the finalizer.\<close>

definition ensure_network :: "'w NetworkRouterReconciler \<Rightarrow> NetworkRouter \<Rightarrow> ('w, goerr + string) go" where
  "ensure_network r netRouter =
     upsert (Networks (nrr_OpenZro r)) (Networks (nrr_OpenZro r)) an_Id (nonempty (nro_NetworkID netRouter))
       \<lparr>nwr_Name = om_Name (nro_Meta netRouter), nwr_Description = None\<rparr>"

definition router_network ::
  "'w NetworkRouterReconciler \<Rightarrow> NetworkRouter \<Rightarrow> ('w, (Result \<times> goerr option) + string \<times> NetworkRouter) go" where
  "router_network r netRouter = do {
     zr \<leftarrow> GetDNSZoneByName (nrr_OpenZro r) (nro_DNSZoneRef (nro_Spec netRouter));
     (case zr of
        Inl err \<Rightarrow> State_Monad.return (failed err)
      | Inr _ \<Rightarrow> do {
          er \<leftarrow> ensure_network r (NetworkRouter_guarded r netRouter);
          (case er of
             Inl err \<Rightarrow> State_Monad.return (failed err)
           | Inr networkID \<Rightarrow> do {
               pr \<leftarrow> k_patch (NetworkRouters (nrr_Client r)) ((NetworkRouter_guarded r netRouter)\<lparr>nro_NetworkID := networkID\<rparr>);
               State_Monad.return (case pr of Inl err \<Rightarrow> failed err | Inr n1 \<Rightarrow> Inr (networkID, n1)) }) })
   }"

text \<open>The group of the routing peers and their setup key; both are created by their own controllers.\<close>

definition peers_name :: "NetworkRouter \<Rightarrow> string" where
  "peers_name netRouter = ''networkrouter-'' @ om_Name (nro_Meta netRouter)"

definition uniqueSuffix :: "'w NetworkRouterReconciler \<Rightarrow> NetworkRouter \<Rightarrow> string \<Rightarrow> string" where
  "uniqueSuffix r netRouter networkID = networkID @ ''-'' @ nrr_digest r (om_UID (nro_Meta netRouter))"

definition peers_group :: "'w NetworkRouterReconciler \<Rightarrow> OwnerReference \<Rightarrow> nn \<Rightarrow> NetworkRouter \<Rightarrow> string \<Rightarrow> Group" where
  "peers_group r ownerRef req netRouter networkID =
     \<lparr>grp_Meta = zero_ObjectMeta\<lparr>om_Name := peers_name netRouter, om_Namespace := fst req, om_OwnerReferences := [ownerRef]\<rparr>,
      grp_SpecName = ''networkrouter-'' @ uniqueSuffix r netRouter networkID, grp_Conditions = [], grp_GroupID = ''''\<rparr>"

definition peers_setup_key ::
  "'w NetworkRouterReconciler \<Rightarrow> OwnerReference \<Rightarrow> nn \<Rightarrow> NetworkRouter \<Rightarrow> string \<Rightarrow> string \<Rightarrow> SetupKey" where
  "peers_setup_key r ownerRef req netRouter networkID groupID =
     \<lparr>sk_Meta = zero_ObjectMeta\<lparr>om_Name := peers_name netRouter, om_Namespace := fst req, om_OwnerReferences := [ownerRef]\<rparr>,
      sk_Spec = \<lparr>sk_Name = ''networkrouter-'' @ uniqueSuffix r netRouter networkID, sk_Ephemeral = True, sk_Duration = None,
        sk_AutoGroups = [\<lparr>gref_Name = None, gref_ID = Some groupID, gref_LocalRef = None\<rparr>]\<rparr>,
      sk_Conditions = [], sk_SetupKeyID = ''''\<rparr>"

definition router_peers ::
  "'w NetworkRouterReconciler \<Rightarrow> OwnerReference \<Rightarrow> nn \<Rightarrow> NetworkRouter \<Rightarrow> string \<Rightarrow>
     ('w, (Result \<times> goerr option) + string \<times> SetupKey) go" where
  "router_peers r ownerRef req netRouter networkID = do {
     a1 \<leftarrow> k_apply (AlphaGroups (nrr_Client r)) (peers_group r ownerRef req netRouter networkID);
     (case a1 of
        Some err \<Rightarrow> State_Monad.return (failed err)
      | None \<Rightarrow> do {
          gr \<leftarrow> k_get (AlphaGroups (nrr_Client r)) (fst req, peers_name netRouter);
          (case gr of
             Inl err \<Rightarrow> State_Monad.return (failed err)
           | Inr grp \<Rightarrow>
               if grp_GroupID grp = '''' then State_Monad.return (Inl (zero_Result, None))
               else do {
                 a2 \<leftarrow> k_apply (AlphaSetupKeys (nrr_Client r)) (peers_setup_key r ownerRef req netRouter networkID (grp_GroupID grp));
                 (case a2 of
                    Some err \<Rightarrow> State_Monad.return (failed err)
                  | None \<Rightarrow> do {
                      kr \<leftarrow> k_get (AlphaSetupKeys (nrr_Client r)) (fst req, peers_name netRouter);
                      State_Monad.return (case kr of
                        Inl err \<Rightarrow> failed err
                      | Inr setupKey \<Rightarrow>
                          if sk_SetupKeyID setupKey = '''' then Inl (zero_Result, None)
                          else Inr (grp_GroupID grp, setupKey)) }) }) })
   }"

text \<open>The routing peer upstream.\<close>

definition netrouter_request :: "string \<Rightarrow> RouterRequest" where
  "netrouter_request groupID = \<lparr>rr_Enabled = True, rr_Masquerade = True, rr_Metric = 9999, rr_PeerGroups = Some [groupID]\<rparr>"

definition router_routing_peer ::
  "'w NetworkRouterReconciler \<Rightarrow> string \<Rightarrow> string \<Rightarrow> NetworkRouter \<Rightarrow> ('w, (Result \<times> goerr option) + NetworkRouter) go" where
  "router_routing_peer r networkID groupID netRouter = do {
     er \<leftarrow> upsert (Routers (nrr_OpenZro r) networkID) (Routers (nrr_OpenZro r) networkID) ar_Id
            (nonempty (nro_RoutingPeerID netRouter)) (netrouter_request groupID);
     (case er of
        Inl err \<Rightarrow> State_Monad.return (failed err)
      | Inr routingPeerID \<Rightarrow> do {
          pr \<leftarrow> k_patch (NetworkRouters (nrr_Client r)) (netRouter\<lparr>nro_RoutingPeerID := routingPeerID\<rparr>);
          State_Monad.return (case pr of Inl err \<Rightarrow> failed err | Inr n2 \<Rightarrow> Inr n2) })
   }"

section \<open>The workload\<close>

definition selectorLabels :: "nn \<Rightarrow> gomap" where
  "selectorLabels req = Some [(LabelAppKubernetesName, ''networkrouter''), (''app.kubernetes.io/instance'', snd req)]"

definition router_container :: "'w NetworkRouterReconciler \<Rightarrow> SetupKey \<Rightarrow> Container" where
  "router_container r setupKey = zero_Container\<lparr>ct_Name := ''openzro'', ct_Image := nrr_ClientImage r,
     ct_Env := [\<lparr>env_Name = ''OZ_SETUP_KEY'', env_Value = '''',
                 env_SecretKeyRef = Some \<lparr>sks_Name = SetupKey_SecretName setupKey, sks_Key = SetupKeySecretKey\<rparr>\<rparr>,
                \<lparr>env_Name = ''OZ_MANAGEMENT_URL'', env_Value = nrr_ManagementURL r, env_SecretKeyRef = None\<rparr>,
                \<lparr>env_Name = ''OZ_LOG_LEVEL'', env_Value = ''info'', env_SecretKeyRef = None\<rparr>],
     ct_StartupProbe := Some [''openzro'', ''status'', ''--check'', ''startup''],
     ct_ReadinessProbe := Some [''openzro'', ''status'', ''--check'', ''ready''],
     ct_SecurityContext := Some \<lparr>sc_CapabilitiesAdd = [''NET_ADMIN'', ''SYS_RESOURCE'', ''SYS_ADMIN''], sc_Privileged = Some True\<rparr>\<rparr>"

definition podTemplateSpec :: "'w NetworkRouterReconciler \<Rightarrow> nn \<Rightarrow> SetupKey \<Rightarrow> PodTemplateSpec" where
  "podTemplateSpec r req setupKey = \<lparr>pts_Labels = selectorLabels req, pts_NodeSelector = None, pts_Tolerations = [],
     pts_Containers = [router_container r setupKey], pts_Volumes = []\<rparr>"

text \<open>
  The override: labels (a nil map is replaced by a new one), annotations, replicas and pod template.
  \<open>maps.Copy\<close> writes into the map of the override where there is one, so the labels also become part of
  the spec of the router that is patched at the end.
\<close>

definition override_labels :: "NetworkRouter \<Rightarrow> gomap" where
  "override_labels netRouter = Option.bind (nro_WorkloadOverride (nro_Spec netRouter)) wo_Labels"

definition depLabels :: "nn \<Rightarrow> NetworkRouter \<Rightarrow> gomap" where
  "depLabels req netRouter =
     (case maps_copy (Some (gm_entries (override_labels netRouter))) (selectorLabels req) of Some m \<Rightarrow> m | None \<Rightarrow> None)"

definition depAnnotations :: "NetworkRouter \<Rightarrow> gomap" where
  "depAnnotations netRouter =
     Some (gm_entries (Option.bind (nro_WorkloadOverride (nro_Spec netRouter)) wo_Annotations))"

definition depReplicas :: "NetworkRouter \<Rightarrow> int32" where
  "depReplicas netRouter =
     (case Option.bind (nro_WorkloadOverride (nro_Spec netRouter)) wo_Replicas of None \<Rightarrow> 3 | Some n \<Rightarrow> n)"

definition depTemplate :: "'w NetworkRouterReconciler \<Rightarrow> nn \<Rightarrow> SetupKey \<Rightarrow> NetworkRouter \<Rightarrow> goerr + PodTemplateSpec" where
  "depTemplate r req setupKey netRouter =
     (case Option.bind (nro_WorkloadOverride (nro_Spec netRouter)) wo_PodTemplate of
        None \<Rightarrow> Inr (podTemplateSpec r req setupKey)
      | Some override \<Rightarrow> nrr_merge r (podTemplateSpec r req setupKey) override)"

definition router_deployment :: "OwnerReference \<Rightarrow> nn \<Rightarrow> NetworkRouter \<Rightarrow> PodTemplateSpec \<Rightarrow> Deployment" where
  "router_deployment ownerRef req netRouter template =
     \<lparr>dep_Meta = zero_ObjectMeta\<lparr>om_Name := ''networkrouter-'' @ snd req, om_Namespace := fst req,
        om_OwnerReferences := [ownerRef], om_Labels := depLabels req netRouter, om_Annotations := depAnnotations netRouter\<rparr>,
      dep_Replicas = Some (depReplicas netRouter), dep_MatchLabels = selectorLabels req, dep_Template = template,
      dep_StatusReplicas = 0, dep_ReadyReplicas = 0\<rparr>"

definition with_copied_labels :: "nn \<Rightarrow> NetworkRouter \<Rightarrow> NetworkRouter" where
  "with_copied_labels req netRouter =
     (if override_labels netRouter = None then netRouter
      else netRouter\<lparr>nro_Spec := (nro_Spec netRouter)\<lparr>nro_WorkloadOverride :=
        map_option (\<lambda>w. w\<lparr>wo_Labels := depLabels req netRouter\<rparr>) (nro_WorkloadOverride (nro_Spec netRouter))\<rparr>\<rparr>)"

definition NetworkRouter_ready :: "'w NetworkRouterReconciler \<Rightarrow> NetworkRouter \<Rightarrow> NetworkRouter" where
  "NetworkRouter_ready r n = n\<lparr>nro_Conditions := mark_ready (nrr_Client r) (nro_Conditions n)\<rparr>"

definition router_workload ::
  "'w NetworkRouterReconciler \<Rightarrow> OwnerReference \<Rightarrow> nn \<Rightarrow> SetupKey \<Rightarrow> NetworkRouter \<Rightarrow> ('w, Result \<times> goerr option) go" where
  "router_workload r ownerRef req setupKey netRouter =
     (case depTemplate r req setupKey netRouter of
        Inl err \<Rightarrow> State_Monad.return (zero_Result, Some err)
      | Inr template \<Rightarrow> do {
          ar \<leftarrow> k_apply (Deployments (nrr_Client r)) (router_deployment ownerRef req netRouter template);
          (case ar of
             Some err \<Rightarrow> State_Monad.return (zero_Result, Some err)
           | None \<Rightarrow> do {
               gr \<leftarrow> k_get (Deployments (nrr_Client r)) (fst req, ''networkrouter-'' @ snd req);
               (case gr of
                  Inl err \<Rightarrow> State_Monad.return (zero_Result, Some err)
                | Inr dep \<Rightarrow>
                    if dep_ReadyReplicas dep \<noteq> dep_StatusReplicas dep then State_Monad.return (zero_Result, None)
                    else do {
                      pr \<leftarrow> k_patch (NetworkRouters (nrr_Client r)) (NetworkRouter_ready r (with_copied_labels req netRouter));
                      State_Monad.return (case pr of
                        Inl err \<Rightarrow> (zero_Result, Some err)
                      | Inr _ \<Rightarrow> (requeue_after (15 * Minute), None)) }) }) })"

section \<open>Reconcile\<close>

definition NetworkRouter_reconcileDelete :: "'w NetworkRouterReconciler \<Rightarrow> NetworkRouter \<Rightarrow> ('w, Result \<times> goerr option) go" where
  "NetworkRouter_reconcileDelete r netRouter = do {
     e1 \<leftarrow> delete_recorded (Routers (nrr_OpenZro r) (nro_NetworkID netRouter)) (nonempty (nro_RoutingPeerID netRouter));
     (case e1 of
        Some err \<Rightarrow> State_Monad.return (zero_Result, Some err)
      | None \<Rightarrow> do {
          e2 \<leftarrow> delete_recorded (Networks (nrr_OpenZro r)) (nonempty (nro_NetworkID netRouter));
          (case e2 of
             Some err \<Rightarrow> State_Monad.return (zero_Result, Some err)
           | None \<Rightarrow> do {
               pr \<leftarrow> k_patch (NetworkRouters (nrr_Client r)) (NetworkRouter_released r netRouter);
               State_Monad.return (zero_Result, err_of pr) }) })
   }"

definition NetworkRouter_sync ::
  "'w NetworkRouterReconciler \<Rightarrow> OwnerReference \<Rightarrow> nn \<Rightarrow> NetworkRouter \<Rightarrow> ('w, Result \<times> goerr option) go" where
  "NetworkRouter_sync r ownerRef req netRouter =
     early (router_network r netRouter) (\<lambda>(networkID, n1).
     early (router_peers r ownerRef req n1 networkID) (\<lambda>(groupID, setupKey).
     early (router_routing_peer r networkID groupID n1) (\<lambda>n2.
     router_workload r ownerRef req setupKey n2)))"

definition NetworkRouter_body :: "'w NetworkRouterReconciler \<Rightarrow> nn \<Rightarrow> NetworkRouter \<Rightarrow> ('w, Result \<times> goerr option) go" where
  "NetworkRouter_body r req netRouter =
     (if om_DeletionTimestamp (nro_Meta netRouter) \<noteq> None then NetworkRouter_reconcileDelete r netRouter
      else (case ControllerReference (nrr_Client r) (KNetworkRouter netRouter) (nro_Meta netRouter) of
              Inl err \<Rightarrow> State_Monad.return (zero_Result, Some err)
            | Inr ownerRef \<Rightarrow> NetworkRouter_sync r ownerRef req netRouter))"

definition NetworkRouter_Reconcile :: "'w NetworkRouterReconciler \<Rightarrow> nn \<Rightarrow> ('w, Result \<times> goerr option) go" where
  "NetworkRouter_Reconcile r req = do {
     gr \<leftarrow> k_get (NetworkRouters (nrr_Client r)) req;
     (case gr of
        Inl err \<Rightarrow> State_Monad.return (zero_Result, IgnoreNotFound err)
      | Inr netRouter \<Rightarrow> NetworkRouter_body r req netRouter)
   }"

section \<open>Properties\<close>

lemma guarded_simps [simp]:
  "nro_NetworkID (NetworkRouter_guarded r n) = nro_NetworkID n" "om_Name (nro_Meta (NetworkRouter_guarded r n)) = om_Name (nro_Meta n)"
  by (simp_all add: NetworkRouter_guarded_def set_nro_finalizers_def)

lemma NetworkRouter_delete_spec:
  "emits (NetworkRouter_reconcileDelete r n) (\<lambda>_ evs. no_creates evs \<and>
     patches_only (\<lambda>o'. o' = KNetworkRouter (NetworkRouter_released r n) \<and>
       gone (CRouters (nro_NetworkID n)) (nonempty (nro_RoutingPeerID n)) evs \<and> gone CNetworks (nonempty (nro_NetworkID n)) evs) evs)"
  unfolding NetworkRouter_reconcileDelete_def k_patch_def NetworkRouters_def
  by (auto intro!: emits_bind [OF emits_delete_recorded] emits_intros simp: Routers_def Networks_def split: option.splits)

text \<open>The calls of the four stages when they succeed.\<close>

definition network_stage :: "'w NetworkRouterReconciler \<Rightarrow> NetworkRouter \<Rightarrow> string \<Rightarrow> NetworkRouter \<Rightarrow> event list \<Rightarrow> bool" where
  "network_stage r n networkID n1 evs \<longleftrightarrow> (\<exists>rs zone ups.
     evs = OList CZones (Inr rs) # ups @
       [EPatch (KNetworkRouter ((NetworkRouter_guarded r n)\<lparr>nro_NetworkID := networkID\<rparr>)) (Inr (KNetworkRouter n1))] \<and>
     RZone zone \<in> set rs \<and> dz_Name zone = nro_DNSZoneRef (nro_Spec n) \<and>
     upsert_trace CNetworks CNetworks RNetwork an_Id (nonempty (nro_NetworkID n))
       (QNetwork \<lparr>nwr_Name = om_Name (nro_Meta n), nwr_Description = None\<rparr>) (Inr networkID) ups)"

definition peers_stage ::
  "'w NetworkRouterReconciler \<Rightarrow> OwnerReference \<Rightarrow> nn \<Rightarrow> NetworkRouter \<Rightarrow> string \<Rightarrow> string \<Rightarrow> SetupKey \<Rightarrow> event list \<Rightarrow> bool" where
  "peers_stage r owner req n1 networkID groupID k evs \<longleftrightarrow> (\<exists>g.
     evs = [EApply (KGroup (peers_group r owner req n1 networkID)) None,
            EGet ''Group'' (fst req, peers_name n1) (Inr (KGroup g)),
            EApply (KSetupKey (peers_setup_key r owner req n1 networkID groupID)) None,
            EGet ''SetupKey'' (fst req, peers_name n1) (Inr (KSetupKey k))] \<and>
     groupID = grp_GroupID g \<and> groupID \<noteq> '''' \<and> sk_SetupKeyID k \<noteq> '''')"

definition routing_stage ::
  "string \<Rightarrow> string \<Rightarrow> NetworkRouter \<Rightarrow> NetworkRouter \<Rightarrow> event list \<Rightarrow> bool" where
  "routing_stage networkID groupID n1 n2 evs \<longleftrightarrow> (\<exists>peerID ups.
     evs = ups @ [EPatch (KNetworkRouter (n1\<lparr>nro_RoutingPeerID := peerID\<rparr>)) (Inr (KNetworkRouter n2))] \<and>
     upsert_trace (CRouters networkID) (CRouters networkID) RRouter ar_Id (nonempty (nro_RoutingPeerID n1))
       (QRouter (netrouter_request groupID)) (Inr peerID) ups)"

definition workload_stage :: "'w NetworkRouterReconciler \<Rightarrow> OwnerReference \<Rightarrow> nn \<Rightarrow> SetupKey \<Rightarrow> NetworkRouter \<Rightarrow> event list \<Rightarrow> bool" where
  "workload_stage r owner req k n2 evs \<longleftrightarrow> (\<exists>template dep n3.
     depTemplate r req k n2 = Inr template \<and> dep_ReadyReplicas dep = dep_StatusReplicas dep \<and>
     evs = [EApply (KDeployment (router_deployment owner req n2 template)) None,
            EGet ''Deployment'' (fst req, ''networkrouter-'' @ snd req) (Inr (KDeployment dep)),
            EPatch (KNetworkRouter (NetworkRouter_ready r (with_copied_labels req n2))) (Inr (KNetworkRouter n3))])"

lemma emits_router_network:
  "emits (router_network r n) (\<lambda>x evs. case x of
     Inl (res, err) \<Rightarrow> res = zero_Result \<and> err \<noteq> None
   | Inr (networkID, n1) \<Rightarrow> network_stage r n networkID n1 evs)"
  unfolding router_network_def k_patch_def NetworkRouters_def ensure_network_def
proof (rule emits_bind [OF emits_GetDNSZoneByName], goal_cases)
  case (1 zr e1)
  then show ?case
    by (cases zr)
       (auto intro!: emits_intros emits_bind [OF networks.ensure_trace] simp: failed_def network_stage_def split: sum.splits,
        blast)
qed

lemma emits_router_peers:
  "emits (router_peers r owner req n1 networkID) (\<lambda>x evs. case x of
     Inl (res, err) \<Rightarrow> res = zero_Result
   | Inr (groupID, k) \<Rightarrow> peers_stage r owner req n1 networkID groupID k evs)"
  unfolding router_peers_def k_apply_def k_get_def AlphaGroups_def AlphaSetupKeys_def
  by (auto intro!: emits_intros simp: failed_def peers_stage_def split: sum.splits option.splits if_splits)

lemma emits_router_routing_peer:
  "emits (router_routing_peer r networkID groupID n1) (\<lambda>x evs. case x of
     Inl (res, err) \<Rightarrow> res = zero_Result \<and> err \<noteq> None
   | Inr n2 \<Rightarrow> routing_stage networkID groupID n1 n2 evs)"
  unfolding router_routing_peer_def k_patch_def NetworkRouters_def
  by (rule emits_bind [OF routers.ensure_trace])
     (auto intro!: emits_intros simp: failed_def routing_stage_def split: sum.splits)

lemma requeue_15_neq_zero [simp]: "requeue_after (15 * Minute) \<noteq> zero_Result" "zero_Result \<noteq> requeue_after (15 * Minute)"
  by (simp_all add: requeue_after_def zero_Result_def Minute_def Second_def)

lemma emits_router_workload:
  "emits (router_workload r owner req k n2) (\<lambda>(res, err) evs.
     res = zero_Result \<or> (res = requeue_after (15 * Minute) \<and> err = None \<and> workload_stage r owner req k n2 evs))"
  unfolding router_workload_def k_apply_def k_get_def k_patch_def Deployments_def NetworkRouters_def
  by (auto intro!: emits_intros simp: workload_stage_def split: sum.splits option.splits)

text \<open>A run that ends with the router ready.\<close>

definition network_router_ready :: "'w NetworkRouterReconciler \<Rightarrow> OwnerReference \<Rightarrow> nn \<Rightarrow> NetworkRouter \<Rightarrow> event list \<Rightarrow> bool" where
  "network_router_ready r owner req n evs \<longleftrightarrow> (\<exists>e1 e2 e3 e4 networkID groupID k n1 n2.
     evs = e1 @ e2 @ e3 @ e4 \<and> network_stage r n networkID n1 e1 \<and> peers_stage r owner req n1 networkID groupID k e2 \<and>
     routing_stage networkID groupID n1 n2 e3 \<and> workload_stage r owner req k n2 e4)"

lemma NetworkRouter_sync_ready:
  "emits (NetworkRouter_sync r owner req n) (\<lambda>(res, err) evs.
     res = zero_Result \<or> (res = requeue_after (15 * Minute) \<and> err = None \<and> network_router_ready r owner req n evs))"
  unfolding NetworkRouter_sync_def
proof (rule emits_early [OF emits_router_network], goal_cases)
  case (2 x e1)
  then obtain networkID n1 where x: "x = (networkID, n1)" and s1: "network_stage r n networkID n1 e1" by (cases x) auto
  show ?case unfolding x prod.case
  proof (rule emits_early [OF emits_router_peers], goal_cases)
    case (2 y e2)
    then obtain groupID k where y: "y = (groupID, k)" and s2: "peers_stage r owner req n1 networkID groupID k e2" by (cases y) auto
    show ?case unfolding y prod.case
    proof (rule emits_early [OF emits_router_routing_peer], goal_cases)
      case (2 n2 e3)
      then have s3: "routing_stage networkID groupID n1 n2 e3" by simp
      have "network_router_ready r owner req n (e1 @ e2 @ e3 @ e4)" if "workload_stage r owner req k n2 e4" for e4
        unfolding network_router_ready_def using s1 s2 s3 that by blast
      then show ?case by (auto intro!: emits_mono [OF emits_router_workload])
    qed auto
  qed auto
qed auto

lemma NetworkRouter_body_logs: "emits (NetworkRouter_body r req n) (\<lambda>_ _. True)"
  unfolding NetworkRouter_body_def
  by (auto intro!: emits_intros emits_mono [OF NetworkRouter_delete_spec] emits_mono [OF NetworkRouter_sync_ready] split: sum.splits)

interpretation network_router: finalized "NetworkRouters (nrr_Client r)" nro_Meta "\<lambda>x. x" "NetworkRouter_Reconcile r"
  "NetworkRouter_body r" "NetworkRouter_released r"
  "\<lambda>n evs. gone (CRouters (nro_NetworkID n)) (nonempty (nro_RoutingPeerID n)) evs \<and> gone CNetworks (nonempty (nro_NetworkID n)) evs" for r
  by unfold_locales
     (simp_all add: NetworkRouters_def NetworkRouter_Reconcile_def NetworkRouter_body_logs,
      simp add: NetworkRouter_body_def NetworkRouter_delete_spec)

text \<open>The labels that select the pods end up in the spec of a router whose override has labels.\<close>

lemma maps_copy_selector:
  "maps_copy (Some al) (selectorLabels req) = Some (Some (AList.update ''app.kubernetes.io/instance'' (snd req)
     (AList.update LabelAppKubernetesName ''networkrouter'' al)))"
  by (simp add: maps_copy_def selectorLabels_def gm_entries_def gm_put_def)

lemma copied_labels_change_spec:
  assumes "override_labels n = Some al"
  shows "gm_get (override_labels (with_copied_labels req n)) LabelAppKubernetesName = Some ''networkrouter''"
proof -
  from assms obtain w where "nro_WorkloadOverride (nro_Spec n) = Some w" "wo_Labels w = Some al"
    by (auto simp: override_labels_def split: Option.bind_splits)
  then show ?thesis
    by (simp add: with_copied_labels_def override_labels_def depLabels_def maps_copy_selector gm_get_def gm_entries_def
        update_conv' LabelAppKubernetesName_def)
qed

lemma selector_labels_win:
  "gm_get (depLabels req n) k = (if k = ''app.kubernetes.io/instance'' then Some (snd req)
     else if k = LabelAppKubernetesName then Some ''networkrouter'' else gm_get (override_labels n) k)"
  by (cases "override_labels n") (simp_all add: depLabels_def maps_copy_selector gm_get_def gm_entries_def update_conv')

section \<open>Claims\<close>

text \<open>
  C7. Reconciling a network router that exists and is not being deleted ends with the long requeue interval only
  when all of this happened, in this order: the named DNS zone was listed; the network was updated or
  created under the router's name and its ID stored with the finalizer; group and setup key of the
  peers were applied and both have an ID; the routing peer was updated or created in that network with
  that group and its ID stored; the deployment was applied with the key's secret and has as many ready
  replicas as replicas; and the Ready condition was stored.
\<close>

theorem network_router_reconciled:
  "emits (NetworkRouter_Reconcile r req) (\<lambda>(res, err) evs. \<forall>n rest owner.
     evs = EGet ''NetworkRouter'' req (Inr (KNetworkRouter n)) # rest \<and> om_DeletionTimestamp (nro_Meta n) = None \<and>
     ControllerReference (nrr_Client r) (KNetworkRouter n) (nro_Meta n) = Inr owner \<longrightarrow>
     res = zero_Result \<or> (res = requeue_after (15 * Minute) \<and> err = None \<and> network_router_ready r owner req n rest))"
proof -
  have "emits (NetworkRouter_body r req n) (\<lambda>out evs. \<forall>owner. om_DeletionTimestamp (nro_Meta n) = None \<and>
     ControllerReference (nrr_Client r) (KNetworkRouter n) (nro_Meta n) = Inr owner \<longrightarrow> (case out of (res, err) \<Rightarrow>
     res = zero_Result \<or> (res = requeue_after (15 * Minute) \<and> err = None \<and> network_router_ready r owner req n evs)))" for n
  proof (cases "ControllerReference (nrr_Client r) (KNetworkRouter n) (nro_Meta n)")
    case (Inr owner)
    have "om_DeletionTimestamp (nro_Meta n) = None \<Longrightarrow> emits (NetworkRouter_body r req n) (\<lambda>(res, err) evs.
       res = zero_Result \<or> (res = requeue_after (15 * Minute) \<and> err = None \<and> network_router_ready r owner req n evs))"
      by (simp add: NetworkRouter_body_def Inr NetworkRouter_sync_ready)
    from emits_imp [where b = "om_DeletionTimestamp (nro_Meta n) = None", OF NetworkRouter_body_logs this]
    show ?thesis by (rule emits_mono) (auto simp: Inr)
  qed (simp add: emits_mono [OF NetworkRouter_body_logs])
  from network_router.reconcile_emits [OF this] show ?thesis
    by (rule emits_mono) (auto simp: NetworkRouters_def)
qed

definition demo_router :: NetworkRouter where
  "demo_router = \<lparr>nro_Meta = zero_ObjectMeta\<lparr>om_Name := ''r'', om_Namespace := ''ns''\<rparr>,
     nro_Spec = \<lparr>nro_DNSZoneRef = ''zone'', nro_WorkloadOverride = None\<rparr>,
     nro_Conditions = [], nro_RoutingPeerID = '''', nro_NetworkID = ''''\<rparr>"

definition demo_router_env :: "(NetworkRouter \<Rightarrow> goerr + NetworkRouter) \<Rightarrow> unit NetworkRouterReconciler" where
  "demo_router_env patch = \<lparr>nrr_Client = down_Client\<lparr>
       c_NetworkRouters := down_kind\<lparr>kc_get := \<lambda>_ w. (Inr demo_router, w), kc_patch := \<lambda>n w. (patch n, w)\<rparr>,
       c_AlphaGroups := down_kind\<lparr>kc_apply := \<lambda>_ w. (None, w), kc_get := \<lambda>_ w. (Inr \<lparr>grp_Meta = zero_ObjectMeta,
         grp_SpecName = '''', grp_Conditions = [], grp_GroupID = ''g1''\<rparr>, w)\<rparr>,
       c_AlphaSetupKeys := down_kind\<lparr>kc_apply := \<lambda>_ w. (None, w), kc_get := \<lambda>_ w. (Inr \<lparr>sk_Meta = zero_ObjectMeta,
         sk_Spec = \<lparr>sk_Name = '''', sk_Ephemeral = True, sk_Duration = None, sk_AutoGroups = []\<rparr>,
         sk_Conditions = [], sk_SetupKeyID = ''k1''\<rparr>, w)\<rparr>,
       c_Deployments := down_kind\<lparr>kc_apply := \<lambda>_ w. (None, w), kc_get := \<lambda>_ w. (Inr (router_deployment
         \<lparr>or_APIVersion = '''', or_Kind = '''', or_Name = '''', or_UID = '''', or_Controller = None, or_BlockOwnerDeletion = None\<rparr>
         (''ns'', ''r'') demo_router \<lparr>pts_Labels = None, pts_NodeSelector = None, pts_Tolerations = [], pts_Containers = [], pts_Volumes = []\<rparr>), w)\<rparr>\<rparr>,
     nrr_OpenZro = down_OpenZro\<lparr>
       oz_Zones := down_rest\<lparr>rs_list := \<lambda>w. (Inr [\<lparr>dz_Id = ''z1'', dz_Name = ''zone'', dz_Domain = ''zone'', dz_DistributionGroups = [], dz_EnableSearchDomain = False, dz_Enabled = None\<rparr>], w)\<rparr>,
       oz_Networks := down_rest\<lparr>rs_create := \<lambda>q w. (Inr \<lparr>an_Id = ''n1'', an_Name = nwr_Name q, an_Description = None\<rparr>, w)\<rparr>,
       oz_Routers := \<lambda>_. down_rest\<lparr>rs_create := \<lambda>q w. (Inr \<lparr>ar_Id = ''p1'', ar_Enabled = True, ar_Masquerade = True, ar_Metric = 9999,
         ar_PeerGroups = rr_PeerGroups q\<rparr>, w)\<rparr>\<rparr>,
     nrr_ManagementURL = ''url'', nrr_ClientImage = ''image'', nrr_digest = \<lambda>u. u, nrr_merge = \<lambda>t _. Inr t\<rparr>"

lemmas demo_router_defs = demo_router_def demo_router_env_def down_defs zero_ObjectMeta_def
  early_def router_network_def GetDNSZoneByName_def ensure_network_def upsert_def nonempty_def failed_def
  NetworkRouter_guarded_def set_nro_finalizers_def call_defs

theorem network_router_reconciled_witness:
  "let r = demo_router_env Inr; (x, t) = run_state (NetworkRouter_Reconcile r (''ns'', ''r'')) start
   in fst x = requeue_after (15 * Minute) \<and> (\<exists>owner. network_router_ready r owner (''ns'', ''r'') demo_router (tl (wlog t)))"
proof -
  let ?r = "demo_router_env Inr" and ?m = "NetworkRouter_Reconcile (demo_router_env Inr) (''ns'', ''r'')"
  have run: "fst (fst (run_state ?m start)) = requeue_after (15 * Minute)"
    and log: "\<exists>rest. wlog (snd (run_state ?m start)) = EGet ''NetworkRouter'' (''ns'', ''r'') (Inr (KNetworkRouter demo_router)) # rest"
    by (simp_all add: NetworkRouter_Reconcile_def NetworkRouter_body_def NetworkRouter_sync_def router_peers_def router_routing_peer_def
        router_workload_def depTemplate_def ControllerReference_def router_deployment_def demo_router_defs)
  have own: "\<exists>owner. ControllerReference (nrr_Client ?r) (KNetworkRouter demo_router) (nro_Meta demo_router) = Inr owner"
    by (simp add: demo_router_env_def down_defs ControllerReference_def)
  from log obtain rest where "wlog (snd (run_state ?m start)) = EGet ''NetworkRouter'' (''ns'', ''r'') (Inr (KNetworkRouter demo_router)) # rest" ..
  with run own show ?thesis
    using emits_start [OF network_router_reconciled [of ?r "(''ns'', ''r'')"]]
    by (auto simp: split_beta demo_router_def zero_ObjectMeta_def)
qed

text \<open>
  A network can be left behind: the finalizer is only added in memory before the network is created. When the
  router has no network yet, the network is created upstream and the patch then fails, the run ends
  with the error, nothing was stored in the cluster, and the network is not deleted.
\<close>

theorem network_router_leaks_network:
  assumes "nro_NetworkID n = ''''"
    and "rs_list (oz_Zones (nrr_OpenZro r)) (wenv s) = (Inr zones, w1)"
    and "List.find (\<lambda>zone. dz_Name zone = nro_DNSZoneRef (nro_Spec n)) zones = Some zone"
    and "rs_create (oz_Networks (nrr_OpenZro r)) \<lparr>nwr_Name = om_Name (nro_Meta n), nwr_Description = None\<rparr> w1 = (Inr a, w2)"
    and "kc_patch (c_NetworkRouters (nrr_Client r)) ((NetworkRouter_guarded r n)\<lparr>nro_NetworkID := an_Id a\<rparr>) w2 = (Inl e, w3)"
  shows "run_state (NetworkRouter_sync r owner req n) s = ((zero_Result, Some e), s\<lparr>wenv := w3, wlog := wlog s @
     [OList CZones (Inr (map RZone zones)),
      OCreate CNetworks (QNetwork \<lparr>nwr_Name = om_Name (nro_Meta n), nwr_Description = None\<rparr>) (Inr (RNetwork a)),
      EPatch (KNetworkRouter ((NetworkRouter_guarded r n)\<lparr>nro_NetworkID := an_Id a\<rparr>)) (Inl e)]\<rparr>)"
  using assms
  by (simp add: NetworkRouter_sync_def early_def router_network_def GetDNSZoneByName_def ensure_network_def upsert_def nonempty_def
      failed_def call_defs)

theorem network_router_leaks_network_witness:
  "fst (run_state (NetworkRouter_sync (demo_router_env (\<lambda>_. Inl (KError ''conflict'')))
     \<lparr>or_APIVersion = '''', or_Kind = '''', or_Name = '''', or_UID = '''', or_Controller = None, or_BlockOwnerDeletion = None\<rparr>
     (''ns'', ''r'') demo_router) start) = (zero_Result, Some (KError ''conflict''))"
  by (subst network_router_leaks_network [where zones = "[\<lparr>dz_Id = ''z1'', dz_Name = ''zone'', dz_Domain = ''zone'', dz_DistributionGroups = [], dz_EnableSearchDomain = False, dz_Enabled = None\<rparr>]" and ?w1.0 = "()" and ?w2.0 = "()" and ?w3.0 = "()"
        and a = "\<lparr>an_Id = ''n1'', an_Name = ''r'', an_Description = None\<rparr>" and zone = "\<lparr>dz_Id = ''z1'', dz_Name = ''zone'', dz_Domain = ''zone'', dz_DistributionGroups = [], dz_EnableSearchDomain = False, dz_Enabled = None\<rparr>" and e = "KError ''conflict''"])
     (simp_all add: demo_router_def demo_router_env_def zero_ObjectMeta_def)

end
