(* ===== verification/Gateway_Controllers.thy ===== *)
theory Gateway_Controllers
  imports Alpha_Common
begin

text \<open>
  \<open>internal/gatewayutil\<close> and the controllers of gateway classes and gateways
  (\<open>internal/controller/gatewayclass_controller.go\<close>, \<open>gateway_controller.go\<close>). The names of conditions
  and reasons are those of the Gateway API.
\<close>

section \<open>Looking up gateways\<close>

definition GatewayControllerName :: string where
  "GatewayControllerName = ''gateway.openzro.io/controller''"

definition GetParentGateway ::
  "'w Client \<Rightarrow> ParentReference \<Rightarrow> string \<Rightarrow> string \<Rightarrow> ('w, goerr + Gateway option) go" where
  "GetParentGateway k8sClient parent namespace controllerName = do {
     gr \<leftarrow> k_get (Gateways k8sClient) (case pref_Namespace parent of None \<Rightarrow> namespace | Some ns \<Rightarrow> ns, pref_Name parent);
     (case gr of
        Inl err \<Rightarrow> State_Monad.return (Inl err)
      | Inr gw \<Rightarrow> do {
          cr \<leftarrow> k_get (GatewayClasses k8sClient) ('''', gw_GatewayClassName gw);
          State_Monad.return (case cr of
            Inl err \<Rightarrow> Inl err
          | Inr gwc \<Rightarrow> Inr (if gwc_ControllerName gwc \<noteq> controllerName then None else Some gw)) })
   }"

definition GetNetworkRouterName :: "Listener list \<Rightarrow> (goerr + string) outcome" where
  "GetNetworkRouterName listeners =
     (if length listeners > 1 then Returned (Inl (GoError ''openzro Gateway only supports a single listener''))
      else case listeners of
        [] \<Rightarrow> Panicked ''index out of range''
      | l # _ \<Rightarrow>
          (case str_cut (lst_Protocol l) ''/'' of (grp, kind, ok) \<Rightarrow>
             if \<not> ok
             then Returned (Inl (GoError (''invalid protocol '' @ lst_Protocol l @ '', expected gateway.openzro.io/NetworkRouter'')))
             else if grp \<noteq> ''gateway.openzro.io'' \<or> kind \<noteq> ''NetworkRouter''
             then Returned (Inl (GoError (''invalid group '' @ grp @ '' and kind '' @ kind @ '', expected gateway.openzro.io/NetworkRouter'')))
             else Returned (Inr (lst_Name l))))"

definition GetGatewayNetworkRouter :: "'w Client \<Rightarrow> Gateway \<Rightarrow> ('w, (goerr + NetworkRouter) outcome) go" where
  "GetGatewayNetworkRouter k8sClient gw =
     (case GetNetworkRouterName (gw_Listeners gw) of
        Panicked m \<Rightarrow> State_Monad.return (Panicked m)
      | Returned (Inl err) \<Rightarrow> State_Monad.return (Returned (Inl err))
      | Returned (Inr netRouterName) \<Rightarrow> do {
          gr \<leftarrow> k_get (NetworkRouters k8sClient) (om_Namespace (gw_Meta gw), netRouterName);
          State_Monad.return (Returned gr) })"

section \<open>Gateway classes\<close>

record 'w GatewayClassReconciler =
  gcr_Client :: "'w Client"

definition set_gwc_finalizers :: "(string list \<Rightarrow> string list) \<Rightarrow> GatewayClass \<Rightarrow> GatewayClass" where
  "set_gwc_finalizers f g = g\<lparr>gwc_Meta := (gwc_Meta g)\<lparr>om_Finalizers := f (om_Finalizers (gwc_Meta g))\<rparr>\<rparr>"

definition GatewayClass_released :: "'w GatewayClassReconciler \<Rightarrow> GatewayClass \<Rightarrow> GatewayClass" where
  "GatewayClass_released r = set_gwc_finalizers (RemoveFinalizer (gcr_Client r) (Finalizer ''gatewayclass''))"

definition GatewayClass_reconcileDelete :: "'w GatewayClassReconciler \<Rightarrow> GatewayClass \<Rightarrow> ('w, Result \<times> goerr option) go" where
  "GatewayClass_reconcileDelete r gwc = do {
     lr \<leftarrow> k_list (Gateways (gcr_Client r)) None;
     (case lr of
        Inl err \<Rightarrow> State_Monad.return (zero_Result, Some err)
      | Inr items \<Rightarrow>
          if \<exists>gw \<in> set items. gw_GatewayClassName gw = om_Name (gwc_Meta gwc)
          then State_Monad.return (requeue_after (5 * Second), None)
          else do {
            pr \<leftarrow> k_patch (GatewayClasses (gcr_Client r)) (GatewayClass_released r gwc);
            State_Monad.return (zero_Result, err_of pr) })
   }"

text \<open>The function literal that validates the configuration.\<close>

definition gwc_message :: "GatewayClass \<Rightarrow> string" where
  "gwc_message gwc =
     (if om_Name (gwc_Meta gwc) \<noteq> ''openzro-public'' \<and> om_Name (gwc_Meta gwc) \<noteq> ''openzro-private''
      then ''GatewayClass name must be openzro-public or openzro-private.''
      else if gwc_ParametersRef gwc \<noteq> None then ''Parameters references is not supported.''
      else '''')"

definition GatewayClass_rejected :: "'w GatewayClassReconciler \<Rightarrow> GatewayClass \<Rightarrow> GatewayClass" where
  "GatewayClass_rejected r gwc = gwc\<lparr>gwc_Conditions := SetStatusCondition (gcr_Client r)
     \<lparr>cond_Type = ''Accepted'', cond_Status = ''False'', cond_Reason = ''InvalidParameters'', cond_Message = gwc_message gwc\<rparr>
     (gwc_Conditions gwc)\<rparr>"

definition GatewayClass_accepted :: "'w GatewayClassReconciler \<Rightarrow> GatewayClass \<Rightarrow> GatewayClass" where
  "GatewayClass_accepted r gwc =
     (set_gwc_finalizers (AddFinalizer (gcr_Client r) (Finalizer ''gatewayclass'')) gwc)\<lparr>gwc_Conditions := SetStatusCondition (gcr_Client r)
       \<lparr>cond_Type = ''Accepted'', cond_Status = ''True'', cond_Reason = ''Accepted'', cond_Message = ''Reconciled by openZro Operator.''\<rparr>
       (gwc_Conditions gwc)\<rparr>"

definition GatewayClass_body :: "'w GatewayClassReconciler \<Rightarrow> nn \<Rightarrow> GatewayClass \<Rightarrow> ('w, Result \<times> goerr option) go" where
  "GatewayClass_body r req gwc =
     (if gwc_ControllerName gwc \<noteq> GatewayControllerName then State_Monad.return (zero_Result, None)
      else if om_DeletionTimestamp (gwc_Meta gwc) \<noteq> None then GatewayClass_reconcileDelete r gwc
      else do {
        pr \<leftarrow> k_patch (GatewayClasses (gcr_Client r))
               (if gwc_message gwc \<noteq> '''' then GatewayClass_rejected r gwc else GatewayClass_accepted r gwc);
        State_Monad.return (zero_Result, err_of pr) })"

definition GatewayClass_Reconcile :: "'w GatewayClassReconciler \<Rightarrow> nn \<Rightarrow> ('w, Result \<times> goerr option) go" where
  "GatewayClass_Reconcile r req = do {
     gr \<leftarrow> k_get (GatewayClasses (gcr_Client r)) req;
     (case gr of
        Inl err \<Rightarrow> State_Monad.return (zero_Result, IgnoreNotFound err)
      | Inr gwc \<Rightarrow> GatewayClass_body r req gwc)
   }"

section \<open>Gateways\<close>

record 'w GatewayReconciler =
  gwr_Client :: "'w Client"

definition set_gw_finalizers :: "(string list \<Rightarrow> string list) \<Rightarrow> Gateway \<Rightarrow> Gateway" where
  "set_gw_finalizers f g = g\<lparr>gw_Meta := (gw_Meta g)\<lparr>om_Finalizers := f (om_Finalizers (gw_Meta g))\<rparr>\<rparr>"

definition Gateway_released :: "'w GatewayReconciler \<Rightarrow> Gateway \<Rightarrow> Gateway" where
  "Gateway_released r = set_gw_finalizers (RemoveFinalizer (gwr_Client r) (Finalizer ''gateway''))"

text \<open>A parent reference of a route in \<open>namespace\<close> names the gateway; what it leaves out is the gateway's.\<close>

definition parent_names :: "Gateway \<Rightarrow> string \<Rightarrow> ParentReference \<Rightarrow> bool" where
  "parent_names gw namespace ref \<longleftrightarrow>
     (case pref_Group ref of None \<Rightarrow> tm_Group (gw_Type gw) | Some g \<Rightarrow> g) = tm_Group (gw_Type gw) \<and>
     (case pref_Kind ref of None \<Rightarrow> tm_Kind (gw_Type gw) | Some k \<Rightarrow> k) = tm_Kind (gw_Type gw) \<and>
     (case pref_Namespace ref of None \<Rightarrow> namespace | Some ns \<Rightarrow> ns) = om_Namespace (gw_Meta gw) \<and>
     pref_Name ref = om_Name (gw_Meta gw)"

definition Gateway_reconcileDelete :: "'w GatewayReconciler \<Rightarrow> Gateway \<Rightarrow> ('w, (Result \<times> goerr option) outcome) go" where
  "Gateway_reconcileDelete r gw = do {
     lr \<leftarrow> k_list (HTTPRoutes (gwr_Client r)) None;
     (case lr of
        Inl err \<Rightarrow> State_Monad.return (Returned (zero_Result, Some err))
      | Inr items \<Rightarrow>
          if \<exists>route \<in> set items. \<exists>ref \<in> set (hr_ParentRefs route). parent_names gw (om_Namespace (hr_Meta route)) ref
          then State_Monad.return (Returned (requeue_after (5 * Second), None))
          else do {
            pr \<leftarrow> k_patch (Gateways (gwr_Client r)) (Gateway_released r gw);
            State_Monad.return (Returned (zero_Result, err_of pr)) })
   }"

definition set_gw_condition :: "'w GatewayReconciler \<Rightarrow> string \<Rightarrow> string \<Rightarrow> string \<Rightarrow> string \<Rightarrow> Gateway \<Rightarrow> Gateway" where
  "set_gw_condition r typ status reason msg gw = gw\<lparr>gw_Conditions := SetStatusCondition (gwr_Client r)
     \<lparr>cond_Type = typ, cond_Status = status, cond_Reason = reason, cond_Message = msg\<rparr> (gw_Conditions gw)\<rparr>"

definition Gateway_rejected :: "'w GatewayReconciler \<Rightarrow> goerr \<Rightarrow> Gateway \<Rightarrow> Gateway" where
  "Gateway_rejected r err = set_gw_condition r ''Accepted'' ''False'' ''InvalidParameters'' (error_text err)"

definition Gateway_accepted :: "'w GatewayReconciler \<Rightarrow> Gateway \<Rightarrow> Gateway" where
  "Gateway_accepted r gw = set_gw_finalizers (AddFinalizer (gwr_Client r) (Finalizer ''gateway''))
     (set_gw_condition r ''Accepted'' ''True'' ''Accepted'' '''' gw)"

definition Gateway_not_programmed :: "'w GatewayReconciler \<Rightarrow> string \<Rightarrow> Gateway \<Rightarrow> Gateway" where
  "Gateway_not_programmed r routingPeerName =
     set_gw_condition r ''Programmed'' ''False'' ''Programmed'' (''OZRoutingPeer '' @ routingPeerName @ '' is not ready'')"

definition Gateway_programmed :: "'w GatewayReconciler \<Rightarrow> Gateway \<Rightarrow> Gateway" where
  "Gateway_programmed r = set_gw_condition r ''Programmed'' ''True'' ''Programmed'' ''''"

text \<open>The steps once the listeners name a router: accept, read the router, store whether it is ready.\<close>

definition Gateway_program :: "'w GatewayReconciler \<Rightarrow> string \<Rightarrow> Gateway \<Rightarrow> ('w, (Result \<times> goerr option) outcome) go" where
  "Gateway_program r routingPeerName gw = do {
     pr \<leftarrow> k_patch (Gateways (gwr_Client r)) (Gateway_accepted r gw);
     (case pr of
        Inl err \<Rightarrow> State_Monad.return (Returned (zero_Result, Some err))
      | Inr gw1 \<Rightarrow> do {
          nr \<leftarrow> GetGatewayNetworkRouter (gwr_Client r) gw1;
          (case nr of
             Panicked m \<Rightarrow> State_Monad.return (Panicked m)
           | Returned (Inl err) \<Rightarrow> State_Monad.return (Returned (zero_Result, Some err))
           | Returned (Inr netRouter) \<Rightarrow>
               if \<not> HasCondition (gwr_Client r) ReadyCondition (nro_Conditions netRouter)
               then do {
                 pr2 \<leftarrow> k_patch (Gateways (gwr_Client r)) (Gateway_not_programmed r routingPeerName gw1);
                 State_Monad.return (Returned (case pr2 of
                   Inl err \<Rightarrow> (zero_Result, Some err)
                 | Inr _ \<Rightarrow> (requeue_after (5 * Second), None))) }
               else do {
                 pr2 \<leftarrow> k_patch (Gateways (gwr_Client r)) (Gateway_programmed r gw1);
                 State_Monad.return (Returned (zero_Result, err_of pr2)) }) })
   }"

definition Gateway_sync :: "'w GatewayReconciler \<Rightarrow> Gateway \<Rightarrow> ('w, (Result \<times> goerr option) outcome) go" where
  "Gateway_sync r gw =
     (case GetNetworkRouterName (gw_Listeners gw) of
        Panicked m \<Rightarrow> State_Monad.return (Panicked m)
      | Returned (Inl err) \<Rightarrow> do {
          pr \<leftarrow> k_patch (Gateways (gwr_Client r)) (Gateway_rejected r err gw);
          State_Monad.return (Returned (zero_Result, err_of pr)) }
      | Returned (Inr routingPeerName) \<Rightarrow> Gateway_program r routingPeerName gw)"

definition Gateway_body :: "'w GatewayReconciler \<Rightarrow> nn \<Rightarrow> Gateway \<Rightarrow> ('w, (Result \<times> goerr option) outcome) go" where
  "Gateway_body r req gw = do {
     cr \<leftarrow> k_get (GatewayClasses (gwr_Client r)) ('''', gw_GatewayClassName gw);
     (case cr of
        Inl err \<Rightarrow> State_Monad.return (Returned (zero_Result, Some err))
      | Inr gwc \<Rightarrow>
          if gwc_ControllerName gwc \<noteq> GatewayControllerName then State_Monad.return (Returned (zero_Result, None))
          else if \<not> IsStatusConditionTrue (gwr_Client r) ''Accepted'' (gwc_Conditions gwc)
          then State_Monad.return (Returned (requeue_after (5 * Second), None))
          else if om_DeletionTimestamp (gw_Meta gw) \<noteq> None then Gateway_reconcileDelete r gw
          else Gateway_sync r gw)
   }"

definition Gateway_Reconcile :: "'w GatewayReconciler \<Rightarrow> nn \<Rightarrow> ('w, (Result \<times> goerr option) outcome) go" where
  "Gateway_Reconcile r req = do {
     gr \<leftarrow> k_get (Gateways (gwr_Client r)) req;
     (case gr of
        Inl err \<Rightarrow> State_Monad.return (Returned (zero_Result, IgnoreNotFound err))
      | Inr gw \<Rightarrow> Gateway_body r req gw)
   }"

section \<open>Properties\<close>

lemma str_cut_found:
  "str_cut s [c] = (a, b, True) \<longleftrightarrow> s = a @ c # b \<and> c \<notin> set a"
proof (induction s arbitrary: a b)
  case (Cons x xs)
  show ?case
  proof (cases "x = c")
    case True
    then show ?thesis by (cases a) auto
  next
    case False
    have "str_cut (x # xs) [c] = (a, b, True) \<longleftrightarrow> (\<exists>a'. a = x # a' \<and> str_cut xs [c] = (a', b, True))"
      using False by (auto split: prod.split)
    with False show ?thesis by (cases a) (auto simp: Cons.IH)
  qed
qed simp

text \<open>The reference for \<open>GetNetworkRouterName\<close>: one listener whose protocol is the expected one names the router.\<close>

definition named_router :: "Listener list \<Rightarrow> string option" where
  "named_router listeners = (case listeners of
     [l] \<Rightarrow> if lst_Protocol l = ''gateway.openzro.io/NetworkRouter'' then Some (lst_Name l) else None
   | _ \<Rightarrow> None)"

lemma cut_protocol:
  "(case str_cut p ''/'' of (grp, kind, ok) \<Rightarrow> ok \<and> grp = ''gateway.openzro.io'' \<and> kind = ''NetworkRouter'') \<longleftrightarrow>
     p = ''gateway.openzro.io/NetworkRouter''"
proof (cases "str_cut p ''/''")
  case (fields grp kind ok)
  then show ?thesis using str_cut_found [of p "CHR ''/''" "''gateway.openzro.io''" "''NetworkRouter''"] by auto
qed

lemma GetNetworkRouterName_single:
  "\<exists>err. GetNetworkRouterName [l] =
     Returned (if lst_Protocol l = ''gateway.openzro.io/NetworkRouter'' then Inr (lst_Name l) else Inl err)"
proof (cases "str_cut (lst_Protocol l) ''/''")
  case (fields grp kind ok)
  then have "GetNetworkRouterName [l] = (if \<not> ok
      then Returned (Inl (GoError (''invalid protocol '' @ lst_Protocol l @ '', expected gateway.openzro.io/NetworkRouter'')))
      else if grp \<noteq> ''gateway.openzro.io'' \<or> kind \<noteq> ''NetworkRouter''
      then Returned (Inl (GoError (''invalid group '' @ grp @ '' and kind '' @ kind @ '', expected gateway.openzro.io/NetworkRouter'')))
      else Returned (Inr (lst_Name l)))"
    by (simp add: GetNetworkRouterName_def)
  moreover have "ok \<and> grp = ''gateway.openzro.io'' \<and> kind = ''NetworkRouter'' \<longleftrightarrow> lst_Protocol l = ''gateway.openzro.io/NetworkRouter''"
    using cut_protocol [of "lst_Protocol l"] fields by simp
  ultimately show ?thesis by (auto simp only: if_splits if_True if_False simp_thms)
qed

lemma GetNetworkRouterName_cases:
  obtains (none) m where "ls = []" "GetNetworkRouterName ls = Panicked m"
  | (bad) err where "ls \<noteq> []" "named_router ls = None" "GetNetworkRouterName ls = Returned (Inl err)"
  | (good) n where "named_router ls = Some n" "GetNetworkRouterName ls = Returned (Inr n)"
proof (cases ls)
  case Nil
  then show ?thesis using none by (simp add: GetNetworkRouterName_def)
next
  case (Cons l ls')
  show ?thesis
  proof (cases ls')
    case Nil
    with Cons show ?thesis using GetNetworkRouterName_single [of l] bad good
      by (auto simp: named_router_def split: if_splits)
  next
    case (Cons l' ls'')
    with \<open>ls = l # ls'\<close> show ?thesis using bad by (simp add: GetNetworkRouterName_def named_router_def)
  qed
qed

text \<open>What the deletion of a class or a gateway waits for.\<close>

definition class_unused :: "GatewayClass \<Rightarrow> event list \<Rightarrow> bool" where
  "class_unused gwc evs \<longleftrightarrow> (\<exists>gws. EList ''Gateway'' (Inr (map KGateway gws)) \<in> set evs \<and>
     (\<forall>gw \<in> set gws. gw_GatewayClassName gw \<noteq> om_Name (gwc_Meta gwc)))"

definition gateway_unused :: "Gateway \<Rightarrow> event list \<Rightarrow> bool" where
  "gateway_unused gw evs \<longleftrightarrow> (\<exists>routes. EList ''HTTPRoute'' (Inr (map KHTTPRoute routes)) \<in> set evs \<and>
     (\<forall>route \<in> set routes. \<forall>ref \<in> set (hr_ParentRefs route). \<not> parent_names gw (om_Namespace (hr_Meta route)) ref))"

lemma GatewayClass_delete_spec:
  "emits (GatewayClass_reconcileDelete r gwc) (\<lambda>_ evs. no_creates evs \<and>
     patches_only (\<lambda>o'. o' = KGatewayClass (GatewayClass_released r gwc) \<and> class_unused gwc evs) evs)"
  unfolding GatewayClass_reconcileDelete_def k_list_def k_patch_def Gateways_def GatewayClasses_def
  by (auto intro!: emits_intros simp: class_unused_def split: sum.splits, blast)

lemma Gateway_delete_spec:
  "emits (Gateway_reconcileDelete r gw) (\<lambda>_ evs. no_creates evs \<and>
     patches_only (\<lambda>o'. o' = KGateway (Gateway_released r gw) \<and> gateway_unused gw evs) evs)"
  unfolding Gateway_reconcileDelete_def k_list_def k_patch_def Gateways_def HTTPRoutes_def
  by (auto intro!: emits_intros simp: gateway_unused_def split: sum.splits, blast)

lemma GatewayClass_body_spec:
  "emits (GatewayClass_body r req gwc) (\<lambda>(res, err) evs.
     (gwc_ControllerName gwc \<noteq> GatewayControllerName \<longrightarrow> evs = [] \<and> res = zero_Result \<and> err = None) \<and>
     (gwc_ControllerName gwc = GatewayControllerName \<and> om_DeletionTimestamp (gwc_Meta gwc) = None \<longrightarrow> (\<exists>pr.
        evs = [EPatch (KGatewayClass (if gwc_message gwc \<noteq> '''' then GatewayClass_rejected r gwc else GatewayClass_accepted r gwc)) pr] \<and>
        res = zero_Result \<and> err = err_of pr)))"
  unfolding GatewayClass_body_def k_patch_def GatewayClasses_def
  by (auto intro!: emits_intros emits_mono [OF GatewayClass_delete_spec] simp: answer_def split: sum.splits)
     (auto simp: err_of_def split: sum.splits)

text \<open>The runs for a gateway that is not being deleted and whose class is accepted.\<close>

inductive gateway_run :: "'w GatewayReconciler \<Rightarrow> Gateway \<Rightarrow> (Result \<times> goerr option) outcome \<Rightarrow> event list \<Rightarrow> bool"
  for r gw where
  no_listener: "gw_Listeners gw = [] \<Longrightarrow> gateway_run r gw (Panicked m) []"
| rejected: "\<lbrakk>gw_Listeners gw \<noteq> []; named_router (gw_Listeners gw) = None\<rbrakk> \<Longrightarrow>
    gateway_run r gw (Returned (zero_Result, None)) [EPatch (KGateway (Gateway_rejected r e gw)) (Inr y)]"
| error: "gw_Listeners gw \<noteq> [] \<Longrightarrow> gateway_run r gw (Returned (zero_Result, Some e)) evs"
| listener_removed: "\<lbrakk>named_router (gw_Listeners gw) = Some n; gw_Listeners gw1 = []\<rbrakk> \<Longrightarrow>
    gateway_run r gw (Panicked m) [EPatch (KGateway (Gateway_accepted r gw)) (Inr (KGateway gw1))]"
| not_programmed: "\<lbrakk>named_router (gw_Listeners gw) = Some n; named_router (gw_Listeners gw1) = Some n1;
      \<not> HasCondition (gwr_Client r) ReadyCondition (nro_Conditions nr)\<rbrakk> \<Longrightarrow>
    gateway_run r gw (Returned (requeue_after (5 * Second), None))
      [EPatch (KGateway (Gateway_accepted r gw)) (Inr (KGateway gw1)),
       EGet ''NetworkRouter'' (om_Namespace (gw_Meta gw1), n1) (Inr (KNetworkRouter nr)),
       EPatch (KGateway (Gateway_not_programmed r n gw1)) (Inr y)]"
| programmed: "\<lbrakk>named_router (gw_Listeners gw) = Some n; named_router (gw_Listeners gw1) = Some n1;
      HasCondition (gwr_Client r) ReadyCondition (nro_Conditions nr)\<rbrakk> \<Longrightarrow>
    gateway_run r gw (Returned (zero_Result, None))
      [EPatch (KGateway (Gateway_accepted r gw)) (Inr (KGateway gw1)),
       EGet ''NetworkRouter'' (om_Namespace (gw_Meta gw1), n1) (Inr (KNetworkRouter nr)),
       EPatch (KGateway (Gateway_programmed r gw1)) (Inr y)]"

inductive_cases gateway_run_silentE: "gateway_run r gw (Returned (zero_Result, None)) evs"

lemma emits_GetGatewayNetworkRouter:
  "emits (GetGatewayNetworkRouter c gw) (\<lambda>x evs. case x of
     Panicked m \<Rightarrow> gw_Listeners gw = [] \<and> evs = []
   | Returned (Inl err) \<Rightarrow> \<forall>e \<in> set evs. \<not> is_write e
   | Returned (Inr nr) \<Rightarrow> \<exists>n. named_router (gw_Listeners gw) = Some n \<and>
       evs = [EGet ''NetworkRouter'' (om_Namespace (gw_Meta gw), n) (Inr (KNetworkRouter nr))])"
  unfolding GetGatewayNetworkRouter_def k_get_def NetworkRouters_def
  by (cases "gw_Listeners gw" rule: GetNetworkRouterName_cases)
     (auto intro!: emits_intros split: sum.splits)

lemma gateway_run_last:
  "\<lbrakk>gw_Listeners gw \<noteq> []; named_router (gw_Listeners gw) = None\<rbrakk> \<Longrightarrow>
     gateway_run r gw (Returned (zero_Result, err_of pr)) [EPatch (KGateway (Gateway_rejected r e gw)) (answer KGateway pr)]"
  "\<lbrakk>named_router (gw_Listeners gw) = Some n; named_router (gw_Listeners gw1) = Some n1;
      HasCondition (gwr_Client r) ReadyCondition (nro_Conditions nr)\<rbrakk> \<Longrightarrow>
    gateway_run r gw (Returned (zero_Result, err_of pr))
      [EPatch (KGateway (Gateway_accepted r gw)) (Inr (KGateway gw1)),
       EGet ''NetworkRouter'' (om_Namespace (gw_Meta gw1), n1) (Inr (KNetworkRouter nr)),
       EPatch (KGateway (Gateway_programmed r gw1)) (answer KGateway pr)]"
  by (cases pr; auto intro!: gateway_run.intros simp: named_router_def split: list.splits)+

lemma Gateway_program_run:
  assumes n: "named_router (gw_Listeners gw) = Some n"
  shows "emits (Gateway_program r n gw) (gateway_run r gw)"
proof -
  from n have ls: "gw_Listeners gw \<noteq> []" by (auto simp: named_router_def)
  show ?thesis
    unfolding Gateway_program_def k_patch_def Gateways_def
    by (auto intro!: emits_intros emits_bind [OF emits_GetGatewayNetworkRouter] gateway_run.error ls
           gateway_run_last(2) [OF n] gateway_run.not_programmed [OF n] gateway_run.listener_removed [OF n]
         split: sum.splits outcome.splits)
qed

lemma Gateway_sync_run: "emits (Gateway_sync r gw) (gateway_run r gw)"
  unfolding Gateway_sync_def k_patch_def Gateways_def
  by (cases "gw_Listeners gw" rule: GetNetworkRouterName_cases)
     (auto intro!: emits_intros gateway_run_last(1) gateway_run.no_listener Gateway_program_run)

lemma Gateway_body_spec:
  "emits (Gateway_body r req gw) (\<lambda>out evs.
     (\<exists>err. evs = [EGet ''GatewayClass'' ('''', gw_GatewayClassName gw) (Inl err)] \<and> out = Returned (zero_Result, Some err)) \<or>
     (\<exists>gwc rest. evs = EGet ''GatewayClass'' ('''', gw_GatewayClassName gw) (Inr (KGatewayClass gwc)) # rest \<and>
       (if gwc_ControllerName gwc \<noteq> GatewayControllerName then rest = [] \<and> out = Returned (zero_Result, None)
        else if \<not> IsStatusConditionTrue (gwr_Client r) ''Accepted'' (gwc_Conditions gwc)
        then rest = [] \<and> out = Returned (requeue_after (5 * Second), None)
        else if om_DeletionTimestamp (gw_Meta gw) \<noteq> None
        then no_creates rest \<and> patches_only (\<lambda>o'. o' = KGateway (Gateway_released r gw) \<and> gateway_unused gw rest) rest
        else gateway_run r gw out rest)))"
  unfolding Gateway_body_def k_get_def GatewayClasses_def
  by (rule emits_bind_api_call)
     (auto intro!: emits_intros emits_mono [OF Gateway_delete_spec] emits_mono [OF Gateway_sync_run] split: sum.splits)

lemma patches_only_mono: "patches_only P evs \<Longrightarrow> (\<And>x. P x \<Longrightarrow> Q x) \<Longrightarrow> patches_only Q evs"
  by (auto simp: patches_only_def)

lemma gateway_unused_Cons: "gateway_unused gw rest \<Longrightarrow> gateway_unused gw (e # rest)"
  by (auto simp: gateway_unused_def)

lemma Gateway_body_deleted:
  assumes "om_DeletionTimestamp (gw_Meta gw) \<noteq> None"
  shows "emits (Gateway_body r req gw) (\<lambda>_ evs. no_creates evs \<and>
     patches_only (\<lambda>o'. o' = KGateway (Gateway_released r gw) \<and> gateway_unused gw evs) evs)"
  by (rule emits_mono [OF Gateway_body_spec])
     (use assms in \<open>auto split: if_splits intro: gateway_unused_Cons elim!: patches_only_mono\<close>)

interpretation gateway: finalized "Gateways (gwr_Client r)" gw_Meta Returned "Gateway_Reconcile r"
  "Gateway_body r" "Gateway_released r" gateway_unused for r
proof unfold_locales
  show "emits (Gateway_body r req gw) (\<lambda>_ _. True)" for req gw
    by (rule emits_mono [OF Gateway_body_spec]) simp
qed (simp_all add: Gateways_def Gateway_Reconcile_def Gateway_body_deleted)

lemma GatewayClass_body_deleted:
  assumes "om_DeletionTimestamp (gwc_Meta gwc) \<noteq> None"
  shows "emits (GatewayClass_body r req gwc) (\<lambda>_ evs. no_creates evs \<and>
     patches_only (\<lambda>o'. o' = KGatewayClass (GatewayClass_released r gwc) \<and> class_unused gwc evs) evs)"
  using assms by (auto intro!: emits_intros GatewayClass_delete_spec simp: GatewayClass_body_def)

interpretation gateway_class: finalized "GatewayClasses (gcr_Client r)" gwc_Meta "\<lambda>x. x" "GatewayClass_Reconcile r"
  "GatewayClass_body r" "GatewayClass_released r" class_unused for r
proof unfold_locales
  show "emits (GatewayClass_body r req gw) (\<lambda>_ _. True)" for req gw
    by (rule emits_mono [OF GatewayClass_body_spec]) simp
qed (simp_all add: GatewayClasses_def GatewayClass_Reconcile_def GatewayClass_body_deleted)

section \<open>Claims\<close>


definition demo_gateway :: Gateway where
  "demo_gateway = \<lparr>gw_Type = \<lparr>tm_Kind = ''Gateway'', tm_Group = ''gateway.networking.k8s.io''\<rparr>,
     gw_Meta = zero_ObjectMeta\<lparr>om_Name := ''g'', om_Namespace := ''ns''\<rparr>, gw_GatewayClassName = ''openzro-public'',
     gw_Listeners = [\<lparr>lst_Name = ''r'', lst_Protocol = ''gateway.openzro.io/NetworkRouter''\<rparr>], gw_Conditions = []\<rparr>"

definition demo_class :: GatewayClass where
  "demo_class = \<lparr>gwc_Meta = zero_ObjectMeta\<lparr>om_Name := ''openzro-public''\<rparr>, gwc_ControllerName = GatewayControllerName,
     gwc_ParametersRef = None,
     gwc_Conditions = [\<lparr>cond_Type = ''Accepted'', cond_Status = ''True'', cond_Reason = ''Accepted'', cond_Message = ''''\<rparr>]\<rparr>"

text \<open>A router whose Ready condition is false.\<close>

definition demo_unready_router :: NetworkRouter where
  "demo_unready_router = \<lparr>nro_Meta = zero_ObjectMeta\<lparr>om_Name := ''r'', om_Namespace := ''ns''\<rparr>,
     nro_Spec = \<lparr>nro_DNSZoneRef = ''zone'', nro_WorkloadOverride = None\<rparr>,
     nro_Conditions = [\<lparr>cond_Type = ReadyCondition, cond_Status = ''False'', cond_Reason = ''Dependency'', cond_Message = ''''\<rparr>],
     nro_RoutingPeerID = '''', nro_NetworkID = ''''\<rparr>"

definition demo_gateway_env :: "unit GatewayReconciler" where
  "demo_gateway_env = \<lparr>gwr_Client = down_Client\<lparr>
     c_Gateways := down_kind\<lparr>kc_get := \<lambda>_ w. (Inr demo_gateway, w), kc_patch := \<lambda>g w. (Inr g, w)\<rparr>,
     c_GatewayClasses := down_kind\<lparr>kc_get := \<lambda>_ w. (Inr demo_class, w)\<rparr>,
     c_NetworkRouters := down_kind\<lparr>kc_get := \<lambda>_ w. (Inr demo_unready_router, w)\<rparr>\<rparr>\<rparr>"


text \<open>A class of this controller is accepted exactly when it has one of the two names and no parameters.\<close>

lemma gateway_class_verdict:
  "gwc_message gwc = '''' \<longleftrightarrow> om_Name (gwc_Meta gwc) \<in> {''openzro-public'', ''openzro-private''} \<and> gwc_ParametersRef gwc = None"
  by (auto simp: gwc_message_def)

end
