(* ===== verification/Route_Common.thy ===== *)
theory Route_Common
  imports Gateway_Controllers
begin

text \<open>
  What the route controllers (\<open>internal/controller/httproute_controller.go\<close>, \<open>tcproute_controller.go\<close>) have
  in common, written once: the backends of a route become network resources in the network of the
  gateway's router, and the contract \<open>route_controller\<close> of a controller that attaches a route to the
  router of each parent.
\<close>

section \<open>What both controllers do\<close>

text \<open>
  A \<open>range\<close> over a map visits it in an order the language leaves open: the order may depend on all that
  happened before (\<open>rank\<close> applied to the log), and every order of distinct keys is one of these.
\<close>

definition map_range :: "(event list \<Rightarrow> string \<Rightarrow> nat) \<Rightarrow> (string \<times> 'v) list \<Rightarrow> ('w, 'v list) go" where
  "map_range rank m = State (\<lambda>s. (map snd (sort_key (rank (wlog s) \<circ> fst) m), s))"

text \<open>The services of the rules' backends, by name. While a route is deleted, missing services are skipped.\<close>

definition backend_services ::
  "'w Client \<Rightarrow> bool \<Rightarrow> string \<Rightarrow> string list list \<Rightarrow> ('w, (Result \<times> goerr option) + (string \<times> Service) list) go" where
  "backend_services c skipMissing namespace rules = for_each (concat rules) [] (\<lambda>ref svcIdx. do {
     sr \<leftarrow> k_get (Services c) (namespace, ref);
     State_Monad.return (case sr of
       Inl err \<Rightarrow> if skipMissing \<and> k_IsNotFound err then Inr svcIdx else failed err
     | Inr svc \<Rightarrow> Inr (AList.update (om_Name (svc_Meta svc)) svc svcIdx))
   })"

definition backend_resource :: "OwnerReference \<Rightarrow> OwnerReference \<Rightarrow> NetworkRouter \<Rightarrow> Service \<Rightarrow> NetworkResource" where
  "backend_resource controllerRef ownerRef netRouter svc =
     \<lparr>nrs_Meta = zero_ObjectMeta\<lparr>om_Name := om_Name (svc_Meta svc), om_Namespace := om_Namespace (svc_Meta svc),
        om_OwnerReferences := [controllerRef, ownerRef]\<rparr>,
      nrs_Spec = \<lparr>nrs_NetworkRouterRef = \<lparr>xref_Name = om_Name (nro_Meta netRouter), xref_Namespace = om_Namespace (nro_Meta netRouter)\<rparr>,
        nrs_ServiceRef = om_Name (svc_Meta svc), nrs_Groups = []\<rparr>,
      nrs_Conditions = [], nrs_NetworkID = '''', nrs_ResourceID = '''', nrs_DNSZoneID = '''', nrs_DNSRecordID = ''''\<rparr>"

definition apply_backends ::
  "'w Client \<Rightarrow> kobj \<Rightarrow> ObjectMeta \<Rightarrow> NetworkRouter \<Rightarrow> Service list \<Rightarrow> ('w, (Result \<times> goerr option) + unit) go" where
  "apply_backends c route m netRouter svcs = for_each svcs () (\<lambda>svc _.
     (case ControllerReference c (KService svc) (svc_Meta svc) of
        Inl err \<Rightarrow> State_Monad.return (failed err)
      | Inr controllerRef \<Rightarrow>
          (case OwnerReference_fn c route m of
             Inl err \<Rightarrow> State_Monad.return (failed err)
           | Inr ownerRef \<Rightarrow> do {
               ar \<leftarrow> k_apply (NetworkResources c)
                      (backend_resource (controllerRef\<lparr>or_BlockOwnerDeletion := Some False\<rparr>) ownerRef netRouter svc);
               State_Monad.return (case ar of Some err \<Rightarrow> failed err | None \<Rightarrow> Inr ()) })))"

text \<open>A route that goes away is taken off the owners of a network resource, which is deleted with its last route.\<close>

definition set_owners :: "OwnerReference list \<Rightarrow> NetworkResource \<Rightarrow> NetworkResource" where
  "set_owners refs n = n\<lparr>nrs_Meta := (nrs_Meta n)\<lparr>om_OwnerReferences := refs\<rparr>\<rparr>"

definition release_backends ::
  "'w Client \<Rightarrow> kobj \<Rightarrow> Service list \<Rightarrow> ('w, (Result \<times> goerr option) + unit) go" where
  "release_backends c route svcs = for_each svcs () (\<lambda>svc _. do {
     gr \<leftarrow> k_get (NetworkResources c) (om_Namespace (svc_Meta svc), om_Name (svc_Meta svc));
     (case gr of
        Inl err \<Rightarrow> State_Monad.return (failed err)
      | Inr netResource \<Rightarrow>
          (case RemoveOwnerReference c route (om_OwnerReferences (nrs_Meta netResource)) of
             Inl err \<Rightarrow> State_Monad.return (failed err)
           | Inr refs \<Rightarrow>
               if length refs > 1
               then do {
                 ur \<leftarrow> k_update (NetworkResources c) (set_owners refs netResource);
                 State_Monad.return (case ur of Inl err \<Rightarrow> failed err | Inr _ \<Rightarrow> Inr ()) }
               else do {
                 dr \<leftarrow> k_delete (NetworkResources c) (set_owners refs netResource);
                 State_Monad.return (case dr of Some err \<Rightarrow> failed err | None \<Rightarrow> Inr ()) })) })"

text \<open>
  The gateway of a parent with its router, \<open>None\<close> when the parent is skipped: it belongs to another
  controller or is not programmed.
\<close>

definition parent_router ::
  "'w Client \<Rightarrow> string \<Rightarrow> ParentReference \<Rightarrow> ('w, (Result \<times> goerr option) outcome + NetworkRouter option) go" where
  "parent_router c namespace parent = do {
     gr \<leftarrow> GetParentGateway c parent namespace GatewayControllerName;
     (case gr of
        Inl err \<Rightarrow> State_Monad.return (Inl (Returned (zero_Result, Some err)))
      | Inr None \<Rightarrow> State_Monad.return (Inr None)
      | Inr (Some gw) \<Rightarrow>
          if \<not> IsStatusConditionTrue c ''Programmed'' (gw_Conditions gw) then State_Monad.return (Inr None)
          else do {
            nr \<leftarrow> GetGatewayNetworkRouter c gw;
            State_Monad.return (case nr of
              Panicked m \<Rightarrow> Inl (Panicked m)
            | Returned (Inl err) \<Rightarrow> Inl (Returned (zero_Result, Some err))
            | Returned (Inr netRouter) \<Rightarrow> Inr (Some netRouter)) })
   }"

text \<open>An early return of a stage, as that of a function that can also panic.\<close>

definition returned :: "('w, 'e + 'a) go \<Rightarrow> ('w, 'e outcome + 'a) go" where
  "returned m = do { x \<leftarrow> m; State_Monad.return (map_sum Returned id x) }"

text \<open>\<open>x <- m\<close> in a function that returns early on \<open>Inl\<close>\<close>

definition try_bind :: "('w, 'e + 'a) go \<Rightarrow> ('a \<Rightarrow> ('w, 'e + 'b) go) \<Rightarrow> ('w, 'e + 'b) go" where
  "try_bind m f = do { x \<leftarrow> m; (case x of Inl e \<Rightarrow> State_Monad.return (Inl e) | Inr y \<Rightarrow> f y) }"

text \<open>For each parent whose gateway is this controller's.\<close>

definition for_own_parents ::
  "'w Client \<Rightarrow> string \<Rightarrow> ParentReference list \<Rightarrow> ('w, (Result \<times> goerr option) + unit) go \<Rightarrow> ('w, (Result \<times> goerr option) + unit) go" where
  "for_own_parents c namespace parents act = for_each parents () (\<lambda>parent _. do {
     gr \<leftarrow> GetParentGateway c parent namespace GatewayControllerName;
     (case gr of
        Inl err \<Rightarrow> State_Monad.return (failed err)
      | Inr None \<Rightarrow> State_Monad.return (Inr ())
      | Inr (Some gw) \<Rightarrow> act) })"

section \<open>Properties of what both controllers do\<close>

lemma emits_try_bind:
  assumes "emits m R" "\<And>e evs. R (Inl e) evs \<Longrightarrow> P (Inl e) evs"
    "\<And>x e1. R (Inr x) e1 \<Longrightarrow> emits (f x) (\<lambda>y e2. P y (e1 @ e2))"
  shows "emits (try_bind m f) P"
  unfolding try_bind_def
  by (rule emits_bind [OF assms(1)]) (auto intro!: emits_intros assms(2, 3) split: sum.splits)

lemma emits_returned:
  assumes "emits m R" "\<And>e evs. R (Inl e) evs \<Longrightarrow> P (Inl (Returned e)) evs" "\<And>x evs. R (Inr x) evs \<Longrightarrow> P (Inr x) evs"
  shows "emits (returned m) P"
  unfolding returned_def
proof (rule emits_bind [OF assms(1)], goal_cases)
  case (1 x e1)
  then show ?case by (cases x) (auto intro!: emits_intros assms(2, 3))
qed

lemma emits_map_range:
  "emits (map_range rank m) (\<lambda>vs evs. evs = [] \<and> set vs = snd ` set m \<and> mset vs = mset (map snd m))"
proof -
  have "mset (map snd (sort_key f m)) = mset (map snd m)" for f :: "_ \<Rightarrow> nat"
    by simp
  then show ?thesis by (auto simp: map_range_def emits_def wp_def)
qed

text \<open>The map of the backends: what it holds has been read, under its name, for every backend that was found.\<close>

definition backend_found :: "event set \<Rightarrow> string \<Rightarrow> string \<Rightarrow> string \<Rightarrow> bool" where
  "backend_found E ns ref n \<longleftrightarrow> (\<exists>svc. EGet ''Service'' (ns, ref) (Inr (KService svc)) \<in> E \<and> om_Name (svc_Meta svc) = n)"

definition backend_missing :: "event set \<Rightarrow> string \<Rightarrow> string \<Rightarrow> bool" where
  "backend_missing E ns ref \<longleftrightarrow> (\<exists>err. EGet ''Service'' (ns, ref) (Inl err) \<in> E \<and> k_IsNotFound err)"

definition indexed :: "bool \<Rightarrow> string \<Rightarrow> string list \<Rightarrow> (string \<times> Service) list \<Rightarrow> event list \<Rightarrow> bool" where
  "indexed skip ns refs idx evs \<longleftrightarrow> (\<forall>e \<in> set evs. \<not> is_write e) \<and>
     (\<forall>(n, svc) \<in> set idx. om_Name (svc_Meta svc) = n \<and> (\<exists>ref \<in> set refs. EGet ''Service'' (ns, ref) (Inr (KService svc)) \<in> set evs)) \<and>
     (\<forall>ref \<in> set refs. (skip \<and> backend_missing (set evs) ns ref) \<or> (\<exists>n \<in> fst ` set idx. backend_found (set evs) ns ref n))"

lemma set_update_subset: "set (AList.update k v al) \<subseteq> insert (k, v) (set al)"
  by (induction al) auto

lemma indexed_found:
  assumes "indexed skip ns don idx e1"
  shows "indexed skip ns (don @ [ref]) (AList.update (om_Name (svc_Meta svc)) svc idx)
    (e1 @ [EGet ''Service'' (ns, ref) (Inr (KService svc))])"
proof -
  have keys: "fst ` set (AList.update (om_Name (svc_Meta svc)) svc idx) = insert (om_Name (svc_Meta svc)) (fst ` set idx)"
    using dom_update [of "om_Name (svc_Meta svc)" svc idx] by simp
  show ?thesis
    using assms set_update_subset [of "om_Name (svc_Meta svc)" svc idx]
    unfolding indexed_def keys by (fastforce simp: backend_found_def backend_missing_def)
qed

lemma indexed_missing:
  "indexed True ns don idx e1 \<Longrightarrow> k_IsNotFound err \<Longrightarrow>
     indexed True ns (don @ [ref]) idx (e1 @ [EGet ''Service'' (ns, ref) (Inl err)])"
  unfolding indexed_def by (fastforce simp: backend_found_def backend_missing_def)

lemma emits_backend_services:
  "emits (backend_services c skip ns rules) (\<lambda>x evs. case x of
     Inl (res, err) \<Rightarrow> res = zero_Result \<and> err \<noteq> None \<and> (\<forall>e \<in> set evs. \<not> is_write e)
   | Inr idx \<Rightarrow> indexed skip ns (concat rules) idx evs)"
  unfolding backend_services_def k_get_def Services_def
proof (rule emits_for_each_visited [where I = "indexed skip ns"], goal_cases)
  case 1
  then show ?case by (simp add: indexed_def)
next
  case (2 ref don idx e1)
  then have "\<forall>e \<in> set e1. \<not> is_write e" by (simp add: indexed_def)
  with 2 show ?case
    by (auto intro!: emits_intros indexed_found indexed_missing simp: failed_def split: sum.splits if_splits)
qed simp

text \<open>A loop that does something lasting for each element, through calls that satisfy \<open>F\<close>.\<close>

lemma emits_for_each_all:
  assumes step: "\<And>x. x \<in> set xs \<Longrightarrow> emits (body x) (\<lambda>r e. F e \<and> (case r of Inl out \<Rightarrow> Q out | Inr _ \<Rightarrow> S x (set e)))"
    and F: "F []" "\<And>a b. F a \<Longrightarrow> F b \<Longrightarrow> F (a @ b)"
    and mono: "\<And>x E E'. S x E \<Longrightarrow> E \<subseteq> E' \<Longrightarrow> S x E'"
  shows "emits (for_each xs () (\<lambda>x _. body x)) (\<lambda>r e. F e \<and> (case r of Inl out \<Rightarrow> Q out | Inr _ \<Rightarrow> \<forall>x \<in> set xs. S x (set e)))"
proof (rule emits_for_each_visited [where I = "\<lambda>don _ e. F e \<and> (\<forall>x \<in> set don. S x (set e))"], goal_cases)
  case (2 x don acc e1)
  have "S y (set e1 \<union> set e2)" if "S y (set e1)" for y e2 using mono that by blast
  moreover have "S x (set e1 \<union> set e2)" if "S x (set e2)" for e2 using mono that by blast
  ultimately show ?case
    by (intro emits_mono [OF step [OF 2(1)]]) (use 2(2) F in \<open>auto split: sum.splits\<close>)
qed (use F in auto)

text \<open>Calls that create nothing upstream and patch nothing.\<close>

definition quiet :: "event list \<Rightarrow> bool" where
  "quiet evs \<longleftrightarrow> no_creates evs \<and> (\<forall>P. patches_only P evs)"

lemma quiet_simps [simp]:
  "quiet []" "quiet (a @ b) \<longleftrightarrow> quiet a \<and> quiet b"
  "quiet (e # b) \<longleftrightarrow> (\<forall>c q a. e \<noteq> OCreate c q a) \<and> (\<forall>x pr. e \<noteq> EPatch x pr) \<and> quiet b"
  by (auto simp: quiet_def)

lemma reads_quiet: "\<forall>e \<in> set evs. \<not> is_write e \<Longrightarrow> quiet evs"
  by (induction evs) auto

definition applied :: "'w Client \<Rightarrow> kobj \<Rightarrow> ObjectMeta \<Rightarrow> NetworkRouter \<Rightarrow> event set \<Rightarrow> Service \<Rightarrow> bool" where
  "applied c route m nr E svc \<longleftrightarrow> (\<exists>controllerRef ownerRef.
     ControllerReference c (KService svc) (svc_Meta svc) = Inr controllerRef \<and> OwnerReference_fn c route m = Inr ownerRef \<and>
     EApply (KNetworkResource (backend_resource (controllerRef\<lparr>or_BlockOwnerDeletion := Some False\<rparr>) ownerRef nr svc)) None \<in> E)"

lemma emits_apply_backends:
  "emits (apply_backends c route m nr svcs) (\<lambda>x evs. quiet evs \<and> (case x of
     Inl (res, err) \<Rightarrow> res = zero_Result \<and> err \<noteq> None | Inr _ \<Rightarrow> \<forall>svc \<in> set svcs. applied c route m nr (set evs) svc))"
  unfolding apply_backends_def k_apply_def NetworkResources_def
  by (rule emits_for_each_all)
     (auto intro!: emits_intros simp: failed_def applied_def split: sum.splits option.splits)

definition released_from :: "'w Client \<Rightarrow> kobj \<Rightarrow> event set \<Rightarrow> Service \<Rightarrow> bool" where
  "released_from c route E svc \<longleftrightarrow> (\<exists>n refs.
     EGet ''NetworkResource'' (om_Namespace (svc_Meta svc), om_Name (svc_Meta svc)) (Inr (KNetworkResource n)) \<in> E \<and>
     RemoveOwnerReference c route (om_OwnerReferences (nrs_Meta n)) = Inr refs \<and>
     (if length refs > 1 then EUpdate (KNetworkResource (set_owners refs n)) None \<in> E
      else EDelete (KNetworkResource (set_owners refs n)) None \<in> E))"

lemma released_fromI:
  assumes "EGet ''NetworkResource'' (om_Namespace (svc_Meta svc), om_Name (svc_Meta svc)) (Inr (KNetworkResource n)) \<in> E"
    "RemoveOwnerReference c route (om_OwnerReferences (nrs_Meta n)) = Inr refs"
    "1 < length refs \<Longrightarrow> EUpdate (KNetworkResource (set_owners refs n)) None \<in> E"
    "\<not> 1 < length refs \<Longrightarrow> EDelete (KNetworkResource (set_owners refs n)) None \<in> E"
  shows "released_from c route E svc"
  unfolding released_from_def by (rule exI [of _ n], rule exI [of _ refs]) (use assms in auto)

lemma released_from_mono: "released_from c route E svc \<Longrightarrow> E \<subseteq> E' \<Longrightarrow> released_from c route E' svc"
  unfolding released_from_def by (fastforce split: if_splits)

lemma emits_release_backends:
  "emits (release_backends c route svcs) (\<lambda>x evs. quiet evs \<and> (case x of
     Inl (res, err) \<Rightarrow> res = zero_Result \<and> err \<noteq> None | Inr _ \<Rightarrow> \<forall>svc \<in> set svcs. released_from c route (set evs) svc))"
  unfolding release_backends_def k_get_def k_update_def k_delete_def NetworkResources_def
proof (rule emits_for_each_all, goal_cases)
  case (1 svc)
  show ?case
    by (auto intro!: emits_intros simp: failed_def err_of_def split: sum.splits option.splits;
        rule released_fromI, rule insertI1, assumption; simp)
qed (auto elim: released_from_mono)

text \<open>The gateway of a parent.\<close>

definition parent_key :: "string \<Rightarrow> ParentReference \<Rightarrow> nn" where
  "parent_key ns parent = (case pref_Namespace parent of None \<Rightarrow> ns | Some n \<Rightarrow> n, pref_Name parent)"

definition parent_gateway :: "event set \<Rightarrow> string \<Rightarrow> ParentReference \<Rightarrow> Gateway \<Rightarrow> GatewayClass \<Rightarrow> bool" where
  "parent_gateway E ns parent gw gwc \<longleftrightarrow> EGet ''Gateway'' (parent_key ns parent) (Inr (KGateway gw)) \<in> E \<and>
     EGet ''GatewayClass'' ('''', gw_GatewayClassName gw) (Inr (KGatewayClass gwc)) \<in> E"

definition own_gateway :: "event set \<Rightarrow> string \<Rightarrow> ParentReference \<Rightarrow> Gateway \<Rightarrow> bool" where
  "own_gateway E ns parent gw \<longleftrightarrow> (\<exists>gwc. parent_gateway E ns parent gw gwc \<and> gwc_ControllerName gwc = GatewayControllerName)"

definition foreign_parent :: "event set \<Rightarrow> string \<Rightarrow> ParentReference \<Rightarrow> bool" where
  "foreign_parent E ns parent \<longleftrightarrow> (\<exists>gw gwc. parent_gateway E ns parent gw gwc \<and> gwc_ControllerName gwc \<noteq> GatewayControllerName)"

lemmas parent_defs = parent_key_def parent_gateway_def own_gateway_def foreign_parent_def

lemma emits_GetParentGateway:
  "emits (GetParentGateway c parent ns GatewayControllerName) (\<lambda>x evs. (\<forall>e \<in> set evs. \<not> is_write e) \<and> (case x of
     Inl err \<Rightarrow> True
   | Inr None \<Rightarrow> foreign_parent (set evs) ns parent
   | Inr (Some gw) \<Rightarrow> own_gateway (set evs) ns parent gw))"
  unfolding GetParentGateway_def k_get_def Gateways_def GatewayClasses_def
  by (auto intro!: emits_intros simp: parent_defs split: sum.splits option.splits if_splits)

text \<open>The parent's gateway is this controller's and programmed, and its router has been read.\<close>

definition routed :: "'w Client \<Rightarrow> event set \<Rightarrow> string \<Rightarrow> ParentReference \<Rightarrow> NetworkRouter \<Rightarrow> bool" where
  "routed c E ns parent nr \<longleftrightarrow> (\<exists>gw n. own_gateway E ns parent gw \<and> IsStatusConditionTrue c ''Programmed'' (gw_Conditions gw) \<and>
     named_router (gw_Listeners gw) = Some n \<and>
     EGet ''NetworkRouter'' (om_Namespace (gw_Meta gw), n) (Inr (KNetworkRouter nr)) \<in> E)"

lemma routedI:
  "\<lbrakk>own_gateway E ns parent gw; IsStatusConditionTrue c ''Programmed'' (gw_Conditions gw); named_router (gw_Listeners gw) = Some n\<rbrakk> \<Longrightarrow>
     routed c (insert (EGet ''NetworkRouter'' (om_Namespace (gw_Meta gw), n) (Inr (KNetworkRouter nr))) E) ns parent nr"
  unfolding routed_def own_gateway_def parent_gateway_def by blast

lemma emits_parent_router:
  "emits (parent_router c ns parent) (\<lambda>x evs. (\<forall>e \<in> set evs. \<not> is_write e) \<and> (case x of
     Inl (Returned (res, err)) \<Rightarrow> res = zero_Result \<and> err \<noteq> None
   | Inl (Panicked m) \<Rightarrow> \<exists>gw. own_gateway (set evs) ns parent gw \<and> gw_Listeners gw = []
   | Inr None \<Rightarrow> foreign_parent (set evs) ns parent \<or>
       (\<exists>gw. own_gateway (set evs) ns parent gw \<and> \<not> IsStatusConditionTrue c ''Programmed'' (gw_Conditions gw))
   | Inr (Some nr) \<Rightarrow> routed c (set evs) ns parent nr))"
  unfolding parent_router_def
proof (rule emits_bind [OF emits_GetParentGateway], goal_cases)
  case (1 x e1)
  then show ?case
    by (auto intro!: emits_intros emits_bind [OF emits_GetGatewayNetworkRouter] routedI
         split: sum.splits option.splits outcome.splits)
qed

section \<open>The contract of a route controller\<close>

text \<open>
  The route as the controller knows it after the calls \<open>E\<close>: as it was read, or as a patch answered it.
\<close>

definition known_as :: "('w, 'o) kapi \<Rightarrow> 'o \<Rightarrow> event set \<Rightarrow> 'o \<Rightarrow> bool" where
  "known_as api x E y \<longleftrightarrow> y = x \<or> (\<exists>z. EPatch z (Inr (ka_obj api y)) \<in> E)"

definition skipped :: "'w Client \<Rightarrow> event set \<Rightarrow> string \<Rightarrow> ParentReference \<Rightarrow> bool" where
  "skipped c E ns parent \<longleftrightarrow> foreign_parent E ns parent \<or>
     (\<exists>gw. own_gateway E ns parent gw \<and> \<not> IsStatusConditionTrue c ''Programmed'' (gw_Conditions gw))"

text \<open>A parent is done with: skipped, or the finalizer was stored and the route attached to the parent's router.\<close>

definition parent_done ::
  "'w Client \<Rightarrow> ('w, 'o) kapi \<Rightarrow> ('o \<Rightarrow> ObjectMeta) \<Rightarrow> ('o \<Rightarrow> 'o) \<Rightarrow> (NetworkRouter \<Rightarrow> 'o \<Rightarrow> event set \<Rightarrow> bool) \<Rightarrow>
     'o \<Rightarrow> event set \<Rightarrow> ParentReference \<Rightarrow> bool" where
  "parent_done c api meta guarded attached x E parent \<longleftrightarrow> (\<exists>y. known_as api x E y \<and>
     (skipped c E (om_Namespace (meta y)) parent \<or>
      (\<exists>nr z. routed c E (om_Namespace (meta y)) parent nr \<and>
        EPatch (ka_obj api (guarded y)) (Inr (ka_obj api z)) \<in> E \<and> attached nr z E)))"

definition other_write :: "event \<Rightarrow> bool" where
  "other_write e \<longleftrightarrow> is_write e \<and> (\<forall>x pr. e \<noteq> EPatch x pr)"

lemma evidence_mono:
  assumes "E \<subseteq> E'"
  shows "known_as api x E y \<Longrightarrow> known_as api x E' y" "skipped c E ns parent \<Longrightarrow> skipped c E' ns parent"
    "routed c E ns parent nr \<Longrightarrow> routed c E' ns parent nr" "foreign_parent E ns parent \<Longrightarrow> foreign_parent E' ns parent"
    "own_gateway E ns parent gw \<Longrightarrow> own_gateway E' ns parent gw"
    "backend_found E ns ref n \<Longrightarrow> backend_found E' ns ref n" "backend_missing E ns ref \<Longrightarrow> backend_missing E' ns ref"
    "applied c route m nr E svc \<Longrightarrow> applied c route m nr E' svc"
  using assms
  unfolding known_as_def skipped_def routed_def parent_gateway_def own_gateway_def foreign_parent_def backend_found_def
    backend_missing_def applied_def
  by blast+

lemma parent_done_skipped:
  "known_as api x E y \<Longrightarrow> skipped c E (om_Namespace (meta y)) parent \<Longrightarrow> parent_done c api meta guarded attached x E parent"
  unfolding parent_done_def by blast

lemma parent_done_attached:
  "\<lbrakk>known_as api x E y; routed c E (om_Namespace (meta y)) parent nr;
    EPatch (ka_obj api (guarded y)) (Inr (ka_obj api z)) \<in> E; attached nr z E\<rbrakk> \<Longrightarrow> parent_done c api meta guarded attached x E parent"
  unfolding parent_done_def by blast

lemma no_write_precedes: "\<forall>e \<in> set evs. \<not> is_write e \<Longrightarrow> precedes p other_write evs"
  by (induction evs) (auto simp: other_write_def)

text \<open>Attaching a route starts with the finalizer, and reports an error, asks to be called again or ends.\<close>

definition attach_trace ::
  "('o \<Rightarrow> kobj) \<Rightarrow> 'o \<Rightarrow> ('o \<Rightarrow> event set \<Rightarrow> bool) \<Rightarrow> (Result \<times> goerr option) + 'o \<Rightarrow> event list \<Rightarrow> bool" where
  "attach_trace obj x attached res evs \<longleftrightarrow>
     (\<exists>err out. evs = [EPatch (obj x) (Inl err)] \<and> res = Inl out \<and> out \<noteq> (zero_Result, None)) \<or>
     (\<exists>y rest. evs = EPatch (obj x) (Inr (obj y)) # rest \<and>
        (case res of Inl out \<Rightarrow> out \<noteq> (zero_Result, None) | Inr z \<Rightarrow> z = y \<and> attached y (set rest)))"

locale route_controller =
  fixes c :: "'w Client" and api :: "('w, 'o) kapi" and meta :: "'o \<Rightarrow> ObjectMeta" and parents :: "'o \<Rightarrow> ParentReference list"
    and guarded :: "'o \<Rightarrow> 'o" and attach :: "NetworkRouter \<Rightarrow> 'o \<Rightarrow> ('w, (Result \<times> goerr option) + 'o) go"
    and sync :: "'o \<Rightarrow> ('w, (Result \<times> goerr option) outcome) go"
    and attached :: "NetworkRouter \<Rightarrow> 'o \<Rightarrow> event set \<Rightarrow> bool"
  assumes sync_loop: "sync x = early (for_each (parents x) x (\<lambda>parent y.
      try_bind (parent_router c (om_Namespace (meta y)) parent) (\<lambda>nr. (case nr of
        None \<Rightarrow> State_Monad.return (Inr y) | Some netRouter \<Rightarrow> returned (attach netRouter y)))))
      (\<lambda>_. State_Monad.return (Returned (zero_Result, None)))"
    and attach_spec: "emits (attach nr x) (attach_trace (ka_obj api) (guarded x) (attached nr))"
    and attached_mono: "attached nr y E \<Longrightarrow> E \<subseteq> E' \<Longrightarrow> attached nr y E'"
begin

abbreviation parent_done' where "parent_done' \<equiv> parent_done c api meta guarded attached"

lemma parent_done_mono:
  assumes "parent_done' x E parent" and E: "E \<subseteq> E'"
  shows "parent_done' x E' parent"
  using assms(1) unfolding parent_done_def [of c api meta guarded attached x E]
proof (elim exE conjE disjE)
  fix y
  assume "known_as api x E y" "skipped c E (om_Namespace (meta y)) parent"
  then show ?thesis by - (rule parent_done_skipped, erule evidence_mono(1) [OF E], erule evidence_mono(2) [OF E])
next
  fix y nr z
  assume y: "known_as api x E y" and nr: "routed c E (om_Namespace (meta y)) parent nr" and z: "attached nr z E"
    and p: "EPatch (ka_obj api (guarded y)) (Inr (ka_obj api z)) \<in> E"
  show ?thesis
    by (rule parent_done_attached, rule evidence_mono(1) [OF E y], rule evidence_mono(3) [OF E nr], rule subsetD [OF E p],
        rule attached_mono [OF z E])
qed

lemma sync_attaches:
  "emits (sync x) (\<lambda>out evs. out = Returned (zero_Result, None) \<longrightarrow> (\<forall>parent \<in> set (parents x). parent_done' x (set evs) parent))"
  unfolding sync_loop
proof (rule emits_early [where R = "\<lambda>res evs. case res of Inl out \<Rightarrow> out \<noteq> Returned (zero_Result, None)
    | Inr y \<Rightarrow> \<forall>parent \<in> set (parents x). parent_done' x (set evs) parent"])
  show "emits (for_each (parents x) x (\<lambda>parent y.
      try_bind (parent_router c (om_Namespace (meta y)) parent) (\<lambda>nr. (case nr of
        None \<Rightarrow> State_Monad.return (Inr y) | Some netRouter \<Rightarrow> returned (attach netRouter y)))))
    (\<lambda>res evs. case res of Inl out \<Rightarrow> out \<noteq> Returned (zero_Result, None) | Inr y \<Rightarrow> \<forall>parent \<in> set (parents x). parent_done' x (set evs) parent)"
  proof (rule emits_for_each_visited [where I = "\<lambda>don y evs. known_as api x (set evs) y \<and> (\<forall>parent \<in> set don. parent_done' x (set evs) parent)"], goal_cases)
    case (2 parent don y e1)
    have known: "known_as api x (set e1 \<union> E) y" for E
      by (rule evidence_mono(1) [OF Un_upper1]) (use 2(2) in simp)
    have before: "parent_done' x (set e1 \<union> E) p" if "p \<in> set don" for p E
      by (rule parent_done_mono [OF _ Un_upper1]) (use 2(2) that in simp)
    have skip: "parent_done' x (set e1 \<union> E) parent" if "skipped c E (om_Namespace (meta y)) parent" for E
      by (rule parent_done_skipped, rule known, rule evidence_mono(2) [OF Un_upper2 that])
    have att: "parent_done' x (set e1 \<union> (E1 \<union> insert (EPatch (ka_obj api (guarded y)) (Inr (ka_obj api z))) E2)) parent"
      if "routed c E1 (om_Namespace (meta y)) parent nr" "attached nr z E2" for E1 E2 nr z
    proof -
      let ?E = "set e1 \<union> (E1 \<union> insert (EPatch (ka_obj api (guarded y)) (Inr (ka_obj api z))) E2)"
      have "routed c ?E (om_Namespace (meta y)) parent nr" by (rule evidence_mono(3) [OF _ that(1)]) blast
      moreover have "attached nr z ?E" by (rule attached_mono [OF that(2)]) blast
      ultimately show ?thesis by - (rule parent_done_attached, rule known, auto)
    qed
    show ?case
    proof (rule emits_try_bind [OF emits_parent_router], goal_cases)
      case (2 nr e2)
      show ?case
      proof (cases nr)
        case None
        with 2 have "skipped c (set e2) (om_Namespace (meta y)) parent" by (auto simp: skipped_def)
        with None show ?thesis by (auto intro!: emits_intros known before skip)
      next
        case (Some netRouter)
        with 2 have "routed c (set e2) (om_Namespace (meta y)) parent netRouter" by simp
        then show ?thesis unfolding Some option.case
          by (intro emits_returned [OF attach_spec])
             (auto simp: attach_trace_def known_as_def before intro!: att simp del: Un_insert_right)
      qed
    qed (auto split: outcome.splits)
  qed (auto simp: known_as_def)
qed (auto intro!: emits_intros)

text \<open>The finalizer is stored before any other write.\<close>

lemma sync_guarded:
  "emits (sync x) (\<lambda>_ evs. precedes (\<lambda>e. \<exists>y. e = EPatch (ka_obj api (guarded x)) (Inr y)) other_write evs)"
proof -
  define p where "p = (\<lambda>e. \<exists>y. e = EPatch (ka_obj api (guarded x)) (Inr y))"
  have patch: "p (EPatch (ka_obj api (guarded x)) (Inr y))" for y by (simp add: p_def)
  have "emits (for_each (parents x) x (\<lambda>parent y.
      try_bind (parent_router c (om_Namespace (meta y)) parent) (\<lambda>nr. (case nr of
        None \<Rightarrow> State_Monad.return (Inr y) | Some netRouter \<Rightarrow> returned (attach netRouter y)))))
    (\<lambda>_. precedes p other_write)"
  proof (rule emits_for_each_visited [where I = "\<lambda>don y evs. precedes p other_write evs \<and> ((\<exists>e \<in> set evs. p e) \<or> y = x)"], goal_cases)
    case (2 parent don y e1)
    note before = 2(2)
    show ?case
    proof (rule emits_try_bind [OF emits_parent_router], goal_cases)
      case (1 e evs)
      with before show ?case by (auto intro: no_write_precedes)
    next
      case (2 nr e2)
      then have e2: "precedes p other_write e2" by (auto intro: no_write_precedes)
      from before show ?case
      proof (elim conjE disjE)
        assume "precedes p other_write e1" and stored: "\<exists>e \<in> set e1. p e"
        then have "precedes p other_write (e1 @ e)" "\<exists>x \<in> set (e1 @ e). p x" for e by auto
        then show ?thesis
          by (cases nr) (auto simp only: option.case sum.case simp_thms append_assoc split: sum.split
            intro!: emits_intros emits_returned [OF attach_spec])
      next
        assume "precedes p other_write e1" "y = x"
        with e2 patch show ?thesis
          by (cases nr) (auto intro!: emits_intros emits_returned [OF attach_spec] simp: attach_trace_def other_write_def)
      qed
    qed
  qed auto
  then show ?thesis
    unfolding sync_loop p_def by (rule emits_early) (auto intro!: emits_intros)
qed

end

lemma other_write_create: "precedes p other_write evs \<Longrightarrow> precedes p is_create evs"
  by (induction evs) (auto simp: other_write_def is_create_def)

section \<open>Attaching routes\<close>

text \<open>Every backend's service was read and, under its name, put into the router's network.\<close>

definition backends_attached ::
  "'w Client \<Rightarrow> kobj \<Rightarrow> ObjectMeta \<Rightarrow> NetworkRouter \<Rightarrow> string list list \<Rightarrow> event set \<Rightarrow> Service set \<Rightarrow> bool" where
  "backends_attached c route m nr rules E svcs \<longleftrightarrow>
     (\<forall>ref \<in> set (concat rules). \<exists>svc \<in> svcs. backend_found E (om_Namespace m) ref (om_Name (svc_Meta svc))) \<and>
     (\<forall>svc \<in> svcs. applied c route m nr E svc)"

lemma backends_attached_mono:
  "backends_attached c route m nr rules E svcs \<Longrightarrow> E \<subseteq> E' \<Longrightarrow> backends_attached c route m nr rules E' svcs"
  unfolding backends_attached_def by (meson evidence_mono(6, 8))

lemma backends_attachedI:
  assumes idx: "indexed False (om_Namespace m) (concat rules) idx e1" and svcs: "svcs = snd ` set idx"
    and app: "\<forall>svc \<in> svcs. applied c route m nr (set e2) svc"
  shows "backends_attached c route m nr rules (set e1 \<union> set e2) svcs"
  unfolding backends_attached_def
proof (intro conjI ballI)
  fix ref assume "ref \<in> set (concat rules)"
  with idx obtain n svc where ns: "(n, svc) \<in> set idx" "backend_found (set e1) (om_Namespace m) ref n"
    unfolding indexed_def by fastforce
  with idx have "om_Name (svc_Meta svc) = n" unfolding indexed_def by fastforce
  with ns show "\<exists>svc \<in> svcs. backend_found (set e1 \<union> set e2) (om_Namespace m) ref (om_Name (svc_Meta svc))"
    unfolding svcs by (auto intro!: bexI [of _ "(n, svc)"] evidence_mono(6) [OF Un_upper1])
next
  fix svc assume "svc \<in> svcs"
  with app show "applied c route m nr (set e1 \<union> set e2) svc" using evidence_mono(8) [OF Un_upper2] by blast
qed

lemma backends_attached_ex:
  "indexed False (om_Namespace m) (concat rules) idx e1 \<Longrightarrow> \<forall>x \<in> set idx. applied c route m nr (set e2) (snd x) \<Longrightarrow>
     Ex (backends_attached c route m nr rules (set e1 \<union> set e2))"
  by (rule exI, rule backends_attachedI [OF _ refl]) auto

section \<open>Detaching routes\<close>

definition backend_released :: "'w Client \<Rightarrow> kobj \<Rightarrow> event set \<Rightarrow> string \<Rightarrow> string \<Rightarrow> bool" where
  "backend_released c route E ns ref \<longleftrightarrow> backend_missing E ns ref \<or>
     (\<exists>svc. backend_found E ns ref (om_Name (svc_Meta svc)) \<and> released_from c route E svc)"

definition proxy_removed :: "event set \<Rightarrow> string option \<Rightarrow> bool" where
  "proxy_removed E i \<longleftrightarrow> (\<forall>k. i = Some k \<longrightarrow> (\<exists>er. ODelete CProxies k er \<in> E \<and> (\<forall>e. er = Some e \<longrightarrow> o_IsNotFound e)))"

lemma gone_proxies: "gone CProxies i evs \<longleftrightarrow> proxy_removed (set evs) i"
  by (auto simp: gone_def proxy_removed_def split: option.splits)

lemma backend_released_missing: "backend_missing E ns ref \<Longrightarrow> backend_released c route E ns ref"
  by (simp add: backend_released_def)

lemma backend_released_found:
  "backend_found E ns ref (om_Name (svc_Meta svc)) \<Longrightarrow> released_from c route E svc \<Longrightarrow> backend_released c route E ns ref"
  unfolding backend_released_def by blast

lemma backend_released_mono:
  assumes "backend_released c route E ns ref" and E: "E \<subseteq> E'"
  shows "backend_released c route E' ns ref"
  using assms(1) unfolding backend_released_def [of c route E]
proof (elim disjE exE conjE)
  show "backend_missing E ns ref \<Longrightarrow> ?thesis" by (rule backend_released_missing) (rule evidence_mono(7) [OF E])
  show "backend_found E ns ref (om_Name (svc_Meta svc)) \<Longrightarrow> released_from c route E svc \<Longrightarrow> ?thesis" for svc
    by (rule backend_released_found) (erule evidence_mono(6) [OF E], erule released_from_mono [OF _ E])
qed

lemma proxy_removed_mono: "proxy_removed E i \<Longrightarrow> E \<subseteq> E' \<Longrightarrow> proxy_removed E' i"
  unfolding proxy_removed_def by blast

lemma backend_releasedI:
  assumes idx: "indexed True ns refs idx e1" and ref: "ref \<in> set refs"
    and rel: "\<forall>svc \<in> snd ` set idx. released_from c route (set e2) svc"
  shows "backend_released c route (set e1 \<union> set e2) ns ref"
proof (cases "backend_missing (set e1) ns ref")
  case True
  then show ?thesis by (intro backend_released_missing evidence_mono(7) [OF Un_upper1])
next
  case False
  with idx ref obtain n svc where n: "(n, svc) \<in> set idx" "backend_found (set e1) ns ref n"
    unfolding indexed_def by fastforce
  with idx have "om_Name (svc_Meta svc) = n" unfolding indexed_def by fastforce
  with n(2) have "backend_found (set e1 \<union> set e2) ns ref (om_Name (svc_Meta svc))"
    by (simp add: evidence_mono(6) [OF Un_upper1])
  moreover from n(1) rel have "released_from c route (set e2) svc" by force
  then have "released_from c route (set e1 \<union> set e2) svc" by (rule released_from_mono) blast
  ultimately show ?thesis by (rule backend_released_found)
qed

lemma detach_backends:
  assumes "\<And>svcs. emits (rest svcs) (\<lambda>x evs. quiet evs \<and> (case x of Inl (res, err) \<Rightarrow> res = zero_Result \<and> err \<noteq> None
     | Inr _ \<Rightarrow> (\<forall>svc \<in> set svcs. released_from c route (set evs) svc) \<and> D (set evs)))"
    and mono: "\<And>E E'. D E \<Longrightarrow> E \<subseteq> E' \<Longrightarrow> D E'"
  shows "emits (try_bind (backend_services c True ns rules) (\<lambda>svcIdx. map_range rank svcIdx \<bind> rest))
    (\<lambda>x evs. quiet evs \<and> (case x of Inl (res, err) \<Rightarrow> res = zero_Result \<and> err \<noteq> None
     | Inr _ \<Rightarrow> (\<forall>ref \<in> set (concat rules). backend_released c route (set evs) ns ref) \<and> D (set evs)))"
proof (rule emits_try_bind [OF emits_backend_services], goal_cases)
  case (2 idx e1)
  then have idx: "indexed True ns (concat rules) idx e1" by simp
  then have "quiet e1" by (auto simp: indexed_def intro: reads_quiet)
  moreover have "D (set e1 \<union> E)" if "D E" for E by (rule mono [OF that Un_upper2])
  moreover have "backend_released c route (set e1 \<union> set e2) ns ref"
    if "ref \<in> set (concat rules)" "\<forall>svc \<in> snd ` set idx. released_from c route (set e2) svc" for ref e2
    by (rule backend_releasedI [OF idx that])
  ultimately show ?case
    by (intro emits_bind [OF emits_map_range] emits_mono [OF assms(1)]) (auto split: sum.splits)
qed (auto intro: reads_quiet)

lemma emits_for_own_parents:
  assumes "emits act (\<lambda>x evs. quiet evs \<and> (case x of Inl (res, err) \<Rightarrow> res = zero_Result \<and> err \<noteq> None | Inr _ \<Rightarrow> D (set evs)))"
    and mono: "\<And>E E'. D E \<Longrightarrow> E \<subseteq> E' \<Longrightarrow> D E'"
  shows "emits (for_own_parents c ns parents act) (\<lambda>x evs. quiet evs \<and> (case x of Inl (res, err) \<Rightarrow> res = zero_Result \<and> err \<noteq> None
     | Inr _ \<Rightarrow> \<forall>parent \<in> set parents. foreign_parent (set evs) ns parent \<or> D (set evs)))"
  unfolding for_own_parents_def
proof (rule emits_for_each_all [where S = "\<lambda>parent E. foreign_parent E ns parent \<or> D E"], goal_cases)
  case (1 parent)
  show ?case
  proof (rule emits_bind [OF emits_GetParentGateway], goal_cases)
    case (1 x e1)
    have "D (set e1 \<union> E)" if "D E" for E by (rule mono [OF that Un_upper2])
    with 1 show ?case
      by (auto intro!: emits_intros emits_mono [OF assms(1)] intro: reads_quiet simp: failed_def split: sum.splits option.splits)
  qed
next
  case (4 parent E E')
  then show ?case using evidence_mono(4) mono by blast
qed auto

section \<open>An environment for the witnesses\<close>

definition demo_programmed_gateway :: Gateway where
  "demo_programmed_gateway = demo_gateway\<lparr>gw_Conditions :=
     [\<lparr>cond_Type = ''Programmed'', cond_Status = ''True'', cond_Reason = ''Programmed'', cond_Message = ''''\<rparr>]\<rparr>"

definition demo_backend_service :: Service where
  "demo_backend_service = \<lparr>svc_Meta = zero_ObjectMeta\<lparr>om_Name := ''db'', om_Namespace := ''ns''\<rparr>, svc_Type = ''ClusterIP'',
     svc_ClusterIP = ''10.0.0.2'', svc_Ports = []\<rparr>"

definition demo_backend :: NetworkResource where
  "demo_backend = backend_resource
     \<lparr>or_APIVersion = ''v1'', or_Kind = ''Kind'', or_Name = ''db'', or_UID = '''', or_Controller = Some True, or_BlockOwnerDeletion = Some False\<rparr>
     \<lparr>or_APIVersion = ''v1'', or_Kind = ''Kind'', or_Name = ''t'', or_UID = '''', or_Controller = Some False, or_BlockOwnerDeletion = Some False\<rparr>
     demo_unready_router demo_backend_service"

definition demo_route_client :: "unit Client" where
  "demo_route_client = down_Client\<lparr>
     c_Gateways := down_kind\<lparr>kc_get := \<lambda>_ w. (Inr demo_programmed_gateway, w)\<rparr>,
     c_GatewayClasses := down_kind\<lparr>kc_get := \<lambda>_ w. (Inr demo_class, w)\<rparr>,
     c_NetworkRouters := down_kind\<lparr>kc_get := \<lambda>_ w. (Inr demo_unready_router, w)\<rparr>,
     c_Services := down_kind\<lparr>kc_get := \<lambda>_ w. (Inr demo_backend_service, w)\<rparr>,
     c_NetworkResources := down_kind\<lparr>kc_apply := \<lambda>_ w. (None, w), kc_get := \<lambda>_ w. (Inr (demo_backend\<lparr>nrs_ResourceID := ''x1'',
       nrs_Conditions := [\<lparr>cond_Type = ReadyCondition, cond_Status = ''True'', cond_Reason = '''', cond_Message = ''''\<rparr>]\<rparr>), w)\<rparr>\<rparr>"

lemma demo_router_name: "GetNetworkRouterName (gw_Listeners demo_programmed_gateway) = Returned (Inr ''r'')"
  by (cases "gw_Listeners demo_programmed_gateway" rule: GetNetworkRouterName_cases)
     (auto simp: demo_programmed_gateway_def demo_gateway_def named_router_def)

lemma demo_gateway_simps:
  "gw_Conditions demo_programmed_gateway = [\<lparr>cond_Type = ''Programmed'', cond_Status = ''True'', cond_Reason = ''Programmed'', cond_Message = ''''\<rparr>]"
  "gw_GatewayClassName demo_programmed_gateway = ''openzro-public''"
  "om_Namespace (gw_Meta demo_programmed_gateway) = ''ns''" "gwc_ControllerName demo_class = GatewayControllerName"
  by (simp_all add: demo_programmed_gateway_def demo_gateway_def demo_class_def)

lemma run_map_range [simp]: "run_state (map_range rank m) s = (map snd (sort_key (rank (wlog s) \<circ> fst) m), s)"
  by (simp add: map_range_def)

lemmas demo_route_defs = early_def try_bind_def returned_def parent_router_def GetParentGateway_def GetGatewayNetworkRouter_def
  backend_services_def apply_backends_def ControllerReference_def OwnerReference_fn_def demo_route_client_def
  demo_router_name demo_gateway_simps demo_backend_service_def demo_backend_def call_defs down_Client_def failed_def zero_ObjectMeta_def

end
