(* ===== verification/Apply_Configurations.thy ===== *)
theory Apply_Configurations
  imports NetworkRouter_Controller Route_Common
begin

text \<open>
  \<open>pkg/applyconfigurations\<close>: the generated builders of server-side apply. An apply configuration says which
  fields of an object to set; the controllers build one and hand it to \<open>Client.Apply\<close>. Elsewhere in the
  library the applied object is written directly. Here the builders are modelled, and the theorem shows
  that what the controllers build with them describes these objects.
\<close>

section \<open>The builders of objects\<close>

text \<open>
  The files of the five kinds differ in the names of the types only, which are parameters here. The
  metadata is a pointer to the struct of client-go, allocated when it is first needed.
\<close>

record MetaAC =
  ma_Name :: "string option"
  ma_GenerateName :: "string option"
  ma_Namespace :: "string option"
  ma_UID :: "string option"
  ma_ResourceVersion :: "string option"
  ma_Generation :: "64 word option"
  ma_CreationTimestamp :: "time option"
  ma_DeletionTimestamp :: "time option"
  ma_DeletionGracePeriodSeconds :: "64 word option"
  ma_Labels :: gomap
  ma_Annotations :: gomap
  ma_OwnerReferences :: "OwnerReference list"
  ma_Finalizers :: "string list"

definition zero_MetaAC :: MetaAC where
  "zero_MetaAC = \<lparr>ma_Name = None, ma_GenerateName = None, ma_Namespace = None, ma_UID = None, ma_ResourceVersion = None,
     ma_Generation = None, ma_CreationTimestamp = None, ma_DeletionTimestamp = None, ma_DeletionGracePeriodSeconds = None,
     ma_Labels = None, ma_Annotations = None, ma_OwnerReferences = [], ma_Finalizers = []\<rparr>"

record ('spec, 'status) ApplyConfiguration =
  ac_Kind :: "string option"
  ac_APIVersion :: "string option"
  ac_Meta :: "MetaAC option"
  ac_Spec :: "'spec option"
  ac_Status :: "'status option"

definition ensureObjectMetaApplyConfigurationExists :: "('spec, 'status) ApplyConfiguration \<Rightarrow> ('spec, 'status) ApplyConfiguration" where
  "ensureObjectMetaApplyConfigurationExists b = (if ac_Meta b = None then b\<lparr>ac_Meta := Some zero_MetaAC\<rparr> else b)"

text \<open>An assignment to a field of the metadata, after the call above.\<close>

definition set_meta :: "(MetaAC \<Rightarrow> MetaAC) \<Rightarrow> ('spec, 'status) ApplyConfiguration \<Rightarrow> ('spec, 'status) ApplyConfiguration" where
  "set_meta f b = (let b1 = ensureObjectMetaApplyConfigurationExists b in b1\<lparr>ac_Meta := map_option f (ac_Meta b1)\<rparr>)"

definition WithKind :: "string \<Rightarrow> ('spec, 'status) ApplyConfiguration \<Rightarrow> ('spec, 'status) ApplyConfiguration" where
  "WithKind value b = b\<lparr>ac_Kind := Some value\<rparr>"
definition WithAPIVersion :: "string \<Rightarrow> ('spec, 'status) ApplyConfiguration \<Rightarrow> ('spec, 'status) ApplyConfiguration" where
  "WithAPIVersion value b = b\<lparr>ac_APIVersion := Some value\<rparr>"
definition WithName :: "string \<Rightarrow> ('spec, 'status) ApplyConfiguration \<Rightarrow> ('spec, 'status) ApplyConfiguration" where
  "WithName value = set_meta (\<lambda>m. m\<lparr>ma_Name := Some value\<rparr>)"
definition WithGenerateName :: "string \<Rightarrow> ('spec, 'status) ApplyConfiguration \<Rightarrow> ('spec, 'status) ApplyConfiguration" where
  "WithGenerateName value = set_meta (\<lambda>m. m\<lparr>ma_GenerateName := Some value\<rparr>)"
definition WithNamespace :: "string \<Rightarrow> ('spec, 'status) ApplyConfiguration \<Rightarrow> ('spec, 'status) ApplyConfiguration" where
  "WithNamespace value = set_meta (\<lambda>m. m\<lparr>ma_Namespace := Some value\<rparr>)"
definition WithUID :: "string \<Rightarrow> ('spec, 'status) ApplyConfiguration \<Rightarrow> ('spec, 'status) ApplyConfiguration" where
  "WithUID value = set_meta (\<lambda>m. m\<lparr>ma_UID := Some value\<rparr>)"
definition WithResourceVersion :: "string \<Rightarrow> ('spec, 'status) ApplyConfiguration \<Rightarrow> ('spec, 'status) ApplyConfiguration" where
  "WithResourceVersion value = set_meta (\<lambda>m. m\<lparr>ma_ResourceVersion := Some value\<rparr>)"
definition WithGeneration :: "64 word \<Rightarrow> ('spec, 'status) ApplyConfiguration \<Rightarrow> ('spec, 'status) ApplyConfiguration" where
  "WithGeneration value = set_meta (\<lambda>m. m\<lparr>ma_Generation := Some value\<rparr>)"
definition WithCreationTimestamp :: "time \<Rightarrow> ('spec, 'status) ApplyConfiguration \<Rightarrow> ('spec, 'status) ApplyConfiguration" where
  "WithCreationTimestamp value = set_meta (\<lambda>m. m\<lparr>ma_CreationTimestamp := Some value\<rparr>)"
definition WithDeletionTimestamp :: "time \<Rightarrow> ('spec, 'status) ApplyConfiguration \<Rightarrow> ('spec, 'status) ApplyConfiguration" where
  "WithDeletionTimestamp value = set_meta (\<lambda>m. m\<lparr>ma_DeletionTimestamp := Some value\<rparr>)"
definition WithDeletionGracePeriodSeconds :: "64 word \<Rightarrow> ('spec, 'status) ApplyConfiguration \<Rightarrow> ('spec, 'status) ApplyConfiguration" where
  "WithDeletionGracePeriodSeconds value = set_meta (\<lambda>m. m\<lparr>ma_DeletionGracePeriodSeconds := Some value\<rparr>)"

text \<open>The loop over \<open>entries\<close>: the map is made only when there is something to put into it.\<close>

definition put_entries :: "gomap \<Rightarrow> gomap \<Rightarrow> gomap" where
  "put_entries entries m =
     (let m1 = (if m = None \<and> gm_entries entries \<noteq> [] then Some [] else m)
      in map_option (\<lambda>es. foldl (\<lambda>out (k, v). AList.update k v out) es (gm_entries entries)) m1)"

definition WithLabels :: "gomap \<Rightarrow> ('spec, 'status) ApplyConfiguration \<Rightarrow> ('spec, 'status) ApplyConfiguration" where
  "WithLabels entries = set_meta (\<lambda>m. m\<lparr>ma_Labels := put_entries entries (ma_Labels m)\<rparr>)"
definition WithAnnotations :: "gomap \<Rightarrow> ('spec, 'status) ApplyConfiguration \<Rightarrow> ('spec, 'status) ApplyConfiguration" where
  "WithAnnotations entries = set_meta (\<lambda>m. m\<lparr>ma_Annotations := put_entries entries (ma_Annotations m)\<rparr>)"

text \<open>A variadic argument of pointers: a nil among them panics.\<close>

definition no_nil :: "string \<Rightarrow> 'a option list \<Rightarrow> 'a list outcome" where
  "no_nil what values = (if None \<in> set values then Panicked (''nil value passed to '' @ what) else Returned (map the values))"

definition WithOwnerReferences ::
  "OwnerReference option list \<Rightarrow> ('spec, 'status) ApplyConfiguration \<Rightarrow> ('spec, 'status) ApplyConfiguration outcome" where
  "WithOwnerReferences values b = (case no_nil ''WithOwnerReferences'' values of
     Panicked p \<Rightarrow> Panicked p
   | Returned refs \<Rightarrow> Returned (set_meta (\<lambda>m. m\<lparr>ma_OwnerReferences := ma_OwnerReferences m @ refs\<rparr>) b))"

definition WithFinalizers :: "string list \<Rightarrow> ('spec, 'status) ApplyConfiguration \<Rightarrow> ('spec, 'status) ApplyConfiguration" where
  "WithFinalizers values = set_meta (\<lambda>m. m\<lparr>ma_Finalizers := ma_Finalizers m @ values\<rparr>)"
definition WithSpec :: "'spec \<Rightarrow> ('spec, 'status) ApplyConfiguration \<Rightarrow> ('spec, 'status) ApplyConfiguration" where
  "WithSpec value b = b\<lparr>ac_Spec := Some value\<rparr>"
definition WithStatus :: "'status \<Rightarrow> ('spec, 'status) ApplyConfiguration \<Rightarrow> ('spec, 'status) ApplyConfiguration" where
  "WithStatus value b = b\<lparr>ac_Status := Some value\<rparr>"

definition GetKind :: "('spec, 'status) ApplyConfiguration \<Rightarrow> string option" where
  "GetKind b = ac_Kind b"
definition GetAPIVersion :: "('spec, 'status) ApplyConfiguration \<Rightarrow> string option" where
  "GetAPIVersion b = ac_APIVersion b"
definition GetName :: "('spec, 'status) ApplyConfiguration \<Rightarrow> string option" where
  "GetName b = ma_Name (the (ac_Meta (ensureObjectMetaApplyConfigurationExists b)))"
definition GetNamespace :: "('spec, 'status) ApplyConfiguration \<Rightarrow> string option" where
  "GetNamespace b = ma_Namespace (the (ac_Meta (ensureObjectMetaApplyConfigurationExists b)))"

definition construct :: "string \<Rightarrow> string \<Rightarrow> string \<Rightarrow> ('spec, 'status) ApplyConfiguration" where
  "construct kind name namespace =
     WithAPIVersion ''openzro.io/v1alpha1'' (WithKind kind (WithNamespace namespace (WithName name
       \<lparr>ac_Kind = None, ac_APIVersion = None, ac_Meta = None, ac_Spec = None, ac_Status = None\<rparr>)))"

section \<open>The builders of specifications\<close>

record GroupSpecAC =
  gsa_Name :: "string option"

definition GroupSpec_WithName :: "string \<Rightarrow> GroupSpecAC \<Rightarrow> GroupSpecAC" where
  "GroupSpec_WithName value b = b\<lparr>gsa_Name := Some value\<rparr>"

definition GroupReference_WithName :: "string \<Rightarrow> GroupReference \<Rightarrow> GroupReference" where
  "GroupReference_WithName value b = b\<lparr>gref_Name := Some value\<rparr>"
definition GroupReference_WithID :: "string \<Rightarrow> GroupReference \<Rightarrow> GroupReference" where
  "GroupReference_WithID value b = b\<lparr>gref_ID := Some value\<rparr>"
definition GroupReference_WithLocalRef :: "string \<Rightarrow> GroupReference \<Rightarrow> GroupReference" where
  "GroupReference_WithLocalRef value b = b\<lparr>gref_LocalRef := Some value\<rparr>"

record SetupKeySpecAC =
  ska_Name :: "string option"
  ska_Ephemeral :: "bool option"
  ska_Duration :: "int option"
  ska_AutoGroups :: "GroupReference list"

definition SetupKeySpec_WithName :: "string \<Rightarrow> SetupKeySpecAC \<Rightarrow> SetupKeySpecAC" where
  "SetupKeySpec_WithName value b = b\<lparr>ska_Name := Some value\<rparr>"
definition SetupKeySpec_WithEphemeral :: "bool \<Rightarrow> SetupKeySpecAC \<Rightarrow> SetupKeySpecAC" where
  "SetupKeySpec_WithEphemeral value b = b\<lparr>ska_Ephemeral := Some value\<rparr>"
definition SetupKeySpec_WithDuration :: "int \<Rightarrow> SetupKeySpecAC \<Rightarrow> SetupKeySpecAC" where
  "SetupKeySpec_WithDuration value b = b\<lparr>ska_Duration := Some value\<rparr>"
definition SetupKeySpec_WithAutoGroups :: "GroupReference option list \<Rightarrow> SetupKeySpecAC \<Rightarrow> SetupKeySpecAC outcome" where
  "SetupKeySpec_WithAutoGroups values b = (case no_nil ''WithAutoGroups'' values of
     Panicked p \<Rightarrow> Panicked p
   | Returned refs \<Rightarrow> Returned (b\<lparr>ska_AutoGroups := ska_AutoGroups b @ refs\<rparr>))"

record CrossNamespaceReferenceAC =
  xra_Name :: "string option"
  xra_Namespace :: "string option"

definition CrossNamespaceReference_WithName :: "string \<Rightarrow> CrossNamespaceReferenceAC \<Rightarrow> CrossNamespaceReferenceAC" where
  "CrossNamespaceReference_WithName value b = b\<lparr>xra_Name := Some value\<rparr>"
definition CrossNamespaceReference_WithNamespace :: "string \<Rightarrow> CrossNamespaceReferenceAC \<Rightarrow> CrossNamespaceReferenceAC" where
  "CrossNamespaceReference_WithNamespace value b = b\<lparr>xra_Namespace := Some value\<rparr>"

record NetworkResourceSpecAC =
  nsa_NetworkRouterRef :: "CrossNamespaceReferenceAC option"
  nsa_ServiceRef :: "string option"
  nsa_Groups :: "GroupReference list"

definition NetworkResourceSpec_WithNetworkRouterRef :: "CrossNamespaceReferenceAC option \<Rightarrow> NetworkResourceSpecAC \<Rightarrow> NetworkResourceSpecAC" where
  "NetworkResourceSpec_WithNetworkRouterRef value b = b\<lparr>nsa_NetworkRouterRef := value\<rparr>"
definition NetworkResourceSpec_WithServiceRef :: "string \<Rightarrow> NetworkResourceSpecAC \<Rightarrow> NetworkResourceSpecAC" where
  "NetworkResourceSpec_WithServiceRef value b = b\<lparr>nsa_ServiceRef := Some value\<rparr>"
definition NetworkResourceSpec_WithGroups :: "GroupReference option list \<Rightarrow> NetworkResourceSpecAC \<Rightarrow> NetworkResourceSpecAC outcome" where
  "NetworkResourceSpec_WithGroups values b = (case no_nil ''WithGroups'' values of
     Panicked p \<Rightarrow> Panicked p
   | Returned refs \<Rightarrow> Returned (b\<lparr>nsa_Groups := nsa_Groups b @ refs\<rparr>))"

definition empty_GroupSpecAC :: GroupSpecAC where
  "empty_GroupSpecAC = \<lparr>gsa_Name = None\<rparr>"
definition empty_GroupReference :: GroupReference where
  "empty_GroupReference = \<lparr>gref_Name = None, gref_ID = None, gref_LocalRef = None\<rparr>"
definition empty_SetupKeySpecAC :: SetupKeySpecAC where
  "empty_SetupKeySpecAC = \<lparr>ska_Name = None, ska_Ephemeral = None, ska_Duration = None, ska_AutoGroups = []\<rparr>"
definition empty_CrossNamespaceReferenceAC :: CrossNamespaceReferenceAC where
  "empty_CrossNamespaceReferenceAC = \<lparr>xra_Name = None, xra_Namespace = None\<rparr>"
definition empty_NetworkResourceSpecAC :: NetworkResourceSpecAC where
  "empty_NetworkResourceSpecAC = \<lparr>nsa_NetworkRouterRef = None, nsa_ServiceRef = None, nsa_Groups = []\<rparr>"

section \<open>What the controllers build\<close>

definition groupAC ::
  "'w NetworkRouterReconciler \<Rightarrow> OwnerReference option \<Rightarrow> nn \<Rightarrow> NetworkRouter \<Rightarrow> string \<Rightarrow> (GroupSpecAC, unit) ApplyConfiguration outcome" where
  "groupAC r ownerRef req netRouter networkID =
     (case WithOwnerReferences [ownerRef] (construct ''Group'' (''networkrouter-'' @ om_Name (nro_Meta netRouter)) (fst req)) of
        Panicked p \<Rightarrow> Panicked p
      | Returned b \<Rightarrow> Returned (WithSpec (GroupSpec_WithName (''networkrouter-'' @ uniqueSuffix r netRouter networkID) empty_GroupSpecAC) b))"

definition setupKeyAC ::
  "'w NetworkRouterReconciler \<Rightarrow> OwnerReference option \<Rightarrow> nn \<Rightarrow> NetworkRouter \<Rightarrow> string \<Rightarrow> string \<Rightarrow>
     (SetupKeySpecAC, unit) ApplyConfiguration outcome" where
  "setupKeyAC r ownerRef req netRouter networkID groupID =
     (case WithOwnerReferences [ownerRef] (construct ''SetupKey'' (''networkrouter-'' @ om_Name (nro_Meta netRouter)) (fst req)) of
        Panicked p \<Rightarrow> Panicked p
      | Returned b \<Rightarrow>
          (case SetupKeySpec_WithAutoGroups [Some (GroupReference_WithID groupID empty_GroupReference)]
                  (SetupKeySpec_WithEphemeral True
                    (SetupKeySpec_WithName (''networkrouter-'' @ uniqueSuffix r netRouter networkID) empty_SetupKeySpecAC)) of
             Panicked p \<Rightarrow> Panicked p
           | Returned spec \<Rightarrow> Returned (WithSpec spec b)))"

definition netResourceAC ::
  "OwnerReference option \<Rightarrow> OwnerReference option \<Rightarrow> NetworkRouter \<Rightarrow> Service \<Rightarrow> (NetworkResourceSpecAC, unit) ApplyConfiguration outcome" where
  "netResourceAC controllerRef ownerRef netRouter svc =
     (case WithOwnerReferences [controllerRef, ownerRef] (construct ''NetworkResource'' (om_Name (svc_Meta svc)) (om_Namespace (svc_Meta svc))) of
        Panicked p \<Rightarrow> Panicked p
      | Returned b \<Rightarrow> Returned (WithSpec
          (NetworkResourceSpec_WithServiceRef (om_Name (svc_Meta svc))
            (NetworkResourceSpec_WithNetworkRouterRef
              (Some (CrossNamespaceReference_WithNamespace (om_Namespace (nro_Meta netRouter))
                (CrossNamespaceReference_WithName (om_Name (nro_Meta netRouter)) empty_CrossNamespaceReferenceAC)))
              empty_NetworkResourceSpecAC)) b))"

section \<open>The object that a configuration describes\<close>

text \<open>
  The object that applying the configuration creates when there is none: what the configuration sets,
  and zero values. The status is a subresource, which an apply does not set.
\<close>

definition or_empty :: "string option \<Rightarrow> string" where
  "or_empty x = (case x of None \<Rightarrow> '''' | Some s \<Rightarrow> s)"

definition meta_of :: "MetaAC option \<Rightarrow> ObjectMeta" where
  "meta_of m = (case m of None \<Rightarrow> zero_ObjectMeta
   | Some x \<Rightarrow> \<lparr>om_Name = or_empty (ma_Name x), om_Namespace = or_empty (ma_Namespace x), om_UID = or_empty (ma_UID x),
       om_Finalizers = ma_Finalizers x, om_OwnerReferences = ma_OwnerReferences x, om_Labels = ma_Labels x,
       om_Annotations = ma_Annotations x, om_DeletionTimestamp = ma_DeletionTimestamp x\<rparr>)"

definition described_Group :: "(GroupSpecAC, 's) ApplyConfiguration \<Rightarrow> Group" where
  "described_Group b = \<lparr>grp_Meta = meta_of (ac_Meta b),
     grp_SpecName = (case ac_Spec b of None \<Rightarrow> '''' | Some s \<Rightarrow> or_empty (gsa_Name s)), grp_Conditions = [], grp_GroupID = ''''\<rparr>"

definition described_SetupKey :: "(SetupKeySpecAC, 's) ApplyConfiguration \<Rightarrow> SetupKey" where
  "described_SetupKey b = \<lparr>sk_Meta = meta_of (ac_Meta b),
     sk_Spec = (let s = (case ac_Spec b of None \<Rightarrow> empty_SetupKeySpecAC | Some s \<Rightarrow> s)
       in \<lparr>sk_Name = or_empty (ska_Name s), sk_Ephemeral = (ska_Ephemeral s = Some True), sk_Duration = ska_Duration s, sk_AutoGroups = ska_AutoGroups s\<rparr>),
     sk_Conditions = [], sk_SetupKeyID = ''''\<rparr>"

definition described_NetworkResource :: "(NetworkResourceSpecAC, 's) ApplyConfiguration \<Rightarrow> NetworkResource" where
  "described_NetworkResource b = \<lparr>nrs_Meta = meta_of (ac_Meta b),
     nrs_Spec = (let s = (case ac_Spec b of None \<Rightarrow> empty_NetworkResourceSpecAC | Some s \<Rightarrow> s);
                     x = (case nsa_NetworkRouterRef s of None \<Rightarrow> empty_CrossNamespaceReferenceAC | Some x \<Rightarrow> x)
       in \<lparr>nrs_NetworkRouterRef = \<lparr>xref_Name = or_empty (xra_Name x), xref_Namespace = or_empty (xra_Namespace x)\<rparr>,
           nrs_ServiceRef = or_empty (nsa_ServiceRef s), nrs_Groups = nsa_Groups s\<rparr>),
     nrs_Conditions = [], nrs_NetworkID = '''', nrs_ResourceID = '''', nrs_DNSZoneID = '''', nrs_DNSRecordID = ''''\<rparr>"

section \<open>Properties\<close>

lemmas builder_defs = construct_def WithKind_def WithAPIVersion_def WithName_def WithNamespace_def WithSpec_def WithOwnerReferences_def
  set_meta_def ensureObjectMetaApplyConfigurationExists_def no_nil_def zero_MetaAC_def GetName_def GetNamespace_def GetKind_def GetAPIVersion_def

lemma foldl_update_map_of:
  "map_of (foldl (\<lambda>out (k, v). AList.update k v out) es new) = foldl (\<lambda>m (k, v). m(k \<mapsto> v)) (map_of es) new"
  by (induction new arbitrary: es) (auto simp: update_conv' split: prod.splits)

lemma foldl_updates_distinct:
  "distinct (map fst new) \<Longrightarrow> foldl (\<lambda>m (k, v). m(k \<mapsto> v)) m new k = (case map_of new k of None \<Rightarrow> m k | Some v \<Rightarrow> Some v)"
proof (induction new arbitrary: m)
  case (Cons e es)
  then have "k = fst e \<Longrightarrow> map_of es k = None" by (simp add: map_of_eq_None_iff)
  with Cons show ?case by (cases "k = fst e") (simp_all add: split_beta)
qed simp

text \<open>Adding labels overrides those that are there key by key, whatever the order of the range.\<close>

lemma put_entries_get:
  assumes "distinct (map fst (gm_entries entries))"
  shows "gm_get (put_entries entries m) k = (case gm_get entries k of None \<Rightarrow> gm_get m k | Some v \<Rightarrow> Some v)"
  using foldl_updates_distinct [OF assms]
  by (cases m) (auto simp: put_entries_def gm_get_def gm_entries_def foldl_update_map_of split: option.splits)

lemma with_labels_twice:
  assumes "distinct (map fst (gm_entries l1))" "distinct (map fst (gm_entries l2))"
  shows "gm_get (ma_Labels (the (ac_Meta (WithLabels l2 (WithLabels l1 b))))) k =
    (case gm_get l2 k of Some v \<Rightarrow> Some v
     | None \<Rightarrow> (case gm_get l1 k of Some v \<Rightarrow> Some v | None \<Rightarrow> gm_get (ma_Labels (the (ac_Meta (ensureObjectMetaApplyConfigurationExists b)))) k))"
  by (cases "ac_Meta b")
     (simp_all add: WithLabels_def set_meta_def ensureObjectMetaApplyConfigurationExists_def Let_def put_entries_get assms split: option.splits)

text \<open>
  C32. What the controllers build with the generated apply configurations is what the model applies: for
  owner references that are not nil, the configurations of a router's group, of its setup key and of a route's
  backend are built without a panic; each names its kind and API version, and its name and
  namespace, which the controllers dereference to read the object back, are set to those under which the
  model reads it; and it describes exactly the object that the model applies.
\<close>

theorem apply_configurations_describe:
  "(\<exists>b. groupAC r (Some owner) req n networkID = Returned b \<and>
      GetKind b = Some ''Group'' \<and> GetAPIVersion b = Some ''openzro.io/v1alpha1'' \<and>
      GetName b = Some (peers_name n) \<and> GetNamespace b = Some (fst req) \<and>
      described_Group b = peers_group r owner req n networkID) \<and>
   (\<exists>b. setupKeyAC r (Some owner) req n networkID groupID = Returned b \<and>
      GetKind b = Some ''SetupKey'' \<and> GetAPIVersion b = Some ''openzro.io/v1alpha1'' \<and>
      GetName b = Some (peers_name n) \<and> GetNamespace b = Some (fst req) \<and>
      described_SetupKey b = peers_setup_key r owner req n networkID groupID) \<and>
   (\<exists>b. netResourceAC (Some controllerRef) (Some owner) n svc = Returned b \<and>
      GetKind b = Some ''NetworkResource'' \<and> GetAPIVersion b = Some ''openzro.io/v1alpha1'' \<and>
      described_NetworkResource b = backend_resource controllerRef owner n svc)"
proof (intro conjI)
  show "\<exists>b. groupAC r (Some owner) req n networkID = Returned b \<and>
      GetKind b = Some ''Group'' \<and> GetAPIVersion b = Some ''openzro.io/v1alpha1'' \<and>
      GetName b = Some (peers_name n) \<and> GetNamespace b = Some (fst req) \<and>
      described_Group b = peers_group r owner req n networkID"
    by (simp add: groupAC_def builder_defs peers_name_def peers_group_def described_Group_def meta_of_def or_empty_def
        zero_ObjectMeta_def GroupSpec_WithName_def empty_GroupSpecAC_def)
  show "\<exists>b. setupKeyAC r (Some owner) req n networkID groupID = Returned b \<and>
      GetKind b = Some ''SetupKey'' \<and> GetAPIVersion b = Some ''openzro.io/v1alpha1'' \<and>
      GetName b = Some (peers_name n) \<and> GetNamespace b = Some (fst req) \<and>
      described_SetupKey b = peers_setup_key r owner req n networkID groupID"
    by (simp add: setupKeyAC_def builder_defs peers_name_def peers_setup_key_def described_SetupKey_def meta_of_def or_empty_def
        zero_ObjectMeta_def SetupKeySpec_WithAutoGroups_def SetupKeySpec_WithEphemeral_def SetupKeySpec_WithName_def
        empty_SetupKeySpecAC_def GroupReference_WithID_def empty_GroupReference_def)
  show "\<exists>b. netResourceAC (Some controllerRef) (Some owner) n svc = Returned b \<and>
      GetKind b = Some ''NetworkResource'' \<and> GetAPIVersion b = Some ''openzro.io/v1alpha1'' \<and>
      described_NetworkResource b = backend_resource controllerRef owner n svc"
    by (simp add: netResourceAC_def builder_defs backend_resource_def described_NetworkResource_def meta_of_def or_empty_def
        zero_ObjectMeta_def NetworkResourceSpec_WithServiceRef_def NetworkResourceSpec_WithNetworkRouterRef_def
        CrossNamespaceReference_WithNamespace_def CrossNamespaceReference_WithName_def empty_NetworkResourceSpecAC_def
        empty_CrossNamespaceReferenceAC_def)
qed

end
