(* ===== verification/Apply_Builders.thy ===== *)
theory Apply_Builders
  imports Apply_Configurations Deep_Copy
begin

text \<open>
  The builders of \<open>pkg/applyconfigurations\<close> that no controller of the operator calls but that are part of the generated
  package: overrides, references, the specs of routers and sidecar profiles, the statuses, the constructors of the five kinds,
  and \<open>ForKind\<close>. A configuration into which an object is written field by field describes that object.
\<close>

section \<open>Builders of overrides, references and specifications\<close>

record ContainerOverrideAC =
  coa_Image :: "string option"
  coa_Env :: "EnvVar list"
  coa_SecurityContext :: "SecurityContext option"

definition empty_ContainerOverrideAC :: ContainerOverrideAC where
  "empty_ContainerOverrideAC = \<lparr>coa_Image = None, coa_Env = [], coa_SecurityContext = None\<rparr>"
definition ContainerOverride_WithImage :: "string \<Rightarrow> ContainerOverrideAC \<Rightarrow> ContainerOverrideAC" where
  "ContainerOverride_WithImage value b = b\<lparr>coa_Image := Some value\<rparr>"
definition ContainerOverride_WithEnv :: "EnvVar list \<Rightarrow> ContainerOverrideAC \<Rightarrow> ContainerOverrideAC" where
  "ContainerOverride_WithEnv values b = b\<lparr>coa_Env := coa_Env b @ values\<rparr>"
definition ContainerOverride_WithSecurityContext :: "SecurityContext \<Rightarrow> ContainerOverrideAC \<Rightarrow> ContainerOverrideAC" where
  "ContainerOverride_WithSecurityContext value b = b\<lparr>coa_SecurityContext := Some value\<rparr>"

record WorkloadOverrideAC =
  woa_Labels :: gomap
  woa_Annotations :: gomap
  woa_Replicas :: "int32 option"
  woa_PodTemplate :: "string option"

definition empty_WorkloadOverrideAC :: WorkloadOverrideAC where
  "empty_WorkloadOverrideAC = \<lparr>woa_Labels = None, woa_Annotations = None, woa_Replicas = None, woa_PodTemplate = None\<rparr>"
definition WorkloadOverride_WithLabels :: "gomap \<Rightarrow> WorkloadOverrideAC \<Rightarrow> WorkloadOverrideAC" where
  "WorkloadOverride_WithLabels entries b = b\<lparr>woa_Labels := put_entries entries (woa_Labels b)\<rparr>"
definition WorkloadOverride_WithAnnotations :: "gomap \<Rightarrow> WorkloadOverrideAC \<Rightarrow> WorkloadOverrideAC" where
  "WorkloadOverride_WithAnnotations entries b = b\<lparr>woa_Annotations := put_entries entries (woa_Annotations b)\<rparr>"
definition WorkloadOverride_WithReplicas :: "int32 \<Rightarrow> WorkloadOverrideAC \<Rightarrow> WorkloadOverrideAC" where
  "WorkloadOverride_WithReplicas value b = b\<lparr>woa_Replicas := Some value\<rparr>"
definition WorkloadOverride_WithPodTemplate :: "string \<Rightarrow> WorkloadOverrideAC \<Rightarrow> WorkloadOverrideAC" where
  "WorkloadOverride_WithPodTemplate value b = b\<lparr>woa_PodTemplate := Some value\<rparr>"

record DeploymentOverrideAC =
  doa_Labels :: gomap
  doa_Annotations :: gomap
  doa_Replicas :: "int32 option"
  doa_PodTemplate :: "string option"

definition empty_DeploymentOverrideAC :: DeploymentOverrideAC where
  "empty_DeploymentOverrideAC = \<lparr>doa_Labels = None, doa_Annotations = None, doa_Replicas = None, doa_PodTemplate = None\<rparr>"
definition DeploymentOverride_WithLabels :: "gomap \<Rightarrow> DeploymentOverrideAC \<Rightarrow> DeploymentOverrideAC" where
  "DeploymentOverride_WithLabels entries b = b\<lparr>doa_Labels := put_entries entries (doa_Labels b)\<rparr>"
definition DeploymentOverride_WithAnnotations :: "gomap \<Rightarrow> DeploymentOverrideAC \<Rightarrow> DeploymentOverrideAC" where
  "DeploymentOverride_WithAnnotations entries b = b\<lparr>doa_Annotations := put_entries entries (doa_Annotations b)\<rparr>"
definition DeploymentOverride_WithReplicas :: "int32 \<Rightarrow> DeploymentOverrideAC \<Rightarrow> DeploymentOverrideAC" where
  "DeploymentOverride_WithReplicas value b = b\<lparr>doa_Replicas := Some value\<rparr>"
definition DeploymentOverride_WithPodTemplate :: "string \<Rightarrow> DeploymentOverrideAC \<Rightarrow> DeploymentOverrideAC" where
  "DeploymentOverride_WithPodTemplate value b = b\<lparr>doa_PodTemplate := Some value\<rparr>"

record DNSZoneReferenceAC =
  zra_Name :: "string option"

definition empty_DNSZoneReferenceAC :: DNSZoneReferenceAC where
  "empty_DNSZoneReferenceAC = \<lparr>zra_Name = None\<rparr>"
definition DNSZoneReference_WithName :: "string \<Rightarrow> DNSZoneReferenceAC \<Rightarrow> DNSZoneReferenceAC" where
  "DNSZoneReference_WithName value b = b\<lparr>zra_Name := Some value\<rparr>"

record ResourceReferenceAC =
  rra_ID :: "string option"
  rra_LocalRef :: "string option"

definition empty_ResourceReferenceAC :: ResourceReferenceAC where
  "empty_ResourceReferenceAC = \<lparr>rra_ID = None, rra_LocalRef = None\<rparr>"
definition ResourceReference_WithID :: "string \<Rightarrow> ResourceReferenceAC \<Rightarrow> ResourceReferenceAC" where
  "ResourceReference_WithID value b = b\<lparr>rra_ID := Some value\<rparr>"
definition ResourceReference_WithLocalRef :: "string \<Rightarrow> ResourceReferenceAC \<Rightarrow> ResourceReferenceAC" where
  "ResourceReference_WithLocalRef value b = b\<lparr>rra_LocalRef := Some value\<rparr>"

record NetworkRouterSpecAC =
  nra_DNSZoneRef :: "DNSZoneReferenceAC option"
  nra_WorkloadOverride :: "WorkloadOverrideAC option"

definition empty_NetworkRouterSpecAC :: NetworkRouterSpecAC where
  "empty_NetworkRouterSpecAC = \<lparr>nra_DNSZoneRef = None, nra_WorkloadOverride = None\<rparr>"
definition NetworkRouterSpec_WithDNSZoneRef :: "DNSZoneReferenceAC option \<Rightarrow> NetworkRouterSpecAC \<Rightarrow> NetworkRouterSpecAC" where
  "NetworkRouterSpec_WithDNSZoneRef value b = b\<lparr>nra_DNSZoneRef := value\<rparr>"
definition NetworkRouterSpec_WithWorkloadOverride :: "WorkloadOverrideAC option \<Rightarrow> NetworkRouterSpecAC \<Rightarrow> NetworkRouterSpecAC" where
  "NetworkRouterSpec_WithWorkloadOverride value b = b\<lparr>nra_WorkloadOverride := value\<rparr>"

record SidecarProfileSpecAC =
  spa_SetupKeyRef :: "string option"
  spa_PodSelector :: "LabelSelector option"
  spa_InjectionMode :: "string option"
  spa_ExtraDNSLabels :: "string list"
  spa_ContainerOverride :: "ContainerOverrideAC option"

definition empty_SidecarProfileSpecAC :: SidecarProfileSpecAC where
  "empty_SidecarProfileSpecAC = \<lparr>spa_SetupKeyRef = None, spa_PodSelector = None, spa_InjectionMode = None, spa_ExtraDNSLabels = [], spa_ContainerOverride = None\<rparr>"
definition SidecarProfileSpec_WithSetupKeyRef :: "string \<Rightarrow> SidecarProfileSpecAC \<Rightarrow> SidecarProfileSpecAC" where
  "SidecarProfileSpec_WithSetupKeyRef value b = b\<lparr>spa_SetupKeyRef := Some value\<rparr>"
definition SidecarProfileSpec_WithPodSelector :: "LabelSelector option \<Rightarrow> SidecarProfileSpecAC \<Rightarrow> SidecarProfileSpecAC" where
  "SidecarProfileSpec_WithPodSelector value b = b\<lparr>spa_PodSelector := value\<rparr>"
definition SidecarProfileSpec_WithInjectionMode :: "string \<Rightarrow> SidecarProfileSpecAC \<Rightarrow> SidecarProfileSpecAC" where
  "SidecarProfileSpec_WithInjectionMode value b = b\<lparr>spa_InjectionMode := Some value\<rparr>"
definition SidecarProfileSpec_WithExtraDNSLabels :: "string list \<Rightarrow> SidecarProfileSpecAC \<Rightarrow> SidecarProfileSpecAC" where
  "SidecarProfileSpec_WithExtraDNSLabels values b = b\<lparr>spa_ExtraDNSLabels := spa_ExtraDNSLabels b @ values\<rparr>"
definition SidecarProfileSpec_WithContainerOverride :: "ContainerOverrideAC option \<Rightarrow> SidecarProfileSpecAC \<Rightarrow> SidecarProfileSpecAC" where
  "SidecarProfileSpec_WithContainerOverride value b = b\<lparr>spa_ContainerOverride := value\<rparr>"

section \<open>Builders of statuses\<close>

record GroupStatusAC =
  gta_ObservedGeneration :: "64 word option"
  gta_Conditions :: "Condition list"
  gta_GroupID :: "string option"

definition empty_GroupStatusAC :: GroupStatusAC where
  "empty_GroupStatusAC = \<lparr>gta_ObservedGeneration = None, gta_Conditions = [], gta_GroupID = None\<rparr>"
definition GroupStatus_WithObservedGeneration :: "64 word \<Rightarrow> GroupStatusAC \<Rightarrow> GroupStatusAC" where
  "GroupStatus_WithObservedGeneration value b = b\<lparr>gta_ObservedGeneration := Some value\<rparr>"
definition GroupStatus_WithConditions :: "Condition option list \<Rightarrow> GroupStatusAC \<Rightarrow> GroupStatusAC outcome" where
  "GroupStatus_WithConditions values b = (case no_nil ''WithConditions'' values of
     Panicked p \<Rightarrow> Panicked p
   | Returned cs \<Rightarrow> Returned (b\<lparr>gta_Conditions := gta_Conditions b @ cs\<rparr>))"
definition GroupStatus_WithGroupID :: "string \<Rightarrow> GroupStatusAC \<Rightarrow> GroupStatusAC" where
  "GroupStatus_WithGroupID value b = b\<lparr>gta_GroupID := Some value\<rparr>"

record SetupKeyStatusAC =
  sta_ObservedGeneration :: "64 word option"
  sta_Conditions :: "Condition list"
  sta_SetupKeyID :: "string option"

definition empty_SetupKeyStatusAC :: SetupKeyStatusAC where
  "empty_SetupKeyStatusAC = \<lparr>sta_ObservedGeneration = None, sta_Conditions = [], sta_SetupKeyID = None\<rparr>"
definition SetupKeyStatus_WithObservedGeneration :: "64 word \<Rightarrow> SetupKeyStatusAC \<Rightarrow> SetupKeyStatusAC" where
  "SetupKeyStatus_WithObservedGeneration value b = b\<lparr>sta_ObservedGeneration := Some value\<rparr>"
definition SetupKeyStatus_WithConditions :: "Condition option list \<Rightarrow> SetupKeyStatusAC \<Rightarrow> SetupKeyStatusAC outcome" where
  "SetupKeyStatus_WithConditions values b = (case no_nil ''WithConditions'' values of
     Panicked p \<Rightarrow> Panicked p
   | Returned cs \<Rightarrow> Returned (b\<lparr>sta_Conditions := sta_Conditions b @ cs\<rparr>))"
definition SetupKeyStatus_WithSetupKeyID :: "string \<Rightarrow> SetupKeyStatusAC \<Rightarrow> SetupKeyStatusAC" where
  "SetupKeyStatus_WithSetupKeyID value b = b\<lparr>sta_SetupKeyID := Some value\<rparr>"

record NetworkRouterStatusAC =
  nta_ObservedGeneration :: "64 word option"
  nta_Conditions :: "Condition list"
  nta_RoutingPeerID :: "string option"
  nta_NetworkID :: "string option"

definition empty_NetworkRouterStatusAC :: NetworkRouterStatusAC where
  "empty_NetworkRouterStatusAC = \<lparr>nta_ObservedGeneration = None, nta_Conditions = [], nta_RoutingPeerID = None, nta_NetworkID = None\<rparr>"
definition NetworkRouterStatus_WithObservedGeneration :: "64 word \<Rightarrow> NetworkRouterStatusAC \<Rightarrow> NetworkRouterStatusAC" where
  "NetworkRouterStatus_WithObservedGeneration value b = b\<lparr>nta_ObservedGeneration := Some value\<rparr>"
definition NetworkRouterStatus_WithConditions :: "Condition option list \<Rightarrow> NetworkRouterStatusAC \<Rightarrow> NetworkRouterStatusAC outcome" where
  "NetworkRouterStatus_WithConditions values b = (case no_nil ''WithConditions'' values of
     Panicked p \<Rightarrow> Panicked p
   | Returned cs \<Rightarrow> Returned (b\<lparr>nta_Conditions := nta_Conditions b @ cs\<rparr>))"
definition NetworkRouterStatus_WithRoutingPeerID :: "string \<Rightarrow> NetworkRouterStatusAC \<Rightarrow> NetworkRouterStatusAC" where
  "NetworkRouterStatus_WithRoutingPeerID value b = b\<lparr>nta_RoutingPeerID := Some value\<rparr>"
definition NetworkRouterStatus_WithNetworkID :: "string \<Rightarrow> NetworkRouterStatusAC \<Rightarrow> NetworkRouterStatusAC" where
  "NetworkRouterStatus_WithNetworkID value b = b\<lparr>nta_NetworkID := Some value\<rparr>"

record NetworkResourceStatusAC =
  nxa_ObservedGeneration :: "64 word option"
  nxa_Conditions :: "Condition list"
  nxa_NetworkID :: "string option"
  nxa_ResourceID :: "string option"
  nxa_DNSZoneID :: "string option"
  nxa_DNSRecordID :: "string option"

definition empty_NetworkResourceStatusAC :: NetworkResourceStatusAC where
  "empty_NetworkResourceStatusAC = \<lparr>nxa_ObservedGeneration = None, nxa_Conditions = [], nxa_NetworkID = None, nxa_ResourceID = None, nxa_DNSZoneID = None, nxa_DNSRecordID = None\<rparr>"
definition NetworkResourceStatus_WithObservedGeneration :: "64 word \<Rightarrow> NetworkResourceStatusAC \<Rightarrow> NetworkResourceStatusAC" where
  "NetworkResourceStatus_WithObservedGeneration value b = b\<lparr>nxa_ObservedGeneration := Some value\<rparr>"
definition NetworkResourceStatus_WithConditions :: "Condition option list \<Rightarrow> NetworkResourceStatusAC \<Rightarrow> NetworkResourceStatusAC outcome" where
  "NetworkResourceStatus_WithConditions values b = (case no_nil ''WithConditions'' values of
     Panicked p \<Rightarrow> Panicked p
   | Returned cs \<Rightarrow> Returned (b\<lparr>nxa_Conditions := nxa_Conditions b @ cs\<rparr>))"
definition NetworkResourceStatus_WithNetworkID :: "string \<Rightarrow> NetworkResourceStatusAC \<Rightarrow> NetworkResourceStatusAC" where
  "NetworkResourceStatus_WithNetworkID value b = b\<lparr>nxa_NetworkID := Some value\<rparr>"
definition NetworkResourceStatus_WithResourceID :: "string \<Rightarrow> NetworkResourceStatusAC \<Rightarrow> NetworkResourceStatusAC" where
  "NetworkResourceStatus_WithResourceID value b = b\<lparr>nxa_ResourceID := Some value\<rparr>"
definition NetworkResourceStatus_WithDNSZoneID :: "string \<Rightarrow> NetworkResourceStatusAC \<Rightarrow> NetworkResourceStatusAC" where
  "NetworkResourceStatus_WithDNSZoneID value b = b\<lparr>nxa_DNSZoneID := Some value\<rparr>"
definition NetworkResourceStatus_WithDNSRecordID :: "string \<Rightarrow> NetworkResourceStatusAC \<Rightarrow> NetworkResourceStatusAC" where
  "NetworkResourceStatus_WithDNSRecordID value b = b\<lparr>nxa_DNSRecordID := Some value\<rparr>"

record SidecarProfileStatusAC =
  pta_Conditions :: "Condition list"

definition empty_SidecarProfileStatusAC :: SidecarProfileStatusAC where
  "empty_SidecarProfileStatusAC = \<lparr>pta_Conditions = []\<rparr>"
definition SidecarProfileStatus_WithConditions :: "Condition option list \<Rightarrow> SidecarProfileStatusAC \<Rightarrow> SidecarProfileStatusAC outcome" where
  "SidecarProfileStatus_WithConditions values b = (case no_nil ''WithConditions'' values of
     Panicked p \<Rightarrow> Panicked p
   | Returned cs \<Rightarrow> Returned (b\<lparr>pta_Conditions := pta_Conditions b @ cs\<rparr>))"

section \<open>Kinds\<close>

text \<open>The constructors of the kinds; \<open>Group\<close> and the others differ in the kind that they set.\<close>

definition Group_AC :: "string \<Rightarrow> string \<Rightarrow> (GroupSpecAC, GroupStatusAC) ApplyConfiguration" where
  "Group_AC name namespace = construct ''Group'' name namespace"
definition SetupKey_AC :: "string \<Rightarrow> string \<Rightarrow> (SetupKeySpecAC, SetupKeyStatusAC) ApplyConfiguration" where
  "SetupKey_AC name namespace = construct ''SetupKey'' name namespace"
definition NetworkRouter_AC :: "string \<Rightarrow> string \<Rightarrow> (NetworkRouterSpecAC, NetworkRouterStatusAC) ApplyConfiguration" where
  "NetworkRouter_AC name namespace = construct ''NetworkRouter'' name namespace"
definition NetworkResource_AC :: "string \<Rightarrow> string \<Rightarrow> (NetworkResourceSpecAC, NetworkResourceStatusAC) ApplyConfiguration" where
  "NetworkResource_AC name namespace = construct ''NetworkResource'' name namespace"
definition SidecarProfile_AC :: "string \<Rightarrow> string \<Rightarrow> (SidecarProfileSpecAC, SidecarProfileStatusAC) ApplyConfiguration" where
  "SidecarProfile_AC name namespace = construct ''SidecarProfile'' name namespace"

text \<open>A group, version and kind, and the name of the configuration type that is returned for it.\<close>

definition configured_kinds :: "string list" where
  "configured_kinds = [''ContainerOverride'', ''CrossNamespaceReference'', ''DNSZoneReference'', ''Group'', ''GroupReference'', ''GroupSpec'',
     ''GroupStatus'', ''NetworkResource'', ''NetworkResourceSpec'', ''NetworkResourceStatus'', ''NetworkRouter'', ''NetworkRouterSpec'',
     ''NetworkRouterStatus'', ''SetupKey'', ''SetupKeySpec'', ''SetupKeyStatus'', ''SidecarProfile'', ''SidecarProfileSpec'',
     ''SidecarProfileStatus'', ''WorkloadOverride'']"

definition ForKind :: "string \<times> string \<times> string \<Rightarrow> string option" where
  "ForKind gvk = (case gvk of (api_group, version, kind) \<Rightarrow>
     if api_group = ''openzro.io'' \<and> version = ''v1alpha1'' \<and> kind \<in> set configured_kinds then Some (kind @ ''ApplyConfiguration'') else None)"

section \<open>Writing an object into a configuration\<close>

text \<open>What is optional in the object is set when it is there.\<close>

definition with_if :: "('v \<Rightarrow> 'b \<Rightarrow> 'b) \<Rightarrow> 'v option \<Rightarrow> 'b \<Rightarrow> 'b" where
  "with_if f v b = (case v of None \<Rightarrow> b | Some x \<Rightarrow> f x b)"

definition workload_configuration :: "WorkloadOverride \<Rightarrow> WorkloadOverrideAC" where
  "workload_configuration w = with_if WorkloadOverride_WithPodTemplate (wo_PodTemplate w) (with_if WorkloadOverride_WithReplicas (wo_Replicas w)
     (WorkloadOverride_WithAnnotations (wo_Annotations w) (WorkloadOverride_WithLabels (wo_Labels w) empty_WorkloadOverrideAC)))"

definition container_configuration :: "ContainerOverride \<Rightarrow> ContainerOverrideAC" where
  "container_configuration c = with_if ContainerOverride_WithSecurityContext (co_SecurityContext c)
     (ContainerOverride_WithEnv (co_Env c) (ContainerOverride_WithImage (co_Image c) empty_ContainerOverrideAC))"

definition router_spec_configuration :: "NetworkRouterSpec \<Rightarrow> NetworkRouterSpecAC" where
  "router_spec_configuration s = NetworkRouterSpec_WithWorkloadOverride (map_option workload_configuration (nro_WorkloadOverride s))
     (NetworkRouterSpec_WithDNSZoneRef (Some (DNSZoneReference_WithName (nro_DNSZoneRef s) empty_DNSZoneReferenceAC)) empty_NetworkRouterSpecAC)"

definition profile_spec_configuration :: "SidecarProfileSpec \<Rightarrow> SidecarProfileSpecAC" where
  "profile_spec_configuration s = SidecarProfileSpec_WithContainerOverride (map_option container_configuration (sp_ContainerOverride s))
     (SidecarProfileSpec_WithExtraDNSLabels (sp_ExtraDNSLabels s) (SidecarProfileSpec_WithInjectionMode (sp_InjectionMode s)
     (SidecarProfileSpec_WithPodSelector (sp_PodSelector s) (SidecarProfileSpec_WithSetupKeyRef (sp_SetupKeyRef s) empty_SidecarProfileSpecAC))))"

definition router_configuration :: "NetworkRouter \<Rightarrow> (NetworkRouterSpecAC, NetworkRouterStatusAC) ApplyConfiguration outcome" where
  "router_configuration n = (case NetworkRouterStatus_WithConditions (map Some (nro_Conditions n)) empty_NetworkRouterStatusAC of
     Panicked p \<Rightarrow> Panicked p
   | Returned st \<Rightarrow> Returned (WithStatus (NetworkRouterStatus_WithNetworkID (nro_NetworkID n) (NetworkRouterStatus_WithRoutingPeerID (nro_RoutingPeerID n) st))
       (WithSpec (router_spec_configuration (nro_Spec n)) (NetworkRouter_AC (om_Name (nro_Meta n)) (om_Namespace (nro_Meta n))))))"

definition resource_configuration :: "NetworkResource \<Rightarrow> (NetworkResourceSpecAC, NetworkResourceStatusAC) ApplyConfiguration outcome" where
  "resource_configuration n = (let x = nrs_NetworkRouterRef (nrs_Spec n) in
     case (NetworkResourceSpec_WithGroups (map Some (nrs_Groups (nrs_Spec n))) empty_NetworkResourceSpecAC,
       NetworkResourceStatus_WithConditions (map Some (nrs_Conditions n)) empty_NetworkResourceStatusAC) of
     (Returned sp, Returned st) \<Rightarrow> Returned (WithStatus
         (NetworkResourceStatus_WithDNSRecordID (nrs_DNSRecordID n) (NetworkResourceStatus_WithDNSZoneID (nrs_DNSZoneID n)
           (NetworkResourceStatus_WithResourceID (nrs_ResourceID n) (NetworkResourceStatus_WithNetworkID (nrs_NetworkID n) st))))
       (WithSpec (NetworkResourceSpec_WithServiceRef (nrs_ServiceRef (nrs_Spec n)) (NetworkResourceSpec_WithNetworkRouterRef
           (Some (CrossNamespaceReference_WithNamespace (xref_Namespace x) (CrossNamespaceReference_WithName (xref_Name x) empty_CrossNamespaceReferenceAC))) sp))
         (NetworkResource_AC (om_Name (nrs_Meta n)) (om_Namespace (nrs_Meta n)))))
   | (Panicked p, _) \<Rightarrow> Panicked p
   | (_, Panicked p) \<Rightarrow> Panicked p)"

definition group_configuration :: "Group \<Rightarrow> (GroupSpecAC, GroupStatusAC) ApplyConfiguration outcome" where
  "group_configuration g = (case GroupStatus_WithConditions (map Some (grp_Conditions g)) empty_GroupStatusAC of
     Panicked p \<Rightarrow> Panicked p
   | Returned st \<Rightarrow> Returned (WithStatus (GroupStatus_WithGroupID (grp_GroupID g) st)
       (WithSpec (GroupSpec_WithName (grp_SpecName g) empty_GroupSpecAC) (Group_AC (om_Name (grp_Meta g)) (om_Namespace (grp_Meta g))))))"

definition key_configuration :: "SetupKey \<Rightarrow> (SetupKeySpecAC, SetupKeyStatusAC) ApplyConfiguration outcome" where
  "key_configuration k = (
     case (SetupKeySpec_WithAutoGroups (map Some (sk_AutoGroups (sk_Spec k))) empty_SetupKeySpecAC,
       SetupKeyStatus_WithConditions (map Some (sk_Conditions k)) empty_SetupKeyStatusAC) of
     (Returned sp, Returned st) \<Rightarrow> Returned (WithStatus (SetupKeyStatus_WithSetupKeyID (sk_SetupKeyID k) st)
       (WithSpec (with_if SetupKeySpec_WithDuration (sk_Duration (sk_Spec k)) (SetupKeySpec_WithEphemeral (sk_Ephemeral (sk_Spec k))
           (SetupKeySpec_WithName (sk_Name (sk_Spec k)) sp)))
         (SetupKey_AC (om_Name (sk_Meta k)) (om_Namespace (sk_Meta k)))))
   | (Panicked p, _) \<Rightarrow> Panicked p
   | (_, Panicked p) \<Rightarrow> Panicked p)"

definition profile_configuration :: "SidecarProfile \<Rightarrow> Condition list \<Rightarrow> (SidecarProfileSpecAC, SidecarProfileStatusAC) ApplyConfiguration outcome" where
  "profile_configuration p conditions = (case SidecarProfileStatus_WithConditions (map Some conditions) empty_SidecarProfileStatusAC of
     Panicked e \<Rightarrow> Panicked e
   | Returned st \<Rightarrow> Returned (WithStatus st (WithSpec (profile_spec_configuration (sp_Spec p))
       (SidecarProfile_AC (om_Name (sp_Meta p)) (om_Namespace (sp_Meta p))))))"

text \<open>The objects that the configurations describe, status included: what is not set is zero.\<close>

definition or_zero :: "'b \<Rightarrow> ('a \<Rightarrow> 'b) \<Rightarrow> 'a option \<Rightarrow> 'b" where
  "or_zero z f x = (case x of None \<Rightarrow> z | Some y \<Rightarrow> f y)"

definition workload_of :: "WorkloadOverrideAC \<Rightarrow> WorkloadOverride" where
  "workload_of a = \<lparr>wo_Labels = woa_Labels a, wo_Annotations = woa_Annotations a, wo_Replicas = woa_Replicas a, wo_PodTemplate = woa_PodTemplate a\<rparr>"

definition container_of :: "ContainerOverrideAC \<Rightarrow> ContainerOverride" where
  "container_of a = \<lparr>co_Image = or_empty (coa_Image a), co_Env = coa_Env a, co_SecurityContext = coa_SecurityContext a\<rparr>"

definition router_of :: "(NetworkRouterSpecAC, NetworkRouterStatusAC) ApplyConfiguration \<Rightarrow> NetworkRouter" where
  "router_of b = (let s = or_zero empty_NetworkRouterSpecAC id (ac_Spec b); t = or_zero empty_NetworkRouterStatusAC id (ac_Status b) in
     \<lparr>nro_Meta = meta_of (ac_Meta b),
      nro_Spec = \<lparr>nro_DNSZoneRef = or_zero '''' (\<lambda>z. or_empty (zra_Name z)) (nra_DNSZoneRef s), nro_WorkloadOverride = map_option workload_of (nra_WorkloadOverride s)\<rparr>,
      nro_Conditions = nta_Conditions t, nro_RoutingPeerID = or_empty (nta_RoutingPeerID t), nro_NetworkID = or_empty (nta_NetworkID t)\<rparr>)"

definition resource_of :: "(NetworkResourceSpecAC, NetworkResourceStatusAC) ApplyConfiguration \<Rightarrow> NetworkResource" where
  "resource_of b = (let t = or_zero empty_NetworkResourceStatusAC id (ac_Status b) in
     (described_NetworkResource b)\<lparr>nrs_Conditions := nxa_Conditions t, nrs_NetworkID := or_empty (nxa_NetworkID t),
       nrs_ResourceID := or_empty (nxa_ResourceID t), nrs_DNSZoneID := or_empty (nxa_DNSZoneID t), nrs_DNSRecordID := or_empty (nxa_DNSRecordID t)\<rparr>)"

definition group_of :: "(GroupSpecAC, GroupStatusAC) ApplyConfiguration \<Rightarrow> Group" where
  "group_of b = (let t = or_zero empty_GroupStatusAC id (ac_Status b) in
     (described_Group b)\<lparr>grp_Conditions := gta_Conditions t, grp_GroupID := or_empty (gta_GroupID t)\<rparr>)"

definition key_of :: "(SetupKeySpecAC, SetupKeyStatusAC) ApplyConfiguration \<Rightarrow> SetupKey" where
  "key_of b = (let t = or_zero empty_SetupKeyStatusAC id (ac_Status b) in
     (described_SetupKey b)\<lparr>sk_Conditions := sta_Conditions t, sk_SetupKeyID := or_empty (sta_SetupKeyID t)\<rparr>)"

definition profile_of :: "(SidecarProfileSpecAC, SidecarProfileStatusAC) ApplyConfiguration \<Rightarrow> SidecarProfile \<times> Condition list" where
  "profile_of b = (let s = or_zero empty_SidecarProfileSpecAC id (ac_Spec b) in
     (\<lparr>sp_Meta = meta_of (ac_Meta b), sp_Spec = \<lparr>sp_SetupKeyRef = or_empty (spa_SetupKeyRef s), sp_PodSelector = spa_PodSelector s,
        sp_InjectionMode = or_empty (spa_InjectionMode s), sp_ExtraDNSLabels = spa_ExtraDNSLabels s,
        sp_ContainerOverride = map_option container_of (spa_ContainerOverride s)\<rparr>\<rparr>,
      or_zero [] pta_Conditions (ac_Status b)))"

text \<open>The metadata that the constructors set. A map must not be empty without being nil, and has every key once.\<close>

definition named :: "ObjectMeta \<Rightarrow> ObjectMeta" where
  "named m = zero_ObjectMeta\<lparr>om_Name := om_Name m, om_Namespace := om_Namespace m\<rparr>"

definition plain_map :: "gomap \<Rightarrow> bool" where
  "plain_map m \<longleftrightarrow> m \<noteq> Some [] \<and> distinct (map fst (gm_entries m))"

lemma put_entries_fresh: "plain_map m \<Longrightarrow> put_entries m None = m"
  using copy_entries_loop [of "[]"] by (cases m) (auto simp: plain_map_def put_entries_def gm_entries_def)

lemma no_nil_Some [simp]: "no_nil what (map Some xs) = Returned xs"
  by (auto simp: no_nil_def o_def)

lemma workload_roundtrip:
  assumes "plain_map (wo_Labels w)" "plain_map (wo_Annotations w)"
  shows "workload_of (workload_configuration w) = w"
  by (cases "wo_Replicas w"; cases "wo_PodTemplate w")
     (simp_all add: workload_of_def workload_configuration_def with_if_def WorkloadOverride_WithLabels_def WorkloadOverride_WithAnnotations_def
        WorkloadOverride_WithReplicas_def WorkloadOverride_WithPodTemplate_def empty_WorkloadOverrideAC_def put_entries_fresh assms)

lemma container_roundtrip: "container_of (container_configuration c) = c"
  by (cases "co_SecurityContext c")
     (simp_all add: container_of_def container_configuration_def with_if_def ContainerOverride_WithImage_def ContainerOverride_WithEnv_def
        ContainerOverride_WithSecurityContext_def empty_ContainerOverrideAC_def or_empty_def)

lemmas object_builders = builder_defs WithStatus_def meta_of_def or_empty_def or_zero_def named_def zero_ObjectMeta_def



end
