(* ===== verification/Group_Controller.thy ===== *)
theory Group_Controller
  imports Alpha_Common
begin

text \<open>
  \<open>internal/controller/group_controller.go\<close>: the controller of v1alpha1 groups. A patch answers the
  object as it then is; \<open>patch.WithStatusObservedGeneration\<close> only changes a field that the model leaves out.
\<close>

section \<open>The controller\<close>

record 'w GroupReconciler =
  agr_Client :: "'w Client"
  agr_OpenZro :: "'w OpenZro"

definition set_grp_finalizers :: "(string list \<Rightarrow> string list) \<Rightarrow> Group \<Rightarrow> Group" where
  "set_grp_finalizers f g = g\<lparr>grp_Meta := (grp_Meta g)\<lparr>om_Finalizers := f (om_Finalizers (grp_Meta g))\<rparr>\<rparr>"

definition Group_guarded :: "'w GroupReconciler \<Rightarrow> Group \<Rightarrow> Group" where
  "Group_guarded r = set_grp_finalizers (AddFinalizer (agr_Client r) (Finalizer ''group''))"

definition Group_released :: "'w GroupReconciler \<Rightarrow> Group \<Rightarrow> Group" where
  "Group_released r = set_grp_finalizers (RemoveFinalizer (agr_Client r) (Finalizer ''group''))"

definition Group_reconcileDelete :: "'w GroupReconciler \<Rightarrow> Group \<Rightarrow> ('w, Result \<times> goerr option) go" where
  "Group_reconcileDelete r grp = do {
     e1 \<leftarrow> delete_recorded (Groups (agr_OpenZro r)) (nonempty (grp_GroupID grp));
     (case e1 of
        Some err \<Rightarrow> State_Monad.return (zero_Result, Some err)
      | None \<Rightarrow> do {
          pr \<leftarrow> k_patch (AlphaGroups (agr_Client r)) (Group_released r grp);
          State_Monad.return (zero_Result, err_of pr) })
   }"

text \<open>The group upstream, from the object the first patch has left.\<close>

definition Group_ensure :: "'w GroupReconciler \<Rightarrow> Group \<Rightarrow> ('w, goerr + string) go" where
  "Group_ensure r grp =
     upsert (Groups (agr_OpenZro r)) (Groups (agr_OpenZro r)) ag_Id (nonempty (grp_GroupID grp)) (grp_SpecName grp)"

definition Group_ready :: "'w GroupReconciler \<Rightarrow> string \<Rightarrow> Group \<Rightarrow> Group" where
  "Group_ready r groupID grp =
     grp\<lparr>grp_GroupID := groupID, grp_Conditions := mark_ready (agr_Client r) (grp_Conditions grp)\<rparr>"

definition Group_body :: "'w GroupReconciler \<Rightarrow> nn \<Rightarrow> Group \<Rightarrow> ('w, Result \<times> goerr option) go" where
  "Group_body r req grp =
     (if om_DeletionTimestamp (grp_Meta grp) \<noteq> None then Group_reconcileDelete r grp
      else do {
        pr \<leftarrow> k_patch (AlphaGroups (agr_Client r)) (Group_guarded r grp);
        (case pr of
           Inl err \<Rightarrow> State_Monad.return (zero_Result, Some err)
         | Inr g1 \<Rightarrow> do {
             er \<leftarrow> Group_ensure r g1;
             (case er of
                Inl err \<Rightarrow> State_Monad.return (zero_Result, Some err)
              | Inr groupID \<Rightarrow> do {
                  pr2 \<leftarrow> k_patch (AlphaGroups (agr_Client r)) (Group_ready r groupID g1);
                  State_Monad.return (zero_Result, err_of pr2) }) }) })"

definition Group_Reconcile :: "'w GroupReconciler \<Rightarrow> nn \<Rightarrow> ('w, Result \<times> goerr option) go" where
  "Group_Reconcile r req = do {
     gr \<leftarrow> k_get (AlphaGroups (agr_Client r)) req;
     (case gr of
        Inl err \<Rightarrow> State_Monad.return (zero_Result, IgnoreNotFound err)
      | Inr grp \<Rightarrow> Group_body r req grp)
   }"

section \<open>Properties\<close>

lemma Group_delete_spec:
  "emits (Group_reconcileDelete r g) (\<lambda>_ evs. no_creates evs \<and>
     patches_only (\<lambda>o'. o' = KGroup (Group_released r g) \<and> gone CGroups (nonempty (grp_GroupID g)) evs) evs)"
  unfolding Group_reconcileDelete_def k_patch_def AlphaGroups_def
  by (rule emits_bind [OF emits_delete_recorded])
     (auto intro!: emits_intros simp: Groups_def split: option.splits)

text \<open>
  The calls of a run that reports no error, \<open>g\<close> being the object read: the finalizer is stored, the
  group is updated or created, and the ID the API answered is stored together with the Ready condition.
\<close>

definition alpha_group_synced :: "'w GroupReconciler \<Rightarrow> Group \<Rightarrow> event list \<Rightarrow> bool" where
  "alpha_group_synced r g evs \<longleftrightarrow> (\<exists>g1 g2 groupID ups.
     evs = EPatch (KGroup (Group_guarded r g)) (Inr (KGroup g1)) # ups @
       [EPatch (KGroup (Group_ready r groupID g1)) (Inr (KGroup g2))] \<and>
     upsert_trace CGroups CGroups RGroup ag_Id (nonempty (grp_GroupID g1)) (QGroup (grp_SpecName g1)) (Inr groupID) ups)"

lemma Group_body_synced:
  "om_DeletionTimestamp (grp_Meta g) = None \<Longrightarrow>
   emits (Group_body r req g) (\<lambda>(res, err) evs. err \<noteq> None \<or> alpha_group_synced r g evs)"
  unfolding Group_body_def k_patch_def AlphaGroups_def Group_ensure_def
  by (auto intro!: emits_intros emits_bind [OF groups.ensure_trace] simp: alpha_group_synced_def err_of_def
       split: sum.splits)

lemma Group_body_precedes:
  "om_DeletionTimestamp (grp_Meta g) = None \<Longrightarrow> emits (Group_body r req g)
     (\<lambda>_ evs. precedes (\<lambda>e. \<exists>y. e = EPatch (KGroup (Group_guarded r g)) (Inr y)) is_create evs)"
  unfolding Group_body_def k_patch_def AlphaGroups_def Group_ensure_def
  by (auto intro!: emits_intros emits_bind [OF groups.ensure_trace] split: sum.splits)

lemma Group_body_logs: "emits (Group_body r req g) (\<lambda>_ _. True)"
  by (cases "om_DeletionTimestamp (grp_Meta g) = None")
     (simp add: emits_mono [OF Group_body_precedes], simp add: Group_body_def emits_mono [OF Group_delete_spec])

interpretation alpha_group: finalizer_first "AlphaGroups (agr_Client r)" grp_Meta "\<lambda>x. x" "Group_Reconcile r" "Group_body r"
  "Group_released r" "\<lambda>g. gone CGroups (nonempty (grp_GroupID g))" "Group_guarded r" for r
  by unfold_locales
     (simp_all add: AlphaGroups_def Group_Reconcile_def Group_body_logs Group_body_precedes,
      simp add: Group_body_def Group_delete_spec)

section \<open>Claims\<close>

text \<open>
  Reconciling a v1alpha1 group that exists and is not being deleted: when no error is reported, the
  finalizer was stored first; then the group recorded in the object was updated with the name of the
  spec, or created when none is recorded or the API does not find the recorded one; and last the ID
  that the API answered was stored with the Ready condition. No other call is made.
\<close>

theorem alpha_group_reconciled:
  "emits (Group_Reconcile r req) (\<lambda>(res, err) evs. \<forall>g rest.
     evs = EGet ''Group'' req (Inr (KGroup g)) # rest \<and> om_DeletionTimestamp (grp_Meta g) = None \<and> err = None \<longrightarrow>
     alpha_group_synced r g rest)"
  by (rule emits_mono [OF alpha_group.reconcile_emits [OF emits_imp [OF Group_body_logs Group_body_synced]]])
     (auto simp: AlphaGroups_def)

definition demo_alpha_group :: Group where
  "demo_alpha_group = \<lparr>grp_Meta = zero_ObjectMeta\<lparr>om_Name := ''g'', om_Namespace := ''ns''\<rparr>, grp_SpecName = ''team'',
     grp_Conditions = [], grp_GroupID = ''old''\<rparr>"

definition demo_alpha_group_env :: "unit GroupReconciler" where
  "demo_alpha_group_env = \<lparr>agr_Client = down_Client\<lparr>c_AlphaGroups :=
       down_kind\<lparr>kc_get := \<lambda>_ w. (Inr demo_alpha_group, w), kc_patch := \<lambda>g w. (Inr g, w)\<rparr>\<rparr>,
     agr_OpenZro = down_OpenZro\<lparr>oz_Groups := down_rest\<lparr>rs_update := \<lambda>_ _ w. (Inl (ONotFound ''gone''), w),
       rs_create := \<lambda>n w. (Inr \<lparr>ag_Id = ''new'', ag_Name = n\<rparr>, w)\<rparr>\<rparr>\<rparr>"

lemmas demo_alpha_group_defs = demo_alpha_group_def demo_alpha_group_env_def down_defs zero_ObjectMeta_def

theorem alpha_group_reconciled_witness:
  "let (x, t) = run_state (Group_Reconcile demo_alpha_group_env (''ns'', ''g'')) start
   in x = (zero_Result, None) \<and> alpha_group_synced demo_alpha_group_env demo_alpha_group (tl (wlog t))"
proof -
  let ?m = "Group_Reconcile demo_alpha_group_env (''ns'', ''g'')"
  have run: "fst (run_state ?m start) = (zero_Result, None)"
    and log: "\<exists>rest. wlog (snd (run_state ?m start)) = EGet ''Group'' (''ns'', ''g'') (Inr (KGroup demo_alpha_group)) # rest"
    by (simp_all add: Group_Reconcile_def Group_body_def Group_guarded_def set_grp_finalizers_def Group_ensure_def upsert_def
        Group_ready_def nonempty_def call_defs demo_alpha_group_defs)
  from log obtain rest where "wlog (snd (run_state ?m start)) = EGet ''Group'' (''ns'', ''g'') (Inr (KGroup demo_alpha_group)) # rest" ..
  with run show ?thesis
    using emits_start [OF alpha_group_reconciled [of demo_alpha_group_env "(''ns'', ''g'')"]]
    by (simp add: split_beta demo_alpha_group_def zero_ObjectMeta_def)
qed

end
