(* ===== verification/NetworkResource_Controller.thy ===== *)
theory NetworkResource_Controller
  imports Alpha_Common
begin

text \<open>
  \<open>internal/controller/networkresource_controller.go\<close>: the controller of network resources, which puts a
  Service into the network of a router and gives it a DNS record, with the two indexes and the watch
  functions of \<open>SetupWithManager\<close>.
\<close>

section \<open>The controller\<close>

record 'w NetworkResourceReconciler =
  nsr_Client :: "'w Client"
  nsr_OpenZro :: "'w OpenZro"

definition set_nrs_finalizers :: "(string list \<Rightarrow> string list) \<Rightarrow> NetworkResource \<Rightarrow> NetworkResource" where
  "set_nrs_finalizers f n = n\<lparr>nrs_Meta := (nrs_Meta n)\<lparr>om_Finalizers := f (om_Finalizers (nrs_Meta n))\<rparr>\<rparr>"

definition NetworkResource_guarded :: "'w NetworkResourceReconciler \<Rightarrow> NetworkResource \<Rightarrow> NetworkResource" where
  "NetworkResource_guarded r = set_nrs_finalizers (AddFinalizer (nsr_Client r) (Finalizer ''networkresource''))"

definition NetworkResource_released :: "'w NetworkResourceReconciler \<Rightarrow> NetworkResource \<Rightarrow> NetworkResource" where
  "NetworkResource_released r = set_nrs_finalizers (RemoveFinalizer (nsr_Client r) (Finalizer ''networkresource''))"

text \<open>\<open>MarkFalse\<close> with the dependency reason, a patch, and the end of the function.\<close>

definition dependency_missing ::
  "'w NetworkResourceReconciler \<Rightarrow> NetworkResource \<Rightarrow> string \<Rightarrow> ('w, (Result \<times> goerr option) + 'a) go" where
  "dependency_missing r netResource msg = do {
     pr \<leftarrow> k_patch (NetworkResources (nsr_Client r))
            (netResource\<lparr>nrs_Conditions := mark_not_ready (nsr_Client r) DependencyReason msg (nrs_Conditions netResource)\<rparr>);
     State_Monad.return (Inl (zero_Result, err_of pr))
   }"

definition resource_service ::
  "'w NetworkResourceReconciler \<Rightarrow> NetworkResource \<Rightarrow> ('w, (Result \<times> goerr option) + Service) go" where
  "resource_service r netResource = do {
     gr \<leftarrow> k_get (Services (nsr_Client r)) (om_Namespace (nrs_Meta netResource), nrs_ServiceRef (nrs_Spec netResource));
     (case gr of
        Inl err \<Rightarrow>
          if k_IsNotFound err then dependency_missing r netResource ''Referenced Service cannot be found.''
          else State_Monad.return (failed err)
      | Inr svc \<Rightarrow>
          if svc_Type svc \<noteq> ''ClusterIP''
          then dependency_missing r netResource ''Referenced Service is not of type ClusterIP.''
          else if svc_ClusterIP svc = '''' \<or> svc_ClusterIP svc = ''None''
          then dependency_missing r netResource ''Referenced Service does not have a ClusterIP set.''
          else State_Monad.return (Inr svc))
   }"

definition router_key :: "NetworkResource \<Rightarrow> nn" where
  "router_key netResource =
     (xref_Namespace (nrs_NetworkRouterRef (nrs_Spec netResource)), xref_Name (nrs_NetworkRouterRef (nrs_Spec netResource)))"

definition resource_router ::
  "'w NetworkResourceReconciler \<Rightarrow> NetworkResource \<Rightarrow> ('w, (Result \<times> goerr option) + NetworkRouter) go" where
  "resource_router r netResource = do {
     gr \<leftarrow> k_get (NetworkRouters (nsr_Client r)) (router_key netResource);
     (case gr of
        Inl err \<Rightarrow>
          if k_IsNotFound err then dependency_missing r netResource ''Referenced NetworkRouter cannot be found.''
          else State_Monad.return (failed err)
      | Inr netRouter \<Rightarrow>
          if nro_NetworkID netRouter = '''' \<or> nro_RoutingPeerID netRouter = ''''
          then dependency_missing r netResource ''Referenced NetworkRouter is not ready.''
          else State_Monad.return (Inr netRouter))
   }"

definition netresource_request :: "NetworkResource \<Rightarrow> Service \<Rightarrow> string list \<Rightarrow> ResourceRequest" where
  "netresource_request netResource svc groupIDs =
     \<lparr>resr_Address = svc_ClusterIP svc, resr_Enabled = True, resr_Groups = groupIDs,
      resr_Description = Some (om_Name (svc_Meta svc) @ ''/'' @ om_Namespace (svc_Meta svc)),
      resr_Name = om_UID (nrs_Meta netResource)\<rparr>"

text \<open>The groups, the resource upstream, and its ID stored together with the finalizer.\<close>

definition resource_upstream ::
  "'w NetworkResourceReconciler \<Rightarrow> NetworkResource \<Rightarrow> Service \<Rightarrow> NetworkRouter \<Rightarrow>
     ('w, (Result \<times> goerr option) + NetworkResource) go" where
  "resource_upstream r netResource svc netRouter = do {
     gr \<leftarrow> GetGroupIDs (nsr_Client r) (nsr_OpenZro r) (nrs_Groups (nrs_Spec netResource)) (om_Namespace (nrs_Meta netResource));
     (case gr of
        Inl err \<Rightarrow> State_Monad.return (failed err)
      | Inr groupIDs \<Rightarrow> do {
          let n0 = NetworkResource_guarded r netResource;
          er \<leftarrow> upsert (Resources (nsr_OpenZro r) (nro_NetworkID netRouter)) (Resources (nsr_OpenZro r) (nro_NetworkID netRouter)) ares_Id
                 (nonempty (nrs_ResourceID n0)) (netresource_request n0 svc groupIDs);
          (case er of
             Inl err \<Rightarrow> State_Monad.return (failed err)
           | Inr resourceID \<Rightarrow> do {
               pr \<leftarrow> k_patch (NetworkResources (nsr_Client r))
                      (n0\<lparr>nrs_NetworkID := nro_NetworkID netRouter, nrs_ResourceID := resourceID\<rparr>);
               State_Monad.return (case pr of Inl err \<Rightarrow> failed err | Inr n1 \<Rightarrow> Inr n1) }) })
   }"

definition record_request :: "Service \<Rightarrow> DNSZone \<Rightarrow> DNSRecordRequest" where
  "record_request svc zone =
     \<lparr>drr_Content = svc_ClusterIP svc,
      drr_Name = str_join ''.'' [om_Name (svc_Meta svc), om_Namespace (svc_Meta svc), dz_Name zone],
      drr_Ttl = Some 300, drr_Type = ''A''\<rparr>"

text \<open>If the zone has changed, the old record is deleted and forgotten.\<close>

definition forget_old_record ::
  "'w NetworkResourceReconciler \<Rightarrow> NetworkResource \<Rightarrow> DNSZone \<Rightarrow> ('w, (Result \<times> goerr option) + NetworkResource) go" where
  "forget_old_record r netResource zone =
     (if nrs_DNSZoneID netResource \<noteq> '''' \<and> nrs_DNSZoneID netResource \<noteq> dz_Id zone
      then do {
        de \<leftarrow> delete_recorded (Records (nsr_OpenZro r) (nrs_DNSZoneID netResource)) (Some (nrs_DNSRecordID netResource));
        State_Monad.return (case de of
          Some err \<Rightarrow> failed err
        | None \<Rightarrow> Inr (netResource\<lparr>nrs_DNSZoneID := '''', nrs_DNSRecordID := ''''\<rparr>)) }
      else State_Monad.return (Inr netResource))"

definition recorded_record :: "NetworkResource \<Rightarrow> string option" where
  "recorded_record netResource =
     (if nrs_DNSZoneID netResource \<noteq> '''' \<and> nrs_DNSRecordID netResource \<noteq> '''' then Some (nrs_DNSRecordID netResource) else None)"

definition NetworkResource_ready :: "'w NetworkResourceReconciler \<Rightarrow> DNSZone \<Rightarrow> string \<Rightarrow> NetworkResource \<Rightarrow> NetworkResource" where
  "NetworkResource_ready r zone recordID n = n\<lparr>nrs_DNSZoneID := dz_Id zone, nrs_DNSRecordID := recordID,
     nrs_Conditions := mark_ready (nsr_Client r) (nrs_Conditions n)\<rparr>"

definition resource_record ::
  "'w NetworkResourceReconciler \<Rightarrow> Service \<Rightarrow> DNSZone \<Rightarrow> NetworkResource \<Rightarrow> ('w, Result \<times> goerr option) go" where
  "resource_record r svc zone netResource = do {
     er \<leftarrow> upsert (Records (nsr_OpenZro r) (nrs_DNSZoneID netResource)) (Records (nsr_OpenZro r) (dz_Id zone)) dr_Id
            (recorded_record netResource) (record_request svc zone);
     (case er of
        Inl err \<Rightarrow> State_Monad.return (zero_Result, Some err)
      | Inr recordID \<Rightarrow> do {
          pr \<leftarrow> k_patch (NetworkResources (nsr_Client r)) (NetworkResource_ready r zone recordID netResource);
          State_Monad.return (zero_Result, err_of pr) })
   }"

definition resource_zone ::
  "'w NetworkResourceReconciler \<Rightarrow> NetworkRouter \<Rightarrow> ('w, (Result \<times> goerr option) + DNSZone) go" where
  "resource_zone r netRouter = do {
     zr \<leftarrow> GetDNSZoneByName (nsr_OpenZro r) (nro_DNSZoneRef (nro_Spec netRouter));
     State_Monad.return (case zr of Inl err \<Rightarrow> failed err | Inr zone \<Rightarrow> Inr zone)
   }"

definition NetworkResource_sync :: "'w NetworkResourceReconciler \<Rightarrow> NetworkResource \<Rightarrow> ('w, Result \<times> goerr option) go" where
  "NetworkResource_sync r netResource =
     early (resource_service r netResource) (\<lambda>svc.
     early (resource_router r netResource) (\<lambda>netRouter.
     early (resource_upstream r netResource svc netRouter) (\<lambda>n1.
     early (resource_zone r netRouter) (\<lambda>zone.
     early (forget_old_record r n1 zone) (\<lambda>n2.
     resource_record r svc zone n2)))))"

definition recorded_resource :: "NetworkResource \<Rightarrow> string option" where
  "recorded_resource n =
     (if nrs_NetworkID n \<noteq> '''' \<and> nrs_ResourceID n \<noteq> '''' then Some (nrs_ResourceID n) else None)"

definition NetworkResource_reconcileDelete ::
  "'w NetworkResourceReconciler \<Rightarrow> NetworkResource \<Rightarrow> ('w, Result \<times> goerr option) go" where
  "NetworkResource_reconcileDelete r netResource = do {
     e1 \<leftarrow> delete_recorded (Resources (nsr_OpenZro r) (nrs_NetworkID netResource)) (recorded_resource netResource);
     (case e1 of
        Some err \<Rightarrow> State_Monad.return (zero_Result, Some err)
      | None \<Rightarrow> do {
          e2 \<leftarrow> delete_recorded (Records (nsr_OpenZro r) (nrs_DNSZoneID netResource)) (recorded_record netResource);
          (case e2 of
             Some err \<Rightarrow> State_Monad.return (zero_Result, Some err)
           | None \<Rightarrow> do {
               pr \<leftarrow> k_patch (NetworkResources (nsr_Client r)) (NetworkResource_released r netResource);
               State_Monad.return (zero_Result, err_of pr) }) })
   }"

definition NetworkResource_body :: "'w NetworkResourceReconciler \<Rightarrow> nn \<Rightarrow> NetworkResource \<Rightarrow> ('w, Result \<times> goerr option) go" where
  "NetworkResource_body r req netResource =
     (if om_DeletionTimestamp (nrs_Meta netResource) \<noteq> None then NetworkResource_reconcileDelete r netResource
      else NetworkResource_sync r netResource)"

definition NetworkResource_Reconcile :: "'w NetworkResourceReconciler \<Rightarrow> nn \<Rightarrow> ('w, Result \<times> goerr option) go" where
  "NetworkResource_Reconcile r req = do {
     gr \<leftarrow> k_get (NetworkResources (nsr_Client r)) req;
     (case gr of
        Inl err \<Rightarrow> State_Monad.return (zero_Result, IgnoreNotFound err)
      | Inr netResource \<Rightarrow> NetworkResource_body r req netResource)
   }"

section \<open>Indexes and watches\<close>

text \<open>The values under which the cache indexes a network resource.\<close>

definition router_index :: "NetworkResource \<Rightarrow> string list" where
  "router_index netResource =
     (let ref = nrs_NetworkRouterRef (nrs_Spec netResource)
      in if xref_Name ref = '''' then []
         else [xref_Name ref @ ''/'' @
           (if xref_Namespace ref = '''' then om_Namespace (nrs_Meta netResource) else xref_Namespace ref)])"

definition service_index :: "NetworkResource \<Rightarrow> string list" where
  "service_index netResource =
     (if nrs_ServiceRef (nrs_Spec netResource) = '''' then [] else [nrs_ServiceRef (nrs_Spec netResource)])"

text \<open>The value a changed router is looked up under, and the requests for what the listing answered.\<close>

definition router_index_value :: "ObjectMeta \<Rightarrow> string" where
  "router_index_value m = om_Name m @ ''/'' @ om_Namespace m"

definition resource_requests :: "goerr + NetworkResource list \<Rightarrow> nn list" where
  "resource_requests listed = (case listed of
     Inl _ \<Rightarrow> []
   | Inr items \<Rightarrow> map (\<lambda>item. (om_Namespace (nrs_Meta item), om_Name (nrs_Meta item))) items)"

section \<open>Properties\<close>

lemma NetworkResource_guarded_simps [simp]:
  "nrs_ResourceID (NetworkResource_guarded r n) = nrs_ResourceID n"
  "netresource_request (NetworkResource_guarded r n) svc ids = netresource_request n svc ids"
  by (simp_all add: NetworkResource_guarded_def set_nrs_finalizers_def netresource_request_def)

definition resource_cleaned :: "NetworkResource \<Rightarrow> event list \<Rightarrow> bool" where
  "resource_cleaned n evs \<longleftrightarrow>
     gone (CResources (nrs_NetworkID n)) (recorded_resource n) evs \<and>
     gone (CRecords (nrs_DNSZoneID n)) (recorded_record n) evs"

lemma NetworkResource_delete_spec:
  "emits (NetworkResource_reconcileDelete r n) (\<lambda>_ evs. no_creates evs \<and>
     patches_only (\<lambda>o'. o' = KNetworkResource (NetworkResource_released r n) \<and> resource_cleaned n evs) evs)"
  unfolding NetworkResource_reconcileDelete_def k_patch_def NetworkResources_def
  by (auto intro!: emits_bind [OF emits_delete_recorded] emits_intros
       simp: Resources_def Records_def resource_cleaned_def split: option.splits)

text \<open>A dependency is missing: only reads, and the object stored as not ready.\<close>

definition not_ready_stored :: "'w NetworkResourceReconciler \<Rightarrow> NetworkResource \<Rightarrow> event list \<Rightarrow> bool" where
  "not_ready_stored r n evs \<longleftrightarrow> (\<exists>reads msg y. (\<forall>e \<in> set reads. \<not> is_write e) \<and>
     evs = reads @ [EPatch (KNetworkResource (n\<lparr>nrs_Conditions :=
       mark_not_ready (nsr_Client r) DependencyReason msg (nrs_Conditions n)\<rparr>)) (Inr (KNetworkResource y))])"

lemma not_ready_stored_reads:
  "\<forall>e \<in> set reads. \<not> is_write e \<Longrightarrow> not_ready_stored r n evs \<Longrightarrow> not_ready_stored r n (reads @ evs)"
  unfolding not_ready_stored_def
proof (elim exE conjE)
  fix rs msg y
  assume "\<forall>e \<in> set reads. \<not> is_write e" "\<forall>e \<in> set rs. \<not> is_write e"
  then have "\<forall>e \<in> set (reads @ rs). \<not> is_write e" by auto
  moreover assume "evs = rs @ [EPatch (KNetworkResource (n\<lparr>nrs_Conditions :=
       mark_not_ready (nsr_Client r) DependencyReason msg (nrs_Conditions n)\<rparr>)) (Inr (KNetworkResource y))]"
  ultimately show "\<exists>rs msg y. (\<forall>e \<in> set rs. \<not> is_write e) \<and> reads @ evs = rs @ [EPatch (KNetworkResource (n\<lparr>nrs_Conditions :=
       mark_not_ready (nsr_Client r) DependencyReason msg (nrs_Conditions n)\<rparr>)) (Inr (KNetworkResource y))]"
    by (metis append_assoc)
qed

definition stopped :: "'w NetworkResourceReconciler \<Rightarrow> NetworkResource \<Rightarrow> Result \<times> goerr option \<Rightarrow> event list \<Rightarrow> bool" where
  "stopped r n out evs \<longleftrightarrow> fst out = zero_Result \<and> (snd out \<noteq> None \<or> not_ready_stored r n evs)"

lemma emits_dependency_missing:
  "emits (dependency_missing r n msg) (\<lambda>x evs. case x of Inl out \<Rightarrow> stopped r n out evs | Inr _ \<Rightarrow> False)"
  unfolding dependency_missing_def k_patch_def NetworkResources_def
  by (force intro!: emits_intros simp: stopped_def not_ready_stored_def err_of_def split: sum.splits)

definition cluster_service :: "NetworkResource \<Rightarrow> Service \<Rightarrow> event \<Rightarrow> bool" where
  "cluster_service n svc e \<longleftrightarrow>
     e = EGet ''Service'' (om_Namespace (nrs_Meta n), nrs_ServiceRef (nrs_Spec n)) (Inr (KService svc)) \<and>
     svc_Type svc = ''ClusterIP'' \<and> svc_ClusterIP svc \<noteq> '''' \<and> svc_ClusterIP svc \<noteq> ''None''"

definition ready_router :: "NetworkResource \<Rightarrow> NetworkRouter \<Rightarrow> event \<Rightarrow> bool" where
  "ready_router n nr e \<longleftrightarrow> e = EGet ''NetworkRouter'' (router_key n) (Inr (KNetworkRouter nr)) \<and>
     nro_NetworkID nr \<noteq> '''' \<and> nro_RoutingPeerID nr \<noteq> ''''"

lemma stopped_Cons: "stopped r n out evs \<Longrightarrow> \<not> is_write e \<Longrightarrow> stopped r n out (e # evs)"
  using not_ready_stored_reads [of "[e]"] by (auto simp: stopped_def)

lemma emits_resource_service:
  "emits (resource_service r n) (\<lambda>x evs. case x of Inl out \<Rightarrow> stopped r n out evs
     | Inr svc \<Rightarrow> \<exists>e. evs = [e] \<and> cluster_service n svc e)"
  unfolding resource_service_def k_get_def Services_def
  by (auto intro!: emits_intros emits_mono [OF emits_dependency_missing] stopped_Cons
       simp: cluster_service_def failed_def stopped_def [of r n "(zero_Result, Some _)"] split: sum.splits)

lemma emits_resource_router:
  "emits (resource_router r n) (\<lambda>x evs. case x of Inl out \<Rightarrow> stopped r n out evs
     | Inr nr \<Rightarrow> \<exists>e. evs = [e] \<and> ready_router n nr e)"
  unfolding resource_router_def k_get_def NetworkRouters_def
  by (auto intro!: emits_intros emits_mono [OF emits_dependency_missing] stopped_Cons
       simp: ready_router_def failed_def stopped_def [of r n "(zero_Result, Some _)"] split: sum.splits)

text \<open>The resource upstream and the DNS record.\<close>

definition upstream_stage ::
  "'w NetworkResourceReconciler \<Rightarrow> NetworkResource \<Rightarrow> Service \<Rightarrow> NetworkRouter \<Rightarrow> NetworkResource \<Rightarrow> event list \<Rightarrow> bool" where
  "upstream_stage r n svc nr n1 evs \<longleftrightarrow> (\<exists>reads ids resourceID ups.
     evs = reads @ ups @ [EPatch (KNetworkResource ((NetworkResource_guarded r n)\<lparr>nrs_NetworkID := nro_NetworkID nr,
       nrs_ResourceID := resourceID\<rparr>)) (Inr (KNetworkResource n1))] \<and>
     (\<forall>e \<in> set reads. \<not> is_write e) \<and>
     list_all2 (resolved (om_Namespace (nrs_Meta n)) reads) (filter names_group (nrs_Groups (nrs_Spec n))) ids \<and>
     upsert_trace (CResources (nro_NetworkID nr)) (CResources (nro_NetworkID nr)) RResource ares_Id (nonempty (nrs_ResourceID n))
       (QResource (netresource_request n svc ids)) (Inr resourceID) ups)"

definition dns_stage ::
  "'w NetworkResourceReconciler \<Rightarrow> Service \<Rightarrow> NetworkRouter \<Rightarrow> NetworkResource \<Rightarrow> event list \<Rightarrow> bool" where
  "dns_stage r svc nr n1 evs \<longleftrightarrow> (\<exists>rs zone del n2 recordID ups n3.
     evs = OList CZones (Inr rs) # del @ ups @ [EPatch (KNetworkResource (NetworkResource_ready r zone recordID n2)) (Inr (KNetworkResource n3))] \<and>
     RZone zone \<in> set rs \<and> dz_Name zone = nro_DNSZoneRef (nro_Spec nr) \<and>
     (if nrs_DNSZoneID n1 \<noteq> '''' \<and> nrs_DNSZoneID n1 \<noteq> dz_Id zone
      then gone (CRecords (nrs_DNSZoneID n1)) (Some (nrs_DNSRecordID n1)) del \<and> n2 = n1\<lparr>nrs_DNSZoneID := '''', nrs_DNSRecordID := ''''\<rparr>
      else del = [] \<and> n2 = n1) \<and>
     upsert_trace (CRecords (nrs_DNSZoneID n2)) (CRecords (dz_Id zone)) RRecord dr_Id (recorded_record n2)
       (QRecord (record_request svc zone)) (Inr recordID) ups)"

lemma emits_resource_upstream:
  "emits (resource_upstream r n svc nr) (\<lambda>x evs. case x of
     Inl (res, err) \<Rightarrow> res = zero_Result \<and> err \<noteq> None | Inr n1 \<Rightarrow> upstream_stage r n svc nr n1 evs)"
  unfolding resource_upstream_def k_patch_def NetworkResources_def Let_def
proof (rule emits_bind [OF GetGroupIDs_resolves], goal_cases)
  case (1 gr reads)
  then show ?case
    by (cases gr)
       (auto intro!: emits_intros emits_bind [OF resources.ensure_trace] simp: failed_def split: sum.splits,
        unfold upstream_stage_def, blast)
qed

lemma emits_resource_zone:
  "emits (resource_zone r nr) (\<lambda>x evs. case x of
     Inl (res, err) \<Rightarrow> res = zero_Result \<and> err \<noteq> None
   | Inr zone \<Rightarrow> \<exists>rs. evs = [OList CZones (Inr rs)] \<and> RZone zone \<in> set rs \<and> dz_Name zone = nro_DNSZoneRef (nro_Spec nr))"
  unfolding resource_zone_def
  by (rule emits_bind [OF emits_GetDNSZoneByName]) (auto intro!: emits_intros simp: failed_def split: sum.splits)

lemma emits_forget_old_record:
  "emits (forget_old_record r n1 zone) (\<lambda>x del. case x of
     Inl (res, err) \<Rightarrow> res = zero_Result \<and> err \<noteq> None
   | Inr n2 \<Rightarrow> if nrs_DNSZoneID n1 \<noteq> '''' \<and> nrs_DNSZoneID n1 \<noteq> dz_Id zone
      then gone (CRecords (nrs_DNSZoneID n1)) (Some (nrs_DNSRecordID n1)) del \<and> n2 = n1\<lparr>nrs_DNSZoneID := '''', nrs_DNSRecordID := ''''\<rparr>
      else del = [] \<and> n2 = n1)"
  unfolding forget_old_record_def
  by (auto intro!: emits_intros emits_bind [OF emits_delete_recorded] simp: failed_def Records_def split: option.splits)

lemma emits_resource_record:
  "emits (resource_record r svc zone n2) (\<lambda>(res, err) evs. res = zero_Result \<and> (err \<noteq> None \<or> (\<exists>ups recordID n3.
     evs = ups @ [EPatch (KNetworkResource (NetworkResource_ready r zone recordID n2)) (Inr (KNetworkResource n3))] \<and>
     upsert_trace (CRecords (nrs_DNSZoneID n2)) (CRecords (dz_Id zone)) RRecord dr_Id (recorded_record n2)
       (QRecord (record_request svc zone)) (Inr recordID) ups)))"
  unfolding resource_record_def k_patch_def NetworkResources_def
  by (rule emits_bind [OF records.ensure_trace]) (auto intro!: emits_intros simp: err_of_def split: sum.splits)

text \<open>A run that ends with the resource ready.\<close>

definition network_resource_ready :: "'w NetworkResourceReconciler \<Rightarrow> NetworkResource \<Rightarrow> event list \<Rightarrow> bool" where
  "network_resource_ready r n evs \<longleftrightarrow> (\<exists>e1 e2 e3 e4 svc nr n1.
     evs = e1 # e2 # e3 @ e4 \<and> cluster_service n svc e1 \<and> ready_router n nr e2 \<and>
     upstream_stage r n svc nr n1 e3 \<and> dns_stage r svc nr n1 e4)"

lemma emits_resource_dns:
  "emits (early (resource_zone r nr) (\<lambda>zone. early (forget_old_record r n1 zone) (\<lambda>n2. resource_record r svc zone n2)))
     (\<lambda>(res, err) evs. res = zero_Result \<and> (err \<noteq> None \<or> dns_stage r svc nr n1 evs))"
proof (rule emits_early [OF emits_resource_zone], goal_cases)
  case (2 zone e1)
  then obtain rs where z: "e1 = [OList CZones (Inr rs)]" "RZone zone \<in> set rs" "dz_Name zone = nro_DNSZoneRef (nro_Spec nr)" by auto
  show ?case
  proof (rule emits_early [OF emits_forget_old_record], goal_cases)
    case (2 n2 del)
    have "dns_stage r svc nr n1 (e1 @ del @ ups @ [EPatch (KNetworkResource (NetworkResource_ready r zone recordID n2)) (Inr (KNetworkResource n3))])"
      if "upsert_trace (CRecords (nrs_DNSZoneID n2)) (CRecords (dz_Id zone)) RRecord dr_Id (recorded_record n2)
        (QRecord (record_request svc zone)) (Inr recordID) ups" for ups recordID n3
      unfolding dns_stage_def
      by (rule exI [of _ rs], rule exI [of _ zone], rule exI [of _ del], rule exI [of _ n2], rule exI [of _ recordID],
          rule exI [of _ ups], rule exI [of _ n3]) (use z 2 that in simp)
    then show ?case by (auto intro!: emits_mono [OF emits_resource_record])
  qed auto
qed auto

lemma NetworkResource_sync_ready:
  "emits (NetworkResource_sync r n) (\<lambda>out evs. stopped r n out evs \<or> (out = (zero_Result, None) \<and> network_resource_ready r n evs))"
  unfolding NetworkResource_sync_def
proof (rule emits_early [OF emits_resource_service], goal_cases)
  case (2 svc e1)
  then obtain f1 where e1: "e1 = [f1]" and s1: "cluster_service n svc f1" by auto
  show ?case
  proof (rule emits_early [OF emits_resource_router], goal_cases)
    case (2 nr e2)
    then obtain f2 where e2: "e2 = [f2]" and s2: "ready_router n nr f2" by auto
    show ?case
    proof (rule emits_early [OF emits_resource_upstream], goal_cases)
      case (2 n1 e3)
      have "network_resource_ready r n (e1 @ e2 @ e3 @ e4)" if "dns_stage r svc nr n1 e4" for e4
        unfolding network_resource_ready_def
        by (rule exI [of _ f1], rule exI [of _ f2], rule exI [of _ e3], rule exI [of _ e4], rule exI [of _ svc],
            rule exI [of _ nr], rule exI [of _ n1]) (use s1 s2 2 that in \<open>simp add: e1 e2\<close>)
      then show ?case by (auto intro!: emits_mono [OF emits_resource_dns] simp: stopped_def)
    qed (auto simp: stopped_def)
  qed (use s1 in \<open>auto simp: e1 cluster_service_def intro!: stopped_Cons\<close>)
qed auto

lemma NetworkResource_body_logs: "emits (NetworkResource_body r req n) (\<lambda>_ _. True)"
  unfolding NetworkResource_body_def
  by (auto intro!: emits_mono [OF NetworkResource_delete_spec] emits_mono [OF NetworkResource_sync_ready])

interpretation network_resource: finalized "NetworkResources (nsr_Client r)" nrs_Meta "\<lambda>x. x" "NetworkResource_Reconcile r"
  "NetworkResource_body r" "NetworkResource_released r" resource_cleaned for r
  by unfold_locales
     (simp_all add: NetworkResources_def NetworkResource_Reconcile_def NetworkResource_body_logs,
      simp add: NetworkResource_body_def NetworkResource_delete_spec)

section \<open>Claims\<close>

text \<open>
  C9. Reconciling a network resource that exists and is not being deleted either reports an error, or
  ends without any write but one patch that stores the Ready condition as false with the dependency
  reason, or has done everything: the Service was read and has a cluster address; the router was read
  and has a network and a routing peer; the resource was updated or created in that network with the
  Service's address and the resolved groups, and its ID was stored with the finalizer; the record of
  a zone that is no longer the router's was deleted; the record was updated or created in the
  router's zone, and its ID was stored with the Ready condition.
\<close>

theorem network_resource_reconciled:
  "emits (NetworkResource_Reconcile r req) (\<lambda>(res, err) evs. \<forall>n rest.
     evs = EGet ''NetworkResource'' req (Inr (KNetworkResource n)) # rest \<and> om_DeletionTimestamp (nrs_Meta n) = None \<longrightarrow>
     res = zero_Result \<and> (err \<noteq> None \<or> not_ready_stored r n rest \<or> network_resource_ready r n rest))"
proof -
  have "emits (NetworkResource_body r req n) (\<lambda>out evs. om_DeletionTimestamp (nrs_Meta n) = None \<longrightarrow>
     stopped r n out evs \<or> (out = (zero_Result, None) \<and> network_resource_ready r n evs))" for n
    by (rule emits_imp [OF NetworkResource_body_logs]) (simp add: NetworkResource_body_def NetworkResource_sync_ready)
  from network_resource.reconcile_emits [OF this] show ?thesis
    by (rule emits_mono) (auto simp: NetworkResources_def stopped_def)
qed

definition demo_resource :: NetworkResource where
  "demo_resource = \<lparr>nrs_Meta = zero_ObjectMeta\<lparr>om_Name := ''x'', om_Namespace := ''ns'', om_UID := ''u''\<rparr>,
     nrs_Spec = \<lparr>nrs_NetworkRouterRef = \<lparr>xref_Name = ''r'', xref_Namespace = ''ns''\<rparr>, nrs_ServiceRef = ''svc'', nrs_Groups = []\<rparr>,
     nrs_Conditions = [], nrs_NetworkID = '''', nrs_ResourceID = '''', nrs_DNSZoneID = ''z0'', nrs_DNSRecordID = ''old''\<rparr>"

definition demo_resource_env :: "unit NetworkResourceReconciler" where
  "demo_resource_env = \<lparr>nsr_Client = down_Client\<lparr>
       c_NetworkResources := down_kind\<lparr>kc_get := \<lambda>_ w. (Inr demo_resource, w), kc_patch := \<lambda>n w. (Inr n, w)\<rparr>,
       c_Services := down_kind\<lparr>kc_get := \<lambda>_ w. (Inr \<lparr>svc_Meta = zero_ObjectMeta\<lparr>om_Name := ''svc'', om_Namespace := ''ns''\<rparr>,
         svc_Type = ''ClusterIP'', svc_ClusterIP = ''10.0.0.1'', svc_Ports = []\<rparr>, w)\<rparr>,
       c_NetworkRouters := down_kind\<lparr>kc_get := \<lambda>_ w. (Inr \<lparr>nro_Meta = zero_ObjectMeta\<lparr>om_Name := ''r'', om_Namespace := ''ns''\<rparr>,
         nro_Spec = \<lparr>nro_DNSZoneRef = ''zone'', nro_WorkloadOverride = None\<rparr>, nro_Conditions = [], nro_RoutingPeerID = ''p1'',
         nro_NetworkID = ''n1''\<rparr>, w)\<rparr>\<rparr>,
     nsr_OpenZro = down_OpenZro\<lparr>
       oz_Zones := down_rest\<lparr>rs_list := \<lambda>w. (Inr [\<lparr>dz_Id = ''z1'', dz_Name = ''zone'', dz_Domain = ''zone'', dz_DistributionGroups = [], dz_EnableSearchDomain = False, dz_Enabled = None\<rparr>], w)\<rparr>,
       oz_Resources := \<lambda>_. down_rest\<lparr>rs_create := \<lambda>q w. (Inr \<lparr>ares_Id = ''x1'', ares_Address = resr_Address q, ares_Enabled = True,
         ares_Groups = [], ares_Description = resr_Description q, ares_Name = resr_Name q\<rparr>, w)\<rparr>,
       oz_Records := \<lambda>_. down_rest\<lparr>rs_delete := \<lambda>_ w. (None, w), rs_create := \<lambda>q w. (Inr \<lparr>dr_Id = ''d1'', dr_Content = drr_Content q,
         dr_Name = drr_Name q, dr_Ttl = drr_Ttl q, dr_Type = drr_Type q\<rparr>, w)\<rparr>\<rparr>\<rparr>"

lemmas demo_resource_defs = demo_resource_def down_defs zero_ObjectMeta_def early_def GetDNSZoneByName_def upsert_def nonempty_def failed_def
  NetworkResource_guarded_def set_nrs_finalizers_def call_defs

theorem network_resource_reconciled_witness:
  "let (x, t) = run_state (NetworkResource_Reconcile demo_resource_env (''ns'', ''x'')) start
   in x = (zero_Result, None) \<and> network_resource_ready demo_resource_env demo_resource (tl (wlog t))"
proof -
  let ?m = "NetworkResource_Reconcile demo_resource_env (''ns'', ''x'')"
  have run: "fst (run_state ?m start) = (zero_Result, None)"
    and log: "\<exists>rest. wlog (snd (run_state ?m start)) = EGet ''NetworkResource'' (''ns'', ''x'') (Inr (KNetworkResource demo_resource)) # rest"
    and crt: "\<exists>q a. OCreate (CRecords ''z1'') q a \<in> set (wlog (snd (run_state ?m start)))"
    by (simp_all add: NetworkResource_Reconcile_def NetworkResource_body_def NetworkResource_sync_def resource_service_def resource_router_def
        router_key_def resource_upstream_def GetGroupIDs_def resource_zone_def forget_old_record_def delete_recorded_def Let_def
        resource_record_def recorded_record_def demo_resource_env_def demo_resource_defs)
  from log obtain rest where rest: "wlog (snd (run_state ?m start)) =
    EGet ''NetworkResource'' (''ns'', ''x'') (Inr (KNetworkResource demo_resource)) # rest" ..
  with crt have "\<not> not_ready_stored demo_resource_env demo_resource rest"
    by (fastforce simp: not_ready_stored_def)
  with run rest show ?thesis
    using emits_start [OF network_resource_reconciled [of demo_resource_env "(''ns'', ''x'')"]]
    by (auto simp: split_beta demo_resource_def zero_ObjectMeta_def)
qed

text \<open>Values of the form \<open>name/namespace\<close> determine both parts, since a name has no slash.\<close>

lemma slash_pair_eq:
  "CHR ''/'' \<notin> set a \<Longrightarrow> CHR ''/'' \<notin> set c \<Longrightarrow> a @ CHR ''/'' # b = c @ CHR ''/'' # d \<longleftrightarrow> a = c \<and> b = d"
proof (induction a arbitrary: c)
  case Nil
  then show ?case by (cases c) auto
next
  case (Cons x a)
  then show ?case by (cases c) auto
qed

text \<open>What the watch relies on: the references have a name, which has no slash, and a namespace.\<close>

definition full_reference :: "NetworkResource \<Rightarrow> bool" where
  "full_reference x \<longleftrightarrow> xref_Name (nrs_NetworkRouterRef (nrs_Spec x)) \<noteq> '''' \<and>
     CHR ''/'' \<notin> set (xref_Name (nrs_NetworkRouterRef (nrs_Spec x))) \<and> xref_Namespace (nrs_NetworkRouterRef (nrs_Spec x)) \<noteq> ''''"

lemma router_index_key:
  "full_reference x \<Longrightarrow> CHR ''/'' \<notin> set (om_Name m) \<Longrightarrow>
     router_index_value m \<in> set (router_index x) \<longleftrightarrow> router_key x = (om_Namespace m, om_Name m)"
  by (auto simp: full_reference_def router_index_value_def router_index_def router_key_def Let_def slash_pair_eq)

text \<open>
  C29. A change of a router reconciles exactly the network resources that follow it: when the cache
  answers the lookup of the watch with those of its objects that are indexed under the router's
  value, and the references are complete, a request is made for a resource exactly when the key that
  \<open>Reconcile\<close> reads for that resource is the router's.
\<close>

theorem router_watch_follows_reference:
  assumes "CHR ''/'' \<notin> set (om_Name m)" "\<forall>x \<in> set cache. full_reference x"
    and "listed = Inr (filter (\<lambda>x. router_index_value m \<in> set (router_index x)) cache)"
  shows "set (resource_requests listed) =
     (\<lambda>x. (om_Namespace (nrs_Meta x), om_Name (nrs_Meta x))) ` {x \<in> set cache. router_key x = (om_Namespace m, om_Name m)}"
  using assms router_index_key by (auto simp: resource_requests_def)

theorem router_watch_follows_reference_witness:
  "set (resource_requests (Inr (filter (\<lambda>x. router_index_value (zero_ObjectMeta\<lparr>om_Name := ''r'', om_Namespace := ''ns''\<rparr>)
     \<in> set (router_index x)) [demo_resource]))) = {(''ns'', ''x'')}"
proof -
  let ?m = "zero_ObjectMeta\<lparr>om_Name := ''r'', om_Namespace := ''ns''\<rparr>"
  have slash: "CHR ''/'' \<notin> set (om_Name ?m)" by simp
  have full: "\<forall>x \<in> set [demo_resource]. full_reference x" by (simp add: full_reference_def demo_resource_def)
  have key: "{x \<in> set [demo_resource]. router_key x = (om_Namespace ?m, om_Name ?m)} = {demo_resource}"
    by (auto simp: router_key_def demo_resource_def)
  have "om_Namespace (nrs_Meta demo_resource) = ''ns''" "om_Name (nrs_Meta demo_resource) = ''x''"
    by (simp_all add: demo_resource_def)
  then show ?thesis
    by (simp only: router_watch_follows_reference [OF slash full refl] key image_insert image_empty)
qed

text \<open>A reference without a namespace is indexed under the resource's own, which \<open>Reconcile\<close> does not fill in.\<close>

lemma resource_namespace_not_defaulted:
  assumes "xref_Namespace (nrs_NetworkRouterRef (nrs_Spec x)) = ''''" "xref_Name (nrs_NetworkRouterRef (nrs_Spec x)) \<noteq> ''''"
  shows "router_index x = [xref_Name (nrs_NetworkRouterRef (nrs_Spec x)) @ ''/'' @ om_Namespace (nrs_Meta x)]"
    and "fst (router_key x) = ''''"
  using assms by (simp_all add: router_index_def router_key_def Let_def)

end
