(* ===== verification/OpenZro_Mock.thy ===== *)
theory OpenZro_Mock
  imports Group_Controller NetworkRouter_Controller NetworkResource_Controller
begin

text \<open>
  \<open>internal/openzromock\<close>: the management server that the repository's tests run the v1alpha1 controllers
  against, an in-memory store per collection behind HTTP handlers. Transport and JSON coding are left
  out; the client library turns the status 404 into the error that \<open>openzro.IsNotFound\<close> recognises. The
  contract \<open>rest_store\<close> says what the controllers rely on, and the handlers meet it, so the idioms of
  \<open>Alpha_Common\<close> are refinements of single updates of an abstract map.
\<close>

section \<open>The server\<close>

text \<open>
  The stores, by ID, and the number of random numbers drawn so far. The collections below a network or
  a zone have one store for all networks or zones, as in the handlers.
\<close>

record mock =
  mk_draws :: nat
  mk_groups :: "(string \<times> ApiGroup) list"
  mk_keys :: "(string \<times> ApiSetupKey) list"
  mk_networks :: "(string \<times> ApiNetwork) list"
  mk_routers :: "(string \<times> ApiRouter) list"
  mk_resources :: "(string \<times> ApiResource) list"
  mk_zones :: "(string \<times> DNSZone) list"
  mk_records :: "(string \<times> DNSRecord) list"

text \<open>The stream of \<open>rand.Int64\<close> and the order of a \<open>range\<close> over a store.\<close>

record randomness =
  rn_int :: "nat \<Rightarrow> int"
  rn_rank :: "nat \<Rightarrow> string \<Rightarrow> nat"

text \<open>How a handler reads and writes its store.\<close>

record ('m, 't) slot =
  sl_get :: "'m \<Rightarrow> (string \<times> 't) list"
  sl_put :: "(string \<times> 't) list \<Rightarrow> 'm \<Rightarrow> 'm"

definition draw :: "randomness \<Rightarrow> 'a mock_scheme \<Rightarrow> int \<times> 'a mock_scheme" where
  "draw rn m = (rn_int rn (mk_draws m), m\<lparr>mk_draws := Suc (mk_draws m)\<rparr>)"

definition not_found :: goerr where "not_found = ONotFound ''Not Found''"

definition list_handler :: "randomness \<Rightarrow> ('a mock_scheme, 't) slot \<Rightarrow> 'a mock_scheme \<Rightarrow> (goerr + 't list) \<times> 'a mock_scheme" where
  "list_handler rn sl m = (Inr (map snd (sort_key (rn_rank rn (mk_draws m) \<circ> fst) (sl_get sl m))), m\<lparr>mk_draws := Suc (mk_draws m)\<rparr>)"

definition get_handler :: "('m, 't) slot \<Rightarrow> string \<Rightarrow> 'm \<Rightarrow> (goerr + 't) \<times> 'm" where
  "get_handler sl i m = (case map_of (sl_get sl m) i of None \<Rightarrow> (Inl not_found, m) | Some respData \<Rightarrow> (Inr respData, m))"

definition post_handler ::
  "randomness \<Rightarrow> ('a mock_scheme, 't) slot \<Rightarrow> (int \<Rightarrow> string \<Rightarrow> 'u \<Rightarrow> 't \<Rightarrow> 't) \<Rightarrow> 't \<Rightarrow> 'u \<Rightarrow> 'a mock_scheme \<Rightarrow> (goerr + 't) \<times> 'a mock_scheme" where
  "post_handler rn sl convertFn zero reqData m =
     (let (n, m1) = draw rn m; (k, m2) = draw rn m1; i = ''id-'' @ format_int n; respData = convertFn k i reqData zero
      in (Inr respData, sl_put sl (AList.update i respData (sl_get sl m2)) m2))"

definition put_handler ::
  "randomness \<Rightarrow> ('a mock_scheme, 't) slot \<Rightarrow> (int \<Rightarrow> string \<Rightarrow> 'u \<Rightarrow> 't \<Rightarrow> 't) \<Rightarrow> string \<Rightarrow> 'u \<Rightarrow> 'a mock_scheme \<Rightarrow> (goerr + 't) \<times> 'a mock_scheme" where
  "put_handler rn sl convertFn i reqData m =
     (case map_of (sl_get sl m) i of
        None \<Rightarrow> (Inl not_found, m)
      | Some old \<Rightarrow>
          (let (k, m1) = draw rn m; respData = convertFn k i reqData old
           in (Inr respData, sl_put sl (AList.update i respData (sl_get sl m1)) m1)))"

definition delete_handler :: "('m, 't) slot \<Rightarrow> string \<Rightarrow> 'm \<Rightarrow> goerr option \<times> 'm" where
  "delete_handler sl i m =
     (case map_of (sl_get sl m) i of
        None \<Rightarrow> (Some not_found, m)
      | Some _ \<Rightarrow> (None, sl_put sl (AList.delete i (sl_get sl m)) m))"

definition addHandler ::
  "randomness \<Rightarrow> ('a mock_scheme, 't) slot \<Rightarrow> (int \<Rightarrow> string \<Rightarrow> 'i \<Rightarrow> 't \<Rightarrow> 't) \<Rightarrow> 't \<Rightarrow> ('q \<Rightarrow> 'i) \<Rightarrow> ('u \<Rightarrow> 'i) \<Rightarrow>
     ('a mock_scheme, 'q, 'u, 't) rest" where
  "addHandler rn sl convertFn zero body ubody = \<lparr>rs_list = list_handler rn sl, rs_get = get_handler sl,
     rs_create = (\<lambda>q. post_handler rn sl convertFn zero (body q)), rs_update = (\<lambda>i u. put_handler rn sl convertFn i (ubody u)),
     rs_delete = delete_handler sl\<rparr>"

section \<open>The collections\<close>

definition group_slot :: "('a mock_scheme, ApiGroup) slot" where
  "group_slot = \<lparr>sl_get = mk_groups, sl_put = \<lambda>x m. m\<lparr>mk_groups := x\<rparr>\<rparr>"
definition key_slot :: "('a mock_scheme, ApiSetupKey) slot" where
  "key_slot = \<lparr>sl_get = mk_keys, sl_put = \<lambda>x m. m\<lparr>mk_keys := x\<rparr>\<rparr>"
definition network_slot :: "('a mock_scheme, ApiNetwork) slot" where
  "network_slot = \<lparr>sl_get = mk_networks, sl_put = \<lambda>x m. m\<lparr>mk_networks := x\<rparr>\<rparr>"
definition router_slot :: "('a mock_scheme, ApiRouter) slot" where
  "router_slot = \<lparr>sl_get = mk_routers, sl_put = \<lambda>x m. m\<lparr>mk_routers := x\<rparr>\<rparr>"
definition resource_slot :: "('a mock_scheme, ApiResource) slot" where
  "resource_slot = \<lparr>sl_get = mk_resources, sl_put = \<lambda>x m. m\<lparr>mk_resources := x\<rparr>\<rparr>"
definition zone_slot :: "('a mock_scheme, DNSZone) slot" where
  "zone_slot = \<lparr>sl_get = mk_zones, sl_put = \<lambda>x m. m\<lparr>mk_zones := x\<rparr>\<rparr>"
definition record_slot :: "('a mock_scheme, DNSRecord) slot" where
  "record_slot = \<lparr>sl_get = mk_records, sl_put = \<lambda>x m. m\<lparr>mk_records := x\<rparr>\<rparr>"

lemmas slot_defs = group_slot_def key_slot_def network_slot_def router_slot_def resource_slot_def zone_slot_def record_slot_def

definition convert_group :: "int \<Rightarrow> string \<Rightarrow> string \<Rightarrow> ApiGroup \<Rightarrow> ApiGroup" where
  "convert_group k i input output = output\<lparr>ag_Id := i, ag_Name := input\<rparr>"

text \<open>A setup key gets a random key when it has none; the request carries the auto groups and whether it is revoked.\<close>

definition convert_key :: "int \<Rightarrow> string \<Rightarrow> string list \<times> bool \<Rightarrow> ApiSetupKey \<Rightarrow> ApiSetupKey" where
  "convert_key k i input output = output\<lparr>ask_Id := i, ask_AutoGroups := fst input, ask_Revoked := snd input,
     ask_Key := (if ask_Key output = '''' then format_int k else ask_Key output)\<rparr>"

definition convert_network :: "int \<Rightarrow> string \<Rightarrow> NetworkRequest \<Rightarrow> ApiNetwork \<Rightarrow> ApiNetwork" where
  "convert_network k i input output = output\<lparr>an_Id := i, an_Name := nwr_Name input, an_Description := nwr_Description input\<rparr>"

definition convert_router :: "int \<Rightarrow> string \<Rightarrow> RouterRequest \<Rightarrow> ApiRouter \<Rightarrow> ApiRouter" where
  "convert_router k i input output = output\<lparr>ar_Id := i, ar_Enabled := rr_Enabled input, ar_Masquerade := rr_Masquerade input,
     ar_Metric := rr_Metric input, ar_PeerGroups := rr_PeerGroups input\<rparr>"

definition convert_resource :: "int \<Rightarrow> string \<Rightarrow> ResourceRequest \<Rightarrow> ApiResource \<Rightarrow> ApiResource" where
  "convert_resource k i input output = output\<lparr>ares_Id := i, ares_Address := resr_Address input,
     ares_Description := resr_Description input, ares_Enabled := resr_Enabled input\<rparr>"

definition convert_zone :: "int \<Rightarrow> string \<Rightarrow> DNSZoneRequest \<Rightarrow> DNSZone \<Rightarrow> DNSZone" where
  "convert_zone k i input output = output\<lparr>dz_Id := i, dz_Name := zr_Name input, dz_Domain := zr_Domain input,
     dz_DistributionGroups := zr_DistributionGroups input, dz_EnableSearchDomain := zr_EnableSearchDomain input,
     dz_Enabled := zr_Enabled input\<rparr>"

definition convert_record :: "int \<Rightarrow> string \<Rightarrow> DNSRecordRequest \<Rightarrow> DNSRecord \<Rightarrow> DNSRecord" where
  "convert_record k i input output = output\<lparr>dr_Id := i, dr_Name := drr_Name input, dr_Ttl := drr_Ttl input,
     dr_Type := drr_Type input, dr_Content := drr_Content input\<rparr>"

text \<open>
  \<open>Client()\<close>: the collections with a handler; the other calls answer as \<open>base\<close> does.
\<close>

definition mock_OpenZro :: "randomness \<Rightarrow> 'a mock_scheme OpenZro \<Rightarrow> 'a mock_scheme OpenZro" where
  "mock_OpenZro rn base = base\<lparr>
     oz_Groups := addHandler rn group_slot convert_group \<lparr>ag_Id = '''', ag_Name = ''''\<rparr> id id,
     oz_SetupKeys := addHandler rn key_slot convert_key \<lparr>ask_Id = '''', ask_AutoGroups = [], ask_Key = '''', ask_Revoked = False, ask_State = ''''\<rparr>
       (\<lambda>q. (skr_AutoGroups q, False)) (\<lambda>gs. (gs, False)),
     oz_Networks := addHandler rn network_slot convert_network \<lparr>an_Id = '''', an_Name = '''', an_Description = None\<rparr> id id,
     oz_Routers := (\<lambda>_. addHandler rn router_slot convert_router \<lparr>ar_Id = '''', ar_Enabled = False, ar_Masquerade = False, ar_Metric = 0,
       ar_PeerGroups = None\<rparr> id id),
     oz_Resources := (\<lambda>_. addHandler rn resource_slot convert_resource \<lparr>ares_Id = '''', ares_Address = '''', ares_Enabled = False,
       ares_Groups = [], ares_Description = None, ares_Name = ''''\<rparr> id id),
     oz_Zones := addHandler rn zone_slot convert_zone \<lparr>dz_Id = '''', dz_Name = '''', dz_Domain = '''', dz_DistributionGroups = [],
       dz_EnableSearchDomain = False, dz_Enabled = None\<rparr> id id,
     oz_Records := (\<lambda>_. addHandler rn record_slot convert_record \<lparr>dr_Id = '''', dr_Content = '''', dr_Name = '''', dr_Ttl = None, dr_Type = ''''\<rparr> id id)\<rparr>"

section \<open>The contract of a store\<close>

text \<open>
  What a collection is to its client: a map from IDs to settings (\<open>content\<close>, which need not be all that
  is stored), on which a creation or an update puts the wanted settings at the answered ID, and a
  deletion removes an ID.
\<close>

text \<open>The abstract operation: put \<open>v\<close> at the recorded ID when it is known, else at an ID of the server's choice.\<close>

definition puts :: "('w \<Rightarrow> string \<Rightarrow> 'v option) \<Rightarrow> string option \<Rightarrow> 'v \<Rightarrow> 'w \<Rightarrow> goerr + string \<Rightarrow> 'w \<Rightarrow> bool" where
  "puts content rec v w res w' \<longleftrightarrow> (case res of
     Inl _ \<Rightarrow> content w' = content w
   | Inr j \<Rightarrow> content w' = (content w)(j \<mapsto> v) \<and> (\<forall>i. rec = Some i \<and> i \<in> dom (content w) \<longrightarrow> j = i))"

locale rest_store =
  fixes rest :: "('w, 'q, 'q, 'r) rest" and idOf :: "'r \<Rightarrow> string"
    and content :: "'w \<Rightarrow> string \<Rightarrow> 'v option" and want :: "'q \<Rightarrow> 'v"
  assumes create_stores: "rs_create rest q w = (Inr r, w') \<Longrightarrow> content w' = (content w)(idOf r \<mapsto> want q)"
    and create_fails: "rs_create rest q w = (Inl e, w') \<Longrightarrow> content w' = content w"
    and update_stores: "rs_update rest i q w = (Inr r, w') \<Longrightarrow>
      idOf r = i \<and> i \<in> dom (content w) \<and> content w' = (content w)(i \<mapsto> want q)"
    and update_fails: "rs_update rest i q w = (Inl e, w') \<Longrightarrow> content w' = content w \<and> (o_IsNotFound e \<longrightarrow> i \<notin> dom (content w))"
    and delete_removes: "rs_delete rest i w = (None, w') \<Longrightarrow> content w' = (content w)(i := None)"
    and delete_fails: "rs_delete rest i w = (Some e, w') \<Longrightarrow> content w' = content w \<and> (o_IsNotFound e \<longrightarrow> i \<notin> dom (content w))"
begin

text \<open>Updating or creating refines a single update of the map, at the recorded ID when it is known.\<close>

lemma upsert_puts:
  assumes "oa_rest a = rest" and "run_state (upsert a a idOf rec q) s = (res, t)"
  shows "case res of
      Inl _ \<Rightarrow> content (wenv t) = content (wenv s)
    | Inr j \<Rightarrow> content (wenv t) = (content (wenv s))(j \<mapsto> want q) \<and> (\<forall>i. rec = Some i \<and> i \<in> dom (content (wenv s)) \<longrightarrow> j = i)"
proof -
  define cr w1 where "cr w = fst (rs_create rest q w)" and "w1 w = snd (rs_create rest q w)" for w
  then have c: "rs_create rest q w = (cr w, w1 w)" for w by simp
  define ur w2 where "ur i w = fst (rs_update rest i q w)" and "w2 i w = snd (rs_update rest i q w)" for i w
  then have u: "rs_update rest i q w = (ur i w, w2 i w)" for i w by simp
  have cs: "case cr w of Inl e \<Rightarrow> content (w1 w) = content w | Inr r \<Rightarrow> content (w1 w) = (content w)(idOf r \<mapsto> want q)" for w
    using create_stores [of q w] create_fails [of q w] c [of w] by (auto split: sum.splits)
  have us: "case ur i w of Inl e \<Rightarrow> content (w2 i w) = content w \<and> (o_IsNotFound e \<longrightarrow> i \<notin> dom (content w))
      | Inr r \<Rightarrow> idOf r = i \<and> content (w2 i w) = (content w)(i \<mapsto> want q)" for i w
    using update_stores [of i q w] update_fails [of i q w] u [of i w] by (auto split: sum.splits)
  show ?thesis
  proof (cases rec)
    case None
    with assms cs [of "wenv s"] show ?thesis
      by (auto simp: upsert_def Let_def o_create_def c split: sum.splits)
  next
    case (Some i)
    with assms us [of i "wenv s"] cs [of "w2 i (wenv s)"] show ?thesis
      by (auto simp: upsert_def Let_def o_create_def o_update_def c u split: sum.splits if_splits)
  qed
qed

lemma upsert_refines:
  assumes "oa_rest a = rest"
  shows "puts content rec (want q) (wenv s) (fst (run_state (upsert a a idOf rec q) s)) (wenv (snd (run_state (upsert a a idOf rec q) s)))"
  using upsert_puts [OF assms, of rec q s "fst (run_state (upsert a a idOf rec q) s)" "snd (run_state (upsert a a idOf rec q) s)"]
  by (simp add: puts_def)

text \<open>Settings that are stored already are kept, under the same ID.\<close>

lemma upsert_stable:
  assumes "oa_rest a = rest" and "content (wenv s) j = Some (want q)" and "run_state (upsert a a idOf (Some j) q) s = (res, t)"
  shows "content (wenv t) = content (wenv s) \<and> (\<forall>k. res = Inr k \<longrightarrow> k = j)"
  using upsert_puts [OF assms(1, 3)] assms(2) by (auto split: sum.splits intro!: ext)

lemma delete_recorded_removes:
  assumes "oa_rest a = rest" and "run_state (delete_recorded a rec) s = (None, t)"
  shows "content (wenv t) = (case rec of None \<Rightarrow> content (wenv s) | Some i \<Rightarrow> (content (wenv s))(i := None))"
proof (cases rec)
  case (Some i)
  obtain er w1 where d: "rs_delete rest i (wenv s) = (er, w1)" by (cases "rs_delete rest i (wenv s)")
  have gone: "content w1 = (content (wenv s))(i := None)" if "\<forall>e. er = Some e \<longrightarrow> o_IsNotFound e"
    using delete_removes [of i "wenv s"] delete_fails [of i "wenv s"] d that by (cases er) (auto intro!: ext)
  have "\<forall>e. er = Some e \<longrightarrow> o_IsNotFound e" "wenv t = w1"
    using assms Some d by (auto simp: delete_recorded_def o_delete_def split: option.splits if_splits)
  with gone Some show ?thesis by simp
qed (use assms in \<open>simp add: delete_recorded_def\<close>)

end

section \<open>The handlers meet the contract\<close>

definition lawful :: "('a mock_scheme, 't) slot \<Rightarrow> bool" where
  "lawful sl \<longleftrightarrow> (\<forall>x m. sl_get sl (sl_put sl x m) = x) \<and> (\<forall>n m. sl_get sl (m\<lparr>mk_draws := n\<rparr>) = sl_get sl m)"

lemma lawful_slots [simp]:
  "lawful group_slot" "lawful network_slot" "lawful router_slot" "lawful resource_slot" "lawful record_slot"
  by (simp_all add: lawful_def slot_defs)

lemma addHandler_store:
  assumes sl: "lawful sl" and idOf: "\<And>k i q old. idOf (conv k i q old) = i" and view: "\<And>k i q old. view (conv k i q old) = want q"
  shows "rest_store (addHandler rn sl conv zero id id) idOf (\<lambda>m i. map_option view (map_of (sl_get sl m) i)) want"
proof unfold_locales
  fix q w r w'
  assume "rs_create (addHandler rn sl conv zero id id) q w = (Inr r, w')"
  then show "(\<lambda>i. map_option view (map_of (sl_get sl w') i)) = (\<lambda>i. map_option view (map_of (sl_get sl w) i))(idOf r \<mapsto> want q)"
    using sl by (auto simp: addHandler_def post_handler_def draw_def Let_def lawful_def update_conv' idOf view)
next
  fix q w e w'
  assume "rs_create (addHandler rn sl conv zero id id) q w = (Inl e, w')"
  then show "(\<lambda>i. map_option view (map_of (sl_get sl w') i)) = (\<lambda>i. map_option view (map_of (sl_get sl w) i))"
    by (simp add: addHandler_def post_handler_def draw_def Let_def)
next
  fix i q w r w'
  assume "rs_update (addHandler rn sl conv zero id id) i q w = (Inr r, w')"
  then show "idOf r = i \<and> i \<in> dom (\<lambda>i. map_option view (map_of (sl_get sl w) i)) \<and>
      (\<lambda>i. map_option view (map_of (sl_get sl w') i)) = (\<lambda>i. map_option view (map_of (sl_get sl w) i))(i \<mapsto> want q)"
    using sl by (auto simp: addHandler_def put_handler_def draw_def Let_def lawful_def update_conv' idOf view split: option.splits)
next
  fix i q w e w'
  assume "rs_update (addHandler rn sl conv zero id id) i q w = (Inl e, w')"
  then show "(\<lambda>i. map_option view (map_of (sl_get sl w') i)) = (\<lambda>i. map_option view (map_of (sl_get sl w) i)) \<and>
      (o_IsNotFound e \<longrightarrow> i \<notin> dom (\<lambda>i. map_option view (map_of (sl_get sl w) i)))"
    by (auto simp: addHandler_def put_handler_def draw_def Let_def split: option.splits)
next
  fix i w w'
  assume "rs_delete (addHandler rn sl conv zero id id) i w = (None, w')"
  then show "(\<lambda>i. map_option view (map_of (sl_get sl w') i)) = (\<lambda>i. map_option view (map_of (sl_get sl w) i))(i := None)"
    using sl by (auto simp: addHandler_def delete_handler_def lawful_def delete_conv' split: option.splits)
next
  fix i w e w'
  assume "rs_delete (addHandler rn sl conv zero id id) i w = (Some e, w')"
  then show "(\<lambda>i. map_option view (map_of (sl_get sl w') i)) = (\<lambda>i. map_option view (map_of (sl_get sl w) i)) \<and>
      (o_IsNotFound e \<longrightarrow> i \<notin> dom (\<lambda>i. map_option view (map_of (sl_get sl w) i)))"
    by (auto simp: addHandler_def delete_handler_def split: option.splits)
qed

text \<open>The settings the server keeps, as seen by a client.\<close>

definition group_names :: "'a mock_scheme \<Rightarrow> string \<Rightarrow> string option" where
  "group_names m i = map_option ag_Name (map_of (mk_groups m) i)"

definition network_names :: "'a mock_scheme \<Rightarrow> string \<Rightarrow> string option" where
  "network_names m i = map_option an_Name (map_of (mk_networks m) i)"

definition router_settings :: "'a mock_scheme \<Rightarrow> string \<Rightarrow> RouterRequest option" where
  "router_settings m i = map_option (\<lambda>a. \<lparr>rr_Enabled = ar_Enabled a, rr_Masquerade = ar_Masquerade a, rr_Metric = ar_Metric a,
     rr_PeerGroups = ar_PeerGroups a\<rparr>) (map_of (mk_routers m) i)"

definition resource_addresses :: "'a mock_scheme \<Rightarrow> string \<Rightarrow> (string \<times> bool) option" where
  "resource_addresses m i = map_option (\<lambda>a. (ares_Address a, ares_Enabled a)) (map_of (mk_resources m) i)"

definition record_settings :: "'a mock_scheme \<Rightarrow> string \<Rightarrow> DNSRecordRequest option" where
  "record_settings m i = map_option (\<lambda>a. \<lparr>drr_Content = dr_Content a, drr_Name = dr_Name a, drr_Ttl = dr_Ttl a, drr_Type = dr_Type a\<rparr>)
     (map_of (mk_records m) i)"

interpretation mock_groups: rest_store "oz_Groups (mock_OpenZro rn base)" ag_Id group_names id for rn base
  using addHandler_store [OF lawful_slots(1), where conv = convert_group and idOf = ag_Id and view = ag_Name and want = id]
  by (simp add: mock_OpenZro_def convert_group_def group_slot_def group_names_def [abs_def])

interpretation mock_networks: rest_store "oz_Networks (mock_OpenZro rn base)" an_Id network_names nwr_Name for rn base
  using addHandler_store [OF lawful_slots(2), where conv = convert_network and idOf = an_Id and view = an_Name and want = nwr_Name]
  by (simp add: mock_OpenZro_def convert_network_def network_slot_def network_names_def [abs_def])

interpretation mock_routers: rest_store "oz_Routers (mock_OpenZro rn base) n" ar_Id router_settings id for rn base n
  using addHandler_store [OF lawful_slots(3), where conv = convert_router and idOf = ar_Id and want = id and
    view = "\<lambda>a. \<lparr>rr_Enabled = ar_Enabled a, rr_Masquerade = ar_Masquerade a, rr_Metric = ar_Metric a, rr_PeerGroups = ar_PeerGroups a\<rparr>"]
  by (simp add: mock_OpenZro_def convert_router_def router_slot_def router_settings_def [abs_def])

interpretation mock_resources: rest_store "oz_Resources (mock_OpenZro rn base) n" ares_Id resource_addresses "\<lambda>q. (resr_Address q, resr_Enabled q)" for rn base n
  using addHandler_store [OF lawful_slots(4), where conv = convert_resource and idOf = ares_Id and
    view = "\<lambda>a. (ares_Address a, ares_Enabled a)" and want = "\<lambda>q. (resr_Address q, resr_Enabled q)"]
  by (simp add: mock_OpenZro_def convert_resource_def resource_slot_def resource_addresses_def [abs_def])

interpretation mock_records: rest_store "oz_Records (mock_OpenZro rn base) z" dr_Id record_settings id for rn base z
  using addHandler_store [OF lawful_slots(5), where conv = convert_record and idOf = dr_Id and want = id and
    view = "\<lambda>a. \<lparr>drr_Content = dr_Content a, drr_Name = dr_Name a, drr_Ttl = dr_Ttl a, drr_Type = dr_Type a\<rparr>"]
  by (simp add: mock_OpenZro_def convert_record_def record_slot_def record_settings_def [abs_def])

section \<open>Convergence of the group controller\<close>

text \<open>
  What the API server documents for a client that nobody interferes with, as far as groups go: a read
  answers the stored object (\<open>objs\<close>), a patch stores it and answers it, and neither touches the
  management server.
\<close>

definition stores_groups :: "'a mock_scheme Client \<Rightarrow> ('a mock_scheme \<Rightarrow> nn \<Rightarrow> Group option) \<Rightarrow> bool" where
  "stores_groups c objs \<longleftrightarrow>
     (\<forall>k w g. objs w k = Some g \<longrightarrow> kc_get (c_AlphaGroups c) k w = (Inr g, w)) \<and>
     (\<forall>g w. \<exists>w'. kc_patch (c_AlphaGroups c) g w = (Inr g, w') \<and> mk_groups w' = mk_groups w \<and>
        objs w' = (objs w)((om_Namespace (grp_Meta g), om_Name (grp_Meta g)) \<mapsto> g)) \<and>
     (\<forall>w n x. objs (w\<lparr>mk_draws := n\<rparr>) = objs w \<and> objs (w\<lparr>mk_groups := x\<rparr>) = objs w)"

lemma stores_groupsD:
  assumes "stores_groups c objs"
  shows "objs w k = Some g \<Longrightarrow> kc_get (c_AlphaGroups c) k w = (Inr g, w)"
    "\<exists>w'. kc_patch (c_AlphaGroups c) g w = (Inr g, w') \<and> mk_groups w' = mk_groups w \<and>
        objs w' = (objs w)((om_Namespace (grp_Meta g), om_Name (grp_Meta g)) \<mapsto> g)"
    "objs (w\<lparr>mk_draws := n\<rparr>) = objs w" "objs (w\<lparr>mk_groups := x\<rparr>) = objs w"
  using assms unfolding stores_groups_def by blast+

lemma Group_ensure_mock:
  assumes "agr_OpenZro r = mock_OpenZro rn base" and "stores_groups (agr_Client r) objs"
  shows "\<exists>j t. run_state (Group_ensure r g) s = (Inr j, t) \<and> j \<noteq> '''' \<and> objs (wenv t) = objs (wenv s)"
  using stores_groupsD(3, 4) [OF assms(2)]
  by (cases "map_of (mk_groups (wenv s)) (grp_GroupID g)")
     (auto simp: assms(1) Group_ensure_def nonempty_def upsert_def Let_def o_create_def o_update_def Groups_def mock_OpenZro_def
        addHandler_def post_handler_def put_handler_def draw_def convert_group_def group_slot_def not_found_def)

text \<open>One run: the group's name is put at the ID that the object then records.\<close>

lemma Group_run:
  assumes z: "agr_OpenZro r = mock_OpenZro rn base" and c: "stores_groups (agr_Client r) objs"
    and g: "objs (wenv s) req = Some g" "req = (om_Namespace (grp_Meta g), om_Name (grp_Meta g))" "om_DeletionTimestamp (grp_Meta g) = None"
  obtains j t where "run_state (Group_Reconcile r req) s = ((zero_Result, None), t)" "j \<noteq> ''''"
    "objs (wenv t) req = Some (Group_ready r j (Group_guarded r g))"
    "group_names (wenv t) = (group_names (wenv s))(j \<mapsto> grp_SpecName g)"
    "grp_GroupID g \<noteq> '''' \<Longrightarrow> grp_GroupID g \<in> dom (group_names (wenv s)) \<Longrightarrow> j = grp_GroupID g"
proof -
  let ?g1 = "Group_guarded r g"
  have keep: "om_Namespace (grp_Meta ?g1) = fst req" "om_Name (grp_Meta ?g1) = snd req" "grp_SpecName ?g1 = grp_SpecName g"
    "grp_GroupID ?g1 = grp_GroupID g"
    by (simp_all add: Group_guarded_def set_grp_finalizers_def g(2))
  obtain w1 where p1: "kc_patch (c_AlphaGroups (agr_Client r)) ?g1 (wenv s) = (Inr ?g1, w1)" "mk_groups w1 = mk_groups (wenv s)"
    using stores_groupsD(2) [OF c, of ?g1 "wenv s"] by blast
  let ?s0 = "s\<lparr>wlog := wlog s @ [EGet ''Group'' req (Inr (KGroup g))]\<rparr>"
  let ?s1 = "?s0\<lparr>wenv := w1, wlog := wlog ?s0 @ [EPatch (KGroup ?g1) (Inr (KGroup ?g1))]\<rparr>"
  obtain j t1 where e: "run_state (Group_ensure r ?g1) ?s1 = (Inr j, t1)" "j \<noteq> ''''"
    using Group_ensure_mock [OF z c] by blast
  let ?g2 = "Group_ready r j ?g1"
  obtain w2 where p2: "kc_patch (c_AlphaGroups (agr_Client r)) ?g2 (wenv t1) = (Inr ?g2, w2)" "mk_groups w2 = mk_groups (wenv t1)"
    "objs w2 = (objs (wenv t1))((om_Namespace (grp_Meta ?g2), om_Name (grp_Meta ?g2)) \<mapsto> ?g2)"
    using stores_groupsD(2) [OF c, of ?g2 "wenv t1"] by blast
  have run: "run_state (Group_Reconcile r req) s =
    ((zero_Result, None), t1\<lparr>wenv := w2, wlog := wlog t1 @ [EPatch (KGroup ?g2) (Inr (KGroup ?g2))]\<rparr>)"
    using stores_groupsD(1) [OF c g(1)] g(3) p1(1) e(1) p2(1)
    by (simp add: Group_Reconcile_def Group_body_def k_get_def k_patch_def AlphaGroups_def)
  have "oa_rest (Groups (mock_OpenZro rn base)) = oz_Groups (mock_OpenZro rn base)" by (simp add: Groups_def)
  from mock_groups.upsert_puts [OF this e(1) [unfolded Group_ensure_def z]]
  have "group_names (wenv t1) = (group_names w1)(j \<mapsto> grp_SpecName g) \<and>
      (grp_GroupID g \<noteq> '''' \<longrightarrow> grp_GroupID g \<in> dom (group_names w1) \<longrightarrow> j = grp_GroupID g)"
    by (auto simp: keep nonempty_def)
  moreover have "group_names w1 = group_names (wenv s)" "group_names w2 = group_names (wenv t1)"
    by (simp_all add: group_names_def [abs_def] p1(2) p2(2))
  moreover have "objs w2 req = Some ?g2" by (simp add: p2(3) Group_ready_def keep)
  ultimately show ?thesis using run e(2) by (intro that [of _ j]) (auto simp: domI)
qed

text \<open>
  C3. Reconciling a group against the repository's management server converges in one run, when nobody else
  changes the object. For every group object that is not being deleted, whatever ID it records, the run reports
  success; the object then records an ID under which the server has the group's name; the run has
  changed the server at no other ID; and a second run succeeds, keeps the recorded ID and leaves all
  groups of the server as they are.
\<close>

theorem alpha_group_converges:
  assumes z: "agr_OpenZro r = mock_OpenZro rn base" and c: "stores_groups (agr_Client r) objs"
    and g: "objs (wenv s) req = Some g" "req = (om_Namespace (grp_Meta g), om_Name (grp_Meta g))" "om_DeletionTimestamp (grp_Meta g) = None"
  shows "\<exists>t g1. run_state (Group_Reconcile r req) s = ((zero_Result, None), t) \<and> objs (wenv t) req = Some g1 \<and>
    group_names (wenv t) = (group_names (wenv s))(grp_GroupID g1 \<mapsto> grp_SpecName g) \<and>
    (\<exists>u g2. run_state (Group_Reconcile r req) t = ((zero_Result, None), u) \<and> objs (wenv u) req = Some g2 \<and>
      grp_GroupID g2 = grp_GroupID g1 \<and> group_names (wenv u) = group_names (wenv t))"
proof -
  from Group_run [OF z c g] obtain j t where 1: "run_state (Group_Reconcile r req) s = ((zero_Result, None), t)" "j \<noteq> ''''"
    "objs (wenv t) req = Some (Group_ready r j (Group_guarded r g))" "group_names (wenv t) = (group_names (wenv s))(j \<mapsto> grp_SpecName g)"
    by metis
  let ?g1 = "Group_ready r j (Group_guarded r g)"
  have keep: "om_Namespace (grp_Meta ?g1) = om_Namespace (grp_Meta g)" "om_Name (grp_Meta ?g1) = om_Name (grp_Meta g)"
    "om_DeletionTimestamp (grp_Meta ?g1) = None" "grp_GroupID ?g1 = j" "grp_SpecName ?g1 = grp_SpecName g"
    by (simp_all add: Group_ready_def Group_guarded_def set_grp_finalizers_def g)
  have "req = (om_Namespace (grp_Meta ?g1), om_Name (grp_Meta ?g1))" by (simp add: keep g(2))
  from Group_run [OF z c 1(3) this keep(3)] obtain k u where 2: "run_state (Group_Reconcile r req) t = ((zero_Result, None), u)"
    "objs (wenv u) req = Some (Group_ready r k (Group_guarded r ?g1))" "group_names (wenv u) = (group_names (wenv t))(k \<mapsto> grp_SpecName ?g1)"
    "grp_GroupID ?g1 \<noteq> '''' \<Longrightarrow> grp_GroupID ?g1 \<in> dom (group_names (wenv t)) \<Longrightarrow> k = grp_GroupID ?g1"
    by metis
  have "k = j" using 2(4) keep(4) 1(2, 4) by simp
  with 1 2 keep show ?thesis by (auto simp: Group_ready_def fun_upd_idem)
qed

text \<open>A cluster that stores groups next to the management server.\<close>

record demo_server = mock +
  ds_groups :: "nn \<Rightarrow> Group option"

definition demo_group_cluster :: "demo_server Client" where
  "demo_group_cluster = down_Client\<lparr>c_AlphaGroups := down_kind\<lparr>
     kc_get := \<lambda>k w. (case ds_groups w k of None \<Rightarrow> (Inl (KNotFound ''group''), w) | Some g \<Rightarrow> (Inr g, w)),
     kc_patch := \<lambda>g w. (Inr g, w\<lparr>ds_groups := (ds_groups w)((om_Namespace (grp_Meta g), om_Name (grp_Meta g)) \<mapsto> g)\<rparr>)\<rparr>\<rparr>"

lemma demo_group_cluster_stores: "stores_groups demo_group_cluster ds_groups"
  by (simp add: stores_groups_def demo_group_cluster_def)

definition demo_stored_group :: Group where
  "demo_stored_group = \<lparr>grp_Meta = zero_ObjectMeta\<lparr>om_Name := ''g'', om_Namespace := ''ns''\<rparr>, grp_SpecName = ''staff'',
     grp_Conditions = [], grp_GroupID = ''stale''\<rparr>"

definition demo_server_start :: demo_server where
  "demo_server_start = \<lparr>mk_draws = 0, mk_groups = [], mk_keys = [], mk_networks = [], mk_routers = [], mk_resources = [],
     mk_zones = [], mk_records = [], ds_groups = Map.empty((''ns'', ''g'') \<mapsto> demo_stored_group)\<rparr>"

definition demo_group_reconciler :: "demo_server GroupReconciler" where
  "demo_group_reconciler = \<lparr>agr_Client = demo_group_cluster, agr_OpenZro = mock_OpenZro \<lparr>rn_int = int, rn_rank = \<lambda>_ _. 0\<rparr> down_OpenZro\<rparr>"

theorem alpha_group_converges_witness:
  "\<exists>t g1. run_state (Group_Reconcile demo_group_reconciler (''ns'', ''g'')) \<lparr>wenv = demo_server_start, wlog = []\<rparr> = ((zero_Result, None), t) \<and>
    ds_groups (wenv t) (''ns'', ''g'') = Some g1 \<and> group_names (wenv t) (grp_GroupID g1) = Some ''staff''"
proof -
  let ?s = "\<lparr>wenv = demo_server_start, wlog = []\<rparr>"
  have z: "agr_OpenZro demo_group_reconciler = mock_OpenZro \<lparr>rn_int = int, rn_rank = \<lambda>_ _. 0\<rparr> down_OpenZro"
    and c: "stores_groups (agr_Client demo_group_reconciler) ds_groups"
    by (simp_all add: demo_group_reconciler_def demo_group_cluster_stores)
  have g: "ds_groups (wenv ?s) (''ns'', ''g'') = Some demo_stored_group"
    "(''ns'', ''g'') = (om_Namespace (grp_Meta demo_stored_group), om_Name (grp_Meta demo_stored_group))"
    "om_DeletionTimestamp (grp_Meta demo_stored_group) = None" "grp_SpecName demo_stored_group = ''staff''"
    by (simp_all add: demo_server_start_def demo_stored_group_def zero_ObjectMeta_def)
  from alpha_group_converges [OF z c g(1-3)] obtain t g1 where
    "run_state (Group_Reconcile demo_group_reconciler (''ns'', ''g'')) ?s = ((zero_Result, None), t)" "ds_groups (wenv t) (''ns'', ''g'') = Some g1"
    "group_names (wenv t) = (group_names (wenv ?s))(grp_GroupID g1 \<mapsto> grp_SpecName demo_stored_group)"
    by blast
  moreover from this(3) have "group_names (wenv t) (grp_GroupID g1) = Some ''staff''" by (simp add: g(4))
  ultimately show ?thesis by blast
qed

section \<open>Refinement\<close>

lemma oa_rest_simps:
  "oa_rest (Networks z) = oz_Networks z" "oa_rest (Routers z n) = oz_Routers z n" "oa_rest (Resources z n) = oz_Resources z n"
  "oa_rest (Records z n) = oz_Records z n"
  by (simp_all add: api_defs)

text \<open>
  C17. The update-or-create idiom of the v1alpha1 controllers, run against the repository's management
  server, refines a single abstract update of the collection: on success exactly one ID of the abstract map is
  set to the wanted settings, which is the recorded ID whenever the server knows it, and on an error
  nothing has changed. This holds for networks, routing peers, network resources and DNS records, for
  every state of the server.
\<close>

theorem upsert_refines_put:
  "let z = mock_OpenZro rn base
   in puts network_names rec (nwr_Name nq) (wenv s) (fst (run_state (upsert (Networks z) (Networks z) an_Id rec nq) s))
        (wenv (snd (run_state (upsert (Networks z) (Networks z) an_Id rec nq) s))) \<and>
      puts router_settings rec rq (wenv s) (fst (run_state (upsert (Routers z n) (Routers z n) ar_Id rec rq) s))
        (wenv (snd (run_state (upsert (Routers z n) (Routers z n) ar_Id rec rq) s))) \<and>
      puts resource_addresses rec (resr_Address xq, resr_Enabled xq) (wenv s)
        (fst (run_state (upsert (Resources z n) (Resources z n) ares_Id rec xq) s))
        (wenv (snd (run_state (upsert (Resources z n) (Resources z n) ares_Id rec xq) s))) \<and>
      puts record_settings rec dq (wenv s) (fst (run_state (upsert (Records z n) (Records z n) dr_Id rec dq) s))
        (wenv (snd (run_state (upsert (Records z n) (Records z n) dr_Id rec dq) s)))"
  using mock_networks.upsert_refines [of "Networks (mock_OpenZro rn base)" rn base rec nq s]
    mock_routers.upsert_refines [of "Routers (mock_OpenZro rn base) n" rn base n rec rq s]
    mock_resources.upsert_refines [of "Resources (mock_OpenZro rn base) n" rn base n rec xq s]
    mock_records.upsert_refines [of "Records (mock_OpenZro rn base) n" rn base n rec dq s]
  by (simp add: Let_def oa_rest_simps)

end
