(* ===== verification/OZGroup_Controller.thy ===== *)
theory OZGroup_Controller
  imports World
begin

text \<open>
  \<open>internal/controller/ozgroup_controller.go\<close>: the reconciler that keeps an \<open>OZGroup\<close> object and
  the group of the same name in the management API together, and the group's deletion protocol.
  The \<open>finish_contract\<close> locale states what the deferred functions of the OZGroup, OZPolicy and
  OZResource reconcilers have in common.
\<close>

section \<open>Model\<close>

record 'w OZGroupReconciler =
  gr_Client :: "'w Client"
  gr_OpenZro :: "'w OpenZro"

definition defaultRequeueAfter :: int where
  "defaultRequeueAfter = 15 * Minute"

definition set_GroupID :: "string option \<Rightarrow> OZGroup \<Rightarrow> OZGroup" where
  "set_GroupID v g = g\<lparr>ozg_Status := (ozg_Status g)\<lparr>ozg_GroupID := v\<rparr>\<rparr>"

definition set_group_conditions :: "OZCondition list \<Rightarrow> OZGroup \<Rightarrow> OZGroup" where
  "set_group_conditions cs g = g\<lparr>ozg_Status := (ozg_Status g)\<lparr>ozg_Conditions := cs\<rparr>\<rparr>"

definition syncopenZroGroup ::
  "'w OZGroupReconciler \<Rightarrow> OZGroup \<Rightarrow> ('w, OZGroup \<times> Result \<times> goerr option) go" where
  "syncopenZroGroup r nbGroup = do {
     lr \<leftarrow> o_list (Groups (gr_OpenZro r));
     (case lr of
        Inl e \<Rightarrow> State_Monad.return (nbGroup, zero_Result, Some e)
      | Inr groups \<Rightarrow>
          (case (ozg_GroupID (ozg_Status nbGroup), find_last (\<lambda>g. ag_Name g = ozg_Name (ozg_Spec nbGroup)) groups) of
             (None, None) \<Rightarrow> do {
               cr \<leftarrow> o_create (Groups (gr_OpenZro r)) (ozg_Name (ozg_Spec nbGroup));
               (case cr of
                  Inl e \<Rightarrow> do {
                    cs \<leftarrow> condition_false (gr_Client r) ''APIError'' (''openZro API Error: '' @ error_text e);
                    State_Monad.return (set_group_conditions cs nbGroup, zero_Result, Some e) }
                | Inr grp \<Rightarrow> do {
                    cs \<leftarrow> condition_true (gr_Client r);
                    State_Monad.return
                      (set_group_conditions cs (set_GroupID (Some (ag_Id grp)) nbGroup), zero_Result, None) })
             }
           | (None, Some grp) \<Rightarrow> do {
               cs \<leftarrow> condition_true (gr_Client r);
               State_Monad.return
                 (set_group_conditions cs (set_GroupID (Some (ag_Id grp)) nbGroup), zero_Result, None)
             }
           | (Some i, None) \<Rightarrow> do {
               cs \<leftarrow> condition_false (gr_Client r) ''GroupGone'' ''Group was deleted from openZro API'';
               State_Monad.return (set_group_conditions cs (set_GroupID None nbGroup), requeue_now, None)
             }
           | (Some i, Some grp) \<Rightarrow> do {
               cs \<leftarrow> condition_true (gr_Client r);
               (if i \<noteq> ag_Id grp
                then do {
                  cs' \<leftarrow> condition_true (gr_Client r);
                  State_Monad.return
                    (set_group_conditions cs' (set_GroupID (Some (ag_Id grp)) nbGroup), zero_Result, None) }
                else State_Monad.return (set_group_conditions cs nbGroup, zero_Result, None))
             }))
   }"

definition ozgroup_finalizer :: string where
  "ozgroup_finalizer = ''openzro.io/group-cleanup''"

definition without_group_finalizer :: "OZGroup \<Rightarrow> OZGroup" where
  "without_group_finalizer g =
     g\<lparr>ozg_Meta := (ozg_Meta g)\<lparr>om_Finalizers := Without (om_Finalizers (ozg_Meta g)) ozgroup_finalizer\<rparr>\<rparr>"

text \<open>Drop the cleanup finalizer and update the object; the last step of every deletion path.\<close>

definition release_group :: "'w OZGroupReconciler \<Rightarrow> OZGroup \<Rightarrow> ('w, goerr option) go" where
  "release_group r nbGroup = do {
     ur \<leftarrow> k_update (OZGroups (gr_Client r)) (without_group_finalizer nbGroup);
     State_Monad.return (err_of ur)
   }"

text \<open>\<open>handleDelete\<close>; \<open>deleted\<close> is the object's deletion timestamp, which \<open>Reconcile\<close> has found set.\<close>

definition OZGroup_handleDelete :: "'w OZGroupReconciler \<Rightarrow> OZGroup \<Rightarrow> time \<Rightarrow> ('w, goerr option) go" where
  "OZGroup_handleDelete r nbGroup deleted =
     (case ozg_GroupID (ozg_Status nbGroup) of
        None \<Rightarrow> release_group r nbGroup
      | Some i \<Rightarrow> do {
          err \<leftarrow> o_delete (Groups (gr_OpenZro r)) i;
          (case err of
             None \<Rightarrow> release_group r nbGroup
           | Some e \<Rightarrow>
               if \<not> str_contains (error_text e) ''not found'' \<and> \<not> str_contains (error_text e) ''linked''
               then State_Monad.return (Some e)
               else if \<not> str_contains (error_text e) ''linked'' then release_group r nbGroup
               else do {
                    now \<leftarrow> read_clock (gr_Client r);
                    (if \<not> (deleted + Minute < now)
                     then do {
                       gl \<leftarrow> k_list (OZGroups (gr_Client r)) None;
                       (case gl of
                          Inl listErr \<Rightarrow> State_Monad.return (Some listErr)
                        | Inr items \<Rightarrow> do {
                            lr \<leftarrow> for_each items () (\<lambda>v _.
                              if om_UID (ozg_Meta v) = om_UID (ozg_Meta nbGroup) then State_Monad.return (Inr ())
                              else if ozg_GroupID (ozg_Status v) = Some i
                              then do { ue \<leftarrow> release_group r nbGroup; State_Monad.return (Inl ue) }
                              else State_Monad.return (Inr ()));
                            State_Monad.return (case lr of Inl ret \<Rightarrow> ret | Inr _ \<Rightarrow> Some e) })
                     }
                     else release_group r nbGroup) })
        })"

text \<open>The deferred function of \<open>Reconcile\<close>.\<close>

definition ozgroup_finish ::
  "'w OZGroupReconciler \<Rightarrow> OZGroup \<Rightarrow> OZGroup \<Rightarrow> Result \<Rightarrow> goerr option \<Rightarrow> ('w, Result \<times> goerr option) go" where
  "ozgroup_finish r originalGroup nbGroup res err =
     (case err of
        Some e \<Rightarrow> State_Monad.return (zero_Result, Some e)
      | None \<Rightarrow> do {
          ue \<leftarrow> (if \<not> OZGroupStatus_Equal (ozg_Status originalGroup) (ozg_Status nbGroup)
                then do { ur \<leftarrow> k_status_update (OZGroups (gr_Client r)) nbGroup;
                          State_Monad.return (err_of ur) }
                else State_Monad.return None);
          State_Monad.return
            (if \<not> res_Requeue res \<and> res_RequeueAfter res = 0
             then res\<lparr>res_RequeueAfter := defaultRequeueAfter\<rparr> else res, ue)
        })"

definition OZGroup_Reconcile :: "'w OZGroupReconciler \<Rightarrow> nn \<Rightarrow> ('w, Result \<times> goerr option) go" where
  "OZGroup_Reconcile r req = do {
     gr \<leftarrow> k_get (OZGroups (gr_Client r)) req;
     (case gr of
        Inl e \<Rightarrow> State_Monad.return (requeue_after defaultRequeueAfter, None)
      | Inr nbGroup \<Rightarrow>
          do {
            (g, res, err) \<leftarrow>
              (case om_DeletionTimestamp (ozg_Meta nbGroup) of
                 Some deleted \<Rightarrow>
                   if om_Finalizers (ozg_Meta nbGroup) = [] then State_Monad.return (nbGroup, zero_Result, None)
                   else do { err \<leftarrow> OZGroup_handleDelete r nbGroup deleted;
                             State_Monad.return (nbGroup, zero_Result, err) }
               | None \<Rightarrow> syncopenZroGroup r nbGroup);
            ozgroup_finish r nbGroup g res err
          })
   }"

section \<open>What the deferred functions guarantee\<close>

text \<open>
  A deferred function that gets an error returns it with the zero result and writes nothing;
  without an error it writes at most the status of the object and returns the error of that write.
\<close>

locale finish_contract =
  fixes finish :: "'o \<Rightarrow> 'o \<Rightarrow> Result \<Rightarrow> goerr option \<Rightarrow> ('w, Result \<times> goerr option) go"
    and status_obj :: "'o \<Rightarrow> kobj"
  assumes finish_error: "finish orig obj res (Some e) = State_Monad.return (zero_Result, Some e)"
    and finish_ok: "emits (finish orig obj res None) (\<lambda>(res', err') evs.
      (evs = [] \<and> err' = None) \<or> evs = [EStatusUpdate (status_obj obj) err'])"
begin

text \<open>The outcome of a status write is what the deferred function returns.\<close>

lemma finish_reports:
  "emits (finish orig obj res err) (\<lambda>(res', err') evs.
     \<forall>x er. EStatusUpdate (status_obj x) er \<in> set evs \<longrightarrow> er = err')"
  by (cases err) (auto intro!: emits_mono [OF finish_ok] emits_intros simp: finish_error)

text \<open>
  A reconciler of the form "body, then deferred function": if it returns an error, then no status
  of the object was stored, whatever condition the body had recorded in it.
\<close>

lemma error_not_stored:
  assumes body: "emits body (\<lambda>_ evs. \<forall>x er. EStatusUpdate (status_obj x) er \<notin> set evs)"
  shows "emits (State_Monad.bind body (\<lambda>(obj, res, err). finish orig obj res err)) (\<lambda>(res', err') evs.
      err' \<noteq> None \<longrightarrow> (\<forall>x er. EStatusUpdate (status_obj x) er \<in> set evs \<longrightarrow> er = err'))"
  by (rule emits_bind [OF body]) (auto intro!: emits_mono [OF finish_reports])

end

lemma finish_contract_ozgroup: "finish_contract (ozgroup_finish r) KOZGroup"
  unfolding ozgroup_finish_def call_defs
  by unfold_locales (auto intro!: emits_intros)

interpretation ozgroup: finish_contract "ozgroup_finish r" KOZGroup for r
  by (rule finish_contract_ozgroup)

section \<open>Properties\<close>

lemmas group_setters = set_GroupID_def set_group_conditions_def without_group_finalizer_def

lemma emits_release_group:
  "emits (release_group r g) (\<lambda>err evs. evs = [EUpdate (KOZGroup (without_group_finalizer g)) err])"
  unfolding release_group_def call_defs by (auto intro!: emits_intros)

text \<open>What a synchronisation has done when it reports success without asking for a requeue.\<close>

definition group_synced :: "OZGroup \<Rightarrow> OZGroup \<Rightarrow> event list \<Rightarrow> bool" where
  "group_synced g g' evs =
     (\<exists>grp. ozg_GroupID (ozg_Status g') = Some (ag_Id grp) \<and>
       (OCreate CGroups (QGroup (ozg_Name (ozg_Spec g))) (Inr (RGroup grp)) \<in> set evs \<or>
        (ag_Name grp = ozg_Name (ozg_Spec g) \<and>
         (\<exists>rs. OList CGroups (Inr rs) \<in> set evs \<and> RGroup grp \<in> set rs))))"

lemma sync_synced:
  "emits (syncopenZroGroup r g) (\<lambda>(g', res, err) evs. err = None \<and> \<not> res_Requeue res \<longrightarrow> group_synced g g' evs)"
  unfolding syncopenZroGroup_def call_defs condition_true_def
  by (auto intro!: emits_intros simp: group_synced_def group_setters requeue_now_def
       dest!: find_last_Some split: sum.split option.split) blast+

lemma sync_frame:
  "emits (syncopenZroGroup r g) (\<lambda>(g', res, err) evs. ozg_Meta g' = ozg_Meta g \<and> ozg_Spec g' = ozg_Spec g \<and>
     (\<forall>x er. EStatusUpdate x er \<notin> set evs) \<and> (\<forall>x er. EUpdate x er \<notin> set evs))"
  unfolding syncopenZroGroup_def call_defs
  by (auto intro!: emits_intros simp: group_setters split: sum.split option.split)

lemma sync_condition:
  "emits (syncopenZroGroup r g) (\<lambda>(g', res, err) evs. err = None \<and> \<not> res_Requeue res \<longrightarrow>
     map ozc_Status (ozg_Conditions (ozg_Status g')) = [''True''])"
  unfolding syncopenZroGroup_def call_defs condition_true_def
  by (auto intro!: emits_intros simp: group_setters OZConditionTrue_def requeue_now_def split: sum.split option.split)

lemma sync_creates_only_if_absent:
  "emits (syncopenZroGroup r g) (\<lambda>_ evs. \<forall>q a. OCreate CGroups q a \<in> set evs \<longrightarrow>
     ozg_GroupID (ozg_Status g) = None \<and> q = QGroup (ozg_Name (ozg_Spec g)) \<and>
     (\<exists>rs. OList CGroups (Inr rs) \<in> set evs \<and> (\<forall>grp. RGroup grp \<in> set rs \<longrightarrow> ag_Name grp \<noteq> ozg_Name (ozg_Spec g))))"
  unfolding syncopenZroGroup_def call_defs
  by (auto intro!: emits_intros simp: find_last_None split: sum.split option.split)

lemma sync_no_panic:
  "emits (syncopenZroGroup r g) (\<lambda>(g', res, err) evs. \<forall>e. err = Some e \<longrightarrow>
     OList CGroups (Inl e) \<in> set evs \<or> (\<exists>q. OCreate CGroups q (Inl e) \<in> set evs))"
  unfolding syncopenZroGroup_def call_defs
  by (auto intro!: emits_intros split: sum.split option.split)

text \<open>
  When a deleted group may be released: it was never created, or the management API deleted it or
  does not know it, or it is still linked there and either another \<open>OZGroup\<close> of the listing holds
  the same group or the listing was no longer consulted (the minute of grace has passed).
\<close>

definition may_release :: "OZGroup \<Rightarrow> event list \<Rightarrow> bool" where
  "may_release g evs = (case ozg_GroupID (ozg_Status g) of None \<Rightarrow> True
     | Some i \<Rightarrow> ODelete CGroups i None \<in> set evs \<or>
         (\<exists>e. ODelete CGroups i (Some e) \<in> set evs \<and>
           (str_contains (error_text e) ''not found'' \<or>
            (str_contains (error_text e) ''linked'' \<and>
             ((\<exists>items v. EList ''OZGroup'' (Inr items) \<in> set evs \<and> KOZGroup v \<in> set items \<and>
                 om_UID (ozg_Meta v) \<noteq> om_UID (ozg_Meta g) \<and> ozg_GroupID (ozg_Status v) = Some i) \<or>
              (\<forall>a. EList ''OZGroup'' a \<notin> set evs))))))"

definition only_holder :: "OZGroup \<Rightarrow> OZGroup list \<Rightarrow> bool" where
  "only_holder g items = (\<forall>v \<in> set items.
     om_UID (ozg_Meta v) = om_UID (ozg_Meta g) \<or> ozg_GroupID (ozg_Status v) \<noteq> ozg_GroupID (ozg_Status g))"

lemma holders_loop:
  "ozg_GroupID (ozg_Status g) = Some i \<Longrightarrow>
   emits (for_each items () (\<lambda>v _.
      if om_UID (ozg_Meta v) = om_UID (ozg_Meta g) then State_Monad.return (Inr ())
      else if ozg_GroupID (ozg_Status v) = Some i
      then do { ue \<leftarrow> release_group r g; State_Monad.return (Inl ue) }
      else State_Monad.return (Inr ())))
    (\<lambda>x evs. case x of
       Inl err \<Rightarrow> evs = [EUpdate (KOZGroup (without_group_finalizer g)) err] \<and> \<not> only_holder g items
     | Inr _ \<Rightarrow> evs = [])"
  by (rule emits_for_each [where I = "\<lambda>_ evs. evs = []"])
     (auto intro!: emits_intros emits_bind [OF emits_release_group] simp: only_holder_def)

lemma ozgroup_handleDelete_releases:
  "emits (OZGroup_handleDelete r g deleted) (\<lambda>err evs. \<forall>o' er. EUpdate o' er \<in> set evs \<longrightarrow>
     o' = KOZGroup (without_group_finalizer g) \<and> may_release g evs)"
  unfolding OZGroup_handleDelete_def call_defs
  by (auto intro!: emits_intros emits_mono [OF emits_release_group] emits_bind [OF holders_loop]
        simp: may_release_def only_holder_def image_iff split: option.split sum.split sum.splits)

section \<open>Claims\<close>

definition demo_group :: "string option \<Rightarrow> OZGroup" where
  "demo_group i = \<lparr>ozg_Meta = zero_ObjectMeta\<lparr>om_Name := ''team'', om_UID := ''u1'',
       om_Finalizers := [ozgroup_finalizer], om_DeletionTimestamp := Some 0\<rparr>,
     ozg_Spec = \<lparr>ozg_Name = ''team''\<rparr>, ozg_Status = \<lparr>ozg_GroupID = i, ozg_Conditions = []\<rparr>\<rparr>"

text \<open>
  C2. Synchronising an \<open>OZGroup\<close>, whatever the management API answers: when it succeeds without a
  requeue, the recorded group ID belongs to a group that the API listed under the object's name or
  that was just created for it, and the object is marked Ready; and a group is created only when
  the object has no recorded ID and the listing had no group of that name.
\<close>

theorem ozgroup_sync_correct:
  "emits (syncopenZroGroup r g) (\<lambda>(g', res, err) evs.
     (err = None \<and> \<not> res_Requeue res \<longrightarrow>
        group_synced g g' evs \<and> map ozc_Status (ozg_Conditions (ozg_Status g')) = [''True'']) \<and>
     (\<forall>q a. OCreate CGroups q a \<in> set evs \<longrightarrow>
        ozg_GroupID (ozg_Status g) = None \<and> q = QGroup (ozg_Name (ozg_Spec g)) \<and>
        (\<exists>rs. OList CGroups (Inr rs) \<in> set evs \<and>
          (\<forall>grp. RGroup grp \<in> set rs \<longrightarrow> ag_Name grp \<noteq> ozg_Name (ozg_Spec g)))))"
  by (rule emits_mono [OF emits_conj [OF sync_synced emits_conj [OF sync_condition sync_creates_only_if_absent]]])
     auto

definition demo_group_env :: "unit OZGroupReconciler" where
  "demo_group_env = \<lparr>gr_Client = down_Client, gr_OpenZro = down_OpenZro\<lparr>oz_Groups :=
     down_rest\<lparr>rs_list := \<lambda>w. (Inr [\<lparr>ag_Id = ''g1'', ag_Name = ''team''\<rparr>], w)\<rparr>\<rparr>\<rparr>"

theorem ozgroup_sync_correct_witness:
  "let (x, t) = run_state (syncopenZroGroup demo_group_env (demo_group None)) start
   in snd (snd x) = None \<and> \<not> res_Requeue (fst (snd x)) \<and> group_synced (demo_group None) (fst x) (wlog t)"
proof -
  let ?m = "syncopenZroGroup demo_group_env (demo_group None)"
  have run: "snd (snd (fst (run_state ?m start))) = None \<and> \<not> res_Requeue (fst (snd (fst (run_state ?m start))))"
    by (simp add: syncopenZroGroup_def call_defs demo_group_env_def demo_group_def down_defs
        find_last_def condition_true_def zero_Result_def)
  have "group_synced (demo_group None) (fst (fst (run_state ?m start))) (wlog (snd (run_state ?m start)))"
    using emits_start [OF ozgroup_sync_correct [where r = demo_group_env and g = "demo_group None"]] run
    by (simp add: split_beta)
  with run show ?thesis by (simp add: split_beta)
qed


text \<open>
  Deleting an \<open>OZGroup\<close>: the object is updated only to drop the cleanup finalizer, and only
  when the management API has deleted the group, does not know it, or reports it as linked while
  another \<open>OZGroup\<close> of the cluster holds the same group (or the minute of grace is over); an
  object whose group was never created is released at once.
\<close>

theorem ozgroup_delete_releases_safely:
  "emits (OZGroup_handleDelete r g deleted) (\<lambda>err evs. \<forall>o' er. EUpdate o' er \<in> set evs \<longrightarrow>
     o' = KOZGroup (without_group_finalizer g) \<and> may_release g evs)"
  by (rule ozgroup_handleDelete_releases)

theorem ozgroup_delete_releases_safely_witness:
  "let t = snd (run_state (OZGroup_handleDelete \<lparr>gr_Client = down_Client, gr_OpenZro = down_OpenZro\<lparr>oz_Groups :=
       down_rest\<lparr>rs_delete := \<lambda>i w. (Some (OError ''group not found''), w)\<rparr>\<rparr>\<rparr> (demo_group (Some ''g1'')) 0) start)
   in EUpdate (KOZGroup (without_group_finalizer (demo_group (Some ''g1'')))) (Some (KError ''down'')) \<in> set (wlog t) \<and>
      may_release (demo_group (Some ''g1'')) (wlog t)"
proof -
  let ?r = "\<lparr>gr_Client = down_Client, gr_OpenZro = down_OpenZro\<lparr>oz_Groups :=
     down_rest\<lparr>rs_delete := \<lambda>i w. (Some (OError ''group not found''), w)\<rparr>\<rparr>\<rparr>"
  let ?g = "demo_group (Some ''g1'')"
  have run: "EUpdate (KOZGroup (without_group_finalizer ?g)) (Some (KError ''down''))
      \<in> set (wlog (snd (run_state (OZGroup_handleDelete ?r ?g 0) start)))"
    by (simp add: OZGroup_handleDelete_def release_group_def call_defs demo_group_def down_defs)
  then have "may_release ?g (wlog (snd (run_state (OZGroup_handleDelete ?r ?g 0) start)))"
    using emits_start [OF ozgroup_delete_releases_safely [where r = ?r and g = ?g and deleted = 0]] by blast
  with run show ?thesis by (simp add: Let_def)
qed

text \<open>
  Within the minute of grace, a group that the management API reports as linked and that no
  other \<open>OZGroup\<close> holds is kept: the error is returned and the object is not updated.
\<close>

theorem ozgroup_delete_linked_waits:
  assumes "ozg_GroupID (ozg_Status g) = Some i" 
    and "rs_delete (oz_Groups (gr_OpenZro r)) i (wenv s) = (Some e, w1)" and "str_contains (error_text e) ''linked''"
    and "clock (gr_Client r) w1 = (now, w2)" and "now \<le> deleted + Minute"
    and "kc_list (c_OZGroups (gr_Client r)) None w2 = (Inr items, w3)" and "only_holder g items"
  shows "run_state (OZGroup_handleDelete r g deleted) s =
     (Some e, s\<lparr>wenv := w3, wlog := wlog s @ [ODelete CGroups i (Some e), EList ''OZGroup'' (Inr (map KOZGroup items))]\<rparr>)"
proof -
  have loop: "run_state (for_each items () (\<lambda>v _.
      if om_UID (ozg_Meta v) = om_UID (ozg_Meta g) then State_Monad.return (Inr ())
      else if ozg_GroupID (ozg_Status v) = Some i
      then do { ue \<leftarrow> release_group r g; State_Monad.return (Inl ue) }
      else State_Monad.return (Inr ()))) u = (Inr (), u)" for u
    using assms(1,7) by (induction items arbitrary: u) (auto simp: only_holder_def)
  show ?thesis
    using assms by (simp add: OZGroup_handleDelete_def call_defs loop)
qed

theorem ozgroup_delete_linked_waits_witness:
  "fst (run_state (OZGroup_handleDelete
     \<lparr>gr_Client = down_Client\<lparr>c_OZGroups := down_kind\<lparr>kc_list := \<lambda>_ w. (Inr [demo_group (Some ''g1'')], w)\<rparr>\<rparr>,
      gr_OpenZro = down_OpenZro\<lparr>oz_Groups := down_rest\<lparr>rs_delete := \<lambda>i w. (Some (OError ''linked''), w)\<rparr>\<rparr>\<rparr>
     (demo_group (Some ''g1'')) 0) start) = Some (OError ''linked'')"
  by (subst ozgroup_delete_linked_waits [where i = "''g1''" and e = "OError ''linked''" and ?w1.0 = "()" and now = 0
        and ?w2.0 = "()" and ?w3.0 = "()" and items = "[demo_group (Some ''g1'')]"])
     (simp_all add: demo_group_def down_defs Minute_def Second_def only_holder_def)

text \<open>
  When \<open>OZGroup_Reconcile\<close> returns an error, no status of the object has been stored: the
  \<open>APIError\<close> condition that \<open>syncopenZroGroup\<close> records on a failed create never reaches the cluster.
\<close>

theorem ozgroup_error_condition_not_stored:
  "emits (OZGroup_Reconcile r req) (\<lambda>(res, err) evs.
     err \<noteq> None \<longrightarrow> (\<forall>x er. EStatusUpdate (KOZGroup x) er \<in> set evs \<longrightarrow> er = err))"
proof -
  have del: "emits (OZGroup_handleDelete r g d) (\<lambda>_ evs. \<forall>x er. EStatusUpdate x er \<notin> set evs)" for g d
    unfolding OZGroup_handleDelete_def call_defs
    by (auto intro!: emits_intros emits_mono [OF emits_release_group] emits_bind [OF holders_loop]
        split: option.split sum.split sum.splits)
  have body: "emits (case om_DeletionTimestamp (ozg_Meta g) of
        Some deleted \<Rightarrow> if om_Finalizers (ozg_Meta g) = [] then State_Monad.return (g, zero_Result, None)
          else do { err \<leftarrow> OZGroup_handleDelete r g deleted; State_Monad.return (g, zero_Result, err) }
      | None \<Rightarrow> syncopenZroGroup r g) (\<lambda>_ evs. \<forall>x er. EStatusUpdate (KOZGroup x) er \<notin> set evs)" for g
    by (auto intro!: emits_intros emits_bind [OF del] emits_mono [OF sync_frame] split: option.split)
  show ?thesis
    unfolding OZGroup_Reconcile_def call_defs
    by (auto intro!: emits_intros emits_mono [OF ozgroup.error_not_stored [OF body]] split: sum.split)
qed

definition demo_group_down :: "unit OZGroupReconciler" where
  "demo_group_down = \<lparr>gr_Client = down_Client\<lparr>c_OZGroups := down_kind\<lparr>kc_get := \<lambda>_ w.
       (Inr ((demo_group None)\<lparr>ozg_Meta := zero_ObjectMeta\<rparr>), w)\<rparr>\<rparr>,
     gr_OpenZro = down_OpenZro\<lparr>oz_Groups := down_rest\<lparr>rs_list := \<lambda>w. (Inr [], w)\<rparr>\<rparr>\<rparr>"

theorem ozgroup_error_condition_not_stored_witness:
  "let (x, t) = run_state (OZGroup_Reconcile demo_group_down ('''', ''team'')) start
   in snd x = Some (OError ''down'') \<and> (\<forall>g. EStatusUpdate (KOZGroup g) None \<notin> set (wlog t))"
proof -
  let ?m = "OZGroup_Reconcile demo_group_down ('''', ''team'')"
  have run: "snd (fst (run_state ?m start)) = Some (OError ''down'')"
    by (simp add: OZGroup_Reconcile_def syncopenZroGroup_def ozgroup_finish_def call_defs demo_group_down_def
        demo_group_def down_defs zero_ObjectMeta_def condition_false_def)
  then have "\<forall>g. EStatusUpdate (KOZGroup g) None \<notin> set (wlog (snd (run_state ?m start)))"
    using emits_start [OF ozgroup_error_condition_not_stored [where r = demo_group_down and req = "('''', ''team'')"]]
    by (auto simp: split_beta)
  with run show ?thesis by (simp add: split_beta)
qed

end
