(* ===== verification/OZPolicy_Controller.thy ===== *)
theory OZPolicy_Controller
  imports OZGroup_Controller
begin

text \<open>
  \<open>internal/controller/ozpolicy_controller.go\<close>: an \<open>OZPolicy\<close> becomes one access policy per
  protocol in the management API, with the ports and groups of the \<open>OZResource\<close> objects that
  reference it. Go visits the two entries of the port map in either order; \<open>udp_first\<close> is that
  choice.
\<close>

section \<open>Model\<close>

record 'w OZPolicyReconciler =
  pr_Client :: "'w Client"
  pr_OpenZro :: "'w OpenZro"

definition protocolTCP :: string where "protocolTCP = ''tcp''"
definition protocolUDP :: string where "protocolUDP = ''udp''"

definition generated_by :: string where "generated_by = ''openzro.io/generated-by''"

definition set_policy_status :: "(OZPolicyStatus \<Rightarrow> OZPolicyStatus) \<Rightarrow> OZPolicy \<Rightarrow> OZPolicy" where
  "set_policy_status f p = p\<lparr>ozp_Status := f (ozp_Status p)\<rparr>"

definition getResources ::
  "'w OZPolicyReconciler \<Rightarrow> OZPolicy \<Rightarrow> ('w, (OZPolicy \<times> (goerr + OZResource list)) outcome) go" where
  "getResources r nbPolicy = do {
     lr \<leftarrow> for_each (ozp_ManagedServiceList (ozp_Status nbPolicy)) ([], []) (\<lambda>rss (updated, resources).
       (case str_split rss ''/'' of
          ns # name # _ \<Rightarrow> do {
            g \<leftarrow> k_get (OZResources (pr_Client r)) (ns, name);
            (case g of
               Inl err \<Rightarrow>
                 if \<not> k_IsNotFound err
                 then do {
                   cs \<leftarrow> condition_false (pr_Client r) ''internalError'' (''Error getting OZResource: '' @ error_text err);
                   State_Monad.return (Inl (Returned (cs, err))) }
                 else State_Monad.return (Inr (updated, resources))
             | Inr resource \<Rightarrow>
                 if om_DeletionTimestamp (ozr_Meta resource) = None
                 then State_Monad.return (Inr (updated @ [rss], resources @ [resource]))
                 else State_Monad.return (Inr (updated, resources)))
          }
        | _ \<Rightarrow> State_Monad.return (Inl (Panicked ''index out of range''))));
     State_Monad.return (case lr of
       Inl (Panicked p) \<Rightarrow> Panicked p
     | Inl (Returned (cs, err)) \<Rightarrow> Returned (set_policy_status (\<lambda>s. s\<lparr>ozp_Conditions := cs\<rparr>) nbPolicy, Inl err)
     | Inr (updated, resources) \<Rightarrow>
         Returned (set_policy_status (\<lambda>s. s\<lparr>ozp_ManagedServiceList := updated\<rparr>) nbPolicy, Inr resources))
   }"

text \<open>The ID of a group name; the zero value of the map when no listed group has it.\<close>

definition group_id :: "ApiGroup list \<Rightarrow> string \<Rightarrow> string" where
  "group_id gs n = (case find_last (\<lambda>g. ag_Name g = n) gs of None \<Rightarrow> '''' | Some g \<Rightarrow> ag_Id g)"

definition groupNamesToIDs :: "'w OZPolicyReconciler \<Rightarrow> string list \<Rightarrow> ('w, goerr + string list) go" where
  "groupNamesToIDs r groupNames = do {
     lr \<leftarrow> o_list (Groups (pr_OpenZro r));
     State_Monad.return (case lr of
       Inl e \<Rightarrow> Inl e
     | Inr groups \<Rightarrow>
         Inr (map (group_id groups) groupNames))
   }"

text \<open>The guards of the loop over the resources: does the resource reference this policy?\<close>

definition resource_selected :: "OZPolicy \<Rightarrow> OZResource \<Rightarrow> bool" where
  "resource_selected nbPolicy resource =
     (case ors_PolicyName (ozr_Status resource) of
        None \<Rightarrow> False
      | Some pn \<Rightarrow>
          let generatedBy = str_replace_all (gm_val (om_Annotations (ozp_Meta nbPolicy)) generated_by) ''/'' ''-'';
              resourcePolicies = SplitTrim pn '',''
          in if generatedBy = '''' then om_Name (ozp_Meta nbPolicy) \<in> set resourcePolicies
             else str_replace_all (om_Name (ozp_Meta nbPolicy)) (''-'' @ generatedBy) '''' \<in> set resourcePolicies)"

text \<open>The loop: destination groups and the key sets of the port maps.\<close>

fun collect_ports ::
  "OZPolicy \<Rightarrow> OZResource list \<Rightarrow> string list \<times> int32 list \<times> int32 list \<Rightarrow> string list \<times> int32 list \<times> int32 list" where
  "collect_ports nbPolicy [] acc = acc"
| "collect_ports nbPolicy (resource # resources) (groups, tcp, udp) =
     (if \<not> resource_selected nbPolicy resource then collect_ports nbPolicy resources (groups, tcp, udp)
      else collect_ports nbPolicy resources
        (groups @ ors_Groups (ozr_Status resource),
         fold List.insert (ozr_TCPPorts (ozr_Spec resource)) tcp,
         fold List.insert (ozr_UDPPorts (ozr_Spec resource)) udp))"

definition mapResources ::
  "'w OZPolicyReconciler \<Rightarrow> OZPolicy \<Rightarrow> OZResource list \<Rightarrow>
     ('w, goerr + (string \<times> int32 list) list \<times> string list) go" where
  "mapResources r nbPolicy resources = do {
     gr \<leftarrow> groupNamesToIDs r (ozp_DestinationGroups (ozp_Spec nbPolicy));
     State_Monad.return (case gr of
       Inl e \<Rightarrow> Inl e
     | Inr groups \<Rightarrow>
         (case collect_ports nbPolicy resources (groups, [], []) of
            (groups', tcp, udp) \<Rightarrow>
              Inr ([(protocolTCP, sort_int32 tcp), (protocolUDP, sort_int32 udp)], groups')))
   }"

definition policy_name :: "OZPolicy \<Rightarrow> string \<Rightarrow> string" where
  "policy_name nbPolicy protocol = ozp_Name (ozp_Spec nbPolicy) @ '' '' @ str_to_upper protocol"

text \<open>The request that \<open>createPolicy\<close> and \<open>updatePolicy\<close> send.\<close>

definition policy_request :: "OZPolicy \<Rightarrow> string \<Rightarrow> string list \<Rightarrow> string list \<Rightarrow> string list \<Rightarrow> PolicyRequest" where
  "policy_request nbPolicy protocol sourceGroupIDs destinationGroupIDs ports =
     \<lparr>polr_Enabled = True, polr_Name = policy_name nbPolicy protocol,
      polr_Description = Some (ozp_Description (ozp_Spec nbPolicy)),
      polr_Rules = [\<lparr>pru_Enabled = True, pru_Name = policy_name nbPolicy protocol,
        pru_Description = Some (ozp_Description (ozp_Spec nbPolicy)), pru_Action = ''accept'',
        pru_Protocol = protocol, pru_Bidirectional = ozp_Bidirectional (ozp_Spec nbPolicy),
        pru_Sources = Some sourceGroupIDs, pru_Destinations = Some destinationGroupIDs,
        pru_Ports = Some ports\<rparr>]\<rparr>"

definition createPolicy ::
  "'w OZPolicyReconciler \<Rightarrow> OZPolicy \<Rightarrow> string \<Rightarrow> string list \<Rightarrow> string list \<Rightarrow> string list \<Rightarrow>
     ('w, OZPolicy \<times> string option \<times> goerr option) go" where
  "createPolicy r nbPolicy protocol sourceGroupIDs destinationGroupIDs ports = do {
     cr \<leftarrow> o_create (Policies (pr_OpenZro r))
            (policy_request nbPolicy protocol sourceGroupIDs destinationGroupIDs ports);
     (case cr of
        Inl err \<Rightarrow> do {
          cs \<leftarrow> condition_false (pr_Client r) ''APIError'' (''Error creating policy: '' @ error_text err);
          State_Monad.return (set_policy_status (\<lambda>s. s\<lparr>ozp_Conditions := cs\<rparr>) nbPolicy, None, Some err) }
      | Inr policyId \<Rightarrow> State_Monad.return (nbPolicy, policyId, None))
   }"

definition updatePolicy ::
  "'w OZPolicyReconciler \<Rightarrow> string \<Rightarrow> OZPolicy \<Rightarrow> string \<Rightarrow> string list \<Rightarrow> string list \<Rightarrow> string list \<Rightarrow>
     ('w, OZPolicy \<times> string option \<times> bool \<times> goerr option) go" where
  "updatePolicy r policyID nbPolicy protocol sourceGroupIDs destinationGroupIDs ports = do {
     ur \<leftarrow> o_update (Policies (pr_OpenZro r)) policyID
            (policy_request nbPolicy protocol sourceGroupIDs destinationGroupIDs ports);
     (case ur of
        Inl err \<Rightarrow>
          if \<not> str_contains (error_text err) ''not found''
          then do {
            cs \<leftarrow> condition_false (pr_Client r) ''APIError'' (''Error updating policy: '' @ error_text err);
            State_Monad.return (set_policy_status (\<lambda>s. s\<lparr>ozp_Conditions := cs\<rparr>) nbPolicy, Some policyID, False, Some err) }
          else do {
            cs \<leftarrow> condition_false (pr_Client r) ''Gone'' ''Policy deleted from openZro API'';
            State_Monad.return (set_policy_status (\<lambda>s. s\<lparr>ozp_Conditions := cs\<rparr>) nbPolicy, None, True, None) }
      | Inr _ \<Rightarrow> State_Monad.return (nbPolicy, Some policyID, False, None))
   }"

definition get_policy_id :: "string \<Rightarrow> OZPolicy \<Rightarrow> string option" where
  "get_policy_id protocol p =
     (if protocol = protocolTCP then ozp_TCPPolicyID (ozp_Status p) else ozp_UDPPolicyID (ozp_Status p))"

definition set_policy_id :: "string \<Rightarrow> string option \<Rightarrow> OZPolicy \<Rightarrow> OZPolicy" where
  "set_policy_id protocol v p =
     (if protocol = protocolTCP then set_policy_status (\<lambda>s. s\<lparr>ozp_TCPPolicyID := v\<rparr>) p
      else set_policy_status (\<lambda>s. s\<lparr>ozp_UDPPolicyID := v\<rparr>) p)"

text \<open>
  The branches of \<open>syncPolicy\<close> that delete a policy: delete it, tolerate "not found", and go on
  with the ID cleared.
\<close>

definition sync_delete ::
  "'w OZPolicyReconciler \<Rightarrow> OZPolicy \<Rightarrow> bool \<Rightarrow> string \<Rightarrow> string \<Rightarrow>
     ('w, (OZPolicy \<times> bool \<times> goerr option) + (OZPolicy \<times> bool)) go" where
  "sync_delete r nbPolicy requeue protocol policyID = do {
     err \<leftarrow> o_delete (Policies (pr_OpenZro r)) policyID;
     (case err of
        Some e \<Rightarrow>
          if \<not> str_contains (error_text e) ''not found''
          then do {
            cs \<leftarrow> condition_false (pr_Client r) ''APIError'' (''Error deleting policy: '' @ error_text e);
            State_Monad.return (Inl (set_policy_status (\<lambda>s. s\<lparr>ozp_Conditions := cs\<rparr>) nbPolicy, requeue, Some e)) }
          else State_Monad.return (Inr (set_policy_id protocol None nbPolicy, requeue))
      | None \<Rightarrow> State_Monad.return (Inr (set_policy_id protocol None nbPolicy, requeue)))
   }"

text \<open>One iteration of the loop of \<open>syncPolicy\<close>.\<close>

definition sync_protocol ::
  "'w OZPolicyReconciler \<Rightarrow> string list \<Rightarrow> string list \<Rightarrow> string \<times> int32 list \<Rightarrow> OZPolicy \<times> bool \<Rightarrow>
     ('w, (OZPolicy \<times> bool \<times> goerr option) + (OZPolicy \<times> bool)) go" where
  "sync_protocol r sourceGroups destGroups pp acc =
     (case pp of (protocol, ports) \<Rightarrow> case acc of (nbPolicy, requeue) \<Rightarrow>
      if protocol \<noteq> protocolTCP \<and> protocol \<noteq> protocolUDP
      then do {
        cs \<leftarrow> condition_false (pr_Client r) ''ConfigError'' (''Unknown protocol: '' @ protocol);
        State_Monad.return (Inl (set_policy_status (\<lambda>s. s\<lparr>ozp_Conditions := cs\<rparr>) nbPolicy, requeue,
          Some (GoError ''unknown protocol''))) }
      else if ozp_Protocols (ozp_Spec nbPolicy) \<noteq> [] \<and> protocol \<notin> set (ozp_Protocols (ozp_Spec nbPolicy))
      then (case get_policy_id protocol nbPolicy of
              Some policyID \<Rightarrow> sync_delete r nbPolicy requeue protocol policyID
            | None \<Rightarrow> State_Monad.return (Inr (set_policy_id protocol None nbPolicy, requeue)))
      else (case get_policy_id protocol nbPolicy of
         None \<Rightarrow>
           if ports = [] \<or> destGroups = [] \<or> sourceGroups = [] then State_Monad.return (Inr (nbPolicy, requeue))
           else do {
             (p, policyID, err) \<leftarrow> createPolicy r nbPolicy protocol sourceGroups destGroups
               (map (\<lambda>v. format_int (sint v)) (ports @ ozp_Ports (ozp_Spec nbPolicy)));
             State_Monad.return (case err of
               Some e \<Rightarrow> Inl (p, requeue, Some e)
             | None \<Rightarrow> Inr (set_policy_id protocol policyID p, requeue)) }
       | Some policyID \<Rightarrow>
           if ports = [] \<or> destGroups = [] \<or> sourceGroups = [] then sync_delete r nbPolicy requeue protocol policyID
           else do {
             (p, policyID', requeue', err) \<leftarrow> updatePolicy r policyID nbPolicy protocol sourceGroups destGroups
               (map (\<lambda>v. format_int (sint v)) (ports @ ozp_Ports (ozp_Spec nbPolicy)));
             State_Monad.return (case err of
               Some e \<Rightarrow> Inl (p, requeue', Some e)
             | None \<Rightarrow> Inr (set_policy_id protocol policyID' p, requeue')) }))"

definition syncPolicy ::
  "'w OZPolicyReconciler \<Rightarrow> OZPolicy \<Rightarrow> string list \<Rightarrow> string list \<Rightarrow> (string \<times> int32 list) list \<Rightarrow>
     ('w, OZPolicy \<times> bool \<times> goerr option) go" where
  "syncPolicy r nbPolicy sourceGroups destGroups portMapping = do {
     lr \<leftarrow> for_each portMapping (nbPolicy, False) (sync_protocol r sourceGroups destGroups);
     State_Monad.return (case lr of Inl ret \<Rightarrow> ret | Inr (p, requeue) \<Rightarrow> (p, requeue, None))
   }"

text \<open>
  \<open>handleDelete\<close>: the tolerated error is the one whose text is contained in "not found" (the
  arguments of \<open>strings.Contains\<close> are in that order in the source).
\<close>

definition delete_policy_id ::
  "'w OZPolicyReconciler \<Rightarrow> string \<Rightarrow> OZPolicy \<Rightarrow> ('w, OZPolicy \<times> goerr option) go" where
  "delete_policy_id r protocol nbPolicy =
     (case get_policy_id protocol nbPolicy of
        None \<Rightarrow> State_Monad.return (nbPolicy, None)
      | Some i \<Rightarrow> do {
          err \<leftarrow> o_delete (Policies (pr_OpenZro r)) i;
          State_Monad.return (case err of
            Some e \<Rightarrow> if \<not> str_contains ''not found'' (error_text e) then (nbPolicy, Some e)
                      else (set_policy_id protocol None nbPolicy, None)
          | None \<Rightarrow> (set_policy_id protocol None nbPolicy, None)) })"

definition policy_finalizer :: string where "policy_finalizer = ''openzro.io/cleanup''"

text \<open>The last step: drop the finalizer if it is there and update the object.\<close>

definition release_policy :: "'w OZPolicyReconciler \<Rightarrow> OZPolicy \<Rightarrow> ('w, OZPolicy \<times> goerr option) go" where
  "release_policy r p =
     (if policy_finalizer \<in> set (om_Finalizers (ozp_Meta p))
      then do {
        let p' = p\<lparr>ozp_Meta := (ozp_Meta p)\<lparr>om_Finalizers := Without (om_Finalizers (ozp_Meta p)) policy_finalizer\<rparr>\<rparr>;
        ur \<leftarrow> k_update (OZPolicies (pr_Client r)) p';
        State_Monad.return (case ur of Inl e \<Rightarrow> (p', Some e) | Inr stored \<Rightarrow> (stored, None)) }
      else State_Monad.return (p, None))"

definition OZPolicy_handleDelete :: "'w OZPolicyReconciler \<Rightarrow> OZPolicy \<Rightarrow> ('w, OZPolicy \<times> goerr option) go" where
  "OZPolicy_handleDelete r nbPolicy = do {
     (p1, e1) \<leftarrow> delete_policy_id r protocolTCP nbPolicy;
     (case e1 of
        Some e \<Rightarrow> State_Monad.return (p1, Some e)
      | None \<Rightarrow> do {
          (p2, e2) \<leftarrow> delete_policy_id r protocolUDP p1;
          (case e2 of
             Some e \<Rightarrow> State_Monad.return (p2, Some e)
           | None \<Rightarrow> release_policy r p2) })
   }"

text \<open>The deferred function of \<open>Reconcile\<close>.\<close>

definition ozpolicy_finish ::
  "'w OZPolicyReconciler \<Rightarrow> OZPolicy \<Rightarrow> OZPolicy \<Rightarrow> Result \<Rightarrow> goerr option \<Rightarrow> ('w, Result \<times> goerr option) go" where
  "ozpolicy_finish r originalPolicy nbPolicy res err =
     (case err of
        Some e \<Rightarrow> State_Monad.return (zero_Result, Some e)
      | None \<Rightarrow>
          if om_DeletionTimestamp (ozp_Meta originalPolicy) \<noteq> None \<and> om_Finalizers (ozp_Meta nbPolicy) = []
          then State_Monad.return (res, None)
          else do {
            ue \<leftarrow> (if \<not> OZPolicyStatus_Equal (ozp_Status originalPolicy) (ozp_Status nbPolicy)
                  then do { ur \<leftarrow> k_status_update (OZPolicies (pr_Client r)) nbPolicy;
                            State_Monad.return (err_of ur) }
                  else State_Monad.return None);
            State_Monad.return
              (if \<not> res_Requeue res \<and> res_RequeueAfter res = 0
               then res\<lparr>res_RequeueAfter := defaultRequeueAfter\<rparr> else res, ue)
          })"

text \<open>The body of \<open>Reconcile\<close> after the object was read; a panic leaves the object as it was.\<close>

definition ozpolicy_body ::
  "'w OZPolicyReconciler \<Rightarrow> bool \<Rightarrow> OZPolicy \<Rightarrow> ('w, (OZPolicy \<times> Result \<times> goerr option) outcome) go" where
  "ozpolicy_body r udp_first nbPolicy =
     (if om_DeletionTimestamp (ozp_Meta nbPolicy) \<noteq> None
      then (if om_Finalizers (ozp_Meta nbPolicy) = [] then State_Monad.return (Returned (nbPolicy, zero_Result, None))
            else do { (p, err) \<leftarrow> OZPolicy_handleDelete r nbPolicy;
                      State_Monad.return (Returned (p, zero_Result, err)) })
      else do {
        gr \<leftarrow> getResources r nbPolicy;
        (case gr of
           Panicked m \<Rightarrow> State_Monad.return (Panicked m)
         | Returned (p1, Inl e) \<Rightarrow> State_Monad.return (Returned (p1, zero_Result, Some e))
         | Returned (p1, Inr resourceList) \<Rightarrow> do {
             mr \<leftarrow> mapResources r p1 resourceList;
             (case mr of
                Inl e \<Rightarrow> State_Monad.return (Returned (p1, zero_Result, Some e))
              | Inr (portMapping, destGroups) \<Rightarrow> do {
                  sg \<leftarrow> groupNamesToIDs r (ozp_SourceGroups (ozp_Spec p1));
                  (case sg of
                     Inl e \<Rightarrow> do {
                       cs \<leftarrow> condition_false (pr_Client r) ''APIError'' (''Error getting group IDs: '' @ error_text e);
                       State_Monad.return
                         (Returned (set_policy_status (\<lambda>s. s\<lparr>ozp_Conditions := cs\<rparr>) p1, zero_Result, Some e)) }
                   | Inr sourceGroupIDs \<Rightarrow> do {
                       (p2, requeue, err) \<leftarrow> syncPolicy r p1 sourceGroupIDs destGroups
                         (if udp_first then rev portMapping else portMapping);
                       (if requeue \<or> err \<noteq> None
                        then State_Monad.return (Returned (p2, zero_Result\<lparr>res_Requeue := requeue\<rparr>, err))
                        else do {
                          cs \<leftarrow> condition_true (pr_Client r);
                          State_Monad.return
                            (Returned (set_policy_status (\<lambda>s. s\<lparr>ozp_Conditions := cs\<rparr>) p2, zero_Result, None)) }) })
                })
           })
      })"

definition OZPolicy_Reconcile ::
  "'w OZPolicyReconciler \<Rightarrow> bool \<Rightarrow> nn \<Rightarrow> ('w, (Result \<times> goerr option) outcome) go" where
  "OZPolicy_Reconcile r udp_first req = do {
     gr \<leftarrow> k_get (OZPolicies (pr_Client r)) req;
     (case gr of
        Inl err \<Rightarrow> State_Monad.return (Returned (requeue_after defaultRequeueAfter,
                     if k_IsNotFound err then None else Some err))
      | Inr nbPolicy \<Rightarrow> do {
          out \<leftarrow> ozpolicy_body r udp_first nbPolicy;
          (case out of
             Panicked m \<Rightarrow> do {
               _ \<leftarrow> ozpolicy_finish r nbPolicy nbPolicy zero_Result None;
               State_Monad.return (Panicked m) }
           | Returned (p, res, err) \<Rightarrow> do {
               ret \<leftarrow> ozpolicy_finish r nbPolicy p res err;
               State_Monad.return (Returned ret) }) })
   }"

lemma finish_contract_ozpolicy: "finish_contract (ozpolicy_finish r) KOZPolicy"
  unfolding ozpolicy_finish_def call_defs
  by unfold_locales (auto intro!: emits_intros)

interpretation ozpolicy: finish_contract "ozpolicy_finish r" KOZPolicy for r
  by (rule finish_contract_ozpolicy)

section \<open>Collecting ports\<close>

definition sorted_ports :: "int32 list \<Rightarrow> bool" where
  "sorted_ports ps = (sorted (map sint ps) \<and> distinct ps)"

lemma fold_insert: "set (fold List.insert xs acc) = set xs \<union> set acc"
    "distinct acc \<Longrightarrow> distinct (fold List.insert xs acc)"
  by (induction xs arbitrary: acc) auto

definition selected_ports :: "(OZResourceSpec \<Rightarrow> int32 list) \<Rightarrow> OZPolicy \<Rightarrow> OZResource list \<Rightarrow> int32 set" where
  "selected_ports f p rs = (\<Union>x \<in> set (filter (resource_selected p) rs). set (f (ozr_Spec x)))"

lemma collect_ports_groups:
  "fst (collect_ports p rs (groups, tcp, udp)) =
     groups @ concat (map (\<lambda>x. ors_Groups (ozr_Status x)) (filter (resource_selected p) rs))"
  by (induction rs arbitrary: groups tcp udp) auto

lemma collect_ports_sets:
  "set (fst (snd (collect_ports p rs (groups, tcp, udp)))) = set tcp \<union> selected_ports ozr_TCPPorts p rs"
  "set (snd (snd (collect_ports p rs (groups, tcp, udp)))) = set udp \<union> selected_ports ozr_UDPPorts p rs"
  by (induction rs arbitrary: groups tcp udp) (auto simp: fold_insert(1) selected_ports_def)

lemma collect_ports_distinct:
  "distinct tcp \<Longrightarrow> distinct (fst (snd (collect_ports p rs (groups, tcp, udp))))"
  "distinct udp \<Longrightarrow> distinct (snd (snd (collect_ports p rs (groups, tcp, udp))))"
  by (induction rs arbitrary: groups tcp udp) (simp_all add: fold_insert(2))

lemma sort_int32_props [simp]:
  "set (sort_int32 xs) = set xs" "distinct xs \<Longrightarrow> sorted_ports (sort_int32 xs)"
  by (simp_all add: sort_int32_def sorted_ports_def)

section \<open>Synchronising one protocol\<close>

text \<open>The abstract state of a protocol: a policy is wanted exactly in this case.\<close>

definition wanted :: "OZPolicy \<Rightarrow> string list \<Rightarrow> string list \<Rightarrow> string \<Rightarrow> int32 list \<Rightarrow> bool" where
  "wanted p sources dests protocol ports =
     ((ozp_Protocols (ozp_Spec p) = [] \<or> protocol \<in> set (ozp_Protocols (ozp_Spec p))) \<and>
      ports \<noteq> [] \<and> dests \<noteq> [] \<and> sources \<noteq> [])"

definition port_strings :: "OZPolicy \<Rightarrow> int32 list \<Rightarrow> string list" where
  "port_strings p ports = map (\<lambda>v. format_int (sint v)) (ports @ ozp_Ports (ozp_Spec p))"

text \<open>The answer of a delete after which the policy does not exist upstream.\<close>

definition upstream_gone :: "goerr option \<Rightarrow> bool" where
  "upstream_gone de = (case de of None \<Rightarrow> True | Some e \<Rightarrow> str_contains (error_text e) ''not found'')"

lemma upstream_gone_simps [simp]:
  "upstream_gone None" "upstream_gone (Some e) \<longleftrightarrow> str_contains (error_text e) ''not found''"
  by (simp_all add: upstream_gone_def)

text \<open>
  What holds of a protocol after a successful synchronisation from \<open>p\<close> to \<open>p'\<close>: if it is not
  wanted, no policy is recorded and a recorded one was deleted; if it is wanted, the recorded
  policy was updated (or is gone upstream and forgotten), or a new one was created and recorded.
\<close>

definition protocol_synced ::
  "OZPolicy \<Rightarrow> OZPolicy \<Rightarrow> string list \<Rightarrow> string list \<Rightarrow> string \<Rightarrow> int32 list \<Rightarrow> event list \<Rightarrow> bool" where
  "protocol_synced p p' sources dests protocol ports evs =
     (let req = QPolicy (policy_request p protocol sources dests (port_strings p ports)) in
      if wanted p sources dests protocol ports
      then (case get_policy_id protocol p of
              None \<Rightarrow> OCreate CPolicies req (Inr (RPolicy (get_policy_id protocol p'))) \<in> set evs
            | Some i \<Rightarrow> (get_policy_id protocol p' = Some i \<and> (\<exists>a. OUpdate CPolicies i req (Inr a) \<in> set evs)) \<or>
                (get_policy_id protocol p' = None \<and> (\<exists>e. OUpdate CPolicies i req (Inl e) \<in> set evs \<and>
                   str_contains (error_text e) ''not found'')))
      else get_policy_id protocol p' = None \<and>
           (case get_policy_id protocol p of None \<Rightarrow> True
            | Some i \<Rightarrow> \<exists>de. ODelete CPolicies i de \<in> set evs \<and> upstream_gone de))"

definition is_proto :: "string \<Rightarrow> bool" where
  "is_proto protocol = (protocol = protocolTCP \<or> protocol = protocolUDP)"

lemma protocols_differ [simp]: "protocolTCP \<noteq> protocolUDP" "protocolUDP \<noteq> protocolTCP"
  by (simp_all add: protocolTCP_def protocolUDP_def)

lemma policy_id_set [simp]:
  "is_proto a \<Longrightarrow> is_proto b \<Longrightarrow> get_policy_id a (set_policy_id b v p) = (if a = b then v else get_policy_id a p)"
  by (auto simp: get_policy_id_def set_policy_id_def set_policy_status_def is_proto_def)

lemma set_policy_frame [simp]:
  "ozp_Spec (set_policy_id a v p) = ozp_Spec p" "ozp_Meta (set_policy_id a v p) = ozp_Meta p"
  "ozp_Spec (set_policy_status f p) = ozp_Spec p" "ozp_Meta (set_policy_status f p) = ozp_Meta p"
  by (simp_all add: set_policy_id_def set_policy_status_def)

lemma set_conditions_policy_id [simp]:
  "get_policy_id a (set_policy_status (\<lambda>s. s\<lparr>ozp_Conditions := cs\<rparr>) p) = get_policy_id a p"
  by (simp add: get_policy_id_def set_policy_status_def)

lemma is_protoI [simp]: "is_proto protocolTCP" "is_proto protocolUDP"
  by (simp_all add: is_proto_def)

text \<open>The frame of one iteration: spec, metadata and the other protocol's policy are untouched.\<close>

definition protocol_frame :: "string \<Rightarrow> OZPolicy \<Rightarrow> OZPolicy \<Rightarrow> bool" where
  "protocol_frame protocol p p' = (ozp_Spec p' = ozp_Spec p \<and> ozp_Meta p' = ozp_Meta p \<and>
     (\<forall>a. is_proto a \<and> a \<noteq> protocol \<longrightarrow> get_policy_id a p' = get_policy_id a p))"

text \<open>The result of one iteration: an error, or the protocol is synchronised and the rest is kept.\<close>

definition step_ok ::
  "OZPolicy \<Rightarrow> string list \<Rightarrow> string list \<Rightarrow> string \<Rightarrow> int32 list \<Rightarrow>
     (OZPolicy \<times> bool \<times> goerr option) + (OZPolicy \<times> bool) \<Rightarrow> event list \<Rightarrow> bool" where
  "step_ok p sources dests protocol ports x evs = (case x of
     Inl (p', rq', err) \<Rightarrow> err \<noteq> None
   | Inr (p', rq') \<Rightarrow> protocol_frame protocol p p' \<and> protocol_synced p p' sources dests protocol ports evs)"

lemma step_delete:
  assumes "is_proto protocol" "get_policy_id protocol p = Some i" "\<not> wanted p sources dests protocol ports"
  shows "emits (sync_delete r p rq protocol i) (step_ok p sources dests protocol ports)"
  using assms unfolding sync_delete_def call_defs
  by (auto intro!: emits_intros simp: step_ok_def protocol_frame_def protocol_synced_def split: option.split)

lemma step_create:
  assumes "is_proto protocol" "get_policy_id protocol p = None" "wanted p sources dests protocol ports"
  shows "emits (createPolicy r p protocol sources dests (port_strings p ports) \<bind> (\<lambda>(p', policyID, err).
      State_Monad.return (case err of Some e \<Rightarrow> Inl (p', rq, Some e) | None \<Rightarrow> Inr (set_policy_id protocol policyID p', rq))))
    (step_ok p sources dests protocol ports)"
  using assms unfolding createPolicy_def call_defs
  by (auto intro!: emits_intros simp: step_ok_def protocol_frame_def protocol_synced_def split: sum.split)

lemma step_update:
  assumes "is_proto protocol" "get_policy_id protocol p = Some i" "wanted p sources dests protocol ports"
  shows "emits (updatePolicy r i p protocol sources dests (port_strings p ports) \<bind> (\<lambda>(p', policyID, rq', err).
      State_Monad.return (case err of Some e \<Rightarrow> Inl (p', rq', Some e) | None \<Rightarrow> Inr (set_policy_id protocol policyID p', rq'))))
    (step_ok p sources dests protocol ports)"
  using assms unfolding updatePolicy_def call_defs
  by (auto intro!: emits_intros simp: step_ok_def protocol_frame_def protocol_synced_def split: sum.split)

lemma step_nothing:
  assumes "is_proto protocol" "get_policy_id protocol p = None" "\<not> wanted p sources dests protocol ports"
  shows "step_ok p sources dests protocol ports (Inr (p, rq)) []"
    and "step_ok p sources dests protocol ports (Inr (set_policy_id protocol None p, rq)) []"
  using assms by (auto simp: step_ok_def protocol_frame_def protocol_synced_def)

lemma sync_protocol_spec:
  assumes proto: "is_proto protocol"
  shows "emits (sync_protocol r sources dests (protocol, ports) (p, rq)) (step_ok p sources dests protocol ports)"
proof (cases "get_policy_id protocol p")
  case None
  show ?thesis
  proof (cases "wanted p sources dests protocol ports")
    case True
    then show ?thesis using step_create [OF proto None True, of r rq] proto None
      by (auto simp: sync_protocol_def wanted_def port_strings_def is_proto_def)
  next
    case False
    then show ?thesis using proto None step_nothing [OF proto None False]
      by (auto intro!: emits_intros simp: sync_protocol_def is_proto_def wanted_def)
  qed
next
  case (Some i)
  show ?thesis
  proof (cases "wanted p sources dests protocol ports")
    case True
    then show ?thesis using step_update [OF proto Some True, of r] proto Some
      by (auto simp: sync_protocol_def wanted_def port_strings_def is_proto_def)
  next
    case False
    then show ?thesis using step_delete [OF proto Some False, of r rq] proto Some
      by (auto simp: sync_protocol_def is_proto_def wanted_def)
  qed
qed

text \<open>A later iteration keeps what an earlier one has established.\<close>

lemma protocol_synced_frame:
  assumes "protocol_synced p p' sources dests protocol ports e1" "protocol_frame other p' p''"
    "is_proto protocol" "other \<noteq> protocol"
  shows "protocol_synced p p'' sources dests protocol ports (e1 @ e2)"
proof -
  have "get_policy_id protocol p'' = get_policy_id protocol p'"
    using assms by (auto simp: protocol_frame_def)
  with assms(1) show ?thesis by (auto simp: protocol_synced_def Let_def split: if_splits option.splits)
qed

lemma protocol_synced_weaken:
  "protocol_synced p p' sources dests protocol ports e2 \<Longrightarrow> protocol_synced p p' sources dests protocol ports (e1 @ e2)"
  by (auto simp: protocol_synced_def Let_def split: if_splits option.splits)

lemma protocol_synced_source:
  assumes "protocol_synced p' p'' sources dests protocol ports evs" "protocol_frame other p p'"
    "is_proto protocol" "other \<noteq> protocol"
  shows "protocol_synced p p'' sources dests protocol ports evs"
proof -
  have i: "get_policy_id protocol p' = get_policy_id protocol p" and sp: "ozp_Spec p' = ozp_Spec p"
    using assms by (auto simp: protocol_frame_def)
  have eqs: "wanted p' = wanted p" "policy_request p' = policy_request p" "port_strings p' = port_strings p"
    by (simp_all add: fun_eq_iff wanted_def policy_request_def policy_name_def port_strings_def sp)
  from assms(1) show ?thesis
    unfolding protocol_synced_def eqs i .
qed

text \<open>Both protocols, in either order.\<close>

lemma syncPolicy_pair:
  assumes "is_proto a" "is_proto b" "a \<noteq> b"
  shows "emits (syncPolicy r p sources dests [(a, pa), (b, pb)]) (\<lambda>(p', rq, err) evs. err = None \<longrightarrow>
     protocol_synced p p' sources dests a pa evs \<and> protocol_synced p p' sources dests b pb evs \<and>
     ozp_Spec p' = ozp_Spec p \<and> ozp_Meta p' = ozp_Meta p)"
proof -
  have second: "emits (sync_protocol r sources dests (b, pb) (p1, rq)) (\<lambda>x e2. case x of
      Inl (p', rq', err) \<Rightarrow> err \<noteq> None
    | Inr (p', rq') \<Rightarrow> protocol_synced p p' sources dests a pa (e1 @ e2) \<and>
        protocol_synced p p' sources dests b pb (e1 @ e2) \<and> ozp_Spec p' = ozp_Spec p \<and> ozp_Meta p' = ozp_Meta p)"
    if "step_ok p sources dests a pa (Inr (p1, rq)) e1" for p1 rq e1
    by (rule emits_mono [OF sync_protocol_spec [OF assms(2)]])
       (use that assms in \<open>auto simp: step_ok_def protocol_frame_def split: sum.splits
          intro: protocol_synced_frame protocol_synced_weaken protocol_synced_source\<close>)
  show ?thesis
    unfolding syncPolicy_def for_each.simps
    by (rule emits_bind_assoc, rule emits_bind [OF sync_protocol_spec [OF assms(1)]])
       (auto intro!: emits_intros emits_bind [OF second] simp: step_ok_def split: sum.splits)
qed

section \<open>Deletion and status writes\<close>

text \<open>The answers of a delete that \<open>handleDelete\<close> accepts.\<close>

definition delete_accepted :: "goerr option \<Rightarrow> bool" where
  "delete_accepted de = (case de of None \<Rightarrow> True | Some e \<Rightarrow> str_contains ''not found'' (error_text e))"

lemma delete_accepted_simps [simp]:
  "delete_accepted None" "delete_accepted (Some e) \<longleftrightarrow> str_contains ''not found'' (error_text e)"
  by (simp_all add: delete_accepted_def)

definition policy_deleted :: "string \<Rightarrow> OZPolicy \<Rightarrow> event list \<Rightarrow> bool" where
  "policy_deleted protocol p evs = (case get_policy_id protocol p of None \<Rightarrow> True
     | Some i \<Rightarrow> \<exists>de. ODelete CPolicies i de \<in> set evs \<and> delete_accepted de)"

definition delete_step_ok :: "string \<Rightarrow> OZPolicy \<Rightarrow> OZPolicy \<times> goerr option \<Rightarrow> event list \<Rightarrow> bool" where
  "delete_step_ok protocol p x evs = (case x of (p', err) \<Rightarrow>
     no_status_update evs \<and> (\<forall>P. updates_only P evs) \<and> protocol_frame protocol p p' \<and>
     (err = None \<longrightarrow> policy_deleted protocol p evs))"

lemma emits_delete_policy_id:
  "is_proto protocol \<Longrightarrow> emits (delete_policy_id r protocol p) (delete_step_ok protocol p)"
  unfolding delete_policy_id_def call_defs
  by (auto intro!: emits_intros simp: delete_step_ok_def protocol_frame_def policy_deleted_def
      split: option.split)

definition released_policy :: "OZPolicy \<Rightarrow> kobj \<Rightarrow> bool" where
  "released_policy p o' = (case o' of
     KOZPolicy q \<Rightarrow> ozp_Spec q = ozp_Spec p \<and>
       ozp_Meta q = (ozp_Meta p)\<lparr>om_Finalizers := Without (om_Finalizers (ozp_Meta p)) policy_finalizer\<rparr>
   | _ \<Rightarrow> False)"

lemma policy_deleted_append [simp]:
  "policy_deleted protocol p e1 \<Longrightarrow> policy_deleted protocol p (e1 @ e2)"
  "policy_deleted protocol p e2 \<Longrightarrow> policy_deleted protocol p (e1 @ e2)"
  by (auto simp: policy_deleted_def split: option.splits)

lemma policy_deleted_frame:
  "protocol_frame a p p' \<Longrightarrow> is_proto b \<Longrightarrow> a \<noteq> b \<Longrightarrow> policy_deleted b p' evs = policy_deleted b p evs"
  by (auto simp: protocol_frame_def policy_deleted_def)

lemma emits_release_policy:
  "ozp_Spec p2 = ozp_Spec p \<Longrightarrow> ozp_Meta p2 = ozp_Meta p \<Longrightarrow>
   emits (release_policy r p2) (\<lambda>_ evs. no_status_update evs \<and> updates_only (released_policy p) evs)"
  unfolding release_policy_def call_defs
  by (auto intro!: emits_intros simp: released_policy_def split: sum.split)

lemma handleDelete_releases:
  "emits (OZPolicy_handleDelete r p) (\<lambda>_ evs. no_status_update evs \<and>
     updates_only (\<lambda>o'. released_policy p o' \<and> policy_deleted protocolTCP p evs \<and> policy_deleted protocolUDP p evs) evs)"
proof -
  let ?mid = "\<lambda>p1. delete_policy_id r protocolUDP p1 \<bind> (\<lambda>(p2, e2). case e2 of
     Some e \<Rightarrow> State_Monad.return (p2, Some e) | None \<Rightarrow> release_policy r p2)"
  have mid: "emits (?mid p1) (\<lambda>_ evs. no_status_update evs \<and>
      ((\<forall>P. updates_only P evs) \<or> updates_only (released_policy p) evs \<and> policy_deleted protocolUDP p evs))"
    if "protocol_frame protocolTCP p p1" for p1
    by (rule emits_bind [OF emits_delete_policy_id])
       (use that policy_deleted_frame [OF that] in
         \<open>auto intro!: emits_intros emits_mono [OF emits_release_policy [where p = p]]
            simp: delete_step_ok_def protocol_frame_def split: option.split\<close>)
  show ?thesis
    unfolding OZPolicy_handleDelete_def
    by (rule emits_bind [OF emits_delete_policy_id])
       (auto intro!: emits_intros emits_mono [OF mid] simp: delete_step_ok_def split: option.split)
qed

definition ids_of :: "string list \<Rightarrow> goerr + string list \<Rightarrow> event list \<Rightarrow> bool" where
  "ids_of names x evs = (case x of
     Inl e \<Rightarrow> evs = [OList CGroups (Inl e)]
   | Inr ids \<Rightarrow> \<exists>gs. evs = [OList CGroups (Inr (map RGroup gs))] \<and> ids = map (group_id gs) names)"

lemma emits_groupNamesToIDs: "emits (groupNamesToIDs r names) (ids_of names)"
  unfolding groupNamesToIDs_def call_defs
  by (rule emits_bind_api_call, rule emits_return) (auto simp: ids_of_def split: sum.split)

lemma run_sync_updated:
  assumes "is_proto protocol" "wanted p sources dests protocol ports" "get_policy_id protocol p = Some i"
    "rs_update (oz_Policies (pr_OpenZro r)) i (policy_request p protocol sources dests (port_strings p ports)) (wenv s)
       = (Inr a, w)"
  shows "run_state (sync_protocol r sources dests (protocol, ports) (p, rq)) s =
     (Inr (set_policy_id protocol (Some i) p, False), s\<lparr>wenv := w, wlog := wlog s @
       [OUpdate CPolicies i (QPolicy (policy_request p protocol sources dests (port_strings p ports))) (Inr (RPolicy a))]\<rparr>)"
  using assms by (auto simp: sync_protocol_def updatePolicy_def call_defs wanted_def is_proto_def port_strings_def)

lemma run_sync_gone:
  assumes "is_proto protocol" "wanted p sources dests protocol ports" "get_policy_id protocol p = Some i"
    "rs_update (oz_Policies (pr_OpenZro r)) i (policy_request p protocol sources dests (port_strings p ports)) (wenv s)
       = (Inl e, w1)" "str_contains (error_text e) ''not found''"
    "clock (pr_Client r) w1 = (t1, w2)" "clock (pr_Client r) w2 = (t2, w3)"
  shows "run_state (sync_protocol r sources dests (protocol, ports) (p, rq)) s =
     (Inr (set_policy_id protocol None (set_policy_status (\<lambda>s. s\<lparr>ozp_Conditions :=
         OZConditionFalse t1 t2 ''Gone'' ''Policy deleted from openZro API''\<rparr>) p), True), s\<lparr>wenv := w3, wlog := wlog s @
       [OUpdate CPolicies i (QPolicy (policy_request p protocol sources dests (port_strings p ports))) (Inl e)]\<rparr>)"
  using assms
  by (auto simp: sync_protocol_def updatePolicy_def call_defs wanted_def is_proto_def port_strings_def condition_false_def)

lemma getResources_no_status: "emits (getResources r p) (\<lambda>_ evs. no_status_update evs)"
proof -
  let ?body = "\<lambda>rss (updated, resources). (case str_split rss ''/'' of
          ns # name # _ \<Rightarrow> do {
            g \<leftarrow> k_get (OZResources (pr_Client r)) (ns, name);
            (case g of
               Inl err \<Rightarrow>
                 if \<not> k_IsNotFound err
                 then do {
                   cs \<leftarrow> condition_false (pr_Client r) ''internalError'' (''Error getting OZResource: '' @ error_text err);
                   State_Monad.return (Inl (Returned (cs, err))) }
                 else State_Monad.return (Inr (updated, resources))
             | Inr resource \<Rightarrow>
                 if om_DeletionTimestamp (ozr_Meta resource) = None
                 then State_Monad.return (Inr (updated @ [rss], resources @ [resource]))
                 else State_Monad.return (Inr (updated, resources)))
          }
        | _ \<Rightarrow> State_Monad.return (Inl (Panicked ''index out of range'')))"
  have "emits (for_each xs acc ?body) (\<lambda>_ evs. no_status_update evs)" for xs acc
    by (rule emits_for_each [where I = "\<lambda>_ evs. no_status_update evs"])
       (auto intro!: emits_intros simp: call_defs split: list.split sum.split)
  then show ?thesis
    unfolding getResources_def by (rule emits_bind) (auto intro!: emits_intros)
qed

lemma mapResources_no_status: "emits (mapResources r p rs) (\<lambda>_ evs. no_status_update evs)"
  unfolding mapResources_def groupNamesToIDs_def call_defs by (auto intro!: emits_intros)

lemma syncPolicy_no_status: "emits (syncPolicy r p sources dests pm) (\<lambda>_ evs. no_status_update evs)"
proof -
  have step: "emits (sync_protocol r sources dests pp acc) (\<lambda>_ evs. no_status_update evs)" for pp acc
    unfolding sync_protocol_def createPolicy_def updatePolicy_def sync_delete_def call_defs
    by (auto intro!: emits_intros split: prod.split option.split sum.split)
  have "emits (for_each pm (p, False) (sync_protocol r sources dests)) (\<lambda>_ evs. no_status_update evs)"
    by (rule emits_for_each [where I = "\<lambda>_ evs. no_status_update evs"])
       (auto intro!: emits_mono [OF step] split: sum.split)
  then show ?thesis
    unfolding syncPolicy_def by (rule emits_bind) (auto intro!: emits_intros)
qed

lemma ozpolicy_body_no_status: "emits (ozpolicy_body r udp_first p) (\<lambda>_ evs. no_status_update evs)"
proof -
  have ids: "emits (groupNamesToIDs r names) (\<lambda>_ evs. no_status_update evs)" for names
    unfolding groupNamesToIDs_def call_defs by (auto intro!: emits_intros)
  have del: "emits (OZPolicy_handleDelete r p) (\<lambda>_ evs. no_status_update evs)"
    by (rule emits_mono [OF handleDelete_releases]) simp
  show ?thesis
    unfolding ozpolicy_body_def
    by (auto intro!: emits_intros emits_bind [OF del] emits_bind [OF getResources_no_status]
         emits_bind [OF mapResources_no_status] emits_bind [OF ids] emits_bind [OF syncPolicy_no_status]
         split: outcome.split sum.split)
qed

section \<open>Claims\<close>

text \<open>
  C28. Collecting the ports of a policy: \<open>mapResources\<close> fails only when the groups cannot be listed;
  otherwise the ports of each protocol are, without duplicates and in increasing order, exactly
  those of the resources that reference the policy, and the destination groups are the IDs of the
  named groups followed by the groups of those resources.
\<close>

theorem mapResources_correct:
  "emits (mapResources r p rs) (\<lambda>x evs. case x of
     Inl e \<Rightarrow> OList CGroups (Inl e) \<in> set evs
   | Inr (portMapping, destGroups) \<Rightarrow> \<exists>tcp udp gs.
       portMapping = [(protocolTCP, tcp), (protocolUDP, udp)] \<and>
       sorted_ports tcp \<and> set tcp = selected_ports ozr_TCPPorts p rs \<and>
       sorted_ports udp \<and> set udp = selected_ports ozr_UDPPorts p rs \<and>
       OList CGroups (Inr (map RGroup gs)) \<in> set evs \<and>
       destGroups = map (group_id gs) (ozp_DestinationGroups (ozp_Spec p)) @
         concat (map (\<lambda>x. ors_Groups (ozr_Status x)) (filter (resource_selected p) rs)))"
proof -
  have c: "collect_ports p rs (groups, [], []) = (groups', tcp, udp) \<Longrightarrow>
      groups' = groups @ concat (map (\<lambda>x. ors_Groups (ozr_Status x)) (filter (resource_selected p) rs)) \<and>
      set tcp = selected_ports ozr_TCPPorts p rs \<and> set udp = selected_ports ozr_UDPPorts p rs \<and>
      distinct tcp \<and> distinct udp" for groups groups' tcp udp
    using collect_ports_groups [of p rs groups "[]" "[]"] collect_ports_sets [of p rs groups "[]" "[]"]
      collect_ports_distinct [of "[]" p rs groups "[]"] collect_ports_distinct(2) [of "[]" p rs groups "[]"] by simp
  show ?thesis
    unfolding mapResources_def
    by (rule emits_bind [OF emits_groupNamesToIDs])
       (auto intro!: emits_intros dest!: c simp: ids_of_def split: sum.splits prod.split)
qed

text \<open>
  C1. Synchronising a policy, for both orders in which Go may visit the port map: when
  \<open>syncPolicy\<close> reports no error, each protocol is as specified: an unwanted one has no recorded
  policy and a formerly recorded one was deleted upstream; a wanted one was created and recorded
  with the ID the API returned, or updated with the full request, or found to be gone and
  forgotten. Spec and metadata are untouched.
\<close>

theorem syncPolicy_correct:
  "emits (syncPolicy r p sources dests
     (if udp_first then [(protocolUDP, udp), (protocolTCP, tcp)] else [(protocolTCP, tcp), (protocolUDP, udp)]))
   (\<lambda>(p', requeue, err) evs. err = None \<longrightarrow>
     protocol_synced p p' sources dests protocolTCP tcp evs \<and>
     protocol_synced p p' sources dests protocolUDP udp evs \<and>
     ozp_Spec p' = ozp_Spec p \<and> ozp_Meta p' = ozp_Meta p)"
  by (cases udp_first) (auto intro: emits_mono [OF syncPolicy_pair])

definition demo_policy :: "string option \<Rightarrow> string option \<Rightarrow> OZPolicy" where
  "demo_policy tcp udp = \<lparr>ozp_Meta = zero_ObjectMeta\<lparr>om_Name := ''web'', om_Finalizers := [policy_finalizer]\<rparr>,
     ozp_Spec = \<lparr>ozp_Name = ''web'', ozp_Description = '''', ozp_SourceGroups = [''dev''],
       ozp_DestinationGroups = [], ozp_Protocols = [], ozp_Ports = [], ozp_Bidirectional = True\<rparr>,
     ozp_Status = zero_OZPolicyStatus\<lparr>ozp_TCPPolicyID := tcp, ozp_UDPPolicyID := udp\<rparr>\<rparr>"

definition demo_policy_env :: "unit OZPolicyReconciler" where
  "demo_policy_env = \<lparr>pr_Client = down_Client, pr_OpenZro = down_OpenZro\<lparr>oz_Policies :=
     down_rest\<lparr>rs_create := \<lambda>q w. (Inr (Some ''p1''), w),
       rs_update := \<lambda>i q w. (if i = ''t'' then Inl (OError ''policy not found'') else Inr (Some i), w),
       rs_delete := \<lambda>i w. (Some (OError ''policy not found''), w)\<rparr>\<rparr>\<rparr>"

lemmas demo_policy_defs = demo_policy_env_def demo_policy_def call_defs down_defs zero_OZPolicyStatus_def
  get_policy_id_def set_policy_id_def set_policy_status_def

theorem syncPolicy_correct_witness:
  "let (x, t) = run_state (syncPolicy demo_policy_env (demo_policy None (Some ''u'')) [''a''] [''b'']
       [(protocolTCP, [80]), (protocolUDP, [])]) start
   in snd (snd x) = None \<and> ozp_TCPPolicyID (ozp_Status (fst x)) = Some ''p1'' \<and>
      protocol_synced (demo_policy None (Some ''u'')) (fst x) [''a''] [''b''] protocolTCP [80] (wlog t) \<and>
      protocol_synced (demo_policy None (Some ''u'')) (fst x) [''a''] [''b''] protocolUDP [] (wlog t)"
proof -
  let ?m = "syncPolicy demo_policy_env (demo_policy None (Some ''u'')) [''a''] [''b'']
    [(protocolTCP, [80]), (protocolUDP, [])]"
  have run: "snd (snd (fst (run_state ?m start))) = None \<and>
      ozp_TCPPolicyID (ozp_Status (fst (fst (run_state ?m start)))) = Some ''p1''"
    by (simp add: syncPolicy_def sync_protocol_def createPolicy_def sync_delete_def demo_policy_defs)
  then show ?thesis
    using emits_start [OF syncPolicy_correct [where r = demo_policy_env and p = "demo_policy None (Some ''u'')" and
      sources = "[''a'']" and dests = "[''b'']" and udp_first = False and tcp = "[80]" and udp = "[]"]]
    by (simp add: split_beta)
qed

text \<open>
  The requeue request of one protocol is lost to the other: the TCP policy is gone upstream
  (the update answers "not found"), so its ID is dropped and a requeue is due; the update of the
  UDP policy then succeeds, and \<open>syncPolicy\<close> reports no requeue and no error, with the wanted TCP
  policy neither recorded nor created.
\<close>

theorem syncPolicy_requeue_lost:
  assumes "wanted p sources dests protocolTCP tcp" "wanted p sources dests protocolUDP udp"
    and "get_policy_id protocolTCP p = Some i" "get_policy_id protocolUDP p = Some j"
    and "rs_update (oz_Policies (pr_OpenZro r)) i
           (policy_request p protocolTCP sources dests (port_strings p tcp)) (wenv s) = (Inl e, w1)"
    and "str_contains (error_text e) ''not found''"
    and "clock (pr_Client r) w1 = (t1, w2)" "clock (pr_Client r) w2 = (t2, w3)"
    and "rs_update (oz_Policies (pr_OpenZro r)) j
           (policy_request p protocolUDP sources dests (port_strings p udp)) w3 = (Inr a, w4)"
  shows "let (x, t) = run_state (syncPolicy r p sources dests [(protocolTCP, tcp), (protocolUDP, udp)]) s
     in get_policy_id protocolTCP (fst x) = None \<and> fst (snd x) = False \<and> snd (snd x) = None"
proof -
  let ?p1 = "set_policy_id protocolTCP None (set_policy_status (\<lambda>s. s\<lparr>ozp_Conditions :=
     OZConditionFalse t1 t2 ''Gone'' ''Policy deleted from openZro API''\<rparr>) p)"
  have eqs: "wanted ?p1 = wanted p" "policy_request ?p1 = policy_request p" "port_strings ?p1 = port_strings p"
    by (simp_all add: fun_eq_iff wanted_def policy_request_def policy_name_def port_strings_def)
  show ?thesis
    using run_sync_gone [OF _ assms(1,3,5-8)] run_sync_updated [of protocolUDP ?p1 sources dests udp j r] assms(2,4,9)
    by (simp add: syncPolicy_def eqs del: set_policy_frame)
qed

theorem syncPolicy_requeue_lost_witness:
  "let (x, t) = run_state (syncPolicy demo_policy_env (demo_policy (Some ''t'') (Some ''u'')) [''a''] [''b'']
       [(protocolTCP, [80]), (protocolUDP, [53])]) start
   in get_policy_id protocolTCP (fst x) = None \<and> fst (snd x) = False \<and> snd (snd x) = None"
  by (rule syncPolicy_requeue_lost [where i = "''t''" and j = "''u''" and e = "OError ''policy not found''" and
        a = "Some ''u''" and ?t1.0 = 0 and ?t2.0 = 0])
     (simp_all add: demo_policy_defs wanted_def)

text \<open>
  Deleting an \<open>OZPolicy\<close>: the object is updated only to drop the cleanup finalizer, and only
  after the API accepted the deletion of both recorded policies.
\<close>

theorem ozpolicy_delete_releases_safely:
  "emits (OZPolicy_handleDelete r p) (\<lambda>_ evs. no_status_update evs \<and>
     updates_only (\<lambda>o'. released_policy p o' \<and> policy_deleted protocolTCP p evs \<and> policy_deleted protocolUDP p evs) evs)"
  by (rule handleDelete_releases)



text \<open>
  When \<open>OZPolicy_Reconcile\<close> returns an error, no status of the policy has been stored: the
  recorded \<open>APIError\<close> condition never reaches the cluster, and neither does the ID of a policy
  that was created before the other protocol failed.
\<close>

theorem ozpolicy_error_status_not_stored:
  "emits (OZPolicy_Reconcile r udp_first req) (\<lambda>out evs. case out of
     Returned (res, err) \<Rightarrow> err \<noteq> None \<longrightarrow> (\<forall>x er. EStatusUpdate (KOZPolicy x) er \<in> set evs \<longrightarrow> er = err)
   | Panicked _ \<Rightarrow> True)"
  unfolding OZPolicy_Reconcile_def call_defs
  by (auto intro!: emits_intros emits_bind [OF ozpolicy_body_no_status] emits_bind [OF ozpolicy.finish_reports]
       simp: no_status_update_def split: sum.split outcome.split)

definition demo_policy_half :: "unit OZPolicyReconciler" where
  "demo_policy_half = \<lparr>pr_Client = down_Client\<lparr>
       c_OZPolicies := down_kind\<lparr>kc_get := \<lambda>_ w. (Inr ((demo_policy None (Some ''u''))\<lparr>ozp_Status :=
         zero_OZPolicyStatus\<lparr>ozp_UDPPolicyID := Some ''u'', ozp_ManagedServiceList := [''ns/svc'']\<rparr>\<rparr>), w)\<rparr>,
       c_OZResources := down_kind\<lparr>kc_get := \<lambda>_ w. (Inr (zero_OZResource\<lparr>
         ozr_Spec := (ozr_Spec zero_OZResource)\<lparr>ozr_TCPPorts := [80]\<rparr>,
         ozr_Status := (ozr_Status zero_OZResource)\<lparr>ors_PolicyName := Some ''web'', ors_Groups := [''g'']\<rparr>\<rparr>), w)\<rparr>\<rparr>,
     pr_OpenZro = down_OpenZro\<lparr>
       oz_Groups := down_rest\<lparr>rs_list := \<lambda>w. (Inr [\<lparr>ag_Id = ''d1'', ag_Name = ''dev''\<rparr>], w)\<rparr>,
       oz_Policies := down_rest\<lparr>rs_create := \<lambda>q w. (Inr (Some ''p1''), w)\<rparr>\<rparr>\<rparr>"

theorem ozpolicy_error_status_not_stored_witness:
  "let (x, t) = run_state (OZPolicy_Reconcile demo_policy_half False ('''', ''web'')) start
   in x = Returned (zero_Result, Some (OError ''down'')) \<and>
      (\<exists>q. OCreate CPolicies q (Inr (RPolicy (Some ''p1''))) \<in> set (wlog t)) \<and>
      (\<forall>p. EStatusUpdate (KOZPolicy p) None \<notin> set (wlog t))"
proof -
  let ?m = "OZPolicy_Reconcile demo_policy_half False ('''', ''web'')"
  have run: "fst (run_state ?m start) = Returned (zero_Result, Some (OError ''down'')) \<and>
      (\<exists>q. OCreate CPolicies q (Inr (RPolicy (Some ''p1''))) \<in> set (wlog (snd (run_state ?m start))))"
    by (simp add: OZPolicy_Reconcile_def ozpolicy_body_def getResources_def mapResources_def groupNamesToIDs_def
        syncPolicy_def sync_protocol_def createPolicy_def sync_delete_def ozpolicy_finish_def demo_policy_defs
        demo_policy_half_def zero_ObjectMeta_def zero_OZResource_def condition_false_def str_split_char
        resource_selected_def SplitTrim_def str_trim_def is_space_def gm_val_def str_replace_all_def group_id_def
        find_last_def sort_int32_def)
  then have "\<forall>p. EStatusUpdate (KOZPolicy p) None \<notin> set (wlog (snd (run_state ?m start)))"
    using emits_start [OF ozpolicy_error_status_not_stored [where r = demo_policy_half and udp_first = False and
      req = "('''', ''web'')"]] by (auto simp: split_beta)
  with run show ?thesis by (simp add: split_beta)
qed

end
