(* ===== verification/OZResource_Controller.thy ===== *)
theory OZResource_Controller
  imports OZPolicy_Controller Constants
begin

text \<open>
  \<open>internal/controller/ozresource_controller.go\<close>: an \<open>OZResource\<close> becomes a network resource of
  the management API, owns the \<open>OZGroup\<close> objects of its groups and registers itself with the
  \<open>OZPolicy\<close> objects it names, creating them where that is allowed.
\<close>

section \<open>Model\<close>

definition ResourceFinalizer :: string where
  "ResourceFinalizer = ''gateway.openzro.io/resource''"

definition networkDescription :: string where
  "networkDescription = ''Created by openzro-operator''"

definition errDuplicateResource :: goerr where
  "errDuplicateResource = GoError ''duplicate resource''"

record 'w OZResourceReconciler =
  rr_Client :: "'w Client"
  rr_OpenZro :: "'w OpenZro"
  rr_AllowAutomaticPolicyCreation :: bool
  rr_ClusterName :: string
  rr_DefaultLabels :: gomap

definition set_ozr_status :: "(OZResourceStatus \<Rightarrow> OZResourceStatus) \<Rightarrow> OZResource \<Rightarrow> OZResource" where
  "set_ozr_status f x = x\<lparr>ozr_Status := f (ozr_Status x)\<rparr>"

definition set_managed :: "(string list \<Rightarrow> string list) \<Rightarrow> OZPolicy \<Rightarrow> OZPolicy" where
  "set_managed f p = set_policy_status (\<lambda>s. s\<lparr>ozp_ManagedServiceList := f (ozp_ManagedServiceList s)\<rparr>) p"

definition autogenerated_name :: "'w OZResourceReconciler \<Rightarrow> OZResource \<Rightarrow> string" where
  "autogenerated_name r nbResource =
     ''Autogenerated policy for resource '' @ om_Namespace (ozr_Meta nbResource) @ ''/'' @
     om_Name (ozr_Meta nbResource) @ '' in cluster '' @ rr_ClusterName r"

definition generatedName :: "nn \<Rightarrow> string \<Rightarrow> string" where
  "generatedName req policy = policy @ ''-'' @ fst req @ ''-'' @ snd req"

text \<open>The spec of a generated policy.\<close>

definition generated_spec :: "'w OZResourceReconciler \<Rightarrow> nn \<Rightarrow> OZResource \<Rightarrow> string \<Rightarrow> OZPolicySpec" where
  "generated_spec r req nbResource policy =
     (let nm = gm_val (ozr_PolicyFriendlyName (ozr_Spec nbResource)) policy
      in \<lparr>ozp_Name = (if nm = '''' then autogenerated_name r nbResource else nm),
          ozp_Description = ''Generated by '' @ nn_String req,
          ozp_SourceGroups = ozr_PolicySourceGroups (ozr_Spec nbResource),
          ozp_DestinationGroups = [], ozp_Protocols = [], ozp_Ports = [], ozp_Bidirectional = True\<rparr>)"

definition generated_policy :: "'w OZResourceReconciler \<Rightarrow> nn \<Rightarrow> OZResource \<Rightarrow> string \<Rightarrow> OZPolicy" where
  "generated_policy r req nbResource policy =
     \<lparr>ozp_Meta = zero_ObjectMeta\<lparr>om_Name := generatedName req policy,
        om_Annotations := Some [(generated_by, nn_String req)],
        om_Finalizers := [FinalizerResourceCleanup], om_Labels := rr_DefaultLabels r\<rparr>,
      ozp_Spec = generated_spec r req nbResource policy, ozp_Status = zero_OZPolicyStatus\<rparr>"

text \<open>
  \<open>handlePolicyCreate\<close>: the resource with its status changed, and the error or the policy as the
  last write left it.
\<close>

definition handlePolicyCreate ::
  "'w OZResourceReconciler \<Rightarrow> OZResource \<Rightarrow> nn \<Rightarrow> string \<Rightarrow> ('w, OZResource \<times> (goerr + OZPolicy)) go" where
  "handlePolicyCreate r nbResource req policy =
     (if ozr_PolicySourceGroups (ozr_Spec nbResource) = []
      then State_Monad.return (nbResource, Inl (GoError ''cannot auto-generate policy, missing source groups''))
      else do {
        cr \<leftarrow> k_create (OZPolicies (rr_Client r)) (generated_policy r req nbResource policy);
        pr \<leftarrow> (case cr of
          Inr created \<Rightarrow> State_Monad.return (Inr created)
        | Inl err \<Rightarrow>
            if \<not> k_IsAlreadyExists err then State_Monad.return (Inl err)
            else do {
              gr \<leftarrow> k_get (OZPolicies (rr_Client r)) ('''', generatedName req policy);
              (case gr of
                 Inl e \<Rightarrow> State_Monad.return (Inl e)
               | Inr nbPolicy \<Rightarrow>
                   k_update (OZPolicies (rr_Client r)) (nbPolicy\<lparr>
                     ozp_Meta := (ozp_Meta nbPolicy)\<lparr>
                       om_Labels := rr_DefaultLabels r,
                       om_Annotations := gm_make_put generated_by (nn_String req) (om_Annotations (ozp_Meta nbPolicy))\<rparr>,
                     ozp_Spec := generated_spec r req nbResource policy\<rparr>)) });
        (case pr of
           Inl e \<Rightarrow> State_Monad.return (nbResource, Inl e)
         | Inr nbPolicy \<Rightarrow> do {
             let nbResource' = set_ozr_status (\<lambda>s. s\<lparr>
               ors_PolicyNameMapping := gm_make_put policy (generatedName req policy) (ors_PolicyNameMapping s),
               ors_PolicySourceGroups := ozr_PolicySourceGroups (ozr_Spec nbResource),
               ors_PolicyFriendlyName := ozr_PolicyFriendlyName (ozr_Spec nbResource)\<rparr>) nbResource;
             sr \<leftarrow> k_status_update (OZPolicies (rr_Client r)) (set_managed (\<lambda>l. l @ [nn_String req]) nbPolicy);
             State_Monad.return (nbResource', sr) })
      })"

definition kubernetes_policy_name :: "OZResource \<Rightarrow> string \<Rightarrow> string" where
  "kubernetes_policy_name nbResource policy =
     (case gm_get (ors_PolicyNameMapping (ozr_Status nbResource)) policy of Some v \<Rightarrow> v | None \<Rightarrow> policy)"

text \<open>\<open>nbPolicy.Status.LastUpdatedAt = &v1.Time{Time: time.Now()}\<close>\<close>

definition touch_policy :: "'w OZResourceReconciler \<Rightarrow> OZPolicy \<Rightarrow> ('w, OZPolicy) go" where
  "touch_policy r p = do {
     t \<leftarrow> read_clock (rr_Client r);
     State_Monad.return (set_policy_status (\<lambda>s. s\<lparr>ozp_LastUpdatedAt := Some t\<rparr>) p)
   }"

text \<open>The comparison of ports and groups: what changed goes to the status and touches the policy.\<close>

definition track_ports_groups ::
  "'w OZResourceReconciler \<Rightarrow> OZResource \<Rightarrow> string list \<Rightarrow> OZPolicy \<times> bool \<Rightarrow> ('w, OZResource \<times> OZPolicy \<times> bool) go" where
  "track_ports_groups r nbResource groupIDs pu = do {
     (x1, p1, u1) \<leftarrow> (if \<not> Equivalent (ozr_TCPPorts (ozr_Spec nbResource)) (ors_TCPPorts (ozr_Status nbResource))
       then do { p \<leftarrow> touch_policy r (fst pu);
                 State_Monad.return (set_ozr_status (\<lambda>s. s\<lparr>ors_TCPPorts := ozr_TCPPorts (ozr_Spec nbResource)\<rparr>) nbResource, p, True) }
       else State_Monad.return (nbResource, pu));
     (x2, p2, u2) \<leftarrow> (if \<not> Equivalent (ozr_UDPPorts (ozr_Spec x1)) (ors_UDPPorts (ozr_Status x1))
       then do { p \<leftarrow> touch_policy r p1;
                 State_Monad.return (set_ozr_status (\<lambda>s. s\<lparr>ors_UDPPorts := ozr_UDPPorts (ozr_Spec x1)\<rparr>) x1, p, True) }
       else State_Monad.return (x1, p1, u1));
     (if \<not> Equivalent (ors_Groups (ozr_Status x2)) groupIDs
      then do { p \<leftarrow> touch_policy r p2;
                State_Monad.return (set_ozr_status (\<lambda>s. s\<lparr>ors_Groups := groupIDs\<rparr>) x2, p, True) }
      else State_Monad.return (x2, p2, u2))
   }"

text \<open>
  The part of \<open>handlePolicyAddUpdate\<close> for a generated policy: the policy with annotation, name,
  description and source groups brought up to date, and whether anything had to change.
\<close>

definition refresh_generated ::
  "'w OZResourceReconciler \<Rightarrow> nn \<Rightarrow> OZResource \<Rightarrow> string \<Rightarrow> OZPolicy \<Rightarrow> OZPolicy \<times> bool" where
  "refresh_generated r req nbResource policy p0 =
     (let p1 = (if gm_get (om_Annotations (ozp_Meta p0)) generated_by \<noteq> Some (nn_String req)
                then (p0\<lparr>ozp_Meta := (ozp_Meta p0)\<lparr>om_Annotations :=
                        gm_make_put generated_by (nn_String req) (om_Annotations (ozp_Meta p0))\<rparr>\<rparr>, True)
                else (p0, False));
          wantName = (case gm_get (ozr_PolicyFriendlyName (ozr_Spec nbResource)) policy of
                        Some v \<Rightarrow> v | None \<Rightarrow> autogenerated_name r nbResource);
          p2 = (if ozp_Name (ozp_Spec (fst p1)) \<noteq> wantName
                then ((fst p1)\<lparr>ozp_Spec := (ozp_Spec (fst p1))\<lparr>ozp_Name := wantName\<rparr>\<rparr>, True) else p1);
          p3 = (if ozp_Description (ozp_Spec (fst p2)) \<noteq> ''Generated by '' @ nn_String req
                then ((fst p2)\<lparr>ozp_Spec := (ozp_Spec (fst p2))\<lparr>ozp_Description := ''Generated by '' @ nn_String req\<rparr>\<rparr>, True)
                else p2)
      in if \<not> Equivalent (ozp_SourceGroups (ozp_Spec (fst p3))) (ozr_PolicySourceGroups (ozr_Spec nbResource))
         then ((fst p3)\<lparr>ozp_Spec := (ozp_Spec (fst p3))\<lparr>ozp_SourceGroups := ozr_PolicySourceGroups (ozr_Spec nbResource)\<rparr>\<rparr>, True)
         else p3)"

text \<open>The rest of \<open>handlePolicyAddUpdate\<close>, once the policy is at hand.\<close>

definition register_with_policy ::
  "'w OZResourceReconciler \<Rightarrow> nn \<Rightarrow> OZResource \<Rightarrow> string \<Rightarrow> string list \<Rightarrow> OZPolicy \<Rightarrow>
     ('w, OZResource \<times> goerr option) go" where
  "register_with_policy r req nbResource policy groupIDs nbPolicy = do {
     let pu = (if nn_String req \<notin> set (ozp_ManagedServiceList (ozp_Status nbPolicy))
               then (set_managed (\<lambda>l. l @ [nn_String req]) nbPolicy, True) else (nbPolicy, False));
     (x, p, updatePolicyStatus) \<leftarrow> track_ports_groups r nbResource groupIDs pu;
     ur \<leftarrow> (if gm_get (ors_PolicyNameMapping (ozr_Status x)) policy = None then State_Monad.return (Inr p)
           else (case refresh_generated r req x policy p of (p', updatePolicySpec) \<Rightarrow>
             if updatePolicySpec then k_update (OZPolicies (rr_Client r)) p'
             else State_Monad.return (Inr p')));
     (case ur of
        Inl e \<Rightarrow> State_Monad.return (x, Some e)
      | Inr p'' \<Rightarrow>
          if updatePolicyStatus
          then do { sr \<leftarrow> k_status_update (OZPolicies (rr_Client r)) p''; State_Monad.return (x, err_of sr) }
          else State_Monad.return (x, None))
   }"

definition handlePolicyAddUpdate ::
  "'w OZResourceReconciler \<Rightarrow> nn \<Rightarrow> OZResource \<Rightarrow> string \<Rightarrow> string list \<Rightarrow> ('w, OZResource \<times> goerr option) go" where
  "handlePolicyAddUpdate r req nbResource policy groupIDs = do {
     gr \<leftarrow> k_get (OZPolicies (rr_Client r)) ('''', kubernetes_policy_name nbResource policy);
     (case gr of
        Inr nbPolicy \<Rightarrow> register_with_policy r req nbResource policy groupIDs nbPolicy
      | Inl err \<Rightarrow>
          if k_IsNotFound err \<and> rr_AllowAutomaticPolicyCreation r
          then do {
            (x, cr) \<leftarrow> handlePolicyCreate r nbResource req policy;
            (case cr of
               Inl e \<Rightarrow> State_Monad.return (x, Some e)
             | Inr nbPolicy \<Rightarrow> register_with_policy r req x policy groupIDs nbPolicy) }
          else if k_IsNotFound err then State_Monad.return (nbResource, None)
          else State_Monad.return (nbResource, Some err))
   }"

definition handlePolicyDelete ::
  "'w OZResourceReconciler \<Rightarrow> nn \<Rightarrow> OZResource \<Rightarrow> string list \<Rightarrow> string \<Rightarrow> ('w, OZResource \<times> goerr option) go" where
  "handlePolicyDelete r req nbResource specPolicies policy =
     (if policy \<in> set specPolicies then State_Monad.return (nbResource, None)
      else do {
        gr \<leftarrow> k_get (OZPolicies (rr_Client r)) ('''', kubernetes_policy_name nbResource policy);
        (case gr of
           Inl err \<Rightarrow> State_Monad.return (nbResource, if k_IsNotFound err then None else Some err)
         | Inr nbPolicy \<Rightarrow>
             if gm_get (ors_PolicyNameMapping (ozr_Status nbResource)) policy \<noteq> None
             then do {
               de \<leftarrow> k_delete (OZPolicies (rr_Client r)) nbPolicy;
               State_Monad.return (case de of
                 Some e \<Rightarrow> (nbResource, Some e)
               | None \<Rightarrow> (set_ozr_status (\<lambda>s. s\<lparr>ors_PolicyNameMapping := gm_delete policy (ors_PolicyNameMapping s)\<rparr>) nbResource, None)) }
             else if nn_String req \<in> set (ozp_ManagedServiceList (ozp_Status nbPolicy))
             then do {
               p \<leftarrow> touch_policy r (set_managed (\<lambda>l. Without l (nn_String req)) nbPolicy);
               sr \<leftarrow> k_status_update (OZPolicies (rr_Client r)) p;
               State_Monad.return (nbResource, err_of sr) }
             else State_Monad.return (nbResource, None))
      })"

text \<open>A loop body that changes the resource and may return an error.\<close>

definition or_return :: "('w, OZResource \<times> goerr option) go \<Rightarrow> ('w, (OZResource \<times> goerr option) + OZResource) go" where
  "or_return m = do {
     (x, err) \<leftarrow> m;
     State_Monad.return (case err of Some e \<Rightarrow> Inl (x, Some e) | None \<Rightarrow> Inr x)
   }"

definition handlePolicy ::
  "'w OZResourceReconciler \<Rightarrow> nn \<Rightarrow> OZResource \<Rightarrow> string list \<Rightarrow> ('w, OZResource \<times> goerr option) go" where
  "handlePolicy r req nbResource groupIDs =
     (if ors_PolicyName (ozr_Status nbResource) = None \<and> ozr_PolicyName (ozr_Spec nbResource) = ''''
      then State_Monad.return (nbResource, None)
      else do {
        let specPolicies = SplitTrim (ozr_PolicyName (ozr_Spec nbResource)) '','';
        let statusPolicies = (case ors_PolicyName (ozr_Status nbResource) of
                                None \<Rightarrow> [] | Some n \<Rightarrow> SplitTrim n '','');
        l1 \<leftarrow> for_each specPolicies nbResource (\<lambda>policy x. or_return (handlePolicyAddUpdate r req x policy groupIDs));
        (case l1 of
           Inl ret \<Rightarrow> State_Monad.return ret
         | Inr x1 \<Rightarrow> do {
             l2 \<leftarrow> for_each statusPolicies x1 (\<lambda>policy x. or_return (handlePolicyDelete r req x specPolicies policy));
             (case l2 of
                Inl ret \<Rightarrow> State_Monad.return ret
              | Inr x2 \<Rightarrow> State_Monad.return
                  (set_ozr_status (\<lambda>s. s\<lparr>ors_PolicyName := Some (ozr_PolicyName (ozr_Spec x2))\<rparr>) x2, None)) })
      })"

definition resource_request :: "OZResource \<Rightarrow> string list \<Rightarrow> ResourceRequest" where
  "resource_request nbResource groupIDs =
     \<lparr>resr_Address = ozr_Address (ozr_Spec nbResource), resr_Enabled = True, resr_Groups = groupIDs,
      resr_Description = Some networkDescription, resr_Name = ozr_Name (ozr_Spec nbResource)\<rparr>"

definition handleGroupUpdate ::
  "'w OZResourceReconciler \<Rightarrow> OZResource \<Rightarrow> string list \<Rightarrow> ApiResource \<Rightarrow> ('w, goerr option) go" where
  "handleGroupUpdate r nbResource groupIDs resource =
     (let diffFound = (length groupIDs \<noteq> length (ares_Groups resource) \<or>
                       (\<exists>g \<in> set (ares_Groups resource). g \<notin> set groupIDs))
      in if diffFound
         then do {
           ur \<leftarrow> o_update (Resources (rr_OpenZro r) (ozr_NetworkID (ozr_Spec nbResource))) (ares_Id resource)
                  (resource_request nbResource groupIDs);
           State_Monad.return (err_of ur) }
         else State_Monad.return None)"

text \<open>
  \<open>handleopenZroResource\<close>: the resource with its status changed, and the network resource with
  the error. A created resource is not returned (the inner variable shadows the outer one), which
  makes the caller requeue. The description is dereferenced without a check.
\<close>

definition handleopenZroResource ::
  "'w OZResourceReconciler \<Rightarrow> OZResource \<Rightarrow> string list \<Rightarrow>
     ('w, (OZResource \<times> ApiResource option \<times> goerr option) outcome) go" where
  "handleopenZroResource r nbResource groupIDs =
     (let api = Resources (rr_OpenZro r) (ozr_NetworkID (ozr_Spec nbResource));
          req = resource_request nbResource groupIDs
      in case ors_NetworkResourceID (ozr_Status nbResource) of
           None \<Rightarrow> do {
             cr \<leftarrow> o_create api req;
             (case cr of
                Inr resource \<Rightarrow> State_Monad.return (Returned
                  (set_ozr_status (\<lambda>s. s\<lparr>ors_NetworkResourceID := Some (ares_Id resource)\<rparr>) nbResource, None, None))
              | Inl err \<Rightarrow>
                  if str_contains (error_text err) ''already exists''
                  then do {
                    cs \<leftarrow> condition_false (rr_Client r) ''DuplicateName'' ''Resource name already exists'';
                    State_Monad.return (Returned
                      (set_ozr_status (\<lambda>s. s\<lparr>ors_Conditions := cs\<rparr>) nbResource, None, Some errDuplicateResource)) }
                  else State_Monad.return (Returned (nbResource, None, Some err))) }
         | Some i \<Rightarrow> do {
             gr \<leftarrow> o_get api i;
             (case gr of
                Inl err \<Rightarrow>
                  if \<not> str_contains (error_text err) ''not found''
                  then State_Monad.return (Returned (nbResource, None, Some err))
                  else State_Monad.return (Returned
                    (set_ozr_status (\<lambda>s. s\<lparr>ors_NetworkResourceID := None\<rparr>) nbResource, None, None))
              | Inr resource \<Rightarrow>
                  if ares_Address resource \<noteq> ozr_Address (ozr_Spec nbResource) \<or>
                     \<not> ares_Enabled resource \<or>
                     \<not> Equivalent (ares_Groups resource) groupIDs \<or>
                     (ares_Description resource \<noteq> None \<and>
                      (ares_Description resource \<noteq> Some networkDescription \<or>
                       ares_Name resource \<noteq> ozr_Name (ozr_Spec nbResource)))
                  then do {
                    ur \<leftarrow> o_update api i req;
                    State_Monad.return (Returned (nbResource, Some resource, err_of ur)) }
                  else if ares_Description resource = None
                  then State_Monad.return (Panicked ''invalid memory address or nil pointer dereference'')
                  else State_Monad.return (Returned (nbResource, Some resource, None))) })"

definition owner_ref :: "OZResource \<Rightarrow> OwnerReference" where
  "owner_ref nbResource = \<lparr>or_APIVersion = GroupVersion, or_Kind = KindOZResource,
     or_Name = om_Name (ozr_Meta nbResource), or_UID = om_UID (ozr_Meta nbResource),
     or_Controller = None, or_BlockOwnerDeletion = Some True\<rparr>"

definition groupNameRFC :: "string \<Rightarrow> string" where
  "groupNameRFC groupName = str_replace_all (str_to_lower groupName) '' '' ''-''"

definition new_group :: "'w OZResourceReconciler \<Rightarrow> OZResource \<Rightarrow> string \<Rightarrow> OZGroup" where
  "new_group r nbResource groupName =
     \<lparr>ozg_Meta = zero_ObjectMeta\<lparr>om_Name := groupNameRFC groupName, om_Namespace := om_Namespace (ozr_Meta nbResource),
        om_OwnerReferences := [owner_ref nbResource],
        om_Finalizers := [FinalizerGroupCleanup, FinalizerOZResourceCleanup], om_Labels := rr_DefaultLabels r\<rparr>,
      ozg_Spec = \<lparr>ozg_Name = groupName\<rparr>, ozg_Status = \<lparr>ozg_GroupID = None, ozg_Conditions = []\<rparr>\<rparr>"

text \<open>One iteration of the second loop of \<open>handleGroups\<close>: find or create the group, own it, take its ID.\<close>

definition claim_group ::
  "'w OZResourceReconciler \<Rightarrow> nn \<Rightarrow> OZResource \<Rightarrow> string \<Rightarrow> string list \<Rightarrow> ('w, goerr + string list) go" where
  "claim_group r req nbResource groupName groupIDs = do {
     gr \<leftarrow> k_get (OZGroups (rr_Client r)) (fst req, groupNameRFC groupName);
     (case gr of
        Inl err \<Rightarrow>
          if \<not> k_IsNotFound err then State_Monad.return (Inl err)
          else do {
            cr \<leftarrow> k_create (OZGroups (rr_Client r)) (new_group r nbResource groupName);
            State_Monad.return (case cr of Inl e \<Rightarrow> Inl e | Inr _ \<Rightarrow> Inr groupIDs) }
      | Inr nbGroup \<Rightarrow> do {
          ur \<leftarrow> (if \<exists>o' \<in> set (om_OwnerReferences (ozg_Meta nbGroup)). or_UID o' = om_UID (ozr_Meta nbResource)
                then State_Monad.return (Inr nbGroup)
                else k_update (OZGroups (rr_Client r)) (nbGroup\<lparr>ozg_Meta := (ozg_Meta nbGroup)\<lparr>om_OwnerReferences :=
                       om_OwnerReferences (ozg_Meta nbGroup) @ [owner_ref nbResource]\<rparr>\<rparr>));
          State_Monad.return (case ur of
            Inl e \<Rightarrow> Inl e
          | Inr g \<Rightarrow> (case ozg_GroupID (ozg_Status g) of Some i \<Rightarrow> Inr (groupIDs @ [i]) | None \<Rightarrow> Inr groupIDs)) })
   }"

text \<open>
  \<open>handleGroups\<close>: group IDs, the result to return with (\<open>None\<close> is the nil pointer, which makes
  the caller go on) and the error.
\<close>

definition handleGroups ::
  "'w OZResourceReconciler \<Rightarrow> nn \<Rightarrow> OZResource \<Rightarrow> ('w, string list \<times> Result option \<times> goerr option) go" where
  "handleGroups r req nbResource = do {
     lr \<leftarrow> k_list (OZGroups (rr_Client r)) (Some (fst req));
     (case lr of
        Inl err \<Rightarrow> State_Monad.return ([], None, Some err)
      | Inr items \<Rightarrow> do {
          e1 \<leftarrow> disown_all (rr_Client r) FinalizerOZResourceCleanup (om_UID (ozr_Meta nbResource))
                 (filter (\<lambda>g. ozg_Name (ozg_Spec g) \<notin> set (ozr_Groups (ozr_Spec nbResource))) items);
          (case e1 of
             Some e \<Rightarrow> State_Monad.return ([], None, Some e)
           | None \<Rightarrow> do {
               l2 \<leftarrow> for_each (ozr_Groups (ozr_Spec nbResource)) [] (claim_group r req nbResource);
               State_Monad.return (case l2 of
                 Inl e \<Rightarrow> ([], Some zero_Result, Some e)
               | Inr groupIDs \<Rightarrow>
                   if length groupIDs \<noteq> length (ozr_Groups (ozr_Spec nbResource))
                   then ([], Some (requeue_after (5 * Second)), None)
                   else (groupIDs, None, None)) }) })
   }"

text \<open>The loop of \<open>reconcileDelete\<close> over the recorded policies.\<close>

definition unregister_policies :: "'w OZResourceReconciler \<Rightarrow> nn \<Rightarrow> OZResource \<Rightarrow> ('w, goerr option) go" where
  "unregister_policies r req nbResource =
     (case ors_PolicyName (ozr_Status nbResource) of
        None \<Rightarrow> State_Monad.return None
      | Some names \<Rightarrow> do {
          l \<leftarrow> for_each (SplitTrim names '','') () (\<lambda>policy _. do {
            gr \<leftarrow> k_get (OZPolicies (rr_Client r)) ('''', policy);
            (case gr of
               Inl err \<Rightarrow> State_Monad.return (if k_IsNotFound err then Inr () else Inl err)
             | Inr nbPolicy \<Rightarrow>
                 if nn_String req \<in> set (ozp_ManagedServiceList (ozp_Status nbPolicy))
                 then do {
                   p \<leftarrow> touch_policy r (set_managed (\<lambda>l. Without l (nn_String req)) nbPolicy);
                   sr \<leftarrow> k_status_update (OZPolicies (rr_Client r)) p;
                   State_Monad.return (case sr of Inl e \<Rightarrow> Inl e | Inr _ \<Rightarrow> Inr ()) }
                 else State_Monad.return (Inr ())) });
          State_Monad.return (case l of Inl e \<Rightarrow> Some e | Inr _ \<Rightarrow> None) })"

definition without_resource_finalizers :: "'w OZResourceReconciler \<Rightarrow> OZResource \<Rightarrow> OZResource" where
  "without_resource_finalizers r x = x\<lparr>ozr_Meta := (ozr_Meta x)\<lparr>om_Finalizers :=
     RemoveFinalizer (rr_Client r) ResourceFinalizer
       (RemoveFinalizer (rr_Client r) FinalizerResourceCleanup (om_Finalizers (ozr_Meta x)))\<rparr>\<rparr>"

text \<open>The next steps of \<open>reconcileDelete\<close>: the network resource upstream, then the groups and the finalizers.\<close>

definition delete_upstream :: "'w OZResourceReconciler \<Rightarrow> OZResource \<Rightarrow> ('w, goerr option) go" where
  "delete_upstream r nbResource =
     (case ors_NetworkResourceID (ozr_Status nbResource) of
        None \<Rightarrow> State_Monad.return None
      | Some i \<Rightarrow> do {
          de \<leftarrow> o_delete (Resources (rr_OpenZro r) (ozr_NetworkID (ozr_Spec nbResource))) i;
          State_Monad.return (case de of
            Some e \<Rightarrow> if \<not> o_IsNotFound e then Some e else None
          | None \<Rightarrow> None) })"

definition release_resource :: "'w OZResourceReconciler \<Rightarrow> nn \<Rightarrow> OZResource \<Rightarrow> ('w, OZResource \<times> goerr option) go" where
  "release_resource r req nbResource = do {
     lr \<leftarrow> k_list (OZGroups (rr_Client r)) (Some (fst req));
     (case lr of
        Inl err \<Rightarrow> State_Monad.return (nbResource, Some err)
      | Inr items \<Rightarrow> do {
          e3 \<leftarrow> disown_all (rr_Client r) FinalizerOZResourceCleanup (om_UID (ozr_Meta nbResource)) items;
          (case e3 of
             Some e \<Rightarrow> State_Monad.return (nbResource, Some e)
           | None \<Rightarrow> do {
               ur \<leftarrow> k_update (OZResources (rr_Client r)) (without_resource_finalizers r nbResource);
               State_Monad.return (case ur of
                 Inl e \<Rightarrow> (without_resource_finalizers r nbResource, Some e)
               | Inr stored \<Rightarrow> (stored, None)) }) })
   }"

definition reconcileDelete ::
  "'w OZResourceReconciler \<Rightarrow> nn \<Rightarrow> OZResource \<Rightarrow> ('w, OZResource \<times> goerr option) go" where
  "reconcileDelete r req nbResource = do {
     e1 \<leftarrow> unregister_policies r req nbResource;
     (case e1 of
        Some e \<Rightarrow> State_Monad.return (nbResource, Some e)
      | None \<Rightarrow> do {
          e2 \<leftarrow> delete_upstream r nbResource;
          (case e2 of
             Some e \<Rightarrow> State_Monad.return (nbResource, Some e)
           | None \<Rightarrow> release_resource r req nbResource) })
   }"

text \<open>The deferred function of \<open>Reconcile\<close>.\<close>

definition ozresource_finish ::
  "'w OZResourceReconciler \<Rightarrow> OZResource \<Rightarrow> OZResource \<Rightarrow> Result \<Rightarrow> goerr option \<Rightarrow> ('w, Result \<times> goerr option) go" where
  "ozresource_finish r originalResource nbResource res err =
     (case err of
        Some e \<Rightarrow> State_Monad.return (zero_Result, Some e)
      | None \<Rightarrow>
          if om_DeletionTimestamp (ozr_Meta originalResource) \<noteq> None \<and> om_Finalizers (ozr_Meta nbResource) = []
          then State_Monad.return (res, None)
          else do {
            ue \<leftarrow> (if \<not> OZResourceStatus_Equal (ozr_Status originalResource) (ozr_Status nbResource)
                  then do { ur \<leftarrow> k_status_update (OZResources (rr_Client r)) nbResource;
                            State_Monad.return (err_of ur) }
                  else State_Monad.return None);
            State_Monad.return
              (if \<not> res_Requeue res \<and> res_RequeueAfter res = 0
               then res\<lparr>res_RequeueAfter := defaultRequeueAfter\<rparr> else res, ue)
          })"

text \<open>\<open>nbResource.Status.Conditions = openzrov1.OZConditionFalse("internalError", ...)\<close>\<close>

definition internal_error :: "'w OZResourceReconciler \<Rightarrow> string \<Rightarrow> OZResource \<Rightarrow> ('w, OZResource) go" where
  "internal_error r msg x = do {
     cs \<leftarrow> condition_false (rr_Client r) ''internalError'' msg;
     State_Monad.return (set_ozr_status (\<lambda>s. s\<lparr>ors_Conditions := cs\<rparr>) x)
   }"

text \<open>
  The body of \<open>Reconcile\<close> from the call of \<open>handleGroups\<close> on. A panic carries the resource and
  the error at that moment, which the deferred function sees.
\<close>

definition ozresource_sync ::
  "'w OZResourceReconciler \<Rightarrow> nn \<Rightarrow> OZResource \<Rightarrow>
     ('w, (string \<times> OZResource \<times> goerr option) + (OZResource \<times> Result \<times> goerr option)) go" where
  "ozresource_sync r req x0 = do {
     (groupIDs, result, gerr) \<leftarrow> handleGroups r req x0;
     (case result of
        Some res \<Rightarrow> do {
          x \<leftarrow> internal_error r (''Error occurred handling groups: '' @ err_v gerr) x0;
          State_Monad.return (Inr (x, res, gerr)) }
      | None \<Rightarrow> do {
          out \<leftarrow> handleopenZroResource r x0 groupIDs;
          (case out of
             Panicked m \<Rightarrow> State_Monad.return (Inl (m, x0, gerr))
           | Returned (x1, resource, err) \<Rightarrow>
               if err = Some errDuplicateResource then State_Monad.return (Inr (x1, requeue_after defaultRequeueAfter, None))
               else (case err of
                 Some e \<Rightarrow> do {
                   x \<leftarrow> internal_error r (''Error occurred handling openZro Network Resource: '' @ error_text e) x1;
                   State_Monad.return (Inr (x, zero_Result, Some e)) }
               | None \<Rightarrow>
                   (case resource of
                      None \<Rightarrow> State_Monad.return (Inr (x1, requeue_now, None))
                    | Some res \<Rightarrow> do {
                        ge \<leftarrow> handleGroupUpdate r x1 groupIDs res;
                        (case ge of
                           Some e \<Rightarrow> do {
                             x \<leftarrow> internal_error r (''Error occurred handling groups: '' @ error_text e) x1;
                             State_Monad.return (Inr (x, zero_Result, Some e)) }
                         | None \<Rightarrow> do {
                             (x2, pe) \<leftarrow> handlePolicy r req x1 groupIDs;
                             (case pe of
                                Some e \<Rightarrow> do {
                                  x \<leftarrow> internal_error r (''Error occurred handling policy changes: '' @ error_text e) x2;
                                  State_Monad.return (Inr (x, zero_Result, Some e)) }
                              | None \<Rightarrow> do {
                                  cs \<leftarrow> condition_true (rr_Client r);
                                  State_Monad.return (Inr (set_ozr_status (\<lambda>s. s\<lparr>ors_Conditions := cs\<rparr>) x2, zero_Result, None)) })
                           }) }))) })
   }"

definition OZResource_Reconcile :: "'w OZResourceReconciler \<Rightarrow> nn \<Rightarrow> ('w, (Result \<times> goerr option) outcome) go" where
  "OZResource_Reconcile r req = do {
     gr \<leftarrow> k_get (OZResources (rr_Client r)) req;
     (case gr of
        Inl err \<Rightarrow> State_Monad.return (Returned (requeue_after defaultRequeueAfter, None))
      | Inr nbResource \<Rightarrow> do {
          out \<leftarrow>
            (if om_DeletionTimestamp (ozr_Meta nbResource) \<noteq> None
             then do { (x, err) \<leftarrow> reconcileDelete r req nbResource;
                       State_Monad.return (Inr (x, zero_Result, err)) }
             else do {
               let fins = AddFinalizer (rr_Client r) ResourceFinalizer (om_Finalizers (ozr_Meta nbResource));
               let x = nbResource\<lparr>ozr_Meta := (ozr_Meta nbResource)\<lparr>om_Finalizers := fins\<rparr>\<rparr>;
               ur \<leftarrow> (if fins \<noteq> om_Finalizers (ozr_Meta nbResource) then k_update (OZResources (rr_Client r)) x
                     else State_Monad.return (Inr x));
               (case ur of
                  Inl e \<Rightarrow> State_Monad.return (Inr (x, zero_Result, Some e))
                | Inr x' \<Rightarrow> ozresource_sync r req x') });
          (case out of
             Inl (m, x, err) \<Rightarrow> do {
               _ \<leftarrow> ozresource_finish r nbResource x zero_Result err;
               State_Monad.return (Panicked m) }
           | Inr (x, res, err) \<Rightarrow> do {
               ret \<leftarrow> ozresource_finish r nbResource x res err;
               State_Monad.return (Returned ret) }) })
   }"

text \<open>The map function of the watch on \<open>OZPolicy\<close> objects: the resource that generated the policy.\<close>

definition policy_watch_requests :: "OZPolicy \<Rightarrow> nn list outcome" where
  "policy_watch_requests p =
     (case gm_get (om_Annotations (ozp_Meta p)) generated_by of
        None \<Rightarrow> Returned []
      | Some v \<Rightarrow> (case str_split v ''/'' of
          ns # n # _ \<Rightarrow> Returned [(ns, n)]
        | _ \<Rightarrow> Panicked ''index out of range''))"

lemma finish_contract_ozresource: "finish_contract (ozresource_finish r) KOZResource"
  unfolding ozresource_finish_def call_defs
  by unfold_locales (auto intro!: emits_intros)

interpretation ozresource: finish_contract "ozresource_finish r" KOZResource for r
  by (rule finish_contract_ozresource)

section \<open>The network resource upstream\<close>

definition matches_request :: "ApiResource \<Rightarrow> ResourceRequest \<Rightarrow> bool" where
  "matches_request a q = (ares_Address a = resr_Address q \<and> ares_Enabled a = resr_Enabled q \<and>
     Equivalent (ares_Groups a) (resr_Groups q) \<and> ares_Description a = resr_Description q \<and>
     ares_Name a = resr_Name q)"

text \<open>
  What a successful synchronisation with the management API has done: created and recorded the
  resource; found it gone and forgotten it; or found it, and either it agrees with the object or it
  was updated to.
\<close>

definition upstream_synced ::
  "OZResource \<Rightarrow> string list \<Rightarrow> OZResource \<Rightarrow> ApiResource option \<Rightarrow> event list \<Rightarrow> bool" where
  "upstream_synced x ids x' res evs =
     (let c = CResources (ozr_NetworkID (ozr_Spec x)); q = resource_request x ids in
      case ors_NetworkResourceID (ozr_Status x) of
        None \<Rightarrow> res = None \<and> (\<exists>a. OCreate c (QResource q) (Inr (RResource a)) \<in> set evs \<and>
                  ors_NetworkResourceID (ozr_Status x') = Some (ares_Id a))
      | Some i \<Rightarrow> (case res of
          None \<Rightarrow> ors_NetworkResourceID (ozr_Status x') = None \<and>
            (\<exists>e. OGet c i (Inl e) \<in> set evs \<and> str_contains (error_text e) ''not found'')
        | Some a \<Rightarrow> x' = x \<and> OGet c i (Inr (RResource a)) \<in> set evs \<and>
            (matches_request a q \<or> (\<exists>b. OUpdate c i (QResource q) (Inr b) \<in> set evs))))"

lemma err_of_None: "err_of u = None \<longleftrightarrow> (\<exists>b. u = Inr b)"
  by (cases u) auto

lemma handleopenZroResource_synced:
  "emits (handleopenZroResource r x ids) (\<lambda>out evs. case out of
     Returned (x', res, err) \<Rightarrow> err = None \<longrightarrow> upstream_synced x ids x' res evs
   | Panicked _ \<Rightarrow> True)"
  unfolding handleopenZroResource_def call_defs
  by (auto intro!: emits_intros simp: upstream_synced_def matches_request_def resource_request_def set_ozr_status_def
      errDuplicateResource_def err_of_None Let_def split: option.split sum.split)

section \<open>Groups\<close>

definition has_owner :: "OZResource \<Rightarrow> OZGroup \<Rightarrow> bool" where
  "has_owner x g = (\<exists>o' \<in> set (om_OwnerReferences (ozg_Meta g)). or_UID o' = om_UID (ozr_Meta x))"

definition add_owner :: "OZResource \<Rightarrow> OZGroup \<Rightarrow> OZGroup" where
  "add_owner x g = g\<lparr>ozg_Meta := (ozg_Meta g)\<lparr>om_OwnerReferences := om_OwnerReferences (ozg_Meta g) @ [owner_ref x]\<rparr>\<rparr>"

text \<open>The group of that name was created with the resource as owner, found owned by it, or updated to be.\<close>

definition group_claimed :: "'w OZResourceReconciler \<Rightarrow> nn \<Rightarrow> OZResource \<Rightarrow> event list \<Rightarrow> string \<Rightarrow> bool" where
  "group_claimed r req x evs n = (ECreate (KOZGroup (new_group r x n)) None \<in> set evs \<or>
     (\<exists>g. EGet ''OZGroup'' (fst req, groupNameRFC n) (Inr (KOZGroup g)) \<in> set evs \<and>
       (has_owner x g \<or> EUpdate (KOZGroup (add_owner x g)) None \<in> set evs)))"

lemma group_claimed_append [simp]:
  "group_claimed r req x e1 n \<Longrightarrow> group_claimed r req x (e1 @ e2) n"
  "group_claimed r req x e2 n \<Longrightarrow> group_claimed r req x (e1 @ e2) n"
  by (auto simp: group_claimed_def)

lemma claim_group_spec:
  "emits (claim_group r req x n ids) (\<lambda>res evs. case res of
     Inl e \<Rightarrow> True
   | Inr ids' \<Rightarrow> group_claimed r req x evs n \<and> length ids' \<le> Suc (length ids))"
  unfolding claim_group_def call_defs
  by (auto intro!: emits_intros simp: group_claimed_def has_owner_def add_owner_def split: sum.splits option.splits)

definition groups_claimed ::
  "'w OZResourceReconciler \<Rightarrow> nn \<Rightarrow> OZResource \<Rightarrow> string list \<Rightarrow> event list \<Rightarrow> bool" where
  "groups_claimed r req x ids evs =
     (length ids = length (ozr_Groups (ozr_Spec x)) \<and> (\<forall>n \<in> set (ozr_Groups (ozr_Spec x)). group_claimed r req x evs n))"

lemma claim_loop:
  "emits (for_each ns [] (claim_group r req x)) (\<lambda>l evs. case l of
     Inl e \<Rightarrow> True | Inr ids \<Rightarrow> \<forall>n \<in> set ns. group_claimed r req x evs n)"
  by (rule emits_for_each_visited [where I = "\<lambda>don _ evs. \<forall>n \<in> set don. group_claimed r req x evs n"])
     (auto intro!: emits_mono [OF claim_group_spec] split: sum.splits)

lemma handleGroups_spec:
  "emits (handleGroups r req x) (\<lambda>(ids, res, err) evs. res = None \<and> err = None \<longrightarrow>
     groups_claimed r req x ids evs \<and>
     (\<exists>items. EList ''OZGroup'' (Inr (map KOZGroup items)) \<in> set evs \<and>
       (\<forall>g \<in> set items. ozg_Name (ozg_Spec g) \<notin> set (ozr_Groups (ozr_Spec x)) \<longrightarrow>
          given_up FinalizerOZResourceCleanup (om_UID (ozr_Meta x)) evs g)))"
proof -
  have loops: "emits (disown_all c FinalizerOZResourceCleanup (om_UID (ozr_Meta x))
        (filter (\<lambda>g. ozg_Name (ozg_Spec g) \<notin> set (ozr_Groups (ozr_Spec x))) items) \<bind> (\<lambda>e1. case e1 of
             Some e \<Rightarrow> State_Monad.return ([], None, Some e)
           | None \<Rightarrow> do {
               l2 \<leftarrow> for_each (ozr_Groups (ozr_Spec x)) [] (claim_group r req x);
               State_Monad.return (case l2 of
                 Inl e \<Rightarrow> ([], Some zero_Result, Some e)
               | Inr groupIDs \<Rightarrow>
                   if length groupIDs \<noteq> length (ozr_Groups (ozr_Spec x))
                   then ([], Some (requeue_after (5 * Second)), None)
                   else (groupIDs, None, None)) }))
     (\<lambda>(ids, res, err) evs. res = None \<and> err = None \<longrightarrow> groups_claimed r req x ids evs \<and>
        (\<forall>g \<in> set items. ozg_Name (ozg_Spec g) \<notin> set (ozr_Groups (ozr_Spec x)) \<longrightarrow>
          given_up FinalizerOZResourceCleanup (om_UID (ozr_Meta x)) evs g))" for c items
    by (auto intro!: emits_intros emits_bind [OF emits_disown_all] emits_bind [OF claim_loop]
        simp: groups_claimed_def split: option.splits sum.splits if_splits)
  have app: "groups_claimed r req x ids evs \<Longrightarrow> groups_claimed r req x ids (ev # evs)"
      "given_up fin uid evs g \<Longrightarrow> given_up fin uid (ev # evs) g" for ids ev evs fin uid g
    using group_claimed_append(2) [of r req x evs _ "[ev]"] given_up_append(2) [of fin uid evs g "[ev]"]
    by (auto simp: groups_claimed_def)
  show ?thesis
    unfolding handleGroups_def k_list_def OZGroups_def
    by (auto intro!: emits_intros emits_mono [OF loops] exI simp: app split: sum.split)
qed

section \<open>Registration with policies\<close>

text \<open>A successful registration: nothing to do, or a status of the policy with the resource in its list was stored.\<close>

definition registers :: "nn \<Rightarrow> kobj \<Rightarrow> bool" where
  "registers req o' = (case o' of KOZPolicy p \<Rightarrow> nn_String req \<in> set (ozp_ManagedServiceList (ozp_Status p)) | _ \<Rightarrow> False)"

definition tracked :: "OZResource \<Rightarrow> string list \<Rightarrow> OZResource \<Rightarrow> bool" where
  "tracked x ids x' = (ozr_Spec x' = ozr_Spec x \<and> ozr_Meta x' = ozr_Meta x \<and>
     ors_PolicyNameMapping (ozr_Status x') = ors_PolicyNameMapping (ozr_Status x) \<and>
     Equivalent (ozr_TCPPorts (ozr_Spec x)) (ors_TCPPorts (ozr_Status x')) \<and>
     Equivalent (ozr_UDPPorts (ozr_Spec x)) (ors_UDPPorts (ozr_Status x')) \<and>
     Equivalent (ors_Groups (ozr_Status x')) ids)"

lemma track_spec:
  "emits (track_ports_groups r x ids (p, u)) (\<lambda>(x', p', u') evs. evs = [] \<and> tracked x ids x' \<and>
     ozp_ManagedServiceList (ozp_Status p') = ozp_ManagedServiceList (ozp_Status p) \<and>
     ozp_Spec p' = ozp_Spec p \<and> ozp_Meta p' = ozp_Meta p \<and> (u \<longrightarrow> u'))"
  unfolding track_ports_groups_def touch_policy_def
  by (auto intro!: emits_intros simp: tracked_def set_ozr_status_def set_policy_status_def)

lemma register_spec:
  assumes "gm_get (ors_PolicyNameMapping (ozr_Status x)) policy = None"
  shows "emits (register_with_policy r req x policy ids p) (\<lambda>(x', err) evs. tracked x ids x' \<and>
     (err = None \<longrightarrow> nn_String req \<in> set (ozp_ManagedServiceList (ozp_Status p)) \<or>
        (\<exists>o'. EStatusUpdate o' None \<in> set evs \<and> registers req o')))"
  using assms unfolding register_with_policy_def call_defs
  by (auto intro!: emits_intros emits_bind [OF track_spec] simp: tracked_def registers_def set_managed_def
      set_policy_status_def)

section \<open>Deletion\<close>

definition resource_deleted :: "OZResource \<Rightarrow> event list \<Rightarrow> bool" where
  "resource_deleted x evs = (case ors_NetworkResourceID (ozr_Status x) of None \<Rightarrow> True
     | Some i \<Rightarrow> ODelete (CResources (ozr_NetworkID (ozr_Spec x))) i None \<in> set evs \<or>
         (\<exists>m. ODelete (CResources (ozr_NetworkID (ozr_Spec x))) i (Some (ONotFound m)) \<in> set evs))"

definition groups_given_up :: "OZResource \<Rightarrow> event list \<Rightarrow> bool" where
  "groups_given_up x evs = (\<exists>items. EList ''OZGroup'' (Inr (map KOZGroup items)) \<in> set evs \<and>
     (\<forall>g \<in> set items. given_up FinalizerOZResourceCleanup (om_UID (ozr_Meta x)) evs g))"

text \<open>The policies that are read on deletion: those of the recorded names, as they are written there.\<close>

definition recorded_policy :: "OZResource \<Rightarrow> nn \<Rightarrow> bool" where
  "recorded_policy x k = (\<exists>names. ors_PolicyName (ozr_Status x) = Some names \<and> k \<in> Pair '''' ` set (SplitTrim names '',''))"

lemma unregister_spec:
  "emits (unregister_policies r req x) (\<lambda>err evs. no_delete evs \<and> (\<forall>P. updates_only P evs) \<and> reads_only ''OZPolicy'' (recorded_policy x) evs)"
proof -
  have "emits (for_each (SplitTrim names '','') () (\<lambda>policy _. do {
            gr \<leftarrow> k_get (OZPolicies (rr_Client r)) ('''', policy);
            (case gr of
               Inl err \<Rightarrow> State_Monad.return (if k_IsNotFound err then Inr () else Inl err)
             | Inr nbPolicy \<Rightarrow>
                 if nn_String req \<in> set (ozp_ManagedServiceList (ozp_Status nbPolicy))
                 then do {
                   p \<leftarrow> touch_policy r (set_managed (\<lambda>l. Without l (nn_String req)) nbPolicy);
                   sr \<leftarrow> k_status_update (OZPolicies (rr_Client r)) p;
                   State_Monad.return (case sr of Inl e \<Rightarrow> Inl e | Inr _ \<Rightarrow> Inr ()) }
                 else State_Monad.return (Inr ())) }))
     (\<lambda>_ evs. no_delete evs \<and> (\<forall>P. updates_only P evs) \<and> reads_only ''OZPolicy'' (recorded_policy x) evs)"
    if "ors_PolicyName (ozr_Status x) = Some names" for names
    by (rule emits_for_each [where I = "\<lambda>_ evs. no_delete evs \<and> (\<forall>P. updates_only P evs) \<and> reads_only ''OZPolicy'' (recorded_policy x) evs"])
       (auto intro!: emits_intros simp: call_defs touch_policy_def recorded_policy_def that split: sum.splits)
  then show ?thesis
    unfolding unregister_policies_def
    by (auto intro!: emits_intros emits_bind [where f = "\<lambda>l. State_Monad.return (case l of Inl e \<Rightarrow> Some e | Inr _ \<Rightarrow> None)"]
        split: option.split)
qed

lemma deleted_append [simp]:
  "resource_deleted x e1 \<Longrightarrow> resource_deleted x (e1 @ e2)" "resource_deleted x e2 \<Longrightarrow> resource_deleted x (e1 @ e2)"
  "resource_deleted x e2 \<Longrightarrow> resource_deleted x (ev # e2)"
  by (auto simp: resource_deleted_def split: option.splits)

lemma groups_given_up_append [simp]: "groups_given_up x e2 \<Longrightarrow> groups_given_up x (e1 @ e2)"
  by (auto simp: groups_given_up_def)

lemma release_resource_spec:
  "emits (release_resource r req x)
   (\<lambda>_ evs. no_delete evs \<and> reads_only ''OZPolicy'' (recorded_policy x) evs \<and>
      ((\<forall>Q. updates_only (group_or Q) evs) \<or>
       updates_only (group_or (\<lambda>o'. o' = KOZResource (without_resource_finalizers r x))) evs \<and> groups_given_up x evs))"
proof -
  note one = emits_conj [OF emits_disown_all disown_no_reads]
  have cons: "given_up fin uid evs g \<Longrightarrow> given_up fin uid (ev # evs) g" for fin uid ev evs g
    using given_up_append(2) [of fin uid evs g "[ev]"] by simp
  have given: "(\<forall>g \<in> set items. given_up FinalizerOZResourceCleanup (om_UID (ozr_Meta x)) evs g) \<Longrightarrow>
      groups_given_up x (EList ''OZGroup'' (Inr (map KOZGroup items)) # evs @ evs')" for items evs evs'
    unfolding groups_given_up_def by (intro exI [of _ items]) (auto intro!: cons)
  show ?thesis
    unfolding release_resource_def k_list_def k_update_def OZGroups_def OZResources_def
    by (auto intro!: emits_intros emits_bind [OF one] simp: given disown_updates_groups group_or_def
        split: sum.split option.split)
qed

lemma reconcileDelete_spec:
  "emits (reconcileDelete r req x) (\<lambda>_ evs. no_delete evs \<and> reads_only ''OZPolicy'' (recorded_policy x) evs \<and>
     updates_only (group_or (\<lambda>o'. o' = KOZResource (without_resource_finalizers r x) \<and>
        resource_deleted x evs \<and> groups_given_up x evs)) evs)"
proof -
  have mid: "emits (delete_upstream r x) (\<lambda>err evs. no_delete evs \<and> (\<forall>P. updates_only P evs) \<and>
      reads_only ''OZPolicy'' (recorded_policy x) evs \<and> (err = None \<longrightarrow> resource_deleted x evs))"
    unfolding delete_upstream_def call_defs
    by (auto intro!: emits_intros simp: resource_deleted_def o_IsNotFound_iff split: option.splits if_splits)
  show ?thesis
    unfolding reconcileDelete_def
    by (auto intro!: emits_intros emits_bind [OF unregister_spec] emits_bind [OF mid]
       emits_mono [OF release_resource_spec] split: option.split)
qed

section \<open>Names of generated policies\<close>

lemma split_at_suffix:
  "sep \<noteq> [] \<Longrightarrow> \<not> str_contains (p @ butlast sep) sep \<Longrightarrow> split_at sep acc (p @ sep) = [acc @ p, []]"
proof (induction p arbitrary: acc)
  case Nil
  have "split_at sep [] [] = [[]]" using Nil by (subst split_at.simps) simp
  then show ?case using Nil by (subst split_at.simps) simp
next
  case (Cons c p)
  have "\<not> prefix sep (c # p @ sep)"
  proof
    assume pre: "prefix sep (c # p @ sep)"
    have "c # p @ sep = (c # p @ butlast sep) @ [last sep]" using Cons.prems(1) by simp
    with pre have "prefix sep (c # p @ butlast sep) \<or> length sep = Suc (length (c # p @ butlast sep))"
      by (metis length_append_singleton prefix_snoc)
    with Cons.prems show False by auto
  qed
  with Cons show ?case by (subst split_at.simps) simp
qed

lemma replace_generated_suffix:
  "sep \<noteq> [] \<Longrightarrow> \<not> str_contains (p @ butlast sep) sep \<Longrightarrow> str_replace_all (p @ sep) sep '''' = p"
  by (simp add: str_replace_all_def str_split_def split_at_suffix)

lemma replace_slash:
  "CHR ''/'' \<notin> set ns \<Longrightarrow> CHR ''/'' \<notin> set n \<Longrightarrow> str_replace_all (ns @ ''/'' @ n) ''/'' ''-'' = ns @ ''-'' @ n"
  by (simp add: str_replace_all_def str_split_char split_on_append split_on_nosep)

section \<open>Claims\<close>

text \<open>
  C12. Synchronising a resource with the management API: when \<open>handleopenZroResource\<close> reports no
  error, a resource without a recorded ID was created from the object's request and its ID
  recorded; a recorded one that the API does not find is forgotten; a recorded one that is found
  agrees with the request or was updated with it.
\<close>

theorem ozresource_upstream_correct:
  "emits (handleopenZroResource r x ids) (\<lambda>out evs. case out of
     Returned (x', res, err) \<Rightarrow> err = None \<longrightarrow> upstream_synced x ids x' res evs
   | Panicked _ \<Rightarrow> True)"
  by (rule handleopenZroResource_synced)

definition demo_resource :: "string option \<Rightarrow> OZResource" where
  "demo_resource i = zero_OZResource\<lparr>
     ozr_Meta := zero_ObjectMeta\<lparr>om_Name := ''svc'', om_Namespace := ''ns'', om_UID := ''u1'', om_Finalizers := [ResourceFinalizer]\<rparr>,
     ozr_Spec := (ozr_Spec zero_OZResource)\<lparr>ozr_Name := ''svc'', ozr_NetworkID := ''n1'', ozr_Address := ''svc.ns'',
       ozr_Groups := [''team a'']\<rparr>,
     ozr_Status := (ozr_Status zero_OZResource)\<lparr>ors_NetworkResourceID := i, ors_PolicyName := Some ''web''\<rparr>\<rparr>"

definition demo_owned_group :: OZGroup where
  "demo_owned_group = \<lparr>ozg_Meta = zero_ObjectMeta\<lparr>om_Name := ''team-a'', om_OwnerReferences := [owner_ref (demo_resource None)]\<rparr>,
     ozg_Spec = \<lparr>ozg_Name = ''team a''\<rparr>, ozg_Status = \<lparr>ozg_GroupID = Some ''g1'', ozg_Conditions = []\<rparr>\<rparr>"

definition demo_resource_env :: "unit OZResourceReconciler" where
  "demo_resource_env = \<lparr>rr_Client = down_Client\<lparr>
       c_OZGroups := down_kind\<lparr>kc_list := \<lambda>_ w. (Inr [demo_owned_group], w),
         kc_get := \<lambda>k w. (if k = (''ns'', ''team-a'') then Inr demo_owned_group else Inl (KError ''down''), w),
         kc_update := \<lambda>g w. (Inr g, w)\<rparr>,
       c_OZPolicies := down_kind\<lparr>kc_get := \<lambda>_ w. (Inl (KNotFound ''x''), w)\<rparr>\<rparr>,
     rr_OpenZro = down_OpenZro\<lparr>oz_Resources := \<lambda>n. down_rest\<lparr>rs_create := \<lambda>q w.
       (Inr \<lparr>ares_Id = ''r1'', ares_Address = resr_Address q, ares_Enabled = True, ares_Groups = resr_Groups q,
         ares_Description = resr_Description q, ares_Name = resr_Name q\<rparr>, w),
       rs_delete := \<lambda>i w. (Some (ONotFound ''gone''), w)\<rparr>\<rparr>,
     rr_AllowAutomaticPolicyCreation = False, rr_ClusterName = ''k'', rr_DefaultLabels = None\<rparr>"

lemmas demo_resource_defs = demo_resource_def demo_owned_group_def demo_resource_env_def call_defs down_defs
  zero_OZResource_def zero_ObjectMeta_def owner_ref_def set_ozr_status_def

theorem ozresource_upstream_correct_witness:
  "let (x, t) = run_state (handleopenZroResource demo_resource_env (demo_resource None) [''g1'']) start
   in case x of Returned (x', res, err) \<Rightarrow> err = None \<and> upstream_synced (demo_resource None) [''g1''] x' res (wlog t)
      | Panicked _ \<Rightarrow> False"
proof -
  let ?m = "handleopenZroResource demo_resource_env (demo_resource None) [''g1'']"
  obtain x' where run: "fst (run_state ?m start) = Returned (x', None, None)"
    by (simp add: handleopenZroResource_def Let_def demo_resource_defs resource_request_def)
  then show ?thesis
    using emits_start [OF ozresource_upstream_correct [where r = demo_resource_env and x = "demo_resource None" and ids = "[''g1'']"]]
    by (simp add: split_beta)
qed



text \<open>
  C34. Deleting a resource: the object is updated only to drop its two finalizers, and only after
  its network resource was deleted or is unknown upstream and every listed group it owns was given
  up; nothing is deleted from the cluster.
\<close>

theorem ozresource_delete_releases_safely:
  "emits (reconcileDelete r req x) (\<lambda>_ evs. no_delete evs \<and>
     updates_only (group_or (\<lambda>o'. o' = KOZResource (without_resource_finalizers r x) \<and>
        resource_deleted x evs \<and> groups_given_up x evs)) evs)"
  by (rule emits_mono [OF reconcileDelete_spec]) simp

text \<open>
  Deletion leaks generated policies: the policies of a deleted resource are looked up under the
  names of the annotation, not under the names they were generated with, so the policy that the
  operator created for the resource is neither read nor updated nor deleted.
\<close>

theorem ozresource_delete_leaks_generated_policy:
  assumes "ors_PolicyName (ozr_Status x) = Some policy" "SplitTrim policy '','' = [policy]"
    and "gm_get (ors_PolicyNameMapping (ozr_Status x)) policy = Some (generatedName req policy)"
  shows "emits (reconcileDelete r req x) (\<lambda>_ evs. no_delete evs \<and>
     (\<forall>a. EGet ''OZPolicy'' ('''', kubernetes_policy_name x policy) a \<notin> set evs))"
proof (rule emits_mono [OF reconcileDelete_spec])
  fix y evs
  assume "no_delete evs \<and> reads_only ''OZPolicy'' (recorded_policy x) evs \<and>
    updates_only (group_or (\<lambda>o'. o' = KOZResource (without_resource_finalizers r x) \<and>
      resource_deleted x evs \<and> groups_given_up x evs)) evs"
  moreover have "\<not> recorded_policy x ('''', kubernetes_policy_name x policy)"
  proof -
    have "length (kubernetes_policy_name x policy) \<noteq> length policy"
      using assms(3) by (simp add: kubernetes_policy_name_def generatedName_def)
    then have "kubernetes_policy_name x policy \<noteq> policy" by auto
    then show ?thesis using assms(1,2) by (auto simp: recorded_policy_def)
  qed
  ultimately show "no_delete evs \<and> (\<forall>a. EGet ''OZPolicy'' ('''', kubernetes_policy_name x policy) a \<notin> set evs)"
    by (auto simp: reads_only_def)
qed

theorem ozresource_delete_leaks_generated_policy_witness:
  "let x = set_ozr_status (\<lambda>s. s\<lparr>ors_PolicyNameMapping := Some [(''web'', ''web-ns-svc'')]\<rparr>) (demo_resource (Some ''r1''));
       t = snd (run_state (reconcileDelete demo_resource_env (''ns'', ''svc'') x) start)
   in kubernetes_policy_name x ''web'' = ''web-ns-svc'' \<and>
      (\<exists>a. EGet ''OZPolicy'' ('''', ''web'') a \<in> set (wlog t)) \<and>
      (\<forall>a. EGet ''OZPolicy'' ('''', ''web-ns-svc'') a \<notin> set (wlog t))"
proof -
  define x where "x = set_ozr_status (\<lambda>s. s\<lparr>ors_PolicyNameMapping := Some [(''web'', ''web-ns-svc'')]\<rparr>) (demo_resource (Some ''r1''))"
  have st: "SplitTrim ''web'' '','' = [''web'']"
    by (simp add: SplitTrim_def str_split_char str_trim_def is_space_def)
  have name: "kubernetes_policy_name x ''web'' = ''web-ns-svc''"
    by (simp add: x_def kubernetes_policy_name_def gm_get_def gm_entries_def demo_resource_defs)
  have "\<exists>a. EGet ''OZPolicy'' ('''', ''web'') a \<in> set (wlog (snd (run_state (reconcileDelete demo_resource_env (''ns'', ''svc'') x) start)))"
    by (simp add: x_def reconcileDelete_def unregister_policies_def delete_upstream_def release_resource_def
        disown_all_def disown_group_def disowned_def demo_resource_defs st without_resource_finalizers_def)
  moreover have "emits (reconcileDelete demo_resource_env (''ns'', ''svc'') x) (\<lambda>_ evs. no_delete evs \<and>
     (\<forall>a. EGet ''OZPolicy'' ('''', kubernetes_policy_name x ''web'') a \<notin> set evs))"
    by (rule ozresource_delete_leaks_generated_policy)
       (simp_all add: st, simp_all add: x_def generatedName_def gm_get_def gm_entries_def demo_resource_defs)
  ultimately show ?thesis
    unfolding x_def [symmetric] using name by (auto simp: Let_def dest!: emits_start)
qed

text \<open>
  A failed listing of the groups is swallowed: \<open>handleGroups\<close> returns the error with a nil
  result, and \<open>Reconcile\<close> only looks at the result. The network resource is created upstream with
  no groups at all, and the reconciliation reports no error.
\<close>

theorem ozresource_group_error_swallowed:
  assumes "kc_list (c_OZGroups (rr_Client r)) (Some (fst req)) (wenv s) = (Inl e, w1)"
    and "ors_NetworkResourceID (ozr_Status x) = None"
    and "rs_create (oz_Resources (rr_OpenZro r) (ozr_NetworkID (ozr_Spec x))) (resource_request x []) w1 = (Inr a, w2)"
  shows "run_state (ozresource_sync r req x) s =
     (Inr (set_ozr_status (\<lambda>s. s\<lparr>ors_NetworkResourceID := Some (ares_Id a)\<rparr>) x, requeue_now, None),
      s\<lparr>wenv := w2, wlog := wlog s @ [EList ''OZGroup'' (Inl e),
        OCreate (CResources (ozr_NetworkID (ozr_Spec x))) (QResource (resource_request x [])) (Inr (RResource a))]\<rparr>)"
  using assms by (simp add: ozresource_sync_def handleGroups_def handleopenZroResource_def Let_def call_defs)

theorem ozresource_group_error_swallowed_witness:
  "\<exists>x. fst (run_state (ozresource_sync (demo_resource_env\<lparr>rr_Client := down_Client\<rparr>) (''ns'', ''svc'') (demo_resource None)) start)
     = Inr (x, requeue_now, None)"
  by (subst ozresource_group_error_swallowed [where e = "KError ''down''" and ?w1.0 = "()" and ?w2.0 = "()" and
        a = "\<lparr>ares_Id = ''r1'', ares_Address = ''svc.ns'', ares_Enabled = True, ares_Groups = [],
          ares_Description = Some networkDescription, ares_Name = ''svc''\<rparr>"])
     (simp_all add: demo_resource_defs resource_request_def)

text \<open>
  Registration with an existing policy that was not generated: when it reports no error, the
  policy already listed the resource, or a status of the policy that lists it was stored; and the
  ports and groups recorded in the resource's status are those of its spec.
\<close>

theorem ozresource_registers_with_policy:
  assumes "gm_get (ors_PolicyNameMapping (ozr_Status x)) policy = None"
  shows "emits (register_with_policy r req x policy ids p) (\<lambda>(x', err) evs. tracked x ids x' \<and>
     (err = None \<longrightarrow> nn_String req \<in> set (ozp_ManagedServiceList (ozp_Status p)) \<or>
        (\<exists>o'. EStatusUpdate o' None \<in> set evs \<and> registers req o')))"
  by (rule register_spec [OF assms])

definition demo_register_env :: "unit OZResourceReconciler" where
  "demo_register_env = demo_resource_env\<lparr>rr_Client := down_Client\<lparr>
     c_OZPolicies := down_kind\<lparr>kc_status_update := \<lambda>p w. (Inr p, w)\<rparr>\<rparr>\<rparr>"

theorem ozresource_registers_with_policy_witness:
  "let (x, t) = run_state (register_with_policy demo_register_env (''ns'', ''svc'') (demo_resource None) ''web'' [''g1'']
       (demo_policy None None)) start
   in snd x = None \<and> tracked (demo_resource None) [''g1''] (fst x) \<and>
      (\<exists>o'. EStatusUpdate o' None \<in> set (wlog t) \<and> registers (''ns'', ''svc'') o')"
proof -
  let ?m = "register_with_policy demo_register_env (''ns'', ''svc'') (demo_resource None) ''web'' [''g1''] (demo_policy None None)"
  have "snd (fst (run_state ?m start)) = None"
    by (simp add: register_with_policy_def track_ports_groups_def touch_policy_def set_managed_def set_policy_status_def
        demo_register_env_def demo_resource_defs demo_policy_def zero_OZPolicyStatus_def Let_def)
  moreover have "emits ?m (\<lambda>(x', err) evs. tracked (demo_resource None) [''g1''] x' \<and>
     (err = None \<longrightarrow> nn_String (''ns'', ''svc'') \<in> set (ozp_ManagedServiceList (ozp_Status (demo_policy None None))) \<or>
        (\<exists>o'. EStatusUpdate o' None \<in> set evs \<and> registers (''ns'', ''svc'') o')))"
    by (rule ozresource_registers_with_policy) (simp add: demo_resource_defs)
  ultimately show ?thesis
    by (auto dest!: emits_start simp: split_beta demo_policy_def zero_OZPolicyStatus_def)
qed

text \<open>
  C37. A generated policy finds its resource again: the watch on policies maps it back to the
  resource's key, and once the resource has recorded the policy's name, the policy selects it, as
  long as the generated suffix occurs in the generated name only at its end.
\<close>

theorem generated_policy_roundtrip:
  assumes "CHR ''/'' \<notin> set ns" "CHR ''/'' \<notin> set n"
    and "ors_PolicyName (ozr_Status x) = Some names" "policy \<in> set (SplitTrim names '','')"
    and "\<not> str_contains (policy @ butlast (''-'' @ ns @ ''-'' @ n)) (''-'' @ ns @ ''-'' @ n)"
  shows "policy_watch_requests (generated_policy r (ns, n) y policy) = Returned [(ns, n)] \<and>
     resource_selected (generated_policy r (ns, n) y policy) x"
proof -
  have split: "str_split (ns @ ''/'' @ n) ''/'' = [ns, n]"
    using assms(1,2) by (simp add: str_split_char split_on_append split_on_nosep)
  have "str_replace_all (policy @ ''-'' @ ns @ ''-'' @ n) (''-'' @ ns @ ''-'' @ n) '''' = policy"
    using assms(5) by (intro replace_generated_suffix) simp
  with split replace_slash [OF assms(1,2)] assms(3,4) show ?thesis
    by (simp add: policy_watch_requests_def resource_selected_def generated_policy_def generatedName_def
        gm_get_def gm_val_def gm_entries_def Let_def)
qed

theorem generated_policy_roundtrip_witness:
  "policy_watch_requests (generated_policy demo_resource_env (''ns'', ''svc'') (demo_resource None) ''web'') = Returned [(''ns'', ''svc'')] \<and>
   resource_selected (generated_policy demo_resource_env (''ns'', ''svc'') (demo_resource None) ''web'') (demo_resource None)"
  by (rule generated_policy_roundtrip [where names = "''web''"])
     (simp_all add: demo_resource_defs SplitTrim_def str_split_char str_trim_def is_space_def)

end
