(* ===== verification/OZRoutingPeer_Controller.thy ===== *)
theory OZRoutingPeer_Controller
  imports OZResource_Controller
begin

text \<open>
  \<open>internal/controller/ozroutingpeer_controller.go\<close>: an \<open>OZRoutingPeer\<close> becomes a network with a
  router in the management API, an \<open>OZGroup\<close>, a setup key with its secret, an entry in the
  account's admission exemptions, and a Deployment. \<open>patchEmpty\<close> is the answer of the
  controller-runtime patch: whether the patch from the first deployment to the second is \<open>{}\<close>.
\<close>

section \<open>Model\<close>

record 'w OZRoutingPeerReconciler =
  rp_Client :: "'w Client"
  rp_OpenZro :: "'w OpenZro"
  rp_ClientImage :: string
  rp_ClusterName :: string
  rp_ManagementURL :: string
  rp_NamespacedNetworks :: bool
  rp_DefaultLabels :: gomap

definition set_rp_status :: "(OZRoutingPeerStatus \<Rightarrow> OZRoutingPeerStatus) \<Rightarrow> OZRoutingPeer \<Rightarrow> OZRoutingPeer" where
  "set_rp_status f x = x\<lparr>orp_Status := f (orp_Status x)\<rparr>"

text \<open>\<open>ozrp.Status.Conditions = openzrov1.OZConditionFalse(reason, msg)\<close>, then \<open>return err\<close>\<close>

definition rp_condition :: "'w OZRoutingPeerReconciler \<Rightarrow> string \<Rightarrow> string \<Rightarrow> OZRoutingPeer \<Rightarrow> ('w, OZRoutingPeer) go" where
  "rp_condition r reason msg x = do {
     cs \<leftarrow> condition_false (rp_Client r) reason msg;
     State_Monad.return (set_rp_status (\<lambda>s. s\<lparr>orp_Conditions := cs\<rparr>) x)
   }"

text \<open>The computation of the new exemption list; \<open>None\<close> when the account is already as desired.\<close>

definition exempt_groups :: "bool \<Rightarrow> string \<Rightarrow> string list \<Rightarrow> string list option" where
  "exempt_groups exempt groupID current =
     (if exempt \<and> groupID \<notin> set current then Some (current @ [groupID])
      else if \<not> exempt \<and> groupID \<in> set current then Some (filter (\<lambda>g. g \<noteq> groupID) current)
      else None)"

definition current_exempt :: "Account \<Rightarrow> string list" where
  "current_exempt a = (case as_AdmissionExemptGroups (ac_Settings a) of None \<Rightarrow> [] | Some gs \<Rightarrow> gs)"

definition handleAdmissionExempt ::
  "'w OZRoutingPeerReconciler \<Rightarrow> OZRoutingPeer \<Rightarrow> OZGroup \<Rightarrow> ('w, goerr option) go" where
  "handleAdmissionExempt r ozrp nbGroup =
     (case ozg_GroupID (ozg_Status nbGroup) of
        None \<Rightarrow> State_Monad.return None
      | Some groupID \<Rightarrow> do {
          let exempt = (case orp_ExemptFromAdmission (orp_Spec ozrp) of None \<Rightarrow> True | Some b \<Rightarrow> b);
          lr \<leftarrow> o_list (Accounts (rp_OpenZro r));
          (case lr of
             Inl err \<Rightarrow> State_Monad.return (Some err)
           | Inr [] \<Rightarrow> State_Monad.return None
           | Inr (account # _) \<Rightarrow>
               (case exempt_groups exempt groupID (current_exempt account) of
                  None \<Rightarrow> State_Monad.return None
                | Some desired \<Rightarrow> do {
                    ur \<leftarrow> o_update (Accounts (rp_OpenZro r)) (ac_Id account)
                           ((ac_Settings account)\<lparr>as_AdmissionExemptGroups := Some desired\<rparr>);
                    State_Monad.return (err_of ur) })) })"

definition removeAdmissionExempt :: "'w OZRoutingPeerReconciler \<Rightarrow> string \<Rightarrow> ('w, goerr option) go" where
  "removeAdmissionExempt r groupID = do {
     lr \<leftarrow> o_list (Accounts (rp_OpenZro r));
     (case lr of
        Inl err \<Rightarrow> State_Monad.return (Some err)
      | Inr [] \<Rightarrow> State_Monad.return None
      | Inr (account # _) \<Rightarrow>
          (case as_AdmissionExemptGroups (ac_Settings account) of
             None \<Rightarrow> State_Monad.return None
           | Some current \<Rightarrow>
               if groupID \<notin> set current then State_Monad.return None
               else do {
                 ur \<leftarrow> o_update (Accounts (rp_OpenZro r)) (ac_Id account)
                        ((ac_Settings account)\<lparr>as_AdmissionExemptGroups := Some (filter (\<lambda>g. g \<noteq> groupID) current)\<rparr>);
                 State_Monad.return (err_of ur) }))
   }"

definition buildSecurityContext :: "OZRoutingPeer \<Rightarrow> SecurityContext" where
  "buildSecurityContext ozrp = \<lparr>sc_CapabilitiesAdd = [''NET_ADMIN''],
     sc_Privileged = (if orp_Privileged (orp_Spec ozrp) = Some True then Some True else None)\<rparr>"

definition rp_owner_ref :: "OZRoutingPeer \<Rightarrow> OwnerReference" where
  "rp_owner_ref ozrp = \<lparr>or_APIVersion = GroupVersion, or_Kind = KindOZRoutingPeer,
     or_Name = om_Name (orp_Meta ozrp), or_UID = om_UID (orp_Meta ozrp),
     or_Controller = None, or_BlockOwnerDeletion = Some True\<rparr>"

text \<open>
  The labels of the Deployment: \<open>labels := r.DefaultLabels\<close> is not a copy, so the result is also
  the new value of \<open>r.DefaultLabels\<close>.
\<close>

definition deployment_labels :: "gomap \<Rightarrow> OZRoutingPeer \<Rightarrow> gomap option" where
  "deployment_labels defaults ozrp =
     Option.bind (maps_copy defaults (orp_Labels (orp_Spec ozrp))) (gm_put LabelAppKubernetesName LabelValueRouter)"

definition deployment_env :: "'w OZRoutingPeerReconciler \<Rightarrow> OZRoutingPeer \<Rightarrow> EnvVar list" where
  "deployment_env r ozrp =
     [\<lparr>env_Name = ''OZ_SETUP_KEY'', env_Value = '''',
       env_SecretKeyRef = Some \<lparr>sks_Name = om_Name (orp_Meta ozrp), sks_Key = SecretKeySetupKey\<rparr>\<rparr>,
      \<lparr>env_Name = ''OZ_MANAGEMENT_URL'', env_Value = rp_ManagementURL r, env_SecretKeyRef = None\<rparr>]"

definition rp_replicas :: "OZRoutingPeer \<Rightarrow> int32" where
  "rp_replicas ozrp = (case orp_Replicas (orp_Spec ozrp) of None \<Rightarrow> 3 | Some n \<Rightarrow> n)"

text \<open>The fields of the container that both branches set, over the container that is there.\<close>

definition rp_container :: "'w OZRoutingPeerReconciler \<Rightarrow> OZRoutingPeer \<Rightarrow> Container \<Rightarrow> Container" where
  "rp_container r ozrp c = c\<lparr>ct_Name := ''openzro'', ct_Image := rp_ClientImage r, ct_Env := deployment_env r ozrp,
     ct_SecurityContext := Some (buildSecurityContext ozrp), ct_Resources := orp_Resources (orp_Spec ozrp),
     ct_VolumeMounts := orp_VolumeMounts (orp_Spec ozrp)\<rparr>"

definition match_labels :: gomap where
  "match_labels = Some [(LabelAppKubernetesName, LabelValueRouter)]"

definition new_deployment :: "'w OZRoutingPeerReconciler \<Rightarrow> OZRoutingPeer \<Rightarrow> gomap \<Rightarrow> Deployment" where
  "new_deployment r ozrp labels =
     \<lparr>dep_Meta = zero_ObjectMeta\<lparr>om_Name := om_Name (orp_Meta ozrp), om_Namespace := om_Namespace (orp_Meta ozrp),
        om_OwnerReferences := [rp_owner_ref ozrp], om_Labels := labels, om_Annotations := orp_Annotations (orp_Spec ozrp)\<rparr>,
      dep_Replicas = Some (rp_replicas ozrp), dep_MatchLabels = match_labels,
      dep_Template = \<lparr>pts_Labels = labels, pts_NodeSelector = orp_NodeSelector (orp_Spec ozrp),
        pts_Tolerations = orp_Tolerations (orp_Spec ozrp), pts_Containers = [rp_container r ozrp zero_Container],
        pts_Volumes = orp_Volumes (orp_Spec ozrp)\<rparr>,
      dep_StatusReplicas = 0, dep_ReadyReplicas = 0\<rparr>"

text \<open>
  The loop over the annotations: every key \<open>k\<close> with value \<open>v\<close> gets the annotation named \<open>v\<close>;
  writing to the nil map of a deployment without annotations panics (\<open>None\<close>).
\<close>

definition copy_annotations :: "gomap \<Rightarrow> gomap \<Rightarrow> gomap option" where
  "copy_annotations spec dst = fold (\<lambda>(k, v) m. Option.bind m (gm_put k (gm_val spec v))) (gm_entries spec) (Some dst)"

definition updated_deployment :: "'w OZRoutingPeerReconciler \<Rightarrow> OZRoutingPeer \<Rightarrow> gomap \<Rightarrow> Deployment \<Rightarrow> gomap \<Rightarrow> Deployment" where
  "updated_deployment r ozrp labels d annotations =
     d\<lparr>dep_Meta := (dep_Meta d)\<lparr>om_Name := om_Name (orp_Meta ozrp), om_Namespace := om_Namespace (orp_Meta ozrp),
         om_OwnerReferences := [rp_owner_ref ozrp], om_Labels := labels, om_Annotations := annotations\<rparr>,
       dep_Replicas := Some (rp_replicas ozrp), dep_MatchLabels := match_labels,
       dep_Template := (dep_Template d)\<lparr>pts_Labels := labels, pts_NodeSelector := orp_NodeSelector (orp_Spec ozrp),
         pts_Tolerations := orp_Tolerations (orp_Spec ozrp), pts_Volumes := orp_Volumes (orp_Spec ozrp),
         pts_Containers := [rp_container r ozrp
           (case pts_Containers (dep_Template d) of [c] \<Rightarrow> c | _ \<Rightarrow> zero_Container)]\<rparr>\<rparr>"

text \<open>\<open>handleDeployment\<close>: the default labels as they are afterwards, and the outcome.\<close>

definition handleDeployment ::
  "'w OZRoutingPeerReconciler \<Rightarrow> (Deployment \<Rightarrow> Deployment \<Rightarrow> bool) \<Rightarrow> nn \<Rightarrow> OZRoutingPeer \<Rightarrow>
     ('w, gomap \<times> (OZRoutingPeer \<times> goerr option) outcome) go" where
  "handleDeployment r patchEmpty req ozrp = do {
     gr \<leftarrow> k_get (Deployments (rp_Client r)) req;
     (case gr of
        Inl err \<Rightarrow>
          if \<not> k_IsNotFound err
          then do {
            x \<leftarrow> rp_condition r ''internalError'' (''error getting Deployment: '' @ error_text err) ozrp;
            State_Monad.return (rp_DefaultLabels r, Returned (x, Some err)) }
          else (case deployment_labels (rp_DefaultLabels r) ozrp of
            None \<Rightarrow> State_Monad.return (rp_DefaultLabels r, Panicked ''assignment to entry in nil map'')
          | Some labels \<Rightarrow> do {
              cr \<leftarrow> k_create (Deployments (rp_Client r)) (new_deployment r ozrp labels);
              (case cr of
                 Inl e \<Rightarrow> do {
                   x \<leftarrow> rp_condition r ''internalError'' (''error creating Deployment: '' @ error_text e) ozrp;
                   State_Monad.return (labels, Returned (x, Some e)) }
               | Inr _ \<Rightarrow> State_Monad.return (labels, Returned (ozrp, None))) })
      | Inr d \<Rightarrow>
          (case deployment_labels (rp_DefaultLabels r) ozrp of
             None \<Rightarrow> State_Monad.return (rp_DefaultLabels r, Panicked ''assignment to entry in nil map'')
           | Some labels \<Rightarrow>
               (case copy_annotations (orp_Annotations (orp_Spec ozrp)) (om_Annotations (dep_Meta d)) of
                  None \<Rightarrow> State_Monad.return (labels, Panicked ''assignment to entry in nil map'')
                | Some annotations \<Rightarrow>
                    let d' = updated_deployment r ozrp labels d annotations
                    in if patchEmpty d d' then State_Monad.return (labels, Returned (ozrp, None))
                       else do {
                         pr \<leftarrow> k_patch (Deployments (rp_Client r)) d';
                         (case pr of
                            Inl e \<Rightarrow> do {
                              x \<leftarrow> rp_condition r ''internalError'' (''error updating Deployment: '' @ error_text e) ozrp;
                              State_Monad.return (labels, Returned (x, Some e)) }
                          | Inr _ \<Rightarrow> State_Monad.return (labels, Returned (ozrp, None))) })))
   }"

definition router_request :: "string \<Rightarrow> RouterRequest" where
  "router_request groupID = \<lparr>rr_Enabled = True, rr_Masquerade = True, rr_Metric = 9999, rr_PeerGroups = Some [groupID]\<rparr>"

definition nil_deref :: string where
  "nil_deref = ''invalid memory address or nil pointer dereference''"

text \<open>
  Whether the settings of a router have to be updated; \<open>None\<close> when a nil pointer is dereferenced.
\<close>

definition router_differs :: "ApiRouter \<Rightarrow> string option \<Rightarrow> bool option" where
  "router_differs router groupID =
     (if \<not> ar_Enabled router \<or> \<not> ar_Masquerade router \<or> ar_Metric router \<noteq> 9999 then Some True
      else case ar_PeerGroups router of
             None \<Rightarrow> None
           | Some [g] \<Rightarrow> map_option (\<lambda>i. g \<noteq> i) groupID
           | Some _ \<Rightarrow> Some True)"

definition handleRouter ::
  "'w OZRoutingPeerReconciler \<Rightarrow> OZRoutingPeer \<Rightarrow> OZGroup \<Rightarrow> ('w, (OZRoutingPeer \<times> goerr option) outcome) go" where
  "handleRouter r ozrp nbGroup =
     (case orp_NetworkID (orp_Status ozrp) of
        None \<Rightarrow> State_Monad.return (Panicked nil_deref)
      | Some networkID \<Rightarrow> do {
          let api = Routers (rp_OpenZro r) networkID;
          lr \<leftarrow> o_list api;
          (case lr of
             Inl err \<Rightarrow> do {
               x \<leftarrow> rp_condition r ''APIError'' (''error listing network routers: '' @ error_text err) ozrp;
               State_Monad.return (Returned (x, Some err)) }
           | Inr [] \<Rightarrow>
               (case ozg_GroupID (ozg_Status nbGroup) of
                  None \<Rightarrow> State_Monad.return (Panicked nil_deref)
                | Some groupID \<Rightarrow> do {
                    cr \<leftarrow> o_create api (router_request groupID);
                    (case cr of
                       Inl err \<Rightarrow> do {
                         x \<leftarrow> rp_condition r ''APIError'' (''error creating network router: '' @ error_text err) ozrp;
                         State_Monad.return (Returned (x, Some err)) }
                     | Inr router \<Rightarrow> State_Monad.return (Returned
                         (set_rp_status (\<lambda>s. s\<lparr>orp_RouterID := Some (ar_Id router)\<rparr>) ozrp, None))) })
           | Inr (router # _) \<Rightarrow>
               if orp_RouterID (orp_Status ozrp) = None
               then State_Monad.return (Returned
                      (set_rp_status (\<lambda>s. s\<lparr>orp_RouterID := Some (ar_Id router)\<rparr>) ozrp, None))
               else (case router_differs router (ozg_GroupID (ozg_Status nbGroup)) of
                       None \<Rightarrow> State_Monad.return (Panicked nil_deref)
                     | Some False \<Rightarrow> State_Monad.return (Returned (ozrp, None))
                     | Some True \<Rightarrow>
                         (case ozg_GroupID (ozg_Status nbGroup) of
                            None \<Rightarrow> State_Monad.return (Panicked nil_deref)
                          | Some groupID \<Rightarrow> do {
                              ur \<leftarrow> o_update api (ar_Id router) (router_request groupID);
                              (case ur of
                                 Inl err \<Rightarrow> do {
                                   x \<leftarrow> rp_condition r ''APIError'' (''error updating network router: '' @ error_text err) ozrp;
                                   State_Monad.return (Returned (x, Some err)) }
                               | Inr _ \<Rightarrow> State_Monad.return (Returned (ozrp, None))) }))) })"

definition networkName :: "'w OZRoutingPeerReconciler \<Rightarrow> nn \<Rightarrow> string" where
  "networkName r req = (if rp_NamespacedNetworks r then rp_ClusterName r @ ''-'' @ fst req else rp_ClusterName r)"

definition rp_setup_key_request :: "'w OZRoutingPeerReconciler \<Rightarrow> nn \<Rightarrow> OZRoutingPeer \<Rightarrow> string \<Rightarrow> SetupKeyRequest" where
  "rp_setup_key_request r req ozrp groupID =
     \<lparr>skr_AllowExtraDnsLabels = None, skr_AutoGroups = [groupID],
      skr_Ephemeral = Some (case orp_Ephemeral (orp_Spec ozrp) of None \<Rightarrow> False | Some b \<Rightarrow> b),
      skr_ExpiresIn = 0, skr_Name = networkName r req, skr_Type = ''reusable'', skr_UsageLimit = 0\<rparr>"

definition rp_secret :: "'w OZRoutingPeerReconciler \<Rightarrow> OZRoutingPeer \<Rightarrow> string \<Rightarrow> Secret" where
  "rp_secret r ozrp key =
     \<lparr>sec_Meta = zero_ObjectMeta\<lparr>om_Name := om_Name (orp_Meta ozrp), om_Namespace := om_Namespace (orp_Meta ozrp),
        om_OwnerReferences := [rp_owner_ref ozrp], om_Labels := rp_DefaultLabels r\<rparr>,
      sec_Data = None, sec_StringData = Some [(SecretKeySetupKey, key)]\<rparr>"

text \<open>\<open>handleSetupKey\<close>, the branch without a recorded key: create key and secret.\<close>

definition create_setup_key ::
  "'w OZRoutingPeerReconciler \<Rightarrow> nn \<Rightarrow> OZRoutingPeer \<Rightarrow> string \<Rightarrow> ('w, OZRoutingPeer \<times> Result option \<times> goerr option) go" where
  "create_setup_key r req ozrp groupID = do {
     cr \<leftarrow> o_create (SetupKeys (rp_OpenZro r)) (rp_setup_key_request r req ozrp groupID);
     (case cr of
        Inl err \<Rightarrow> do {
          x \<leftarrow> rp_condition r ''APIError'' (''error creating setup key: '' @ error_text err) ozrp;
          State_Monad.return (x, Some zero_Result, Some err) }
      | Inr setupKey \<Rightarrow> do {
          let x1 = set_rp_status (\<lambda>s. s\<lparr>orp_SetupKeyID := Some (ask_Id setupKey)\<rparr>) ozrp;
          sr \<leftarrow> k_create (Secrets (rp_Client r)) (rp_secret r ozrp (ask_Key setupKey));
          er \<leftarrow> (case sr of
            Inr _ \<Rightarrow> State_Monad.return (Inr None)
          | Inl err \<Rightarrow>
              if \<not> k_IsAlreadyExists err then State_Monad.return (Inr (Some err))
              else do {
                gr \<leftarrow> k_get (Secrets (rp_Client r)) req;
                (case gr of
                   Inl e \<Rightarrow> State_Monad.return (Inl e)
                 | Inr skSecret \<Rightarrow> do {
                     ur \<leftarrow> k_update (Secrets (rp_Client r))
                            (skSecret\<lparr>sec_Data := Some [(SecretKeySetupKey, ask_Key setupKey)]\<rparr>);
                     State_Monad.return (Inr (err_of ur)) }) });
          (case er of
             Inl e \<Rightarrow> State_Monad.return (x1, Some zero_Result, Some e)
           | Inr (Some err) \<Rightarrow> do {
               x \<leftarrow> rp_condition r ''internalError'' (''error creating secret: '' @ error_text err) x1;
               State_Monad.return (x, Some zero_Result, Some err) }
           | Inr None \<Rightarrow> State_Monad.return (x1, None, None)) })
   }"

text \<open>Someone deleted the secret: revoke the key and start again.\<close>

definition regenerate ::
  "'w OZRoutingPeerReconciler \<Rightarrow> OZRoutingPeer \<Rightarrow> string \<Rightarrow> ('w, OZRoutingPeer \<times> Result option \<times> goerr option) go" where
  "regenerate r ozrp i = do {
     de \<leftarrow> o_delete (SetupKeys (rp_OpenZro r)) i;
     (case de of
        Some err \<Rightarrow> do {
          x \<leftarrow> rp_condition r ''APIError'' (''error deleting setup key: '' @ error_text err) ozrp;
          State_Monad.return (x, Some zero_Result, Some err) }
      | None \<Rightarrow> do {
          x \<leftarrow> rp_condition r ''Gone'' ''generated secret was deleted'' (set_rp_status (\<lambda>s. s\<lparr>orp_SetupKeyID := None\<rparr>) ozrp);
          State_Monad.return (x, Some requeue_now, None) })
   }"

text \<open>\<open>handleSetupKey\<close>, the branch with a recorded key: check that key and secret are still valid.\<close>

definition check_setup_key ::
  "'w OZRoutingPeerReconciler \<Rightarrow> nn \<Rightarrow> OZRoutingPeer \<Rightarrow> string \<Rightarrow> ('w, OZRoutingPeer \<times> Result option \<times> goerr option) go" where
  "check_setup_key r req ozrp i = do {
     gr \<leftarrow> o_get (SetupKeys (rp_OpenZro r)) i;
     let forget = set_rp_status (\<lambda>s. s\<lparr>orp_SetupKeyID := None\<rparr>) ozrp;
     (case gr of
        Inl err \<Rightarrow>
          if \<not> str_contains (error_text err) ''not found''
          then do {
            x \<leftarrow> rp_condition r ''APIError'' (''error getting setup key: '' @ error_text err) ozrp;
            State_Monad.return (x, Some zero_Result, Some err) }
          else State_Monad.return (forget, Some requeue_now, None)
      | Inr setupKey \<Rightarrow>
          if ask_Revoked setupKey
          then do {
            de \<leftarrow> o_delete (SetupKeys (rp_OpenZro r)) i;
            (case de of
               Some err \<Rightarrow> do {
                 x \<leftarrow> rp_condition r ''APIError'' (''error deleting setup key: '' @ error_text err) ozrp;
                 State_Monad.return (x, Some zero_Result, Some err) }
             | None \<Rightarrow> State_Monad.return (forget, Some requeue_now, None)) }
          else do {
            sr \<leftarrow> k_get (Secrets (rp_Client r)) req;
            (case sr of
               Inl err \<Rightarrow>
                 if \<not> k_IsNotFound err
                 then do {
                   x \<leftarrow> rp_condition r ''internalError'' (''error getting secret: '' @ error_text err) ozrp;
                   State_Monad.return (x, Some zero_Result, Some err) }
                 else regenerate r ozrp i
             | Inr skSecret \<Rightarrow>
                 if gm_get (sec_Data skSecret) SecretKeySetupKey = None then regenerate r ozrp i
                 else State_Monad.return (ozrp, None, None)) })
   }"

definition handleSetupKey ::
  "'w OZRoutingPeerReconciler \<Rightarrow> nn \<Rightarrow> OZRoutingPeer \<Rightarrow> OZGroup \<Rightarrow>
     ('w, (OZRoutingPeer \<times> Result option \<times> goerr option) outcome) go" where
  "handleSetupKey r req ozrp nbGroup =
     (case orp_SetupKeyID (orp_Status ozrp) of
        None \<Rightarrow> (case ozg_GroupID (ozg_Status nbGroup) of
          None \<Rightarrow> State_Monad.return (Panicked nil_deref)
        | Some groupID \<Rightarrow> do { x \<leftarrow> create_setup_key r req ozrp groupID; State_Monad.return (Returned x) })
      | Some i \<Rightarrow> do { x \<leftarrow> check_setup_key r req ozrp i; State_Monad.return (Returned x) })"

definition rp_new_group :: "'w OZRoutingPeerReconciler \<Rightarrow> nn \<Rightarrow> OZRoutingPeer \<Rightarrow> OZGroup" where
  "rp_new_group r req ozrp =
     \<lparr>ozg_Meta = zero_ObjectMeta\<lparr>om_Name := om_Name (orp_Meta ozrp), om_Namespace := om_Namespace (orp_Meta ozrp),
        om_OwnerReferences := [rp_owner_ref ozrp],
        om_Finalizers := [FinalizerGroupCleanup, FinalizerRoutingPeerCleanup], om_Labels := rp_DefaultLabels r\<rparr>,
      ozg_Spec = \<lparr>ozg_Name = networkName r req\<rparr>, ozg_Status = \<lparr>ozg_GroupID = None, ozg_Conditions = []\<rparr>\<rparr>"

text \<open>\<open>handleGroup\<close>: \<open>Inl\<close> is a nil group with the result and error to return, \<open>Inr\<close> the group.\<close>

definition handleGroup ::
  "'w OZRoutingPeerReconciler \<Rightarrow> nn \<Rightarrow> OZRoutingPeer \<Rightarrow>
     ('w, OZRoutingPeer \<times> ((Result \<times> goerr option) + OZGroup)) go" where
  "handleGroup r req ozrp = do {
     gr \<leftarrow> k_get (OZGroups (rp_Client r)) req;
     (case gr of
        Inl err \<Rightarrow>
          if \<not> k_IsNotFound err
          then do {
            x \<leftarrow> rp_condition r ''internalError'' (''error getting OZGroup: '' @ error_text err) ozrp;
            State_Monad.return (x, Inl (zero_Result, Some err)) }
          else do {
            cr \<leftarrow> k_create (OZGroups (rp_Client r)) (rp_new_group r req ozrp);
            (case cr of
               Inl e \<Rightarrow> do {
                 x \<leftarrow> rp_condition r ''internalError'' (''error creating OZGroup: '' @ error_text e) ozrp;
                 State_Monad.return (x, Inl (zero_Result, Some e)) }
             | Inr _ \<Rightarrow> State_Monad.return (ozrp, Inl (requeue_after (5 * Second), None))) }
      | Inr nbGroup \<Rightarrow> State_Monad.return (ozrp,
          if ozg_GroupID (ozg_Status nbGroup) = None then Inl (requeue_after (10 * Second), None) else Inr nbGroup))
   }"

definition set_NetworkID :: "string \<Rightarrow> OZRoutingPeer \<Rightarrow> OZRoutingPeer" where
  "set_NetworkID i = set_rp_status (\<lambda>s. s\<lparr>orp_NetworkID := Some i\<rparr>)"

definition handleNetwork ::
  "'w OZRoutingPeerReconciler \<Rightarrow> nn \<Rightarrow> OZRoutingPeer \<Rightarrow> ('w, OZRoutingPeer \<times> goerr option) go" where
  "handleNetwork r req ozrp =
     (if orp_NetworkID (orp_Status ozrp) \<noteq> None then State_Monad.return (ozrp, None)
      else do {
        lr \<leftarrow> o_list (Networks (rp_OpenZro r));
        (case lr of
           Inl err \<Rightarrow> do {
             x \<leftarrow> rp_condition r ''APIError'' (''error listing networks: '' @ error_text err) ozrp;
             State_Monad.return (x, Some err) }
         | Inr networks \<Rightarrow>
             (case find_last (\<lambda>n. an_Name n = networkName r req) networks of
                Some network \<Rightarrow> State_Monad.return (set_NetworkID (an_Id network) ozrp, None)
              | None \<Rightarrow> do {
                  cr \<leftarrow> o_create (Networks (rp_OpenZro r))
                         \<lparr>nwr_Name = networkName r req, nwr_Description = Some networkDescription\<rparr>;
                  (case cr of
                     Inl err \<Rightarrow> do {
                       x \<leftarrow> rp_condition r ''APIError'' (''error creating network: '' @ error_text err) ozrp;
                       State_Monad.return (x, Some err) }
                   | Inr network \<Rightarrow> State_Monad.return (set_NetworkID (an_Id network) ozrp, None)) })) })"

text \<open>The steps of \<open>handleDelete\<close>, in the order of the source.\<close>

definition delete_deployment :: "'w OZRoutingPeerReconciler \<Rightarrow> nn \<Rightarrow> ('w, goerr option) go" where
  "delete_deployment r req = do {
     gr \<leftarrow> k_get (Deployments (rp_Client r)) req;
     (case gr of
        Inl err \<Rightarrow> State_Monad.return (if k_IsNotFound err then None else Some err)
      | Inr d \<Rightarrow> k_delete (Deployments (rp_Client r)) d)
   }"

definition delete_setup_key :: "'w OZRoutingPeerReconciler \<Rightarrow> OZRoutingPeer \<Rightarrow> ('w, OZRoutingPeer \<times> goerr option) go" where
  "delete_setup_key r ozrp =
     (case orp_SetupKeyID (orp_Status ozrp) of
        None \<Rightarrow> State_Monad.return (ozrp, None)
      | Some i \<Rightarrow> do {
          de \<leftarrow> o_delete (SetupKeys (rp_OpenZro r)) i;
          State_Monad.return (case de of
            Some e \<Rightarrow> if \<not> str_contains (error_text e) ''not found'' then (ozrp, Some e)
                      else (set_rp_status (\<lambda>s. s\<lparr>orp_SetupKeyID := None\<rparr>) ozrp, None)
          | None \<Rightarrow> (set_rp_status (\<lambda>s. s\<lparr>orp_SetupKeyID := None\<rparr>) ozrp, None)) })"

definition forget_network :: "OZRoutingPeer \<Rightarrow> OZRoutingPeer" where
  "forget_network = set_rp_status (\<lambda>s. s\<lparr>orp_NetworkID := None, orp_RouterID := None\<rparr>)"

definition delete_resources :: "'w OZRoutingPeerReconciler \<Rightarrow> string \<Rightarrow> OZResource list \<Rightarrow> ('w, goerr option) go" where
  "delete_resources r networkID items = do {
     l \<leftarrow> for_each items () (\<lambda>ozrs _.
       if ozr_NetworkID (ozr_Spec ozrs) = networkID
       then do { de \<leftarrow> k_delete (OZResources (rp_Client r)) ozrs;
                 State_Monad.return (case de of Some e \<Rightarrow> Inl e | None \<Rightarrow> Inr ()) }
       else State_Monad.return (Inr ()));
     State_Monad.return (case l of Inl e \<Rightarrow> Some e | Inr _ \<Rightarrow> None)
   }"

definition delete_network :: "'w OZRoutingPeerReconciler \<Rightarrow> OZRoutingPeer \<Rightarrow> ('w, OZRoutingPeer \<times> goerr option) go" where
  "delete_network r ozrp =
     (case orp_NetworkID (orp_Status ozrp) of
        None \<Rightarrow> State_Monad.return (ozrp, None)
      | Some networkID \<Rightarrow> do {
          lr \<leftarrow> k_list (OZResources (rp_Client r)) None;
          (case lr of
             Inl err \<Rightarrow> State_Monad.return (ozrp, Some err)
           | Inr items \<Rightarrow> do {
               e1 \<leftarrow> delete_resources r networkID items;
               (case e1 of
                  Some e \<Rightarrow> State_Monad.return (ozrp, Some e)
                | None \<Rightarrow>
                    if items = []
                    then do {
                      de \<leftarrow> o_delete (Networks (rp_OpenZro r)) networkID;
                      State_Monad.return (case de of
                        Some e \<Rightarrow> if \<not> str_contains (error_text e) ''not found'' then (ozrp, Some e)
                                  else (forget_network ozrp, None)
                      | None \<Rightarrow> (forget_network ozrp, None)) }
                    else State_Monad.return (ozrp, None)) }) })"

text \<open>The group read on deletion (\<open>None\<close> is the zero value): drop the finalizer; \<open>Inr\<close> is the group as it is then.\<close>

definition release_rp_group :: "'w OZRoutingPeerReconciler \<Rightarrow> OZGroup option \<Rightarrow> ('w, goerr + OZGroup option) go" where
  "release_rp_group r nbGroup =
     (case nbGroup of
        None \<Rightarrow> State_Monad.return (Inr None)
      | Some g \<Rightarrow>
          if ozg_Name (ozg_Spec g) \<noteq> '''' \<and> FinalizerRoutingPeerCleanup \<in> set (om_Finalizers (ozg_Meta g))
          then do {
            ur \<leftarrow> k_update (OZGroups (rp_Client r)) (g\<lparr>ozg_Meta := (ozg_Meta g)\<lparr>om_Finalizers :=
                   Without (om_Finalizers (ozg_Meta g)) FinalizerRoutingPeerCleanup\<rparr>\<rparr>);
            State_Monad.return (map_sum id Some ur) }
          else State_Monad.return (Inr (Some g)))"

definition drop_exemption :: "'w OZRoutingPeerReconciler \<Rightarrow> OZGroup option \<Rightarrow> ('w, goerr option) go" where
  "drop_exemption r nbGroup =
     (case Option.bind nbGroup (\<lambda>g. ozg_GroupID (ozg_Status g)) of
        None \<Rightarrow> State_Monad.return None
      | Some groupID \<Rightarrow> removeAdmissionExempt r groupID)"

definition release_peer :: "'w OZRoutingPeerReconciler \<Rightarrow> OZRoutingPeer \<Rightarrow> ('w, OZRoutingPeer \<times> Result \<times> goerr option) go" where
  "release_peer r ozrp =
     (if orp_NetworkID (orp_Status ozrp) \<noteq> None then State_Monad.return (ozrp, requeue_after (5 * Second), None)
      else if om_Finalizers (orp_Meta ozrp) = [] then State_Monad.return (ozrp, zero_Result, None)
      else do {
        let x = ozrp\<lparr>orp_Meta := (orp_Meta ozrp)\<lparr>om_Finalizers := []\<rparr>\<rparr>;
        ur \<leftarrow> k_update (OZRoutingPeers (rp_Client r)) x;
        State_Monad.return (case ur of Inl e \<Rightarrow> (x, zero_Result, Some e) | Inr stored \<Rightarrow> (stored, zero_Result, None)) })"

text \<open>From the network on.\<close>

definition finish_delete ::
  "'w OZRoutingPeerReconciler \<Rightarrow> OZRoutingPeer \<Rightarrow> OZGroup option \<Rightarrow> ('w, OZRoutingPeer \<times> Result \<times> goerr option) go" where
  "finish_delete r ozrp nbGroup = do {
     (x, e1) \<leftarrow> delete_network r ozrp;
     (case e1 of
        Some e \<Rightarrow> State_Monad.return (x, zero_Result, Some e)
      | None \<Rightarrow> do {
          gr \<leftarrow> release_rp_group r nbGroup;
          (case gr of
             Inl e \<Rightarrow> State_Monad.return (x, zero_Result, Some e)
           | Inr g \<Rightarrow> do {
               e3 \<leftarrow> drop_exemption r g;
               (case e3 of
                  Some e \<Rightarrow> State_Monad.return (x, zero_Result, Some e)
                | None \<Rightarrow> release_peer r x) }) })
   }"

definition OZRoutingPeer_handleDelete ::
  "'w OZRoutingPeerReconciler \<Rightarrow> nn \<Rightarrow> OZRoutingPeer \<Rightarrow> ('w, OZRoutingPeer \<times> Result \<times> goerr option) go" where
  "OZRoutingPeer_handleDelete r req ozrp = do {
     e1 \<leftarrow> delete_deployment r req;
     (case e1 of
        Some e \<Rightarrow> State_Monad.return (ozrp, zero_Result, Some e)
      | None \<Rightarrow> do {
          (x1, e2) \<leftarrow> delete_setup_key r ozrp;
          (case e2 of
             Some e \<Rightarrow> State_Monad.return (x1, zero_Result, Some e)
           | None \<Rightarrow> do {
               gr \<leftarrow> k_get (OZGroups (rp_Client r)) req;
               (case gr of
                  Inl err \<Rightarrow>
                    if \<not> k_IsNotFound err then State_Monad.return (x1, zero_Result, Some err)
                    else finish_delete r x1 None
                | Inr nbGroup \<Rightarrow> finish_delete r x1 (Some nbGroup)) }) })
   }"

text \<open>The deferred function of \<open>Reconcile\<close>: the error of the status update replaces the handler's.\<close>

definition ozroutingpeer_finish ::
  "'w OZRoutingPeerReconciler \<Rightarrow> OZRoutingPeer \<Rightarrow> OZRoutingPeer \<Rightarrow> Result \<Rightarrow> goerr option \<Rightarrow> ('w, Result \<times> goerr option) go" where
  "ozroutingpeer_finish r originalNBRP ozrp res err =
     (if om_DeletionTimestamp (orp_Meta originalNBRP) \<noteq> None \<and> om_Finalizers (orp_Meta ozrp) = []
      then State_Monad.return (res, err)
      else do {
        err' \<leftarrow> (if \<not> OZRoutingPeerStatus_Equal (orp_Status originalNBRP) (orp_Status ozrp)
                then do { ur \<leftarrow> k_status_update (OZRoutingPeers (rp_Client r)) ozrp; State_Monad.return (err_of ur) }
                else State_Monad.return err);
        State_Monad.return (case err' of
          Some e \<Rightarrow> (zero_Result, Some e)
        | None \<Rightarrow> (if \<not> res_Requeue res \<and> res_RequeueAfter res = 0
                  then res\<lparr>res_RequeueAfter := defaultRequeueAfter\<rparr> else res, None)) })"

text \<open>
  The body of \<open>Reconcile\<close> for an object that is not being deleted: the default labels afterwards,
  and \<open>Inl\<close> a panic with the object at that moment (no error has been assigned then) or \<open>Inr\<close> what is
  returned.
\<close>

definition ozroutingpeer_sync ::
  "'w OZRoutingPeerReconciler \<Rightarrow> (Deployment \<Rightarrow> Deployment \<Rightarrow> bool) \<Rightarrow> nn \<Rightarrow> OZRoutingPeer \<Rightarrow>
     ('w, gomap \<times> ((string \<times> OZRoutingPeer) + (OZRoutingPeer \<times> Result \<times> goerr option))) go" where
  "ozroutingpeer_sync r patchEmpty req ozrp = do {
     (x1, e1) \<leftarrow> handleNetwork r req ozrp;
     (case e1 of
        Some e \<Rightarrow> State_Monad.return (rp_DefaultLabels r, Inr (x1, zero_Result, Some e))
      | None \<Rightarrow> do {
          (x2, gr) \<leftarrow> handleGroup r req x1;
          (case gr of
             Inl (res, err) \<Rightarrow> State_Monad.return (rp_DefaultLabels r, Inr (x2, res, err))
           | Inr nbGroup \<Rightarrow> do {
               sk \<leftarrow> handleSetupKey r req x2 nbGroup;
               (case sk of
                  Panicked m \<Rightarrow> State_Monad.return (rp_DefaultLabels r, Inl (m, x2))
                | Returned (x3, Some res, err) \<Rightarrow> State_Monad.return (rp_DefaultLabels r, Inr (x3, res, err))
                | Returned (x3, None, _) \<Rightarrow> do {
                    rt \<leftarrow> handleRouter r x3 nbGroup;
                    (case rt of
                       Panicked m \<Rightarrow> State_Monad.return (rp_DefaultLabels r, Inl (m, x3))
                     | Returned (x4, Some e) \<Rightarrow> State_Monad.return (rp_DefaultLabels r, Inr (x4, zero_Result, Some e))
                     | Returned (x4, None) \<Rightarrow> do {
                         ae \<leftarrow> handleAdmissionExempt r x4 nbGroup;
                         (case ae of
                            Some e \<Rightarrow> State_Monad.return (rp_DefaultLabels r, Inr (x4, zero_Result, Some e))
                          | None \<Rightarrow> do {
                              (labels, dp) \<leftarrow> handleDeployment r patchEmpty req x4;
                              (case dp of
                                 Panicked m \<Rightarrow> State_Monad.return (labels, Inl (m, x4))
                               | Returned (x5, Some e) \<Rightarrow> State_Monad.return (labels, Inr (x5, zero_Result, Some e))
                               | Returned (x5, None) \<Rightarrow> do {
                                   cs \<leftarrow> condition_true (rp_Client r);
                                   State_Monad.return (labels,
                                     Inr (set_rp_status (\<lambda>s. s\<lparr>orp_Conditions := cs\<rparr>) x5, zero_Result, None)) }) }) }) }) }) })
   }"

text \<open>\<open>Reconcile\<close>, with the default labels as they are afterwards.\<close>

definition OZRoutingPeer_Reconcile ::
  "'w OZRoutingPeerReconciler \<Rightarrow> (Deployment \<Rightarrow> Deployment \<Rightarrow> bool) \<Rightarrow> nn \<Rightarrow>
     ('w, gomap \<times> (Result \<times> goerr option) outcome) go" where
  "OZRoutingPeer_Reconcile r patchEmpty req = do {
     gr \<leftarrow> k_get (OZRoutingPeers (rp_Client r)) req;
     (case gr of
        Inl err \<Rightarrow> State_Monad.return (rp_DefaultLabels r, Returned (requeue_after defaultRequeueAfter, None))
      | Inr ozrp \<Rightarrow> do {
          (labels, out) \<leftarrow>
            (if om_DeletionTimestamp (orp_Meta ozrp) \<noteq> None
             then (if om_Finalizers (orp_Meta ozrp) = []
                   then State_Monad.return (rp_DefaultLabels r, Inr (ozrp, zero_Result, None))
                   else do { x \<leftarrow> OZRoutingPeer_handleDelete r req ozrp; State_Monad.return (rp_DefaultLabels r, Inr x) })
             else ozroutingpeer_sync r patchEmpty req ozrp);
          (case out of
             Inl (m, x) \<Rightarrow> do {
               _ \<leftarrow> ozroutingpeer_finish r ozrp x zero_Result None;
               State_Monad.return (labels, Panicked m) }
           | Inr (x, res, err) \<Rightarrow> do {
               ret \<leftarrow> ozroutingpeer_finish r ozrp x res err;
               State_Monad.return (labels, Returned ret) }) })
   }"

section \<open>Admission exemptions\<close>

lemma exempt_groups_spec:
  "exempt_groups exempt i current = Some desired \<Longrightarrow>
     (i \<in> set desired \<longleftrightarrow> exempt) \<and> filter (\<lambda>g. g \<noteq> i) desired = filter (\<lambda>g. g \<noteq> i) current \<and>
     exempt_groups exempt i desired = None"
  by (auto simp: exempt_groups_def split: if_splits)

lemma exempt_groups_None: "exempt_groups exempt i current = None \<longleftrightarrow> (i \<in> set current \<longleftrightarrow> exempt)"
  by (auto simp: exempt_groups_def)

text \<open>The account update that brings the exemption of group \<open>i\<close> to the wanted value and keeps everything else.\<close>

definition exemption_update :: "bool \<Rightarrow> string \<Rightarrow> Account \<Rightarrow> AccountSettings \<Rightarrow> bool" where
  "exemption_update exempt i a q = (\<exists>desired. as_AdmissionExemptGroups q = Some desired \<and>
     as_Other q = as_Other (ac_Settings a) \<and> (i \<in> set desired \<longleftrightarrow> exempt) \<and>
     filter (\<lambda>g. g \<noteq> i) desired = filter (\<lambda>g. g \<noteq> i) (current_exempt a))"

definition exempt_wanted :: "OZRoutingPeer \<Rightarrow> bool" where
  "exempt_wanted x = (case orp_ExemptFromAdmission (orp_Spec x) of None \<Rightarrow> True | Some b \<Rightarrow> b)"

text \<open>The account, the first of the listing, already has the wanted value or was updated to it.\<close>

definition exemption_done :: "bool \<Rightarrow> string \<Rightarrow> event list \<Rightarrow> bool" where
  "exemption_done exempt i evs = (\<exists>as. OList CAccounts (Inr (map RAccount as)) \<in> set evs \<and> (case as of
     [] \<Rightarrow> True
   | a # _ \<Rightarrow> if (i \<in> set (current_exempt a)) = exempt then \<forall>j q ans. OUpdate CAccounts j q ans \<notin> set evs
              else \<exists>q ans. OUpdate CAccounts (ac_Id a) (QAccount q) (Inr ans) \<in> set evs \<and> exemption_update exempt i a q))"

lemma handleAdmissionExempt_spec:
  assumes "ozg_GroupID (ozg_Status g) = Some i"
  shows "emits (handleAdmissionExempt r x g) (\<lambda>err evs. err = None \<longrightarrow> exemption_done (exempt_wanted x) i evs)"
proof -
  have empty: "exemption_done b i [OList CAccounts (Inr [])]" for b
    unfolding exemption_done_def by (rule exI [of _ "[]"]) simp
  have same: "exemption_done b i [OList CAccounts (Inr (RAccount a # map RAccount as))]"
    if "exempt_groups b i (current_exempt a) = None" for b a as
    unfolding exemption_done_def using that by (intro exI [of _ "a # as"]) (simp add: exempt_groups_None)
  have upd: "exemption_done b i [OList CAccounts (Inr (RAccount a # map RAccount as)),
      OUpdate CAccounts (ac_Id a) (QAccount ((ac_Settings a)\<lparr>as_AdmissionExemptGroups := Some desired\<rparr>)) (Inr ans)]"
    if "exempt_groups b i (current_exempt a) = Some desired" for b a as desired ans
  proof -
    have "exempt_groups b i (current_exempt a) \<noteq> None" using that by simp
    then have "(i \<in> set (current_exempt a)) \<noteq> b" by (auto simp: exempt_groups_None)
    with exempt_groups_spec [OF that] show ?thesis
      unfolding exemption_done_def
      by (intro exI [of _ "a # as"]) (auto simp: exemption_update_def)
  qed
  show ?thesis
    using assms unfolding handleAdmissionExempt_def call_defs exempt_wanted_def [symmetric]
    by (auto intro!: emits_intros simp: empty same upd err_of_None split: sum.split list.split option.split)
qed

section \<open>Setup keys and routers\<close>

definition key_ready :: "'w OZRoutingPeerReconciler \<Rightarrow> nn \<Rightarrow> OZRoutingPeer \<Rightarrow> OZGroup \<Rightarrow> OZRoutingPeer \<Rightarrow> event list \<Rightarrow> bool" where
  "key_ready r req x g x' evs = (case orp_SetupKeyID (orp_Status x) of
     None \<Rightarrow> \<exists>i k. ozg_GroupID (ozg_Status g) = Some i \<and>
       OCreate CSetupKeys (QSetupKey (rp_setup_key_request r req x i)) (Inr (RSetupKey k)) \<in> set evs \<and>
       orp_SetupKeyID (orp_Status x') = Some (ask_Id k) \<and>
       (ECreate (KSecret (rp_secret r x (ask_Key k))) None \<in> set evs \<or>
        (\<exists>s. EUpdate (KSecret s) None \<in> set evs \<and> gm_get (sec_Data s) SecretKeySetupKey = Some (ask_Key k)))
   | Some i \<Rightarrow> x' = x \<and> (\<exists>k s. OGet CSetupKeys i (Inr (RSetupKey k)) \<in> set evs \<and> \<not> ask_Revoked k \<and>
       EGet ''Secret'' req (Inr (KSecret s)) \<in> set evs \<and> gm_get (sec_Data s) SecretKeySetupKey \<noteq> None))"

definition key_outcome ::
  "'w OZRoutingPeerReconciler \<Rightarrow> nn \<Rightarrow> OZRoutingPeer \<Rightarrow> OZGroup \<Rightarrow> OZRoutingPeer \<times> Result option \<times> goerr option \<Rightarrow> event list \<Rightarrow> bool" where
  "key_outcome r req x g y evs = (case y of (x', res, err) \<Rightarrow> res = None \<longrightarrow> err = None \<and> key_ready r req x g x' evs)"

lemma gm_get_single [simp]: "gm_get (Some [(k, v)]) k' = (if k' = k then Some v else None)"
  by (simp add: gm_get_def gm_entries_def)

lemma create_setup_key_spec:
  "orp_SetupKeyID (orp_Status x) = None \<Longrightarrow> ozg_GroupID (ozg_Status g) = Some i \<Longrightarrow>
   emits (create_setup_key r req x i) (key_outcome r req x g)"
  unfolding create_setup_key_def call_defs rp_condition_def
  by (auto intro!: emits_intros simp: key_outcome_def key_ready_def set_rp_status_def err_of_None
      split: sum.split option.split)

lemma check_setup_key_spec:
  "orp_SetupKeyID (orp_Status x) = Some i \<Longrightarrow> emits (check_setup_key r req x i) (key_outcome r req x g)"
  unfolding check_setup_key_def regenerate_def call_defs rp_condition_def
  by (auto intro!: emits_intros simp: key_outcome_def key_ready_def set_rp_status_def split: sum.split option.split)

text \<open>A router of the listing is recorded; a recorded one agrees with the request or was updated with it.\<close>

definition router_ready :: "OZRoutingPeer \<Rightarrow> OZGroup \<Rightarrow> OZRoutingPeer \<Rightarrow> event list \<Rightarrow> bool" where
  "router_ready x g x' evs = (\<exists>n as. orp_NetworkID (orp_Status x) = Some n \<and>
     OList (CRouters n) (Inr (map RRouter as)) \<in> set evs \<and> (case as of
       [] \<Rightarrow> \<exists>i a. ozg_GroupID (ozg_Status g) = Some i \<and>
         OCreate (CRouters n) (QRouter (router_request i)) (Inr (RRouter a)) \<in> set evs \<and>
         orp_RouterID (orp_Status x') = Some (ar_Id a)
     | a # _ \<Rightarrow> if orp_RouterID (orp_Status x) = None then orp_RouterID (orp_Status x') = Some (ar_Id a)
         else x' = x \<and> (\<exists>i. ozg_GroupID (ozg_Status g) = Some i \<and>
           ((ar_Enabled a \<and> ar_Masquerade a \<and> ar_Metric a = 9999 \<and> ar_PeerGroups a = Some [i]) \<or>
            (\<exists>ans. OUpdate (CRouters n) (ar_Id a) (QRouter (router_request i)) (Inr ans) \<in> set evs)))))"

lemma router_differs_False:
  "router_differs a i = Some False \<longleftrightarrow> ar_Enabled a \<and> ar_Masquerade a \<and> ar_Metric a = 9999 \<and>
     (\<exists>g. ar_PeerGroups a = Some [g] \<and> i = Some g)"
  by (auto simp: router_differs_def split: option.splits list.splits)

lemma handleRouter_spec:
  "emits (handleRouter r x g) (\<lambda>out evs. case out of
     Returned (x', err) \<Rightarrow> err = None \<longrightarrow> router_ready x g x' evs | Panicked _ \<Rightarrow> True)"
proof -
  have step: "router_ready x g x' (OList (CRouters n) (Inr (map RRouter as)) # evs)"
    if "orp_NetworkID (orp_Status x) = Some n" "(case as of
       [] \<Rightarrow> \<exists>i a. ozg_GroupID (ozg_Status g) = Some i \<and>
         OCreate (CRouters n) (QRouter (router_request i)) (Inr (RRouter a)) \<in> set evs \<and>
         orp_RouterID (orp_Status x') = Some (ar_Id a)
     | a # _ \<Rightarrow> if orp_RouterID (orp_Status x) = None then orp_RouterID (orp_Status x') = Some (ar_Id a)
         else x' = x \<and> (\<exists>i. ozg_GroupID (ozg_Status g) = Some i \<and>
           ((ar_Enabled a \<and> ar_Masquerade a \<and> ar_Metric a = 9999 \<and> ar_PeerGroups a = Some [i]) \<or>
            (\<exists>ans. OUpdate (CRouters n) (ar_Id a) (QRouter (router_request i)) (Inr ans) \<in> set evs))))" for n x' as evs
    unfolding router_ready_def
    by (intro exI [of _ n] exI [of _ as] conjI that(1)) (use that(2) in \<open>auto split: list.splits\<close>)
  note steps = step [where as = "[]", simplified] step [where as = "a # as" for a as, simplified]
  show ?thesis
    unfolding handleRouter_def call_defs rp_condition_def
    by (auto intro!: emits_intros steps simp: set_rp_status_def router_differs_False split: sum.split list.split option.split bool.split)
qed

section \<open>Deletion\<close>

definition key_gone :: "OZRoutingPeer \<Rightarrow> event list \<Rightarrow> bool" where
  "key_gone x evs = (case orp_SetupKeyID (orp_Status x) of None \<Rightarrow> True
     | Some i \<Rightarrow> \<exists>de. ODelete CSetupKeys i de \<in> set evs \<and> upstream_gone de)"

definition network_gone :: "OZRoutingPeer \<Rightarrow> event list \<Rightarrow> bool" where
  "network_gone x evs = (case orp_NetworkID (orp_Status x) of None \<Rightarrow> True
     | Some n \<Rightarrow> EList ''OZResource'' (Inr []) \<in> set evs \<and> (\<exists>de. ODelete CNetworks n de \<in> set evs \<and> upstream_gone de))"

lemma gone_append [simp]:
  "key_gone x e1 \<Longrightarrow> key_gone x (e1 @ e2)" "key_gone x e2 \<Longrightarrow> key_gone x (e1 @ e2)"
  "network_gone x e1 \<Longrightarrow> network_gone x (e1 @ e2)" "network_gone x e2 \<Longrightarrow> network_gone x (e1 @ e2)"
  "network_gone x e2 \<Longrightarrow> network_gone x (ev # e2)" "key_gone x e2 \<Longrightarrow> key_gone x (ev # e2)"
  by (auto simp: key_gone_def network_gone_def split: option.splits)

definition released_peer :: "OZRoutingPeer \<Rightarrow> kobj \<Rightarrow> bool" where
  "released_peer x o' = (case o' of
     KOZRoutingPeer y \<Rightarrow> orp_Spec y = orp_Spec x \<and> orp_Meta y = (orp_Meta x)\<lparr>om_Finalizers := []\<rparr>
   | _ \<Rightarrow> False)"

definition same_peer :: "OZRoutingPeer \<Rightarrow> OZRoutingPeer \<Rightarrow> bool" where
  "same_peer x y = (orp_Spec y = orp_Spec x \<and> orp_Meta y = orp_Meta x)"

lemma delete_deployment_spec: "emits (delete_deployment r req) (\<lambda>_ evs. \<forall>P. updates_only P evs)"
  unfolding delete_deployment_def call_defs by (auto intro!: emits_intros split: sum.split)

lemma delete_setup_key_spec:
  "emits (delete_setup_key r x) (\<lambda>(x', err) evs. (\<forall>P. updates_only P evs) \<and> same_peer x x' \<and>
     orp_NetworkID (orp_Status x') = orp_NetworkID (orp_Status x) \<and> (err \<noteq> None \<or> key_gone x evs))"
  unfolding delete_setup_key_def call_defs
  by (auto intro!: emits_intros simp: same_peer_def set_rp_status_def key_gone_def split: option.splits if_splits)

lemma delete_resources_spec: "emits (delete_resources r n items) (\<lambda>_ evs. \<forall>P. updates_only P evs)"
proof -
  have "emits (for_each items () (\<lambda>ozrs _.
       if ozr_NetworkID (ozr_Spec ozrs) = n
       then do { de \<leftarrow> k_delete (OZResources (rp_Client r)) ozrs;
                 State_Monad.return (case de of Some e \<Rightarrow> Inl e | None \<Rightarrow> Inr ()) }
       else State_Monad.return (Inr ()))) (\<lambda>l evs. \<forall>P. updates_only P evs)"
    by (rule emits_for_each [where I = "\<lambda>_ evs. \<forall>P. updates_only P evs"])
       (auto intro!: emits_intros simp: call_defs split: option.splits)
  then show ?thesis
    unfolding delete_resources_def by (rule emits_bind) (auto intro!: emits_intros)
qed

lemma delete_network_spec:
  "emits (delete_network r x) (\<lambda>(x', err) evs. (\<forall>P. updates_only P evs) \<and> same_peer x x' \<and>
     (err \<noteq> None \<or> orp_NetworkID (orp_Status x') \<noteq> None \<or> network_gone x evs))"
  unfolding delete_network_def call_defs
  by (auto intro!: emits_intros emits_bind [OF delete_resources_spec]
      simp: same_peer_def network_gone_def forget_network_def set_rp_status_def
      split: sum.splits option.splits if_splits) (metis upstream_gone_simps)+

lemma release_rp_group_spec: "emits (release_rp_group r g) (\<lambda>_ evs. \<forall>Q. updates_only (group_or Q) evs)"
  unfolding release_rp_group_def call_defs by (auto intro!: emits_intros simp: group_or_def split: option.split)

lemma drop_exemption_spec: "emits (drop_exemption r g) (\<lambda>_ evs. \<forall>P. updates_only P evs)"
  unfolding drop_exemption_def removeAdmissionExempt_def call_defs
  by (auto intro!: emits_intros split: option.split sum.split list.split)

lemma release_peer_spec:
  "emits (release_peer r y) (\<lambda>_ evs. (\<forall>P. updates_only P evs) \<or>
     orp_NetworkID (orp_Status y) = None \<and> (\<forall>x. same_peer x y \<longrightarrow> updates_only (group_or (released_peer x)) evs))"
  unfolding release_peer_def call_defs
  by (auto intro!: emits_intros simp: same_peer_def released_peer_def group_or_def)

lemma finish_delete_spec:
  assumes "same_peer x y" "orp_NetworkID (orp_Status y) = orp_NetworkID (orp_Status x)"
  shows "emits (finish_delete r y g) (\<lambda>_ evs. (\<forall>Q. updates_only (group_or Q) evs) \<or>
     network_gone x evs \<and> updates_only (group_or (released_peer x)) evs)"
proof -
  have sp: "same_peer y z \<Longrightarrow> same_peer x z" for z using assms(1) by (simp add: same_peer_def)
  have ng: "network_gone y evs = network_gone x evs" for evs using assms(2) by (simp add: network_gone_def)
  show ?thesis
    unfolding finish_delete_def
    by (auto intro!: emits_intros emits_bind [OF delete_network_spec] emits_bind [OF release_rp_group_spec]
        emits_bind [OF drop_exemption_spec] emits_mono [OF release_peer_spec] simp: ng sp split: option.split sum.split)
qed

lemma handleDelete_spec:
  "emits (OZRoutingPeer_handleDelete r req x) (\<lambda>_ evs.
     updates_only (group_or (\<lambda>o'. released_peer x o' \<and> key_gone x evs \<and> network_gone x evs)) evs)"
  unfolding OZRoutingPeer_handleDelete_def k_get_def OZGroups_def
  by (auto intro!: emits_intros emits_bind [OF delete_deployment_spec] emits_bind [OF delete_setup_key_spec]
      emits_mono [OF finish_delete_spec [where x = x]] split: option.split sum.split)

section \<open>Labels\<close>

lemma fold_gm_put:
  "distinct (map fst xs) \<Longrightarrow> \<exists>al'. fold (\<lambda>(k, v) m. Option.bind m (gm_put k v)) xs (Some (Some al)) = Some (Some al') \<and>
     (\<forall>k. gm_get (Some al') k = (case map_of xs k of Some v \<Rightarrow> Some v | None \<Rightarrow> gm_get (Some al) k))"
proof (induction xs arbitrary: al)
  case (Cons kv xs)
  obtain k v where kv: "kv = (k, v)" by (cases kv)
  obtain al1 where put: "gm_put k v (Some al) = Some (Some al1)" by (simp add: gm_put_def)
  from Cons.prems kv have "distinct (map fst xs)" by simp
  from Cons.IH [OF this, of al1] obtain al' where
    "fold (\<lambda>(k, v) m. Option.bind m (gm_put k v)) xs (Some (Some al1)) = Some (Some al')"
    "\<forall>k. gm_get (Some al') k = (case map_of xs k of Some v \<Rightarrow> Some v | None \<Rightarrow> gm_get (Some al1) k)"
    by blast
  moreover have "map_of xs k = None" using Cons.prems kv by (auto simp: map_of_eq_None_iff)
  ultimately show ?case
    using gm_get_put [OF put] put kv by (auto split: option.splits)
qed auto

lemma deployment_labels_spec:
  assumes "distinct (map fst (gm_entries (orp_Labels (orp_Spec x))))"
  obtains al' where "deployment_labels (Some al) x = Some (Some al')"
    and "\<And>k. gm_get (Some al') k = (if k = LabelAppKubernetesName then Some LabelValueRouter
       else case gm_get (orp_Labels (orp_Spec x)) k of Some v \<Rightarrow> Some v | None \<Rightarrow> gm_get (Some al) k)"
proof -
  from fold_gm_put [OF assms, of al] obtain al1 where
    copy: "maps_copy (Some al) (orp_Labels (orp_Spec x)) = Some (Some al1)" and
    get: "\<forall>k. gm_get (Some al1) k = (case gm_get (orp_Labels (orp_Spec x)) k of Some v \<Rightarrow> Some v | None \<Rightarrow> gm_get (Some al) k)"
    unfolding maps_copy_def gm_get_def by blast
  obtain al2 where put: "gm_put LabelAppKubernetesName LabelValueRouter (Some al1) = Some (Some al2)"
    by (simp add: gm_put_def)
  show thesis
    by (rule that [of al2]) (use copy put gm_get_put [OF put] get in \<open>auto simp: deployment_labels_def\<close>)
qed

section \<open>Claims\<close>

text \<open>
  C13. The setup key of a routing peer: when \<open>handleSetupKey\<close> lets the caller go on, there is a key
  for the peer's group and a secret with it: a new key was created and recorded and its value
  written to the secret, or the recorded key exists, is not revoked and its secret has an entry.
\<close>

theorem routingpeer_setup_key_ready:
  "emits (handleSetupKey r req x g) (\<lambda>out evs. case out of
     Returned (x', res, err) \<Rightarrow> res = None \<longrightarrow> err = None \<and> key_ready r req x g x' evs
   | Panicked m \<Rightarrow> orp_SetupKeyID (orp_Status x) = None \<and> ozg_GroupID (ozg_Status g) = None)"
  unfolding handleSetupKey_def
  by (auto intro!: emits_intros emits_bind [OF create_setup_key_spec [where g = g]] emits_bind [OF check_setup_key_spec [where g = g]]
      simp: key_outcome_def split: option.split)

definition demo_peer :: OZRoutingPeer where
  "demo_peer = \<lparr>orp_Type = zero_TypeMeta, orp_Meta = zero_ObjectMeta\<lparr>om_Name := ''router'', om_Namespace := ''oz'', om_UID := ''u''\<rparr>,
     orp_Spec = zero_OZRoutingPeerSpec, orp_Status = zero_OZRoutingPeerStatus\<rparr>"

definition demo_peer_group :: OZGroup where
  "demo_peer_group = \<lparr>ozg_Meta = zero_ObjectMeta, ozg_Spec = \<lparr>ozg_Name = ''k8s''\<rparr>,
     ozg_Status = \<lparr>ozg_GroupID = Some ''g1'', ozg_Conditions = []\<rparr>\<rparr>"

definition demo_deployment :: Deployment where
  "demo_deployment = \<lparr>dep_Meta = zero_ObjectMeta, dep_Replicas = None, dep_MatchLabels = None,
     dep_Template = \<lparr>pts_Labels = None, pts_NodeSelector = None, pts_Tolerations = [], pts_Containers = [], pts_Volumes = []\<rparr>,
     dep_StatusReplicas = 0, dep_ReadyReplicas = 0\<rparr>"

definition demo_peer_env :: "unit OZRoutingPeerReconciler" where
  "demo_peer_env = \<lparr>rp_Client = down_Client\<lparr>
       c_Secrets := down_kind\<lparr>kc_create := \<lambda>s w. (Inr s, w)\<rparr>,
       c_OZResources := down_kind\<lparr>kc_list := \<lambda>_ w. (Inr [demo_resource None], w)\<rparr>,
       c_OZRoutingPeers := down_kind\<lparr>kc_get := \<lambda>_ w. (Inr demo_peer, w), kc_status_update := \<lambda>x w. (Inr x, w)\<rparr>,
       c_Deployments := down_kind\<lparr>kc_get := \<lambda>_ w. (Inr demo_deployment, w)\<rparr>\<rparr>,
     rp_OpenZro = down_OpenZro\<lparr>
       oz_SetupKeys := down_rest\<lparr>rs_create := \<lambda>q w.
         (Inr \<lparr>ask_Id = ''k1'', ask_AutoGroups = [], ask_Key = ''secret'', ask_Revoked = False, ask_State = ''valid''\<rparr>, w)\<rparr>,
       oz_Routers := \<lambda>n. down_rest\<lparr>rs_list := \<lambda>w. (Inr [\<lparr>ar_Id = ''r1'', ar_Enabled = True, ar_Masquerade = True,
         ar_Metric = 9999, ar_PeerGroups = Some [''g1'']\<rparr>], w)\<rparr>,
       oz_Accounts := down_rest\<lparr>rs_list := \<lambda>w. (Inr [\<lparr>ac_Id = ''a1'', ac_Settings =
           \<lparr>as_AdmissionExemptGroups = Some [''other''], as_Other = ''x''\<rparr>\<rparr>], w),
         rs_update := \<lambda>i q w. (Inr \<lparr>ac_Id = i, ac_Settings = q\<rparr>, w)\<rparr>\<rparr>,
     rp_ClientImage = ''img'', rp_ClusterName = ''k8s'', rp_ManagementURL = ''https://m'', rp_NamespacedNetworks = False,
     rp_DefaultLabels = Some []\<rparr>"

lemmas demo_peer_defs = demo_peer_def demo_peer_group_def demo_peer_env_def call_defs down_defs zero_OZRoutingPeerStatus_def
  zero_OZRoutingPeerSpec_def zero_ObjectMeta_def set_rp_status_def

theorem routingpeer_setup_key_ready_witness:
  "let (x, t) = run_state (handleSetupKey demo_peer_env (''oz'', ''router'') demo_peer demo_peer_group) start
   in case x of
        Returned (x', res, err) \<Rightarrow> res = None \<and> key_ready demo_peer_env (''oz'', ''router'') demo_peer demo_peer_group x' (wlog t)
      | Panicked m \<Rightarrow> False"
proof -
  let ?m = "handleSetupKey demo_peer_env (''oz'', ''router'') demo_peer demo_peer_group"
  obtain x' where "fst (run_state ?m start) = Returned (x', None, None)"
    by (simp add: handleSetupKey_def create_setup_key_def demo_peer_defs Let_def)
  then show ?thesis
    using emits_start [OF routingpeer_setup_key_ready [where r = demo_peer_env and req = "(''oz'', ''router'')" and
      x = demo_peer and g = demo_peer_group]]
    by (simp add: split_beta)
qed

text \<open>
  The network router: when \<open>handleRouter\<close> reports no error, an empty listing led to a created
  and recorded router; an unrecorded first router of the listing was recorded; and a recorded one
  has exactly the wanted settings or was updated with them.
\<close>

theorem routingpeer_router_ready:
  "emits (handleRouter r x g) (\<lambda>out evs. case out of
     Returned (x', err) \<Rightarrow> err = None \<longrightarrow> router_ready x g x' evs | Panicked _ \<Rightarrow> True)"
  by (rule handleRouter_spec)

theorem routingpeer_router_ready_witness:
  "let y = set_NetworkID ''n1'' demo_peer; (x, t) = run_state (handleRouter demo_peer_env y demo_peer_group) start
   in case x of Returned (x', err) \<Rightarrow> err = None \<and> orp_RouterID (orp_Status x') = Some ''r1'' \<and>
        router_ready y demo_peer_group x' (wlog t)
      | Panicked m \<Rightarrow> False"
proof -
  let ?y = "set_NetworkID ''n1'' demo_peer"
  let ?m = "handleRouter demo_peer_env ?y demo_peer_group"
  obtain x' where "fst (run_state ?m start) = Returned (x', None)" "orp_RouterID (orp_Status x') = Some ''r1''"
    by (simp add: handleRouter_def demo_peer_defs set_NetworkID_def Let_def)
  then show ?thesis
    using emits_start [OF routingpeer_router_ready [where r = demo_peer_env and x = ?y and g = demo_peer_group]]
    by (simp add: split_beta Let_def)
qed

text \<open>
  The admission exemption of the peer's group: when \<open>handleAdmissionExempt\<close> reports no error,
  the account is not updated if the group's exemption is already as wanted; otherwise it was
  updated so that it is, with every other exempt group and every other setting preserved.
\<close>

theorem routingpeer_exemption_correct:
  assumes "ozg_GroupID (ozg_Status g) = Some i"
  shows "emits (handleAdmissionExempt r x g) (\<lambda>err evs. err = None \<longrightarrow> exemption_done (exempt_wanted x) i evs)"
  by (rule handleAdmissionExempt_spec [OF assms])

theorem routingpeer_exemption_correct_witness:
  "let (err, t) = run_state (handleAdmissionExempt demo_peer_env demo_peer demo_peer_group) start
   in err = None \<and> exemption_done (exempt_wanted demo_peer) ''g1'' (wlog t)"
proof -
  have "fst (run_state (handleAdmissionExempt demo_peer_env demo_peer demo_peer_group) start) = None"
    by (simp add: handleAdmissionExempt_def demo_peer_defs exempt_groups_def current_exempt_def)
  moreover have "emits (handleAdmissionExempt demo_peer_env demo_peer demo_peer_group)
      (\<lambda>err evs. err = None \<longrightarrow> exemption_done (exempt_wanted demo_peer) ''g1'' evs)"
    by (rule routingpeer_exemption_correct) (simp add: demo_peer_group_def)
  ultimately show ?thesis by (auto dest!: emits_start simp: split_beta)
qed


text \<open>
  Errors are swallowed: the deferred function assigns the error of the status update to the
  returned error. When listing the networks fails for a new peer and the status (with the
  \<open>APIError\<close> condition) is then stored, \<open>Reconcile\<close> returns no error and asks for the next run
  only after the default interval.
\<close>

theorem routingpeer_error_swallowed:
  assumes "kc_get (c_OZRoutingPeers (rp_Client r)) req (wenv s) = (Inr x, w1)"
    and "om_DeletionTimestamp (orp_Meta x) = None" "orp_Status x = zero_OZRoutingPeerStatus"
    and "rs_list (oz_Networks (rp_OpenZro r)) w1 = (Inl e, w2)"
    and "clock (rp_Client r) w2 = (t1, w3)" "clock (rp_Client r) w3 = (t2, w4)"
    and "kc_status_update (c_OZRoutingPeers (rp_Client r)) (set_rp_status (\<lambda>s. s\<lparr>orp_Conditions :=
           OZConditionFalse t1 t2 ''APIError'' (''error listing networks: '' @ error_text e)\<rparr>) x) w4 = (Inr y, w5)"
  shows "fst (run_state (OZRoutingPeer_Reconcile r patchEmpty req) s) =
     (rp_DefaultLabels r, Returned (requeue_after defaultRequeueAfter, None))"
  using assms
  by (simp add: OZRoutingPeer_Reconcile_def ozroutingpeer_sync_def handleNetwork_def rp_condition_def condition_false_def
      ozroutingpeer_finish_def call_defs zero_OZRoutingPeerStatus_def set_rp_status_def OZRoutingPeerStatus_Equal_def
      OZConditionFalse_def requeue_after_def zero_Result_def)

theorem routingpeer_error_swallowed_witness:
  "fst (run_state (OZRoutingPeer_Reconcile demo_peer_env (\<lambda>_ _. True) (''oz'', ''router'')) start) =
     (Some [], Returned (requeue_after defaultRequeueAfter, None))"
proof -
  have "rp_DefaultLabels demo_peer_env = Some []" by (simp add: demo_peer_env_def)
  moreover have "fst (run_state (OZRoutingPeer_Reconcile demo_peer_env (\<lambda>_ _. True) (''oz'', ''router'')) start) =
     (rp_DefaultLabels demo_peer_env, Returned (requeue_after defaultRequeueAfter, None))"
    by (rule routingpeer_error_swallowed [where x = demo_peer and e = "OError ''down''" and ?t1.0 = 0 and ?t2.0 = 0])
       (simp_all add: demo_peer_defs)
  ultimately show ?thesis by simp
qed

text \<open>
  Deletion waits for foreign resources: as long as the cluster has any \<open>OZResource\<close>, even if
  all of them belong to other networks, the peer's network is not deleted, and the peer is only
  requeued every five seconds.
\<close>

theorem routingpeer_delete_blocked:
  assumes "orp_NetworkID (orp_Status x) = Some n"
    and "kc_list (c_OZResources (rp_Client r)) None (wenv s) = (Inr items, w)"
    and "items \<noteq> []" "\<forall>y \<in> set items. ozr_NetworkID (ozr_Spec y) \<noteq> n"
  shows "run_state (finish_delete r x None) s =
     ((x, requeue_after (5 * Second), None),
      s\<lparr>wenv := w, wlog := wlog s @ [EList ''OZResource'' (Inr (map KOZResource items))]\<rparr>)"
proof -
  have loop: "run_state (for_each items () (\<lambda>ozrs _.
       if ozr_NetworkID (ozr_Spec ozrs) = n
       then do { de \<leftarrow> k_delete (OZResources (rp_Client r)) ozrs;
                 State_Monad.return (case de of Some e \<Rightarrow> Inl e | None \<Rightarrow> Inr ()) }
       else State_Monad.return (Inr ()))) u = (Inr (), u)" for u
    using assms(4) by (induction items arbitrary: u) auto
  show ?thesis
    using assms(1-3)
    by (simp add: finish_delete_def delete_network_def delete_resources_def k_list_def loop OZResources_def release_rp_group_def
        drop_exemption_def release_peer_def loop [unfolded OZResources_def])
qed

theorem routingpeer_delete_blocked_witness:
  "fst (run_state (finish_delete demo_peer_env (set_NetworkID ''other'' demo_peer) None) start) =
     (set_NetworkID ''other'' demo_peer, requeue_after (5 * Second), None)"
  by (subst routingpeer_delete_blocked [where n = "''other''" and items = "[demo_resource None]" and w = "()"])
     (simp_all add: demo_peer_defs set_NetworkID_def demo_resource_def zero_OZResource_def)

text \<open>
  A peer with annotations in its spec makes the reconciler panic as soon as its Deployment
  exists without annotations: the loop writes into the nil map. (Where the map exists, the value
  written for a key is the annotation named like the key's value.)
\<close>

theorem routingpeer_annotations_panic:
  assumes "kc_get (c_Deployments (rp_Client r)) req (wenv s) = (Inr d, w)" "om_Annotations (dep_Meta d) = None"
    and "orp_Annotations (orp_Spec x) = Some (kv # kvs)" "deployment_labels (rp_DefaultLabels r) x = Some labels"
  shows "fst (run_state (handleDeployment r patchEmpty req x) s) = (labels, Panicked ''assignment to entry in nil map'')"
proof -
  have "fold (\<lambda>(k, v) m. Option.bind m (gm_put k (gm_val sp v))) kvs None = None" for sp
    by (induction kvs) auto
  then have "copy_annotations (Some (kv # kvs)) None = None"
    by (cases kv) (simp add: copy_annotations_def gm_entries_def)
  with assms show ?thesis by (simp add: handleDeployment_def call_defs)
qed

theorem routingpeer_annotations_panic_witness:
  "fst (run_state (handleDeployment demo_peer_env (\<lambda>_ _. False) (''oz'', ''router'')
      (demo_peer\<lparr>orp_Spec := zero_OZRoutingPeerSpec\<lparr>orp_Annotations := Some [(''team'', ''net'')]\<rparr>\<rparr>)) start) =
     (Some [(LabelAppKubernetesName, LabelValueRouter)], Panicked ''assignment to entry in nil map'')"
  by (rule routingpeer_annotations_panic [where d = demo_deployment and kv = "(''team'', ''net'')" and kvs = "[]" and w = "()"])
     (simp_all add: demo_peer_defs demo_deployment_def deployment_labels_def maps_copy_def gm_entries_def gm_put_def)

text \<open>
  Labels leak between peers: \<open>labels := r.DefaultLabels\<close> shares the map, so after
  \<open>handleDeployment\<close> every label of the peer's spec is among the reconciler's default labels (unless
  reading the Deployment failed), and goes to the objects created for the next peer.
\<close>

theorem routingpeer_labels_leak:
  assumes "rp_DefaultLabels r = Some al" "distinct (map fst (gm_entries (orp_Labels (orp_Spec x))))"
    and "gm_get (orp_Labels (orp_Spec x)) k = Some v" "k \<noteq> LabelAppKubernetesName"
  shows "emits (handleDeployment r patchEmpty req x) (\<lambda>(labels, out) evs.
     (\<exists>e. EGet ''Deployment'' req (Inl e) \<in> set evs \<and> \<not> k_IsNotFound e) \<or> gm_get labels k = Some v)"
proof -
  obtain al' where l: "deployment_labels (Some al) x = Some (Some al')" and "gm_get (Some al') k = Some v"
    by (rule deployment_labels_spec [OF assms(2), where al = al]) (use assms(3,4) in auto)
  then show ?thesis
    unfolding handleDeployment_def call_defs rp_condition_def assms(1) l
    by (auto intro!: emits_intros split: sum.split option.split)
qed

theorem routingpeer_labels_leak_witness:
  "gm_get (fst (fst (run_state (handleDeployment demo_peer_env (\<lambda>_ _. True) (''oz'', ''router'')
      (demo_peer\<lparr>orp_Spec := zero_OZRoutingPeerSpec\<lparr>orp_Labels := Some [(''team'', ''net'')]\<rparr>\<rparr>)) start))) ''team'' = Some ''net''"
proof -
  let ?x = "demo_peer\<lparr>orp_Spec := zero_OZRoutingPeerSpec\<lparr>orp_Labels := Some [(''team'', ''net'')]\<rparr>\<rparr>"
  let ?m = "handleDeployment demo_peer_env (\<lambda>_ _. True) (''oz'', ''router'') ?x"
  have "emits ?m (\<lambda>(labels, out) evs.
     (\<exists>e. EGet ''Deployment'' (''oz'', ''router'') (Inl e) \<in> set evs \<and> \<not> k_IsNotFound e) \<or> gm_get labels ''team'' = Some ''net'')"
    by (rule routingpeer_labels_leak [where al = "[]"])
       (simp_all add: demo_peer_env_def gm_entries_def LabelAppKubernetesName_def)
  then have "(\<exists>e. EGet ''Deployment'' (''oz'', ''router'') (Inl e) \<in> set (wlog (snd (run_state ?m start))) \<and> \<not> k_IsNotFound e) \<or>
      gm_get (fst (fst (run_state ?m start))) ''team'' = Some ''net''"
    by (auto dest!: emits_start simp: split_beta)
  moreover have "EGet ''Deployment'' (''oz'', ''router'') (Inl e) \<notin> set (wlog (snd (run_state ?m start)))" for e
    by (simp add: handleDeployment_def demo_peer_defs deployment_labels_def maps_copy_def gm_entries_def gm_put_def
        copy_annotations_def)
  ultimately show ?thesis by blast
qed

end
