(* ===== verification/Service_Controller.thy ===== *)
theory Service_Controller
  imports OZRoutingPeer_Controller
begin

text \<open>
  \<open>internal/controller/service_controller.go\<close>: a Service annotated with \<open>openzro.io/expose\<close> becomes
  an \<open>OZResource\<close> of the network of the default routing peer, with the ports that its annotations
  select.
\<close>

section \<open>Model\<close>

record 'w ServiceReconciler =
  sr_Client :: "'w Client"
  sr_ClusterName :: string
  sr_ClusterDNS :: string
  sr_NamespacedNetworks :: bool
  sr_ControllerNamespace :: string
  sr_DefaultLabels :: gomap

definition ServiceExposeAnnotation :: string where "ServiceExposeAnnotation = ''openzro.io/expose''"
definition serviceGroupsAnnotation :: string where "serviceGroupsAnnotation = ''openzro.io/groups''"
definition serviceResourceAnnotation :: string where "serviceResourceAnnotation = ''openzro.io/resource-name''"
definition servicePolicyAnnotation :: string where "servicePolicyAnnotation = ''openzro.io/policy''"
definition servicePortsAnnotation :: string where "servicePortsAnnotation = ''openzro.io/policy-ports''"
definition serviceProtocolAnnotation :: string where "serviceProtocolAnnotation = ''openzro.io/policy-protocol''"
definition servicePolicySourceGroupsAnnotation :: string where
  "servicePolicySourceGroupsAnnotation = ''openzro.io/policy-source-groups''"
definition servicePolicyNameAnnotation :: string where "servicePolicyNameAnnotation = ''openzro.io/policy-name''"

lemmas annotation_defs = ServiceExposeAnnotation_def serviceGroupsAnnotation_def serviceResourceAnnotation_def
  servicePolicyAnnotation_def servicePortsAnnotation_def serviceProtocolAnnotation_def
  servicePolicySourceGroupsAnnotation_def servicePolicyNameAnnotation_def

text \<open>The loop over the ports annotation: \<open>strconv.ParseInt\<close> and the conversion to \<open>int32\<close>.\<close>

fun parse_ports :: "string list \<Rightarrow> int32 list \<Rightarrow> goerr + int32 list" where
  "parse_ports [] filterPorts = Inr filterPorts"
| "parse_ports (v # vs) filterPorts =
     (case parse_int64 v of
        None \<Rightarrow> Inl (GoError (''strconv.ParseInt: parsing '' @ v))
      | Some port \<Rightarrow> parse_ports vs (filterPorts @ [to_int32 port]))"

text \<open>The loop over the friendly names: \<open>policy:name\<close> pairs, others are skipped.\<close>

definition friendly_names :: "string \<Rightarrow> gomap" where
  "friendly_names annotation = fold (\<lambda>v m. case SplitTrim v '':'' of
       [p, n] \<Rightarrow> gm_make_put p n m | _ \<Rightarrow> m) (SplitTrim annotation '','') (Some [])"

text \<open>One port of the service against the ports of the same protocol that are already in the spec.\<close>

definition port_excluded :: "string \<Rightarrow> int32 list \<Rightarrow> string list \<Rightarrow> int32 \<Rightarrow> bool" where
  "port_excluded protocol filterPorts filterProtocols port =
     ((filterPorts \<noteq> [] \<and> port \<notin> set filterPorts) \<or> (filterProtocols \<noteq> [] \<and> protocol \<notin> set filterProtocols))"

definition track_port :: "string \<Rightarrow> int32 list \<Rightarrow> string list \<Rightarrow> int32 \<Rightarrow> int32 list \<Rightarrow> int32 list" where
  "track_port protocol filterPorts filterProtocols port ports =
     (if port_excluded protocol filterPorts filterProtocols port
      then (if port \<in> set ports then Without ports port else ports)
      else (if port \<notin> set ports then ports @ [port] else ports))"

text \<open>The loop over the ports of the service, for the TCP and the UDP ports of the spec.\<close>

fun track_ports :: "int32 list \<Rightarrow> string list \<Rightarrow> ServicePort list \<Rightarrow> int32 list \<times> int32 list \<Rightarrow> int32 list \<times> int32 list" where
  "track_ports filterPorts filterProtocols [] acc = acc"
| "track_ports filterPorts filterProtocols (p # ps) (tcp, udp) = track_ports filterPorts filterProtocols ps
     (if svp_Protocol p = ''TCP'' then (track_port ''tcp'' filterPorts filterProtocols (svp_Port p) tcp, udp)
      else if svp_Protocol p = ''UDP'' then (tcp, track_port ''udp'' filterPorts filterProtocols (svp_Port p) udp)
      else (tcp, udp))"

definition filter_protocols :: "Service \<Rightarrow> string list" where
  "filter_protocols svc = (case gm_get (om_Annotations (svc_Meta svc)) serviceProtocolAnnotation of
     Some v \<Rightarrow> [v] | None \<Rightarrow> [])"

definition filter_ports :: "Service \<Rightarrow> goerr + int32 list" where
  "filter_ports svc = (case gm_get (om_Annotations (svc_Meta svc)) servicePortsAnnotation of
     Some v \<Rightarrow> parse_ports (str_split v '','') [] | None \<Rightarrow> Inr [])"

definition applyPolicy :: "OZResourceSpec \<Rightarrow> Service \<Rightarrow> goerr + OZResourceSpec" where
  "applyPolicy sp svc =
     (let ann = om_Annotations (svc_Meta svc)
      in case filter_ports svc of
           Inl e \<Rightarrow> Inl e
         | Inr fp \<Rightarrow>
             (case track_ports fp (filter_protocols svc) (svc_Ports svc) (ozr_TCPPorts sp, ozr_UDPPorts sp) of
                (tcp, udp) \<Rightarrow> Inr (sp\<lparr>
                  ozr_PolicyName := gm_val ann servicePolicyAnnotation,
                  ozr_PolicySourceGroups := (case gm_get ann servicePolicySourceGroupsAnnotation of
                    Some v \<Rightarrow> SplitTrim v '','' | None \<Rightarrow> []),
                  ozr_PolicyFriendlyName := friendly_names (gm_val ann servicePolicyNameAnnotation),
                  ozr_TCPPorts := tcp, ozr_UDPPorts := udp\<rparr>)))"

text \<open>\<open>reconcileNBResource\<close>; \<open>networkID\<close> is the routing peer's network, which the caller has found set.\<close>

definition reconcileNBResource ::
  "'w ServiceReconciler \<Rightarrow> OZResource \<Rightarrow> nn \<Rightarrow> Service \<Rightarrow> string \<Rightarrow> goerr + OZResource" where
  "reconcileNBResource r nbResource req svc networkID =
     (let ann = om_Annotations (svc_Meta svc);
          groups = (case gm_get ann serviceGroupsAnnotation of
            Some v \<Rightarrow> map str_trim (str_split v '','')
          | None \<Rightarrow> [sr_ClusterName r @ ''-'' @ fst req @ ''-'' @ snd req]);
          resourceName = (case gm_get ann serviceResourceAnnotation of
            Some v \<Rightarrow> v | None \<Rightarrow> fst req @ ''-'' @ snd req);
          meta = (ozr_Meta nbResource)\<lparr>om_Name := snd req, om_Namespace := fst req, om_Labels := sr_DefaultLabels r,
            om_Finalizers := [FinalizerResourceCleanup]\<rparr>;
          sp = (ozr_Spec nbResource)\<lparr>ozr_Name := resourceName, ozr_NetworkID := networkID,
            ozr_Address := om_Name (svc_Meta svc) @ ''.'' @ om_Namespace (svc_Meta svc) @ ''.'' @ sr_ClusterDNS r,
            ozr_Groups := groups\<rparr>;
          res = (if gm_get ann servicePolicyAnnotation \<noteq> None then applyPolicy sp svc
            else if ozr_PolicyName sp \<noteq> ''''
            then Inr (sp\<lparr>ozr_PolicyName := '''', ozr_TCPPorts := [], ozr_UDPPorts := []\<rparr>)
            else Inr sp)
      in map_sum id (\<lambda>sp'. nbResource\<lparr>ozr_Meta := meta, ozr_Spec := sp'\<rparr>) res)"

definition hideService :: "'w ServiceReconciler \<Rightarrow> nn \<Rightarrow> Service \<Rightarrow> ('w, Result \<times> goerr option) go" where
  "hideService r req svc = do {
     gr \<leftarrow> k_get (OZResources (sr_Client r)) req;
     e1 \<leftarrow> (case gr of
       Inl err \<Rightarrow> State_Monad.return (if k_IsNotFound err then None else Some err)
     | Inr nbResource \<Rightarrow> k_delete (OZResources (sr_Client r)) nbResource);
     (case e1 of
        Some e \<Rightarrow> State_Monad.return (zero_Result, Some e)
      | None \<Rightarrow>
          if FinalizerResourceCleanup \<in> set (om_Finalizers (svc_Meta svc))
          then do {
            ur \<leftarrow> k_update (Services (sr_Client r)) (svc\<lparr>svc_Meta := (svc_Meta svc)\<lparr>om_Finalizers :=
                   Without (om_Finalizers (svc_Meta svc)) FinalizerResourceCleanup\<rparr>\<rparr>);
            State_Monad.return (zero_Result, err_of ur) }
          else State_Monad.return (zero_Result, None))
   }"

definition default_peer :: "'w ServiceReconciler \<Rightarrow> string \<Rightarrow> OZRoutingPeer" where
  "default_peer r ns = \<lparr>orp_Type = zero_TypeMeta,
     orp_Meta = zero_ObjectMeta\<lparr>om_Name := DefaultRouterName, om_Namespace := ns,
       om_Finalizers := [FinalizerResourceCleanup], om_Labels := sr_DefaultLabels r\<rparr>,
     orp_Spec = zero_OZRoutingPeerSpec, orp_Status = zero_OZRoutingPeerStatus\<rparr>"

text \<open>The end of \<open>exposeService\<close>, once the network is known: create or update the resource.\<close>

definition expose_resource :: "'w ServiceReconciler \<Rightarrow> nn \<Rightarrow> Service \<Rightarrow> string \<Rightarrow> ('w, Result \<times> goerr option) go" where
  "expose_resource r req svc networkID = do {
     gr \<leftarrow> k_get (OZResources (sr_Client r)) req;
     (case gr of
        Inl err \<Rightarrow>
          if \<not> k_IsNotFound err then State_Monad.return (zero_Result, Some err)
          else (case reconcileNBResource r zero_OZResource req svc networkID of
            Inl e \<Rightarrow> State_Monad.return (zero_Result, Some e)
          | Inr x \<Rightarrow> do {
              cr \<leftarrow> k_create (OZResources (sr_Client r)) x;
              State_Monad.return (zero_Result, err_of cr) })
      | Inr nbResource \<Rightarrow>
          (case reconcileNBResource r nbResource req svc networkID of
             Inl e \<Rightarrow> State_Monad.return (zero_Result, Some e)
           | Inr x \<Rightarrow>
               if OZResourceSpec_Equal (ozr_Spec nbResource) (ozr_Spec x) then State_Monad.return (zero_Result, None)
               else do {
                 ur \<leftarrow> k_update (OZResources (sr_Client r)) x;
                 State_Monad.return (zero_Result, err_of ur) }))
   }"

definition routerNamespace :: "'w ServiceReconciler \<Rightarrow> nn \<Rightarrow> string" where
  "routerNamespace r req = (if sr_NamespacedNetworks r then fst req else sr_ControllerNamespace r)"

definition exposeService :: "'w ServiceReconciler \<Rightarrow> nn \<Rightarrow> Service \<Rightarrow> ('w, Result \<times> goerr option) go" where
  "exposeService r req svc0 = do {
     ur \<leftarrow> (if FinalizerResourceCleanup \<notin> set (om_Finalizers (svc_Meta svc0))
           then k_update (Services (sr_Client r)) (svc0\<lparr>svc_Meta := (svc_Meta svc0)\<lparr>om_Finalizers :=
                  om_Finalizers (svc_Meta svc0) @ [FinalizerResourceCleanup]\<rparr>\<rparr>)
           else State_Monad.return (Inr svc0));
     (case ur of
        Inl e \<Rightarrow> State_Monad.return (zero_Result, Some e)
      | Inr svc \<Rightarrow> do {
          pr \<leftarrow> k_get (OZRoutingPeers (sr_Client r)) (routerNamespace r req, DefaultRouterName);
          (case pr of
             Inl err \<Rightarrow>
               if \<not> k_IsNotFound err then State_Monad.return (zero_Result, Some err)
               else do {
                 cr \<leftarrow> k_create (OZRoutingPeers (sr_Client r)) (default_peer r (routerNamespace r req));
                 State_Monad.return (case err_of cr of
                   Some e \<Rightarrow> (zero_Result, Some e) | None \<Rightarrow> (requeue_after (5 * Second), None)) }
           | Inr routingPeer \<Rightarrow>
               (case orp_NetworkID (orp_Status routingPeer) of
                  None \<Rightarrow> State_Monad.return (requeue_after (5 * Second), None)
                | Some networkID \<Rightarrow> expose_resource r req svc networkID)) })
   }"

definition Service_Reconcile :: "'w ServiceReconciler \<Rightarrow> nn \<Rightarrow> ('w, Result \<times> goerr option) go" where
  "Service_Reconcile r req = do {
     gr \<leftarrow> k_get (Services (sr_Client r)) req;
     (case gr of
        Inl err \<Rightarrow> State_Monad.return (zero_Result, None)
      | Inr svc \<Rightarrow>
          if om_Namespace (svc_Meta svc) = KubernetesDefaultNamespace \<and> om_Name (svc_Meta svc) = KubernetesAPIServiceName
          then State_Monad.return (zero_Result, None)
          else if gm_get (om_Annotations (svc_Meta svc)) ServiceExposeAnnotation \<noteq> None \<and>
                  om_DeletionTimestamp (svc_Meta svc) = None
          then exposeService r req svc
          else hideService r req svc)
   }"

section \<open>Ports\<close>

definition has_port :: "string \<Rightarrow> ServicePort list \<Rightarrow> int32 \<Rightarrow> bool" where
  "has_port protocol ps port = (\<exists>q \<in> set ps. svp_Protocol q = protocol \<and> svp_Port q = port)"

lemma has_port_simps [simp]:
  "\<not> has_port protocol [] port"
  "has_port protocol (q # ps) port \<longleftrightarrow> (svp_Protocol q = protocol \<and> svp_Port q = port) \<or> has_port protocol ps port"
  by (auto simp: has_port_def)

lemma track_port_props:
  "set (track_port proto fp fq port ports) = (if port_excluded proto fp fq port then set ports - {port} else insert port (set ports))"
  "distinct ports \<Longrightarrow> distinct (track_port proto fp fq port ports)"
  by (auto simp: track_port_def Without_filter)

lemma track_ports_mem:
  "port \<in> set (fst (track_ports fp fq ps (tcp, udp))) \<longleftrightarrow>
     (if has_port ''TCP'' ps port then \<not> port_excluded ''tcp'' fp fq port else port \<in> set tcp)"
  "port \<in> set (snd (track_ports fp fq ps (tcp, udp))) \<longleftrightarrow>
     (if has_port ''UDP'' ps port then \<not> port_excluded ''udp'' fp fq port else port \<in> set udp)"
  by (induction ps arbitrary: tcp udp) (auto simp: track_port_props split: if_splits)

lemma track_ports_distinct:
  "distinct tcp \<Longrightarrow> distinct (fst (track_ports fp fq ps (tcp, udp)))"
  "distinct udp \<Longrightarrow> distinct (snd (track_ports fp fq ps (tcp, udp)))"
  by (induction ps arbitrary: tcp udp) (simp_all add: track_port_props)

section \<open>The resource of a service\<close>

lemma applyPolicy_frame:
  "applyPolicy sp svc = Inr sp' \<Longrightarrow> ozr_NetworkID sp' = ozr_NetworkID sp \<and> ozr_Address sp' = ozr_Address sp \<and>
     ozr_Groups sp' = ozr_Groups sp \<and> ozr_Name sp' = ozr_Name sp"
  by (auto simp: applyPolicy_def Let_def split: sum.splits prod.splits)

text \<open>What every resource written for a service looks like.\<close>

definition resource_of :: "'w ServiceReconciler \<Rightarrow> nn \<Rightarrow> string \<Rightarrow> OZResource \<Rightarrow> bool" where
  "resource_of r req networkID x = (om_Namespace (ozr_Meta x) = fst req \<and> om_Name (ozr_Meta x) = snd req \<and>
     om_Finalizers (ozr_Meta x) = [FinalizerResourceCleanup] \<and> ozr_NetworkID (ozr_Spec x) = networkID)"

lemma reconcileNBResource_spec:
  "reconcileNBResource r x req svc networkID = Inr x' \<Longrightarrow> resource_of r req networkID x'"
  by (auto simp: reconcileNBResource_def resource_of_def map_sum_eq_Inr Let_def dest!: applyPolicy_frame split: if_splits)

text \<open>The resources that a run writes.\<close>

definition resources_written :: "(OZResource \<Rightarrow> bool) \<Rightarrow> event list \<Rightarrow> bool" where
  "resources_written P evs = (\<forall>x er. ECreate (KOZResource x) er \<in> set evs \<or> EUpdate (KOZResource x) er \<in> set evs \<longrightarrow> P x)"

lemma resources_written_simps [simp]:
  "resources_written P []"
  "resources_written P (ev # evs) \<longleftrightarrow>
     (\<forall>x er. ev = ECreate (KOZResource x) er \<or> ev = EUpdate (KOZResource x) er \<longrightarrow> P x) \<and> resources_written P evs"
  by (auto simp: resources_written_def)

lemma resources_written_mono: "resources_written P evs \<Longrightarrow> (\<And>x. P x \<Longrightarrow> Q x) \<Longrightarrow> resources_written Q evs"
  by (auto simp: resources_written_def)

lemma expose_resource_spec:
  "emits (expose_resource r req svc n) (\<lambda>_ evs. resources_written (resource_of r req n) evs)"
  unfolding expose_resource_def call_defs
  by (auto intro!: emits_intros split: sum.split) (erule reconcileNBResource_spec)+

text \<open>The service carries the cleanup finalizer, or it was added.\<close>

definition finalizer_ensured :: "Service \<Rightarrow> event list \<Rightarrow> bool" where
  "finalizer_ensured svc evs = (FinalizerResourceCleanup \<in> set (om_Finalizers (svc_Meta svc)) \<or>
     (\<exists>s. EUpdate (KService s) None \<in> set evs \<and> FinalizerResourceCleanup \<in> set (om_Finalizers (svc_Meta s))))"

definition network_of :: "'w ServiceReconciler \<Rightarrow> nn \<Rightarrow> event list \<Rightarrow> string \<Rightarrow> bool" where
  "network_of r req evs n = (\<exists>peer. orp_NetworkID (orp_Status peer) = Some n \<and>
     EGet ''OZRoutingPeer'' (routerNamespace r req, DefaultRouterName) (Inr (KOZRoutingPeer peer)) \<in> set evs)"

lemma exposeService_spec:
  "emits (exposeService r req svc) (\<lambda>_ evs. resources_written (\<lambda>x. finalizer_ensured svc evs \<and>
     (\<exists>n. network_of r req evs n \<and> resource_of r req n x)) evs)"
proof -
  have ensured: "FinalizerResourceCleanup \<in> set (om_Finalizers (svc_Meta svc)) \<Longrightarrow> finalizer_ensured svc evs"
      "finalizer_ensured svc (EUpdate (KService (svc\<lparr>svc_Meta := (svc_Meta svc)\<lparr>om_Finalizers :=
         om_Finalizers (svc_Meta svc) @ [FinalizerResourceCleanup]\<rparr>\<rparr>)) None # evs)"
      "orp_NetworkID (orp_Status peer) = Some n \<Longrightarrow>
       network_of r req (EGet ''OZRoutingPeer'' (routerNamespace r req, DefaultRouterName) (Inr (KOZRoutingPeer peer)) # evs) n"
      "orp_NetworkID (orp_Status peer) = Some n \<Longrightarrow>
       network_of r req (ev # EGet ''OZRoutingPeer'' (routerNamespace r req, DefaultRouterName) (Inr (KOZRoutingPeer peer)) # evs) n"
    for evs ev peer n
    by (auto simp: finalizer_ensured_def network_of_def)
  show ?thesis
    unfolding exposeService_def k_update_def k_get_def k_create_def Services_def OZRoutingPeers_def
    by (auto intro!: emits_intros emits_mono [OF expose_resource_spec] elim!: resources_written_mono
        simp: ensured(1,2) split: sum.split option.split) (metis ensured(3,4))+
qed

lemma hideService_spec:
  "emits (hideService r req svc) (\<lambda>_ evs. updates_only (\<lambda>o'.
     o' = KService (svc\<lparr>svc_Meta := (svc_Meta svc)\<lparr>om_Finalizers := Without (om_Finalizers (svc_Meta svc)) FinalizerResourceCleanup\<rparr>\<rparr>) \<and>
     ((\<exists>m. EGet ''OZResource'' req (Inl (KNotFound m)) \<in> set evs) \<or>
      (\<exists>x. EGet ''OZResource'' req (Inr x) \<in> set evs \<and> EDelete x None \<in> set evs))) evs)"
  unfolding hideService_def call_defs
  by (auto intro!: emits_intros simp: k_IsNotFound_iff split: sum.split option.split)

section \<open>Claims\<close>

text \<open>
  C23. The ports that a service exposes: a port of the service is in the resource's spec exactly when
  the port and protocol annotations do not exclude it, and any other port only if it was there
  before (a port removed from the service stays); no port is listed twice if none was before.
\<close>

theorem service_ports_correct:
  assumes "applyPolicy sp svc = Inr sp'"
  shows "\<exists>fp. filter_ports svc = Inr fp \<and>
    (\<forall>port. port \<in> set (ozr_TCPPorts sp') \<longleftrightarrow>
       (if has_port ''TCP'' (svc_Ports svc) port then \<not> port_excluded ''tcp'' fp (filter_protocols svc) port
        else port \<in> set (ozr_TCPPorts sp))) \<and>
    (\<forall>port. port \<in> set (ozr_UDPPorts sp') \<longleftrightarrow>
       (if has_port ''UDP'' (svc_Ports svc) port then \<not> port_excluded ''udp'' fp (filter_protocols svc) port
        else port \<in> set (ozr_UDPPorts sp))) \<and>
    (distinct (ozr_TCPPorts sp) \<longrightarrow> distinct (ozr_TCPPorts sp')) \<and>
    (distinct (ozr_UDPPorts sp) \<longrightarrow> distinct (ozr_UDPPorts sp'))"
proof -
  obtain fp tcp udp where fp: "filter_ports svc = Inr fp" and
    tr: "track_ports fp (filter_protocols svc) (svc_Ports svc) (ozr_TCPPorts sp, ozr_UDPPorts sp) = (tcp, udp)" and
    sp': "ozr_TCPPorts sp' = tcp" "ozr_UDPPorts sp' = udp"
    using assms by (auto simp: applyPolicy_def Let_def split: sum.splits prod.splits)
  show ?thesis
    using track_ports_mem [where fp = fp and fq = "filter_protocols svc" and ps = "svc_Ports svc" and
        tcp = "ozr_TCPPorts sp" and udp = "ozr_UDPPorts sp"]
      track_ports_distinct [where fp = fp and fq = "filter_protocols svc" and ps = "svc_Ports svc" and
        tcp = "ozr_TCPPorts sp" and udp = "ozr_UDPPorts sp"]
    unfolding tr by (intro exI [of _ fp]) (simp add: fp sp')
qed

definition demo_service :: "(string \<times> string) list \<Rightarrow> Service" where
  "demo_service ann = \<lparr>svc_Meta = zero_ObjectMeta\<lparr>om_Name := ''web'', om_Namespace := ''ns'',
       om_Annotations := Some ann\<rparr>, svc_Type = ''ClusterIP'', svc_ClusterIP = ''10.0.0.1'',
     svc_Ports = [\<lparr>svp_Protocol = ''TCP'', svp_Port = 80\<rparr>, \<lparr>svp_Protocol = ''TCP'', svp_Port = 443\<rparr>]\<rparr>"

theorem service_ports_correct_witness:
  "\<exists>sp'. applyPolicy ((ozr_Spec zero_OZResource)\<lparr>ozr_TCPPorts := [8080]\<rparr>) (demo_service [(''openzro.io/policy-ports'', ''80'')]) = Inr sp' \<and>
     (80 \<in> set (ozr_TCPPorts sp')) \<and> (443 \<notin> set (ozr_TCPPorts sp')) \<and> (8080 \<in> set (ozr_TCPPorts sp'))"
proof -
  let ?svc = "demo_service [(''openzro.io/policy-ports'', ''80'')]"
  let ?sp = "(ozr_Spec zero_OZResource)\<lparr>ozr_TCPPorts := [8080]\<rparr>"
  have fp: "filter_ports ?svc = Inr [80]"
    by (simp add: filter_ports_def demo_service_def annotation_defs str_split_char parse_int64_def char_digit_def to_int32_def
        zero_ObjectMeta_def)
  have fq: "filter_protocols ?svc = []"
    by (simp add: filter_protocols_def demo_service_def annotation_defs zero_ObjectMeta_def)
  obtain sp' where sp': "applyPolicy ?sp ?svc = Inr sp'"
    by (simp add: applyPolicy_def fp Let_def split_beta)
  have "has_port ''TCP'' (svc_Ports ?svc) 80" "has_port ''TCP'' (svc_Ports ?svc) 443" "\<not> has_port ''TCP'' (svc_Ports ?svc) 8080"
    by (simp_all add: demo_service_def)
  then show ?thesis
    using service_ports_correct [OF sp'] sp' fp fq by (auto simp: port_excluded_def)
qed

text \<open>
  C40. Port numbers of the annotation wrap around: a number that is too large by \<open>2 ^ 32\<close> is accepted
  and selects the same port as the small one, because the parsed 64-bit value is converted to
  \<open>int32\<close> without a range check.
\<close>

theorem service_port_annotation_wraps:
  assumes "- (2 ^ 31) \<le> v" "v < 2 ^ 31"
  shows "parse_ports [format_int (v + 2 ^ 32)] fp = Inr (fp @ [to_int32 v]) \<and> sint (to_int32 v) = v"
proof -
  have "parse_int64 (format_int (v + 2 ^ 32)) = Some (v + 2 ^ 32)"
    by (rule parse_format_int) (use assms in simp_all)
  moreover have "sint (to_int32 v) = v" by (rule sint_to_int32 [OF assms])
  ultimately show ?thesis using to_int32_wraps [of v] by simp
qed

theorem service_port_annotation_wraps_witness:
  "parse_ports [format_int (80 + 2 ^ 32)] [] = Inr [80] \<and> sint (to_int32 80) = 80"
proof -
  have "parse_ports [format_int (80 + 2 ^ 32)] [] = Inr ([] @ [to_int32 80]) \<and> sint (to_int32 80) = 80"
    by (rule service_port_annotation_wraps) simp_all
  moreover have "to_int32 80 = 80" by (simp add: to_int32_def)
  ultimately show ?thesis by simp
qed

text \<open>
  Exposing a service: an \<open>OZResource\<close> is created or updated only after the service carries the
  cleanup finalizer and the default routing peer has a network, and it is then the resource of that
  service, in that network, with the cleanup finalizer.
\<close>

theorem service_expose_safe:
  "emits (exposeService r req svc) (\<lambda>_ evs. resources_written (\<lambda>x. finalizer_ensured svc evs \<and>
     (\<exists>n. network_of r req evs n \<and> resource_of r req n x)) evs)"
  by (rule exposeService_spec)

text \<open>
  Hiding a service: the service is updated only to drop the cleanup finalizer, and only after
  its \<open>OZResource\<close> was deleted or found not to exist.
\<close>

theorem service_hide_safe:
  "emits (hideService r req svc) (\<lambda>_ evs. updates_only (\<lambda>o'.
     o' = KService (svc\<lparr>svc_Meta := (svc_Meta svc)\<lparr>om_Finalizers := Without (om_Finalizers (svc_Meta svc)) FinalizerResourceCleanup\<rparr>\<rparr>) \<and>
     ((\<exists>m. EGet ''OZResource'' req (Inl (KNotFound m)) \<in> set evs) \<or>
      (\<exists>x. EGet ''OZResource'' req (Inr x) \<in> set evs \<and> EDelete x None \<in> set evs))) evs)"
  by (rule hideService_spec)

text \<open>
  A changed policy name is not written: \<open>OZResourceSpec.Equal\<close> leaves the friendly names out, so
  a service whose resource differs in them only causes no update.
\<close>

theorem service_friendly_name_ignored:
  assumes "kc_get (c_OZResources (sr_Client r)) req (wenv s) = (Inr x, w)"
    and "reconcileNBResource r x req svc n = Inr x'" "ozr_Spec x' = (ozr_Spec x)\<lparr>ozr_PolicyFriendlyName := m\<rparr>"
  shows "run_state (expose_resource r req svc n) s =
     ((zero_Result, None), s\<lparr>wenv := w, wlog := wlog s @ [EGet ''OZResource'' req (Inr (KOZResource x))]\<rparr>)"
proof -
  have "OZResourceSpec_Equal (ozr_Spec x) (ozr_Spec x')"
    unfolding OZResourceSpec_Equal_def assms(3) by simp
  with assms(1,2) show ?thesis by (simp add: expose_resource_def call_defs)
qed

definition demo_named_service :: Service where
  "demo_named_service = demo_service [(''openzro.io/policy'', ''p''), (''openzro.io/policy-name'', ''p:New'')]"

definition demo_named_resource :: OZResource where
  "demo_named_resource = zero_OZResource\<lparr>ozr_Spec := \<lparr>ozr_Name = ''ns-web'', ozr_NetworkID = ''n1'', ozr_Address = ''web.ns.local'',
     ozr_Groups = [''k-ns-web''], ozr_PolicyName = ''p'', ozr_PolicySourceGroups = [], ozr_PolicyFriendlyName = Some [(''p'', ''Old'')],
     ozr_TCPPorts = [80, 443], ozr_UDPPorts = []\<rparr>\<rparr>"

definition demo_service_env :: "unit ServiceReconciler" where
  "demo_service_env = \<lparr>sr_Client = down_Client\<lparr>c_OZResources := down_kind\<lparr>kc_get := \<lambda>_ w. (Inr demo_named_resource, w)\<rparr>\<rparr>,
     sr_ClusterName = ''k'', sr_ClusterDNS = ''local'', sr_NamespacedNetworks = False, sr_ControllerNamespace = ''oz'',
     sr_DefaultLabels = None\<rparr>"

theorem service_friendly_name_ignored_witness:
  "let (x, t) = run_state (expose_resource demo_service_env (''ns'', ''web'') demo_named_service ''n1'') start
   in x = (zero_Result, None) \<and> wlog t = [EGet ''OZResource'' (''ns'', ''web'') (Inr (KOZResource demo_named_resource))]"
proof -
  have fn: "friendly_names ''p:New'' = Some [(''p'', ''New'')]"
    by (simp add: friendly_names_def SplitTrim_def str_split_char str_trim_def is_space_def gm_make_put_def gm_entries_def)
  have svc: "om_Annotations (svc_Meta demo_named_service) = Some [(''openzro.io/policy'', ''p''), (''openzro.io/policy-name'', ''p:New'')]"
    "om_Name (svc_Meta demo_named_service) = ''web''" "om_Namespace (svc_Meta demo_named_service) = ''ns''"
    "svc_Ports demo_named_service = [\<lparr>svp_Protocol = ''TCP'', svp_Port = 80\<rparr>, \<lparr>svp_Protocol = ''TCP'', svp_Port = 443\<rparr>]"
    by (simp_all add: demo_named_service_def demo_service_def zero_ObjectMeta_def)
  have fp: "filter_ports demo_named_service = Inr []" "filter_protocols demo_named_service = []"
    by (simp_all add: filter_ports_def filter_protocols_def svc annotation_defs gm_get_def gm_entries_def)
  obtain x' where x': "reconcileNBResource demo_service_env demo_named_resource (''ns'', ''web'') demo_named_service ''n1'' = Inr x'"
    "ozr_Spec x' = (ozr_Spec demo_named_resource)\<lparr>ozr_PolicyFriendlyName := Some [(''p'', ''New'')]\<rparr>"
    by (simp add: reconcileNBResource_def applyPolicy_def fp track_port_def port_excluded_def Let_def gm_val_def fn svc
        demo_named_resource_def demo_service_env_def annotation_defs zero_OZResource_def gm_get_def gm_entries_def)
  have "kc_get (c_OZResources (sr_Client demo_service_env)) (''ns'', ''web'') (wenv start) = (Inr demo_named_resource, ())"
    by (simp add: demo_service_env_def down_defs)
  from service_friendly_name_ignored [OF this x'] show ?thesis by simp
qed

end
