(* ===== verification/OZSetupKey_Controller.thy ===== *)
theory OZSetupKey_Controller
  imports World
begin

text \<open>
  \<open>internal/controller/ozsetupkey_controller.go\<close>: the reconciler that validates the secret an
  \<open>OZSetupKey\<close> refers to, and the map from secrets to setup keys that its watch on secrets uses.
  \<open>uuidOk\<close> is the answer of \<open>uuid.Parse\<close>. The map is an association list in the order in which Go
  happens to visit it; the properties hold for every order.
\<close>

section \<open>Model\<close>

record 'w OZSetupKeyReconciler =
  skr_Client :: "'w Client"
  skr_ReferencedSecrets :: "(string \<times> nn) list"

definition setStatus :: "'w OZSetupKeyReconciler \<Rightarrow> OZSetupKey \<Rightarrow> OZSetupKeyStatus \<Rightarrow> ('w, goerr option) go" where
  "setStatus r ozsetupkey status = do {
     ur \<leftarrow> k_status_update (OZSetupKeys (skr_Client r)) (ozsetupkey\<lparr>osk_Status := status\<rparr>);
     State_Monad.return (err_of ur)
   }"

text \<open>The status written in every branch: one condition, with the current time as probe time.\<close>

definition ready_status :: "bool \<Rightarrow> string \<Rightarrow> string \<Rightarrow> time \<Rightarrow> OZSetupKeyStatus" where
  "ready_status ready reason message now = \<lparr>osk_Conditions =
     [\<lparr>ozc_Type = OZSetupKeyReady, ozc_Status = (if ready then ''True'' else ''False''), ozc_LastProbeTime = now,
       ozc_LastTransitionTime = 0, ozc_Reason = reason, ozc_Message = message\<rparr>]\<rparr>"

definition set_ready ::
  "'w OZSetupKeyReconciler \<Rightarrow> OZSetupKey \<Rightarrow> bool \<Rightarrow> string \<Rightarrow> string \<Rightarrow> ('w, goerr option) go" where
  "set_ready r k ready reason message = do {
     now \<leftarrow> read_clock (skr_Client r);
     setStatus r k (ready_status ready reason message now)
   }"

text \<open>\<open>fmt.Sprintf("%s/%s", namespace, name)\<close>\<close>

definition secret_key :: "OZSetupKey \<Rightarrow> string" where
  "secret_key k = om_Namespace (osk_Meta k) @ ''/'' @ sks_Name (osk_SecretKeyRef (osk_Spec k))"

text \<open>The loop that drops the first entry of this setup key, and the assignment after it.\<close>

fun drop_reference :: "nn \<Rightarrow> (string \<times> nn) list \<Rightarrow> (string \<times> nn) list" where
  "drop_reference req [] = []"
| "drop_reference req ((k, v) # refs) = (if v = req then refs else (k, v) # drop_reference req refs)"

definition reference :: "nn \<Rightarrow> string \<Rightarrow> (string \<times> nn) list \<Rightarrow> (string \<times> nn) list" where
  "reference req k refs = (k, req) # AList.delete k (drop_reference req refs)"

text \<open>The checks of the secret, in the order of the source.\<close>

definition check_secret ::
  "'w OZSetupKeyReconciler \<Rightarrow> (string \<Rightarrow> bool) \<Rightarrow> OZSetupKey \<Rightarrow> ('w, goerr option) go" where
  "check_secret r uuidOk nbSetupKey = do {
     sr \<leftarrow> k_get (Secrets (skr_Client r)) (om_Namespace (osk_Meta nbSetupKey), sks_Name (osk_SecretKeyRef (osk_Spec nbSetupKey)));
     (case sr of
        Inl err \<Rightarrow>
          if \<not> k_IsNotFound err then State_Monad.return (Some err)
          else set_ready r nbSetupKey False ''SecretNotExists'' ''Referenced secret does not exist''
      | Inr secret \<Rightarrow>
          (case gm_get (sec_Data secret) (sks_Key (osk_SecretKeyRef (osk_Spec nbSetupKey))) of
             None \<Rightarrow> set_ready r nbSetupKey False ''SecretKeyNotExists'' ''Referenced secret key does not exist''
           | Some v \<Rightarrow>
               if \<not> uuidOk v then set_ready r nbSetupKey False ''InvalidSetupKey'' ''Referenced secret is not a valid SetupKey''
               else set_ready r nbSetupKey True '''' ''''))
   }"

text \<open>\<open>Reconcile\<close>: the map afterwards, and the error (the result is always the zero one).\<close>

definition OZSetupKey_Reconcile ::
  "'w OZSetupKeyReconciler \<Rightarrow> (string \<Rightarrow> bool) \<Rightarrow> nn \<Rightarrow> ('w, (string \<times> nn) list \<times> Result \<times> goerr option) go" where
  "OZSetupKey_Reconcile r uuidOk req = do {
     gr \<leftarrow> k_get (OZSetupKeys (skr_Client r)) req;
     (case gr of
        Inl err \<Rightarrow> State_Monad.return (skr_ReferencedSecrets r, zero_Result, None)
      | Inr nbSetupKey \<Rightarrow>
          if sks_Name (osk_SecretKeyRef (osk_Spec nbSetupKey)) = '''' \<or> sks_Key (osk_SecretKeyRef (osk_Spec nbSetupKey)) = ''''
          then do {
            err \<leftarrow> set_ready r nbSetupKey False ''InvalidConfig'' ''secretKeyRef must contain both secret name and secret key.'';
            State_Monad.return (skr_ReferencedSecrets r, zero_Result, err) }
          else do {
            let refs = reference req (secret_key nbSetupKey) (skr_ReferencedSecrets r);
            err \<leftarrow> check_secret r uuidOk nbSetupKey;
            State_Monad.return (refs, zero_Result, err) })
   }"

text \<open>The map function of the watch: the requests for a changed secret.\<close>

definition secret_watch_requests :: "(string \<times> nn) list \<Rightarrow> Secret \<Rightarrow> nn list" where
  "secret_watch_requests refs secret =
     (case map_of refs (om_Namespace (sec_Meta secret) @ ''/'' @ om_Name (sec_Meta secret)) of
        None \<Rightarrow> [] | Some v \<Rightarrow> [v])"

section \<open>The map of references\<close>

text \<open>Keys are unique (it is a map), and every setup key has at most one entry.\<close>

definition refs_ok :: "(string \<times> nn) list \<Rightarrow> bool" where
  "refs_ok refs = (distinct (map fst refs) \<and> distinct (map snd refs))"

lemma drop_reference_sub: "set (drop_reference req refs) \<subseteq> set refs"
  by (induction req refs rule: drop_reference.induct) auto

lemma drop_reference_distinct:
  "distinct (map fst refs) \<Longrightarrow> distinct (map fst (drop_reference req refs))"
  "distinct (map snd refs) \<Longrightarrow> distinct (map snd (drop_reference req refs)) \<and> req \<notin> snd ` set (drop_reference req refs)"
proof (induction req refs rule: drop_reference.induct)
  case (2 req k v refs)
  { case 1 then show ?case using 2(1) drop_reference_sub [of req refs] by (cases "v = req") auto }
  { case 2 then show ?case using "2.IH"(2) drop_reference_sub [of req refs] by (cases "v = req") auto }
qed auto

lemma reference_ok: "refs_ok refs \<Longrightarrow> refs_ok (reference req k refs)"
  using drop_reference_distinct [of refs req]
  by (auto simp: refs_ok_def reference_def AList.delete_eq distinct_map inj_on_def)

lemma reference_lookup: "map_of (reference req k refs) k = Some req"
  by (simp add: reference_def)

text \<open>
  The abstract view of the map: a reconciliation of \<open>req\<close> keeps it or moves the reference of \<open>req\<close>
  to a secret. The maps the reconciler can have are those reachable from the empty one.
\<close>

inductive ref_step :: "(string \<times> nn) list \<Rightarrow> nn \<Rightarrow> (string \<times> nn) list \<Rightarrow> bool" where
  keep: "ref_step refs req refs"
| move: "ref_step refs req (reference req k refs)"

inductive refs_reachable :: "(string \<times> nn) list \<Rightarrow> bool" where
  init: "refs_reachable []"
| step: "refs_reachable refs \<Longrightarrow> ref_step refs req refs' \<Longrightarrow> refs_reachable refs'"

inductive_cases ref_stepE: "ref_step refs req refs'"

lemma ref_step_ok: "ref_step refs req refs' \<Longrightarrow> refs_ok refs \<Longrightarrow> refs_ok refs'"
  by (auto elim!: ref_stepE intro: reference_ok)

lemma refs_reachable_ok: "refs_reachable refs \<Longrightarrow> refs_ok refs"
proof (induction rule: refs_reachable.induct)
  case init
  show ?case by (simp add: refs_ok_def)
next
  case (step refs req refs')
  then show ?case by (blast intro: ref_step_ok)
qed

text \<open>The setup key that was read, if it is a valid one.\<close>

definition read_key :: "nn \<Rightarrow> event list \<Rightarrow> OZSetupKey \<Rightarrow> bool" where
  "read_key req evs k = (EGet ''OZSetupKey'' req (Inr (KOZSetupKey k)) \<in> set evs \<and>
     sks_Name (osk_SecretKeyRef (osk_Spec k)) \<noteq> '''' \<and> sks_Key (osk_SecretKeyRef (osk_Spec k)) \<noteq> '''')"

definition no_key_read :: "nn \<Rightarrow> event list \<Rightarrow> bool" where
  "no_key_read req evs = (\<forall>a. EGet ''OZSetupKey'' req a \<notin> set evs)"

lemma checks_read_no_key:
  "emits (set_ready r k b rs ms) (\<lambda>_ evs. no_key_read req evs)" "emits (check_secret r uuidOk k) (\<lambda>_ evs. no_key_read req evs)"
  unfolding check_secret_def set_ready_def setStatus_def call_defs no_key_read_def
  by (auto intro!: emits_intros split: sum.split option.split)

lemma Reconcile_refs:
  "emits (OZSetupKey_Reconcile r uuidOk req) (\<lambda>(refs, res, err) evs.
     (\<forall>k. read_key req evs k \<longrightarrow> refs = reference req (secret_key k) (skr_ReferencedSecrets r)) \<and>
     ref_step (skr_ReferencedSecrets r) req refs)"
  unfolding OZSetupKey_Reconcile_def k_get_def OZSetupKeys_def
  by (auto intro!: emits_intros emits_bind [OF checks_read_no_key(1) [where req = req]] emits_bind [OF checks_read_no_key(2) [where req = req]] keep move
      simp: read_key_def no_key_read_def split: sum.split)

lemma reference_unique:
  assumes "refs_ok refs"
  shows "map_of (reference req k refs) k' = Some req \<longleftrightarrow> k' = k"
proof
  assume "map_of (reference req k refs) k' = Some req"
  then have "(k', req) \<in> set (reference req k refs)" by (rule map_of_SomeD)
  moreover have "(k, req) \<in> set (reference req k refs)" using reference_lookup by (rule map_of_SomeD)
  moreover have "distinct (map snd (reference req k refs))" using reference_ok [OF assms] by (simp add: refs_ok_def)
  ultimately show "k' = k" by (metis distinct_map inj_onD prod.inject snd_conv)
qed (simp add: reference_lookup)

section \<open>Readiness\<close>

definition secret_valid :: "(string \<Rightarrow> bool) \<Rightarrow> OZSetupKey \<Rightarrow> event list \<Rightarrow> bool" where
  "secret_valid uuidOk k evs = (\<exists>secret v.
     EGet ''Secret'' (om_Namespace (osk_Meta k), sks_Name (osk_SecretKeyRef (osk_Spec k))) (Inr (KSecret secret)) \<in> set evs \<and>
     gm_get (sec_Data secret) (sks_Key (osk_SecretKeyRef (osk_Spec k))) = Some v \<and> uuidOk v)"

text \<open>A status of the key is written: a single Ready condition, true exactly for a valid secret.\<close>

definition status_written :: "(string \<Rightarrow> bool) \<Rightarrow> OZSetupKey \<Rightarrow> event list \<Rightarrow> goerr option \<Rightarrow> bool" where
  "status_written uuidOk k evs err = (\<exists>reason message now.
     EStatusUpdate (KOZSetupKey (k\<lparr>osk_Status := ready_status (secret_valid uuidOk k evs) reason message now\<rparr>)) err \<in> set evs)"

lemma status_writtenI:
  "b = secret_valid uuidOk k evs \<Longrightarrow>
   EStatusUpdate (KOZSetupKey (k\<lparr>osk_Status := ready_status b reason message now\<rparr>)) err \<in> set evs \<Longrightarrow>
   status_written uuidOk k evs err"
  by (auto simp: status_written_def)

lemma emits_set_ready:
  "emits (set_ready r k b rs ms) (\<lambda>err evs. \<exists>now. evs = [EStatusUpdate (KOZSetupKey (k\<lparr>osk_Status := ready_status b rs ms now\<rparr>)) err])"
  unfolding set_ready_def setStatus_def call_defs by (auto intro!: emits_intros)

lemma check_secret_spec:
  "emits (check_secret r uuidOk k) (\<lambda>err evs. status_written uuidOk k evs err \<or>
     (\<exists>e. err = Some e \<and> EGet ''Secret'' (om_Namespace (osk_Meta k), sks_Name (osk_SecretKeyRef (osk_Spec k))) (Inl e) \<in> set evs))"
  unfolding check_secret_def k_get_def Secrets_def
  by (auto intro!: emits_intros emits_mono [OF emits_set_ready] status_writtenI simp: secret_valid_def
      split: sum.split option.split)

section \<open>Claims\<close>

text \<open>The secret that a setup key refers to, as the watch sees it.\<close>

definition refers_to :: "OZSetupKey \<Rightarrow> Secret \<Rightarrow> bool" where
  "refers_to k secret = (secret_key k = om_Namespace (sec_Meta secret) @ ''/'' @ om_Name (sec_Meta secret))"

text \<open>
  C15. The watch on secrets: whatever reconciliations have happened before, after a reconciliation
  that read a valid \<open>OZSetupKey\<close> a change of a secret triggers this setup key exactly if it is the
  secret the key now refers to; an earlier reference is forgotten, and every setup key has at most
  one secret.
\<close>

theorem setupkey_watch_correct:
  assumes "refs_reachable (skr_ReferencedSecrets r)"
  shows "emits (OZSetupKey_Reconcile r uuidOk req) (\<lambda>(refs, res, err) evs. refs_reachable refs \<and> refs_ok refs \<and>
     (\<forall>k secret. read_key req evs k \<longrightarrow> (secret_watch_requests refs secret = [req] \<longleftrightarrow> refers_to k secret)))"
proof (rule emits_mono [OF Reconcile_refs], clarify)
  fix refs res err evs
  assume ref: "\<forall>k. read_key req evs k \<longrightarrow> refs = reference req (secret_key k) (skr_ReferencedSecrets r)"
    and st: "ref_step (skr_ReferencedSecrets r) req refs"
  have "refs_reachable refs" by (rule refs_reachable.step [OF assms st])
  moreover have "secret_watch_requests refs secret = [req] \<longleftrightarrow> refers_to k secret" if "read_key req evs k" for k secret
  proof -
    let ?k = "om_Namespace (sec_Meta secret) @ ''/'' @ om_Name (sec_Meta secret)"
    have "refs = reference req (secret_key k) (skr_ReferencedSecrets r)" using ref that by blast
    then have "map_of refs ?k = Some req \<longleftrightarrow> ?k = secret_key k"
      using reference_unique [OF refs_reachable_ok [OF assms], of req "secret_key k" ?k] by simp
    moreover have "secret_watch_requests refs secret = [req] \<longleftrightarrow> map_of refs ?k = Some req"
      by (cases "map_of refs ?k") (simp_all add: secret_watch_requests_def)
    ultimately show ?thesis by (auto simp: refers_to_def)
  qed
  ultimately show "refs_reachable refs \<and> refs_ok refs \<and>
     (\<forall>k secret. read_key req evs k \<longrightarrow> (secret_watch_requests refs secret = [req] \<longleftrightarrow> refers_to k secret))"
    using refs_reachable_ok by blast
qed

definition demo_key :: OZSetupKey where
  "demo_key = \<lparr>osk_Meta = zero_ObjectMeta\<lparr>om_Name := ''k'', om_Namespace := ''ns''\<rparr>,
     osk_Spec = \<lparr>osk_SecretKeyRef = \<lparr>sks_Name = ''s'', sks_Key = ''key''\<rparr>, osk_ManagementURL = '''', osk_Volumes = [],
       osk_VolumeMounts = []\<rparr>, osk_Status = \<lparr>osk_Conditions = []\<rparr>\<rparr>"

definition demo_secret :: Secret where
  "demo_secret = \<lparr>sec_Meta = zero_ObjectMeta\<lparr>om_Name := ''s'', om_Namespace := ''ns''\<rparr>,
     sec_Data = Some [(''key'', ''uuid'')], sec_StringData = None\<rparr>"

definition demo_key_env :: "unit OZSetupKeyReconciler" where
  "demo_key_env = \<lparr>skr_Client = down_Client\<lparr>
       c_OZSetupKeys := down_kind\<lparr>kc_get := \<lambda>_ w. (Inr demo_key, w), kc_status_update := \<lambda>k w. (Inr k, w)\<rparr>,
       c_Secrets := down_kind\<lparr>kc_get := \<lambda>_ w. (Inr demo_secret, w)\<rparr>\<rparr>, skr_ReferencedSecrets = []\<rparr>"

lemmas demo_key_defs = demo_key_def demo_secret_def demo_key_env_def call_defs down_defs zero_ObjectMeta_def

theorem setupkey_watch_correct_witness:
  "let (x, t) = run_state (OZSetupKey_Reconcile demo_key_env (\<lambda>_. True) (''ns'', ''k'')) start
   in read_key (''ns'', ''k'') (wlog t) demo_key \<and> secret_watch_requests (fst x) demo_secret = [(''ns'', ''k'')]"
proof -
  let ?m = "OZSetupKey_Reconcile demo_key_env (\<lambda>_. True) (''ns'', ''k'')"
  have run: "read_key (''ns'', ''k'') (wlog (snd (run_state ?m start))) demo_key"
    by (simp add: OZSetupKey_Reconcile_def check_secret_def set_ready_def setStatus_def read_key_def demo_key_defs Let_def
        gm_get_def gm_entries_def)
  have "refs_reachable (skr_ReferencedSecrets demo_key_env)" by (simp add: demo_key_env_def refs_reachable.init)
  from emits_start [OF setupkey_watch_correct [OF this, of "\<lambda>_. True" "(''ns'', ''k'')"]] run
  have "secret_watch_requests (fst (fst (run_state ?m start))) demo_secret = [(''ns'', ''k'')] \<longleftrightarrow> refers_to demo_key demo_secret"
    by (simp add: split_beta)
  moreover have "refers_to demo_key demo_secret"
    by (simp add: refers_to_def secret_key_def demo_key_def demo_secret_def zero_ObjectMeta_def)
  ultimately show ?thesis using run by (simp add: split_beta)
qed

text \<open>
  Readiness: checking the secret either returns the error of a failed read, or writes one
  status of the setup key whose only condition is Ready, true exactly when the referenced secret
  exists, has the referenced entry and the entry is a UUID.
\<close>

theorem setupkey_ready_iff_valid:
  "emits (check_secret r uuidOk k) (\<lambda>err evs. status_written uuidOk k evs err \<or>
     (\<exists>e. err = Some e \<and> EGet ''Secret'' (om_Namespace (osk_Meta k), sks_Name (osk_SecretKeyRef (osk_Spec k))) (Inl e) \<in> set evs))"
  by (rule check_secret_spec)

text \<open>
  Two setup keys cannot share a secret: when the second one is reconciled, the entry of the
  first is overwritten, and a change of the secret no longer triggers the first.
\<close>

theorem setupkey_shared_secret_lost:
  assumes "req1 \<noteq> req2" "refs_ok refs" "secret_key k1 = secret_key k2" "refers_to k1 secret"
  shows "secret_watch_requests (reference req1 (secret_key k1) refs) secret = [req1] \<and>
     secret_watch_requests (reference req2 (secret_key k2) (reference req1 (secret_key k1) refs)) secret = [req2]"
  using assms reference_lookup [of req1 "secret_key k1"] reference_lookup [of req2 "secret_key k2"]
  by (simp add: secret_watch_requests_def refers_to_def)

theorem setupkey_shared_secret_lost_witness:
  "secret_watch_requests (reference (''ns'', ''k1'') (secret_key demo_key) []) demo_secret = [(''ns'', ''k1'')] \<and>
   secret_watch_requests (reference (''ns'', ''k2'') (secret_key demo_key) (reference (''ns'', ''k1'') (secret_key demo_key) [])) demo_secret
     = [(''ns'', ''k2'')]"
  by (rule setupkey_shared_secret_lost)
     (simp_all add: refs_ok_def refers_to_def secret_key_def demo_key_def demo_secret_def zero_ObjectMeta_def)

end
