(* ===== verification/Webhooks.thy ===== *)
theory Webhooks
  imports Constants "HOL-Library.List_Lexorder" "HOL-Library.Char_ord"
begin

text \<open>
  \<open>internal/webhook/v1\<close>: the mutating webhook that injects the openZro client into pods, and the
  validating webhook for deletions of \<open>OZGroup\<close> objects. \<open>selectorMatches\<close> stands for
  \<open>metav1.LabelSelectorAsSelector\<close> with \<open>Matches\<close>, \<open>mergeContainer\<close> for the strategic merge patch of
  a container. Strings are compared bytewise.
\<close>

section \<open>The pod injector\<close>

record 'w PodInjector =
  pi_client :: "'w Client"
  pi_managementURL :: string
  pi_clientImage :: string

definition SidecarProfileAnnotation :: string where "SidecarProfileAnnotation = ''openzro.io/sidecar-profile''"
definition setupKeyAnnotation :: string where "setupKeyAnnotation = ''openzro.io/setup-key''"
definition sidecarAnnotation :: string where "sidecarAnnotation = ''openzro.io/init-sidecar''"
definition extraDNSAnnotation :: string where "extraDNSAnnotation = ''openzro.io/extra-dns-labels''"
definition InjectionModeSidecar :: string where "InjectionModeSidecar = ''Sidecar''"
definition InjectionModeContainer :: string where "InjectionModeContainer = ''Container''"

definition net_admin :: SecurityContext where
  "net_admin = \<lparr>sc_CapabilitiesAdd = [''NET_ADMIN''], sc_Privileged = None\<rparr>"

definition client_env :: "SecretKeySelector \<Rightarrow> string \<Rightarrow> EnvVar list" where
  "client_env ref url =
     [\<lparr>env_Name = ''OZ_SETUP_KEY'', env_Value = '''', env_SecretKeyRef = Some ref\<rparr>,
      \<lparr>env_Name = ''OZ_MANAGEMENT_URL'', env_Value = url, env_SecretKeyRef = None\<rparr>]"

definition dns_env :: "string \<Rightarrow> EnvVar" where
  "dns_env v = \<lparr>env_Name = ''OZ_EXTRA_DNS_LABELS'', env_Value = v, env_SecretKeyRef = None\<rparr>"

definition add_init :: "Container \<Rightarrow> Pod \<Rightarrow> Pod" where
  "add_init c pod = pod\<lparr>pod_InitContainers := pod_InitContainers pod @ [c\<lparr>ct_RestartPolicy := Some ''Always''\<rparr>]\<rparr>"

definition add_container :: "Container \<Rightarrow> Pod \<Rightarrow> Pod" where
  "add_container c pod = pod\<lparr>pod_Containers := pod_Containers pod @ [c]\<rparr>"

text \<open>\<open>for _, c := range conditions { if c.Type == Ready { ready = c.Status == True } }\<close>\<close>

definition key_is_ready :: "OZSetupKey \<Rightarrow> bool" where
  "key_is_ready k = fold (\<lambda>c ready. if ozc_Type c = OZSetupKeyReady then ozc_Status c = ''True'' else ready)
     (osk_Conditions (osk_Status k)) False"

definition legacy_container :: "'w PodInjector \<Rightarrow> Pod \<Rightarrow> OZSetupKey \<Rightarrow> Container" where
  "legacy_container d pod k =
     (let url = (if osk_ManagementURL (osk_Spec k) \<noteq> '''' then osk_ManagementURL (osk_Spec k) else pi_managementURL d);
          extra = gm_val (om_Annotations (pod_Meta pod)) extraDNSAnnotation
      in zero_Container\<lparr>ct_Name := ''openzro'', ct_Image := pi_clientImage d,
           ct_Env := client_env (osk_SecretKeyRef (osk_Spec k)) url @ (if extra \<noteq> '''' then [dns_env extra] else []),
           ct_SecurityContext := Some net_admin, ct_VolumeMounts := osk_VolumeMounts (osk_Spec k)\<rparr>)"

definition legacyInjector :: "'w PodInjector \<Rightarrow> Pod \<Rightarrow> ('w, Pod \<times> goerr option) go" where
  "legacyInjector d pod = do {
     gr \<leftarrow> k_get (OZSetupKeys (pi_client d))
            (om_Namespace (pod_Meta pod), gm_val (om_Annotations (pod_Meta pod)) setupKeyAnnotation);
     State_Monad.return (case gr of
       Inl err \<Rightarrow> (pod, Some err)
     | Inr nbSetupKey \<Rightarrow>
         if \<not> key_is_ready nbSetupKey then (pod, Some (GoError ''OZSetupKey is not ready''))
         else let c = legacy_container d pod nbSetupKey;
                  pod' = (if gm_val (om_Annotations (pod_Meta pod)) sidecarAnnotation = ''true''
                          then add_init c pod else add_container c pod)
              in (pod'\<lparr>pod_Volumes := pod_Volumes pod' @ osk_Volumes (osk_Spec nbSetupKey)\<rparr>, None))
   }"

text \<open>The loop that collects the matching profiles.\<close>

fun matching_profiles ::
  "(LabelSelector \<Rightarrow> gomap \<Rightarrow> goerr + bool) \<Rightarrow> gomap \<Rightarrow> SidecarProfile list \<Rightarrow> goerr + SidecarProfile list" where
  "matching_profiles selectorMatches labels [] = Inr []"
| "matching_profiles selectorMatches labels (p # ps) =
     (let rest = matching_profiles selectorMatches labels ps
      in case sp_PodSelector (sp_Spec p) of
           None \<Rightarrow> map_sum id (Cons p) rest
         | Some sel \<Rightarrow>
             if lsel_Size sel = 0 then map_sum id (Cons p) rest
             else (case selectorMatches sel labels of
                     Inl e \<Rightarrow> Inl e
                   | Inr m \<Rightarrow> if m then map_sum id (Cons p) rest else rest))"

definition profile_container :: "'w PodInjector \<Rightarrow> SidecarProfile \<Rightarrow> SetupKey \<Rightarrow> Container" where
  "profile_container d p k = zero_Container\<lparr>ct_Name := ''openzro'', ct_Image := pi_clientImage d,
     ct_Env := client_env \<lparr>sks_Name = SetupKey_SecretName k, sks_Key = SetupKeySecretKey\<rparr> (pi_managementURL d) @
       (if sp_ExtraDNSLabels (sp_Spec p) \<noteq> [] then [dns_env (str_join '','' (sp_ExtraDNSLabels (sp_Spec p)))] else []),
     ct_SecurityContext := Some net_admin\<rparr>"

text \<open>The end of \<open>Default\<close>: merge the override, inject by mode, record the profile in the annotations.\<close>

definition inject_profile ::
  "(Container \<Rightarrow> ContainerOverride \<Rightarrow> goerr + Container) \<Rightarrow> SidecarProfile \<Rightarrow> Container \<Rightarrow> Pod \<Rightarrow> (Pod \<times> goerr option) outcome" where
  "inject_profile mergeContainer p c0 pod =
     (case (case sp_ContainerOverride (sp_Spec p) of None \<Rightarrow> Inr c0 | Some ov \<Rightarrow> mergeContainer c0 ov) of
        Inl e \<Rightarrow> Returned (pod, Some e)
      | Inr c \<Rightarrow>
          if sp_InjectionMode (sp_Spec p) \<noteq> InjectionModeSidecar \<and> sp_InjectionMode (sp_Spec p) \<noteq> InjectionModeContainer
          then Returned (pod, Some (GoError (''unknown injection mode '' @ sp_InjectionMode (sp_Spec p))))
          else let pod' = (if sp_InjectionMode (sp_Spec p) = InjectionModeSidecar then add_init c pod else add_container c pod)
               in case gm_put SidecarProfileAnnotation (om_Name (sp_Meta p)) (om_Annotations (pod_Meta pod')) of
                    None \<Rightarrow> Panicked ''assignment to entry in nil map''
                  | Some ann \<Rightarrow> Returned (pod'\<lparr>pod_Meta := (pod_Meta pod')\<lparr>om_Annotations := ann\<rparr>\<rparr>, None))"

text \<open>\<open>slices.SortFunc\<close> by name and the first element; the names of a namespace are unique.\<close>

definition first_profile :: "SidecarProfile list \<Rightarrow> SidecarProfile option" where
  "first_profile ps = (case sort_key (\<lambda>p. om_Name (sp_Meta p)) ps of [] \<Rightarrow> None | p # _ \<Rightarrow> Some p)"

definition Pod_Default ::
  "'w PodInjector \<Rightarrow> (LabelSelector \<Rightarrow> gomap \<Rightarrow> goerr + bool) \<Rightarrow> (Container \<Rightarrow> ContainerOverride \<Rightarrow> goerr + Container) \<Rightarrow>
     Pod \<Rightarrow> ('w, (Pod \<times> goerr option) outcome) go" where
  "Pod_Default d selectorMatches mergeContainer pod =
     (if gm_val (om_Annotations (pod_Meta pod)) setupKeyAnnotation \<noteq> ''''
      then do { x \<leftarrow> legacyInjector d pod; State_Monad.return (Returned x) }
      else do {
        lr \<leftarrow> k_list (SidecarProfiles (pi_client d)) (Some (om_Namespace (pod_Meta pod)));
        (case lr of
           Inl err \<Rightarrow> State_Monad.return (Returned (pod, Some err))
         | Inr items \<Rightarrow>
             (case matching_profiles selectorMatches (om_Labels (pod_Meta pod)) items of
                Inl e \<Rightarrow> State_Monad.return (Returned (pod, Some e))
              | Inr ps \<Rightarrow>
                  (case first_profile ps of
                     None \<Rightarrow> State_Monad.return (Returned (pod, None))
                   | Some p \<Rightarrow> do {
                       gr \<leftarrow> k_get (AlphaSetupKeys (pi_client d)) (om_Namespace (pod_Meta pod), sp_SetupKeyRef (sp_Spec p));
                       State_Monad.return (case gr of
                         Inl err \<Rightarrow> Returned (pod, Some err)
                       | Inr setupKey \<Rightarrow> inject_profile mergeContainer p (profile_container d p setupKey) pod) }))) })"

section \<open>The validator of group deletions\<close>

text \<open>
  \<open>(&openzrov1.OZResource{}).Kind\<close> and \<open>(&openzrov1.OZRoutingPeer{}).Kind\<close>: the kind of a fresh
  object, whose type metadata is the zero value.
\<close>

definition fresh_kind :: string where
  "fresh_kind = tm_Kind zero_TypeMeta"

definition attached :: "string \<Rightarrow> OZGroup \<Rightarrow> OwnerReference \<Rightarrow> goerr" where
  "attached kind g o' = GoError (''group attached to '' @ kind @ '' '' @ om_Namespace (ozg_Meta g) @ ''/'' @ or_Name o')"

definition ValidateDelete :: "'w Client \<Rightarrow> OZGroup \<Rightarrow> ('w, goerr option) go" where
  "ValidateDelete c g = do {
     l \<leftarrow> for_each (om_OwnerReferences (ozg_Meta g)) () (\<lambda>o' _. do {
       e1 \<leftarrow> (if or_Kind o' = fresh_kind
             then do {
               gr \<leftarrow> k_get (OZResources c) (om_Namespace (ozg_Meta g), or_Name o');
               State_Monad.return (case gr of
                 Inl err \<Rightarrow> if k_IsNotFound err then None else Some err
               | Inr x \<Rightarrow> if om_DeletionTimestamp (ozr_Meta x) = None then Some (attached KindOZResource g o') else None) }
             else State_Monad.return None);
       (case e1 of
          Some e \<Rightarrow> State_Monad.return (Inl e)
        | None \<Rightarrow>
            if or_Kind o' = fresh_kind
            then do {
              gr \<leftarrow> k_get (OZRoutingPeers c) (om_Namespace (ozg_Meta g), or_Name o');
              State_Monad.return (case gr of
                Inl err \<Rightarrow> if k_IsNotFound err then Inr () else Inl err
              | Inr x \<Rightarrow> if om_DeletionTimestamp (orp_Meta x) = None then Inl (attached KindOZRoutingPeer g o') else Inr ()) }
            else State_Monad.return (Inr ())) });
     State_Monad.return (case l of Inl e \<Rightarrow> Some e | Inr _ \<Rightarrow> None)
   }"

section \<open>Facts\<close>

definition profile_matches :: "(LabelSelector \<Rightarrow> gomap \<Rightarrow> goerr + bool) \<Rightarrow> gomap \<Rightarrow> SidecarProfile \<Rightarrow> bool" where
  "profile_matches selectorMatches labels p = (case sp_PodSelector (sp_Spec p) of
     None \<Rightarrow> True | Some sel \<Rightarrow> lsel_Size sel = 0 \<or> selectorMatches sel labels = Inr True)"

lemma matching_profiles_spec:
  "matching_profiles sm labels ps = Inr qs \<Longrightarrow> qs = filter (profile_matches sm labels) ps"
proof (induction ps arbitrary: qs)
  case (Cons p ps)
  then show ?case
    by (auto simp: profile_matches_def map_sum_eq_Inr Let_def split: option.splits sum.splits if_splits)
qed simp

lemma first_profile_None: "first_profile ps = None \<longleftrightarrow> ps = []"
  by (auto simp: first_profile_def split: list.splits) (metis length_0_conv length_sort)

lemma first_profile_least:
  assumes "first_profile ps = Some p"
  shows "p \<in> set ps \<and> (\<forall>q \<in> set ps. om_Name (sp_Meta p) \<le> om_Name (sp_Meta q))"
proof -
  let ?f = "\<lambda>p. om_Name (sp_Meta p)"
  obtain rest where eq: "sort_key ?f ps = p # rest"
    using assms by (auto simp: first_profile_def split: list.splits)
  have "sorted (map ?f (p # rest))" unfolding eq [symmetric] by simp
  moreover have "set ps = set (p # rest)" unfolding eq [symmetric] by simp
  ultimately show ?thesis by auto
qed

text \<open>The result of an injection: one container is appended, everything else but the annotations and volumes stays.\<close>

definition injected :: "Pod \<Rightarrow> Pod \<Rightarrow> bool" where
  "injected pod pod' = (\<exists>c.
     (pod_Containers pod' = pod_Containers pod @ [c] \<and> pod_InitContainers pod' = pod_InitContainers pod \<or>
      pod_InitContainers pod' = pod_InitContainers pod @ [c] \<and> ct_RestartPolicy c = Some ''Always'' \<and>
      pod_Containers pod' = pod_Containers pod) \<and>
     (\<exists>vs. pod_Volumes pod' = pod_Volumes pod @ vs) \<and>
     (\<exists>ann. pod_Meta pod' = (pod_Meta pod)\<lparr>om_Annotations := ann\<rparr>))"

lemma injectedI:
  "injected pod (add_init c pod)" "injected pod (add_container c pod)"
  "injected pod pod' \<Longrightarrow> injected pod (pod'\<lparr>pod_Volumes := pod_Volumes pod' @ vs\<rparr>)"
  "injected pod pod' \<Longrightarrow> injected pod (pod'\<lparr>pod_Meta := (pod_Meta pod')\<lparr>om_Annotations := ann\<rparr>\<rparr>)"
proof -
  have same: "\<exists>ann. pod_Meta pod = (pod_Meta pod)\<lparr>om_Annotations := ann\<rparr>" for pod
    by (rule exI [of _ "om_Annotations (pod_Meta pod)"]) simp
  show "injected pod (add_init c pod)" "injected pod (add_container c pod)"
    using same by (auto simp: injected_def add_init_def add_container_def)
  show "injected pod pod' \<Longrightarrow> injected pod (pod'\<lparr>pod_Volumes := pod_Volumes pod' @ vs\<rparr>)"
    "injected pod pod' \<Longrightarrow> injected pod (pod'\<lparr>pod_Meta := (pod_Meta pod')\<lparr>om_Annotations := ann\<rparr>\<rparr>)"
    by (auto simp: injected_def)
qed

text \<open>The profile that is used: a least one by name among those of the listing that match.\<close>

definition profile_chosen :: "(LabelSelector \<Rightarrow> gomap \<Rightarrow> goerr + bool) \<Rightarrow> Pod \<Rightarrow> event list \<Rightarrow> SidecarProfile \<Rightarrow> bool" where
  "profile_chosen sm pod evs p = (\<exists>items. EList ''SidecarProfile'' (Inr (map KSidecarProfile items)) \<in> set evs \<and>
     p \<in> set items \<and> profile_matches sm (om_Labels (pod_Meta pod)) p \<and>
     (\<forall>q \<in> set items. profile_matches sm (om_Labels (pod_Meta pod)) q \<longrightarrow> om_Name (sp_Meta p) \<le> om_Name (sp_Meta q)))"

lemma inject_profile_spec:
  "inject_profile mc p c pod = Returned (pod', err) \<Longrightarrow> (err \<noteq> None \<and> pod' = pod) \<or>
     (err = None \<and> injected pod pod' \<and> gm_get (om_Annotations (pod_Meta pod')) SidecarProfileAnnotation = Some (om_Name (sp_Meta p)))"
  by (auto simp: inject_profile_def Let_def gm_get_put intro!: injectedI split: sum.splits option.splits if_splits)

text \<open>The last condition of type Ready decides.\<close>

lemma ready_fold:
  "fold (\<lambda>c ready. if ozc_Type c = OZSetupKeyReady then ozc_Status c = ''True'' else ready) cs False =
     (case find_last (\<lambda>c. ozc_Type c = OZSetupKeyReady) cs of None \<Rightarrow> False | Some c \<Rightarrow> ozc_Status c = ''True'')"
  by (induction cs rule: rev_induct) (auto simp: find_last_snoc)

lemma key_is_ready_last:
  "key_is_ready k \<longleftrightarrow> (\<exists>c. find_last (\<lambda>c. ozc_Type c = OZSetupKeyReady) (osk_Conditions (osk_Status k)) = Some c \<and> ozc_Status c = ''True'')"
  by (simp add: key_is_ready_def ready_fold split: option.split)

definition none_matches :: "(LabelSelector \<Rightarrow> gomap \<Rightarrow> goerr + bool) \<Rightarrow> Pod \<Rightarrow> event list \<Rightarrow> bool" where
  "none_matches sm pod evs = (\<exists>items. EList ''SidecarProfile'' (Inr (map KSidecarProfile items)) \<in> set evs \<and>
     (\<forall>q \<in> set items. \<not> profile_matches sm (om_Labels (pod_Meta pod)) q))"

definition injection_outcome ::
  "(LabelSelector \<Rightarrow> gomap \<Rightarrow> goerr + bool) \<Rightarrow> Pod \<Rightarrow> (Pod \<times> goerr option) outcome \<Rightarrow> event list \<Rightarrow> bool" where
  "injection_outcome sm pod out evs = (case out of
     Returned (pod', Some e) \<Rightarrow> pod' = pod
   | Returned (pod', None) \<Rightarrow> (pod' = pod \<and> none_matches sm pod evs) \<or>
       (\<exists>p. profile_chosen sm pod evs p \<and> injected pod pod' \<and>
          gm_get (om_Annotations (pod_Meta pod')) SidecarProfileAnnotation = Some (om_Name (sp_Meta p)))
   | Panicked m \<Rightarrow> om_Annotations (pod_Meta pod) = None \<and> (\<exists>p. profile_chosen sm pod evs p))"

lemma inject_profile_panics: "inject_profile mc p c pod = Panicked m \<Longrightarrow> om_Annotations (pod_Meta pod) = None"
  by (auto simp: inject_profile_def Let_def gm_put_def add_init_def add_container_def split: sum.splits option.splits if_splits)

lemma injection_step:
  "profile_chosen sm pod evs p \<Longrightarrow> injection_outcome sm pod (inject_profile mc p c pod) evs"
  by (cases "inject_profile mc p c pod")
     (auto simp: injection_outcome_def dest!: inject_profile_spec inject_profile_panics split: option.split)

lemma legacyInjector_spec:
  "emits (legacyInjector d pod) (\<lambda>(pod', err) evs.
     (err \<noteq> None \<and> pod' = pod) \<or>
     (err = None \<and> injected pod pod' \<and> (\<exists>k.
        EGet ''OZSetupKey'' (om_Namespace (pod_Meta pod), gm_val (om_Annotations (pod_Meta pod)) setupKeyAnnotation) (Inr (KOZSetupKey k)) \<in> set evs \<and>
        key_is_ready k)))"
  unfolding legacyInjector_def k_get_def OZSetupKeys_def
  by (auto intro!: emits_intros injectedI simp: Let_def split: sum.splits if_splits)

section \<open>Claims\<close>


definition demo_pod :: "gomap \<Rightarrow> Pod" where
  "demo_pod ann = \<lparr>pod_Meta = zero_ObjectMeta\<lparr>om_Name := ''p'', om_Namespace := ''ns'', om_Annotations := ann\<rparr>,
     pod_InitContainers = [], pod_Containers = [zero_Container], pod_Volumes = []\<rparr>"

definition demo_profile :: SidecarProfile where
  "demo_profile = \<lparr>sp_Meta = zero_ObjectMeta\<lparr>om_Name := ''prof''\<rparr>, sp_Spec = \<lparr>sp_SetupKeyRef = ''sk'', sp_PodSelector = None,
     sp_InjectionMode = InjectionModeSidecar, sp_ExtraDNSLabels = [], sp_ContainerOverride = None\<rparr>\<rparr>"

definition demo_injector :: "unit PodInjector" where
  "demo_injector = \<lparr>pi_client = down_Client\<lparr>
       c_SidecarProfiles := down_kind\<lparr>kc_list := \<lambda>_ w. (Inr [demo_profile], w)\<rparr>,
       c_AlphaSetupKeys := down_kind\<lparr>kc_get := \<lambda>_ w. (Inr \<lparr>sk_Meta = zero_ObjectMeta\<lparr>om_Name := ''sk''\<rparr>,
         sk_Spec = \<lparr>sk_Name = ''sk'', sk_Ephemeral = False, sk_Duration = None, sk_AutoGroups = []\<rparr>, sk_Conditions = [],
         sk_SetupKeyID = ''1''\<rparr>, w)\<rparr>,
       c_OZSetupKeys := down_kind\<lparr>kc_get := \<lambda>_ w. (Inr \<lparr>osk_Meta = zero_ObjectMeta,
         osk_Spec = \<lparr>osk_SecretKeyRef = \<lparr>sks_Name = ''s'', sks_Key = ''k''\<rparr>, osk_ManagementURL = '''', osk_Volumes = [], osk_VolumeMounts = []\<rparr>,
         osk_Status = \<lparr>osk_Conditions = OZConditionTrue 0 0\<rparr>\<rparr>, w)\<rparr>\<rparr>,
     pi_managementURL = ''https://m'', pi_clientImage = ''img''\<rparr>"

lemmas demo_pod_defs = demo_pod_def demo_profile_def demo_injector_def call_defs down_defs zero_ObjectMeta_def


text \<open>
  Pods without annotations are not admitted: the profile's name is written into the pod's
  annotations without creating the map, so a matching profile and an existing setup key make the
  webhook panic for every pod that has no annotation.
\<close>

theorem pod_injection_panics:
  assumes "om_Annotations (pod_Meta pod) = None"
    and "kc_list (c_SidecarProfiles (pi_client d)) (Some (om_Namespace (pod_Meta pod))) (wenv s) = (Inr items, w1)"
    and "matching_profiles sm (om_Labels (pod_Meta pod)) items = Inr ps" "first_profile ps = Some p"
    and "kc_get (c_AlphaSetupKeys (pi_client d)) (om_Namespace (pod_Meta pod), sp_SetupKeyRef (sp_Spec p)) w1 = (Inr k, w2)"
    and "sp_ContainerOverride (sp_Spec p) = None" "sp_InjectionMode (sp_Spec p) = InjectionModeSidecar"
  shows "fst (run_state (Pod_Default d sm mc pod) s) = Panicked ''assignment to entry in nil map''"
  using assms
  by (simp add: Pod_Default_def gm_val_def call_defs inject_profile_def add_init_def Let_def)

theorem pod_injection_panics_witness:
  "fst (run_state (Pod_Default demo_injector (\<lambda>_ _. Inr True) (\<lambda>c _. Inr c) (demo_pod None)) start) =
     Panicked ''assignment to entry in nil map''"
  by (rule pod_injection_panics [where items = "[demo_profile]" and ps = "[demo_profile]" and p = demo_profile and ?w1.0 = "()"
        and ?w2.0 = "()"])
     (simp_all add: demo_pod_defs first_profile_def)

text \<open>
  Legacy injection: the pod is changed only when its setup key object was read and the last of
  its Ready conditions is true; then exactly one container and the key's volumes are appended.
\<close>

theorem pod_legacy_injection_correct:
  "emits (legacyInjector d pod) (\<lambda>(pod', err) evs.
     (err \<noteq> None \<and> pod' = pod) \<or>
     (err = None \<and> injected pod pod' \<and> (\<exists>k c.
        EGet ''OZSetupKey'' (om_Namespace (pod_Meta pod), gm_val (om_Annotations (pod_Meta pod)) setupKeyAnnotation) (Inr (KOZSetupKey k)) \<in> set evs \<and>
        find_last (\<lambda>c. ozc_Type c = OZSetupKeyReady) (osk_Conditions (osk_Status k)) = Some c \<and> ozc_Status c = ''True'')))"
  by (rule emits_mono [OF legacyInjector_spec]) (auto simp: key_is_ready_last)

text \<open>
  The deletion webhook blocks nothing: it compares the owner's kind with the kind of a fresh
  object, which is the empty string, so for owners with any real kind the deletion of a group is
  allowed without a single lookup, even while an \<open>OZResource\<close> or \<open>OZRoutingPeer\<close> uses the group.
\<close>

theorem group_delete_never_blocked:
  assumes "\<forall>o' \<in> set (om_OwnerReferences (ozg_Meta g)). or_Kind o' \<noteq> ''''"
  shows "run_state (ValidateDelete c g) s = (None, s)"
proof -
  have kind: "fresh_kind = ''''" by (simp add: fresh_kind_def zero_TypeMeta_def)
  have "run_state (for_each os () (\<lambda>o' _. do {
       e1 \<leftarrow> (if or_Kind o' = fresh_kind
             then do {
               gr \<leftarrow> k_get (OZResources c) (om_Namespace (ozg_Meta g), or_Name o');
               State_Monad.return (case gr of
                 Inl err \<Rightarrow> if k_IsNotFound err then None else Some err
               | Inr x \<Rightarrow> if om_DeletionTimestamp (ozr_Meta x) = None then Some (attached KindOZResource g o') else None) }
             else State_Monad.return None);
       (case e1 of
          Some e \<Rightarrow> State_Monad.return (Inl e)
        | None \<Rightarrow>
            if or_Kind o' = fresh_kind
            then do {
              gr \<leftarrow> k_get (OZRoutingPeers c) (om_Namespace (ozg_Meta g), or_Name o');
              State_Monad.return (case gr of
                Inl err \<Rightarrow> if k_IsNotFound err then Inr () else Inl err
              | Inr x \<Rightarrow> if om_DeletionTimestamp (orp_Meta x) = None then Inl (attached KindOZRoutingPeer g o') else Inr ()) }
            else State_Monad.return (Inr ())) })) s = (Inr (), s)"
    if "\<forall>o' \<in> set os. or_Kind o' \<noteq> ''''" for os
    using that by (induction os) (simp_all add: kind)
  from this [OF assms] show ?thesis by (simp add: ValidateDelete_def)
qed

theorem group_delete_never_blocked_witness:
  "run_state (ValidateDelete down_Client \<lparr>ozg_Meta = zero_ObjectMeta\<lparr>om_OwnerReferences :=
       [\<lparr>or_APIVersion = GroupVersion, or_Kind = KindOZResource, or_Name = ''svc'', or_UID = ''u'', or_Controller = None,
         or_BlockOwnerDeletion = Some True\<rparr>]\<rparr>,
     ozg_Spec = \<lparr>ozg_Name = ''g''\<rparr>, ozg_Status = \<lparr>ozg_GroupID = None, ozg_Conditions = []\<rparr>\<rparr>) start = (None, start)"
  by (rule group_delete_never_blocked) (simp add: KindOZResource_def)

end
