(* ===== verification/SetupKey_Controller.thy ===== *)
theory SetupKey_Controller
  imports Alpha_Common
begin

text \<open>
  \<open>internal/controller/setupkey_controller.go\<close>: the controller of v1alpha1 setup keys. The conversion of
  a duration to whole seconds goes through a floating-point number and is the field \<open>skc_seconds\<close>.
\<close>

section \<open>The controller\<close>

record 'w SetupKeyReconciler =
  skc_Client :: "'w Client"
  skc_OpenZro :: "'w OpenZro"
  skc_seconds :: "int \<Rightarrow> int"

definition set_sk_finalizers :: "(string list \<Rightarrow> string list) \<Rightarrow> SetupKey \<Rightarrow> SetupKey" where
  "set_sk_finalizers f k = k\<lparr>sk_Meta := (sk_Meta k)\<lparr>om_Finalizers := f (om_Finalizers (sk_Meta k))\<rparr>\<rparr>"

definition SetupKey_guarded :: "'w SetupKeyReconciler \<Rightarrow> SetupKey \<Rightarrow> SetupKey" where
  "SetupKey_guarded r = set_sk_finalizers (AddFinalizer (skc_Client r) (Finalizer ''setupkey''))"

definition SetupKey_released :: "'w SetupKeyReconciler \<Rightarrow> SetupKey \<Rightarrow> SetupKey" where
  "SetupKey_released r = set_sk_finalizers (RemoveFinalizer (skc_Client r) (Finalizer ''setupkey''))"

definition SetupKey_reconcileDelete :: "'w SetupKeyReconciler \<Rightarrow> SetupKey \<Rightarrow> ('w, Result \<times> goerr option) go" where
  "SetupKey_reconcileDelete r setupKey = do {
     e1 \<leftarrow> delete_recorded (SetupKeys (skc_OpenZro r)) (nonempty (sk_SetupKeyID setupKey));
     (case e1 of
        Some err \<Rightarrow> State_Monad.return (zero_Result, Some err)
      | None \<Rightarrow> do {
          pr \<leftarrow> k_patch (AlphaSetupKeys (skc_Client r)) (SetupKey_released r setupKey);
          State_Monad.return (zero_Result, err_of pr) })
   }"

text \<open>\<open>s[:5]\<close>\<close>

definition first5 :: "string \<Rightarrow> string outcome" where
  "first5 s = (if length s < 5 then Panicked ''slice bounds out of range'' else Returned (take 5 s))"

text \<open>The comparison of the key's visible prefix with the secret.\<close>

definition same_prefix :: "ApiSetupKey \<Rightarrow> Secret \<Rightarrow> bool outcome" where
  "same_prefix resp secret =
     (case first5 (ask_Key resp) of
        Panicked m \<Rightarrow> Panicked m
      | Returned a \<Rightarrow>
          (case first5 (gm_val (sec_Data secret) SetupKeySecretKey) of
             Panicked m \<Rightarrow> Panicked m
           | Returned b \<Rightarrow> Returned (a = b)))"

text \<open>The function literal that checks whether the setup key is up to date.\<close>

definition key_up_to_date ::
  "'w SetupKeyReconciler \<Rightarrow> nn \<Rightarrow> SetupKey \<Rightarrow> string list \<Rightarrow> ('w, (goerr + bool) outcome) go" where
  "key_up_to_date r req setupKey autoGroupIDs =
     (if sk_SetupKeyID setupKey = '''' then State_Monad.return (Returned (Inr False))
      else do {
        gr \<leftarrow> o_get (SetupKeys (skc_OpenZro r)) (sk_SetupKeyID setupKey);
        (case gr of
           Inl err \<Rightarrow> State_Monad.return (Returned (if o_IsNotFound err then Inr False else Inl err))
         | Inr resp \<Rightarrow>
             if ask_State resp = ''overused'' then State_Monad.return (Returned (Inl (GoError ''setup key is overused'')))
             else if ask_State resp \<noteq> ''valid'' then State_Monad.return (Returned (Inr False))
             else do {
               sr \<leftarrow> k_get (Secrets (skc_Client r)) (fst req, SetupKey_SecretName setupKey);
               (case sr of
                  Inl err \<Rightarrow> State_Monad.return (Returned (if k_IsNotFound err then Inr False else Inl err))
                | Inr secret \<Rightarrow>
                    (case same_prefix resp secret of
                       Panicked m \<Rightarrow> State_Monad.return (Panicked m)
                     | Returned False \<Rightarrow> State_Monad.return (Returned (Inr False))
                     | Returned True \<Rightarrow> do {
                         ur \<leftarrow> o_update (SetupKeys (skc_OpenZro r)) (sk_SetupKeyID setupKey) autoGroupIDs;
                         State_Monad.return (Returned (case ur of Inl err \<Rightarrow> Inl err | Inr _ \<Rightarrow> Inr True)) })) }) })"

definition new_key_request :: "'w SetupKeyReconciler \<Rightarrow> SetupKey \<Rightarrow> string list \<Rightarrow> SetupKeyRequest" where
  "new_key_request r setupKey autoGroupIDs =
     \<lparr>skr_AllowExtraDnsLabels = Some False, skr_AutoGroups = autoGroupIDs,
      skr_Ephemeral = Some (sk_Ephemeral (sk_Spec setupKey)),
      skr_ExpiresIn = (case sk_Duration (sk_Spec setupKey) of None \<Rightarrow> 0 | Some d \<Rightarrow> skc_seconds r d),
      skr_Name = sk_Name (sk_Spec setupKey), skr_Type = ''reusable'', skr_UsageLimit = 0\<rparr>"

definition key_secret :: "OwnerReference \<Rightarrow> nn \<Rightarrow> SetupKey \<Rightarrow> string \<Rightarrow> Secret" where
  "key_secret owner req setupKey key =
     \<lparr>sec_Meta = zero_ObjectMeta\<lparr>om_Name := SetupKey_SecretName setupKey, om_Namespace := fst req,
        om_OwnerReferences := [owner]\<rparr>,
      sec_Data = None, sec_StringData = Some [(SetupKeySecretKey, key)]\<rparr>"

definition SetupKey_ready :: "'w SetupKeyReconciler \<Rightarrow> SetupKey \<Rightarrow> SetupKey" where
  "SetupKey_ready r k = k\<lparr>sk_Conditions := mark_ready (skc_Client r) (sk_Conditions k)\<rparr>"

text \<open>The setup key does not exist or is outdated: create one, store it, and delete the old one.\<close>

definition recreate_key ::
  "'w SetupKeyReconciler \<Rightarrow> OwnerReference \<Rightarrow> nn \<Rightarrow> SetupKey \<Rightarrow> string list \<Rightarrow> ('w, Result \<times> goerr option) go" where
  "recreate_key r owner req setupKey autoGroupIDs = do {
     let oldSetupKeyID = sk_SetupKeyID setupKey;
     cr \<leftarrow> o_create (SetupKeys (skc_OpenZro r)) (new_key_request r setupKey autoGroupIDs);
     (case cr of
        Inl err \<Rightarrow> State_Monad.return (zero_Result, Some err)
      | Inr resp \<Rightarrow> do {
          pr \<leftarrow> k_patch (AlphaSetupKeys (skc_Client r)) (setupKey\<lparr>sk_SetupKeyID := ask_Id resp\<rparr>);
          (case pr of
             Inl err \<Rightarrow> State_Monad.return (zero_Result, Some err)
           | Inr k2 \<Rightarrow> do {
               ar \<leftarrow> k_apply (Secrets (skc_Client r)) (key_secret owner req k2 (ask_Key resp));
               (case ar of
                  Some err \<Rightarrow> State_Monad.return (zero_Result, Some err)
                | None \<Rightarrow> do {
                    de \<leftarrow> delete_recorded (SetupKeys (skc_OpenZro r)) (nonempty oldSetupKeyID);
                    (case de of
                       Some err \<Rightarrow> State_Monad.return (zero_Result, Some err)
                     | None \<Rightarrow> do {
                         pr2 \<leftarrow> k_patch (AlphaSetupKeys (skc_Client r)) (SetupKey_ready r k2);
                         State_Monad.return (case pr2 of
                           Inl err \<Rightarrow> (zero_Result, Some err)
                         | Inr _ \<Rightarrow> (requeue_after (15 * Minute), None)) }) }) }) })
   }"

definition SetupKey_sync ::
  "'w SetupKeyReconciler \<Rightarrow> OwnerReference \<Rightarrow> nn \<Rightarrow> SetupKey \<Rightarrow> ('w, (Result \<times> goerr option) outcome) go" where
  "SetupKey_sync r owner req setupKey = do {
     gr \<leftarrow> GetGroupIDs (skc_Client r) (skc_OpenZro r) (sk_AutoGroups (sk_Spec setupKey)) (om_Namespace (sk_Meta setupKey));
     (case gr of
        Inl err \<Rightarrow> State_Monad.return (Returned (zero_Result, Some err))
      | Inr autoGroupIDs \<Rightarrow> do {
          pr \<leftarrow> k_patch (AlphaSetupKeys (skc_Client r)) (SetupKey_guarded r setupKey);
          (case pr of
             Inl err \<Rightarrow> State_Monad.return (Returned (zero_Result, Some err))
           | Inr k1 \<Rightarrow> do {
               ok \<leftarrow> key_up_to_date r req k1 autoGroupIDs;
               (case ok of
                  Panicked m \<Rightarrow> State_Monad.return (Panicked m)
                | Returned (Inl err) \<Rightarrow> State_Monad.return (Returned (zero_Result, Some err))
                | Returned (Inr True) \<Rightarrow> State_Monad.return (Returned (requeue_after (15 * Minute), None))
                | Returned (Inr False) \<Rightarrow> do {
                    x \<leftarrow> recreate_key r owner req k1 autoGroupIDs;
                    State_Monad.return (Returned x) }) }) })
   }"

definition SetupKey_body ::
  "'w SetupKeyReconciler \<Rightarrow> nn \<Rightarrow> SetupKey \<Rightarrow> ('w, (Result \<times> goerr option) outcome) go" where
  "SetupKey_body r req setupKey =
     (case ControllerReference (skc_Client r) (KSetupKey setupKey) (sk_Meta setupKey) of
        Inl err \<Rightarrow> State_Monad.return (Returned (zero_Result, Some err))
      | Inr owner \<Rightarrow>
          if om_DeletionTimestamp (sk_Meta setupKey) \<noteq> None
          then do { x \<leftarrow> SetupKey_reconcileDelete r setupKey; State_Monad.return (Returned x) }
          else SetupKey_sync r owner req setupKey)"

definition SetupKey_Reconcile :: "'w SetupKeyReconciler \<Rightarrow> nn \<Rightarrow> ('w, (Result \<times> goerr option) outcome) go" where
  "SetupKey_Reconcile r req = do {
     gr \<leftarrow> k_get (AlphaSetupKeys (skc_Client r)) req;
     (case gr of
        Inl err \<Rightarrow> State_Monad.return (Returned (zero_Result, IgnoreNotFound err))
      | Inr setupKey \<Rightarrow> SetupKey_body r req setupKey)
   }"

section \<open>Properties\<close>

lemma SetupKey_delete_spec:
  "emits (SetupKey_reconcileDelete r k) (\<lambda>_ evs. no_creates evs \<and>
     patches_only (\<lambda>o'. o' = KSetupKey (SetupKey_released r k) \<and> gone CSetupKeys (nonempty (sk_SetupKeyID k)) evs) evs)"
  unfolding SetupKey_reconcileDelete_def k_patch_def AlphaSetupKeys_def
  by (rule emits_bind [OF emits_delete_recorded])
     (auto intro!: emits_intros simp: SetupKeys_def split: option.splits)

text \<open>
  The calls that find a key up to date: it is valid upstream, the secret starts with the same five
  characters, and its groups are set to the wanted ones.
\<close>

definition key_kept :: "nn \<Rightarrow> SetupKey \<Rightarrow> string list \<Rightarrow> event list \<Rightarrow> bool" where
  "key_kept req k ids evs \<longleftrightarrow> (\<exists>resp secret a.
     evs = [OGet CSetupKeys (sk_SetupKeyID k) (Inr (RSetupKey resp)),
            EGet ''Secret'' (fst req, SetupKey_SecretName k) (Inr (KSecret secret)),
            OUpdate CSetupKeys (sk_SetupKeyID k) (QSetupKeyGroups ids) (Inr a)] \<and>
     ask_State resp = ''valid'' \<and> same_prefix resp secret = Returned True)"

text \<open>A run panics only on a key or a secret entry of fewer than five characters.\<close>

definition short_key :: "nn \<Rightarrow> SetupKey \<Rightarrow> event list \<Rightarrow> bool" where
  "short_key req k evs \<longleftrightarrow> (\<exists>resp secret.
     OGet CSetupKeys (sk_SetupKeyID k) (Inr (RSetupKey resp)) \<in> set evs \<and>
     EGet ''Secret'' (fst req, SetupKey_SecretName k) (Inr (KSecret secret)) \<in> set evs \<and>
     (length (ask_Key resp) < 5 \<or> length (gm_val (sec_Data secret) SetupKeySecretKey) < 5))"

lemma same_prefix_Panicked:
  "same_prefix resp secret = Panicked m \<Longrightarrow> length (ask_Key resp) < 5 \<or> length (gm_val (sec_Data secret) SetupKeySecretKey) < 5"
  by (auto simp: same_prefix_def first5_def split: if_splits)

definition check_outcome :: "nn \<Rightarrow> SetupKey \<Rightarrow> string list \<Rightarrow> (goerr + bool) outcome \<Rightarrow> event list \<Rightarrow> bool" where
  "check_outcome req k ids out evs =
     (case out of
        Panicked m \<Rightarrow> short_key req k evs \<and> (\<forall>e \<in> set evs. \<not> is_write e)
      | Returned (Inl err) \<Rightarrow> no_creates evs \<and> (\<forall>x er. EPatch x er \<notin> set evs) \<and> (\<forall>c i er. ODelete c i er \<notin> set evs)
      | Returned (Inr ok) \<Rightarrow> if ok then key_kept req k ids evs else \<forall>e \<in> set evs. \<not> is_write e)"

lemma emits_key_up_to_date: "emits (key_up_to_date r req k ids) (check_outcome req k ids)"
  unfolding key_up_to_date_def call_defs
  by (auto intro!: emits_intros simp: check_outcome_def key_kept_def short_key_def dest!: same_prefix_Panicked
       split: sum.splits outcome.splits bool.splits)

text \<open>
  The calls of a successful renewal: the new key is created, its ID stored, the secret written; only
  then the old key is deleted, and last the object is marked Ready.
\<close>

definition key_renewed ::
  "'w SetupKeyReconciler \<Rightarrow> OwnerReference \<Rightarrow> nn \<Rightarrow> SetupKey \<Rightarrow> string list \<Rightarrow> event list \<Rightarrow> bool" where
  "key_renewed r owner req k ids evs \<longleftrightarrow> (\<exists>resp k2 k3 del.
     evs = [OCreate CSetupKeys (QSetupKey (new_key_request r k ids)) (Inr (RSetupKey resp)),
            EPatch (KSetupKey (k\<lparr>sk_SetupKeyID := ask_Id resp\<rparr>)) (Inr (KSetupKey k2)),
            EApply (KSecret (key_secret owner req k2 (ask_Key resp))) None] @ del @
           [EPatch (KSetupKey (SetupKey_ready r k2)) (Inr (KSetupKey k3))] \<and>
     gone CSetupKeys (nonempty (sk_SetupKeyID k)) del)"

lemma recreate_key_renews:
  "emits (recreate_key r owner req k ids) (\<lambda>(res, err) evs. err \<noteq> None \<or>
     (res = requeue_after (15 * Minute) \<and> key_renewed r owner req k ids evs))"
  unfolding recreate_key_def k_patch_def k_apply_def o_create_def Let_def
  by (auto intro!: emits_intros emits_bind [OF emits_delete_recorded] simp: key_renewed_def AlphaSetupKeys_def Secrets_def SetupKeys_def
       split: sum.splits option.splits)

text \<open>A secret that holds a new key was written; a key is deleted.\<close>

definition stores_key :: "event \<Rightarrow> bool" where
  "stores_key e = (\<exists>owner req k key. e = EApply (KSecret (key_secret owner req k key)) None)"

definition is_revoke :: "event \<Rightarrow> bool" where
  "is_revoke e = (\<exists>i er. e = ODelete CSetupKeys i er)"

lemma revoke_simps [simp]:
  "is_revoke (ODelete CSetupKeys i er)" "\<not> is_revoke (OCreate c q a)" "\<not> is_revoke (EPatch x pr)" "\<not> is_revoke (EApply x ar)"
  "stores_key (EApply (KSecret (key_secret owner req k key)) None)"
  unfolding is_revoke_def stores_key_def by blast+

lemma no_delete_no_revoke: "\<forall>c i er. ODelete c i er \<notin> set evs \<Longrightarrow> precedes p is_revoke evs"
  by (induction evs) (auto simp: is_revoke_def)

lemma no_write_no_revoke: "\<forall>e \<in> set evs. \<not> is_write e \<Longrightarrow> precedes p is_revoke evs"
  by (rule no_delete_no_revoke) force

lemma recreate_key_order:
  "emits (recreate_key r owner req k ids) (\<lambda>_ evs. precedes stores_key is_revoke evs)"
  unfolding recreate_key_def k_patch_def k_apply_def o_create_def Let_def
  by (auto intro!: emits_intros emits_bind [OF emits_delete_recorded] simp: Secrets_def SetupKeys_def
       split: sum.splits option.splits)

lemma check_outcome_order: "check_outcome req k ids out evs \<Longrightarrow> precedes p is_revoke evs \<and> no_creates evs"
  by (auto simp: check_outcome_def key_kept_def no_write_no_revoke no_write_no_create no_delete_no_revoke is_revoke_def
      split: outcome.splits sum.splits if_splits)

text \<open>The calls of a run on \<open>k\<close> that is not being deleted and reports no error.\<close>

definition setup_key_synced :: "'w SetupKeyReconciler \<Rightarrow> OwnerReference \<Rightarrow> nn \<Rightarrow> SetupKey \<Rightarrow> event list \<Rightarrow> bool" where
  "setup_key_synced r owner req k evs \<longleftrightarrow> (\<exists>reads ids k1 check rest.
     evs = reads @ EPatch (KSetupKey (SetupKey_guarded r k)) (Inr (KSetupKey k1)) # check @ rest \<and>
     (\<forall>e \<in> set reads. \<not> is_write e) \<and>
     list_all2 (resolved (om_Namespace (sk_Meta k)) reads) (filter names_group (sk_AutoGroups (sk_Spec k))) ids \<and>
     (key_kept req k1 ids check \<and> rest = [] \<or>
      (\<forall>e \<in> set check. \<not> is_write e) \<and> key_renewed r owner req k1 ids rest))"

definition sync_outcome ::
  "'w SetupKeyReconciler \<Rightarrow> OwnerReference \<Rightarrow> nn \<Rightarrow> SetupKey \<Rightarrow> (Result \<times> goerr option) outcome \<Rightarrow> event list \<Rightarrow> bool" where
  "sync_outcome r owner req k out evs =
     (case out of
        Panicked m \<Rightarrow> \<exists>k1. EPatch (KSetupKey (SetupKey_guarded r k)) (Inr (KSetupKey k1)) \<in> set evs \<and> short_key req k1 evs
      | Returned (res, err) \<Rightarrow> err \<noteq> None \<or> (res = requeue_after (15 * Minute) \<and> setup_key_synced r owner req k evs))"

lemma short_key_mono: "short_key req k evs \<Longrightarrow> set evs \<subseteq> set evs' \<Longrightarrow> short_key req k evs'"
  by (auto simp: short_key_def)

lemma setup_key_syncedI:
  assumes "\<forall>e \<in> set reads. \<not> is_write e"
    "list_all2 (resolved (om_Namespace (sk_Meta k)) reads) (filter names_group (sk_AutoGroups (sk_Spec k))) ids"
  shows "key_kept req k1 ids check \<Longrightarrow>
      setup_key_synced r owner req k (reads @ EPatch (KSetupKey (SetupKey_guarded r k)) (Inr (KSetupKey k1)) # check)"
    and "\<forall>e \<in> set check. \<not> is_write e \<Longrightarrow> key_renewed r owner req k1 ids rest \<Longrightarrow>
      setup_key_synced r owner req k (reads @ EPatch (KSetupKey (SetupKey_guarded r k)) (Inr (KSetupKey k1)) # check @ rest)"
  unfolding setup_key_synced_def using assms by (metis append_Nil2, blast)

lemma short_key_panic:
  "short_key req k1 check \<Longrightarrow> sync_outcome r owner req k (Panicked m)
     (reads @ EPatch (KSetupKey (SetupKey_guarded r k)) (Inr (KSetupKey k1)) # check)"
  unfolding sync_outcome_def outcome.case by (rule exI [of _ k1]) (auto elim: short_key_mono)

lemma sync_outcome_Returned:
  "sync_outcome r owner req k (Returned (res, err)) evs \<longleftrightarrow>
     err \<noteq> None \<or> (res = requeue_after (15 * Minute) \<and> setup_key_synced r owner req k evs)"
  by (simp add: sync_outcome_def)

lemma SetupKey_sync_outcome: "emits (SetupKey_sync r owner req k) (sync_outcome r owner req k)"
  unfolding SetupKey_sync_def k_patch_def AlphaSetupKeys_def
proof (rule emits_bind [OF GetGroupIDs_resolves], goal_cases)
  case (1 gr reads)
  then show ?case
    by (cases gr)
       (auto intro!: emits_intros emits_bind [OF emits_key_up_to_date] emits_bind [OF recreate_key_renews]
          short_key_panic
          simp: sync_outcome_Returned check_outcome_def split: sum.splits outcome.splits bool.splits if_splits,
        blast intro: setup_key_syncedI(1), metis setup_key_syncedI(2))
qed

lemma SetupKey_sync_order:
  "emits (SetupKey_sync r owner req k) (\<lambda>_ evs. precedes stores_key is_revoke evs \<and>
     precedes (\<lambda>e. \<exists>y. e = EPatch (KSetupKey (SetupKey_guarded r k)) (Inr y)) is_create evs)"
  unfolding SetupKey_sync_def k_patch_def AlphaSetupKeys_def
  by (rule emits_bind [OF GetGroupIDs_resolves])
     (auto intro!: emits_intros emits_bind [OF emits_key_up_to_date] emits_bind [OF recreate_key_order]
       simp: check_outcome_order no_write_no_revoke no_write_no_create
       split: sum.splits outcome.splits bool.splits)

lemma SetupKey_body_logs: "emits (SetupKey_body r req k) (\<lambda>_ _. True)"
  unfolding SetupKey_body_def
  by (auto intro!: emits_intros emits_bind [OF SetupKey_delete_spec] emits_mono [OF SetupKey_sync_order] split: sum.splits)

interpretation alpha_setup_key: finalizer_first "AlphaSetupKeys (skc_Client r)" sk_Meta Returned "SetupKey_Reconcile r"
  "SetupKey_body r" "SetupKey_released r" "\<lambda>k. gone CSetupKeys (nonempty (sk_SetupKeyID k))" "SetupKey_guarded r" for r
proof unfold_locales
  fix req k
  show "om_DeletionTimestamp (sk_Meta k) \<noteq> None \<Longrightarrow> emits (SetupKey_body r req k) (\<lambda>_ evs. no_creates evs \<and>
      patches_only (\<lambda>o'. o' = ka_obj (AlphaSetupKeys (skc_Client r)) (SetupKey_released r k) \<and>
        gone CSetupKeys (nonempty (sk_SetupKeyID k)) evs) evs)"
    unfolding SetupKey_body_def
    by (auto intro!: emits_intros emits_bind [OF SetupKey_delete_spec] simp: AlphaSetupKeys_def split: sum.splits)
  show "om_DeletionTimestamp (sk_Meta k) = None \<Longrightarrow> emits (SetupKey_body r req k) (\<lambda>_ evs.
      precedes (\<lambda>e. \<exists>y. e = EPatch (ka_obj (AlphaSetupKeys (skc_Client r)) (SetupKey_guarded r k)) (Inr y)) is_create evs)"
    unfolding SetupKey_body_def
    by (auto intro!: emits_intros emits_mono [OF SetupKey_sync_order] simp: AlphaSetupKeys_def split: sum.splits)
qed (simp_all add: SetupKey_Reconcile_def SetupKey_body_logs, simp add: AlphaSetupKeys_def)

section \<open>Claims\<close>

text \<open>
  C19. Reconciling a v1alpha1 setup key that exists and is not being deleted: when no error is reported, the
  groups of the spec were resolved one by one, the finalizer was stored, and then either the recorded
  key was found valid with a secret that starts like it, and its groups were set; or a new key was
  created with the settings of the spec, its ID stored, its value written to the secret, the old key
  deleted, and the object marked Ready. The run panics only on a key or a secret entry of fewer than
  five characters.
\<close>

theorem alpha_setup_key_reconciled:
  "emits (SetupKey_Reconcile r req) (\<lambda>out evs. \<forall>k rest owner.
     evs = EGet ''SetupKey'' req (Inr (KSetupKey k)) # rest \<and> om_DeletionTimestamp (sk_Meta k) = None \<and>
     ControllerReference (skc_Client r) (KSetupKey k) (sk_Meta k) = Inr owner \<longrightarrow>
     sync_outcome r owner req k out rest)"
proof -
  have "emits (SetupKey_body r req k) (\<lambda>out evs. \<forall>owner. om_DeletionTimestamp (sk_Meta k) = None \<and>
     ControllerReference (skc_Client r) (KSetupKey k) (sk_Meta k) = Inr owner \<longrightarrow> sync_outcome r owner req k out evs)" for k
  proof (cases "ControllerReference (skc_Client r) (KSetupKey k) (sk_Meta k)")
    case (Inr owner)
    have "om_DeletionTimestamp (sk_Meta k) = None \<Longrightarrow> emits (SetupKey_body r req k) (sync_outcome r owner req k)"
      by (simp add: SetupKey_body_def Inr SetupKey_sync_outcome)
    from emits_imp [OF SetupKey_body_logs this] show ?thesis by (simp add: Inr)
  qed (simp add: emits_mono [OF SetupKey_body_logs])
  from alpha_setup_key.reconcile_emits [OF this] show ?thesis
    by (rule emits_mono) (auto simp: AlphaSetupKeys_def)
qed

definition demo_setup_key :: SetupKey where
  "demo_setup_key = \<lparr>sk_Meta = zero_ObjectMeta\<lparr>om_Name := ''k'', om_Namespace := ''ns''\<rparr>,
     sk_Spec = \<lparr>sk_Name = ''key'', sk_Ephemeral = False, sk_Duration = None,
       sk_AutoGroups = [\<lparr>gref_Name = None, gref_ID = None, gref_LocalRef = Some ''team''\<rparr>]\<rparr>,
     sk_Conditions = [], sk_SetupKeyID = ''old''\<rparr>"

definition demo_setup_key_env :: "string \<Rightarrow> gomap \<Rightarrow> unit SetupKeyReconciler" where
  "demo_setup_key_env state entries = \<lparr>skc_Client = down_Client\<lparr>
       c_AlphaGroups := down_kind\<lparr>kc_get := \<lambda>_ w. (Inr \<lparr>grp_Meta = zero_ObjectMeta, grp_SpecName = ''team'',
         grp_Conditions = [], grp_GroupID = ''g1''\<rparr>, w)\<rparr>,
       c_AlphaSetupKeys := down_kind\<lparr>kc_get := \<lambda>_ w. (Inr demo_setup_key, w), kc_patch := \<lambda>k w. (Inr k, w)\<rparr>,
       c_Secrets := down_kind\<lparr>kc_get := \<lambda>_ w. (Inr \<lparr>sec_Meta = zero_ObjectMeta, sec_Data = entries, sec_StringData = None\<rparr>, w),
         kc_apply := \<lambda>_ w. (None, w)\<rparr>\<rparr>,
     skc_OpenZro = down_OpenZro\<lparr>oz_SetupKeys := down_rest\<lparr>
       rs_get := \<lambda>i w. (Inr \<lparr>ask_Id = i, ask_AutoGroups = [], ask_Key = ''AAAAA****'', ask_Revoked = False, ask_State = state\<rparr>, w),
       rs_create := \<lambda>_ w. (Inr \<lparr>ask_Id = ''new'', ask_AutoGroups = [], ask_Key = ''BBBBB-1'', ask_Revoked = False, ask_State = ''valid''\<rparr>, w),
       rs_delete := \<lambda>_ w. (None, w)\<rparr>\<rparr>,
     skc_seconds = \<lambda>d. d div Second\<rparr>"

lemmas demo_setup_key_defs = demo_setup_key_def demo_setup_key_env_def down_defs zero_ObjectMeta_def
  SetupKey_Reconcile_def SetupKey_body_def SetupKey_sync_def GetGroupIDs_def resolve_ref_def SetupKey_guarded_def set_sk_finalizers_def
  key_up_to_date_def recreate_key_def delete_recorded_def nonempty_def ControllerReference_def SetupKey_SecretName_def

theorem alpha_setup_key_reconciled_witness:
  "let r = demo_setup_key_env ''expired'' None; (x, t) = run_state (SetupKey_Reconcile r (''ns'', ''k'')) start
   in x = Returned (requeue_after (15 * Minute), None) \<and>
      (\<exists>owner. setup_key_synced r owner (''ns'', ''k'') demo_setup_key (tl (wlog t)))"
proof -
  let ?r = "demo_setup_key_env ''expired'' None"
  let ?m = "SetupKey_Reconcile ?r (''ns'', ''k'')"
  have run: "fst (run_state ?m start) = Returned (requeue_after (15 * Minute), None)"
    and log: "\<exists>rest. wlog (snd (run_state ?m start)) = EGet ''SetupKey'' (''ns'', ''k'') (Inr (KSetupKey demo_setup_key)) # rest"
    by (simp_all add: demo_setup_key_defs call_defs)
  have own: "\<exists>owner. ControllerReference (skc_Client ?r) (KSetupKey demo_setup_key) (sk_Meta demo_setup_key) = Inr owner"
    by (simp add: demo_setup_key_env_def down_defs ControllerReference_def)
  from log obtain rest where "wlog (snd (run_state ?m start)) = EGet ''SetupKey'' (''ns'', ''k'') (Inr (KSetupKey demo_setup_key)) # rest" ..
  with run own show ?thesis
    using emits_start [OF alpha_setup_key_reconciled [of ?r "(''ns'', ''k'')"]]
    by (auto simp: split_beta sync_outcome_Returned demo_setup_key_def zero_ObjectMeta_def)
qed



text \<open>
  The comparison panics on a short entry: when the recorded key is valid upstream but the secret has fewer
  than five characters under the entry (or no such entry), the check of the key panics instead of
  renewing it.
\<close>

theorem alpha_setup_key_short_panics:
  assumes "sk_SetupKeyID k \<noteq> ''''"
    and "rs_get (oz_SetupKeys (skc_OpenZro r)) (sk_SetupKeyID k) (wenv s) = (Inr resp, w1)" "ask_State resp = ''valid''"
    and "kc_get (c_Secrets (skc_Client r)) (fst req, SetupKey_SecretName k) w1 = (Inr secret, w2)"
    and "length (gm_val (sec_Data secret) SetupKeySecretKey) < 5"
  shows "fst (run_state (key_up_to_date r req k ids) s) = Panicked ''slice bounds out of range''"
  using assms by (simp add: key_up_to_date_def same_prefix_def first5_def call_defs)

theorem alpha_setup_key_short_panics_witness:
  "fst (run_state (key_up_to_date (demo_setup_key_env ''valid'' None) (''ns'', ''k'') demo_setup_key []) start) =
     Panicked ''slice bounds out of range''"
  by (rule alpha_setup_key_short_panics [where resp = "\<lparr>ask_Id = ''old'', ask_AutoGroups = [], ask_Key = ''AAAAA****'', ask_Revoked = False, ask_State = ''valid''\<rparr>"
        and secret = "\<lparr>sec_Meta = zero_ObjectMeta, sec_Data = None, sec_StringData = None\<rparr>" and ?w1.0 = "()" and ?w2.0 = "()"])
     (simp_all add: demo_setup_key_def demo_setup_key_env_def gm_val_def)

end
