(* ===== verification/HTTPRoute_Controller.thy ===== *)
theory HTTPRoute_Controller
  imports Route_Common
begin

text \<open>
  \<open>internal/controller/httproute_controller.go\<close>: the controller of HTTP routes, which also publishes the
  host names of a route as proxy services whose targets are the backends' network resources.
\<close>

section \<open>HTTP routes\<close>

record 'w HTTPRouteReconciler =
  hrr_Client :: "'w Client"
  hrr_OpenZro :: "'w OpenZro"
  hrr_rank :: "event list \<Rightarrow> string \<Rightarrow> nat"

definition set_hr_finalizers :: "(string list \<Rightarrow> string list) \<Rightarrow> HTTPRoute \<Rightarrow> HTTPRoute" where
  "set_hr_finalizers f h = h\<lparr>hr_Meta := (hr_Meta h)\<lparr>om_Finalizers := f (om_Finalizers (hr_Meta h))\<rparr>\<rparr>"

definition HTTPRoute_guarded :: "'w HTTPRouteReconciler \<Rightarrow> HTTPRoute \<Rightarrow> HTTPRoute" where
  "HTTPRoute_guarded r = set_hr_finalizers (AddFinalizer (hrr_Client r) (Finalizer ''httproute''))"

definition HTTPRoute_released :: "'w HTTPRouteReconciler \<Rightarrow> HTTPRoute \<Rightarrow> HTTPRoute" where
  "HTTPRoute_released r = set_hr_finalizers (RemoveFinalizer (hrr_Client r) (Finalizer ''httproute''))"

definition resource_target :: "NetworkResource \<Rightarrow> ServiceTarget" where
  "resource_target netResource =
     \<lparr>tgt_Enabled = True, tgt_TargetId = nrs_ResourceID netResource, tgt_Protocol = ''http'', tgt_TargetType = ''host''\<rparr>"

definition proxy_targets ::
  "'w HTTPRouteReconciler \<Rightarrow> Service list \<Rightarrow> ('w, (Result \<times> goerr option) + ServiceTarget list) go" where
  "proxy_targets r svcs = for_each svcs [] (\<lambda>svc targets. do {
     gr \<leftarrow> k_get (NetworkResources (hrr_Client r)) (om_Namespace (svc_Meta svc), om_Name (svc_Meta svc));
     State_Monad.return (case gr of
       Inl err \<Rightarrow> failed err
     | Inr netResource \<Rightarrow>
         if \<not> HasCondition (hrr_Client r) ReadyCondition (nrs_Conditions netResource)
         then Inl (requeue_after (1 * Second), None)
         else Inr (targets @ [resource_target netResource]))
   })"

definition proxy_request :: "string \<Rightarrow> ServiceTarget list \<Rightarrow> ProxyRequest" where
  "proxy_request hostname targets =
     \<lparr>pxr_Domain = hostname, pxr_Enabled = True, pxr_Name = hostname, pxr_Mode = Some ''http'', pxr_PassHostHeader = Some False,
      pxr_RewriteRedirects = Some False, pxr_Targets = Some targets\<rparr>"

text \<open>The function literal for one host name: update every listed service of that domain, then create one.\<close>

definition publish_hostname ::
  "'w HTTPRouteReconciler \<Rightarrow> ProxyService list \<Rightarrow> ServiceTarget list \<Rightarrow> string \<Rightarrow> ('w, (Result \<times> goerr option) + unit) go" where
  "publish_hostname r proxyServices targets hostname =
     try_bind (for_each proxyServices () (\<lambda>proxyService _.
       if px_Domain proxyService \<noteq> hostname then State_Monad.return (Inr ())
       else do {
         ur \<leftarrow> o_update (Proxies (hrr_OpenZro r)) (px_Id proxyService) (proxy_request hostname targets);
         State_Monad.return (case ur of Inl err \<Rightarrow> failed err | Inr _ \<Rightarrow> Inr ()) })) (\<lambda>_. do {
     cr \<leftarrow> o_create (Proxies (hrr_OpenZro r)) (proxy_request hostname targets);
     State_Monad.return (case cr of Inl err \<Rightarrow> failed err | Inr _ \<Rightarrow> Inr ()) })"

definition publish_hostnames ::
  "'w HTTPRouteReconciler \<Rightarrow> ServiceTarget list \<Rightarrow> string list \<Rightarrow> ('w, (Result \<times> goerr option) + unit) go" where
  "publish_hostnames r targets hostnames = do {
     lr \<leftarrow> o_list (Proxies (hrr_OpenZro r));
     (case lr of
        Inl err \<Rightarrow> State_Monad.return (failed err)
      | Inr proxyServices \<Rightarrow> for_each hostnames () (\<lambda>hostname _. publish_hostname r proxyServices targets hostname))
   }"

definition HTTPRoute_attach ::
  "'w HTTPRouteReconciler \<Rightarrow> NetworkRouter \<Rightarrow> HTTPRoute \<Rightarrow> ('w, (Result \<times> goerr option) + HTTPRoute) go" where
  "HTTPRoute_attach r netRouter hr = do {
     pr \<leftarrow> k_patch (HTTPRoutes (hrr_Client r)) (HTTPRoute_guarded r hr);
     (case pr of
        Inl err \<Rightarrow> State_Monad.return (failed err)
      | Inr hr1 \<Rightarrow>
          try_bind (backend_services (hrr_Client r) False (om_Namespace (hr_Meta hr1)) (hr_Rules hr1)) (\<lambda>svcIdx. do {
          svcs \<leftarrow> map_range (hrr_rank r) svcIdx;
          try_bind (apply_backends (hrr_Client r) (KHTTPRoute hr1) (hr_Meta hr1) netRouter svcs) (\<lambda>_. do {
          svcs2 \<leftarrow> map_range (hrr_rank r) svcIdx;
          try_bind (proxy_targets r svcs2) (\<lambda>targets.
          try_bind (publish_hostnames r targets (hr_Hostnames hr1)) (\<lambda>_. State_Monad.return (Inr hr1))) }) }))
   }"

definition HTTPRoute_sync :: "'w HTTPRouteReconciler \<Rightarrow> HTTPRoute \<Rightarrow> ('w, (Result \<times> goerr option) outcome) go" where
  "HTTPRoute_sync r hr =
     early (for_each (hr_ParentRefs hr) hr (\<lambda>parent hr1.
       try_bind (parent_router (hrr_Client r) (om_Namespace (hr_Meta hr1)) parent) (\<lambda>nr.
         (case nr of
            None \<Rightarrow> State_Monad.return (Inr hr1)
          | Some netRouter \<Rightarrow> returned (HTTPRoute_attach r netRouter hr1)))))
     (\<lambda>_. State_Monad.return (Returned (zero_Result, None)))"

text \<open>Deletion: the last listed proxy service of each host name, once per parent of this controller.\<close>

definition proxy_index :: "ProxyService list \<Rightarrow> (string \<times> string) list" where
  "proxy_index proxyServices = foldl (\<lambda>idx p. AList.update (px_Domain p) (px_Id p) idx) [] proxyServices"

definition unpublish_hostnames ::
  "'w HTTPRouteReconciler \<Rightarrow> (string \<times> string) list \<Rightarrow> string list \<Rightarrow> ('w, (Result \<times> goerr option) + unit) go" where
  "unpublish_hostnames r proxyIdx hostnames = for_each hostnames () (\<lambda>hostname _. do {
     e \<leftarrow> delete_recorded (Proxies (hrr_OpenZro r)) (map_of proxyIdx hostname);
     State_Monad.return (case e of Some err \<Rightarrow> failed err | None \<Rightarrow> Inr ()) })"

definition HTTPRoute_detach ::
  "'w HTTPRouteReconciler \<Rightarrow> (string \<times> string) list \<Rightarrow> HTTPRoute \<Rightarrow> ('w, (Result \<times> goerr option) + unit) go" where
  "HTTPRoute_detach r proxyIdx hr =
     try_bind (backend_services (hrr_Client r) True (om_Namespace (hr_Meta hr)) (hr_Rules hr)) (\<lambda>svcIdx. do {
     svcs \<leftarrow> map_range (hrr_rank r) svcIdx;
     try_bind (release_backends (hrr_Client r) (KHTTPRoute hr) svcs) (\<lambda>_.
     unpublish_hostnames r proxyIdx (hr_Hostnames hr)) })"

definition HTTPRoute_reconcileDelete :: "'w HTTPRouteReconciler \<Rightarrow> HTTPRoute \<Rightarrow> ('w, Result \<times> goerr option) go" where
  "HTTPRoute_reconcileDelete r hr = do {
     lr \<leftarrow> o_list (Proxies (hrr_OpenZro r));
     (case lr of
        Inl err \<Rightarrow> State_Monad.return (zero_Result, Some err)
      | Inr proxyServices \<Rightarrow>
          early (for_own_parents (hrr_Client r) (om_Namespace (hr_Meta hr)) (hr_ParentRefs hr) (HTTPRoute_detach r (proxy_index proxyServices) hr)) (\<lambda>_. do {
          pr \<leftarrow> k_patch (HTTPRoutes (hrr_Client r)) (HTTPRoute_released r hr);
          State_Monad.return (zero_Result, err_of pr) }))
   }"

definition HTTPRoute_body :: "'w HTTPRouteReconciler \<Rightarrow> nn \<Rightarrow> HTTPRoute \<Rightarrow> ('w, (Result \<times> goerr option) outcome) go" where
  "HTTPRoute_body r req hr =
     (if om_DeletionTimestamp (hr_Meta hr) \<noteq> None
      then do { out \<leftarrow> HTTPRoute_reconcileDelete r hr; State_Monad.return (Returned out) }
      else HTTPRoute_sync r hr)"

definition HTTPRoute_Reconcile :: "'w HTTPRouteReconciler \<Rightarrow> nn \<Rightarrow> ('w, (Result \<times> goerr option) outcome) go" where
  "HTTPRoute_Reconcile r req = do {
     gr \<leftarrow> k_get (HTTPRoutes (hrr_Client r)) req;
     (case gr of
        Inl err \<Rightarrow> State_Monad.return (Returned (zero_Result, IgnoreNotFound err))
      | Inr hr \<Rightarrow> HTTPRoute_body r req hr)
   }"

section \<open>Attaching\<close>

text \<open>The targets of the host names, and what is published for a host name.\<close>

definition target_of :: "'w HTTPRouteReconciler \<Rightarrow> event set \<Rightarrow> Service \<Rightarrow> ServiceTarget \<Rightarrow> bool" where
  "target_of r E svc t \<longleftrightarrow> (\<exists>n. EGet ''NetworkResource'' (om_Namespace (svc_Meta svc), om_Name (svc_Meta svc)) (Inr (KNetworkResource n)) \<in> E \<and>
     HasCondition (hrr_Client r) ReadyCondition (nrs_Conditions n) \<and> t = resource_target n)"

definition published :: "ProxyService list \<Rightarrow> ServiceTarget list \<Rightarrow> event set \<Rightarrow> string \<Rightarrow> bool" where
  "published ps targets E h \<longleftrightarrow> (\<exists>a. OCreate CProxies (QProxy (proxy_request h targets)) (Inr a) \<in> E) \<and>
     (\<forall>p \<in> set ps. px_Domain p = h \<longrightarrow> (\<exists>a. OUpdate CProxies (px_Id p) (QProxy (proxy_request h targets)) (Inr a) \<in> E))"

lemma http_evidence_mono:
  assumes "E \<subseteq> E'"
  shows "target_of r E svc t \<Longrightarrow> target_of r E' svc t" "published ps targets E h \<Longrightarrow> published ps targets E' h"
  using assms unfolding target_of_def published_def by blast+

lemma emits_proxy_targets:
  "emits (proxy_targets r svcs) (\<lambda>x evs. case x of Inl out \<Rightarrow> out \<noteq> (zero_Result, None)
   | Inr targets \<Rightarrow> list_all2 (target_of r (set evs)) svcs targets)"
  unfolding proxy_targets_def k_get_def NetworkResources_def
proof (rule emits_for_each_visited [where I = "\<lambda>don targets e. list_all2 (target_of r (set e)) don targets"], goal_cases)
  case (2 svc don targets e1)
  have "list_all2 (target_of r (insert e (set e1))) don targets" for e
    by (rule list_all2_mono [OF 2(2)]) (erule http_evidence_mono(1) [rotated], blast)
  then show ?case
    by (auto intro!: emits_intros list_all2_appendI simp: failed_def target_of_def requeue_after_def zero_Result_def Second_def
         split: sum.splits if_splits, blast)
qed auto

lemma emits_publish_hostname:
  "emits (publish_hostname r ps targets h) (\<lambda>x evs. case x of Inl out \<Rightarrow> out \<noteq> (zero_Result, None) | Inr _ \<Rightarrow> published ps targets (set evs) h)"
  unfolding publish_hostname_def o_update_def o_create_def Proxies_def
proof (rule emits_try_bind [OF emits_for_each_all [where F = "\<lambda>_. True" and Q = "\<lambda>out. out \<noteq> (zero_Result, None)" and
      S = "\<lambda>p E. px_Domain p = h \<longrightarrow> (\<exists>a. OUpdate CProxies (px_Id p) (QProxy (proxy_request h targets)) (Inr a) \<in> E)"]], goal_cases)
  case (1 p)
  show ?case by (auto intro!: emits_intros simp: failed_def split: sum.splits)
next
  case (6 x e1)
  then show ?case by (auto intro!: emits_intros simp: failed_def published_def split: sum.splits)
qed auto

lemma emits_publish_hostnames:
  "emits (publish_hostnames r targets hs) (\<lambda>x evs. case x of Inl out \<Rightarrow> out \<noteq> (zero_Result, None)
   | Inr _ \<Rightarrow> \<exists>ps. OList CProxies (Inr (map RProxy ps)) \<in> set evs \<and> (\<forall>h \<in> set hs. published ps targets (set evs) h))"
proof -
  have loop: "emits (for_each hs () (\<lambda>h _. publish_hostname r ps targets h)) (\<lambda>x evs. True \<and> (case x of Inl out \<Rightarrow> out \<noteq> (zero_Result, None)
     | Inr _ \<Rightarrow> \<forall>h \<in> set hs. published ps targets (set evs) h))" for ps
    by (rule emits_for_each_all) (auto intro: emits_mono [OF emits_publish_hostname] http_evidence_mono(2))
  have ex: "\<exists>ps'. OList CProxies (Inr (map RProxy ps')) \<in> set (OList CProxies (Inr (map RProxy ps)) # evs) \<and>
      (\<forall>h \<in> set hs. published ps' targets (set (OList CProxies (Inr (map RProxy ps)) # evs)) h)"
    if "\<forall>h \<in> set hs. published ps targets (set evs) h" for ps evs
    by (rule exI [of _ ps]) (use that in \<open>auto intro: http_evidence_mono(2)\<close>)
  show ?thesis
    unfolding publish_hostnames_def o_list_def Proxies_def
    by (intro emits_bind_api_call)
       (auto intro!: emits_intros emits_mono [OF loop] ex simp: failed_def simp del: list.set split: sum.splits)
qed

definition http_attached :: "'w HTTPRouteReconciler \<Rightarrow> NetworkRouter \<Rightarrow> HTTPRoute \<Rightarrow> event set \<Rightarrow> bool" where
  "http_attached r nr hr E \<longleftrightarrow> (\<exists>svcs targets ps.
     backends_attached (hrr_Client r) (KHTTPRoute hr) (hr_Meta hr) nr (hr_Rules hr) E svcs \<and>
     (\<forall>svc \<in> svcs. \<exists>t \<in> set targets. target_of r E svc t) \<and> (\<forall>t \<in> set targets. \<exists>svc \<in> svcs. target_of r E svc t) \<and>
     OList CProxies (Inr (map RProxy ps)) \<in> E \<and> (\<forall>h \<in> set (hr_Hostnames hr). published ps targets E h))"

lemma http_attachedI:
  assumes "backends_attached (hrr_Client r) (KHTTPRoute hr) (hr_Meta hr) nr (hr_Rules hr) E1 svcs"
    and "list_all2 (target_of r E2) vs targets" "set vs = svcs"
    and "OList CProxies (Inr (map RProxy ps)) \<in> E3" "\<forall>h \<in> set (hr_Hostnames hr). published ps targets E3 h"
    and E: "E1 \<subseteq> E" "E2 \<subseteq> E" "E3 \<subseteq> E"
  shows "http_attached r nr hr E"
  unfolding http_attached_def
proof (intro exI conjI ballI)
  show "backends_attached (hrr_Client r) (KHTTPRoute hr) (hr_Meta hr) nr (hr_Rules hr) E svcs"
    by (rule backends_attached_mono [OF assms(1) E(1)])
  show "\<exists>t \<in> set targets. target_of r E svc t" if "svc \<in> svcs" for svc
    using assms(2, 3) that http_evidence_mono(1) [OF E(2)] by (metis in_set_conv_nth list_all2_conv_all_nth)
  show "\<exists>svc \<in> svcs. target_of r E svc t" if "t \<in> set targets" for t
    using assms(2, 3) that http_evidence_mono(1) [OF E(2)] by (metis in_set_conv_nth list_all2_conv_all_nth)
  show "OList CProxies (Inr (map RProxy ps)) \<in> E" using assms(4) E(3) by blast
  show "published ps targets E h" if "h \<in> set (hr_Hostnames hr)" for h
    using assms(5) that http_evidence_mono(2) [OF E(3)] by blast
qed

lemma http_attached_mono:
  assumes "http_attached r nr hr E" and E: "E \<subseteq> E'"
  shows "http_attached r nr hr E'"
  using assms(1) unfolding http_attached_def [of r nr hr E]
proof (elim exE conjE)
  fix svcs targets ps
  assume "backends_attached (hrr_Client r) (KHTTPRoute hr) (hr_Meta hr) nr (hr_Rules hr) E svcs"
    and t: "\<forall>svc \<in> svcs. \<exists>t \<in> set targets. target_of r E svc t" "\<forall>t \<in> set targets. \<exists>svc \<in> svcs. target_of r E svc t"
    and "OList CProxies (Inr (map RProxy ps)) \<in> E" "\<forall>h \<in> set (hr_Hostnames hr). published ps targets E h"
  then have "backends_attached (hrr_Client r) (KHTTPRoute hr) (hr_Meta hr) nr (hr_Rules hr) E' svcs"
    "OList CProxies (Inr (map RProxy ps)) \<in> E'" "\<forall>h \<in> set (hr_Hostnames hr). published ps targets E' h"
    using E by (auto intro: backends_attached_mono http_evidence_mono(2))
  moreover have "\<forall>svc \<in> svcs. \<exists>t \<in> set targets. target_of r E' svc t" "\<forall>t \<in> set targets. \<exists>svc \<in> svcs. target_of r E' svc t"
    using t http_evidence_mono(1) [OF E] by blast+
  ultimately show ?thesis unfolding http_attached_def by blast
qed

lemma HTTPRoute_attach_backends:
  "emits (try_bind (backend_services (hrr_Client r) False (om_Namespace (hr_Meta hr1)) (hr_Rules hr1)) (\<lambda>svcIdx. do {
     svcs \<leftarrow> map_range (hrr_rank r) svcIdx;
     try_bind (apply_backends (hrr_Client r) (KHTTPRoute hr1) (hr_Meta hr1) nr svcs) (\<lambda>_. do {
     svcs2 \<leftarrow> map_range (hrr_rank r) svcIdx;
     try_bind (proxy_targets r svcs2) (\<lambda>targets.
     try_bind (publish_hostnames r targets (hr_Hostnames hr1)) (\<lambda>_. State_Monad.return (Inr hr1))) }) }))
   (\<lambda>res evs. case res of Inl out \<Rightarrow> out \<noteq> (zero_Result, None) | Inr y \<Rightarrow> y = hr1 \<and> http_attached r nr hr1 (set evs))"
proof (rule emits_try_bind [OF emits_backend_services], goal_cases)
  case (2 idx e1)
  then have idx: "indexed False (om_Namespace (hr_Meta hr1)) (concat (hr_Rules hr1)) idx e1" by simp
  show ?case
  proof (rule emits_bind [OF emits_map_range], goal_cases)
    case (1 svcs e2)
    then have svcs: "e2 = []" "set svcs = snd ` set idx" by auto
    show ?case
    proof (rule emits_try_bind [OF emits_apply_backends], goal_cases)
      case (2 u e3)
      then have att: "backends_attached (hrr_Client r) (KHTTPRoute hr1) (hr_Meta hr1) nr (hr_Rules hr1) (set e1 \<union> set e3) (snd ` set idx)"
        by (intro backends_attachedI [OF idx refl]) (simp add: svcs)
      show ?case
      proof (rule emits_bind [OF emits_map_range], goal_cases)
        case (1 svcs2 e4)
        then have svcs2: "e4 = []" "set svcs2 = snd ` set idx" by auto
        show ?case
        proof (rule emits_try_bind [OF emits_proxy_targets], goal_cases)
          case (2 targets e5)
          then have t: "list_all2 (target_of r (set e5)) svcs2 targets" by simp
          show ?case
            by (rule emits_try_bind [OF emits_publish_hostnames])
               (auto intro!: emits_intros http_attachedI [OF att t svcs2(2)] simp: svcs(1) svcs2(1))
        qed auto
      qed
    qed auto
  qed
qed auto

interpretation http_route: route_controller "hrr_Client r" "HTTPRoutes (hrr_Client r)" hr_Meta hr_ParentRefs "HTTPRoute_guarded r"
  "HTTPRoute_attach r" "HTTPRoute_sync r" "http_attached r" for r
proof unfold_locales
  fix nr x
  show "emits (HTTPRoute_attach r nr x) (attach_trace (ka_obj (HTTPRoutes (hrr_Client r))) (HTTPRoute_guarded r x) (http_attached r nr))"
    unfolding HTTPRoute_attach_def k_patch_def HTTPRoutes_def
    by (auto intro!: emits_intros emits_mono [OF HTTPRoute_attach_backends] simp: failed_def attach_trace_def split: sum.splits)
qed (auto simp: HTTPRoute_sync_def intro: http_attached_mono)

section \<open>Detaching\<close>

definition http_detached :: "'w HTTPRouteReconciler \<Rightarrow> HTTPRoute \<Rightarrow> event list \<Rightarrow> bool" where
  "http_detached r hr evs \<longleftrightarrow> (\<exists>ps. OList CProxies (Inr (map RProxy ps)) \<in> set evs \<and>
     (\<forall>parent \<in> set (hr_ParentRefs hr). foreign_parent (set evs) (om_Namespace (hr_Meta hr)) parent \<or>
       (\<forall>ref \<in> set (concat (hr_Rules hr)). backend_released (hrr_Client r) (KHTTPRoute hr) (set evs) (om_Namespace (hr_Meta hr)) ref) \<and>
       (\<forall>h \<in> set (hr_Hostnames hr). proxy_removed (set evs) (map_of (proxy_index ps) h))))"

lemma emits_unpublish_hostnames:
  "emits (unpublish_hostnames r idx hs) (\<lambda>x evs. quiet evs \<and> (case x of Inl (res, err) \<Rightarrow> res = zero_Result \<and> err \<noteq> None
     | Inr _ \<Rightarrow> \<forall>h \<in> set hs. proxy_removed (set evs) (map_of idx h)))"
  unfolding unpublish_hostnames_def
proof (rule emits_for_each_all, goal_cases)
  case (1 h)
  show ?case
    by (rule emits_bind [OF emits_delete_recorded])
       (auto intro!: emits_intros simp: failed_def gone_proxies quiet_def Proxies_def split: option.splits)
qed (auto elim: proxy_removed_mono)

lemma HTTPRoute_detach_spec:
  "emits (HTTPRoute_detach r idx hr) (\<lambda>x evs. quiet evs \<and> (case x of Inl (res, err) \<Rightarrow> res = zero_Result \<and> err \<noteq> None
     | Inr _ \<Rightarrow> (\<forall>ref \<in> set (concat (hr_Rules hr)). backend_released (hrr_Client r) (KHTTPRoute hr) (set evs) (om_Namespace (hr_Meta hr)) ref) \<and>
        (\<forall>h \<in> set (hr_Hostnames hr). proxy_removed (set evs) (map_of idx h))))"
  unfolding HTTPRoute_detach_def
proof (rule detach_backends [where D = "\<lambda>E. \<forall>h \<in> set (hr_Hostnames hr). proxy_removed E (map_of idx h)"], goal_cases)
  case (1 svcs)
  show ?case
  proof (rule emits_try_bind [OF emits_release_backends], goal_cases)
    case (2 u e1)
    have "released_from (hrr_Client r) (KHTTPRoute hr) (set e1 \<union> E) svc" if "svc \<in> set svcs" for svc E
      by (rule released_from_mono [OF _ Un_upper1]) (use 2 that in simp)
    moreover have "proxy_removed (set e1 \<union> E) i" if "proxy_removed E i" for E i by (rule proxy_removed_mono [OF that Un_upper2])
    ultimately show ?case using 2 by (auto intro!: emits_mono [OF emits_unpublish_hostnames] split: sum.splits)
  qed auto
qed (auto elim: proxy_removed_mono)

lemma http_detachedI:
  assumes "\<forall>parent \<in> set (hr_ParentRefs hr). foreign_parent E (om_Namespace (hr_Meta hr)) parent \<or>
      (\<forall>ref \<in> set (concat (hr_Rules hr)). backend_released (hrr_Client r) (KHTTPRoute hr) E (om_Namespace (hr_Meta hr)) ref) \<and>
      (\<forall>h \<in> set (hr_Hostnames hr). proxy_removed E (map_of (proxy_index ps) h))"
    and "OList CProxies (Inr (map RProxy ps)) \<in> set evs" and E: "E \<subseteq> set evs"
  shows "http_detached r hr evs"
  unfolding http_detached_def
  using assms(1, 2) evidence_mono(4) [OF E] backend_released_mono [OF _ E] proxy_removed_mono [OF _ E] by meson

lemma HTTPRoute_delete_spec:
  "emits (HTTPRoute_reconcileDelete r hr) (\<lambda>_ evs. no_creates evs \<and>
     patches_only (\<lambda>o'. o' = KHTTPRoute (HTTPRoute_released r hr) \<and> http_detached r hr evs) evs)"
proof -
  let ?P = "\<lambda>evs. no_creates evs \<and> patches_only (\<lambda>o'. o' = KHTTPRoute (HTTPRoute_released r hr) \<and> http_detached r hr evs) evs"
  have "emits (early (for_own_parents (hrr_Client r) (om_Namespace (hr_Meta hr)) (hr_ParentRefs hr) (HTTPRoute_detach r (proxy_index ps) hr)) (\<lambda>_. do {
      pr \<leftarrow> k_patch (HTTPRoutes (hrr_Client r)) (HTTPRoute_released r hr);
      State_Monad.return (zero_Result, err_of pr) })) (\<lambda>_ evs. ?P (OList CProxies (Inr (map RProxy ps)) # evs))" for ps
    unfolding k_patch_def HTTPRoutes_def
  proof (rule emits_early [OF emits_for_own_parents [OF HTTPRoute_detach_spec]], goal_cases)
    case (1 E E')
    then show ?case using backend_released_mono [OF _ 1(2)] proxy_removed_mono [OF _ 1(2)] by blast
  next
    case (2 e evs)
    then show ?case by (simp add: quiet_def)
  next
    case (3 x e1)
    then have "http_detached r hr (OList CProxies (Inr (map RProxy ps)) # e1 @ [EPatch (KHTTPRoute (HTTPRoute_released r hr)) pr])" for pr
      by (intro http_detachedI [where E = "set e1" and ps = ps]) auto
    with 3 show ?case by (auto intro!: emits_intros simp: quiet_def)
  qed
  then show ?thesis
    unfolding HTTPRoute_reconcileDelete_def o_list_def Proxies_def
    by (intro emits_bind_api_call) (auto intro!: emits_intros split: sum.splits)
qed

lemma HTTPRoute_body_deleted:
  assumes "om_DeletionTimestamp (hr_Meta hr) \<noteq> None"
  shows "emits (HTTPRoute_body r req hr) (\<lambda>_ evs. no_creates evs \<and>
     patches_only (\<lambda>o'. o' = KHTTPRoute (HTTPRoute_released r hr) \<and> http_detached r hr evs) evs)"
  using assms unfolding HTTPRoute_body_def by (auto intro!: emits_intros emits_bind [OF HTTPRoute_delete_spec])

interpretation http_route_lifecycle: finalizer_first "HTTPRoutes (hrr_Client r)" hr_Meta Returned "HTTPRoute_Reconcile r"
  "HTTPRoute_body r" "HTTPRoute_released r" "http_detached r" "HTTPRoute_guarded r" for r
proof unfold_locales
  fix req hr
  show "emits (HTTPRoute_body r req hr) (\<lambda>_ _. True)"
    using HTTPRoute_body_deleted [of hr r req] http_route.sync_guarded [of r hr]
    by (cases "om_DeletionTimestamp (hr_Meta hr)") (auto simp: HTTPRoute_body_def elim!: emits_mono)
  show "om_DeletionTimestamp (hr_Meta hr) = None \<Longrightarrow> emits (HTTPRoute_body r req hr) (\<lambda>_ evs.
      precedes (\<lambda>e. \<exists>y. e = EPatch (ka_obj (HTTPRoutes (hrr_Client r)) (HTTPRoute_guarded r hr)) (Inr y)) is_create evs)"
    unfolding HTTPRoute_body_def by (auto intro: emits_mono [OF http_route.sync_guarded] other_write_create)
qed (simp_all add: HTTPRoutes_def HTTPRoute_Reconcile_def HTTPRoute_body_deleted)

section \<open>Claims\<close>


definition demo_http_route :: HTTPRoute where
  "demo_http_route = \<lparr>hr_Meta = zero_ObjectMeta\<lparr>om_Name := ''h'', om_Namespace := ''ns''\<rparr>,
     hr_ParentRefs = [\<lparr>pref_Group = None, pref_Kind = None, pref_Namespace = None, pref_Name = ''g''\<rparr>],
     hr_Hostnames = [''db.example.com''], hr_Rules = [[''db'']]\<rparr>"

definition demo_http_env :: "ProxyService list \<Rightarrow> unit HTTPRouteReconciler" where
  "demo_http_env ps = \<lparr>hrr_Client = demo_route_client\<lparr>
       c_HTTPRoutes := down_kind\<lparr>kc_get := \<lambda>_ w. (Inr demo_http_route, w), kc_patch := \<lambda>t w. (Inr t, w)\<rparr>\<rparr>,
     hrr_OpenZro = down_OpenZro\<lparr>oz_Proxies := down_rest\<lparr>rs_list := \<lambda>w. (Inr ps, w),
       rs_update := \<lambda>i q w. (Inr \<lparr>px_Id = i, px_Domain = pxr_Domain q\<rparr>, w),
       rs_create := \<lambda>q w. (Inr \<lparr>px_Id = ''new'', px_Domain = pxr_Domain q\<rparr>, w)\<rparr>\<rparr>, hrr_rank = \<lambda>_ _. 0\<rparr>"


text \<open>
  C39. A host name that is published already is published again: when the listing has a proxy service of
  the domain, a run that reports no error updates that service and then creates another one for the
  same domain, because the function goes on to the creation after the update.
\<close>

theorem http_route_duplicates_proxy:
  assumes "p \<in> set ps" "px_Domain p = h"
  shows "emits (publish_hostname r ps targets h) (\<lambda>res evs. res = Inr () \<longrightarrow>
     (\<exists>a. OUpdate CProxies (px_Id p) (QProxy (proxy_request h targets)) (Inr a) \<in> set evs) \<and>
     (\<exists>a. OCreate CProxies (QProxy (proxy_request h targets)) (Inr a) \<in> set evs))"
  by (rule emits_mono [OF emits_publish_hostname]) (use assms in \<open>auto simp: published_def\<close>)

theorem http_route_duplicates_proxy_witness:
  "let p = \<lparr>px_Id = ''1'', px_Domain = ''a''\<rparr>; (res, t) = run_state (publish_hostname (demo_http_env [p]) [p] [] ''a'') start
   in res = Inr () \<and> (\<exists>a. OUpdate CProxies ''1'' (QProxy (proxy_request ''a'' [])) (Inr a) \<in> set (wlog t)) \<and>
     (\<exists>a. OCreate CProxies (QProxy (proxy_request ''a'' [])) (Inr a) \<in> set (wlog t))"
proof -
  let ?p = "\<lparr>px_Id = ''1'', px_Domain = ''a''\<rparr>"
  let ?m = "publish_hostname (demo_http_env [?p]) [?p] [] ''a''"
  have "fst (run_state ?m start) = Inr ()"
    by (simp add: publish_hostname_def demo_http_env_def demo_route_defs)
  then show ?thesis
    using emits_start [OF http_route_duplicates_proxy [of ?p "[?p]" "''a''" "demo_http_env [?p]" "[]"]] by (simp add: split_beta Let_def)
qed

end
