(* ===== verification/TCPRoute_Controller.thy ===== *)
theory TCPRoute_Controller
  imports Route_Common
begin

text \<open>
  \<open>internal/controller/tcproute_controller.go\<close>: the controller of TCP routes.
\<close>

section \<open>TCP routes\<close>

record 'w TCPRouteReconciler =
  trr_Client :: "'w Client"
  trr_rank :: "event list \<Rightarrow> string \<Rightarrow> nat"

definition set_tr_finalizers :: "(string list \<Rightarrow> string list) \<Rightarrow> TCPRoute \<Rightarrow> TCPRoute" where
  "set_tr_finalizers f t = t\<lparr>tr_Meta := (tr_Meta t)\<lparr>om_Finalizers := f (om_Finalizers (tr_Meta t))\<rparr>\<rparr>"

definition TCPRoute_guarded :: "'w TCPRouteReconciler \<Rightarrow> TCPRoute \<Rightarrow> TCPRoute" where
  "TCPRoute_guarded r = set_tr_finalizers (AddFinalizer (trr_Client r) (Finalizer ''tcproute''))"

definition TCPRoute_released :: "'w TCPRouteReconciler \<Rightarrow> TCPRoute \<Rightarrow> TCPRoute" where
  "TCPRoute_released r = set_tr_finalizers (RemoveFinalizer (trr_Client r) (Finalizer ''tcproute''))"

definition TCPRoute_attach ::
  "'w TCPRouteReconciler \<Rightarrow> NetworkRouter \<Rightarrow> TCPRoute \<Rightarrow> ('w, (Result \<times> goerr option) + TCPRoute) go" where
  "TCPRoute_attach r netRouter tr = do {
     pr \<leftarrow> k_patch (TCPRoutes (trr_Client r)) (TCPRoute_guarded r tr);
     (case pr of
        Inl err \<Rightarrow> State_Monad.return (failed err)
      | Inr tr1 \<Rightarrow>
          try_bind (backend_services (trr_Client r) False (om_Namespace (tr_Meta tr1)) (tr_Rules tr1)) (\<lambda>svcIdx. do {
          svcs \<leftarrow> map_range (trr_rank r) svcIdx;
          try_bind (apply_backends (trr_Client r) (KTCPRoute tr1) (tr_Meta tr1) netRouter svcs) (\<lambda>_. State_Monad.return (Inr tr1)) }))
   }"

definition TCPRoute_sync :: "'w TCPRouteReconciler \<Rightarrow> TCPRoute \<Rightarrow> ('w, (Result \<times> goerr option) outcome) go" where
  "TCPRoute_sync r tr =
     early (for_each (tr_ParentRefs tr) tr (\<lambda>parent tr1.
       try_bind (parent_router (trr_Client r) (om_Namespace (tr_Meta tr1)) parent) (\<lambda>nr.
         (case nr of
            None \<Rightarrow> State_Monad.return (Inr tr1)
          | Some netRouter \<Rightarrow> returned (TCPRoute_attach r netRouter tr1)))))
     (\<lambda>_. State_Monad.return (Returned (zero_Result, None)))"

definition TCPRoute_detach :: "'w TCPRouteReconciler \<Rightarrow> TCPRoute \<Rightarrow> ('w, (Result \<times> goerr option) + unit) go" where
  "TCPRoute_detach r tr =
     try_bind (backend_services (trr_Client r) True (om_Namespace (tr_Meta tr)) (tr_Rules tr)) (\<lambda>svcIdx. do {
     svcs \<leftarrow> map_range (trr_rank r) svcIdx;
     release_backends (trr_Client r) (KTCPRoute tr) svcs })"

definition TCPRoute_reconcileDelete :: "'w TCPRouteReconciler \<Rightarrow> TCPRoute \<Rightarrow> ('w, Result \<times> goerr option) go" where
  "TCPRoute_reconcileDelete r tr =
     early (for_own_parents (trr_Client r) (om_Namespace (tr_Meta tr)) (tr_ParentRefs tr) (TCPRoute_detach r tr)) (\<lambda>_. do {
     pr \<leftarrow> k_patch (TCPRoutes (trr_Client r)) (TCPRoute_released r tr);
     State_Monad.return (zero_Result, err_of pr) })"

definition TCPRoute_body :: "'w TCPRouteReconciler \<Rightarrow> nn \<Rightarrow> TCPRoute \<Rightarrow> ('w, (Result \<times> goerr option) outcome) go" where
  "TCPRoute_body r req tr =
     (if om_DeletionTimestamp (tr_Meta tr) \<noteq> None
      then do { out \<leftarrow> TCPRoute_reconcileDelete r tr; State_Monad.return (Returned out) }
      else TCPRoute_sync r tr)"

definition TCPRoute_Reconcile :: "'w TCPRouteReconciler \<Rightarrow> nn \<Rightarrow> ('w, (Result \<times> goerr option) outcome) go" where
  "TCPRoute_Reconcile r req = do {
     gr \<leftarrow> k_get (TCPRoutes (trr_Client r)) req;
     (case gr of
        Inl err \<Rightarrow> State_Monad.return (Returned (zero_Result, IgnoreNotFound err))
      | Inr tr \<Rightarrow> TCPRoute_body r req tr)
   }"

section \<open>Attaching\<close>

definition tcp_attached :: "'w TCPRouteReconciler \<Rightarrow> NetworkRouter \<Rightarrow> TCPRoute \<Rightarrow> event set \<Rightarrow> bool" where
  "tcp_attached r nr tr E \<longleftrightarrow> (\<exists>svcs. backends_attached (trr_Client r) (KTCPRoute tr) (tr_Meta tr) nr (tr_Rules tr) E svcs)"

lemma TCPRoute_attach_backends:
  "emits (try_bind (backend_services (trr_Client r) False (om_Namespace (tr_Meta tr1)) (tr_Rules tr1)) (\<lambda>svcIdx. do {
     svcs \<leftarrow> map_range (trr_rank r) svcIdx;
     try_bind (apply_backends (trr_Client r) (KTCPRoute tr1) (tr_Meta tr1) nr svcs) (\<lambda>_. State_Monad.return (Inr tr1)) }))
   (\<lambda>res evs. case res of Inl out \<Rightarrow> out \<noteq> (zero_Result, None) | Inr y \<Rightarrow> y = tr1 \<and> tcp_attached r nr tr1 (set evs))"
proof (rule emits_try_bind [OF emits_backend_services], goal_cases)
  case (2 idx e1)
  show ?case
  proof (rule emits_bind [OF emits_map_range], goal_cases)
    case (1 svcs e2)
    then show ?case
      using 2 by (auto intro!: emits_try_bind [OF emits_apply_backends] emits_intros backends_attached_ex simp: tcp_attached_def)
  qed
qed auto

interpretation tcp_route: route_controller "trr_Client r" "TCPRoutes (trr_Client r)" tr_Meta tr_ParentRefs "TCPRoute_guarded r"
  "TCPRoute_attach r" "TCPRoute_sync r" "tcp_attached r" for r
proof unfold_locales
  fix nr x
  show "emits (TCPRoute_attach r nr x) (attach_trace (ka_obj (TCPRoutes (trr_Client r))) (TCPRoute_guarded r x) (tcp_attached r nr))"
    unfolding TCPRoute_attach_def k_patch_def TCPRoutes_def
    by (auto intro!: emits_intros emits_mono [OF TCPRoute_attach_backends] simp: failed_def attach_trace_def split: sum.splits)
qed (auto simp: TCPRoute_sync_def tcp_attached_def intro: backends_attached_mono)

section \<open>Detaching\<close>

definition tcp_detached :: "'w TCPRouteReconciler \<Rightarrow> TCPRoute \<Rightarrow> event list \<Rightarrow> bool" where
  "tcp_detached r tr evs \<longleftrightarrow> (\<forall>parent \<in> set (tr_ParentRefs tr). foreign_parent (set evs) (om_Namespace (tr_Meta tr)) parent \<or>
     (\<forall>ref \<in> set (concat (tr_Rules tr)). backend_released (trr_Client r) (KTCPRoute tr) (set evs) (om_Namespace (tr_Meta tr)) ref))"

lemma tcp_detached_mono:
  assumes "tcp_detached r tr evs" and E: "set evs \<subseteq> set evs'"
  shows "tcp_detached r tr evs'"
  using assms(1) evidence_mono(4) [OF E] backend_released_mono [OF _ E] unfolding tcp_detached_def by meson

lemma TCPRoute_detach_spec:
  "emits (TCPRoute_detach r tr) (\<lambda>x evs. quiet evs \<and> (case x of Inl (res, err) \<Rightarrow> res = zero_Result \<and> err \<noteq> None
     | Inr _ \<Rightarrow> (\<forall>ref \<in> set (concat (tr_Rules tr)). backend_released (trr_Client r) (KTCPRoute tr) (set evs) (om_Namespace (tr_Meta tr)) ref) \<and> True))"
  unfolding TCPRoute_detach_def
  by (rule detach_backends [where D = "\<lambda>_. True"]) (auto intro!: emits_mono [OF emits_release_backends] split: sum.splits)

lemma TCPRoute_delete_spec:
  "emits (TCPRoute_reconcileDelete r tr) (\<lambda>_ evs. no_creates evs \<and>
     patches_only (\<lambda>o'. o' = KTCPRoute (TCPRoute_released r tr) \<and> tcp_detached r tr evs) evs)"
  unfolding TCPRoute_reconcileDelete_def k_patch_def TCPRoutes_def
proof (rule emits_early [OF emits_for_own_parents [OF TCPRoute_detach_spec]], goal_cases)
  case (1 E E')
  then show ?case using backend_released_mono [OF _ 1(2)] by blast
next
  case (2 e evs)
  then show ?case by (simp add: quiet_def)
next
  case (3 x e1)
  then have "tcp_detached r tr e1" by (auto simp: tcp_detached_def)
  then have "tcp_detached r tr (e1 @ [EPatch (KTCPRoute (TCPRoute_released r tr)) pr])" for pr
    by (rule tcp_detached_mono) auto
  with 3 show ?case by (auto intro!: emits_intros simp: quiet_def)
qed

lemma TCPRoute_body_deleted:
  assumes "om_DeletionTimestamp (tr_Meta tr) \<noteq> None"
  shows "emits (TCPRoute_body r req tr) (\<lambda>_ evs. no_creates evs \<and>
     patches_only (\<lambda>o'. o' = KTCPRoute (TCPRoute_released r tr) \<and> tcp_detached r tr evs) evs)"
  using assms unfolding TCPRoute_body_def by (auto intro!: emits_intros emits_bind [OF TCPRoute_delete_spec])

interpretation tcp_route_lifecycle: finalizer_first "TCPRoutes (trr_Client r)" tr_Meta Returned "TCPRoute_Reconcile r"
  "TCPRoute_body r" "TCPRoute_released r" "tcp_detached r" "TCPRoute_guarded r" for r
proof unfold_locales
  fix req tr
  show "emits (TCPRoute_body r req tr) (\<lambda>_ _. True)"
    using TCPRoute_body_deleted [of tr r req] tcp_route.sync_guarded [of r tr]
    by (cases "om_DeletionTimestamp (tr_Meta tr)") (auto simp: TCPRoute_body_def elim!: emits_mono)
  show "om_DeletionTimestamp (tr_Meta tr) = None \<Longrightarrow> emits (TCPRoute_body r req tr) (\<lambda>_ evs.
      precedes (\<lambda>e. \<exists>y. e = EPatch (ka_obj (TCPRoutes (trr_Client r)) (TCPRoute_guarded r tr)) (Inr y)) is_create evs)"
    unfolding TCPRoute_body_def by (auto intro: emits_mono [OF tcp_route.sync_guarded] other_write_create)
qed (simp_all add: TCPRoutes_def TCPRoute_Reconcile_def TCPRoute_body_deleted)

section \<open>Claims\<close>

text \<open>
  Reconciling a TCP route that is not being deleted writes nothing before the route was stored with its finalizer,
  and when it ends without an error, every parent is done with: its gateway belongs to another
  controller or is not programmed; or the gateway's router was read, the route was stored with the
  finalizer, and for every backend the Service was read and a network resource of that name was
  applied that puts it into the network of the router and is owned by the Service and by the route.
\<close>

theorem tcp_route_reconciled:
  "emits (TCPRoute_Reconcile r req) (\<lambda>out evs. \<forall>tr rest.
     evs = EGet ''TCPRoute'' req (Inr (KTCPRoute tr)) # rest \<and> om_DeletionTimestamp (tr_Meta tr) = None \<longrightarrow>
     precedes (\<lambda>e. \<exists>y. e = EPatch (KTCPRoute (TCPRoute_guarded r tr)) (Inr y)) other_write rest \<and>
     (out = Returned (zero_Result, None) \<longrightarrow> (\<forall>parent \<in> set (tr_ParentRefs tr).
        parent_done (trr_Client r) (TCPRoutes (trr_Client r)) tr_Meta (TCPRoute_guarded r) (tcp_attached r) tr (set rest) parent)))"
proof -
  have "emits (TCPRoute_body r req tr) (\<lambda>out evs. om_DeletionTimestamp (tr_Meta tr) = None \<longrightarrow>
     precedes (\<lambda>e. \<exists>y. e = EPatch (KTCPRoute (TCPRoute_guarded r tr)) (Inr y)) other_write evs \<and>
     (out = Returned (zero_Result, None) \<longrightarrow> (\<forall>parent \<in> set (tr_ParentRefs tr).
        parent_done (trr_Client r) (TCPRoutes (trr_Client r)) tr_Meta (TCPRoute_guarded r) (tcp_attached r) tr (set evs) parent)))" for tr
    using emits_conj [OF tcp_route.sync_guarded [of r tr] tcp_route.sync_attaches [of r tr]]
    by (intro emits_imp [OF tcp_route_lifecycle.body_logs]) (simp add: TCPRoute_body_def TCPRoutes_def)
  from tcp_route_lifecycle.reconcile_emits [OF this] show ?thesis
    by (rule emits_mono) (auto simp: TCPRoutes_def)
qed

definition demo_tcp_route :: TCPRoute where
  "demo_tcp_route = \<lparr>tr_Meta = zero_ObjectMeta\<lparr>om_Name := ''t'', om_Namespace := ''ns''\<rparr>,
     tr_ParentRefs = [\<lparr>pref_Group = None, pref_Kind = None, pref_Namespace = None, pref_Name = ''g''\<rparr>], tr_Rules = [[''db'']]\<rparr>"

definition demo_tcp_env :: "unit TCPRouteReconciler" where
  "demo_tcp_env = \<lparr>trr_Client = demo_route_client\<lparr>
     c_TCPRoutes := down_kind\<lparr>kc_get := \<lambda>_ w. (Inr demo_tcp_route, w), kc_patch := \<lambda>t w. (Inr t, w)\<rparr>\<rparr>, trr_rank = \<lambda>_ _. 0\<rparr>"

theorem tcp_route_reconciled_witness:
  "let (out, t) = run_state (TCPRoute_Reconcile demo_tcp_env (''ns'', ''t'')) start
   in out = Returned (zero_Result, None) \<and> EApply (KNetworkResource demo_backend) None \<in> set (wlog t) \<and>
     parent_done (trr_Client demo_tcp_env) (TCPRoutes (trr_Client demo_tcp_env)) tr_Meta (TCPRoute_guarded demo_tcp_env)
       (tcp_attached demo_tcp_env) demo_tcp_route (set (tl (wlog t))) (hd (tr_ParentRefs demo_tcp_route))"
proof -
  let ?r = demo_tcp_env and ?m = "TCPRoute_Reconcile demo_tcp_env (''ns'', ''t'')"
  have route: "om_DeletionTimestamp (tr_Meta demo_tcp_route) = None" "tr_ParentRefs demo_tcp_route \<noteq> []"
    by (simp_all add: demo_tcp_route_def zero_ObjectMeta_def)
  have run: "fst (run_state ?m start) = Returned (zero_Result, None)"
    and applied: "EApply (KNetworkResource demo_backend) None \<in> set (wlog (snd (run_state ?m start)))"
    and log: "\<exists>rest. wlog (snd (run_state ?m start)) = EGet ''TCPRoute'' (''ns'', ''t'') (Inr (KTCPRoute demo_tcp_route)) # rest"
    by (simp_all add: TCPRoute_Reconcile_def TCPRoute_body_def TCPRoute_sync_def TCPRoute_attach_def
        TCPRoute_guarded_def set_tr_finalizers_def demo_tcp_env_def demo_tcp_route_def demo_route_defs)
  from log obtain rest where "wlog (snd (run_state ?m start)) = EGet ''TCPRoute'' (''ns'', ''t'') (Inr (KTCPRoute demo_tcp_route)) # rest" ..
  with run applied route show ?thesis
    using emits_start [OF tcp_route_reconciled [of ?r "(''ns'', ''t'')"]] by (auto simp: split_beta)
qed

end
