(* ===== verification/Manager.thy ===== *)
theory Manager
  imports OZGroup_Controller OZPolicy_Controller OZResource_Controller OZRoutingPeer_Controller
    Service_Controller OZSetupKey_Controller Webhooks Group_Controller SetupKey_Controller
    NetworkRouter_Controller NetworkResource_Controller HTTPRoute_Controller TCPRoute_Controller
begin

text \<open>
  \<open>cmd/main.go\<close>: the flags, the namespace and the default labels they give, and the controllers and
  webhooks that are configured from them and registered with the manager. The manager, the certificate
  watcher and the client of the management API are libraries: whether a call of them fails is a field of
  \<open>Platform\<close>. What happens after the start of the manager is the subject of the other theories.
\<close>

section \<open>Flags\<close>

record Flags =
  runtimeNamespace :: string
  managementURL :: string
  clientImage :: string
  clusterName :: string
  namespacedNetworks :: bool
  clusterDNS :: string
  openzroAPIKey :: string
  allowAutomaticPolicyCreation :: bool
  defaultLabels :: string
  gatewayAPIEnabled :: bool
  metricsAddr :: string
  webhookCertPath :: string
  webhookCertName :: string
  webhookCertKey :: string
  enableLeaderElection :: bool
  probeAddr :: string
  enableWebhooks :: bool

definition default_Flags :: Flags where
  "default_Flags = \<lparr>runtimeNamespace = '''', managementURL = ''https://api.openzro.io'', clientImage = ''openzro/openzro:latest'',
     clusterName = ''kubernetes'', namespacedNetworks = False, clusterDNS = ''svc.cluster.local'', openzroAPIKey = '''',
     allowAutomaticPolicyCreation = False, defaultLabels = '''', gatewayAPIEnabled = False, metricsAddr = ''0'',
     webhookCertPath = '''', webhookCertName = ''tls.crt'', webhookCertKey = ''tls.key'', enableLeaderElection = False,
     probeAddr = '':8081'', enableWebhooks = True\<rparr>"

text \<open>\<open>os.ReadFile\<close> of the namespace file: the error tells whether the file does not exist.\<close>

datatype file_read = FileContents string | FileNotExist | FileError string

definition getRuntimeNamespace :: "file_read \<Rightarrow> string \<Rightarrow> goerr + string" where
  "getRuntimeNamespace file ns =
     (if ns \<noteq> '''' then Inr ns
      else case file of
        FileNotExist \<Rightarrow> Inl (GoError ''not running in-cluster, runtime namespace needs to be set'')
      | FileError m \<Rightarrow> Inl (GoError (''error reading namespace file: '' @ m))
      | FileContents b \<Rightarrow> Inr b)"

text \<open>The parser of the default labels, which panics on a piece that is not \<open>key=value\<close>.\<close>

fun parse_pieces :: "string list \<Rightarrow> (string \<times> string) list \<Rightarrow> (string \<times> string) list outcome" where
  "parse_pieces [] m = Returned m"
| "parse_pieces (s # ss) m =
     (case str_split s ''='' of
        [k, v] \<Rightarrow> parse_pieces ss (AList.update k v m)
      | _ \<Rightarrow> Panicked (''invalid label format: '' @ s))"

definition parse_labels :: "string \<Rightarrow> (string \<times> string) list outcome" where
  "parse_labels s = (if s \<noteq> '''' then parse_pieces (str_split s '','') [] else Returned [])"

section \<open>Configuration\<close>

text \<open>What \<open>main\<close> registers, with the fields it fills in.\<close>

datatype 'w registration =
    ROZSetupKey "'w OZSetupKeyReconciler" | RPodWebhook "'w PodInjector"
  | ROZRoutingPeer "'w OZRoutingPeerReconciler" | RService "'w ServiceReconciler" | ROZResource "'w OZResourceReconciler"
  | ROZGroup "'w OZGroupReconciler" | ROZPolicy "'w OZPolicyReconciler" | ROZGroupWebhook "'w Client"
  | RSetupKey "'w SetupKeyReconciler" | RGroupController "'w GroupReconciler"
  | RNetworkRouter "'w NetworkRouterReconciler" | RNetworkResource "'w NetworkResourceReconciler"
  | RGatewayClass "'w GatewayClassReconciler" | RGateway "'w GatewayReconciler"
  | RHTTPRoute "'w HTTPRouteReconciler" | RTCPRoute "'w TCPRouteReconciler"
  | RCertWatcher | RHealthz | RReadyz bool

text \<open>The options of \<open>ctrl.NewManager\<close> that depend on the flags; a TLS option is a function or nil.\<close>

record ManagerOptions =
  mo_BindAddress :: string
  mo_FieldOwner :: string
  mo_TLSOpts :: "(string \<times> string) option list"
  mo_HealthProbeBindAddress :: string
  mo_LeaderElectionNamespace :: string
  mo_LeaderElection :: bool
  mo_LeaderElectionID :: string

record 'w Platform =
  pf_Client :: "'w Client"
  pf_NewOpenZro :: "string \<Rightarrow> string \<Rightarrow> string \<Rightarrow> 'w OpenZro"
  pf_namespaceFile :: file_read
  pf_Join :: "string \<Rightarrow> string \<Rightarrow> string"
  pf_NewCertWatcher :: "string \<Rightarrow> string \<Rightarrow> goerr option"
  pf_NewManager :: "ManagerOptions \<Rightarrow> goerr option"
  pf_Setup :: "'w registration \<Rightarrow> goerr option"
  pf_Start :: "goerr option"
  pf_seconds :: "int \<Rightarrow> int"
  pf_digest :: "string \<Rightarrow> string"
  pf_merge :: "PodTemplateSpec \<Rightarrow> string \<Rightarrow> goerr + PodTemplateSpec"
  pf_rank :: "event list \<Rightarrow> string \<Rightarrow> nat"

definition webhook_tls :: "'w Platform \<Rightarrow> Flags \<Rightarrow> goerr + (string \<times> string) option" where
  "webhook_tls pf f =
     (if webhookCertPath f = '''' then Inr None
      else let cert = pf_Join pf (webhookCertPath f) (webhookCertName f); key = pf_Join pf (webhookCertPath f) (webhookCertKey f)
           in case pf_NewCertWatcher pf cert key of Some err \<Rightarrow> Inl err | None \<Rightarrow> Inr (Some (cert, key)))"

definition manager_options :: "Flags \<Rightarrow> string \<Rightarrow> (string \<times> string) option \<Rightarrow> ManagerOptions" where
  "manager_options f ns tls = \<lparr>mo_BindAddress = metricsAddr f, mo_FieldOwner = ''openzro-operator'', mo_TLSOpts = [tls],
     mo_HealthProbeBindAddress = probeAddr f, mo_LeaderElectionNamespace = ns, mo_LeaderElection = enableLeaderElection f,
     mo_LeaderElectionID = ''operator.openzro.io''\<rparr>"

definition core_registrations :: "'w Platform \<Rightarrow> Flags \<Rightarrow> 'w registration list" where
  "core_registrations pf f =
     ROZSetupKey \<lparr>skr_Client = pf_Client pf, skr_ReferencedSecrets = []\<rparr> #
     (if enableWebhooks f
      then [RPodWebhook \<lparr>pi_client = pf_Client pf, pi_managementURL = managementURL f, pi_clientImage = clientImage f\<rparr>] else [])"

definition v1_registrations :: "'w Platform \<Rightarrow> Flags \<Rightarrow> string \<Rightarrow> (string \<times> string) list \<Rightarrow> 'w OpenZro \<Rightarrow> 'w registration list" where
  "v1_registrations pf f ns labels nbClient =
     [ROZRoutingPeer \<lparr>rp_Client = pf_Client pf, rp_OpenZro = nbClient, rp_ClientImage = clientImage f, rp_ClusterName = clusterName f,
        rp_ManagementURL = managementURL f, rp_NamespacedNetworks = namespacedNetworks f, rp_DefaultLabels = Some labels\<rparr>,
      RService \<lparr>sr_Client = pf_Client pf, sr_ClusterName = clusterName f, sr_ClusterDNS = clusterDNS f,
        sr_NamespacedNetworks = namespacedNetworks f, sr_ControllerNamespace = ns, sr_DefaultLabels = Some labels\<rparr>,
      ROZResource \<lparr>rr_Client = pf_Client pf, rr_OpenZro = nbClient, rr_AllowAutomaticPolicyCreation = allowAutomaticPolicyCreation f,
        rr_ClusterName = clusterName f, rr_DefaultLabels = Some labels\<rparr>,
      ROZGroup \<lparr>gr_Client = pf_Client pf, gr_OpenZro = nbClient\<rparr>,
      ROZPolicy \<lparr>pr_Client = pf_Client pf, pr_OpenZro = nbClient\<rparr>] @
     (if enableWebhooks f then [ROZGroupWebhook (pf_Client pf)] else [])"

definition alpha_registrations :: "'w Platform \<Rightarrow> Flags \<Rightarrow> 'w OpenZro \<Rightarrow> 'w registration list" where
  "alpha_registrations pf f nbClient =
     [RSetupKey \<lparr>skc_Client = pf_Client pf, skc_OpenZro = nbClient, skc_seconds = pf_seconds pf\<rparr>,
      RGroupController \<lparr>agr_Client = pf_Client pf, agr_OpenZro = nbClient\<rparr>,
      RNetworkRouter \<lparr>nrr_Client = pf_Client pf, nrr_OpenZro = nbClient, nrr_ManagementURL = managementURL f,
        nrr_ClientImage = clientImage f, nrr_digest = pf_digest pf, nrr_merge = pf_merge pf\<rparr>,
      RNetworkResource \<lparr>nsr_Client = pf_Client pf, nsr_OpenZro = nbClient\<rparr>]"

definition gateway_registrations :: "'w Platform \<Rightarrow> Flags \<Rightarrow> 'w OpenZro \<Rightarrow> 'w registration list" where
  "gateway_registrations pf f nbClient =
     (if gatewayAPIEnabled f
      then [RGatewayClass \<lparr>gcr_Client = pf_Client pf\<rparr>, RGateway \<lparr>gwr_Client = pf_Client pf\<rparr>,
            RHTTPRoute \<lparr>hrr_Client = pf_Client pf, hrr_OpenZro = nbClient, hrr_rank = pf_rank pf\<rparr>,
            RTCPRoute \<lparr>trr_Client = pf_Client pf, trr_rank = pf_rank pf\<rparr>]
      else [])"

definition check_registrations :: "(string \<times> string) option \<Rightarrow> 'w registration list" where
  "check_registrations tls = (if tls \<noteq> None then [RCertWatcher] else []) @ [RHealthz, RReadyz (tls \<noteq> None)]"

definition registrations ::
  "'w Platform \<Rightarrow> Flags \<Rightarrow> string \<Rightarrow> (string \<times> string) list \<Rightarrow> (string \<times> string) option \<Rightarrow> 'w registration list" where
  "registrations pf f ns labels tls =
     core_registrations pf f @
     (if openzroAPIKey f \<noteq> ''''
      then (let nbClient = pf_NewOpenZro pf (managementURL f) (openzroAPIKey f) ''openzro-operator''
            in v1_registrations pf f ns labels nbClient @ alpha_registrations pf f nbClient @ gateway_registrations pf f nbClient)
      else []) @
     check_registrations tls"

section \<open>The start\<close>

text \<open>The process exits with an error, panics, or has run the manager with these registrations.\<close>

datatype 'w startup = Exited goerr | PanickedWith string | Ran "'w registration list"

fun register_all :: "('w registration \<Rightarrow> goerr option) \<Rightarrow> 'w registration list \<Rightarrow> goerr option" where
  "register_all setup [] = None"
| "register_all setup (x # xs) = (case setup x of Some err \<Rightarrow> Some err | None \<Rightarrow> register_all setup xs)"

definition main :: "'w Platform \<Rightarrow> Flags \<Rightarrow> 'w startup" where
  "main pf f =
     (case getRuntimeNamespace (pf_namespaceFile pf) (runtimeNamespace f) of
        Inl err \<Rightarrow> Exited err
      | Inr ns \<Rightarrow>
     (case parse_labels (defaultLabels f) of
        Panicked m \<Rightarrow> PanickedWith m
      | Returned labels \<Rightarrow>
     (case webhook_tls pf f of
        Inl err \<Rightarrow> Exited err
      | Inr tls \<Rightarrow>
     (case pf_NewManager pf (manager_options f ns tls) of
        Some err \<Rightarrow> Exited err
      | None \<Rightarrow>
     (case register_all (pf_Setup pf) (registrations pf f ns labels tls) of
        Some err \<Rightarrow> Exited err
      | None \<Rightarrow>
     (case pf_Start pf of
        Some err \<Rightarrow> Exited err
      | None \<Rightarrow> Ran (registrations pf f ns labels tls)))))))"

section \<open>Properties\<close>

lemma length_split_on: "length (split_on d s) = Suc (count_list s d)"
proof (induction s)
  case (Cons c cs)
  obtain y ys where yys: "split_on d cs = y # ys" by (cases "split_on d cs") auto
  show ?case using Cons yys by (auto split: list.splits)
qed simp

text \<open>A piece is well formed when it has exactly one equals sign.\<close>

lemma split_pair:
  "count_list s CHR ''='' = 1 \<Longrightarrow> \<exists>k v. str_split s ''='' = [k, v]"
  using length_split_on [of "CHR ''=''" s] by (auto simp: str_split_char length_Suc_conv)

lemma split_not_pair:
  "count_list s CHR ''='' \<noteq> 1 \<Longrightarrow> (case str_split s ''='' of [k, v] \<Rightarrow> P k v | _ \<Rightarrow> q) = q"
  using length_split_on [of "CHR ''=''" s] by (auto simp: str_split_char split: list.splits)

lemma parse_pieces_panics:
  "(\<exists>e. parse_pieces ss m = Panicked e) \<longleftrightarrow> (\<exists>s \<in> set ss. count_list s CHR ''='' \<noteq> 1)"
proof (induction ss arbitrary: m)
  case (Cons s ss)
  show ?case
  proof (cases "count_list s CHR ''='' = 1")
    case True
    then obtain k v where "str_split s ''='' = [k, v]" using split_pair by blast
    with True Cons [of "AList.update k v m"] show ?thesis by simp
  next
    case False
    then have "parse_pieces (s # ss) m = Panicked (''invalid label format: '' @ s)" by (simp add: split_not_pair)
    with False show ?thesis by auto
  qed
qed simp

definition label_piece :: "string \<times> string \<Rightarrow> string" where
  "label_piece kv = fst kv @ ''='' @ snd kv"

definition plain_label :: "string \<times> string \<Rightarrow> bool" where
  "plain_label kv \<longleftrightarrow> {CHR '','', CHR ''=''} \<inter> (set (fst kv) \<union> set (snd kv)) = {}"

lemma parse_pieces_labels:
  assumes "\<forall>kv \<in> set kvs. plain_label kv"
  shows "\<exists>m'. parse_pieces (map label_piece kvs) m = Returned m' \<and> map_of m' = map_of m ++ map_of (rev kvs)"
  using assms
proof (induction kvs arbitrary: m)
  case (Cons kv kvs)
  have "CHR ''='' \<notin> set (fst kv)" "CHR ''='' \<notin> set (snd kv)" using Cons.prems by (auto simp: plain_label_def)
  then have "str_split (label_piece kv) ''='' = [fst kv, snd kv]"
    by (simp add: label_piece_def str_split_char split_on_append split_on_nosep)
  moreover have "map_of (AList.update (fst kv) (snd kv) m) ++ map_of (rev kvs) = map_of m ++ map_of (rev (kv # kvs))"
    by (cases kv) (auto simp: update_conv' map_add_def split: option.splits)
  ultimately show ?case
    using Cons.IH [of "AList.update (fst kv) (snd kv) m"] Cons.prems by (auto simp del: map_of_append)
qed simp

lemma label_piece_comma: "plain_label kv \<Longrightarrow> CHR '','' \<notin> set (label_piece kv)"
  by (auto simp: plain_label_def label_piece_def)

lemma join_not_Nil: "xs \<noteq> [] \<Longrightarrow> \<forall>x \<in> set xs. x \<noteq> [] \<Longrightarrow> str_join sep xs \<noteq> []"
  by (induction sep xs rule: str_join.induct) auto

lemma register_all_ok: "register_all setup xs = None \<longleftrightarrow> (\<forall>x \<in> set xs. setup x = None)"
  by (induction xs) (auto split: option.splits)

lemma main_Ran:
  assumes "main pf f = Ran regs"
  obtains ns labels tls where "getRuntimeNamespace (pf_namespaceFile pf) (runtimeNamespace f) = Inr ns"
    "parse_labels (defaultLabels f) = Returned labels" "webhook_tls pf f = Inr tls"
    "regs = registrations pf f ns labels tls" "\<forall>x \<in> set regs. pf_Setup pf x = None"
  using assms unfolding main_def
  by (auto simp: register_all_ok split: sum.splits outcome.splits option.splits)

text \<open>The registrations that call the management API.\<close>

fun uses_management :: "'w registration \<Rightarrow> bool" where
  "uses_management (ROZRoutingPeer _) = True" | "uses_management (ROZResource _) = True"
| "uses_management (ROZGroup _) = True" | "uses_management (ROZPolicy _) = True"
| "uses_management (RSetupKey _) = True" | "uses_management (RGroupController _) = True"
| "uses_management (RNetworkRouter _) = True" | "uses_management (RNetworkResource _) = True"
| "uses_management (RHTTPRoute _) = True" | "uses_management _ = False"

lemmas registration_defs = registrations_def core_registrations_def v1_registrations_def alpha_registrations_def
  gateway_registrations_def check_registrations_def

section \<open>Claims\<close>




definition demo_platform :: "unit Platform" where
  "demo_platform = \<lparr>pf_Client = down_Client, pf_NewOpenZro = \<lambda>_ _ _. down_OpenZro, pf_namespaceFile = FileContents ''oz'',
     pf_Join = \<lambda>a b. a @ ''/'' @ b, pf_NewCertWatcher = \<lambda>_ _. None, pf_NewManager = \<lambda>_. None, pf_Setup = \<lambda>_. None, pf_Start = None,
     pf_seconds = \<lambda>d. d div Second, pf_digest = \<lambda>u. u, pf_merge = \<lambda>t _. Inr t, pf_rank = \<lambda>_ _. 0\<rparr>"

definition demo_flags :: Flags where
  "demo_flags = default_Flags\<lparr>openzroAPIKey := ''k''\<rparr>"


text \<open>
  Without a certificate path the webhook server is given a list with a nil function as its only TLS
  option.
\<close>

lemma nil_tls_option:
  "webhookCertPath f = '''' \<Longrightarrow> webhook_tls pf f = Inr None \<and> mo_TLSOpts (manager_options f ns None) = [None]"
  by (simp add: webhook_tls_def manager_options_def)

end
