(* ===== verification/Call_Bounds.thy ===== *)
theory Call_Bounds
  imports OpenZro_Mock Manager
begin

text \<open>
  How many calls a run of a reconciler makes, whatever the calls answer. A Go function that makes a
  bounded number of calls, each of which returns, ends. The loops of the reconcilers run over what an
  earlier call has answered, so a bound may rest on the size of the answers.
\<close>

section \<open>Bounds of the program constructs\<close>

text \<open>At most \<open>n\<close> calls, provided that each of them is answered as \<open>K\<close> says.\<close>

definition calls :: "(event \<Rightarrow> bool) \<Rightarrow> nat \<Rightarrow> ('w, 'a) go \<Rightarrow> bool" where
  "calls K n m \<longleftrightarrow> emits m (\<lambda>_ evs. (\<forall>e \<in> set evs. K e) \<longrightarrow> length evs \<le> n)"

named_theorems calls_intros \<open>bounds of the program constructs\<close>

lemma calls_mono: "calls K n m \<Longrightarrow> n \<le> k \<Longrightarrow> calls K k m"
  unfolding calls_def by (erule emits_mono) auto

lemma calls_return [calls_intros]: "calls K n (State_Monad.return x)"
  by (simp add: calls_def emits_return)

lemma calls_logs: "calls K n m \<Longrightarrow> emits m (\<lambda>_ _. True)"
  unfolding calls_def by (erule emits_mono) simp

lemma calls_bind:
  assumes "calls K a m" "\<And>x. calls K b (f x)"
  shows "calls K (a + b) (State_Monad.bind m f)"
  unfolding calls_def
  by (rule emits_bind [OF assms(1) [unfolded calls_def]], rule emits_mono [OF assms(2) [unfolded calls_def]]) auto

text \<open>What a part has logged and returned may bound what follows, which goes on from the log in any case.\<close>

lemma calls_bind_known:
  assumes m: "emits m (\<lambda>x evs. (\<forall>e \<in> set evs. K e) \<longrightarrow> length evs \<le> a \<and> R x)"
    and f: "\<And>x. R x \<Longrightarrow> calls K b (f x)" "\<And>x. emits (f x) (\<lambda>_ _. True)"
  shows "calls K (a + b) (State_Monad.bind m f)"
  unfolding calls_def
proof (rule emits_bind [OF m])
  fix x e1
  assume e1: "(\<forall>e \<in> set e1. K e) \<longrightarrow> length e1 \<le> a \<and> R x"
  show "emits (f x) (\<lambda>_ e2. (\<forall>e \<in> set (e1 @ e2). K e) \<longrightarrow> length (e1 @ e2) \<le> a + b)"
  proof (cases "\<forall>e \<in> set e1. K e")
    case True
    with e1 show ?thesis by (intro emits_mono [OF f(1) [unfolded calls_def]]) auto
  next
    case False
    then show ?thesis by (intro emits_mono [OF f(2)]) auto
  qed
qed

lemma calls_api_call [calls_intros]: "calls K (Suc n) (api_call op ev)"
  by (simp add: calls_def emits_api_call)

lemma calls_bind_api_call [calls_intros]: "(\<And>x. calls K n (f x)) \<Longrightarrow> calls K (Suc n) (State_Monad.bind (api_call op ev) f)"
  using calls_bind [of K "Suc 0" "api_call op ev" n f, OF calls_api_call] by simp

lemma calls_bind_last [calls_intros]: "calls K n m \<Longrightarrow> calls K n (State_Monad.bind m (\<lambda>x. State_Monad.return (g x)))"
  using calls_bind [of K n m 0 "\<lambda>x. State_Monad.return (g x)", OF _ calls_return] by simp

lemma calls_early: "calls K a m \<Longrightarrow> (\<And>x. calls K b (f x)) \<Longrightarrow> calls K (a + b) (early m f)"
  unfolding early_def by (rule calls_bind) (auto split: sum.splits intro: calls_intros)

lemma calls_for_each:
  assumes "\<And>x acc. x \<in> set xs \<Longrightarrow> calls K n (body x acc)"
  shows "calls K (n * length xs) (for_each xs acc body)"
  using assms
proof (induction xs arbitrary: acc)
  case (Cons x xs)
  have "calls K (n + n * length xs) (for_each (x # xs) acc body)"
    unfolding for_each.simps by (rule calls_bind) (use Cons in \<open>auto split: sum.splits intro: calls_intros\<close>)
  then show ?case by simp
qed (simp add: calls_intros)

lemma calls_upsert: "calls K 2 (upsert ua ca idOf rec q)"
  unfolding upsert_def o_create_def o_update_def
  by (auto simp: numeral_2_eq_2 Let_def intro!: calls_intros split: option.splits sum.splits)

lemma calls_delete_recorded: "calls K 1 (delete_recorded a rec)"
  unfolding delete_recorded_def o_delete_def One_nat_def by (auto intro!: calls_intros split: option.splits)

lemma calls_resolve_ref: "calls K 1 (resolve_ref c z ns ref)"
  unfolding resolve_ref_def o_group_by_name_def o_get_def k_get_def One_nat_def
  by (auto intro!: calls_intros split: option.splits)

lemma calls_GetGroupIDs: "calls K (length refs) (GetGroupIDs c z refs ns)"
proof -
  have "calls K 1 (do { rr \<leftarrow> resolve_ref c z ns ref; State_Monad.return (g rr) })" for ref and g :: "_ \<Rightarrow> 'b"
    by (intro calls_bind_last calls_resolve_ref)
  then have "calls K (1 * length refs) (GetGroupIDs c z refs ns)"
    unfolding GetGroupIDs_def by (intro calls_for_each)
  then show ?thesis by simp
qed

lemma calls_GetDNSZoneByName: "calls K 1 (GetDNSZoneByName z n)"
  unfolding GetDNSZoneByName_def o_list_def One_nat_def by (auto intro!: calls_intros)

text \<open>The bounds as rules for what follows a part.\<close>

lemma calls_bind_parts [calls_intros]:
  "(\<And>x. calls K n (f x)) \<Longrightarrow> calls K (Suc (Suc n)) (State_Monad.bind (upsert ua ca idOf rec q) f)"
  "(\<And>x. calls K n (g x)) \<Longrightarrow> calls K (Suc n) (State_Monad.bind (delete_recorded a rec2) g)"
  "(\<And>x. calls K n (h x)) \<Longrightarrow> calls K (Suc n) (State_Monad.bind (GetDNSZoneByName z zn) h)"
  "(\<And>x. calls K n (k x)) \<Longrightarrow> calls K (n + length refs) (State_Monad.bind (GetGroupIDs c z refs ns) k)"
  using calls_bind [OF calls_upsert, of K n f ua ca idOf rec q] calls_bind [OF calls_delete_recorded, of K n g a rec2]
    calls_bind [OF calls_GetDNSZoneByName, of K n h z zn] calls_bind [OF calls_GetGroupIDs, of K n k refs c z ns]
  by (simp_all add: add.commute)

lemma calls_case [calls_intros]:
  "(\<And>a. v = Inl a \<Longrightarrow> calls K n (f a)) \<Longrightarrow> (\<And>b. v = Inr b \<Longrightarrow> calls K n (g b)) \<Longrightarrow> calls K n (case v of Inl a \<Rightarrow> f a | Inr b \<Rightarrow> g b)"
  "(u = None \<Longrightarrow> calls K n m) \<Longrightarrow> (\<And>b. u = Some b \<Longrightarrow> calls K n (k b)) \<Longrightarrow> calls K n (case u of None \<Rightarrow> m | Some b \<Rightarrow> k b)"
  "(\<And>x. t = Returned x \<Longrightarrow> calls K n (p x)) \<Longrightarrow> (\<And>x. t = Panicked x \<Longrightarrow> calls K n (q x)) \<Longrightarrow> calls K n (case t of Returned x \<Rightarrow> p x | Panicked x \<Rightarrow> q x)"
  "(s \<Longrightarrow> calls K n y) \<Longrightarrow> (\<not> s \<Longrightarrow> calls K n z) \<Longrightarrow> calls K n (case s of True \<Rightarrow> y | False \<Rightarrow> z)"
  by (auto split: sum.splits option.splits outcome.splits bool.splits)

lemma calls_if [calls_intros]: "(b \<Longrightarrow> calls K n m) \<Longrightarrow> (\<not> b \<Longrightarrow> calls K n k) \<Longrightarrow> calls K n (if b then m else k)"
  by simp

lemma calls_let [calls_intros]: "calls K n (f a) \<Longrightarrow> calls K n (let x = a in f x)"
  by simp

lemma calls_upsert_last [calls_intros]: "calls K (Suc (Suc n)) (upsert ua ca idOf rec q)"
  by (rule calls_mono [OF calls_upsert]) simp

section \<open>Bounds of the reconcilers\<close>

lemma Group_body_calls: "calls K 4 (Group_body r req g)"
  unfolding Group_body_def Group_reconcileDelete_def Group_ensure_def k_patch_def
  by (simp only: eval_nat_numeral BitM.simps) (intro calls_intros)

lemma key_up_to_date_calls: "calls K 3 (key_up_to_date r req k ids)"
  unfolding key_up_to_date_def k_get_def o_get_def o_update_def
  by (simp only: eval_nat_numeral BitM.simps) (intro calls_intros)

lemma recreate_key_calls: "calls K 5 (recreate_key r owner req k ids)"
  unfolding recreate_key_def k_patch_def k_apply_def o_create_def
  by (simp only: eval_nat_numeral BitM.simps) (intro calls_intros)

lemma calls_bind_key [calls_intros]:
  "(\<And>x. calls K n (f x)) \<Longrightarrow> calls K (Suc (Suc (Suc n))) (State_Monad.bind (key_up_to_date r req k ids) f)"
  "calls K (Suc (Suc (Suc (Suc (Suc 0))))) (recreate_key r owner req k ids)"
  using calls_bind [OF key_up_to_date_calls, of K n f r req k ids] recreate_key_calls [of K r owner req k ids]
  by (simp_all add: eval_nat_numeral)

lemma SetupKey_sync_calls: "calls K (length (sk_AutoGroups (sk_Spec k)) + 9) (SetupKey_sync r owner req k)"
  unfolding SetupKey_sync_def k_patch_def
  by (rule calls_bind [OF calls_GetGroupIDs], simp only: eval_nat_numeral BitM.simps, intro calls_intros)

lemma SetupKey_body_calls: "calls K (length (sk_AutoGroups (sk_Spec k)) + 9) (SetupKey_body r req k)"
proof -
  have "calls K 2 (SetupKey_reconcileDelete r k)"
    unfolding SetupKey_reconcileDelete_def k_patch_def numeral_2_eq_2 by (intro calls_intros)
  then have "calls K (length (sk_AutoGroups (sk_Spec k)) + 9) (SetupKey_reconcileDelete r k)" by (rule calls_mono) simp
  then show ?thesis unfolding SetupKey_body_def by (intro calls_intros SetupKey_sync_calls)
qed

lemma NetworkRouter_stage_calls:
  "calls K 4 (router_network r n)" "calls K 4 (router_peers r owner req n i)" "calls K 3 (router_routing_peer r i g n)" "calls K 3 (router_workload r owner req k n)"
  unfolding router_network_def ensure_network_def router_peers_def router_routing_peer_def router_workload_def k_patch_def k_get_def k_apply_def
  by (simp_all only: eval_nat_numeral BitM.simps) (intro calls_intros)+

lemma NetworkRouter_body_calls: "calls K 14 (NetworkRouter_body r req n)"
proof -
  have "calls K (4 + (4 + (3 + 3))) (NetworkRouter_sync r owner req n)" for owner
    unfolding NetworkRouter_sync_def split_beta by (intro calls_early NetworkRouter_stage_calls)
  then have sync: "calls K 14 (NetworkRouter_sync r owner req n)" for owner by simp
  have "calls K 3 (NetworkRouter_reconcileDelete r n)"
    unfolding NetworkRouter_reconcileDelete_def k_patch_def numeral_3_eq_3 by (intro calls_intros)
  then have "calls K 14 (NetworkRouter_reconcileDelete r n)" by (rule calls_mono) simp
  with sync show ?thesis unfolding NetworkRouter_body_def by (intro calls_intros)
qed

lemma NetworkResource_stage_calls:
  "calls K 2 (resource_service r n)" "calls K 2 (resource_router r n)" "calls K 1 (resource_zone r nr)"
  "calls K 1 (forget_old_record r n zone)" "calls K 3 (resource_record r svc zone n)" "calls K 3 (NetworkResource_reconcileDelete r n)"
  unfolding resource_service_def dependency_missing_def resource_router_def resource_zone_def forget_old_record_def resource_record_def
    NetworkResource_reconcileDelete_def k_patch_def k_get_def
  by (simp_all only: eval_nat_numeral BitM.simps One_nat_def) (intro calls_intros)+

lemma resource_upstream_calls: "calls K (length (nrs_Groups (nrs_Spec n)) + 3) (resource_upstream r n svc nr)"
  unfolding resource_upstream_def k_patch_def
  by (rule calls_bind [OF calls_GetGroupIDs], simp only: eval_nat_numeral BitM.simps, intro calls_intros)

lemma NetworkResource_body_calls: "calls K (length (nrs_Groups (nrs_Spec n)) + 12) (NetworkResource_body r req n)"
proof -
  have "calls K (2 + (2 + ((length (nrs_Groups (nrs_Spec n)) + 3) + (1 + (1 + 3))))) (NetworkResource_sync r n)"
    unfolding NetworkResource_sync_def by (intro calls_early NetworkResource_stage_calls resource_upstream_calls)
  then have sync: "calls K (length (nrs_Groups (nrs_Spec n)) + 12) (NetworkResource_sync r n)" by (simp add: add.commute)
  have "calls K (length (nrs_Groups (nrs_Spec n)) + 12) (NetworkResource_reconcileDelete r n)"
    by (rule calls_mono [OF NetworkResource_stage_calls(6)]) simp
  with sync show ?thesis unfolding NetworkResource_body_def by (intro calls_intros)
qed

lemma GatewayClass_body_calls: "calls K 2 (GatewayClass_body r req g)"
  unfolding GatewayClass_body_def GatewayClass_reconcileDelete_def k_patch_def k_list_def numeral_2_eq_2 by (intro calls_intros)

lemma calls_bind_router [calls_intros]:
  "(\<And>x. calls K n (f x)) \<Longrightarrow> calls K (Suc n) (State_Monad.bind (GetGatewayNetworkRouter c gw) f)"
proof -
  have "calls K 1 (GetGatewayNetworkRouter c gw)"
    unfolding GetGatewayNetworkRouter_def k_get_def One_nat_def by (intro calls_intros)
  then show "(\<And>x. calls K n (f x)) \<Longrightarrow> ?thesis" using calls_bind [of K 1 _ n f] by simp
qed

lemma Gateway_body_calls: "calls K 4 (Gateway_body r req g)"
  unfolding Gateway_body_def Gateway_reconcileDelete_def Gateway_sync_def Gateway_program_def k_patch_def k_list_def k_get_def
  by (simp only: eval_nat_numeral BitM.simps) (intro calls_intros)

section \<open>Bounds of the route controllers\<close>

lemma calls_try_bind: "calls K a m \<Longrightarrow> (\<And>x. calls K b (f x)) \<Longrightarrow> calls K (a + b) (try_bind m f)"
  unfolding try_bind_def by (rule calls_bind) (auto split: sum.splits intro: calls_intros)

lemma calls_returned: "calls K n m \<Longrightarrow> calls K n (returned m)"
  unfolding returned_def by (intro calls_intros)

lemma calls_GetParentGateway: "calls K 2 (GetParentGateway c p ns cn)"
  unfolding GetParentGateway_def k_get_def numeral_2_eq_2 by (intro calls_intros)

lemma calls_parent_router: "calls K 3 (parent_router c ns p)"
proof -
  have "calls K (2 + 1) (parent_router c ns p)"
    unfolding parent_router_def One_nat_def by (rule calls_bind [OF calls_GetParentGateway]) (intro calls_intros)
  then show ?thesis by simp
qed

text \<open>The map of backends has at most one service for each reference.\<close>

lemma length_update: "length (AList.update k v al) \<le> Suc (length al)"
  by (induction al) auto

lemma backend_services_calls:
  "emits (backend_services c skip ns rules) (\<lambda>x evs. length evs \<le> length (concat rules) \<and>
     (\<forall>idx. x = Inr idx \<longrightarrow> length idx \<le> length (concat rules)))"
proof (rule emits_conj)
  have "calls (\<lambda>_. True) (Suc 0 * length (concat rules)) (backend_services c skip ns rules)"
    unfolding backend_services_def k_get_def by (intro calls_for_each calls_intros)
  then show "emits (backend_services c skip ns rules) (\<lambda>_ evs. length evs \<le> length (concat rules))"
    by (simp add: calls_def)
  show "emits (backend_services c skip ns rules) (\<lambda>x _. \<forall>idx. x = Inr idx \<longrightarrow> length idx \<le> length (concat rules))"
    unfolding backend_services_def k_get_def
  proof (rule emits_for_each_visited [where I = "\<lambda>don idx _. length idx \<le> length don"], goal_cases)
    case (2 ref don idx e1)
    have "length (AList.update k v idx) \<le> Suc (length don)" for k v using length_update [of k v idx] 2(2) by simp
    then show ?case using 2(2) by (auto intro!: emits_intros simp: failed_def split: sum.splits if_splits)
  qed auto
qed

lemma calls_bind_sized:
  assumes "emits m (\<lambda>x evs. length evs \<le> a \<and> R x)" "\<And>x. R x \<Longrightarrow> calls K b (f x)"
  shows "calls K (a + b) (State_Monad.bind m f)"
  unfolding calls_def
proof (rule emits_bind [OF assms(1)])
  fix x and e1 :: "event list"
  assume "length e1 \<le> a \<and> R x"
  then show "emits (f x) (\<lambda>_ e2. (\<forall>e \<in> set (e1 @ e2). K e) \<longrightarrow> length (e1 @ e2) \<le> a + b)"
    by (intro emits_mono [OF assms(2) [unfolded calls_def]]) auto
qed

lemma calls_backends:
  assumes "\<And>idx. length idx \<le> length (concat rules) \<Longrightarrow> calls K b (f idx)"
  shows "calls K (length (concat rules) + b) (try_bind (backend_services c skip ns rules) f)"
  unfolding try_bind_def
  by (rule calls_bind_sized [OF backend_services_calls]) (use assms in \<open>auto intro: calls_intros split: sum.splits\<close>)

lemma calls_bind_map_range:
  assumes "\<And>vs. length vs = length m \<Longrightarrow> calls K n (f vs)"
  shows "calls K n (State_Monad.bind (map_range rank m) f)"
proof -
  have "emits (map_range rank m) (\<lambda>vs evs. length evs \<le> 0 \<and> length vs = length m)"
    by (rule emits_mono [OF emits_map_range]) (metis length_map list.size(3) mset_eq_length order_refl)
  from calls_bind_sized [OF this, of K n f] assms show ?thesis by simp
qed

lemma calls_apply_backends: "calls K (length svcs) (apply_backends c route m nr svcs)"
proof -
  have "calls K (Suc 0 * length svcs) (apply_backends c route m nr svcs)"
    unfolding apply_backends_def k_apply_def by (intro calls_for_each calls_intros)
  then show ?thesis by simp
qed

lemma calls_release_backends: "calls K (2 * length svcs) (release_backends c route svcs)"
  unfolding release_backends_def k_get_def k_update_def k_delete_def numeral_2_eq_2 by (intro calls_for_each calls_intros)

text \<open>The sizes of the answers that the loops run over: group references, parents, backends, host names, proxy services.\<close>

fun small :: "nat \<Rightarrow> nat \<Rightarrow> nat \<Rightarrow> nat \<Rightarrow> kobj \<Rightarrow> bool" where
  "small G P B H (KSetupKey k) = (length (sk_AutoGroups (sk_Spec k)) \<le> G)"
| "small G P B H (KNetworkResource n) = (length (nrs_Groups (nrs_Spec n)) \<le> G)"
| "small G P B H (KTCPRoute t) = (length (tr_ParentRefs t) \<le> P \<and> length (concat (tr_Rules t)) \<le> B)"
| "small G P B H (KHTTPRoute h) = (length (hr_ParentRefs h) \<le> P \<and> length (concat (hr_Rules h)) \<le> B \<and> length (hr_Hostnames h) \<le> H)"
| "small G P B H _ = True"

fun small_answer :: "nat \<Rightarrow> nat \<Rightarrow> nat \<Rightarrow> nat \<Rightarrow> nat \<Rightarrow> event \<Rightarrow> bool" where
  "small_answer G P B H L (EGet _ _ (Inr x)) = small G P B H x"
| "small_answer G P B H L (EPatch _ (Inr x)) = small G P B H x"
| "small_answer G P B H L (OList _ (Inr xs)) = (length xs \<le> L)"
| "small_answer G P B H L _ = True"

lemma calls_bind_answer:
  assumes "\<And>r. K (ev r) \<Longrightarrow> calls K n (f r)" "\<And>r. emits (f r) (\<lambda>_ _. True)"
  shows "calls K (Suc n) (State_Monad.bind (api_call op ev) f)"
proof -
  have "emits (api_call op ev) (\<lambda>r evs. (\<forall>e \<in> set evs. K e) \<longrightarrow> length evs \<le> Suc 0 \<and> K (ev r))"
    by (rule emits_api_call) simp
  from calls_bind_known [OF this, of n f] assms show ?thesis by simp
qed

subsection \<open>TCP routes\<close>

lemma TCPRoute_attach_calls:
  "calls (small_answer G P B H L) (Suc (2 * B)) (TCPRoute_attach r nr t)"
proof -
  let ?rest = "\<lambda>t1. try_bind (backend_services (trr_Client r) False (om_Namespace (tr_Meta t1)) (tr_Rules t1)) (\<lambda>svcIdx. do {
          svcs \<leftarrow> map_range (trr_rank r) svcIdx;
          try_bind (apply_backends (trr_Client r) (KTCPRoute t1) (tr_Meta t1) nr svcs) (\<lambda>_. State_Monad.return (Inr t1)) })"
  have rest: "calls K (length (concat (tr_Rules t1)) + length (concat (tr_Rules t1))) (?rest t1)" for K t1
  proof (intro calls_backends calls_bind_map_range)
    fix idx :: "(string \<times> Service) list" and svcs :: "Service list"
    assume "length idx \<le> length (concat (tr_Rules t1))" "length svcs = length idx"
    then show "calls K (length (concat (tr_Rules t1)))
        (try_bind (apply_backends (trr_Client r) (KTCPRoute t1) (tr_Meta t1) nr svcs) (\<lambda>_. State_Monad.return (Inr t1)))"
      by (intro calls_mono [OF calls_try_bind [OF calls_apply_backends calls_return [where n = 0]]]) simp
  qed
  show ?thesis
    unfolding TCPRoute_attach_def k_patch_def
  proof (rule calls_bind_answer, goal_cases)
    case (1 pr)
    then show ?case
    proof (cases pr)
      case (Inr t1)
      with 1 have "length (concat (tr_Rules t1)) \<le> B" by (simp add: TCPRoutes_def)
      then show ?thesis using calls_mono [OF rest, of t1 "2 * B"] Inr by simp
    qed (simp add: calls_return)
  next
    case (2 pr)
    show ?case by (cases pr) (simp_all add: emits_return calls_logs [OF rest])
  qed
qed

lemma TCPRoute_sync_calls:
  "calls (small_answer G P B H L) (length (tr_ParentRefs t) * (4 + 2 * B)) (TCPRoute_sync r t)"
proof -
  have step: "calls (small_answer G P B H L) (3 + Suc (2 * B)) (try_bind (parent_router (trr_Client r) ns p) (\<lambda>nr.
         (case nr of None \<Rightarrow> State_Monad.return (Inr t1) | Some netRouter \<Rightarrow> returned (TCPRoute_attach r netRouter t1))))" for ns p t1
    by (intro calls_try_bind calls_parent_router calls_case calls_return calls_returned TCPRoute_attach_calls)
  have "calls (small_answer G P B H L) ((3 + Suc (2 * B)) * length (tr_ParentRefs t) + 0) (TCPRoute_sync r t)"
    unfolding TCPRoute_sync_def by (intro calls_early calls_for_each step calls_return)
  then show ?thesis by (simp add: mult.commute)
qed

lemma calls_for_own_parents:
  assumes "calls K n act"
  shows "calls K ((2 + n) * length parents) (for_own_parents c ns parents act)"
  unfolding for_own_parents_def
  by (intro calls_for_each calls_bind [OF calls_GetParentGateway] calls_case calls_return assms)

text \<open>The deletion of a route asks for its backends, and releases each of them.\<close>

lemma calls_detach:
  assumes "\<And>svcs. length svcs \<le> length (concat rules) \<Longrightarrow> calls K b (rest svcs)"
  shows "calls K (length (concat rules) + b) (try_bind (backend_services c skip ns rules) (\<lambda>idx. State_Monad.bind (map_range rank idx) rest))"
  by (intro calls_backends calls_bind_map_range assms) simp

lemma TCPRoute_detach_calls: "calls K (3 * length (concat (tr_Rules t))) (TCPRoute_detach r t)"
proof -
  have "calls K (length (concat (tr_Rules t)) + 2 * length (concat (tr_Rules t))) (TCPRoute_detach r t)"
    unfolding TCPRoute_detach_def by (intro calls_detach calls_mono [OF calls_release_backends]) simp
  then show ?thesis by simp
qed

lemma TCPRoute_body_calls:
  assumes "length (tr_ParentRefs t) \<le> P" "length (concat (tr_Rules t)) \<le> B"
  shows "calls (small_answer G P B H L) (1 + P * (4 + 3 * B)) (TCPRoute_body r req t)"
proof -
  let ?K = "small_answer G P B H L"
  have le: "P' * a + c \<le> 1 + P * (4 + 3 * B)" if "P' \<le> P" "a \<le> 4 + 3 * B" "c \<le> 1" for P' a c
    using mult_le_mono [OF that(1, 2)] that(3) by linarith
  have sync: "calls ?K (1 + P * (4 + 3 * B)) (TCPRoute_sync r t)"
    using le [of "length (tr_ParentRefs t)" "4 + 2 * B" 0] assms by (intro calls_mono [OF TCPRoute_sync_calls]) simp
  have "calls ?K ((2 + 3 * length (concat (tr_Rules t))) * length (tr_ParentRefs t) + 1) (TCPRoute_reconcileDelete r t)"
    unfolding TCPRoute_reconcileDelete_def k_patch_def One_nat_def
    by (intro calls_early calls_for_own_parents TCPRoute_detach_calls calls_intros)
  then have "calls ?K (1 + P * (4 + 3 * B)) (TCPRoute_reconcileDelete r t)"
    using le [of "length (tr_ParentRefs t)" "2 + 3 * length (concat (tr_Rules t))" 1] assms
    by (elim calls_mono) (simp add: mult.commute)
  with sync show ?thesis unfolding TCPRoute_body_def by (intro calls_intros)
qed

subsection \<open>HTTP routes\<close>

lemma proxy_targets_calls: "calls K (length svcs) (proxy_targets r svcs)"
proof -
  have "calls K (Suc 0 * length svcs) (proxy_targets r svcs)"
    unfolding proxy_targets_def k_get_def by (intro calls_for_each calls_intros)
  then show ?thesis by simp
qed

lemma publish_hostname_calls: "calls K (length ps + 1) (publish_hostname r ps targets h)"
proof -
  have "calls K (1 * length ps + 1) (publish_hostname r ps targets h)"
    unfolding publish_hostname_def o_update_def o_create_def One_nat_def
    by (intro calls_try_bind calls_for_each calls_intros)
  then show ?thesis by simp
qed

lemma publish_hostnames_calls: "calls (small_answer G P B H L) (1 + (L + 1) * length hs) (publish_hostnames r targets hs)"
proof -
  have all: "calls K ((length ps + 1) * length hs) (for_each hs () (\<lambda>h _. publish_hostname r ps targets h))" for K ps
    by (intro calls_for_each publish_hostname_calls)
  have "calls (small_answer G P B H L) (Suc ((L + 1) * length hs)) (publish_hostnames r targets hs)"
    unfolding publish_hostnames_def o_list_def
  proof (rule calls_bind_answer, goal_cases)
    case (1 lr)
    then show ?case
      by (cases lr) (auto simp: Proxies_def calls_return intro: calls_mono [OF all])
  next
    case (2 lr)
    show ?case by (cases lr) (simp_all add: emits_return calls_logs [OF all])
  qed
  then show ?thesis by simp
qed

text \<open>What follows the update of a route: its backends, their targets, and its host names.\<close>

lemma HTTPRoute_backends_calls:
  fixes r :: "'w HTTPRouteReconciler" and nr :: NetworkRouter
  defines "rest \<equiv> \<lambda>h1. try_bind (backend_services (hrr_Client r) False (om_Namespace (hr_Meta h1)) (hr_Rules h1)) (\<lambda>svcIdx. do {
          svcs \<leftarrow> map_range (hrr_rank r) svcIdx;
          try_bind (apply_backends (hrr_Client r) (KHTTPRoute h1) (hr_Meta h1) nr svcs) (\<lambda>_. do {
          svcs2 \<leftarrow> map_range (hrr_rank r) svcIdx;
          try_bind (proxy_targets r svcs2) (\<lambda>targets.
          try_bind (publish_hostnames r targets (hr_Hostnames h1)) (\<lambda>_. State_Monad.return (Inr h1))) }) })"
  shows "calls (small_answer G P B H L) (3 * length (concat (hr_Rules h1)) + 1 + (L + 1) * length (hr_Hostnames h1)) (rest h1)"
proof -
  let ?K = "small_answer G P B H L" and ?b = "length (concat (hr_Rules h1))" and ?h = "1 + (L + 1) * length (hr_Hostnames h1)"
  have app: "calls ?K ?b (apply_backends (hrr_Client r) (KHTTPRoute h1) (hr_Meta h1) nr svcs)" if "length svcs \<le> ?b" for svcs
    using calls_mono [OF calls_apply_backends that] .
  have targets: "calls ?K ?b (proxy_targets r svcs)" if "length svcs \<le> ?b" for svcs
    using calls_mono [OF proxy_targets_calls that] .
  have "calls ?K (?b + (?b + (?b + (?h + 0)))) (rest h1)"
    unfolding rest_def
    by (intro calls_backends calls_bind_map_range calls_try_bind app targets publish_hostnames_calls calls_return) simp_all
  then show ?thesis by (rule calls_mono) simp
qed

lemma HTTPRoute_attach_calls:
  "calls (small_answer G P B H L) (2 + 3 * B + (L + 1) * H) (HTTPRoute_attach r nr h)"
proof -
  have "calls (small_answer G P B H L) (Suc (1 + 3 * B + (L + 1) * H)) (HTTPRoute_attach r nr h)"
    unfolding HTTPRoute_attach_def k_patch_def
  proof (rule calls_bind_answer, goal_cases)
    case (1 pr)
    then show ?case
    proof (cases pr)
      case (Inr h1)
      with 1 have "length (concat (hr_Rules h1)) \<le> B" "length (hr_Hostnames h1) \<le> H" by (simp_all add: HTTPRoutes_def)
      then have "3 * length (concat (hr_Rules h1)) + 1 + (L + 1) * length (hr_Hostnames h1) \<le> 1 + 3 * B + (L + 1) * H"
        using mult_le_mono2 [of "length (hr_Hostnames h1)" H "L + 1"] by linarith
      from calls_mono [OF HTTPRoute_backends_calls this] Inr show ?thesis by (simp only: sum.case)
    qed (simp add: calls_return)
  next
    case (2 pr)
    show ?case by (cases pr) (simp_all add: emits_return calls_logs [OF HTTPRoute_backends_calls])
  qed
  then show ?thesis by simp
qed

text \<open>The bound for one parent of a route, whether the route is attached or detached.\<close>

definition parent_calls :: "nat \<Rightarrow> nat \<Rightarrow> nat \<Rightarrow> nat" where
  "parent_calls B H L = 5 + 3 * B + (L + 1) * H"

lemma HTTPRoute_sync_calls:
  "calls (small_answer G P B H L) (length (hr_ParentRefs h) * parent_calls B H L) (HTTPRoute_sync r h)"
proof -
  have step: "calls (small_answer G P B H L) (3 + (2 + 3 * B + (L + 1) * H)) (try_bind (parent_router (hrr_Client r) ns p) (\<lambda>nr.
         (case nr of None \<Rightarrow> State_Monad.return (Inr t1) | Some netRouter \<Rightarrow> returned (HTTPRoute_attach r netRouter t1))))" for ns p t1
    by (intro calls_try_bind calls_parent_router calls_case calls_return calls_returned HTTPRoute_attach_calls)
  have "calls (small_answer G P B H L) ((3 + (2 + 3 * B + (L + 1) * H)) * length (hr_ParentRefs h) + 0) (HTTPRoute_sync r h)"
    unfolding HTTPRoute_sync_def by (intro calls_early calls_for_each step calls_return)
  then show ?thesis by (simp add: mult.commute parent_calls_def add.assoc)
qed

lemma HTTPRoute_detach_calls:
  "calls K (3 * length (concat (hr_Rules h)) + length (hr_Hostnames h)) (HTTPRoute_detach r idx h)"
proof -
  have un: "calls K (1 * length (hr_Hostnames h)) (unpublish_hostnames r idx (hr_Hostnames h))"
    unfolding unpublish_hostnames_def by (intro calls_for_each calls_bind_last calls_delete_recorded)
  have "calls K (length (concat (hr_Rules h)) + (2 * length (concat (hr_Rules h)) + 1 * length (hr_Hostnames h))) (HTTPRoute_detach r idx h)"
    unfolding HTTPRoute_detach_def by (intro calls_detach calls_try_bind calls_mono [OF calls_release_backends] un) simp
  then show ?thesis by simp
qed

lemma HTTPRoute_reconcileDelete_calls:
  "calls K (2 + length (hr_ParentRefs h) * (2 + 3 * length (concat (hr_Rules h)) + length (hr_Hostnames h))) (HTTPRoute_reconcileDelete r h)"
proof -
  have "calls K ((2 + (3 * length (concat (hr_Rules h)) + length (hr_Hostnames h))) * length (hr_ParentRefs h) + Suc 0)
      (early (for_own_parents (hrr_Client r) (om_Namespace (hr_Meta h)) (hr_ParentRefs h) (HTTPRoute_detach r idx h)) (\<lambda>_. do {
          pr \<leftarrow> k_patch (HTTPRoutes (hrr_Client r)) (HTTPRoute_released r h);
          State_Monad.return (zero_Result, err_of pr) }))" for idx
    unfolding k_patch_def by (intro calls_early calls_for_own_parents HTTPRoute_detach_calls calls_intros)
  then have "calls K (Suc ((2 + (3 * length (concat (hr_Rules h)) + length (hr_Hostnames h))) * length (hr_ParentRefs h) + Suc 0)) (HTTPRoute_reconcileDelete r h)"
    unfolding HTTPRoute_reconcileDelete_def o_list_def by (intro calls_intros)
  then show ?thesis by (simp add: mult.commute add.assoc)
qed

lemma HTTPRoute_body_calls:
  assumes "length (hr_ParentRefs h) \<le> P" "length (concat (hr_Rules h)) \<le> B" "length (hr_Hostnames h) \<le> H"
  shows "calls (small_answer G P B H L) (2 + P * parent_calls B H L) (HTTPRoute_body r req h)"
proof -
  let ?K = "small_answer G P B H L"
  have le: "length (hr_ParentRefs h) * a \<le> P * parent_calls B H L" if "a \<le> parent_calls B H L" for a
    using mult_le_mono [OF assms(1) that] .
  have "2 + 3 * length (concat (hr_Rules h)) + length (hr_Hostnames h) \<le> parent_calls B H L"
    using assms(2, 3) by (simp add: parent_calls_def)
  then have "calls ?K (2 + P * parent_calls B H L) (HTTPRoute_reconcileDelete r h)"
    by (intro calls_mono [OF HTTPRoute_reconcileDelete_calls] add_le_mono le order_refl)
  moreover have "calls ?K (2 + P * parent_calls B H L) (HTTPRoute_sync r h)"
    by (rule calls_mono [OF HTTPRoute_sync_calls]) (rule trans_le_add2 [OF le [OF order_refl]])
  ultimately show ?thesis unfolding HTTPRoute_body_def by (intro calls_intros)
qed

section \<open>Bounds of the runs\<close>

lemma calls_reconcile:
  assumes "\<And>x. small G P B H (ka_obj a x) \<Longrightarrow> calls (small_answer G P B H L) n (body x)" "\<And>x. emits (body x) (\<lambda>_ _. True)"
  shows "calls (small_answer G P B H L) (1 + n)
    (do { gr \<leftarrow> k_get a req; (case gr of Inl err \<Rightarrow> State_Monad.return (g err) | Inr x \<Rightarrow> body x) })"
proof -
  have "calls (small_answer G P B H L) (Suc n)
    (do { gr \<leftarrow> k_get a req; (case gr of Inl err \<Rightarrow> State_Monad.return (g err) | Inr x \<Rightarrow> body x) })"
    unfolding k_get_def
  proof (rule calls_bind_answer, goal_cases)
    case (1 gr)
    then show ?case by (cases gr) (simp_all add: calls_return assms(1))
  next
    case (2 gr)
    show ?case by (cases gr) (simp_all add: emits_return assms(2))
  qed
  then show ?thesis by simp
qed

lemmas body_calls = Group_body_calls SetupKey_body_calls NetworkRouter_body_calls NetworkResource_body_calls
  GatewayClass_body_calls Gateway_body_calls

lemma Reconcile_calls:
  "calls (small_answer G P B H L) (1 + 4) (Group_Reconcile gc req)"
  "calls (small_answer G P B H L) (1 + (G + 9)) (SetupKey_Reconcile sc req)"
  "calls (small_answer G P B H L) (1 + 14) (NetworkRouter_Reconcile nc req)"
  "calls (small_answer G P B H L) (1 + (G + 12)) (NetworkResource_Reconcile rc req)"
  "calls (small_answer G P B H L) (1 + 2) (GatewayClass_Reconcile cc req)"
  "calls (small_answer G P B H L) (1 + 4) (Gateway_Reconcile wc req)"
  unfolding Group_Reconcile_def SetupKey_Reconcile_def NetworkRouter_Reconcile_def NetworkResource_Reconcile_def
    GatewayClass_Reconcile_def Gateway_Reconcile_def
  by (intro calls_reconcile calls_logs [OF body_calls(1)] calls_logs [OF body_calls(2)] calls_logs [OF body_calls(3)]
      calls_logs [OF body_calls(4)] calls_logs [OF body_calls(5)] calls_logs [OF body_calls(6)];
      rule body_calls calls_mono [OF body_calls(2)] calls_mono [OF body_calls(4)];
      simp add: AlphaSetupKeys_def NetworkResources_def)+

lemma Route_Reconcile_calls:
  "calls (small_answer G P B H L) (1 + (1 + P * (4 + 3 * B))) (TCPRoute_Reconcile tc req)"
  "calls (small_answer G P B H L) (1 + (2 + P * parent_calls B H L)) (HTTPRoute_Reconcile hc req)"
  unfolding TCPRoute_Reconcile_def HTTPRoute_Reconcile_def
  by (intro calls_reconcile calls_logs [OF TCPRoute_body_calls [OF order_refl order_refl]]
      calls_logs [OF HTTPRoute_body_calls [OF order_refl order_refl order_refl]] TCPRoute_body_calls HTTPRoute_body_calls;
      simp add: TCPRoutes_def HTTPRoutes_def)+

section \<open>The property\<close>

text \<open>
  C18. Every run of a reconciler of the \<open>v1alpha1\<close> and of the Gateway API controllers ends: whatever the
  cluster and the management service answer, the run makes at most the number of calls given here. The bound
  depends on nothing for groups, routers, gateway classes and gateways. It depends on the number \<open>G\<close> of group references of
  a setup key or a network resource; on the number \<open>P\<close> of parents, \<open>B\<close> of backends and \<open>H\<close> of host names of a route;
  and, for an HTTP route, on the number \<open>L\<close> of services that the reverse proxy lists. These
  sizes are those of the objects that the run has been answered, a route that was changed under it included.
\<close>

theorem runs_end:
  "calls (small_answer G P B H L) 5 (Group_Reconcile gc req) \<and>
   calls (small_answer G P B H L) (G + 10) (SetupKey_Reconcile sc req) \<and>
   calls (small_answer G P B H L) 15 (NetworkRouter_Reconcile nc req) \<and>
   calls (small_answer G P B H L) (G + 13) (NetworkResource_Reconcile rc req) \<and>
   calls (small_answer G P B H L) 3 (GatewayClass_Reconcile cc req) \<and>
   calls (small_answer G P B H L) 5 (Gateway_Reconcile wc req) \<and>
   calls (small_answer G P B H L) (2 + P * (4 + 3 * B)) (TCPRoute_Reconcile tc req) \<and>
   calls (small_answer G P B H L) (3 + P * (5 + 3 * B + (L + 1) * H)) (HTTPRoute_Reconcile hc req)"
  by (intro conjI; rule calls_mono [OF Reconcile_calls(1)] calls_mono [OF Reconcile_calls(2)] calls_mono [OF Reconcile_calls(3)]
      calls_mono [OF Reconcile_calls(4)] calls_mono [OF Reconcile_calls(5)] calls_mono [OF Reconcile_calls(6)]
      calls_mono [OF Route_Reconcile_calls(1)] calls_mono [OF Route_Reconcile_calls(2)]; simp add: parent_calls_def)

end
