(* ===== verification/Service_Policy.thy ===== *)
theory Service_Policy
  imports Service_Controller OZPolicy_Controller
begin

text \<open>
  From the ports of a Service to the ports of a policy at the management server: the Service controller writes the ports into the
  spec of an \<open>OZResource\<close>, and the \<open>OZPolicy\<close> controller collects them from there.
\<close>

section \<open>The ports of a service\<close>

definition port_allowed :: "string \<Rightarrow> Service \<Rightarrow> int32 \<Rightarrow> bool" where
  "port_allowed protocol svc port \<longleftrightarrow> (case filter_ports svc of
     Inl _ \<Rightarrow> False
   | Inr fp \<Rightarrow> has_port (str_to_upper protocol) (svc_Ports svc) port \<and> \<not> port_excluded protocol fp (filter_protocols svc) port)"

definition ports_of :: "string \<Rightarrow> OZResourceSpec \<Rightarrow> int32 list" where
  "ports_of protocol sp = (if protocol = protocolTCP then ozr_TCPPorts sp else if protocol = protocolUDP then ozr_UDPPorts sp else [])"

text \<open>The Service controller has made the spec from one that had no ports.\<close>

definition exposes :: "Service \<Rightarrow> OZResourceSpec \<Rightarrow> bool" where
  "exposes svc sp' \<longleftrightarrow> (\<exists>sp. ozr_TCPPorts sp = [] \<and> ozr_UDPPorts sp = [] \<and> applyPolicy sp svc = Inr sp')"

lemma protocol_upper: "str_to_upper protocolTCP = ''TCP''" "str_to_upper protocolUDP = ''UDP''"
  by code_simp+

lemma exposes_ports:
  assumes "exposes svc sp'" "port \<in> set (ports_of protocol sp')"
  shows "port_allowed protocol svc port"
proof -
  from assms(1) obtain sp where sp: "ozr_TCPPorts sp = []" "ozr_UDPPorts sp = []" "applyPolicy sp svc = Inr sp'"
    by (auto simp: exposes_def)
  then obtain fp tcp udp where fp: "filter_ports svc = Inr fp"
    and tr: "track_ports fp (filter_protocols svc) (svc_Ports svc) ([], []) = (tcp, udp)"
    and sp': "ozr_TCPPorts sp' = tcp" "ozr_UDPPorts sp' = udp"
    by (auto simp: applyPolicy_def Let_def split: sum.splits prod.splits)
  have mem: "port \<in> set tcp \<longleftrightarrow> has_port ''TCP'' (svc_Ports svc) port \<and> \<not> port_excluded ''tcp'' fp (filter_protocols svc) port"
    "port \<in> set udp \<longleftrightarrow> has_port ''UDP'' (svc_Ports svc) port \<and> \<not> port_excluded ''udp'' fp (filter_protocols svc) port"
    using track_ports_mem [of port fp "filter_protocols svc" "svc_Ports svc" "[]" "[]"] unfolding tr by auto
  with assms(2) show ?thesis
    using protocol_upper
    by (auto simp: ports_of_def sp' port_allowed_def fp protocolTCP_def protocolUDP_def split: if_splits)
qed

section \<open>The requests of a policy\<close>

definition policy_of :: "coll \<Rightarrow> oreq \<Rightarrow> PolicyRequest option" where
  "policy_of c req = (case req of QPolicy q \<Rightarrow> if c = CPolicies then Some q else None | _ \<Rightarrow> None)"

definition sent :: "event \<Rightarrow> PolicyRequest option" where
  "sent e = (case e of OCreate c req _ \<Rightarrow> policy_of c req | OUpdate c _ req _ \<Rightarrow> policy_of c req | _ \<Rightarrow> None)"

lemma sent_simps [simp]:
  "sent (OCreate CPolicies (QPolicy q) r1) = Some q" "sent (OUpdate CPolicies i (QPolicy q) r2) = Some q"
  "sent (EGet k n r3) = None" "sent (EList k r4) = None" "sent (EUpdate x r5) = None" "sent (EStatusUpdate x r6) = None"
  "sent (OList c r7) = None" "sent (ODelete c i r8) = None"
  by (simp_all add: sent_def policy_of_def)

definition asks_only :: "(PolicyRequest \<Rightarrow> bool) \<Rightarrow> event list \<Rightarrow> bool" where
  "asks_only P evs \<longleftrightarrow> (\<forall>e \<in> set evs. \<forall>q. sent e = Some q \<longrightarrow> P q)"

lemma asks_only_simps [simp]:
  "asks_only P []" "asks_only P (e # evs) \<longleftrightarrow> (\<forall>q. sent e = Some q \<longrightarrow> P q) \<and> asks_only P evs"
  "asks_only P (e1 @ e2) \<longleftrightarrow> asks_only P e1 \<and> asks_only P e2"
  by (auto simp: asks_only_def)

lemma asks_only_mono: "asks_only P evs \<Longrightarrow> (\<And>q. P q \<Longrightarrow> Q q) \<Longrightarrow> asks_only Q evs"
  by (auto simp: asks_only_def)

text \<open>The rules of a request are for one protocol, with its ports and those of the policy's own spec.\<close>

definition opens :: "OZPolicySpec \<Rightarrow> string \<Rightarrow> int32 list \<Rightarrow> PolicyRequest \<Rightarrow> bool" where
  "opens sp protocol ports q \<longleftrightarrow> (\<forall>rl \<in> set (polr_Rules q). pru_Protocol rl = protocol \<and>
     pru_Ports rl = Some (map (\<lambda>v. format_int (sint v)) (ports @ ozp_Ports sp)))"

text \<open>One iteration: the request of its protocol, if any, and the spec kept.\<close>

definition asks_for :: "OZPolicy \<Rightarrow> string \<Rightarrow> int32 list \<Rightarrow> (OZPolicy \<times> bool \<times> goerr option) + (OZPolicy \<times> bool) \<Rightarrow> event list \<Rightarrow> bool" where
  "asks_for p protocol ports x evs \<longleftrightarrow> asks_only (opens (ozp_Spec p) protocol ports) evs \<and>
     (case x of Inl _ \<Rightarrow> True | Inr (p', _) \<Rightarrow> ozp_Spec p' = ozp_Spec p)"

lemma asks_steps:
  "emits (sync_delete r p rq protocol i) (asks_for p protocol ports)"
  "emits (createPolicy r p protocol sources dests (port_strings p ports) \<bind> (\<lambda>(p', policyID, err).
      State_Monad.return (case err of Some e \<Rightarrow> Inl (p', rq, Some e) | None \<Rightarrow> Inr (set_policy_id protocol policyID p', rq))))
    (asks_for p protocol ports)"
  "emits (updatePolicy r i p protocol sources dests (port_strings p ports) \<bind> (\<lambda>(p', policyID, rq', err).
      State_Monad.return (case err of Some e \<Rightarrow> Inl (p', rq', Some e) | None \<Rightarrow> Inr (set_policy_id protocol policyID p', rq'))))
    (asks_for p protocol ports)"
proof -
  have req: "opens (ozp_Spec p) protocol ports (policy_request p protocol sources dests (port_strings p ports))"
    by (simp add: opens_def policy_request_def port_strings_def)
  show "emits (sync_delete r p rq protocol i) (asks_for p protocol ports)"
    unfolding sync_delete_def call_defs by (auto intro!: emits_intros simp: asks_for_def split: option.split)
  show "emits (createPolicy r p protocol sources dests (port_strings p ports) \<bind> (\<lambda>(p', policyID, err).
      State_Monad.return (case err of Some e \<Rightarrow> Inl (p', rq, Some e) | None \<Rightarrow> Inr (set_policy_id protocol policyID p', rq))))
    (asks_for p protocol ports)"
    unfolding createPolicy_def call_defs by (auto intro!: emits_intros simp: asks_for_def req split: sum.split)
  show "emits (updatePolicy r i p protocol sources dests (port_strings p ports) \<bind> (\<lambda>(p', policyID, rq', err).
      State_Monad.return (case err of Some e \<Rightarrow> Inl (p', rq', Some e) | None \<Rightarrow> Inr (set_policy_id protocol policyID p', rq'))))
    (asks_for p protocol ports)"
    unfolding updatePolicy_def call_defs by (auto intro!: emits_intros simp: asks_for_def req split: sum.split)
qed

lemma sync_protocol_asks: "emits (sync_protocol r sources dests (protocol, ports) (p, rq)) (asks_for p protocol ports)"
  using asks_steps(1) [of r p rq protocol _ ports] asks_steps(2) [of r p protocol sources dests ports rq]
    asks_steps(3) [of r _ p protocol sources dests ports]
  unfolding sync_protocol_def prod.case port_strings_def [symmetric]
  by (auto intro!: emits_intros simp: asks_for_def split: option.split)

lemma syncPolicy_asks:
  "emits (syncPolicy r p sources dests pm) (\<lambda>_ evs. asks_only (\<lambda>q. \<exists>(protocol, ports) \<in> set pm. opens (ozp_Spec p) protocol ports q) evs)"
proof -
  let ?P = "\<lambda>q. \<exists>(protocol, ports) \<in> set pm. opens (ozp_Spec p) protocol ports q"
  have "emits (for_each pm (p, False) (sync_protocol r sources dests)) (\<lambda>_ evs. asks_only ?P evs)"
  proof (rule emits_for_each [where I = "\<lambda>acc evs. ozp_Spec (fst acc) = ozp_Spec p \<and> asks_only ?P evs"], goal_cases)
    case (2 pp acc e1)
    obtain protocol ports p' rq where a: "pp = (protocol, ports)" "acc = (p', rq)" by fastforce
    have "opens (ozp_Spec p) protocol ports q \<Longrightarrow> ?P q" for q using 2(1) a(1) by blast
    then show ?case unfolding a
      by (intro emits_mono [OF sync_protocol_asks]) (use 2(2) a in \<open>auto simp: asks_for_def elim!: asks_only_mono split: sum.splits\<close>)
  qed simp_all
  then show ?thesis
    unfolding syncPolicy_def by (rule emits_bind) (auto intro!: emits_intros)
qed

section \<open>A run of the policy controller\<close>

definition read_resource :: "event list \<Rightarrow> OZResource \<Rightarrow> bool" where
  "read_resource evs x \<longleftrightarrow> (\<exists>k. EGet ''OZResource'' k (Inr (KOZResource x)) \<in> set evs)"

lemma read_resource_append [simp]: "read_resource (e1 @ e2) x \<longleftrightarrow> read_resource e1 x \<or> read_resource e2 x"
  by (auto simp: read_resource_def)

text \<open>The resources of a policy were all read, and the policy is otherwise as it was.\<close>

lemma getResources_read:
  "emits (getResources r p) (\<lambda>out evs. asks_only P evs \<and> (case out of
     Returned (p1, y) \<Rightarrow> ozp_Spec p1 = ozp_Spec p \<and> ozp_Meta p1 = ozp_Meta p \<and> (case y of Inl _ \<Rightarrow> True | Inr rs \<Rightarrow> \<forall>x \<in> set rs. read_resource evs x)
   | Panicked _ \<Rightarrow> True))"
  unfolding getResources_def call_defs
proof (rule emits_bind [where R = "\<lambda>lr evs. asks_only P evs \<and> (case lr of Inl _ \<Rightarrow> True | Inr (_, rs) \<Rightarrow> \<forall>x \<in> set rs. read_resource evs x)"], goal_cases)
  case 1
  show ?case
  proof (rule emits_for_each [where I = "\<lambda>(_, rs) evs. asks_only P evs \<and> (\<forall>x \<in> set rs. read_resource evs x)"], goal_cases)
    case (2 rss acc e1)
    then show ?case
      by (cases acc) (auto intro!: emits_intros simp: read_resource_def split: list.split sum.split, blast+)
  qed auto
next
  case (2 lr e1)
  then show ?case by (auto intro!: emits_intros split: sum.splits outcome.splits)
qed

text \<open>Every port that a request opens is the policy's own or that of a resource that was read.\<close>

definition opens_read :: "OZPolicy \<Rightarrow> event list \<Rightarrow> PolicyRequest \<Rightarrow> bool" where
  "opens_read p evs q \<longleftrightarrow> (\<forall>rl \<in> set (polr_Rules q). \<exists>ports. pru_Ports rl = Some (map (\<lambda>v. format_int (sint v)) ports) \<and>
     (\<forall>port \<in> set ports. port \<in> set (ozp_Ports (ozp_Spec p)) \<or>
        (\<exists>x. read_resource evs x \<and> resource_selected p x \<and> port \<in> set (ports_of (pru_Protocol rl) (ozr_Spec x)))))"

lemma opens_read_mono: "opens_read p e1 q \<Longrightarrow> opens_read p (e1 @ e2) q"
  unfolding opens_read_def by (meson read_resource_append)

lemma mapResources_reads:
  "emits (mapResources r p rs) (\<lambda>x evs. asks_only P evs \<and> (case x of
     Inl e \<Rightarrow> True
   | Inr (pm, dests) \<Rightarrow> \<exists>tcp udp. pm = [(protocolTCP, tcp), (protocolUDP, udp)] \<and>
       set tcp = selected_ports ozr_TCPPorts p rs \<and> set udp = selected_ports ozr_UDPPorts p rs))"
  unfolding mapResources_def
proof (rule emits_bind [OF emits_groupNamesToIDs], goal_cases)
  case (1 gr e1)
  then have "asks_only P e1" by (auto simp: ids_of_def split: sum.splits)
  moreover have "set (fst (snd (collect_ports p rs (groups, [], [])))) = selected_ports ozr_TCPPorts p rs"
    "set (snd (snd (collect_ports p rs (groups, [], [])))) = selected_ports ozr_UDPPorts p rs" for groups
    by (simp_all add: collect_ports_sets)
  ultimately show ?case by (auto intro!: emits_intros split: sum.splits prod.split) (metis fst_conv snd_conv)+
qed

lemma opens_selected:
  assumes "opens (ozp_Spec p) protocol ports q" "(protocol, ports) \<in> set [(protocolTCP, tcp), (protocolUDP, udp)]"
    and "set tcp = selected_ports ozr_TCPPorts p rs" "set udp = selected_ports ozr_UDPPorts p rs" "\<forall>x \<in> set rs. read_resource evs x"
  shows "opens_read p evs q"
  unfolding opens_read_def
proof
  fix rl
  assume "rl \<in> set (polr_Rules q)"
  with assms(1) have rl: "pru_Protocol rl = protocol" "pru_Ports rl = Some (map (\<lambda>v. format_int (sint v)) (ports @ ozp_Ports (ozp_Spec p)))"
    by (auto simp: opens_def)
  have "\<exists>x. read_resource evs x \<and> resource_selected p x \<and> port \<in> set (ports_of protocol (ozr_Spec x))" if "port \<in> set ports" for port
    using assms(2-5) that by (auto simp: selected_ports_def ports_of_def) blast+
  with rl show "\<exists>ports. pru_Ports rl = Some (map (\<lambda>v. format_int (sint v)) ports) \<and> (\<forall>port \<in> set ports. port \<in> set (ozp_Ports (ozp_Spec p)) \<or>
        (\<exists>x. read_resource evs x \<and> resource_selected p x \<and> port \<in> set (ports_of (pru_Protocol rl) (ozr_Spec x))))"
    by (intro exI [of _ "ports @ ozp_Ports (ozp_Spec p)"]) auto
qed

lemma opens_read_cong:
  assumes "ozp_Spec p1 = ozp_Spec p" "ozp_Meta p1 = ozp_Meta p"
  shows "opens_read p1 evs q = opens_read p evs q"
  unfolding opens_read_def resource_selected_def assms ..

lemma handleDelete_asks: "emits (OZPolicy_handleDelete r p) (\<lambda>_ evs. asks_only P evs)"
  unfolding OZPolicy_handleDelete_def delete_policy_id_def release_policy_def call_defs
  by (auto intro!: emits_intros split: option.split sum.split)

lemma syncPolicy_opens:
  assumes "pm = [(protocolTCP, tcp), (protocolUDP, udp)]" "set tcp = selected_ports ozr_TCPPorts p rs" "set udp = selected_ports ozr_UDPPorts p rs"
    "\<forall>x \<in> set rs. read_resource evs x"
  shows "emits (syncPolicy r p sources dests (if udp_first then rev pm else pm)) (\<lambda>_. asks_only (opens_read p evs))"
proof -
  have "\<exists>(protocol, ports) \<in> set (if udp_first then rev pm else pm). opens (ozp_Spec p) protocol ports q \<Longrightarrow> opens_read p evs q" for q
    using opens_selected [OF _ _ assms(2-4), of _ _ q] by (auto simp: assms(1) split: if_splits)
  then show ?thesis by (intro emits_mono [OF syncPolicy_asks]) (rule asks_only_mono)
qed

text \<open>All requests of a run of the body.\<close>

lemma ozpolicy_body_asks:
  "emits (ozpolicy_body r udp_first p) (\<lambda>_ evs. asks_only (opens_read p evs) evs)"
proof (cases "om_DeletionTimestamp (ozp_Meta p) \<noteq> None")
  case True
  then show ?thesis unfolding ozpolicy_body_def by (auto intro!: emits_intros emits_bind [OF handleDelete_asks [where P = "\<lambda>_. False"]] elim: asks_only_mono)
next
  case False
  have mono: "asks_only (opens_read p e1) e2 \<Longrightarrow> asks_only (opens_read p (e1 @ e3)) e2" for e1 e2 e3
    by (erule asks_only_mono) (rule opens_read_mono)
  have ids: "emits (groupNamesToIDs r names) (\<lambda>_ evs. \<forall>P. asks_only P evs)" for names
    by (rule emits_mono [OF emits_groupNamesToIDs]) (auto simp: ids_of_def split: sum.splits)
  show ?thesis
    unfolding ozpolicy_body_def if_not_P [OF False]
  proof (rule emits_bind [OF getResources_read [where P = "\<lambda>_. False"]], goal_cases)
    case (1 out e1)
    then have e1: "asks_only P e1" for P by (auto elim: asks_only_mono)
    show ?case
    proof (cases "\<exists>p1 rs. out = Returned (p1, Inr rs)")
      case False
      then show ?thesis using e1 by (auto intro!: emits_intros split: outcome.splits sum.splits)
    next
      case True
      then obtain p1 rs where out: "out = Returned (p1, Inr rs)" by blast
      with 1 have p1: "ozp_Spec p1 = ozp_Spec p" "ozp_Meta p1 = ozp_Meta p" and read: "\<forall>x \<in> set rs. read_resource e1 x" by auto
      show ?thesis
        unfolding out outcome.case prod.case sum.case
      proof (rule emits_bind [OF mapResources_reads [where P = "\<lambda>_. False"]], goal_cases)
        case (1 mr e2)
        then have e2: "asks_only P e2" for P by (auto elim: asks_only_mono)
        show ?case
        proof (cases mr)
          case (Inl e)
          then show ?thesis using e1 e2 by (auto intro!: emits_intros)
        next
          case (Inr pd)
          then obtain pm dests tcp udp where mr: "mr = Inr (pm, dests)" and pm: "pm = [(protocolTCP, tcp), (protocolUDP, udp)]"
            "set tcp = selected_ports ozr_TCPPorts p1 rs" "set udp = selected_ports ozr_UDPPorts p1 rs" using 1 by auto
          define pm' where "pm' = (if udp_first then rev pm else pm)"
          have sync: "emits (syncPolicy r p1 sources dests pm') (\<lambda>_. asks_only (opens_read p e1))" for sources
            using syncPolicy_opens [OF pm read] unfolding opens_read_cong [OF p1, abs_def] pm'_def .
          show ?thesis
            unfolding mr sum.case prod.case pm'_def [symmetric]
            by (rule emits_bind [OF ids])
               (use e1 e2 in \<open>auto intro!: emits_intros emits_bind [OF sync] mono split: sum.splits\<close>)
        qed
      qed
    qed
  qed
qed

lemma ozpolicy_finish_asks: "emits (ozpolicy_finish r orig p res err) (\<lambda>_ evs. \<forall>P. asks_only P evs)"
  unfolding ozpolicy_finish_def call_defs by (auto intro!: emits_intros split: option.split)

lemma OZPolicy_Reconcile_asks:
  "emits (OZPolicy_Reconcile r udp_first req) (\<lambda>_ evs. \<forall>p rest. evs = EGet ''OZPolicy'' req (Inr (KOZPolicy p)) # rest \<longrightarrow>
     asks_only (opens_read p rest) rest)"
proof -
  have mono: "asks_only (opens_read p e1) e1 \<Longrightarrow> asks_only (opens_read p (e1 @ e2)) e1" for p e1 e2
    by (erule asks_only_mono) (rule opens_read_mono)
  have fin: "emits (do { y \<leftarrow> ozpolicy_finish r orig q res err; State_Monad.return (f y) }) (\<lambda>_ e2. asks_only (opens_read p (e1 @ e2)) (e1 @ e2))"
    if "asks_only (opens_read p e1) e1" for orig q res err p e1 and f :: "Result \<times> goerr option \<Rightarrow> (Result \<times> goerr option) outcome"
    by (rule emits_bind [OF ozpolicy_finish_asks]) (use that in \<open>auto intro!: emits_intros mono\<close>)
  have "emits (ozpolicy_body r udp_first p \<bind> (\<lambda>out. (case out of
             Panicked m \<Rightarrow> do { _ \<leftarrow> ozpolicy_finish r p p zero_Result None; State_Monad.return (Panicked m) }
           | Returned (q, res, err) \<Rightarrow> do { ret \<leftarrow> ozpolicy_finish r p q res err; State_Monad.return (Returned ret) })))
     (\<lambda>_ evs. asks_only (opens_read p evs) evs)" for p
    by (rule emits_bind [OF ozpolicy_body_asks]) (auto intro!: fin [simplified] split: outcome.split)
  then show ?thesis
    unfolding OZPolicy_Reconcile_def call_defs
    by (auto intro!: emits_intros elim!: emits_mono split: sum.split)
qed

section \<open>The property\<close>

text \<open>
  C24. A policy opens no port that the Services behind it do not offer. Take a run of the policy controller in which every resource
  that was read and references the policy has a spec that the Service controller has made for its Service, from a spec
  without ports. Then every rule of every request to create or update a policy upstream lists ports, and each of them is one of
  the policy's own spec, or a port of such a Service, of the rule's protocol, that the Service's annotations for ports and
  protocols do not exclude.
\<close>

theorem policy_opens_offered_ports:
  "emits (OZPolicy_Reconcile r udp_first req) (\<lambda>_ evs. \<forall>p rest e q rl.
     evs = EGet ''OZPolicy'' req (Inr (KOZPolicy p)) # rest \<and>
     (\<forall>x. read_resource rest x \<and> resource_selected p x \<longrightarrow> exposes (service_of x) (ozr_Spec x)) \<and>
     e \<in> set rest \<and> sent e = Some q \<and> rl \<in> set (polr_Rules q) \<longrightarrow>
     (\<exists>ports. pru_Ports rl = Some (map (\<lambda>v. format_int (sint v)) ports) \<and>
        (\<forall>port \<in> set ports. port \<in> set (ozp_Ports (ozp_Spec p)) \<or>
           (\<exists>x. read_resource rest x \<and> resource_selected p x \<and> port_allowed (pru_Protocol rl) (service_of x) port))))"
proof (rule emits_mono [OF OZPolicy_Reconcile_asks], intro allI impI, goal_cases)
  case (1 out evs p rest e q rl)
  then have "opens_read p rest q" by (auto simp: asks_only_def)
  with 1(2) obtain ports where ports: "pru_Ports rl = Some (map (\<lambda>v. format_int (sint v)) ports)"
    "\<forall>port \<in> set ports. port \<in> set (ozp_Ports (ozp_Spec p)) \<or>
        (\<exists>x. read_resource rest x \<and> resource_selected p x \<and> port \<in> set (ports_of (pru_Protocol rl) (ozr_Spec x)))"
    unfolding opens_read_def by blast
  with 1(2) exposes_ports show ?case by blast
qed


definition demo_offering :: Service where
  "demo_offering = demo_service [(''openzro.io/policy-ports'', ''80'')]"

definition demo_offered :: OZResource where
  "demo_offered = zero_OZResource\<lparr>ozr_Spec := projr (applyPolicy (ozr_Spec zero_OZResource) demo_offering),
     ozr_Status := (ozr_Status zero_OZResource)\<lparr>ors_PolicyName := Some ''web'', ors_Groups := [''g'']\<rparr>\<rparr>"

definition demo_listing_policy :: OZPolicy where
  "demo_listing_policy = set_policy_status (\<lambda>s. s\<lparr>ozp_ManagedServiceList := [''ns/web'']\<rparr>) (demo_policy None None)"

definition demo_offer_env :: "unit OZPolicyReconciler" where
  "demo_offer_env = \<lparr>pr_Client = down_Client\<lparr>c_OZPolicies := down_kind\<lparr>kc_get := \<lambda>_ w. (Inr demo_listing_policy, w), kc_status_update := \<lambda>p w. (Inr p, w)\<rparr>,
       c_OZResources := down_kind\<lparr>kc_get := \<lambda>_ w. (Inr demo_offered, w)\<rparr>\<rparr>,
     pr_OpenZro = down_OpenZro\<lparr>oz_Groups := down_rest\<lparr>rs_list := \<lambda>w. (Inr [\<lparr>ag_Id = ''d'', ag_Name = ''dev''\<rparr>], w)\<rparr>,
       oz_Policies := down_rest\<lparr>rs_create := \<lambda>q w. (Inr (Some ''p1''), w)\<rparr>\<rparr>\<rparr>"

lemma demo_offered_spec:
  "exposes demo_offering (ozr_Spec demo_offered)" "ozr_TCPPorts (ozr_Spec demo_offered) = [80]" "ozr_UDPPorts (ozr_Spec demo_offered) = []"
proof -
  have fp: "filter_ports demo_offering = Inr [80]"
    by (simp add: demo_offering_def filter_ports_def demo_service_def annotation_defs str_split_char parse_int64_def char_digit_def to_int32_def
        zero_ObjectMeta_def)
  have fq: "filter_protocols demo_offering = []"
    by (simp add: demo_offering_def filter_protocols_def demo_service_def annotation_defs zero_ObjectMeta_def)
  have ports: "svc_Ports demo_offering = [\<lparr>svp_Protocol = ''TCP'', svp_Port = 80\<rparr>, \<lparr>svp_Protocol = ''TCP'', svp_Port = 443\<rparr>]"
    by (simp add: demo_offering_def demo_service_def)
  show "exposes demo_offering (ozr_Spec demo_offered)" unfolding exposes_def
    by (rule exI [of _ "ozr_Spec zero_OZResource"]) (simp add: demo_offered_def zero_OZResource_def applyPolicy_def fp Let_def split_beta)
  show "ozr_TCPPorts (ozr_Spec demo_offered) = [80]" "ozr_UDPPorts (ozr_Spec demo_offered) = []"
    by (simp_all add: demo_offered_def zero_OZResource_def applyPolicy_def fp fq ports Let_def track_port_def port_excluded_def)
qed

lemma demo_offered_selected:
  "resource_selected demo_listing_policy demo_offered"
proof -
  have "str_replace_all (gm_val None generated_by) ''/'' ''-'' = ''''" "SplitTrim ''web'' '','' = [''web'']" by code_simp+
  then show ?thesis
    by (simp add: resource_selected_def demo_offered_def demo_listing_policy_def demo_policy_def set_policy_status_def zero_ObjectMeta_def)
qed

lemma demo_offer_split: "str_split ''ns/web'' ''/'' = [''ns'', ''web'']"
  by code_simp

lemma demo_listing_facts:
  "om_DeletionTimestamp (ozp_Meta demo_listing_policy) = None" "ozp_ManagedServiceList (ozp_Status demo_listing_policy) = [''ns/web'']"
  "set_policy_status (\<lambda>s. s\<lparr>ozp_ManagedServiceList := [''ns/web'']\<rparr>) demo_listing_policy = demo_listing_policy"
  "ozp_Spec demo_listing_policy = \<lparr>ozp_Name = ''web'', ozp_Description = '''', ozp_SourceGroups = [''dev''],
     ozp_DestinationGroups = [], ozp_Protocols = [], ozp_Ports = [], ozp_Bidirectional = True\<rparr>"
  "get_policy_id protocol demo_listing_policy = None" "om_DeletionTimestamp (ozr_Meta demo_offered) = None" "ors_Groups (ozr_Status demo_offered) = [''g'']"
  by (simp_all add: demo_listing_policy_def demo_policy_def set_policy_status_def zero_ObjectMeta_def zero_OZPolicyStatus_def get_policy_id_def
      demo_offered_def zero_OZResource_def)

lemma demo_offer_runs:
  "run_state (getResources demo_offer_env demo_listing_policy) s = (Returned (demo_listing_policy, Inr [demo_offered]),
     s\<lparr>wlog := wlog s @ [EGet ''OZResource'' (''ns'', ''web'') (Inr (KOZResource demo_offered))]\<rparr>)"
  "run_state (groupNamesToIDs demo_offer_env names) s = (Inr (map (group_id [\<lparr>ag_Id = ''d'', ag_Name = ''dev''\<rparr>]) names),
     s\<lparr>wlog := wlog s @ [OList CGroups (Inr [RGroup \<lparr>ag_Id = ''d'', ag_Name = ''dev''\<rparr>])]\<rparr>)"
  by (simp_all add: getResources_def groupNamesToIDs_def demo_listing_facts demo_offer_split demo_offer_env_def call_defs down_defs)

lemma demo_offer_map:
  "run_state (mapResources demo_offer_env demo_listing_policy [demo_offered]) s = (Inr ([(protocolTCP, [80]), (protocolUDP, [])], [''g'']),
     s\<lparr>wlog := wlog s @ [OList CGroups (Inr [RGroup \<lparr>ag_Id = ''d'', ag_Name = ''dev''\<rparr>])]\<rparr>)"
  by (simp add: mapResources_def demo_offer_runs demo_listing_facts demo_offered_selected demo_offered_spec sort_int32_def)


lemma demo_offer_sync:
  "\<exists>p' q a. run_state (syncPolicy demo_offer_env demo_listing_policy [''d''] [''g''] [(protocolTCP, [80]), (protocolUDP, [])]) s =
     ((p', False, None), s\<lparr>wlog := wlog s @ [OCreate CPolicies (QPolicy q) a]\<rparr>)"
proof -
  let ?p = "set_policy_id protocolTCP (Some ''p1'') demo_listing_policy"
  have "rs_create (oz_Policies (pr_OpenZro demo_offer_env)) q w = (Inr (Some ''p1''), w)" for q w by (simp add: demo_offer_env_def)
  then have 1: "run_state (sync_protocol demo_offer_env [''d''] [''g''] (protocolTCP, [80]) (demo_listing_policy, False)) s = (Inr (?p, False),
      s\<lparr>wlog := wlog s @ [OCreate CPolicies (QPolicy (policy_request demo_listing_policy protocolTCP [''d''] [''g''] [format_int (sint (80 :: int32))]))
        (Inr (RPolicy (Some ''p1'')))]\<rparr>)"
    by (simp add: sync_protocol_def createPolicy_def demo_listing_facts o_create_def Policies_def)
  have 2: "run_state (sync_protocol demo_offer_env [''d''] [''g''] (protocolUDP, []) (?p, False)) t = (Inr (?p, False), t)" for t
    by (simp add: sync_protocol_def demo_listing_facts)
  show ?thesis by (auto simp: syncPolicy_def 1 2)
qed

theorem policy_opens_offered_ports_witness:
  "\<exists>e q. e \<in> set (wlog (snd (run_state (OZPolicy_Reconcile demo_offer_env False (''ns'', ''web'')) start))) \<and> sent e = Some q \<and>
     (\<forall>rl \<in> set (polr_Rules q). \<exists>ports. pru_Ports rl = Some (map (\<lambda>v. format_int (sint v)) ports) \<and>
        (\<forall>port \<in> set ports. port_allowed (pru_Protocol rl) demo_offering port))"
proof -
  let ?m = "OZPolicy_Reconcile demo_offer_env False (''ns'', ''web'')"
  let ?g = "OList CGroups (Inr [RGroup \<lparr>ag_Id = ''d'', ag_Name = ''dev''\<rparr>])" and ?x = "EGet ''OZResource'' (''ns'', ''web'') (Inr (KOZResource demo_offered))"
  have id: "group_id [\<lparr>ag_Id = ''d'', ag_Name = ''dev''\<rparr>] ''dev'' = ''d''" by code_simp
  have body: "\<exists>out p' q a. run_state (ozpolicy_body demo_offer_env False demo_listing_policy) s =
      (Returned (p', out), s\<lparr>wlog := wlog s @ [?x, ?g, ?g, OCreate CPolicies (QPolicy q) a]\<rparr>)" for s
  proof -
    obtain p' q a where y: "run_state (syncPolicy demo_offer_env demo_listing_policy [''d''] [''g''] [(protocolTCP, [80]), (protocolUDP, [])])
        (s\<lparr>wlog := wlog s @ [?x, ?g, ?g]\<rparr>) = ((p', False, None), s\<lparr>wlog := wlog s @ [?x, ?g, ?g, OCreate CPolicies (QPolicy q) a]\<rparr>)"
      using demo_offer_sync [of "s\<lparr>wlog := wlog s @ [?x, ?g, ?g]\<rparr>"] by auto
    have "clock (pr_Client demo_offer_env) w = (0, w)" for w by (simp add: demo_offer_env_def down_defs)
    with y show ?thesis
      by (simp add: ozpolicy_body_def demo_listing_facts demo_offer_runs demo_offer_map id condition_true_def) (cases s, auto)
  qed
  have fin: "\<exists>l. wlog (snd (run_state (ozpolicy_finish demo_offer_env p p' res err) s)) = wlog s @ l \<and> (\<forall>x. \<not> read_resource l x)" for p p' res err s
    by (cases err) (auto simp: ozpolicy_finish_def demo_offer_env_def call_defs down_defs read_resource_def)
  have "\<exists>rest e q. wlog (snd (run_state ?m start)) = EGet ''OZPolicy'' (''ns'', ''web'') (Inr (KOZPolicy demo_listing_policy)) # rest \<and>
      e \<in> set rest \<and> sent e = Some q \<and> (\<forall>x. read_resource rest x \<longrightarrow> x = demo_offered)"
  proof -
    let ?s = "start\<lparr>wlog := [EGet ''OZPolicy'' (''ns'', ''web'') (Inr (KOZPolicy demo_listing_policy))]\<rparr>"
    obtain p' res err q a where b: "run_state (ozpolicy_body demo_offer_env False demo_listing_policy) ?s =
      (Returned (p', res, err), ?s\<lparr>wlog := wlog ?s @ [?x, ?g, ?g, OCreate CPolicies (QPolicy q) a]\<rparr>)"
      using body [of ?s] by auto
    obtain l where l: "wlog (snd (run_state (ozpolicy_finish demo_offer_env demo_listing_policy p' res err)
        (?s\<lparr>wlog := wlog ?s @ [?x, ?g, ?g, OCreate CPolicies (QPolicy q) a]\<rparr>))) =
        (wlog ?s @ [?x, ?g, ?g, OCreate CPolicies (QPolicy q) a]) @ l" "\<forall>x. \<not> read_resource l x"
      using fin [of demo_listing_policy p' res err "?s\<lparr>wlog := wlog ?s @ [?x, ?g, ?g, OCreate CPolicies (QPolicy q) a]\<rparr>"] by auto
    have "run_state (k_get (OZPolicies (pr_Client demo_offer_env)) (''ns'', ''web'')) start = (Inr demo_listing_policy, ?s)"
      by (simp add: demo_offer_env_def call_defs down_defs)
    with b l(1) have "wlog (snd (run_state ?m start)) = EGet ''OZPolicy'' (''ns'', ''web'') (Inr (KOZPolicy demo_listing_policy)) #
        [?x, ?g, ?g, OCreate CPolicies (QPolicy q) a] @ l"
      by (simp add: OZPolicy_Reconcile_def split_beta)
    moreover have "read_resource ([?x, ?g, ?g, OCreate CPolicies (QPolicy q) a] @ l) x \<longrightarrow> x = demo_offered" for x
      using l(2) by (auto simp: read_resource_def)
    ultimately show ?thesis by (intro exI [of _ "[?x, ?g, ?g, OCreate CPolicies (QPolicy q) a] @ l"] exI [of _ "OCreate CPolicies (QPolicy q) a"] exI [of _ q]) simp
  qed
  then obtain rest e q where r: "wlog (snd (run_state ?m start)) = EGet ''OZPolicy'' (''ns'', ''web'') (Inr (KOZPolicy demo_listing_policy)) # rest"
    "e \<in> set rest" "sent e = Some q" "\<forall>x. read_resource rest x \<longrightarrow> x = demo_offered" by blast
  have "\<forall>x. read_resource rest x \<and> resource_selected demo_listing_policy x \<longrightarrow> exposes demo_offering (ozr_Spec x)"
    using r(4) demo_offered_spec(1) by blast
  then have "\<forall>rl \<in> set (polr_Rules q). \<exists>ports. pru_Ports rl = Some (map (\<lambda>v. format_int (sint v)) ports) \<and>
        (\<forall>port \<in> set ports. port_allowed (pru_Protocol rl) demo_offering port)"
    using emits_start [OF policy_opens_offered_ports [of demo_offer_env False "(''ns'', ''web'')" "\<lambda>_. demo_offering"]] r(1-3)
    by (fastforce simp: demo_listing_facts)
  with r show ?thesis by auto
qed

end
