(* ===== verification/Server_Invariant.thy ===== *)
theory Server_Invariant
  imports OpenZro_Mock Manager
begin

text \<open>
  What the runs of the \<open>v1alpha1\<close> and Gateway API controllers keep of the environment. A property of the
  environment that every call of the two clients keeps is kept by every run; the first part proves that once for all
  reconcilers. The second part applies it to the management server of \<open>OpenZro_Mock\<close>: its stores stay well formed
  through every sequence of runs.
\<close>

section \<open>Properties that all calls keep\<close>

definition keeps :: "('w \<Rightarrow> bool) \<Rightarrow> ('w, 'a) go \<Rightarrow> bool" where
  "keeps I m \<longleftrightarrow> (\<forall>s. I (wenv s) \<longrightarrow> I (wenv (snd (run_state m s))))"

definition op_keeps :: "('w \<Rightarrow> bool) \<Rightarrow> ('w \<Rightarrow> 'r \<times> 'w) \<Rightarrow> bool" where
  "op_keeps I op \<longleftrightarrow> (\<forall>w. I w \<longrightarrow> I (snd (op w)))"

definition kind_keeps :: "('w \<Rightarrow> bool) \<Rightarrow> ('w, 'o) kind_client \<Rightarrow> bool" where
  "kind_keeps I kc \<longleftrightarrow> (\<forall>k. op_keeps I (kc_get kc k)) \<and> (\<forall>ns. op_keeps I (kc_list kc ns)) \<and> (\<forall>x. op_keeps I (kc_create kc x)) \<and>
     (\<forall>x. op_keeps I (kc_update kc x)) \<and> (\<forall>x. op_keeps I (kc_status_update kc x)) \<and> (\<forall>x. op_keeps I (kc_patch kc x)) \<and>
     (\<forall>x. op_keeps I (kc_apply kc x)) \<and> (\<forall>x. op_keeps I (kc_delete kc x))"

definition client_keeps :: "('w \<Rightarrow> bool) \<Rightarrow> 'w Client \<Rightarrow> bool" where
  "client_keeps I c \<longleftrightarrow> kind_keeps I (c_Services c) \<and> kind_keeps I (c_Secrets c) \<and> kind_keeps I (c_Deployments c) \<and>
     kind_keeps I (c_AlphaGroups c) \<and> kind_keeps I (c_AlphaSetupKeys c) \<and> kind_keeps I (c_NetworkRouters c) \<and>
     kind_keeps I (c_NetworkResources c) \<and> kind_keeps I (c_GatewayClasses c) \<and> kind_keeps I (c_Gateways c) \<and>
     kind_keeps I (c_HTTPRoutes c) \<and> kind_keeps I (c_TCPRoutes c)"

definition rest_keeps :: "('w \<Rightarrow> bool) \<Rightarrow> ('w, 'q, 'u, 'r) rest \<Rightarrow> bool" where
  "rest_keeps I rs \<longleftrightarrow> op_keeps I (rs_list rs) \<and> (\<forall>i. op_keeps I (rs_get rs i)) \<and> (\<forall>q. op_keeps I (rs_create rs q)) \<and>
     (\<forall>i u. op_keeps I (rs_update rs i u)) \<and> (\<forall>i. op_keeps I (rs_delete rs i))"

definition openzro_keeps :: "('w \<Rightarrow> bool) \<Rightarrow> 'w OpenZro \<Rightarrow> bool" where
  "openzro_keeps I z \<longleftrightarrow> rest_keeps I (oz_Groups z) \<and> (\<forall>n. op_keeps I (oz_GroupByName z n)) \<and> rest_keeps I (oz_SetupKeys z) \<and>
     rest_keeps I (oz_Networks z) \<and> (\<forall>n. rest_keeps I (oz_Routers z n)) \<and> (\<forall>n. rest_keeps I (oz_Resources z n)) \<and>
     rest_keeps I (oz_Zones z) \<and> (\<forall>n. rest_keeps I (oz_Records z n)) \<and> rest_keeps I (oz_Proxies z)"

named_theorems keeps_intros \<open>what a program construct keeps\<close>

lemma keeps_return [keeps_intros]: "keeps I (State_Monad.return x)"
  by (simp add: keeps_def)

lemma keeps_bind [keeps_intros]: "keeps I m \<Longrightarrow> (\<And>x. keeps I (f x)) \<Longrightarrow> keeps I (State_Monad.bind m f)"
  by (simp add: keeps_def bind_def split_beta)

lemma keeps_map_range [keeps_intros]: "keeps I (map_range rank m)"
  by (simp add: keeps_def)

lemma keeps_api_call: "op_keeps I op \<Longrightarrow> keeps I (api_call op ev)"
  by (simp add: keeps_def op_keeps_def api_call_def split_beta)

lemma keeps_case [keeps_intros]:
  "(\<And>a. keeps I (f a)) \<Longrightarrow> (\<And>b. keeps I (g b)) \<Longrightarrow> keeps I (case v of Inl a \<Rightarrow> f a | Inr b \<Rightarrow> g b)"
  "keeps I m \<Longrightarrow> (\<And>b. keeps I (k b)) \<Longrightarrow> keeps I (case u of None \<Rightarrow> m | Some b \<Rightarrow> k b)"
  "(\<And>x. keeps I (p x)) \<Longrightarrow> (\<And>x. keeps I (q x)) \<Longrightarrow> keeps I (case t of Returned x \<Rightarrow> p x | Panicked x \<Rightarrow> q x)"
  "(\<And>a b. keeps I (h a b)) \<Longrightarrow> keeps I (case ab of (a, b) \<Rightarrow> h a b)"
  "keeps I m1 \<Longrightarrow> keeps I m2 \<Longrightarrow> keeps I (if cond then m1 else m2)"
  "keeps I n1 \<Longrightarrow> keeps I n2 \<Longrightarrow> keeps I (case s of True \<Rightarrow> n1 | False \<Rightarrow> n2)"
  "(\<And>x. keeps I (l x)) \<Longrightarrow> keeps I (let x = e in l x)"
  by (auto split: sum.splits option.splits outcome.splits prod.splits bool.splits)

lemma keeps_for_each [keeps_intros]: "(\<And>x acc. keeps I (body x acc)) \<Longrightarrow> keeps I (for_each xs acc body)"
  by (induction xs arbitrary: acc) (auto intro!: keeps_intros)

lemma keeps_stages [keeps_intros]:
  "keeps I m \<Longrightarrow> (\<And>x. keeps I (f x)) \<Longrightarrow> keeps I (early m f)"
  "keeps I m' \<Longrightarrow> (\<And>x. keeps I (g x)) \<Longrightarrow> keeps I (try_bind m' g)"
  "keeps I m'' \<Longrightarrow> keeps I (returned m'')"
  unfolding early_def try_bind_def returned_def by (intro keeps_intros; assumption)+

lemma keeps_cluster_call [keeps_intros]:
  assumes "kind_keeps I (ka_client a)"
  shows "keeps I (k_get a k)" "keeps I (k_list a ns)" "keeps I (k_create a x)" "keeps I (k_update a x)" "keeps I (k_status_update a x)"
    "keeps I (k_patch a x)" "keeps I (k_apply a x)" "keeps I (k_delete a x)"
  using assms unfolding kind_keeps_def k_get_def k_list_def k_create_def k_update_def k_status_update_def k_patch_def k_apply_def k_delete_def
  by (blast intro: keeps_api_call)+

lemma keeps_server_call [keeps_intros]:
  assumes "rest_keeps I (oa_rest a)"
  shows "keeps I (o_list a)" "keeps I (o_get a i)" "keeps I (o_create a q)" "keeps I (o_update a i u)" "keeps I (o_delete a i)"
  using assms unfolding rest_keeps_def o_list_def o_get_def o_create_def o_update_def o_delete_def
  by (auto intro!: keeps_api_call)

lemma client_keepsD [keeps_intros]:
  assumes "client_keeps I c"
  shows "kind_keeps I (ka_client (Services c))" "kind_keeps I (ka_client (Secrets c))" "kind_keeps I (ka_client (Deployments c))"
    "kind_keeps I (ka_client (AlphaGroups c))" "kind_keeps I (ka_client (AlphaSetupKeys c))" "kind_keeps I (ka_client (NetworkRouters c))"
    "kind_keeps I (ka_client (NetworkResources c))" "kind_keeps I (ka_client (GatewayClasses c))" "kind_keeps I (ka_client (Gateways c))"
    "kind_keeps I (ka_client (HTTPRoutes c))" "kind_keeps I (ka_client (TCPRoutes c))"
  using assms by (simp_all add: client_keeps_def api_defs)

lemma openzro_keepsD [keeps_intros]:
  assumes "openzro_keeps I z"
  shows "rest_keeps I (oa_rest (Groups z))" "rest_keeps I (oa_rest (SetupKeys z))" "rest_keeps I (oa_rest (Networks z))"
    "rest_keeps I (oa_rest (Routers z n))" "rest_keeps I (oa_rest (Resources z n))" "rest_keeps I (oa_rest (Zones z))"
    "rest_keeps I (oa_rest (Records z n))" "rest_keeps I (oa_rest (Proxies z))" "keeps I (o_group_by_name z i)"
  using assms by (auto simp: openzro_keeps_def api_defs o_group_by_name_def intro: keeps_api_call)

lemma keeps_idioms [keeps_intros]:
  "rest_keeps I (oa_rest ua) \<Longrightarrow> rest_keeps I (oa_rest ca) \<Longrightarrow> keeps I (upsert ua ca idOf rec q)"
  "rest_keeps I (oa_rest a) \<Longrightarrow> keeps I (delete_recorded a rec)"
  "openzro_keeps I z \<Longrightarrow> keeps I (GetDNSZoneByName z zn)"
  "client_keeps I c \<Longrightarrow> openzro_keeps I z \<Longrightarrow> keeps I (GetGroupIDs c z refs ns)"
  unfolding upsert_def delete_recorded_def GetDNSZoneByName_def GetGroupIDs_def resolve_ref_def Let_def
  by (intro keeps_intros; assumption)+

section \<open>All reconcilers\<close>

lemma Group_keeps:
  "client_keeps I (agr_Client r) \<Longrightarrow> openzro_keeps I (agr_OpenZro r) \<Longrightarrow> keeps I (Group_Reconcile r req)"
  unfolding Group_Reconcile_def Group_body_def Group_reconcileDelete_def Group_ensure_def by (intro keeps_intros)

lemma SetupKey_keeps:
  "client_keeps I (skc_Client r) \<Longrightarrow> openzro_keeps I (skc_OpenZro r) \<Longrightarrow> keeps I (SetupKey_Reconcile r req)"
  unfolding SetupKey_Reconcile_def SetupKey_body_def SetupKey_reconcileDelete_def SetupKey_sync_def key_up_to_date_def recreate_key_def
  by (intro keeps_intros)

lemma NetworkRouter_keeps:
  "client_keeps I (nrr_Client r) \<Longrightarrow> openzro_keeps I (nrr_OpenZro r) \<Longrightarrow> keeps I (NetworkRouter_Reconcile r req)"
  unfolding NetworkRouter_Reconcile_def NetworkRouter_body_def NetworkRouter_reconcileDelete_def NetworkRouter_sync_def router_network_def
    ensure_network_def router_peers_def router_routing_peer_def router_workload_def
  by (intro keeps_intros)

lemma NetworkResource_keeps:
  "client_keeps I (nsr_Client r) \<Longrightarrow> openzro_keeps I (nsr_OpenZro r) \<Longrightarrow> keeps I (NetworkResource_Reconcile r req)"
  unfolding NetworkResource_Reconcile_def NetworkResource_body_def NetworkResource_reconcileDelete_def NetworkResource_sync_def
    resource_service_def dependency_missing_def resource_router_def resource_upstream_def resource_zone_def forget_old_record_def resource_record_def
  by (intro keeps_intros)

lemma GatewayClass_keeps: "client_keeps I (gcr_Client r) \<Longrightarrow> keeps I (GatewayClass_Reconcile r req)"
  unfolding GatewayClass_Reconcile_def GatewayClass_body_def GatewayClass_reconcileDelete_def by (intro keeps_intros)

lemma keeps_gateway_reads [keeps_intros]:
  "client_keeps I c \<Longrightarrow> keeps I (GetGatewayNetworkRouter c gw)" "client_keeps I c \<Longrightarrow> keeps I (GetParentGateway c p ns cn)"
  unfolding GetGatewayNetworkRouter_def GetParentGateway_def by (intro keeps_intros; assumption)+

lemma Gateway_keeps: "client_keeps I (gwr_Client r) \<Longrightarrow> keeps I (Gateway_Reconcile r req)"
  unfolding Gateway_Reconcile_def Gateway_body_def Gateway_reconcileDelete_def Gateway_sync_def Gateway_program_def by (intro keeps_intros)

lemma keeps_route_parts [keeps_intros]:
  "client_keeps I c \<Longrightarrow> keeps I (backend_services c skip ns rules)" "client_keeps I c \<Longrightarrow> keeps I (apply_backends c route m nr svcs)"
  "client_keeps I c \<Longrightarrow> keeps I (release_backends c route svcs)" "client_keeps I c \<Longrightarrow> keeps I (parent_router c ns p)"
  "client_keeps I c \<Longrightarrow> keeps I act \<Longrightarrow> keeps I (for_own_parents c ns ps act)"
  unfolding backend_services_def apply_backends_def release_backends_def parent_router_def for_own_parents_def
  by (intro keeps_intros; assumption)+

lemma TCPRoute_keeps: "client_keeps I (trr_Client r) \<Longrightarrow> keeps I (TCPRoute_Reconcile r req)"
  unfolding TCPRoute_Reconcile_def TCPRoute_body_def TCPRoute_sync_def TCPRoute_attach_def TCPRoute_reconcileDelete_def TCPRoute_detach_def
  by (intro keeps_intros)

lemma HTTPRoute_keeps:
  "client_keeps I (hrr_Client r) \<Longrightarrow> openzro_keeps I (hrr_OpenZro r) \<Longrightarrow> keeps I (HTTPRoute_Reconcile r req)"
  unfolding HTTPRoute_Reconcile_def HTTPRoute_body_def HTTPRoute_sync_def HTTPRoute_attach_def HTTPRoute_reconcileDelete_def HTTPRoute_detach_def
    proxy_targets_def publish_hostnames_def publish_hostname_def unpublish_hostnames_def
  by (intro keeps_intros)

section \<open>The stores of the management server\<close>

text \<open>
  A well-formed store: no ID twice, every ID one that the server has assigned, and every entry well formed under its ID.
\<close>

definition assigned :: "string \<Rightarrow> bool" where
  "assigned i \<longleftrightarrow> take 3 i = ''id-''"

definition keyed :: "(string \<Rightarrow> 't \<Rightarrow> bool) \<Rightarrow> (string \<times> 't) list \<Rightarrow> bool" where
  "keyed ok xs \<longleftrightarrow> distinct (map fst xs) \<and> (\<forall>(i, x) \<in> set xs. assigned i \<and> ok i x)"

text \<open>The whole server: entries carry the ID they are stored under, and a setup key has a key.\<close>

definition server_ok :: "'a mock_scheme \<Rightarrow> bool" where
  "server_ok m \<longleftrightarrow> keyed (\<lambda>i x. ag_Id x = i) (mk_groups m) \<and> keyed (\<lambda>i x. ask_Id x = i \<and> ask_Key x \<noteq> '''') (mk_keys m) \<and>
     keyed (\<lambda>i x. an_Id x = i) (mk_networks m) \<and> keyed (\<lambda>i x. ar_Id x = i) (mk_routers m) \<and>
     keyed (\<lambda>i x. ares_Id x = i) (mk_resources m) \<and> keyed (\<lambda>i x. dz_Id x = i) (mk_zones m) \<and> keyed (\<lambda>i x. dr_Id x = i) (mk_records m)"

lemma keyed_update: "keyed ok xs \<Longrightarrow> assigned i \<Longrightarrow> ok i x \<Longrightarrow> keyed ok (AList.update i x xs)"
  using set_update_subset [of i x xs] by (fastforce simp: keyed_def distinct_update)

lemma in_set_deleteD: "p \<in> set (AList.delete i xs) \<Longrightarrow> p \<in> set xs"
  by (induction xs) (auto split: if_splits)

lemma keyed_delete: "keyed ok xs \<Longrightarrow> keyed ok (AList.delete i xs)"
  unfolding keyed_def by (auto simp: distinct_delete dest: in_set_deleteD)

lemma keyed_lookup: "keyed ok xs \<Longrightarrow> map_of xs i = Some x \<Longrightarrow> assigned i \<and> ok i x"
  by (auto simp: keyed_def dest: map_of_SomeD)

text \<open>What a collection of the server promises about the whole server.\<close>

locale keyed_collection =
  fixes sl :: "('a mock_scheme, 't) slot" and conv :: "int \<Rightarrow> string \<Rightarrow> 'i \<Rightarrow> 't \<Rightarrow> 't" and ok :: "string \<Rightarrow> 't \<Rightarrow> bool"
    and I :: "'a mock_scheme \<Rightarrow> bool"
  assumes stored: "I m \<Longrightarrow> keyed ok (sl_get sl m)"
    and replaced: "I m \<Longrightarrow> keyed ok xs \<Longrightarrow> I (sl_put sl xs m)"
    and drawn: "I (m\<lparr>mk_draws := n\<rparr>) = I m" and slot_drawn: "sl_get sl (m\<lparr>mk_draws := n\<rparr>) = sl_get sl m"
    and converted: "ok i (conv k i input output)"
begin

lemma handlers_keep: "rest_keeps I (addHandler rn sl conv zero body ubody)"
proof -
  have create: "I (snd (post_handler rn sl conv zero q w))" if "I w" for q w
    using that stored [of w]
    by (auto simp: post_handler_def draw_def Let_def drawn slot_drawn assigned_def intro!: replaced keyed_update converted)
  have update: "I (snd (put_handler rn sl conv i q w))" if "I w" for i q w
    using that stored [of w] keyed_lookup [of ok "sl_get sl w" i]
    by (auto simp: put_handler_def draw_def Let_def drawn slot_drawn split: option.splits intro!: replaced keyed_update converted)
  have delete: "I (snd (delete_handler sl i w))" if "I w" for i w
    using that stored [of w] by (auto simp: delete_handler_def split: option.splits intro!: replaced keyed_delete)
  show ?thesis
    using create update delete
    by (auto simp: rest_keeps_def op_keeps_def addHandler_def list_handler_def get_handler_def drawn split: option.splits)
qed

end

lemma server_ok_fields:
  "server_ok (m\<lparr>mk_draws := n\<rparr>) = server_ok m"
  by (simp add: server_ok_def)

lemma format_int_not_Nil: "format_int n \<noteq> ''''"
  by (simp add: format_int_def show_nat_not_Nil)

interpretation group_collection: keyed_collection group_slot convert_group "\<lambda>i x. ag_Id x = i" server_ok
  by unfold_locales (simp_all add: server_ok_def group_slot_def convert_group_def)
interpretation key_collection: keyed_collection key_slot convert_key "\<lambda>i x. ask_Id x = i \<and> ask_Key x \<noteq> ''''" server_ok
  by unfold_locales (simp_all add: server_ok_def key_slot_def convert_key_def format_int_not_Nil)
interpretation network_collection: keyed_collection network_slot convert_network "\<lambda>i x. an_Id x = i" server_ok
  by unfold_locales (simp_all add: server_ok_def network_slot_def convert_network_def)
interpretation router_collection: keyed_collection router_slot convert_router "\<lambda>i x. ar_Id x = i" server_ok
  by unfold_locales (simp_all add: server_ok_def router_slot_def convert_router_def)
interpretation resource_collection: keyed_collection resource_slot convert_resource "\<lambda>i x. ares_Id x = i" server_ok
  by unfold_locales (simp_all add: server_ok_def resource_slot_def convert_resource_def)
interpretation zone_collection: keyed_collection zone_slot convert_zone "\<lambda>i x. dz_Id x = i" server_ok
  by unfold_locales (simp_all add: server_ok_def zone_slot_def convert_zone_def)
interpretation record_collection: keyed_collection record_slot convert_record "\<lambda>i x. dr_Id x = i" server_ok
  by unfold_locales (simp_all add: server_ok_def record_slot_def convert_record_def)

text \<open>
  The cluster is another program: its calls leave the server as it is, and so do the calls of the management
  client that the server has no handler for.
\<close>

definition leaves_server :: "'a mock_scheme Client \<Rightarrow> bool" where
  "leaves_server c \<longleftrightarrow> (\<forall>m. client_keeps (\<lambda>w. mock.truncate w = m) c)"

definition base_leaves_server :: "'a mock_scheme OpenZro \<Rightarrow> bool" where
  "base_leaves_server base \<longleftrightarrow> (\<forall>m. (\<forall>n. op_keeps (\<lambda>w. mock.truncate w = m) (oz_GroupByName base n)) \<and>
     rest_keeps (\<lambda>w. mock.truncate w = m) (oz_Proxies base))"

lemma server_ok_truncate: "server_ok (mock.truncate m) = server_ok m"
  by (simp add: server_ok_def mock.defs)

lemma truncate_keeps:
  fixes op :: "'a mock_scheme \<Rightarrow> 'r \<times> 'a mock_scheme"
  assumes "\<And>m. op_keeps (\<lambda>w. mock.truncate w = m) op"
  shows "op_keeps server_ok op"
  unfolding op_keeps_def
proof (intro allI impI)
  fix w :: "'a mock_scheme"
  assume "server_ok w"
  moreover have "mock.truncate (snd (op w)) = mock.truncate w" using assms [of "mock.truncate w"] by (simp add: op_keeps_def)
  ultimately show "server_ok (snd (op w))" by (metis server_ok_truncate)
qed

lemma kind_truncate_keeps: "(\<And>m. kind_keeps (\<lambda>w. mock.truncate w = m) kc) \<Longrightarrow> kind_keeps server_ok kc"
  unfolding kind_keeps_def by (intro conjI allI truncate_keeps) blast+

lemma rest_truncate_keeps: "(\<And>m. rest_keeps (\<lambda>w. mock.truncate w = m) rs) \<Longrightarrow> rest_keeps server_ok rs"
  unfolding rest_keeps_def by (intro conjI allI truncate_keeps) blast+

lemma leaves_server_keeps: "leaves_server c \<Longrightarrow> client_keeps server_ok c"
  unfolding leaves_server_def client_keeps_def by (intro conjI kind_truncate_keeps) blast+

lemma mock_keeps:
  assumes "base_leaves_server base"
  shows "openzro_keeps server_ok (mock_OpenZro rn base)"
proof -
  have "op_keeps server_ok (oz_GroupByName base n)" for n
    using assms by (intro truncate_keeps) (simp add: base_leaves_server_def)
  moreover have "rest_keeps server_ok (oz_Proxies base)"
    using assms by (intro rest_truncate_keeps) (simp add: base_leaves_server_def)
  ultimately show ?thesis
    by (simp add: openzro_keeps_def mock_OpenZro_def group_collection.handlers_keep key_collection.handlers_keep
        network_collection.handlers_keep router_collection.handlers_keep resource_collection.handlers_keep
        zone_collection.handlers_keep record_collection.handlers_keep)
qed

section \<open>Sequences of runs\<close>

text \<open>
  The states that the server reaches: it starts with empty stores (\<open>openzromock.New\<close>); then the controllers run, in any order
  and for any requests, and between the runs anybody else may change the cluster, but not the server.
\<close>

inductive served :: "randomness \<Rightarrow> 'a mock_scheme OpenZro \<Rightarrow> 'a mock_scheme Client \<Rightarrow> 'a mock_scheme world \<Rightarrow> bool"
  for rn :: randomness and base :: "'a mock_scheme OpenZro" and c :: "'a mock_scheme Client" where
  start: "mk_groups (wenv s) = [] \<Longrightarrow> mk_keys (wenv s) = [] \<Longrightarrow> mk_networks (wenv s) = [] \<Longrightarrow> mk_routers (wenv s) = [] \<Longrightarrow>
    mk_resources (wenv s) = [] \<Longrightarrow> mk_zones (wenv s) = [] \<Longrightarrow> mk_records (wenv s) = [] \<Longrightarrow> served rn base c s"
| elsewhere: "served rn base c s \<Longrightarrow> mock.truncate (wenv t) = mock.truncate (wenv s) \<Longrightarrow> served rn base c t"
| group: "served rn base c s \<Longrightarrow> agr_Client r = c \<Longrightarrow> agr_OpenZro r = mock_OpenZro rn base \<Longrightarrow>
    served rn base c (snd (run_state (Group_Reconcile r req) s))"
| setup_key: "served rn base c s \<Longrightarrow> skc_Client r = c \<Longrightarrow> skc_OpenZro r = mock_OpenZro rn base \<Longrightarrow>
    served rn base c (snd (run_state (SetupKey_Reconcile r req) s))"
| router: "served rn base c s \<Longrightarrow> nrr_Client r = c \<Longrightarrow> nrr_OpenZro r = mock_OpenZro rn base \<Longrightarrow>
    served rn base c (snd (run_state (NetworkRouter_Reconcile r req) s))"
| resource: "served rn base c s \<Longrightarrow> nsr_Client r = c \<Longrightarrow> nsr_OpenZro r = mock_OpenZro rn base \<Longrightarrow>
    served rn base c (snd (run_state (NetworkResource_Reconcile r req) s))"
| gateway_class: "served rn base c s \<Longrightarrow> gcr_Client r = c \<Longrightarrow> served rn base c (snd (run_state (GatewayClass_Reconcile r req) s))"
| gateway: "served rn base c s \<Longrightarrow> gwr_Client r = c \<Longrightarrow> served rn base c (snd (run_state (Gateway_Reconcile r req) s))"
| tcp_route: "served rn base c s \<Longrightarrow> trr_Client r = c \<Longrightarrow> served rn base c (snd (run_state (TCPRoute_Reconcile r req) s))"
| http_route: "served rn base c s \<Longrightarrow> hrr_Client r = c \<Longrightarrow> hrr_OpenZro r = mock_OpenZro rn base \<Longrightarrow>
    served rn base c (snd (run_state (HTTPRoute_Reconcile r req) s))"

lemma keepsD: "keeps I m \<Longrightarrow> I (wenv s) \<Longrightarrow> I (wenv (snd (run_state m s)))"
  by (simp add: keeps_def)

lemma served_ok:
  assumes "served rn base c s" "leaves_server c" "base_leaves_server base"
  shows "server_ok (wenv s)"
  using assms(1)
proof induction
  case (start s)
  then show ?case by (simp add: server_ok_def keyed_def)
next
  case (elsewhere s t)
  then show ?case by (metis server_ok_truncate)
qed (rule keepsD [OF Group_keeps] keepsD [OF SetupKey_keeps] keepsD [OF NetworkRouter_keeps] keepsD [OF NetworkResource_keeps]
    keepsD [OF GatewayClass_keeps] keepsD [OF Gateway_keeps] keepsD [OF TCPRoute_keeps] keepsD [OF HTTPRoute_keeps];
    simp add: leaves_server_keeps [OF assms(2)] mock_keeps [OF assms(3)])+

section \<open>The property\<close>


lemma demo_leaves_server: "leaves_server demo_group_cluster" "base_leaves_server down_OpenZro"
  by (simp_all add: leaves_server_def base_leaves_server_def client_keeps_def kind_keeps_def rest_keeps_def op_keeps_def
      demo_group_cluster_def down_Client_def down_kind_def down_OpenZro_def down_rest_def mock.defs split: option.splits)


end
