(* ===== verification/Resource_Convergence.thy ===== *)
theory Resource_Convergence
  imports Server_Invariant
begin

text \<open>
  The controller of network resources against the management server of \<open>OpenZro_Mock\<close>, next to a cluster that stores
  what it is given: one run puts the Service into the network and into the zone, a second run changes nothing, and the run after the
  deletion takes both back.
\<close>

section \<open>Runs as functions of the environment\<close>

text \<open>From the environment \<open>w\<close>, whatever has been logged, \<open>m\<close> returns \<open>x\<close> and leaves \<open>w'\<close>.\<close>

definition yields :: "('w, 'a) go \<Rightarrow> 'w \<Rightarrow> 'a \<Rightarrow> 'w \<Rightarrow> bool" where
  "yields m w x w' \<longleftrightarrow> (\<forall>s. wenv s = w \<longrightarrow> fst (run_state m s) = x \<and> wenv (snd (run_state m s)) = w')"

named_theorems yields_intros \<open>the program constructs as functions of the environment\<close>

lemma yields_return [yields_intros]: "yields (State_Monad.return x) w x w"
  by (simp add: yields_def)

lemma yields_bind: "yields m w x w1 \<Longrightarrow> yields (f x) w1 y w2 \<Longrightarrow> yields (State_Monad.bind m f) w y w2"
  by (auto simp: yields_def bind_def split_beta)

lemma yields_api_call: "op w = (x, w1) \<Longrightarrow> yields (api_call op ev) w x w1"
  by (simp add: yields_def)

lemma yields_early: "yields m w (Inr x) w1 \<Longrightarrow> yields (f x) w1 y w2 \<Longrightarrow> yields (early m f) w y w2"
  unfolding early_def by (erule yields_bind) simp

lemma yields_run: "yields m (wenv s) x w1 \<Longrightarrow> \<exists>t. run_state m s = (x, t) \<and> wenv t = w1"
  unfolding yields_def by (metis prod.collapse)

lemma yields_of_run:
  assumes "\<And>l. \<exists>l'. run_state m \<lparr>wenv = w, wlog = l\<rparr> = (x, \<lparr>wenv = w1, wlog = l'\<rparr>)"
  shows "yields m w x w1"
proof -
  have "fst (run_state m s) = x \<and> wenv (snd (run_state m s)) = w1" if "wenv s = w" for s
    using assms [of "wlog s"] that by (cases s) auto
  then show ?thesis by (simp add: yields_def)
qed

section \<open>Calls of the server\<close>

text \<open>A step of the server that only changes one store and the number of draws.\<close>

definition puts_store :: "('a mock_scheme, 't) slot \<Rightarrow> 'a mock_scheme \<Rightarrow> 'a mock_scheme \<Rightarrow> bool" where
  "puts_store sl w w' \<longleftrightarrow> (\<exists>x n. w' = sl_put sl x (w\<lparr>mk_draws := n\<rparr>)) \<or> (\<exists>n. w' = w\<lparr>mk_draws := n\<rparr>)"

lemma puts_store_same: "puts_store sl w w" "puts_store sl w (sl_put sl x w)"
proof -
  have w: "w = w\<lparr>mk_draws := mk_draws w\<rparr>" by simp
  then show "puts_store sl w w" unfolding puts_store_def by blast
  from w have "sl_put sl x w = sl_put sl x (w\<lparr>mk_draws := mk_draws w\<rparr>)" by simp
  then show "puts_store sl w (sl_put sl x w)" unfolding puts_store_def by blast
qed

lemma puts_store_frames:
  "puts_store resource_slot w w' \<Longrightarrow> mock.more w' = mock.more w \<and> mk_groups w' = mk_groups w \<and> mk_zones w' = mk_zones w \<and> mk_records w' = mk_records w"
  "puts_store record_slot w w' \<Longrightarrow> mock.more w' = mock.more w \<and> mk_groups w' = mk_groups w \<and> mk_zones w' = mk_zones w \<and> mk_resources w' = mk_resources w"
  by (auto simp: puts_store_def resource_slot_def record_slot_def)

text \<open>Updating or creating always succeeds at the server, under an ID that is never empty.\<close>

lemma upsert_server:
  assumes "oa_rest ua = addHandler rn sl conv zero id id" "oa_rest ca = addHandler rn sl conv zero id id"
    and "\<And>k i q old. idOf (conv k i q old) = i" and rec: "rec \<noteq> Some ''''" and "lawful sl"
  shows "\<exists>j w1. yields (upsert ua ca idOf rec q) w (Inr j) w1 \<and> puts_store sl w w1 \<and> j \<noteq> ''''"
proof (cases "\<exists>i old. rec = Some i \<and> map_of (sl_get sl w) i = Some old")
  case True
  then obtain i old where i: "rec = Some i" "map_of (sl_get sl w) i = Some old" by blast
  let ?w1 = "snd (put_handler rn sl conv i q w)"
  have "yields (upsert ua ca idOf rec q) w (Inr i) ?w1"
    by (rule yields_of_run) (use i assms in \<open>auto simp: upsert_def o_update_def addHandler_def put_handler_def draw_def Let_def\<close>)
  moreover have "puts_store sl w ?w1" using i by (auto simp: put_handler_def draw_def Let_def puts_store_def)
  ultimately show ?thesis using rec i by blast
next
  case False
  let ?j = "''id-'' @ format_int (rn_int rn (mk_draws w))" and ?w1 = "snd (post_handler rn sl conv zero q w)"
  have "yields (upsert ua ca idOf rec q) w (Inr ?j) ?w1"
    by (rule yields_of_run, cases rec)
       (use False assms in \<open>auto simp: upsert_def o_update_def o_create_def addHandler_def put_handler_def post_handler_def draw_def Let_def
          not_found_def split: option.splits\<close>)
  moreover have "puts_store sl w ?w1" by (auto simp: post_handler_def draw_def Let_def puts_store_def)
  ultimately show ?thesis by blast
qed

lemma delete_server:
  assumes "oa_rest a = addHandler rn sl conv zero id id"
  shows "\<exists>w1. yields (delete_recorded a rec) w None w1 \<and> puts_store sl w w1"
proof (cases rec)
  case None
  then show ?thesis by (auto simp: delete_recorded_def intro: yields_return puts_store_same)
next
  case (Some i)
  let ?w1 = "snd (delete_handler sl i w)"
  have "yields (delete_recorded a rec) w None ?w1"
    by (rule yields_of_run)
       (use Some assms in \<open>auto simp: delete_recorded_def o_delete_def addHandler_def delete_handler_def not_found_def split: option.splits\<close>)
  moreover have "puts_store sl w ?w1" by (simp add: delete_handler_def puts_store_same split: option.splits)
  ultimately show ?thesis by blast
qed

text \<open>The zone of a name, when there is one.\<close>

definition one_zone :: "'a mock_scheme \<Rightarrow> string \<Rightarrow> DNSZone \<Rightarrow> bool" where
  "one_zone w n zone \<longleftrightarrow> zone \<in> snd ` set (mk_zones w) \<and> dz_Name zone = n \<and> dz_Id zone \<noteq> '''' \<and>
     (\<forall>z \<in> snd ` set (mk_zones w). dz_Name z = n \<longrightarrow> z = zone)"

lemma find_only:
  assumes "x \<in> set xs" "P x" and only: "\<And>y. y \<in> set xs \<Longrightarrow> P y \<Longrightarrow> y = x"
  shows "List.find P xs = Some x"
proof (cases "List.find P xs")
  case None
  then show ?thesis using assms(1, 2) by (auto simp: find_None_iff)
next
  case (Some y)
  then have "y \<in> set xs" "P y" by (auto simp: find_Some_iff)
  from only [OF this] Some show ?thesis by simp
qed

lemma GetDNSZoneByName_server:
  assumes "one_zone w n zone"
  shows "yields (GetDNSZoneByName (mock_OpenZro rn base) n) w (Inr zone) (w\<lparr>mk_draws := Suc (mk_draws w)\<rparr>)"
proof (rule yields_of_run)
  have "List.find (\<lambda>z. dz_Name z = n) (map snd (sort_key f (mk_zones w))) = Some zone" for f :: "_ \<Rightarrow> nat"
    using assms by (intro find_only) (auto simp: one_zone_def)
  then show "\<exists>l'. run_state (GetDNSZoneByName (mock_OpenZro rn base) n) \<lparr>wenv = w, wlog = l\<rparr> =
      (Inr zone, \<lparr>wenv = w\<lparr>mk_draws := Suc (mk_draws w)\<rparr>, wlog = l'\<rparr>)" for l
    by (simp add: GetDNSZoneByName_def o_list_def Zones_def mock_OpenZro_def addHandler_def list_handler_def zone_slot_def)
qed

text \<open>References by ID to groups that the server knows.\<close>

definition known_group :: "'a mock_scheme \<Rightarrow> GroupReference \<Rightarrow> bool" where
  "known_group w ref \<longleftrightarrow> gref_Name ref = None \<and> (\<exists>i \<in> dom (map_of (mk_groups w)). gref_ID ref = Some i)"

lemma GetGroupIDs_server:
  assumes "\<And>ref. ref \<in> set refs \<Longrightarrow> known_group w ref"
  shows "\<exists>ids. yields (GetGroupIDs c (mock_OpenZro rn base) refs ns) w (Inr ids) w"
proof -
  have step: "\<exists>i. yields (resolve_ref c (mock_OpenZro rn base) ns ref) w (Inr (Some i)) w" if "known_group w ref" for ref
  proof -
    from that obtain i g where i: "gref_Name ref = None" "gref_ID ref = Some i" "map_of (mk_groups w) i = Some g"
      by (auto simp: known_group_def)
    have "yields (resolve_ref c (mock_OpenZro rn base) ns ref) w (Inr (Some (ag_Id g))) w"
      by (rule yields_of_run) (simp add: i resolve_ref_def o_get_def Groups_def mock_OpenZro_def addHandler_def get_handler_def group_slot_def)
    then show ?thesis by blast
  qed
  let ?body = "\<lambda>ref groupIDs. do {
     rr \<leftarrow> resolve_ref c (mock_OpenZro rn base) ns ref;
     State_Monad.return (case rr of Inl err \<Rightarrow> Inl err | Inr None \<Rightarrow> Inr groupIDs | Inr (Some i) \<Rightarrow> Inr (groupIDs @ [i])) }"
  have "\<exists>ids. yields (for_each refs acc ?body) w (Inr ids) w" for acc
    using assms
  proof (induction refs arbitrary: acc)
    case Nil
    then show ?case by (auto intro: yields_return)
  next
    case (Cons ref refs)
    from Cons.prems have "known_group w ref" by simp
    then obtain i where "yields (resolve_ref c (mock_OpenZro rn base) ns ref) w (Inr (Some i)) w" using step by blast
    then have here: "yields (?body ref acc) w (Inr (acc @ [i])) w" by (rule yields_bind) (simp add: yields_return)
    have "known_group w x" if "x \<in> set refs" for x using Cons.prems that by simp
    then have "\<exists>ids. yields (for_each refs (acc @ [i]) ?body) w (Inr ids) w" by (rule Cons.IH)
    then obtain ids where "yields (for_each refs (acc @ [i]) ?body) w (Inr ids) w" ..
    then have "yields (for_each (ref # refs) acc ?body) w (Inr ids) w"
      unfolding for_each.simps by - (rule yields_bind [OF here], simp)
    then show ?case by blast
  qed
  then show ?thesis by (simp add: GetGroupIDs_def)
qed

section \<open>The cluster\<close>

text \<open>
  What the API server documents for a client that nobody interferes with: a read answers the stored object, a patch stores it and
  answers it. The objects live next to the management server, so neither side writes into the other.
\<close>

definition stores_resources ::
  "'a mock_scheme Client \<Rightarrow> ('a \<Rightarrow> nn \<Rightarrow> NetworkResource option) \<Rightarrow> ('a \<Rightarrow> nn \<Rightarrow> Service option) \<Rightarrow> ('a \<Rightarrow> nn \<Rightarrow> NetworkRouter option) \<Rightarrow> bool" where
  "stores_resources c objs svcs nrs \<longleftrightarrow>
     (\<forall>w k n. objs (mock.more w) k = Some n \<longrightarrow> kc_get (c_NetworkResources c) k w = (Inr n, w)) \<and>
     (\<forall>w k x. svcs (mock.more w) k = Some x \<longrightarrow> kc_get (c_Services c) k w = (Inr x, w)) \<and>
     (\<forall>w k x. nrs (mock.more w) k = Some x \<longrightarrow> kc_get (c_NetworkRouters c) k w = (Inr x, w)) \<and>
     (\<forall>n w. \<exists>w'. kc_patch (c_NetworkResources c) n w = (Inr n, w') \<and> mock.truncate w' = mock.truncate w \<and>
        objs (mock.more w') = (objs (mock.more w))((om_Namespace (nrs_Meta n), om_Name (nrs_Meta n)) \<mapsto> n) \<and>
        svcs (mock.more w') = svcs (mock.more w) \<and> nrs (mock.more w') = nrs (mock.more w))"

lemma stores_resourcesD:
  assumes "stores_resources c objs svcs nrs"
  shows "objs (mock.more w) k = Some n \<Longrightarrow> yields (k_get (NetworkResources c) k) w (Inr n) w"
    "svcs (mock.more w) k = Some svc \<Longrightarrow> yields (k_get (Services c) k) w (Inr svc) w"
    "nrs (mock.more w) k = Some nr \<Longrightarrow> yields (k_get (NetworkRouters c) k) w (Inr nr) w"
    "\<exists>w'. yields (k_patch (NetworkResources c) n) w (Inr n) w' \<and> mock.truncate w' = mock.truncate w \<and>
        objs (mock.more w') = (objs (mock.more w))((om_Namespace (nrs_Meta n), om_Name (nrs_Meta n)) \<mapsto> n) \<and>
        svcs (mock.more w') = svcs (mock.more w) \<and> nrs (mock.more w') = nrs (mock.more w)"
proof -
  note c = assms [unfolded stores_resources_def]
  show "objs (mock.more w) k = Some n \<Longrightarrow> yields (k_get (NetworkResources c) k) w (Inr n) w"
    "svcs (mock.more w) k = Some svc \<Longrightarrow> yields (k_get (Services c) k) w (Inr svc) w"
    "nrs (mock.more w) k = Some nr \<Longrightarrow> yields (k_get (NetworkRouters c) k) w (Inr nr) w"
    unfolding k_get_def by (rule yields_api_call, use c in \<open>simp add: api_defs del: split_paired_All\<close>)+
  from c obtain w' where "kc_patch (c_NetworkResources c) n w = (Inr n, w')" "mock.truncate w' = mock.truncate w"
    "objs (mock.more w') = (objs (mock.more w))((om_Namespace (nrs_Meta n), om_Name (nrs_Meta n)) \<mapsto> n)"
    "svcs (mock.more w') = svcs (mock.more w)" "nrs (mock.more w') = nrs (mock.more w)"
    by metis
  then show "\<exists>w'. yields (k_patch (NetworkResources c) n) w (Inr n) w' \<and> mock.truncate w' = mock.truncate w \<and>
        objs (mock.more w') = (objs (mock.more w))((om_Namespace (nrs_Meta n), om_Name (nrs_Meta n)) \<mapsto> n) \<and>
        svcs (mock.more w') = svcs (mock.more w) \<and> nrs (mock.more w') = nrs (mock.more w)"
    unfolding k_patch_def by (intro exI [of _ w'] conjI yields_api_call) (simp_all add: NetworkResources_def)
qed

lemma truncate_fields:
  assumes "mock.truncate w' = mock.truncate w"
  shows "mk_groups w' = mk_groups w" "mk_zones w' = mk_zones w" "mk_resources w' = mk_resources w" "mk_records w' = mk_records w"
  using assms by (simp_all add: mock.defs)

section \<open>One run\<close>

text \<open>The settings of the records once a record of another zone is forgotten.\<close>

definition without_stale :: "NetworkResource \<Rightarrow> DNSZone \<Rightarrow> (string \<Rightarrow> 'v option) \<Rightarrow> string \<Rightarrow> 'v option" where
  "without_stale n zone m =
     (if nrs_DNSZoneID n \<noteq> '''' \<and> nrs_DNSZoneID n \<noteq> dz_Id zone then m(nrs_DNSRecordID n := None) else m)"

lemma nonempty_not: "nonempty x \<noteq> Some ''''"
  by (simp add: nonempty_def)

lemma resources_rest: "oa_rest (Resources (mock_OpenZro rn base) n) = addHandler rn resource_slot convert_resource
    \<lparr>ares_Id = '''', ares_Address = '''', ares_Enabled = False, ares_Groups = [], ares_Description = None, ares_Name = ''''\<rparr> id id"
  and records_rest: "oa_rest (Records (mock_OpenZro rn base) n) = addHandler rn record_slot convert_record
    \<lparr>dr_Id = '''', dr_Content = '''', dr_Name = '''', dr_Ttl = None, dr_Type = ''''\<rparr> id id"
  by (simp_all add: Resources_def Records_def mock_OpenZro_def)

text \<open>The resource in the network, and the record in the zone.\<close>

lemma upsert_resource:
  assumes "rec \<noteq> Some ''''"
  shows "\<exists>j w1. yields (upsert (Resources (mock_OpenZro rn base) n) (Resources (mock_OpenZro rn base) n) ares_Id rec q) w (Inr j) w1 \<and>
    puts_store resource_slot w w1 \<and> j \<noteq> '''' \<and> resource_addresses w1 = (resource_addresses w)(j \<mapsto> (resr_Address q, resr_Enabled q)) \<and>
    (\<forall>i. rec = Some i \<and> i \<in> dom (resource_addresses w) \<longrightarrow> j = i)"
proof -
  let ?m = "upsert (Resources (mock_OpenZro rn base) n) (Resources (mock_OpenZro rn base) n) ares_Id rec q"
  obtain j w1 where y: "yields ?m w (Inr j) w1" "puts_store resource_slot w w1" "j \<noteq> ''''"
    using upsert_server [OF resources_rest [of rn base n] resources_rest [of rn base n] _ assms lawful_slots(4), where idOf = ares_Id and w = w and q = q]
    by (auto simp: convert_resource_def)
  obtain t where "run_state ?m \<lparr>wenv = w, wlog = []\<rparr> = (Inr j, t)" "wenv t = w1"
    using yields_run [of ?m "\<lparr>wenv = w, wlog = []\<rparr>"] y(1) by auto
  from mock_resources.upsert_puts [OF oa_rest_simps(3) this(1)] this(2) y show ?thesis by auto
qed

lemma upsert_record:
  assumes "rec \<noteq> Some ''''" "rec = None \<or> zi = zj"
  shows "\<exists>j w1. yields (upsert (Records (mock_OpenZro rn base) zi) (Records (mock_OpenZro rn base) zj) dr_Id rec q) w (Inr j) w1 \<and>
    puts_store record_slot w w1 \<and> j \<noteq> '''' \<and> record_settings w1 = (record_settings w)(j \<mapsto> q) \<and>
    (\<forall>i. rec = Some i \<and> i \<in> dom (record_settings w) \<longrightarrow> j = i)"
proof -
  let ?m = "upsert (Records (mock_OpenZro rn base) zj) (Records (mock_OpenZro rn base) zj) dr_Id rec q"
  have m: "upsert (Records (mock_OpenZro rn base) zi) (Records (mock_OpenZro rn base) zj) dr_Id rec q = ?m"
    using assms(2) by (auto simp: upsert_def)
  obtain j w1 where y: "yields ?m w (Inr j) w1" "puts_store record_slot w w1" "j \<noteq> ''''"
    using upsert_server [OF records_rest [of rn base zj] records_rest [of rn base zj] _ assms(1) lawful_slots(5), where idOf = dr_Id and w = w and q = q]
    by (auto simp: convert_record_def)
  obtain t where "run_state ?m \<lparr>wenv = w, wlog = []\<rparr> = (Inr j, t)" "wenv t = w1"
    using yields_run [of ?m "\<lparr>wenv = w, wlog = []\<rparr>"] y(1) by auto
  from mock_records.upsert_puts [OF oa_rest_simps(4) this(1)] this(2) y show ?thesis unfolding m by auto
qed

lemma delete_record:
  "\<exists>w1. yields (delete_recorded (Records (mock_OpenZro rn base) zi) rec) w None w1 \<and> puts_store record_slot w w1 \<and>
    record_settings w1 = (case rec of None \<Rightarrow> record_settings w | Some i \<Rightarrow> (record_settings w)(i := None))"
proof -
  let ?m = "delete_recorded (Records (mock_OpenZro rn base) zi) rec"
  obtain w1 where y: "yields ?m w None w1" "puts_store record_slot w w1" using delete_server [OF records_rest] by blast
  obtain t where "run_state ?m \<lparr>wenv = w, wlog = []\<rparr> = (None, t)" "wenv t = w1"
    using yields_run [of ?m "\<lparr>wenv = w, wlog = []\<rparr>"] y(1) by auto
  from mock_records.delete_recorded_removes [OF oa_rest_simps(4) this(1)] this(2) y show ?thesis by (auto split: option.splits)
qed

lemma delete_resource:
  "\<exists>w1. yields (delete_recorded (Resources (mock_OpenZro rn base) ni) rec) w None w1 \<and> puts_store resource_slot w w1 \<and>
    resource_addresses w1 = (case rec of None \<Rightarrow> resource_addresses w | Some i \<Rightarrow> (resource_addresses w)(i := None))"
proof -
  let ?m = "delete_recorded (Resources (mock_OpenZro rn base) ni) rec"
  obtain w1 where y: "yields ?m w None w1" "puts_store resource_slot w w1" using delete_server [OF resources_rest] by blast
  obtain t where "run_state ?m \<lparr>wenv = w, wlog = []\<rparr> = (None, t)" "wenv t = w1"
    using yields_run [of ?m "\<lparr>wenv = w, wlog = []\<rparr>"] y(1) by auto
  from mock_resources.delete_recorded_removes [OF oa_rest_simps(3) this(1)] this(2) y show ?thesis by (auto split: option.splits)
qed

text \<open>The dependencies of a network resource, as the controller requires them.\<close>

definition dependencies ::
  "('a \<Rightarrow> nn \<Rightarrow> Service option) \<Rightarrow> ('a \<Rightarrow> nn \<Rightarrow> NetworkRouter option) \<Rightarrow> 'a mock_scheme \<Rightarrow> NetworkResource \<Rightarrow> Service \<Rightarrow> NetworkRouter \<Rightarrow> DNSZone \<Rightarrow> bool" where
  "dependencies svcs nrs w n svc nr zone \<longleftrightarrow>
     svcs (mock.more w) (om_Namespace (nrs_Meta n), nrs_ServiceRef (nrs_Spec n)) = Some svc \<and>
     svc_Type svc = ''ClusterIP'' \<and> svc_ClusterIP svc \<noteq> '''' \<and> svc_ClusterIP svc \<noteq> ''None'' \<and>
     nrs (mock.more w) (router_key n) = Some nr \<and> nro_NetworkID nr \<noteq> '''' \<and> nro_RoutingPeerID nr \<noteq> '''' \<and>
     one_zone w (nro_DNSZoneRef (nro_Spec nr)) zone \<and> (\<forall>ref \<in> set (nrs_Groups (nrs_Spec n)). known_group w ref)"

lemma dependencies_frame:
  assumes "svcs (mock.more w') = svcs (mock.more w)" "nrs (mock.more w') = nrs (mock.more w)" "mk_zones w' = mk_zones w" "mk_groups w' = mk_groups w"
    and "nrs_Spec n' = nrs_Spec n" "om_Namespace (nrs_Meta n') = om_Namespace (nrs_Meta n)"
  shows "dependencies svcs nrs w' n' svc nr zone = dependencies svcs nrs w n svc nr zone"
  using assms by (simp add: dependencies_def router_key_def one_zone_def known_group_def)

lemma resource_service_yields:
  assumes "stores_resources (nsr_Client r) objs svcs nrs" "dependencies svcs nrs w n svc nr zone"
  shows "yields (resource_service r n) w (Inr svc) w" "yields (resource_router r n) w (Inr nr) w"
proof -
  note d = assms(2) [unfolded dependencies_def]
  show "yields (resource_service r n) w (Inr svc) w"
    unfolding resource_service_def by (rule yields_bind [OF stores_resourcesD(2) [OF assms(1)]]) (use d in \<open>auto intro: yields_return\<close>)
  show "yields (resource_router r n) w (Inr nr) w"
    unfolding resource_router_def by (rule yields_bind [OF stores_resourcesD(3) [OF assms(1)]]) (use d in \<open>auto intro: yields_return\<close>)
qed

text \<open>The first half of a run: the resource is in the network, and the object records it.\<close>

lemma resource_upstream_yields:
  assumes z: "nsr_OpenZro r = mock_OpenZro rn base" and c: "stores_resources (nsr_Client r) objs svcs nrs"
    and g: "\<forall>ref \<in> set (nrs_Groups (nrs_Spec n)). known_group w ref"
  shows "\<exists>j w2. let n1 = (NetworkResource_guarded r n)\<lparr>nrs_NetworkID := nro_NetworkID nr, nrs_ResourceID := j\<rparr> in
    yields (resource_upstream r n svc nr) w (Inr n1) w2 \<and> j \<noteq> '''' \<and>
    resource_addresses w2 = (resource_addresses w)(j \<mapsto> (svc_ClusterIP svc, True)) \<and>
    (nrs_ResourceID n \<noteq> '''' \<and> nrs_ResourceID n \<in> dom (resource_addresses w) \<longrightarrow> j = nrs_ResourceID n) \<and>
    objs (mock.more w2) = (objs (mock.more w))((om_Namespace (nrs_Meta n), om_Name (nrs_Meta n)) \<mapsto> n1) \<and>
    svcs (mock.more w2) = svcs (mock.more w) \<and> nrs (mock.more w2) = nrs (mock.more w) \<and>
    mk_zones w2 = mk_zones w \<and> mk_groups w2 = mk_groups w \<and> mk_records w2 = mk_records w"
proof -
  let ?n0 = "NetworkResource_guarded r n"
  have n0: "nrs_ResourceID ?n0 = nrs_ResourceID n" "om_Namespace (nrs_Meta ?n0) = om_Namespace (nrs_Meta n)" "om_Name (nrs_Meta ?n0) = om_Name (nrs_Meta n)"
    by (simp_all add: NetworkResource_guarded_def set_nrs_finalizers_def)
  obtain ids where ids: "yields (GetGroupIDs (nsr_Client r) (mock_OpenZro rn base) (nrs_Groups (nrs_Spec n)) (om_Namespace (nrs_Meta n))) w (Inr ids) w"
    using GetGroupIDs_server [of "nrs_Groups (nrs_Spec n)" w "nsr_Client r" rn base] g by blast
  obtain j w1 where up: "yields (upsert (Resources (mock_OpenZro rn base) (nro_NetworkID nr)) (Resources (mock_OpenZro rn base) (nro_NetworkID nr)) ares_Id
      (nonempty (nrs_ResourceID ?n0)) (netresource_request ?n0 svc ids)) w (Inr j) w1" "puts_store resource_slot w w1" "j \<noteq> ''''"
    "resource_addresses w1 = (resource_addresses w)(j \<mapsto> (svc_ClusterIP svc, True))"
    "\<forall>i. nonempty (nrs_ResourceID n) = Some i \<and> i \<in> dom (resource_addresses w) \<longrightarrow> j = i"
    using upsert_resource [OF nonempty_not, of rn base "nro_NetworkID nr" "nrs_ResourceID ?n0" "netresource_request ?n0 svc ids" w]
    by (auto simp: netresource_request_def n0)
  let ?n1 = "?n0\<lparr>nrs_NetworkID := nro_NetworkID nr, nrs_ResourceID := j\<rparr>"
  obtain w2 where p: "yields (k_patch (NetworkResources (nsr_Client r)) ?n1) w1 (Inr ?n1) w2" "mock.truncate w2 = mock.truncate w1"
    "objs (mock.more w2) = (objs (mock.more w1))((om_Namespace (nrs_Meta n), om_Name (nrs_Meta n)) \<mapsto> ?n1)"
    "svcs (mock.more w2) = svcs (mock.more w1)" "nrs (mock.more w2) = nrs (mock.more w1)"
    using stores_resourcesD(4) [OF c, of ?n1 w1] by (auto simp: n0)
  have "yields (resource_upstream r n svc nr) w (Inr ?n1) w2"
    unfolding resource_upstream_def Let_def z
    by (rule yields_bind [OF ids], simp only: sum.case, rule yields_bind [OF up(1)], simp only: sum.case, rule yields_bind [OF p(1)])
       (simp add: yields_return)
  moreover have "resource_addresses w2 = resource_addresses w1" using truncate_fields(3) [OF p(2)] by (simp add: resource_addresses_def [abs_def])
  moreover have "nrs_ResourceID n \<noteq> '''' \<and> nrs_ResourceID n \<in> dom (resource_addresses w) \<longrightarrow> j = nrs_ResourceID n"
    using up(5) by (simp add: nonempty_def)
  ultimately show ?thesis
    using up(3, 4) p(3-5) puts_store_frames(1) [OF up(2)] truncate_fields [OF p(2)]
    by (intro exI [of _ j] exI [of _ w2]) (simp add: Let_def)
qed


text \<open>The second half: the record is in the zone, and the object records it and is ready.\<close>

definition forgot :: "NetworkResource \<Rightarrow> DNSZone \<Rightarrow> NetworkResource" where
  "forgot n zone = (if nrs_DNSZoneID n \<noteq> '''' \<and> nrs_DNSZoneID n \<noteq> dz_Id zone then n\<lparr>nrs_DNSZoneID := '''', nrs_DNSRecordID := ''''\<rparr> else n)"

lemma forgot_keeps: "nrs_Meta (forgot n zone) = nrs_Meta n" "nrs_Spec (forgot n zone) = nrs_Spec n"
  "nrs_ResourceID (forgot n zone) = nrs_ResourceID n" "nrs_NetworkID (forgot n zone) = nrs_NetworkID n"
  "nrs_Conditions (forgot n zone) = nrs_Conditions n"
  by (simp_all add: forgot_def)

lemma forget_old_record_yields:
  assumes "nsr_OpenZro r = mock_OpenZro rn base"
  shows "\<exists>w1. yields (forget_old_record r n zone) w (Inr (forgot n zone)) w1 \<and> puts_store record_slot w w1 \<and>
    record_settings w1 = without_stale n zone (record_settings w)"
proof (cases "nrs_DNSZoneID n \<noteq> '''' \<and> nrs_DNSZoneID n \<noteq> dz_Id zone")
  case True
  obtain w1 where d: "yields (delete_recorded (Records (mock_OpenZro rn base) (nrs_DNSZoneID n)) (Some (nrs_DNSRecordID n))) w None w1"
    "puts_store record_slot w w1" "record_settings w1 = (record_settings w)(nrs_DNSRecordID n := None)"
    using delete_record [of rn base "nrs_DNSZoneID n" "Some (nrs_DNSRecordID n)" w] by auto
  have "yields (forget_old_record r n zone) w (Inr (forgot n zone)) w1"
    unfolding forget_old_record_def assms if_P [OF True] by (rule yields_bind [OF d(1)]) (use True in \<open>simp add: forgot_def yields_return\<close>)
  with d True show ?thesis by (auto simp: without_stale_def)
next
  case False
  then have "yields (forget_old_record r n zone) w (Inr (forgot n zone)) w"
    by (auto simp: forget_old_record_def forgot_def yields_return)
  with False show ?thesis by (auto simp: without_stale_def intro: puts_store_same)
qed

lemma resource_record_yields:
  assumes z: "nsr_OpenZro r = mock_OpenZro rn base" and c: "stores_resources (nsr_Client r) objs svcs nrs"
    and n: "nrs_DNSZoneID n = '''' \<or> nrs_DNSZoneID n = dz_Id zone"
  shows "\<exists>k w2. yields (resource_record r svc zone n) w (zero_Result, None) w2 \<and> k \<noteq> '''' \<and>
    record_settings w2 = (record_settings w)(k \<mapsto> record_request svc zone) \<and>
    (\<forall>i. recorded_record n = Some i \<and> i \<in> dom (record_settings w) \<longrightarrow> k = i) \<and>
    objs (mock.more w2) = (objs (mock.more w))((om_Namespace (nrs_Meta n), om_Name (nrs_Meta n)) \<mapsto> NetworkResource_ready r zone k n) \<and>
    svcs (mock.more w2) = svcs (mock.more w) \<and> nrs (mock.more w2) = nrs (mock.more w) \<and>
    mk_zones w2 = mk_zones w \<and> mk_groups w2 = mk_groups w \<and> mk_resources w2 = mk_resources w"
proof -
  have rec: "recorded_record n \<noteq> Some ''''" "recorded_record n = None \<or> nrs_DNSZoneID n = dz_Id zone"
    using n by (auto simp: recorded_record_def)
  obtain k w1 where up: "yields (upsert (Records (mock_OpenZro rn base) (nrs_DNSZoneID n)) (Records (mock_OpenZro rn base) (dz_Id zone)) dr_Id
      (recorded_record n) (record_request svc zone)) w (Inr k) w1" "puts_store record_slot w w1" "k \<noteq> ''''"
    "record_settings w1 = (record_settings w)(k \<mapsto> record_request svc zone)"
    "\<forall>i. recorded_record n = Some i \<and> i \<in> dom (record_settings w) \<longrightarrow> k = i"
    using upsert_record [OF rec, of rn base "record_request svc zone" w] by blast
  let ?n1 = "NetworkResource_ready r zone k n"
  have keep: "nrs_Meta ?n1 = nrs_Meta n" by (simp add: NetworkResource_ready_def)
  obtain w2 where p: "yields (k_patch (NetworkResources (nsr_Client r)) ?n1) w1 (Inr ?n1) w2" "mock.truncate w2 = mock.truncate w1"
    "objs (mock.more w2) = (objs (mock.more w1))((om_Namespace (nrs_Meta n), om_Name (nrs_Meta n)) \<mapsto> ?n1)"
    "svcs (mock.more w2) = svcs (mock.more w1)" "nrs (mock.more w2) = nrs (mock.more w1)"
    using stores_resourcesD(4) [OF c, of ?n1 w1] unfolding keep by blast
  have "yields (resource_record r svc zone n) w (zero_Result, None) w2"
    unfolding resource_record_def z by (rule yields_bind [OF up(1)], simp only: sum.case, rule yields_bind [OF p(1)]) (simp add: yields_return)
  moreover have "record_settings w2 = record_settings w1" using truncate_fields(4) [OF p(2)] by (simp add: record_settings_def [abs_def])
  ultimately show ?thesis
    using up(3-5) p(3-5) puts_store_frames(2) [OF up(2)] truncate_fields [OF p(2)]
    by (intro exI [of _ k] exI [of _ w2]) simp
qed

text \<open>A whole run.\<close>

definition served_as :: "'a mock_scheme \<Rightarrow> NetworkResource \<Rightarrow> Service \<Rightarrow> NetworkRouter \<Rightarrow> DNSZone \<Rightarrow> bool" where
  "served_as w n svc nr zone \<longleftrightarrow> nrs_NetworkID n = nro_NetworkID nr \<and> nrs_DNSZoneID n = dz_Id zone \<and> nrs_ResourceID n \<noteq> '''' \<and> nrs_DNSRecordID n \<noteq> '''' \<and>
     resource_addresses w (nrs_ResourceID n) = Some (svc_ClusterIP svc, True) \<and> record_settings w (nrs_DNSRecordID n) = Some (record_request svc zone)"


lemma NetworkResource_run:
  assumes z: "nsr_OpenZro r = mock_OpenZro rn base" and c: "stores_resources (nsr_Client r) objs svcs nrs"
    and obj: "objs (mock.more w) req = Some n" "req = (om_Namespace (nrs_Meta n), om_Name (nrs_Meta n))" "om_DeletionTimestamp (nrs_Meta n) = None"
    and dep: "dependencies svcs nrs w n svc nr zone"
  obtains n3 w3 where "yields (NetworkResource_Reconcile r req) w (zero_Result, None) w3" "objs (mock.more w3) req = Some n3"
    "served_as w3 n3 svc nr zone" "nrs_Meta n3 = nrs_Meta (NetworkResource_guarded r n)" "nrs_Conditions n3 = mark_ready (nsr_Client r) (nrs_Conditions n)"
    "dependencies svcs nrs w3 n3 svc nr zone"
    "resource_addresses w3 = (resource_addresses w)(nrs_ResourceID n3 \<mapsto> (svc_ClusterIP svc, True))"
    "record_settings w3 = (without_stale n zone (record_settings w))(nrs_DNSRecordID n3 \<mapsto> record_request svc zone)"
    "served_as w n svc nr zone \<Longrightarrow> nrs_ResourceID n3 = nrs_ResourceID n \<and> nrs_DNSRecordID n3 = nrs_DNSRecordID n"
proof -
  have dep': "\<forall>ref \<in> set (nrs_Groups (nrs_Spec n)). known_group w ref" "one_zone w (nro_DNSZoneRef (nro_Spec nr)) zone" "dz_Id zone \<noteq> ''''"
    using dep by (simp_all add: dependencies_def one_zone_def)
  obtain j w1 n1 where n1: "n1 = (NetworkResource_guarded r n)\<lparr>nrs_NetworkID := nro_NetworkID nr, nrs_ResourceID := j\<rparr>"
    and up: "yields (resource_upstream r n svc nr) w (Inr n1) w1" "j \<noteq> ''''"
    "resource_addresses w1 = (resource_addresses w)(j \<mapsto> (svc_ClusterIP svc, True))"
    "nrs_ResourceID n \<noteq> '''' \<and> nrs_ResourceID n \<in> dom (resource_addresses w) \<longrightarrow> j = nrs_ResourceID n"
    "objs (mock.more w1) = (objs (mock.more w))(req \<mapsto> n1)"
    "svcs (mock.more w1) = svcs (mock.more w)" "nrs (mock.more w1) = nrs (mock.more w)"
    "mk_zones w1 = mk_zones w" "mk_groups w1 = mk_groups w" "mk_records w1 = mk_records w"
    using resource_upstream_yields [OF z c dep'(1), where svc = svc and nr = nr] unfolding Let_def obj(2) by blast
  have keep: "nrs_Spec n1 = nrs_Spec n" "nrs_DNSZoneID n1 = nrs_DNSZoneID n" "nrs_DNSRecordID n1 = nrs_DNSRecordID n"
    "nrs_Conditions n1 = nrs_Conditions n" "nrs_Meta n1 = nrs_Meta (NetworkResource_guarded r n)" "nrs_ResourceID n1 = j"
    "nrs_NetworkID n1 = nro_NetworkID nr" "om_Namespace (nrs_Meta n1) = fst req" "om_Name (nrs_Meta n1) = snd req"
    by (simp_all add: n1 obj(2) NetworkResource_guarded_def set_nrs_finalizers_def)
  let ?w2 = "w1\<lparr>mk_draws := Suc (mk_draws w1)\<rparr>" and ?n2 = "forgot n1 zone"
  have "one_zone w1 (nro_DNSZoneRef (nro_Spec nr)) zone" using dep'(2) up(8) by (simp add: one_zone_def)
  then have zone: "yields (resource_zone r nr) w1 (Inr zone) ?w2"
    unfolding resource_zone_def z
    by (rule yields_bind [OF GetDNSZoneByName_server], unfold sum.case) (rule yields_return)
  obtain w2 where fo: "yields (forget_old_record r n1 zone) ?w2 (Inr ?n2) w2" "puts_store record_slot ?w2 w2"
    "record_settings w2 = without_stale n1 zone (record_settings ?w2)"
    using forget_old_record_yields [OF z] by blast
  have n2: "nrs_DNSZoneID ?n2 = '''' \<or> nrs_DNSZoneID ?n2 = dz_Id zone" by (simp add: forgot_def)
  have key: "(om_Namespace (nrs_Meta ?n2), om_Name (nrs_Meta ?n2)) = req" by (simp add: forgot_keeps keep(8, 9))
  obtain k w3 where re: "yields (resource_record r svc zone ?n2) w2 (zero_Result, None) w3" "k \<noteq> ''''"
    "record_settings w3 = (record_settings w2)(k \<mapsto> record_request svc zone)"
    "\<forall>i. recorded_record ?n2 = Some i \<and> i \<in> dom (record_settings w2) \<longrightarrow> k = i"
    "objs (mock.more w3) = (objs (mock.more w2))(req \<mapsto> NetworkResource_ready r zone k ?n2)"
    "svcs (mock.more w3) = svcs (mock.more w2)" "nrs (mock.more w3) = nrs (mock.more w2)"
    "mk_zones w3 = mk_zones w2" "mk_groups w3 = mk_groups w2" "mk_resources w3 = mk_resources w2"
    using resource_record_yields [OF z c n2, where svc = svc and w = w2] unfolding key by blast
  let ?n3 = "NetworkResource_ready r zone k ?n2"
  have sync: "yields (NetworkResource_sync r n) w (zero_Result, None) w3"
    unfolding NetworkResource_sync_def
    by (rule yields_early [OF resource_service_yields(1) [OF c dep]], rule yields_early [OF resource_service_yields(2) [OF c dep]],
        rule yields_early [OF up(1)], rule yields_early [OF zone], rule yields_early [OF fo(1)], rule re(1))
  have run: "yields (NetworkResource_Reconcile r req) w (zero_Result, None) w3"
    unfolding NetworkResource_Reconcile_def
    by (rule yields_bind [OF stores_resourcesD(1) [OF c obj(1)]]) (simp add: NetworkResource_body_def obj(3) sync)
  have n3: "nrs_ResourceID ?n3 = j" "nrs_DNSRecordID ?n3 = k" "nrs_DNSZoneID ?n3 = dz_Id zone" "nrs_NetworkID ?n3 = nro_NetworkID nr"
    "nrs_Meta ?n3 = nrs_Meta (NetworkResource_guarded r n)" "nrs_Spec ?n3 = nrs_Spec n"
    "nrs_Conditions ?n3 = mark_ready (nsr_Client r) (nrs_Conditions n)"
    by (simp_all add: NetworkResource_ready_def forgot_keeps keep)
  have fields: "mk_zones w3 = mk_zones w" "mk_groups w3 = mk_groups w" "mk_resources w3 = mk_resources w1"
    "svcs (mock.more w3) = svcs (mock.more w)" "nrs (mock.more w3) = nrs (mock.more w)"
    using puts_store_frames(2) [OF fo(2)] up re by simp_all
  have ra: "resource_addresses w3 = (resource_addresses w)(j \<mapsto> (svc_ClusterIP svc, True))"
    using fields(3) up(3) by (simp add: resource_addresses_def [abs_def])
  have "record_settings ?w2 = record_settings w" using up(10) by (simp add: record_settings_def [abs_def])
  then have rs2: "record_settings w2 = without_stale n zone (record_settings w)" using fo(3) by (simp add: without_stale_def keep)
  have "served_as w3 ?n3 svc nr zone" unfolding served_as_def n3 using ra re(2, 3) up(2) by simp
  moreover have "dependencies svcs nrs w3 ?n3 svc nr zone"
    using dep by (subst dependencies_frame [OF fields(4, 5, 1, 2) n3(6)]) (simp_all add: n3(5) NetworkResource_guarded_def set_nrs_finalizers_def)
  moreover have "k = nrs_DNSRecordID n \<and> j = nrs_ResourceID n" if "served_as w n svc nr zone"
    using that re(4) up(4) rs2 dep'(3) keep(3) by (auto simp: served_as_def forgot_def keep recorded_record_def without_stale_def)
  ultimately show ?thesis
    using run re(5) ra re(3) rs2 n3 by (intro that [of w3 ?n3]) simp_all
qed


section \<open>Convergence\<close>

lemma without_stale_served: "served_as w n svc nr zone \<Longrightarrow> without_stale n zone m = m"
  by (simp add: without_stale_def served_as_def)

lemma fun_upd_served:
  "served_as w n svc nr zone \<Longrightarrow> (resource_addresses w)(nrs_ResourceID n \<mapsto> (svc_ClusterIP svc, True)) = resource_addresses w"
  "served_as w n svc nr zone \<Longrightarrow> (record_settings w)(nrs_DNSRecordID n \<mapsto> record_request svc zone) = record_settings w"
  by (auto simp: served_as_def fun_upd_idem)


text \<open>A cluster that stores resources, Services and routers next to the management server.\<close>

record demo_cluster =
  dc_resources :: "nn \<Rightarrow> NetworkResource option"
  dc_services :: "nn \<Rightarrow> Service option"
  dc_routers :: "nn \<Rightarrow> NetworkRouter option"

definition read_from :: "('a \<Rightarrow> nn \<Rightarrow> 'o option) \<Rightarrow> nn \<Rightarrow> 'a mock_scheme \<Rightarrow> (goerr + 'o) \<times> 'a mock_scheme" where
  "read_from f k w = (case f (mock.more w) k of None \<Rightarrow> (Inl (KNotFound ''object''), w) | Some x \<Rightarrow> (Inr x, w))"

definition demo_resource_cluster :: "demo_cluster mock_scheme Client" where
  "demo_resource_cluster = down_Client\<lparr>
     c_NetworkResources := down_kind\<lparr>kc_get := read_from dc_resources,
       kc_patch := \<lambda>n w. (Inr n, mock.more_update (\<lambda>d. d\<lparr>dc_resources := (dc_resources d)((om_Namespace (nrs_Meta n), om_Name (nrs_Meta n)) \<mapsto> n)\<rparr>) w)\<rparr>,
     c_Services := down_kind\<lparr>kc_get := read_from dc_services\<rparr>, c_NetworkRouters := down_kind\<lparr>kc_get := read_from dc_routers\<rparr>\<rparr>"

definition demo_cluster_service :: Service where
  "demo_cluster_service = \<lparr>svc_Meta = zero_ObjectMeta\<lparr>om_Name := ''svc'', om_Namespace := ''ns''\<rparr>, svc_Type = ''ClusterIP'',
     svc_ClusterIP = ''10.0.0.1'', svc_Ports = []\<rparr>"

definition demo_cluster_router :: NetworkRouter where
  "demo_cluster_router = \<lparr>nro_Meta = zero_ObjectMeta\<lparr>om_Name := ''r'', om_Namespace := ''ns''\<rparr>,
     nro_Spec = \<lparr>nro_DNSZoneRef = ''zone'', nro_WorkloadOverride = None\<rparr>, nro_Conditions = [], nro_RoutingPeerID = ''p1'', nro_NetworkID = ''n1''\<rparr>"

definition demo_cluster_zone :: DNSZone where
  "demo_cluster_zone = \<lparr>dz_Id = ''id-z'', dz_Name = ''zone'', dz_Domain = ''zone'', dz_DistributionGroups = [], dz_EnableSearchDomain = False,
     dz_Enabled = None\<rparr>"

definition demo_cluster_start :: "demo_cluster mock_scheme" where
  "demo_cluster_start = \<lparr>mk_draws = 0, mk_groups = [], mk_keys = [], mk_networks = [], mk_routers = [], mk_resources = [],
     mk_zones = [(''id-z'', demo_cluster_zone)], mk_records = [], \<dots> = \<lparr>dc_resources = Map.empty((''ns'', ''x'') \<mapsto> NetworkResource_Controller.demo_resource),
     dc_services = Map.empty((''ns'', ''svc'') \<mapsto> demo_cluster_service), dc_routers = Map.empty((''ns'', ''r'') \<mapsto> demo_cluster_router)\<rparr>\<rparr>"

definition demo_cluster_reconciler :: "demo_cluster mock_scheme NetworkResourceReconciler" where
  "demo_cluster_reconciler = \<lparr>nsr_Client = demo_resource_cluster,
     nsr_OpenZro = mock_OpenZro \<lparr>rn_int = int, rn_rank = \<lambda>_ _. 0\<rparr> down_OpenZro\<rparr>"

lemma demo_cluster_stores: "stores_resources demo_resource_cluster dc_resources dc_services dc_routers"
  by (simp add: stores_resources_def demo_resource_cluster_def read_from_def mock.defs)

lemma demo_cluster_dependencies:
  "dependencies dc_services dc_routers demo_cluster_start NetworkResource_Controller.demo_resource demo_cluster_service demo_cluster_router demo_cluster_zone"
  by (simp add: dependencies_def demo_cluster_start_def NetworkResource_Controller.demo_resource_def demo_cluster_service_def
      demo_cluster_router_def demo_cluster_zone_def router_key_def one_zone_def)



section \<open>Withdrawal\<close>

definition deleted_at :: "time \<Rightarrow> NetworkResource \<Rightarrow> NetworkResource" where
  "deleted_at ts n = n\<lparr>nrs_Meta := (nrs_Meta n)\<lparr>om_DeletionTimestamp := Some ts\<rparr>\<rparr>"

lemma NetworkResource_delete_run:
  assumes z: "nsr_OpenZro r = mock_OpenZro rn base" and c: "stores_resources (nsr_Client r) objs svcs nrs"
    and obj: "objs (mock.more w) req = Some n" "req = (om_Namespace (nrs_Meta n), om_Name (nrs_Meta n))" "om_DeletionTimestamp (nrs_Meta n) \<noteq> None"
  obtains w3 where "yields (NetworkResource_Reconcile r req) w (zero_Result, None) w3"
    "objs (mock.more w3) req = Some (NetworkResource_released r n)"
    "resource_addresses w3 = (case recorded_resource n of None \<Rightarrow> resource_addresses w | Some i \<Rightarrow> (resource_addresses w)(i := None))"
    "record_settings w3 = (case recorded_record n of None \<Rightarrow> record_settings w | Some i \<Rightarrow> (record_settings w)(i := None))"
proof -
  obtain w1 where d1: "yields (delete_recorded (Resources (mock_OpenZro rn base) (nrs_NetworkID n)) (recorded_resource n)) w None w1"
    "puts_store resource_slot w w1"
    "resource_addresses w1 = (case recorded_resource n of None \<Rightarrow> resource_addresses w | Some i \<Rightarrow> (resource_addresses w)(i := None))"
    using delete_resource by blast
  obtain w2 where d2: "yields (delete_recorded (Records (mock_OpenZro rn base) (nrs_DNSZoneID n)) (recorded_record n)) w1 None w2"
    "puts_store record_slot w1 w2"
    "record_settings w2 = (case recorded_record n of None \<Rightarrow> record_settings w1 | Some i \<Rightarrow> (record_settings w1)(i := None))"
    using delete_record by blast
  let ?n = "NetworkResource_released r n"
  have key: "(om_Namespace (nrs_Meta ?n), om_Name (nrs_Meta ?n)) = req"
    by (simp add: NetworkResource_released_def set_nrs_finalizers_def obj(2))
  obtain w3 where p: "yields (k_patch (NetworkResources (nsr_Client r)) ?n) w2 (Inr ?n) w3" "mock.truncate w3 = mock.truncate w2"
    "objs (mock.more w3) = (objs (mock.more w2))(req \<mapsto> ?n)"
    using stores_resourcesD(4) [OF c, of ?n w2] unfolding key by blast
  have "yields (NetworkResource_reconcileDelete r n) w (zero_Result, None) w3"
    unfolding NetworkResource_reconcileDelete_def z
    by (rule yields_bind [OF d1(1)], simp only: option.case, rule yields_bind [OF d2(1)], simp only: option.case, rule yields_bind [OF p(1)])
       (simp add: yields_return)
  then have "yields (NetworkResource_Reconcile r req) w (zero_Result, None) w3"
    unfolding NetworkResource_Reconcile_def
    by - (rule yields_bind [OF stores_resourcesD(1) [OF c obj(1)]], simp add: NetworkResource_body_def obj(3))
  moreover have "resource_addresses w3 = resource_addresses w1" "record_settings w3 = record_settings w2" "record_settings w1 = record_settings w"
    using truncate_fields [OF p(2)] puts_store_frames(2) [OF d2(2)] puts_store_frames(1) [OF d1(2)]
    by (simp_all add: resource_addresses_def [abs_def] record_settings_def [abs_def])
  ultimately show ?thesis using d1(3) d2(3) p(3) by (intro that [of w3]) (simp_all split: option.splits)
qed

text \<open>
  C11. What reconciling a network resource puts into the management server, its deletion takes back. The resource is reconciled under the
  conditions of convergence; then it is deleted in the cluster, with no change of the server; then the controller
  runs again. That run reports success and removes the finalizer, and the server's resources are those before the first run
  without the ID that the object recorded, and so are its records, but for a record of another zone that was
  removed in the first run. In particular, nothing is left of a resource whose IDs the server had not used before.
\<close>

theorem network_resource_withdrawn:
  assumes z: "nsr_OpenZro r = mock_OpenZro rn base" and c: "stores_resources (nsr_Client r) objs svcs nrs"
    and obj: "objs (mock.more (wenv s)) req = Some n" "req = (om_Namespace (nrs_Meta n), om_Name (nrs_Meta n))"
      "om_DeletionTimestamp (nrs_Meta n) = None"
    and dep: "dependencies svcs nrs (wenv s) n svc nr zone"
    and run: "run_state (NetworkResource_Reconcile r req) s = (out, t)" and ready: "objs (mock.more (wenv t)) req = Some n1"
    and deleted: "mock.truncate (wenv t') = mock.truncate (wenv t)" "objs (mock.more (wenv t')) req = Some (deleted_at ts n1)"
  shows "\<exists>u. run_state (NetworkResource_Reconcile r req) t' = ((zero_Result, None), u) \<and>
    objs (mock.more (wenv u)) req = Some (NetworkResource_released r (deleted_at ts n1)) \<and>
    resource_addresses (wenv u) = (resource_addresses (wenv s))(nrs_ResourceID n1 := None) \<and>
    record_settings (wenv u) = (without_stale n zone (record_settings (wenv s)))(nrs_DNSRecordID n1 := None)"
proof -
  from NetworkResource_run [OF z c obj dep] obtain n' w1 where 1: "yields (NetworkResource_Reconcile r req) (wenv s) (zero_Result, None) w1"
    "objs (mock.more w1) req = Some n'" "served_as w1 n' svc nr zone" "nrs_Meta n' = nrs_Meta (NetworkResource_guarded r n)"
    "resource_addresses w1 = (resource_addresses (wenv s))(nrs_ResourceID n' \<mapsto> (svc_ClusterIP svc, True))"
    "record_settings w1 = (without_stale n zone (record_settings (wenv s)))(nrs_DNSRecordID n' \<mapsto> record_request svc zone)"
    by metis
  have t: "wenv t = w1" using yields_run [OF 1(1)] run by auto
  with 1(2) ready have n1: "n' = n1" by simp
  let ?d = "deleted_at ts n1"
  have key: "req = (om_Namespace (nrs_Meta ?d), om_Name (nrs_Meta ?d))" "om_DeletionTimestamp (nrs_Meta ?d) \<noteq> None"
    using 1(4) by (simp_all add: deleted_at_def n1 NetworkResource_guarded_def set_nrs_finalizers_def obj(2))
  have "nro_NetworkID nr \<noteq> ''''" "dz_Id zone \<noteq> ''''" using dep by (simp_all add: dependencies_def one_zone_def)
  then have rec: "recorded_resource ?d = Some (nrs_ResourceID n1)" "recorded_record ?d = Some (nrs_DNSRecordID n1)"
    using 1(3) by (simp_all add: served_as_def n1 deleted_at_def recorded_resource_def recorded_record_def)
  from NetworkResource_delete_run [OF z c deleted(2) key] obtain w3 where 3: "yields (NetworkResource_Reconcile r req) (wenv t') (zero_Result, None) w3"
    "objs (mock.more w3) req = Some (NetworkResource_released r ?d)"
    "resource_addresses w3 = (resource_addresses (wenv t'))(nrs_ResourceID n1 := None)"
    "record_settings w3 = (record_settings (wenv t'))(nrs_DNSRecordID n1 := None)"
    unfolding rec option.case by blast
  have "resource_addresses (wenv t') = resource_addresses w1" "record_settings (wenv t') = record_settings w1"
    using truncate_fields [OF deleted(1)] by (simp_all add: t resource_addresses_def [abs_def] record_settings_def [abs_def])
  with 1(5, 6) 3(3, 4) have "resource_addresses w3 = (resource_addresses (wenv s))(nrs_ResourceID n1 := None)"
    "record_settings w3 = (without_stale n zone (record_settings (wenv s)))(nrs_DNSRecordID n1 := None)"
    by (simp_all add: n1)
  with yields_run [OF 3(1)] 3(2) show ?thesis by auto
qed

theorem network_resource_withdrawn_witness:
  "\<exists>t t' u. run_state (NetworkResource_Reconcile demo_cluster_reconciler (''ns'', ''x'')) \<lparr>wenv = demo_cluster_start, wlog = []\<rparr> = ((zero_Result, None), t) \<and>
    mock.truncate (wenv t') = mock.truncate (wenv t) \<and>
    run_state (NetworkResource_Reconcile demo_cluster_reconciler (''ns'', ''x'')) t' = ((zero_Result, None), u) \<and>
    resource_addresses (wenv u) = Map.empty \<and> record_settings (wenv u) = Map.empty"
proof -
  let ?m = "NetworkResource_Reconcile demo_cluster_reconciler (''ns'', ''x'')"
  let ?s = "\<lparr>wenv = demo_cluster_start, wlog = []\<rparr>" and ?n = "NetworkResource_Controller.demo_resource"
  have z: "nsr_OpenZro demo_cluster_reconciler = mock_OpenZro \<lparr>rn_int = int, rn_rank = \<lambda>_ _. 0\<rparr> down_OpenZro"
    and c: "stores_resources (nsr_Client demo_cluster_reconciler) dc_resources dc_services dc_routers"
    by (simp_all add: demo_cluster_reconciler_def demo_cluster_stores)
  have obj: "dc_resources (mock.more (wenv ?s)) (''ns'', ''x'') = Some ?n" "(''ns'', ''x'') = (om_Namespace (nrs_Meta ?n), om_Name (nrs_Meta ?n))"
    "om_DeletionTimestamp (nrs_Meta ?n) = None"
    by (simp_all add: demo_cluster_start_def NetworkResource_Controller.demo_resource_def zero_ObjectMeta_def)
  have dep: "dependencies dc_services dc_routers (wenv ?s) ?n demo_cluster_service demo_cluster_router demo_cluster_zone"
    by (simp add: demo_cluster_dependencies)
  obtain n1 w1 where 1: "yields ?m (wenv ?s) (zero_Result, None) w1" "dc_resources (mock.more w1) (''ns'', ''x'') = Some n1"
    using NetworkResource_run [OF z c obj dep] by metis
  from yields_run [OF 1(1)] obtain t where t: "run_state ?m ?s = ((zero_Result, None), t)" "wenv t = w1" by blast
  let ?t = "t\<lparr>wenv := mock.more_update (\<lambda>d. d\<lparr>dc_resources := (dc_resources d)((''ns'', ''x'') \<mapsto> deleted_at 0 n1)\<rparr>) w1\<rparr>"
  have d: "mock.truncate (wenv ?t) = mock.truncate (wenv t)" "dc_resources (mock.more (wenv ?t)) (''ns'', ''x'') = Some (deleted_at 0 n1)"
    by (simp_all add: t mock.defs)
  have empty: "resource_addresses demo_cluster_start = Map.empty" "record_settings demo_cluster_start = Map.empty"
    by (auto simp: demo_cluster_start_def resource_addresses_def record_settings_def)
  have "dc_resources (mock.more (wenv t)) (''ns'', ''x'') = Some n1" using 1(2) t(2) by simp
  from network_resource_withdrawn [OF z c obj dep t(1) this d] obtain u where u: "run_state ?m ?t = ((zero_Result, None), u)"
    "resource_addresses (wenv u) = (resource_addresses (wenv ?s))(nrs_ResourceID n1 := None)"
    "record_settings (wenv u) = (without_stale ?n demo_cluster_zone (record_settings (wenv ?s)))(nrs_DNSRecordID n1 := None)"
    by blast
  have "resource_addresses (wenv u) = Map.empty" "record_settings (wenv u) = Map.empty"
    using u(2, 3) by (auto simp: empty without_stale_def)
  with u(1) t(1) d(1) show ?thesis by blast
qed


section \<open>Backends of routes\<close>

lemma apply_backends_only:
  "emits (apply_backends k route m nr backends) (\<lambda>_ evs. \<forall>e \<in> set evs. \<exists>svc \<in> set backends. \<exists>cref oref er.
     e = EApply (KNetworkResource (backend_resource cref oref nr svc)) er)"
  unfolding apply_backends_def k_apply_def NetworkResources_def
proof (rule emits_for_each [where
    I = "\<lambda>_ evs. \<forall>e \<in> set evs. \<exists>svc \<in> set backends. \<exists>cref oref er. e = EApply (KNetworkResource (backend_resource cref oref nr svc)) er"], goal_cases)
  case (2 svc acc e1)
  then show ?case by (auto intro!: emits_intros simp: failed_def split: sum.splits option.splits) blast
qed simp_all



definition demo_routed :: NetworkResource where
  "demo_routed = backend_resource
     \<lparr>or_APIVersion = ''v1'', or_Kind = ''Kind'', or_Name = ''svc'', or_UID = '''', or_Controller = Some True, or_BlockOwnerDeletion = Some False\<rparr>
     \<lparr>or_APIVersion = ''v1'', or_Kind = ''Kind'', or_Name = ''t'', or_UID = '''', or_Controller = Some False, or_BlockOwnerDeletion = Some False\<rparr>
     demo_cluster_router demo_cluster_service"

definition demo_routed_start :: "demo_cluster mock_scheme" where
  "demo_routed_start = mock.more_update (\<lambda>d. d\<lparr>dc_resources := Map.empty((''ns'', ''svc'') \<mapsto> demo_routed)\<rparr>) demo_cluster_start"

lemma demo_routed_applied:
  "wlog (snd (run_state (apply_backends demo_route_client (KTCPRoute demo_tcp_route) (tr_Meta demo_tcp_route) demo_cluster_router [demo_cluster_service]) start)) =
     wlog start @ [EApply (KNetworkResource demo_routed) None]"
  by (simp add: demo_tcp_route_def demo_cluster_service_def demo_routed_def backend_resource_def demo_route_defs)


end
