(* ===== verification/Router_Bring_Up.thy ===== *)
theory Router_Bring_Up
  imports Resource_Convergence
begin

text \<open>
  A network router comes up: the controllers of routers, groups and setup keys, which wait for each other through the cluster,
  against the management server of \<open>OpenZro_Mock\<close>, next to a cluster that stores what it is given.
\<close>

section \<open>The cluster\<close>

record cluster =
  cl_groups :: "nn \<Rightarrow> Group option"
  cl_keys :: "nn \<Rightarrow> SetupKey option"
  cl_routers :: "nn \<Rightarrow> NetworkRouter option"

type_synonym 'b site = "'b cluster_scheme mock_scheme"

definition group_key :: "Group \<Rightarrow> nn" where "group_key g = (om_Namespace (grp_Meta g), om_Name (grp_Meta g))"
definition setup_key_key :: "SetupKey \<Rightarrow> nn" where "setup_key_key k = (om_Namespace (sk_Meta k), om_Name (sk_Meta k))"
definition netrouter_key :: "NetworkRouter \<Rightarrow> nn" where "netrouter_key n = (om_Namespace (nro_Meta n), om_Name (nro_Meta n))"

definition put_group :: "Group \<Rightarrow> 'b site \<Rightarrow> 'b site" where
  "put_group g = mock.more_update (\<lambda>d. d\<lparr>cl_groups := (cl_groups d)(group_key g \<mapsto> g)\<rparr>)"
definition put_key :: "SetupKey \<Rightarrow> 'b site \<Rightarrow> 'b site" where
  "put_key k = mock.more_update (\<lambda>d. d\<lparr>cl_keys := (cl_keys d)(setup_key_key k \<mapsto> k)\<rparr>)"
definition put_router :: "NetworkRouter \<Rightarrow> 'b site \<Rightarrow> 'b site" where
  "put_router n = mock.more_update (\<lambda>d. d\<lparr>cl_routers := (cl_routers d)(netrouter_key n \<mapsto> n)\<rparr>)"

text \<open>An apply creates the object, or sets the fields of its configuration and leaves the status alone.\<close>

definition applied_group :: "Group \<Rightarrow> Group option \<Rightarrow> Group" where
  "applied_group g old = (case old of
     None \<Rightarrow> g
   | Some o' \<Rightarrow> o'\<lparr>grp_SpecName := grp_SpecName g, grp_Meta := (grp_Meta o')\<lparr>om_OwnerReferences := om_OwnerReferences (grp_Meta g)\<rparr>\<rparr>)"

definition applied_key :: "SetupKey \<Rightarrow> SetupKey option \<Rightarrow> SetupKey" where
  "applied_key k old = (case old of
     None \<Rightarrow> k
   | Some o' \<Rightarrow> o'\<lparr>sk_Spec := sk_Spec k, sk_Meta := (sk_Meta o')\<lparr>om_OwnerReferences := om_OwnerReferences (sk_Meta k)\<rparr>\<rparr>)"

text \<open>
  What the API server documents for a client that nobody interferes with: reads answer the stored object, a patch stores and answers
  it, an apply creates or sets. Objects of other kinds are stored apart. The kind of every object is registered.
\<close>

definition stores_site :: "'b site Client \<Rightarrow> bool" where
  "stores_site c \<longleftrightarrow>
     kc_get (c_AlphaGroups c) = read_from cl_groups \<and> kc_get (c_AlphaSetupKeys c) = read_from cl_keys \<and> kc_get (c_NetworkRouters c) = read_from cl_routers \<and>
     (\<forall>g w. kc_patch (c_AlphaGroups c) g w = (Inr g, put_group g w)) \<and> (\<forall>k w. kc_patch (c_AlphaSetupKeys c) k w = (Inr k, put_key k w)) \<and>
     (\<forall>n w. kc_patch (c_NetworkRouters c) n w = (Inr n, put_router n w)) \<and>
     (\<forall>g w. kc_apply (c_AlphaGroups c) g w = (None, put_group (applied_group g (cl_groups (mock.more w) (group_key g))) w)) \<and>
     (\<forall>k w. kc_apply (c_AlphaSetupKeys c) k w = (None, put_key (applied_key k (cl_keys (mock.more w) (setup_key_key k))) w)) \<and>
     (\<forall>x w. \<exists>f. kc_apply (c_Secrets c) x w = (None, mock.more_update (cluster.more_update f) w)) \<and>
     (\<forall>x w. \<exists>f. kc_apply (c_Deployments c) x w = (None, mock.more_update (cluster.more_update f) w)) \<and>
     (\<forall>x. \<exists>gv k. GVKForObject c x = Inr (gv, k))"

text \<open>The deployments of the cluster come up.\<close>

definition deployments_up :: "'b site Client \<Rightarrow> bool" where
  "deployments_up c \<longleftrightarrow> (\<forall>k w. \<exists>d. kc_get (c_Deployments c) k w = (Inr d, w) \<and> dep_ReadyReplicas d = dep_StatusReplicas d)"

lemma site_calls:
  assumes "stores_site c"
  shows "cl_groups (mock.more w) k = Some g \<Longrightarrow> yields (k_get (AlphaGroups c) k) w (Inr g) w"
    "cl_keys (mock.more w) k = Some sk \<Longrightarrow> yields (k_get (AlphaSetupKeys c) k) w (Inr sk) w"
    "cl_routers (mock.more w) k = Some n \<Longrightarrow> yields (k_get (NetworkRouters c) k) w (Inr n) w"
    "yields (k_patch (AlphaGroups c) g) w (Inr g) (put_group g w)"
    "yields (k_patch (AlphaSetupKeys c) sk) w (Inr sk) (put_key sk w)"
    "yields (k_patch (NetworkRouters c) n) w (Inr n) (put_router n w)"
    "yields (k_apply (AlphaGroups c) g) w None (put_group (applied_group g (cl_groups (mock.more w) (group_key g))) w)"
    "yields (k_apply (AlphaSetupKeys c) sk) w None (put_key (applied_key sk (cl_keys (mock.more w) (setup_key_key sk))) w)"
    "\<exists>f. yields (k_apply (Secrets c) sec) w None (mock.more_update (cluster.more_update f) w)"
    "\<exists>f. yields (k_apply (Deployments c) dep) w None (mock.more_update (cluster.more_update f) w)"
    "\<exists>owner. ControllerReference c x m = Inr owner"
proof -
  note c = assms [unfolded stores_site_def]
  show "cl_groups (mock.more w) k = Some g \<Longrightarrow> yields (k_get (AlphaGroups c) k) w (Inr g) w"
    "cl_keys (mock.more w) k = Some sk \<Longrightarrow> yields (k_get (AlphaSetupKeys c) k) w (Inr sk) w"
    "cl_routers (mock.more w) k = Some n \<Longrightarrow> yields (k_get (NetworkRouters c) k) w (Inr n) w"
    using c by (simp_all add: k_get_def api_defs read_from_def yields_api_call)
  show "yields (k_patch (AlphaGroups c) g) w (Inr g) (put_group g w)" "yields (k_patch (AlphaSetupKeys c) sk) w (Inr sk) (put_key sk w)"
    "yields (k_patch (NetworkRouters c) n) w (Inr n) (put_router n w)"
    using c by (simp_all add: k_patch_def api_defs yields_api_call)
  show "yields (k_apply (AlphaGroups c) g) w None (put_group (applied_group g (cl_groups (mock.more w) (group_key g))) w)"
    "yields (k_apply (AlphaSetupKeys c) sk) w None (put_key (applied_key sk (cl_keys (mock.more w) (setup_key_key sk))) w)"
    using c by (simp_all add: k_apply_def api_defs yields_api_call)
  from c have "\<exists>f. kc_apply (c_Secrets c) sec w = (None, mock.more_update (cluster.more_update f) w)" by blast
  then show "\<exists>f. yields (k_apply (Secrets c) sec) w None (mock.more_update (cluster.more_update f) w)"
    by (auto simp: k_apply_def Secrets_def intro: yields_api_call)
  from c have "\<exists>f. kc_apply (c_Deployments c) dep w = (None, mock.more_update (cluster.more_update f) w)" by blast
  then show "\<exists>f. yields (k_apply (Deployments c) dep) w None (mock.more_update (cluster.more_update f) w)"
    by (auto simp: k_apply_def Deployments_def intro: yields_api_call)
  from c obtain gv k where "GVKForObject c x = Inr (gv, k)" by blast
  then show "\<exists>owner. ControllerReference c x m = Inr owner" by (simp add: ControllerReference_def)
qed

section \<open>The server\<close>

lemma upsert_view:
  assumes st: "rest_store rest idOf content want" and a: "oa_rest a = rest" "rest = addHandler rn sl conv zero id id"
    and "\<And>k i q old. idOf (conv k i q old) = i" "rec \<noteq> Some ''''" "lawful sl"
  shows "\<exists>j w1. yields (upsert a a idOf rec q) w (Inr j) w1 \<and> puts_store sl w w1 \<and> j \<noteq> '''' \<and> content w1 = (content w)(j \<mapsto> want q) \<and>
    (\<forall>i. rec = Some i \<and> i \<in> dom (content w) \<longrightarrow> j = i)"
proof -
  have a': "oa_rest a = addHandler rn sl conv zero id id" using a by simp
  obtain j w1 where y: "yields (upsert a a idOf rec q) w (Inr j) w1" "puts_store sl w w1" "j \<noteq> ''''"
    using upsert_server [OF a' a' assms(4-6), where q = q and w = w] by blast
  obtain t where "run_state (upsert a a idOf rec q) \<lparr>wenv = w, wlog = []\<rparr> = (Inr j, t)" "wenv t = w1"
    using yields_run [of "upsert a a idOf rec q" "\<lparr>wenv = w, wlog = []\<rparr>"] y(1) by auto
  from rest_store.upsert_puts [OF st a(1) this(1)] this(2) y show ?thesis by auto
qed

lemma upsert_group:
  "rec \<noteq> Some '''' \<Longrightarrow> \<exists>j w1. yields (upsert (Groups (mock_OpenZro rn base)) (Groups (mock_OpenZro rn base)) ag_Id rec q) w (Inr j) w1 \<and>
    puts_store group_slot w w1 \<and> j \<noteq> '''' \<and> group_names w1 = (group_names w)(j \<mapsto> q) \<and> (\<forall>i. rec = Some i \<and> i \<in> dom (group_names w) \<longrightarrow> j = i)"
  using upsert_view [OF mock_groups.rest_store_axioms [where rn = rn and base = base], of "Groups (mock_OpenZro rn base)" rn group_slot convert_group]
  by (simp add: Groups_def mock_OpenZro_def convert_group_def)

lemma upsert_network:
  "rec \<noteq> Some '''' \<Longrightarrow> \<exists>j w1. yields (upsert (Networks (mock_OpenZro rn base)) (Networks (mock_OpenZro rn base)) an_Id rec q) w (Inr j) w1 \<and>
    puts_store network_slot w w1 \<and> j \<noteq> '''' \<and> network_names w1 = (network_names w)(j \<mapsto> nwr_Name q) \<and>
    (\<forall>i. rec = Some i \<and> i \<in> dom (network_names w) \<longrightarrow> j = i)"
  using upsert_view [OF mock_networks.rest_store_axioms [where rn = rn and base = base], of "Networks (mock_OpenZro rn base)" rn network_slot convert_network]
  by (simp add: Networks_def mock_OpenZro_def convert_network_def)

lemma upsert_router:
  "rec \<noteq> Some '''' \<Longrightarrow> \<exists>j w1. yields (upsert (Routers (mock_OpenZro rn base) ni) (Routers (mock_OpenZro rn base) ni) ar_Id rec q) w (Inr j) w1 \<and>
    puts_store router_slot w w1 \<and> j \<noteq> '''' \<and> router_settings w1 = (router_settings w)(j \<mapsto> q) \<and>
    (\<forall>i. rec = Some i \<and> i \<in> dom (router_settings w) \<longrightarrow> j = i)"
  using upsert_view [OF mock_routers.rest_store_axioms [where rn = rn and base = base and n = ni], of "Routers (mock_OpenZro rn base) ni" rn router_slot convert_router]
  by (simp add: Routers_def mock_OpenZro_def convert_router_def)

section \<open>Frames\<close>

lemma put_simps [simp]:
  "mk_groups (put_group g w) = mk_groups w" "mk_groups (put_key k w) = mk_groups w" "mk_groups (put_router n w) = mk_groups w"
  "mk_keys (put_group g w) = mk_keys w" "mk_keys (put_key k w) = mk_keys w" "mk_keys (put_router n w) = mk_keys w"
  "mk_zones (put_group g w) = mk_zones w" "mk_zones (put_key k w) = mk_zones w" "mk_zones (put_router n w) = mk_zones w"
  "mk_networks (put_group g w) = mk_networks w" "mk_networks (put_key k w) = mk_networks w" "mk_networks (put_router n w) = mk_networks w"
  "mk_routers (put_group g w) = mk_routers w" "mk_routers (put_key k w) = mk_routers w" "mk_routers (put_router n w) = mk_routers w"
  "cl_groups (mock.more (put_group g w)) = (cl_groups (mock.more w))(group_key g \<mapsto> g)"
  "cl_groups (mock.more (put_key k w)) = cl_groups (mock.more w)" "cl_groups (mock.more (put_router n w)) = cl_groups (mock.more w)"
  "cl_keys (mock.more (put_key k w)) = (cl_keys (mock.more w))(setup_key_key k \<mapsto> k)"
  "cl_keys (mock.more (put_group g w)) = cl_keys (mock.more w)" "cl_keys (mock.more (put_router n w)) = cl_keys (mock.more w)"
  "cl_routers (mock.more (put_router n w)) = (cl_routers (mock.more w))(netrouter_key n \<mapsto> n)"
  "cl_routers (mock.more (put_group g w)) = cl_routers (mock.more w)" "cl_routers (mock.more (put_key k w)) = cl_routers (mock.more w)"
  by (simp_all add: put_group_def put_key_def put_router_def)

lemma slot_frames:
  "puts_store network_slot w w' \<Longrightarrow> mock.more w' = mock.more w \<and> mk_groups w' = mk_groups w \<and> mk_zones w' = mk_zones w \<and>
     mk_keys w' = mk_keys w \<and> mk_routers w' = mk_routers w"
  "puts_store router_slot w w' \<Longrightarrow> mock.more w' = mock.more w \<and> mk_groups w' = mk_groups w \<and> mk_zones w' = mk_zones w \<and>
     mk_keys w' = mk_keys w \<and> mk_networks w' = mk_networks w"
  by (auto simp: puts_store_def network_slot_def router_slot_def)

section \<open>The stages of the router controller\<close>

lemma guarded_router: "nro_NetworkID (NetworkRouter_guarded r n) = nro_NetworkID n" "nro_Spec (NetworkRouter_guarded r n) = nro_Spec n"
  "nro_RoutingPeerID (NetworkRouter_guarded r n) = nro_RoutingPeerID n" "netrouter_key (NetworkRouter_guarded r n) = netrouter_key n"
  "om_Name (nro_Meta (NetworkRouter_guarded r n)) = om_Name (nro_Meta n)" "om_DeletionTimestamp (nro_Meta (NetworkRouter_guarded r n)) = om_DeletionTimestamp (nro_Meta n)"
  "om_UID (nro_Meta (NetworkRouter_guarded r n)) = om_UID (nro_Meta n)"
  by (simp_all add: NetworkRouter_guarded_def set_nro_finalizers_def netrouter_key_def)

lemma guarded_same: "(NetworkRouter_guarded r n)\<lparr>nro_NetworkID := nro_NetworkID n\<rparr> = NetworkRouter_guarded r n"
  by (rule NetworkRouter.equality) (simp_all add: guarded_router)

text \<open>The network is ensured under the router's name, and the object stored with its ID.\<close>

lemma router_network_yields:
  assumes z: "nrr_OpenZro r = mock_OpenZro rn base" and c: "stores_site (nrr_Client r)" and zone: "one_zone w (nro_DNSZoneRef (nro_Spec n)) zone"
  shows "\<exists>j w1. yields (router_network r n) w (Inr (j, (NetworkRouter_guarded r n)\<lparr>nro_NetworkID := j\<rparr>)) (put_router ((NetworkRouter_guarded r n)\<lparr>nro_NetworkID := j\<rparr>) w1) \<and>
    j \<noteq> '''' \<and> network_names w1 = (network_names w)(j \<mapsto> om_Name (nro_Meta n)) \<and>
    (nro_NetworkID n \<noteq> '''' \<and> nro_NetworkID n \<in> dom (network_names w) \<longrightarrow> j = nro_NetworkID n) \<and>
    mock.more w1 = mock.more w \<and> mk_groups w1 = mk_groups w \<and> mk_zones w1 = mk_zones w \<and> mk_keys w1 = mk_keys w \<and> mk_routers w1 = mk_routers w"
proof -
  let ?w0 = "w\<lparr>mk_draws := Suc (mk_draws w)\<rparr>"
  obtain j w1 where up: "yields (ensure_network r (NetworkRouter_guarded r n)) ?w0 (Inr j) w1" "puts_store network_slot ?w0 w1" "j \<noteq> ''''"
    "network_names w1 = (network_names ?w0)(j \<mapsto> om_Name (nro_Meta n))"
    "\<forall>i. nonempty (nro_NetworkID n) = Some i \<and> i \<in> dom (network_names ?w0) \<longrightarrow> j = i"
    using upsert_network [OF nonempty_not, of rn base "nro_NetworkID n" "\<lparr>nwr_Name = om_Name (nro_Meta n), nwr_Description = None\<rparr>" ?w0]
    by (auto simp: ensure_network_def z guarded_router)
  let ?n1 = "(NetworkRouter_guarded r n)\<lparr>nro_NetworkID := j\<rparr>"
  have "yields (router_network r n) w (Inr (j, ?n1)) (put_router ?n1 w1)"
    unfolding router_network_def z
    by (rule yields_bind [OF GetDNSZoneByName_server [OF zone]], simp only: sum.case, rule yields_bind [OF up(1)], simp only: sum.case,
        rule yields_bind [OF site_calls(6) [OF c]]) (simp add: yields_return)
  moreover have "network_names ?w0 = network_names w" by (simp add: network_names_def [abs_def])
  ultimately show ?thesis
    using up(3-5) slot_frames(1) [OF up(2)] by (intro exI [of _ j] exI [of _ w1]) (auto simp: nonempty_def)
qed

text \<open>The group and the key of the peers: what a run leaves depends on how far their own controllers have come.\<close>

lemma peers_keys [simp]:
  "group_key (peers_group r owner req n j) = (fst req, peers_name n)" "setup_key_key (peers_setup_key r owner req n j i) = (fst req, peers_name n)"
  by (simp_all add: group_key_def peers_group_def setup_key_key_def peers_setup_key_def zero_ObjectMeta_def)

lemma peers_group_yields:
  assumes c: "stores_site (nrr_Client r)"
    and G: "G = applied_group (peers_group r owner req n j) (cl_groups (mock.more w) (fst req, peers_name n))" "group_key G = (fst req, peers_name n)"
  shows "yields (k_apply (AlphaGroups (nrr_Client r)) (peers_group r owner req n j)) w None (put_group G w)"
    and "yields (k_get (AlphaGroups (nrr_Client r)) (fst req, peers_name n)) (put_group G w) (Inr G) (put_group G w)"
proof -
  show "yields (k_apply (AlphaGroups (nrr_Client r)) (peers_group r owner req n j)) w None (put_group G w)"
    using site_calls(7) [OF c, of "peers_group r owner req n j" w] by (simp add: G(1))
  show "yields (k_get (AlphaGroups (nrr_Client r)) (fst req, peers_name n)) (put_group G w) (Inr G) (put_group G w)"
    by (rule site_calls(1) [OF c]) (simp add: G(2))
qed

lemma router_peers_waits:
  assumes c: "stores_site (nrr_Client r)"
    and G: "G = applied_group (peers_group r owner req n j) (cl_groups (mock.more w) (fst req, peers_name n))" "group_key G = (fst req, peers_name n)"
    and "grp_GroupID G = ''''"
  shows "yields (router_peers r owner req n j) w (Inl (zero_Result, None)) (put_group G w)"
  unfolding router_peers_def
  by (rule yields_bind [OF peers_group_yields(1) [OF c G]], simp only: option.case, rule yields_bind [OF peers_group_yields(2) [OF c G]])
     (simp add: assms(4) yields_return)

lemma router_peers_yields:
  assumes c: "stores_site (nrr_Client r)"
    and G: "G = applied_group (peers_group r owner req n j) (cl_groups (mock.more w) (fst req, peers_name n))" "group_key G = (fst req, peers_name n)"
    and id: "grp_GroupID G \<noteq> ''''"
    and K: "K = applied_key (peers_setup_key r owner req n j (grp_GroupID G)) (cl_keys (mock.more w) (fst req, peers_name n))" "setup_key_key K = (fst req, peers_name n)"
  shows "yields (router_peers r owner req n j) w (if sk_SetupKeyID K = '''' then Inl (zero_Result, None) else Inr (grp_GroupID G, K)) (put_key K (put_group G w))"
proof -
  have a2: "yields (k_apply (AlphaSetupKeys (nrr_Client r)) (peers_setup_key r owner req n j (grp_GroupID G))) (put_group G w) None (put_key K (put_group G w))"
    using site_calls(8) [OF c, of "peers_setup_key r owner req n j (grp_GroupID G)" "put_group G w"] by (simp add: K(1))
  have g2: "yields (k_get (AlphaSetupKeys (nrr_Client r)) (fst req, peers_name n)) (put_key K (put_group G w)) (Inr K) (put_key K (put_group G w))"
    by (rule site_calls(2) [OF c]) (simp add: K(2))
  show ?thesis
    unfolding router_peers_def
    by (rule yields_bind [OF peers_group_yields(1) [OF c G]], simp only: option.case, rule yields_bind [OF peers_group_yields(2) [OF c G]],
        simp only: sum.case id if_False, rule yields_bind [OF a2], simp only: option.case, rule yields_bind [OF g2]) (simp add: yields_return)
qed

text \<open>The routing peer and the workload.\<close>

lemma router_routing_peer_yields:
  assumes z: "nrr_OpenZro r = mock_OpenZro rn base" and c: "stores_site (nrr_Client r)"
  shows "\<exists>p w1. yields (router_routing_peer r j i n) w (Inr (n\<lparr>nro_RoutingPeerID := p\<rparr>)) (put_router (n\<lparr>nro_RoutingPeerID := p\<rparr>) w1) \<and>
    p \<noteq> '''' \<and> router_settings w1 = (router_settings w)(p \<mapsto> netrouter_request i) \<and>
    (nro_RoutingPeerID n \<noteq> '''' \<and> nro_RoutingPeerID n \<in> dom (router_settings w) \<longrightarrow> p = nro_RoutingPeerID n) \<and>
    mock.more w1 = mock.more w \<and> mk_zones w1 = mk_zones w \<and> mk_groups w1 = mk_groups w \<and> mk_keys w1 = mk_keys w \<and> mk_networks w1 = mk_networks w"
proof -
  obtain p w1 where up: "yields (upsert (Routers (mock_OpenZro rn base) j) (Routers (mock_OpenZro rn base) j) ar_Id (nonempty (nro_RoutingPeerID n)) (netrouter_request i)) w (Inr p) w1"
    "puts_store router_slot w w1" "p \<noteq> ''''" "router_settings w1 = (router_settings w)(p \<mapsto> netrouter_request i)"
    "\<forall>i. nonempty (nro_RoutingPeerID n) = Some i \<and> i \<in> dom (router_settings w) \<longrightarrow> p = i"
    using upsert_router [OF nonempty_not, of rn base j "nro_RoutingPeerID n" "netrouter_request i" w] by auto
  have "yields (router_routing_peer r j i n) w (Inr (n\<lparr>nro_RoutingPeerID := p\<rparr>)) (put_router (n\<lparr>nro_RoutingPeerID := p\<rparr>) w1)"
    unfolding router_routing_peer_def z
    by (rule yields_bind [OF up(1)], simp only: sum.case, rule yields_bind [OF site_calls(6) [OF c]]) (simp add: yields_return)
  moreover have "nro_RoutingPeerID n \<noteq> '''' \<and> nro_RoutingPeerID n \<in> dom (router_settings w) \<longrightarrow> p = nro_RoutingPeerID n"
    using up(5) by (simp add: nonempty_def)
  ultimately show ?thesis using up(3, 4) slot_frames(2) [OF up(2)] by blast
qed

lemma router_workload_yields:
  assumes c: "stores_site (nrr_Client r)" "deployments_up (nrr_Client r)" and t: "depTemplate r req k n = Inr t"
  shows "\<exists>f. yields (router_workload r owner req k n) w (requeue_after (15 * Minute), None)
    (put_router (NetworkRouter_ready r (with_copied_labels req n)) (mock.more_update (cluster.more_update f) w))"
proof -
  obtain f where a: "yields (k_apply (Deployments (nrr_Client r)) (router_deployment owner req n t)) w None (mock.more_update (cluster.more_update f) w)"
    using site_calls(10) [OF c(1)] by blast
  let ?w1 = "mock.more_update (cluster.more_update f) w"
  obtain d where d: "kc_get (c_Deployments (nrr_Client r)) (fst req, ''networkrouter-'' @ snd req) ?w1 = (Inr d, ?w1)" "dep_ReadyReplicas d = dep_StatusReplicas d"
    using c(2) unfolding deployments_up_def by blast
  have g: "yields (k_get (Deployments (nrr_Client r)) (fst req, ''networkrouter-'' @ snd req)) ?w1 (Inr d) ?w1"
    unfolding k_get_def by (rule yields_api_call) (use d(1) in \<open>simp add: Deployments_def\<close>)
  have "yields (router_workload r owner req k n) w (requeue_after (15 * Minute), None) (put_router (NetworkRouter_ready r (with_copied_labels req n)) ?w1)"
    unfolding router_workload_def t
    by (simp only: sum.case, rule yields_bind [OF a], simp only: option.case, rule yields_bind [OF g], simp only: sum.case d(2) if_False simp_thms,
        rule yields_bind [OF site_calls(6) [OF c(1)]]) (simp add: yields_return)
  then show ?thesis by blast
qed

section \<open>The runs\<close>

lemma yields_stop: "yields m w (Inl x) w1 \<Longrightarrow> yields (early m f) w x w1"
  unfolding early_def by (erule yields_bind) (simp add: yields_return)

text \<open>The router, the group and the key of its peers, in the cluster.\<close>

definition peers_key :: "nn \<Rightarrow> nn" where
  "peers_key req = (fst req, ''networkrouter-'' @ snd req)"

definition router_site :: "nn \<Rightarrow> 'b site \<Rightarrow> NetworkRouter \<Rightarrow> Group option \<Rightarrow> SetupKey option \<Rightarrow> DNSZone \<Rightarrow> bool" where
  "router_site req w n G K zone \<longleftrightarrow> cl_routers (mock.more w) req = Some n \<and> netrouter_key n = req \<and> om_DeletionTimestamp (nro_Meta n) = None \<and>
     cl_groups (mock.more w) (peers_key req) = G \<and> cl_keys (mock.more w) (peers_key req) = K \<and> one_zone w (nro_DNSZoneRef (nro_Spec n)) zone"

lemma router_siteD:
  assumes "router_site req w n G K zone"
  shows "cl_routers (mock.more w) req = Some n" "netrouter_key n = req" "om_DeletionTimestamp (nro_Meta n) = None"
    "cl_groups (mock.more w) (peers_key req) = G" "cl_keys (mock.more w) (peers_key req) = K" "one_zone w (nro_DNSZoneRef (nro_Spec n)) zone"
    "om_Name (nro_Meta n) = snd req" "(fst req, peers_name n) = peers_key req"
  using assms by (auto simp: router_site_def netrouter_key_def peers_key_def peers_name_def)

text \<open>A run of the router controller up to the peers, and how it goes on from there.\<close>

lemma router_reconcile_yields:
  assumes z: "nrr_OpenZro r = mock_OpenZro rn base" and c: "stores_site (nrr_Client r)" and s: "router_site req w n G K zone"
  obtains owner j n1 w1 where "n1 = (NetworkRouter_guarded r n)\<lparr>nro_NetworkID := j\<rparr>" "j \<noteq> ''''" "router_site req w1 n1 G K zone"
    "network_names w1 = (network_names w)(j \<mapsto> snd req)" "router_settings w1 = router_settings w" "nro_NetworkID n \<noteq> '''' \<Longrightarrow> nro_NetworkID n \<in> dom (network_names w) \<Longrightarrow> j = nro_NetworkID n"
    "mk_groups w1 = mk_groups w" "mk_keys w1 = mk_keys w"
    "\<And>x w2. yields (router_peers r owner req n1 j) w1 (Inl x) w2 \<Longrightarrow> yields (NetworkRouter_Reconcile r req) w x w2"
    "\<And>i k n2 w2 w3 x w4. yields (router_peers r owner req n1 j) w1 (Inr (i, k)) w2 \<Longrightarrow> yields (router_routing_peer r j i n1) w2 (Inr n2) w3 \<Longrightarrow>
       yields (router_workload r owner req k n2) w3 x w4 \<Longrightarrow> yields (NetworkRouter_Reconcile r req) w x w4"
proof -
  note s' = router_siteD [OF s]
  obtain owner where owner: "ControllerReference (nrr_Client r) (KNetworkRouter n) (nro_Meta n) = Inr owner" using site_calls(11) [OF c] by blast
  obtain j w1 where j: "yields (router_network r n) w (Inr (j, (NetworkRouter_guarded r n)\<lparr>nro_NetworkID := j\<rparr>)) (put_router ((NetworkRouter_guarded r n)\<lparr>nro_NetworkID := j\<rparr>) w1)"
    "j \<noteq> ''''" "network_names w1 = (network_names w)(j \<mapsto> om_Name (nro_Meta n))"
    "nro_NetworkID n \<noteq> '''' \<and> nro_NetworkID n \<in> dom (network_names w) \<longrightarrow> j = nro_NetworkID n"
    "mock.more w1 = mock.more w" "mk_groups w1 = mk_groups w" "mk_zones w1 = mk_zones w" "mk_keys w1 = mk_keys w" "mk_routers w1 = mk_routers w"
    using router_network_yields [OF z c s'(6)] by metis
  let ?n1 = "(NetworkRouter_guarded r n)\<lparr>nro_NetworkID := j\<rparr>" and ?w2 = "put_router ((NetworkRouter_guarded r n)\<lparr>nro_NetworkID := j\<rparr>) w1"
  have key: "netrouter_key ?n1 = req" using s'(2) guarded_router(4) [of r n] by (simp add: netrouter_key_def)
  have run: "yields (NetworkRouter_Reconcile r req) w x w4" if "yields (NetworkRouter_sync r owner req n) w x w4" for x w4
    unfolding NetworkRouter_Reconcile_def
    by (rule yields_bind [OF site_calls(3) [OF c s'(1)]]) (simp add: NetworkRouter_body_def s'(3) owner that)
  show thesis
  proof (rule that [of ?n1 j ?w2 owner])
    show "router_site req ?w2 ?n1 G K zone"
      using s' j(5, 7) key by (simp add: router_site_def guarded_router one_zone_def)
    show "network_names ?w2 = (network_names w)(j \<mapsto> snd req)" using j(3) s'(7) by (simp add: network_names_def [abs_def])
    show "router_settings ?w2 = router_settings w" using j(9) by (simp add: router_settings_def [abs_def])
    show "yields (NetworkRouter_Reconcile r req) w x w2" if "yields (router_peers r owner req ?n1 j) ?w2 (Inl x) w2" for x w2
      by (rule run, unfold NetworkRouter_sync_def, rule yields_early [OF j(1)], simp only: prod.case, rule yields_stop [OF that])
    show "yields (NetworkRouter_Reconcile r req) w x w4"
      if "yields (router_peers r owner req ?n1 j) ?w2 (Inr (i, k)) w2" "yields (router_routing_peer r j i ?n1) w2 (Inr n2) w3"
        "yields (router_workload r owner req k n2) w3 x w4" for i k n2 w2 w3 x w4
      by (rule run, unfold NetworkRouter_sync_def, rule yields_early [OF j(1)], simp only: prod.case, rule yields_early [OF that(1)], simp only: prod.case,
          rule yields_early [OF that(2)], rule that(3))
  qed (use j in auto)
qed

text \<open>The first run: the group of the peers is applied, and the router waits for it.\<close>

lemma router_waits_for_group:
  assumes z: "nrr_OpenZro r = mock_OpenZro rn base" and c: "stores_site (nrr_Client r)" and s: "router_site req w n None K zone"
  shows "\<exists>owner j n1 w1. yields (NetworkRouter_Reconcile r req) w (zero_Result, None) w1 \<and> n1 = (NetworkRouter_guarded r n)\<lparr>nro_NetworkID := j\<rparr> \<and> j \<noteq> '''' \<and>
    router_site req w1 n1 (Some (peers_group r owner req n1 j)) K zone \<and> network_names w1 j = Some (snd req)"
proof -
  obtain owner j n1 w1 where n1: "n1 = (NetworkRouter_guarded r n)\<lparr>nro_NetworkID := j\<rparr>" "j \<noteq> ''''" "router_site req w1 n1 None K zone"
    "network_names w1 = (network_names w)(j \<mapsto> snd req)"
    and stop: "\<And>x w2. yields (router_peers r owner req n1 j) w1 (Inl x) w2 \<Longrightarrow> yields (NetworkRouter_Reconcile r req) w x w2"
    using router_reconcile_yields [OF z c s] by metis
  let ?G = "peers_group r owner req n1 j"
  note d = router_siteD [OF n1(3)]
  have "yields (router_peers r owner req n1 j) w1 (Inl (zero_Result, None)) (put_group ?G w1)"
    by (rule router_peers_waits [OF c]) (simp_all add: d applied_group_def, simp add: peers_group_def)
  moreover have "router_site req (put_group ?G w1) n1 (Some ?G) K zone"
    using n1(3) d(8) by (simp add: router_site_def one_zone_def)
  moreover have "network_names (put_group ?G w1) j = Some (snd req)" using fun_cong [OF n1(4), of j] by (simp add: network_names_def)
  ultimately show ?thesis using n1(1, 2) stop by blast
qed

text \<open>The run of the group controller: the group exists at the server, under the ID that the object records.\<close>

lemma create_group:
  "\<exists>i w1. yields (upsert (Groups (mock_OpenZro rn base)) (Groups (mock_OpenZro rn base)) ag_Id None q) w (Inr i) w1 \<and> i \<noteq> '''' \<and>
    map_of (mk_groups w1) i = Some \<lparr>ag_Id = i, ag_Name = q\<rparr> \<and> mock.more w1 = mock.more w \<and> mk_zones w1 = mk_zones w \<and> mk_keys w1 = mk_keys w \<and>
    mk_networks w1 = mk_networks w"
proof -
  let ?i = "''id-'' @ format_int (rn_int rn (mk_draws w))"
  let ?w1 = "w\<lparr>mk_draws := Suc (Suc (mk_draws w)), mk_groups := AList.update ?i \<lparr>ag_Id = ?i, ag_Name = q\<rparr> (mk_groups w)\<rparr>"
  have "yields (upsert (Groups (mock_OpenZro rn base)) (Groups (mock_OpenZro rn base)) ag_Id None q) w (Inr ?i) ?w1"
    by (rule yields_of_run)
       (simp add: upsert_def o_create_def Groups_def mock_OpenZro_def addHandler_def post_handler_def draw_def convert_group_def group_slot_def Let_def)
  then show ?thesis by (intro exI [of _ ?i] exI [of _ ?w1]) (simp add: update_conv')
qed

lemma group_comes_up:
  assumes z: "agr_OpenZro gr = mock_OpenZro rn base" and c: "stores_site (agr_Client gr)"
    and g: "cl_groups (mock.more w) key = Some g" "group_key g = key" "om_DeletionTimestamp (grp_Meta g) = None" "grp_GroupID g = ''''"
  shows "\<exists>i g1 w1. yields (Group_Reconcile gr key) w (zero_Result, None) w1 \<and> i \<noteq> '''' \<and> g1 = Group_ready gr i (Group_guarded gr g) \<and>
    cl_groups (mock.more w1) = (cl_groups (mock.more w))(key \<mapsto> g1) \<and> cl_keys (mock.more w1) = cl_keys (mock.more w) \<and>
    cl_routers (mock.more w1) = cl_routers (mock.more w) \<and> map_of (mk_groups w1) i = Some \<lparr>ag_Id = i, ag_Name = grp_SpecName g\<rparr> \<and>
    mk_zones w1 = mk_zones w \<and> mk_keys w1 = mk_keys w \<and> mk_networks w1 = mk_networks w"
proof -
  let ?g0 = "Group_guarded gr g"
  have g0: "grp_GroupID ?g0 = ''''" "grp_SpecName ?g0 = grp_SpecName g" "group_key ?g0 = key"
    using g(2, 4) by (simp_all add: Group_guarded_def set_grp_finalizers_def group_key_def)
  obtain i w1 where i: "yields (upsert (Groups (mock_OpenZro rn base)) (Groups (mock_OpenZro rn base)) ag_Id None (grp_SpecName g)) (put_group ?g0 w) (Inr i) w1"
    "i \<noteq> ''''" "map_of (mk_groups w1) i = Some \<lparr>ag_Id = i, ag_Name = grp_SpecName g\<rparr>" "mock.more w1 = mock.more (put_group ?g0 w)"
    "mk_zones w1 = mk_zones w" "mk_keys w1 = mk_keys w" "mk_networks w1 = mk_networks w"
    using create_group [of rn base "grp_SpecName g" "put_group ?g0 w"] by auto
  have e: "yields (Group_ensure gr ?g0) (put_group ?g0 w) (Inr i) w1" using i(1) by (simp add: Group_ensure_def z g0 nonempty_def)
  let ?g1 = "Group_ready gr i ?g0"
  have "yields (Group_Reconcile gr key) w (zero_Result, None) (put_group ?g1 w1)"
    unfolding Group_Reconcile_def
    by (rule yields_bind [OF site_calls(1) [OF c g(1)]], simp only: sum.case Group_body_def g(3) simp_thms if_False,
        rule yields_bind [OF site_calls(4) [OF c]], simp only: sum.case, rule yields_bind [OF e], simp only: sum.case,
        rule yields_bind [OF site_calls(4) [OF c]]) (simp add: err_of_def yields_return)
  moreover have "group_key ?g1 = key" using g0(3) by (simp add: Group_ready_def group_key_def)
  ultimately show ?thesis
    using i g0(3) by (intro exI [of _ i] exI [of _ ?g1] exI [of _ "put_group ?g1 w1"]) (simp add: fun_upd_upd)
qed

text \<open>The second run of the router controller: the setup key of the peers is applied, and the router waits for it.\<close>

lemma router_waits_for_key:
  assumes z: "nrr_OpenZro r = mock_OpenZro rn base" and c: "stores_site (nrr_Client r)" and s: "router_site req w n (Some g) None zone"
    and g: "group_key g = peers_key req" "grp_GroupID g \<noteq> ''''" and net: "nro_NetworkID n \<noteq> ''''" "network_names w (nro_NetworkID n) = Some (snd req)"
  shows "\<exists>owner n1 g1 w1. yields (NetworkRouter_Reconcile r req) w (zero_Result, None) w1 \<and> n1 = NetworkRouter_guarded r n \<and>
    group_key g1 = peers_key req \<and> grp_GroupID g1 = grp_GroupID g \<and> mk_groups w1 = mk_groups w \<and>
    router_site req w1 n1 (Some g1) (Some (peers_setup_key r owner req n1 (nro_NetworkID n) (grp_GroupID g))) zone \<and>
    network_names w1 (nro_NetworkID n) = Some (snd req)"
proof -
  obtain owner j n1 w1 where n1: "n1 = (NetworkRouter_guarded r n)\<lparr>nro_NetworkID := j\<rparr>" "router_site req w1 n1 (Some g) None zone"
    "network_names w1 = (network_names w)(j \<mapsto> snd req)" "mk_groups w1 = mk_groups w" "nro_NetworkID n \<noteq> '''' \<Longrightarrow> nro_NetworkID n \<in> dom (network_names w) \<Longrightarrow> j = nro_NetworkID n"
    and stop: "\<And>x w2. yields (router_peers r owner req n1 j) w1 (Inl x) w2 \<Longrightarrow> yields (NetworkRouter_Reconcile r req) w x w2"
    using router_reconcile_yields [OF z c s] by metis
  note d = router_siteD [OF n1(2)]
  have "j = nro_NetworkID n" using n1(5) net by auto
  with guarded_same [where r = r and n = n] n1(1) have j: "j = nro_NetworkID n" "n1 = NetworkRouter_guarded r n" by simp_all
  let ?G = "applied_group (peers_group r owner req n1 j) (Some g)" and ?K = "peers_setup_key r owner req n1 j (grp_GroupID g)"
  have G: "group_key ?G = peers_key req" "grp_GroupID ?G = grp_GroupID g" using g by (simp_all add: applied_group_def group_key_def)
  have y: "yields (router_peers r owner req n1 j) w1 (Inl (zero_Result, None)) (put_key ?K (put_group ?G w1))"
    using router_peers_yields [OF c, of ?G owner req n1 j w1 ?K] g by (simp add: d G applied_key_def, simp add: peers_setup_key_def)
  have "router_site req (put_key ?K (put_group ?G w1)) n1 (Some ?G) (Some ?K) zone"
    using n1(2) d(8) G(1) by (simp add: router_site_def one_zone_def)
  moreover have "network_names (put_key ?K (put_group ?G w1)) j = Some (snd req)" using fun_cong [OF n1(3), of j] by (simp add: network_names_def)
  ultimately show ?thesis using stop [OF y] G n1(4)
    by (intro exI [of _ owner] exI [of _ n1] exI [of _ ?G] exI [of _ "put_key ?K (put_group ?G w1)"]) (simp add: j)
qed

text \<open>The run of the setup key controller: the key exists at the server with the group of the peers.\<close>

lemma create_key:
  "\<exists>a w1. yields (o_create (SetupKeys (mock_OpenZro rn base)) q) w (Inr a) w1 \<and> ask_Id a \<noteq> '''' \<and> ask_AutoGroups a = skr_AutoGroups q \<and>
    map_of (mk_keys w1) (ask_Id a) = Some a \<and> mock.more w1 = mock.more w \<and> mk_zones w1 = mk_zones w \<and> mk_groups w1 = mk_groups w \<and>
    mk_networks w1 = mk_networks w"
proof -
  let ?i = "''id-'' @ format_int (rn_int rn (mk_draws w))" and ?k = "rn_int rn (Suc (mk_draws w))"
  let ?a = "convert_key ?k ?i (skr_AutoGroups q, False) \<lparr>ask_Id = '''', ask_AutoGroups = [], ask_Key = '''', ask_Revoked = False, ask_State = ''''\<rparr>"
  let ?w1 = "w\<lparr>mk_draws := Suc (Suc (mk_draws w)), mk_keys := AList.update ?i ?a (mk_keys w)\<rparr>"
  have "yields (o_create (SetupKeys (mock_OpenZro rn base)) q) w (Inr ?a) ?w1"
    unfolding o_create_def
    by (rule yields_api_call) (simp add: SetupKeys_def mock_OpenZro_def addHandler_def post_handler_def draw_def key_slot_def Let_def)
  then show ?thesis by (intro exI [of _ ?a] exI [of _ ?w1]) (simp add: update_conv' convert_key_def)
qed

lemma GetGroupIDs_one:
  assumes "map_of (mk_groups w) i = Some \<lparr>ag_Id = i, ag_Name = nm\<rparr>"
  shows "yields (GetGroupIDs c (mock_OpenZro rn base) [\<lparr>gref_Name = None, gref_ID = Some i, gref_LocalRef = None\<rparr>] ns) w (Inr [i]) w"
  by (rule yields_of_run)
     (simp add: GetGroupIDs_def resolve_ref_def o_get_def Groups_def mock_OpenZro_def addHandler_def get_handler_def group_slot_def assms)

lemma key_comes_up:
  assumes z: "skc_OpenZro kr = mock_OpenZro rn base" and c: "stores_site (skc_Client kr)"
    and k: "cl_keys (mock.more w) key = Some k" "setup_key_key k = key" "om_DeletionTimestamp (sk_Meta k) = None" "sk_SetupKeyID k = ''''"
      "sk_AutoGroups (sk_Spec k) = [\<lparr>gref_Name = None, gref_ID = Some i, gref_LocalRef = None\<rparr>]"
    and g: "map_of (mk_groups w) i = Some \<lparr>ag_Id = i, ag_Name = nm\<rparr>"
  shows "\<exists>a k1 w1. yields (SetupKey_Reconcile kr key) w (Returned (requeue_after (15 * Minute), None)) w1 \<and> ask_Id a \<noteq> '''' \<and>
    setup_key_key k1 = key \<and> sk_SetupKeyID k1 = ask_Id a \<and> cl_keys (mock.more w1) = (cl_keys (mock.more w))(key \<mapsto> k1) \<and>
    cl_groups (mock.more w1) = cl_groups (mock.more w) \<and> cl_routers (mock.more w1) = cl_routers (mock.more w) \<and>
    map_of (mk_keys w1) (ask_Id a) = Some a \<and> ask_AutoGroups a = [i] \<and> mk_zones w1 = mk_zones w \<and> mk_groups w1 = mk_groups w \<and> mk_networks w1 = mk_networks w"
proof -
  let ?k0 = "SetupKey_guarded kr k"
  have k0: "sk_SetupKeyID ?k0 = ''''" "setup_key_key ?k0 = key"
    using k(2, 4) by (simp_all add: SetupKey_guarded_def set_sk_finalizers_def setup_key_key_def)
  obtain owner where owner: "ControllerReference (skc_Client kr) (KSetupKey k) (sk_Meta k) = Inr owner" using site_calls(11) [OF c] by blast
  note ids = GetGroupIDs_one [OF g, where c = "skc_Client kr" and rn = rn and base = base and ns = "om_Namespace (sk_Meta k)"]
  have up: "yields (key_up_to_date kr key ?k0 [i]) (put_key ?k0 w) (Returned (Inr False)) (put_key ?k0 w)"
    by (simp add: key_up_to_date_def k0 yields_return)
  obtain a w1 where a: "yields (o_create (SetupKeys (mock_OpenZro rn base)) (new_key_request kr ?k0 [i])) (put_key ?k0 w) (Inr a) w1" "ask_Id a \<noteq> ''''"
    "ask_AutoGroups a = [i]" "map_of (mk_keys w1) (ask_Id a) = Some a" "mock.more w1 = mock.more (put_key ?k0 w)" "mk_zones w1 = mk_zones w"
    "mk_groups w1 = mk_groups w" "mk_networks w1 = mk_networks w"
    using create_key [of rn base "new_key_request kr ?k0 [i]" "put_key ?k0 w"] by (auto simp: new_key_request_def)
  let ?k1 = "?k0\<lparr>sk_SetupKeyID := ask_Id a\<rparr>"
  obtain f where f: "yields (k_apply (Secrets (skc_Client kr)) (key_secret owner key ?k1 (ask_Key a))) (put_key ?k1 w1) None
      (mock.more_update (cluster.more_update f) (put_key ?k1 w1))" using site_calls(9) [OF c] by blast
  let ?w2 = "mock.more_update (cluster.more_update f) (put_key ?k1 w1)" and ?k2 = "SetupKey_ready kr ?k1"
  have del: "yields (delete_recorded (SetupKeys (mock_OpenZro rn base)) (nonempty '''')) ?w2 None ?w2"
    by (simp add: delete_recorded_def nonempty_def yields_return)
  have "yields (recreate_key kr owner key ?k0 [i]) (put_key ?k0 w) (requeue_after (15 * Minute), None) (put_key ?k2 ?w2)"
    unfolding recreate_key_def z Let_def k0(1)
    by (rule yields_bind [OF a(1)], simp only: sum.case, rule yields_bind [OF site_calls(5) [OF c]], simp only: sum.case, rule yields_bind [OF f],
        simp only: option.case, rule yields_bind [OF del], simp only: option.case, rule yields_bind [OF site_calls(5) [OF c]]) (simp add: yields_return)
  note rec = this
  have "yields (SetupKey_sync kr owner key k) w (Returned (requeue_after (15 * Minute), None)) (put_key ?k2 ?w2)"
    unfolding SetupKey_sync_def z k(5)
    by (rule yields_bind [OF ids], simp only: sum.case, rule yields_bind [OF site_calls(5) [OF c]], simp only: sum.case, rule yields_bind [OF up],
        simp only: outcome.case sum.case bool.case, rule yields_bind [OF rec]) (simp add: yields_return)
  then have "yields (SetupKey_Reconcile kr key) w (Returned (requeue_after (15 * Minute), None)) (put_key ?k2 ?w2)"
    unfolding SetupKey_Reconcile_def
    by (intro yields_bind [OF site_calls(2) [OF c k(1)]]) (simp add: SetupKey_body_def owner k(3))
  moreover have "setup_key_key ?k1 = key" "setup_key_key ?k2 = key" "sk_SetupKeyID ?k2 = ask_Id a"
    using k0(2) by (simp_all add: SetupKey_ready_def setup_key_key_def)
  ultimately show ?thesis
    using a(2-8) k0(2) by (intro exI [of _ a] exI [of _ ?k2] exI [of _ "put_key ?k2 ?w2"]) simp
qed

text \<open>The third run of the router controller: the routing peer and the deployment, and the router is ready.\<close>

lemma router_becomes_ready:
  assumes z: "nrr_OpenZro r = mock_OpenZro rn base" and c: "stores_site (nrr_Client r)" "deployments_up (nrr_Client r)"
    and s: "router_site req w n (Some g) (Some k) zone"
    and g: "group_key g = peers_key req" "grp_GroupID g \<noteq> ''''" and k: "setup_key_key k = peers_key req" "sk_SetupKeyID k \<noteq> ''''"
    and net: "nro_NetworkID n \<noteq> ''''" "network_names w (nro_NetworkID n) = Some (snd req)"
    and t: "Option.bind (nro_WorkloadOverride (nro_Spec n)) wo_PodTemplate = None"
  shows "\<exists>p g1 k1 n1 w1. yields (NetworkRouter_Reconcile r req) w (requeue_after (15 * Minute), None) w1 \<and> p \<noteq> '''' \<and>
    n1 = NetworkRouter_ready r (with_copied_labels req ((NetworkRouter_guarded r n)\<lparr>nro_RoutingPeerID := p\<rparr>)) \<and>
    router_site req w1 n1 (Some g1) (Some k1) zone \<and> group_key g1 = peers_key req \<and> grp_GroupID g1 = grp_GroupID g \<and>
    setup_key_key k1 = peers_key req \<and> sk_SetupKeyID k1 = sk_SetupKeyID k \<and>
    network_names w1 = (network_names w)(nro_NetworkID n \<mapsto> snd req) \<and> router_settings w1 = (router_settings w)(p \<mapsto> netrouter_request (grp_GroupID g)) \<and>
    (nro_RoutingPeerID n \<noteq> '''' \<and> nro_RoutingPeerID n \<in> dom (router_settings w) \<longrightarrow> p = nro_RoutingPeerID n) \<and>
    mk_groups w1 = mk_groups w \<and> mk_keys w1 = mk_keys w"
proof -
  obtain owner j n1 w1 where n1: "n1 = (NetworkRouter_guarded r n)\<lparr>nro_NetworkID := j\<rparr>" "router_site req w1 n1 (Some g) (Some k) zone"
    "network_names w1 = (network_names w)(j \<mapsto> snd req)" "mk_groups w1 = mk_groups w" "mk_keys w1 = mk_keys w"
    "nro_NetworkID n \<noteq> '''' \<Longrightarrow> nro_NetworkID n \<in> dom (network_names w) \<Longrightarrow> j = nro_NetworkID n" "router_settings w1 = router_settings w"
    and go: "\<And>i k n2 w2 w3 x w4. yields (router_peers r owner req n1 j) w1 (Inr (i, k)) w2 \<Longrightarrow> yields (router_routing_peer r j i n1) w2 (Inr n2) w3 \<Longrightarrow>
       yields (router_workload r owner req k n2) w3 x w4 \<Longrightarrow> yields (NetworkRouter_Reconcile r req) w x w4"
    using router_reconcile_yields [OF z c(1) s] by metis
  note d = router_siteD [OF n1(2)]
  have "j = nro_NetworkID n" using n1(6) net by auto
  with guarded_same [where r = r and n = n] n1(1) have j: "j = nro_NetworkID n" "n1 = NetworkRouter_guarded r n" by simp_all
  let ?G = "applied_group (peers_group r owner req n1 j) (Some g)"
  have G: "group_key ?G = peers_key req" "grp_GroupID ?G = grp_GroupID g" using g by (simp_all add: applied_group_def group_key_def)
  let ?K = "applied_key (peers_setup_key r owner req n1 j (grp_GroupID g)) (Some k)"
  have K: "setup_key_key ?K = peers_key req" "sk_SetupKeyID ?K = sk_SetupKeyID k" using k by (simp_all add: applied_key_def setup_key_key_def)
  let ?w2 = "put_key ?K (put_group ?G w1)"
  have peers: "yields (router_peers r owner req n1 j) w1 (Inr (grp_GroupID g, ?K)) ?w2"
    using router_peers_yields [OF c(1), of ?G owner req n1 j w1 ?K] g k by (simp add: d G K)
  obtain p w3 where p: "yields (router_routing_peer r j (grp_GroupID g) n1) ?w2 (Inr (n1\<lparr>nro_RoutingPeerID := p\<rparr>)) (put_router (n1\<lparr>nro_RoutingPeerID := p\<rparr>) w3)"
    "p \<noteq> ''''" "router_settings w3 = (router_settings ?w2)(p \<mapsto> netrouter_request (grp_GroupID g))" "mock.more w3 = mock.more ?w2"
    "mk_groups w3 = mk_groups w1" "mk_keys w3 = mk_keys w1" "mk_networks w3 = mk_networks w1" "mk_zones w3 = mk_zones w1"
    "nro_RoutingPeerID n \<noteq> '''' \<and> nro_RoutingPeerID n \<in> dom (router_settings ?w2) \<longrightarrow> p = nro_RoutingPeerID n"
    using router_routing_peer_yields [OF z c(1), of j "grp_GroupID g" n1 ?w2] by (auto simp: j guarded_router)
  have rs: "router_settings ?w2 = router_settings w" using n1(7) by (simp add: router_settings_def [abs_def])
  let ?n2 = "n1\<lparr>nro_RoutingPeerID := p\<rparr>"
  have "depTemplate r req ?K ?n2 = Inr (podTemplateSpec r req ?K)" using t by (simp add: depTemplate_def j guarded_router)
  from router_workload_yields [OF c this, of owner "put_router ?n2 w3"] obtain f
    where wl: "yields (router_workload r owner req ?K ?n2) (put_router ?n2 w3) (requeue_after (15 * Minute), None)
      (put_router (NetworkRouter_ready r (with_copied_labels req ?n2)) (mock.more_update (cluster.more_update f) (put_router ?n2 w3)))" by blast
  let ?n3 = "NetworkRouter_ready r (with_copied_labels req ?n2)"
  let ?w4 = "put_router ?n3 (mock.more_update (cluster.more_update f) (put_router ?n2 w3))"
  have key: "netrouter_key ?n3 = req" "netrouter_key ?n2 = req"
    using d(2) by (simp_all add: NetworkRouter_ready_def with_copied_labels_def netrouter_key_def)
  have site: "router_site req ?w4 ?n3 (Some ?G) (Some ?K) zone"
    using n1(2) p(4, 8) key G(1) K(1) by (simp add: router_site_def one_zone_def NetworkRouter_ready_def with_copied_labels_def)
  have names: "network_names ?w4 = (network_names w)(j \<mapsto> snd req)" using n1(3) p(7) by (simp add: network_names_def [abs_def])
  have settings: "router_settings ?w4 = (router_settings w)(p \<mapsto> netrouter_request (grp_GroupID g))"
    using p(3) unfolding rs by (simp add: router_settings_def [abs_def])
  from p(9) have "nro_RoutingPeerID n \<noteq> '''' \<and> nro_RoutingPeerID n \<in> dom (router_settings w) \<longrightarrow> p = nro_RoutingPeerID n" unfolding rs .
  then show ?thesis
    using go [OF peers p(1) wl] p(2, 5, 6) n1(4, 5) G K site names settings
    by (intro exI [of _ p] exI [of _ ?G] exI [of _ ?K] exI [of _ ?n3] exI [of _ ?w4]) (simp add: j)
qed

section \<open>Bringing a router up\<close>

text \<open>The runs, in the order in which the objects they wait for appear.\<close>

type_synonym outcomes = "(Result \<times> goerr option) \<times> (Result \<times> goerr option) \<times> (Result \<times> goerr option) \<times>
  (Result \<times> goerr option) outcome \<times> (Result \<times> goerr option)"

definition bring_up :: "'w NetworkRouterReconciler \<Rightarrow> 'w GroupReconciler \<Rightarrow> 'w SetupKeyReconciler \<Rightarrow> nn \<Rightarrow> ('w, outcomes) go" where
  "bring_up r gr kr req = do {
     x1 \<leftarrow> NetworkRouter_Reconcile r req;
     x2 \<leftarrow> Group_Reconcile gr (peers_key req);
     x3 \<leftarrow> NetworkRouter_Reconcile r req;
     x4 \<leftarrow> SetupKey_Reconcile kr (peers_key req);
     x5 \<leftarrow> NetworkRouter_Reconcile r req;
     State_Monad.return (x1, x2, x3, x4, x5)
   }"

text \<open>The first three runs end without an error and ask for nothing more, the last two come back after fifteen minutes.\<close>

definition all_well :: outcomes where
  "all_well = ((zero_Result, None), (zero_Result, None), (zero_Result, None),
     Returned (requeue_after (15 * Minute), None), (requeue_after (15 * Minute), None))"

text \<open>What is then in the cluster and at the server, \<open>n\<close> being the object that the last run has read and \<open>n'\<close> the one it has stored.\<close>

definition router_up :: "'b site NetworkRouterReconciler \<Rightarrow> nn \<Rightarrow> NetworkRouter \<Rightarrow> NetworkRouter \<Rightarrow> 'b site \<Rightarrow> bool" where
  "router_up r req n n' w \<longleftrightarrow> (\<exists>g k a.
     cl_routers (mock.more w) req = Some n' \<and> nro_NetworkID n' \<noteq> '''' \<and> nro_RoutingPeerID n' \<noteq> '''' \<and>
     nro_Conditions n' = mark_ready (nrr_Client r) (nro_Conditions n) \<and>
     network_names w (nro_NetworkID n') = Some (snd req) \<and>
     cl_groups (mock.more w) (peers_key req) = Some g \<and>
     group_names w (grp_GroupID g) = Some (''networkrouter-'' @ nro_NetworkID n' @ ''-'' @ nrr_digest r (om_UID (nro_Meta n))) \<and>
     router_settings w (nro_RoutingPeerID n') = Some (netrouter_request (grp_GroupID g)) \<and>
     cl_keys (mock.more w) (peers_key req) = Some k \<and> map_of (mk_keys w) (sk_SetupKeyID k) = Some a \<and> ask_AutoGroups a = [grp_GroupID g])"

text \<open>The group \<open>i\<close> and the key \<open>a\<close> of the peers are there, and the network of the router is.\<close>

definition peers_up :: "(string \<Rightarrow> string) \<Rightarrow> nn \<Rightarrow> DNSZone \<Rightarrow> string \<Rightarrow> ApiSetupKey \<Rightarrow> NetworkRouter \<Rightarrow> 'b site \<Rightarrow> bool" where
  "peers_up digest req zone i a n w \<longleftrightarrow> (\<exists>g k. router_site req w n (Some g) (Some k) zone \<and>
     group_key g = peers_key req \<and> grp_GroupID g = i \<and> i \<noteq> '''' \<and> setup_key_key k = peers_key req \<and> sk_SetupKeyID k = ask_Id a \<and> ask_Id a \<noteq> '''' \<and>
     nro_NetworkID n \<noteq> '''' \<and> network_names w (nro_NetworkID n) = Some (snd req) \<and> Option.bind (nro_WorkloadOverride (nro_Spec n)) wo_PodTemplate = None \<and>
     map_of (mk_groups w) i = Some \<lparr>ag_Id = i, ag_Name = ''networkrouter-'' @ nro_NetworkID n @ ''-'' @ digest (om_UID (nro_Meta n))\<rparr> \<and>
     map_of (mk_keys w) (ask_Id a) = Some a \<and> ask_AutoGroups a = [i])"

lemma ready_object:
  assumes "n1 = NetworkRouter_ready r (with_copied_labels req ((NetworkRouter_guarded r n)\<lparr>nro_RoutingPeerID := p\<rparr>))"
  shows "nro_NetworkID n1 = nro_NetworkID n" "nro_RoutingPeerID n1 = p" "nro_Conditions n1 = mark_ready (nrr_Client r) (nro_Conditions n)"
    "om_UID (nro_Meta n1) = om_UID (nro_Meta n)"
    "Option.bind (nro_WorkloadOverride (nro_Spec n1)) wo_PodTemplate = Option.bind (nro_WorkloadOverride (nro_Spec n)) wo_PodTemplate"
  using assms by (simp_all add: NetworkRouter_ready_def with_copied_labels_def NetworkRouter_guarded_def set_nro_finalizers_def)
     (cases "nro_WorkloadOverride (nro_Spec n)"; simp)

text \<open>A run of the router controller then succeeds, and leaves them as they are.\<close>

lemma router_run_up:
  assumes z: "nrr_OpenZro r = mock_OpenZro rn base" and c: "stores_site (nrr_Client r)" "deployments_up (nrr_Client r)"
    and u: "peers_up (nrr_digest r) req zone i a n w"
  shows "\<exists>n1 w1. yields (NetworkRouter_Reconcile r req) w (requeue_after (15 * Minute), None) w1 \<and>
    peers_up (nrr_digest r) req zone i a n1 w1 \<and> router_up r req n n1 w1 \<and> nro_NetworkID n1 = nro_NetworkID n \<and> om_UID (nro_Meta n1) = om_UID (nro_Meta n) \<and>
    network_names w1 = (network_names w)(nro_NetworkID n \<mapsto> snd req) \<and> router_settings w1 = (router_settings w)(nro_RoutingPeerID n1 \<mapsto> netrouter_request i) \<and>
    (nro_RoutingPeerID n \<noteq> '''' \<and> nro_RoutingPeerID n \<in> dom (router_settings w) \<longrightarrow> nro_RoutingPeerID n1 = nro_RoutingPeerID n) \<and>
    mk_groups w1 = mk_groups w \<and> mk_keys w1 = mk_keys w"
proof -
  obtain g k where s: "router_site req w n (Some g) (Some k) zone" "group_key g = peers_key req" "grp_GroupID g = i" "i \<noteq> ''''"
    "setup_key_key k = peers_key req" "sk_SetupKeyID k = ask_Id a" "ask_Id a \<noteq> ''''" "nro_NetworkID n \<noteq> ''''" "network_names w (nro_NetworkID n) = Some (snd req)"
    "Option.bind (nro_WorkloadOverride (nro_Spec n)) wo_PodTemplate = None"
    "map_of (mk_groups w) i = Some \<lparr>ag_Id = i, ag_Name = ''networkrouter-'' @ nro_NetworkID n @ ''-'' @ nrr_digest r (om_UID (nro_Meta n))\<rparr>"
    "map_of (mk_keys w) (ask_Id a) = Some a" "ask_AutoGroups a = [i]"
    using u unfolding peers_up_def by blast
  have ids: "grp_GroupID g \<noteq> ''''" "sk_SetupKeyID k \<noteq> ''''" using s(3, 4, 6, 7) by simp_all
  obtain p g1 k1 n1 w1 where 1: "yields (NetworkRouter_Reconcile r req) w (requeue_after (15 * Minute), None) w1" "p \<noteq> ''''"
    "n1 = NetworkRouter_ready r (with_copied_labels req ((NetworkRouter_guarded r n)\<lparr>nro_RoutingPeerID := p\<rparr>))"
    "router_site req w1 n1 (Some g1) (Some k1) zone" "group_key g1 = peers_key req" "grp_GroupID g1 = i" "setup_key_key k1 = peers_key req" "sk_SetupKeyID k1 = ask_Id a"
    "network_names w1 = (network_names w)(nro_NetworkID n \<mapsto> snd req)" "router_settings w1 = (router_settings w)(p \<mapsto> netrouter_request i)"
    "nro_RoutingPeerID n \<noteq> '''' \<and> nro_RoutingPeerID n \<in> dom (router_settings w) \<longrightarrow> p = nro_RoutingPeerID n" "mk_groups w1 = mk_groups w" "mk_keys w1 = mk_keys w"
    using router_becomes_ready [OF z c s(1, 2) ids(1) s(5) ids(2) s(8-10)] unfolding s(3, 6) by blast
  note n1 = ready_object [OF 1(3)]
  have "peers_up (nrr_digest r) req zone i a n1 w1"
    unfolding peers_up_def using 1(4-9, 12, 13) s(4, 7, 8, 10-13) n1 by (intro exI [of _ g1] exI [of _ k1]) simp
  moreover have "router_up r req n n1 w1"
    unfolding router_up_def using 1(2, 6, 8-10, 12, 13) router_siteD [OF 1(4)] s(8, 11-13) n1
    by (intro exI [of _ g1] exI [of _ k1] exI [of _ a]) (simp add: group_names_def)
  ultimately show ?thesis using 1(1, 9-13) n1(1, 2, 4) by (intro exI [of _ n1] exI [of _ w1]) simp
qed

text \<open>The first three runs: the group is there, and the setup key is requested.\<close>

lemma first_runs:
  assumes z: "nrr_OpenZro r = mock_OpenZro rn base" "agr_OpenZro gr = mock_OpenZro rn base"
    and c: "stores_site (nrr_Client r)" "stores_site (agr_Client gr)" and s: "router_site req w n None None zone"
  obtains w1 w2 w3 n3 g3 i owner where "yields (NetworkRouter_Reconcile r req) w (zero_Result, None) w1"
    "yields (Group_Reconcile gr (peers_key req)) w1 (zero_Result, None) w2" "yields (NetworkRouter_Reconcile r req) w2 (zero_Result, None) w3"
    "nro_NetworkID n3 \<noteq> ''''" "nro_Spec n3 = nro_Spec n" "nro_Conditions n3 = nro_Conditions n" "om_UID (nro_Meta n3) = om_UID (nro_Meta n)"
    "network_names w3 (nro_NetworkID n3) = Some (snd req)" "group_key g3 = peers_key req" "grp_GroupID g3 = i" "i \<noteq> ''''"
    "map_of (mk_groups w3) i = Some \<lparr>ag_Id = i, ag_Name = ''networkrouter-'' @ nro_NetworkID n3 @ ''-'' @ nrr_digest r (om_UID (nro_Meta n))\<rparr>"
    "router_site req w3 n3 (Some g3) (Some (peers_setup_key r owner req n3 (nro_NetworkID n3) i)) zone"
proof -
  obtain owner j n1 w1 where 1: "yields (NetworkRouter_Reconcile r req) w (zero_Result, None) w1" "n1 = (NetworkRouter_guarded r n)\<lparr>nro_NetworkID := j\<rparr>"
    "j \<noteq> ''''" "router_site req w1 n1 (Some (peers_group r owner req n1 j)) None zone" "network_names w1 j = Some (snd req)"
    using router_waits_for_group [OF z(1) c(1) s] by blast
  note d1 = router_siteD [OF 1(4)]
  obtain i g w2 where 2: "yields (Group_Reconcile gr (peers_key req)) w1 (zero_Result, None) w2" "i \<noteq> ''''"
    "g = Group_ready gr i (Group_guarded gr (peers_group r owner req n1 j))"
    "cl_groups (mock.more w2) = (cl_groups (mock.more w1))(peers_key req \<mapsto> g)" "cl_keys (mock.more w2) = cl_keys (mock.more w1)"
    "cl_routers (mock.more w2) = cl_routers (mock.more w1)"
    "map_of (mk_groups w2) i = Some \<lparr>ag_Id = i, ag_Name = ''networkrouter-'' @ uniqueSuffix r n1 j\<rparr>"
    "mk_zones w2 = mk_zones w1" "mk_networks w2 = mk_networks w1"
    using group_comes_up [OF z(2) c(2) d1(4)] d1(8) by (auto simp: peers_group_def group_key_def zero_ObjectMeta_def)
  have g: "group_key g = peers_key req" "grp_GroupID g = i"
    using 2(3) d1(8) by (simp_all add: Group_ready_def Group_guarded_def set_grp_finalizers_def peers_group_def group_key_def zero_ObjectMeta_def)
  have s2: "router_site req w2 n1 (Some g) None zone" using 1(4) 2 by (simp add: router_site_def one_zone_def)
  have net: "nro_NetworkID n1 \<noteq> ''''" "network_names w2 (nro_NetworkID n1) = Some (snd req)"
    using 1(2, 3, 5) 2(9) by (simp_all add: network_names_def)
  obtain owner3 n3 g3 w3 where 3: "yields (NetworkRouter_Reconcile r req) w2 (zero_Result, None) w3" "n3 = NetworkRouter_guarded r n1"
    "group_key g3 = peers_key req" "grp_GroupID g3 = i" "mk_groups w3 = mk_groups w2"
    "router_site req w3 n3 (Some g3) (Some (peers_setup_key r owner3 req n3 (nro_NetworkID n1) i)) zone" "network_names w3 (nro_NetworkID n1) = Some (snd req)"
    using router_waits_for_key [OF z(1) c(1) s2 g(1) _ net] 2(2) g(2) by metis
  have n3: "nro_NetworkID n3 = nro_NetworkID n1" "nro_NetworkID n1 = j" "nro_Spec n3 = nro_Spec n" "nro_Conditions n3 = nro_Conditions n"
    "om_UID (nro_Meta n3) = om_UID (nro_Meta n)"
    using 1(2) 3(2) by (simp_all add: NetworkRouter_guarded_def set_nro_finalizers_def)
  have "uniqueSuffix r n1 j = nro_NetworkID n3 @ ''-'' @ nrr_digest r (om_UID (nro_Meta n))"
    using 1(2) n3(1, 2) by (simp add: uniqueSuffix_def guarded_router)
  then have "map_of (mk_groups w3) i = Some \<lparr>ag_Id = i, ag_Name = ''networkrouter-'' @ nro_NetworkID n3 @ ''-'' @ nrr_digest r (om_UID (nro_Meta n))\<rparr>"
    using 2(7) 3(5) by simp
  with that [OF 1(1) 2(1) 3(1) _ n3(3-5) _ 3(3, 4) 2(2)] 3(6, 7) net(1) show thesis unfolding n3(1) by blast
qed

lemma bring_up_yields:
  assumes z: "nrr_OpenZro r = mock_OpenZro rn base" "agr_OpenZro gr = mock_OpenZro rn base" "skc_OpenZro kr = mock_OpenZro rn base"
    and c: "stores_site (nrr_Client r)" "deployments_up (nrr_Client r)" "stores_site (agr_Client gr)" "stores_site (skc_Client kr)"
    and s: "router_site req w n None None zone" and t: "Option.bind (nro_WorkloadOverride (nro_Spec n)) wo_PodTemplate = None"
  shows "\<exists>i a n1 n2 w'. yields (bring_up r gr kr req) w all_well w' \<and> peers_up (nrr_digest r) req zone i a n2 w' \<and> router_up r req n1 n2 w' \<and>
    nro_Conditions n1 = nro_Conditions n \<and> om_UID (nro_Meta n1) = om_UID (nro_Meta n) \<and> nro_RoutingPeerID n2 \<in> dom (router_settings w')"
proof -
  obtain w1 w2 w3 n3 g3 i owner where 3: "yields (NetworkRouter_Reconcile r req) w (zero_Result, None) w1"
    "yields (Group_Reconcile gr (peers_key req)) w1 (zero_Result, None) w2" "yields (NetworkRouter_Reconcile r req) w2 (zero_Result, None) w3"
    "nro_NetworkID n3 \<noteq> ''''" "nro_Spec n3 = nro_Spec n" "nro_Conditions n3 = nro_Conditions n" "om_UID (nro_Meta n3) = om_UID (nro_Meta n)"
    "network_names w3 (nro_NetworkID n3) = Some (snd req)" "group_key g3 = peers_key req" "grp_GroupID g3 = i" "i \<noteq> ''''"
    "map_of (mk_groups w3) i = Some \<lparr>ag_Id = i, ag_Name = ''networkrouter-'' @ nro_NetworkID n3 @ ''-'' @ nrr_digest r (om_UID (nro_Meta n))\<rparr>"
    "router_site req w3 n3 (Some g3) (Some (peers_setup_key r owner req n3 (nro_NetworkID n3) i)) zone"
    using first_runs [OF z(1, 2) c(1, 3) s] by metis
  note d3 = router_siteD [OF 3(13)]
  obtain a k w4 where 4: "yields (SetupKey_Reconcile kr (peers_key req)) w3 (Returned (requeue_after (15 * Minute), None)) w4" "ask_Id a \<noteq> ''''"
    "setup_key_key k = peers_key req" "sk_SetupKeyID k = ask_Id a" "cl_keys (mock.more w4) = (cl_keys (mock.more w3))(peers_key req \<mapsto> k)"
    "cl_groups (mock.more w4) = cl_groups (mock.more w3)" "cl_routers (mock.more w4) = cl_routers (mock.more w3)"
    "map_of (mk_keys w4) (ask_Id a) = Some a" "ask_AutoGroups a = [i]" "mk_zones w4 = mk_zones w3" "mk_groups w4 = mk_groups w3" "mk_networks w4 = mk_networks w3"
    using key_comes_up [OF z(3) c(4) d3(5), of i "''networkrouter-'' @ nro_NetworkID n3 @ ''-'' @ nrr_digest r (om_UID (nro_Meta n))"] 3(12) d3(8)
    by (auto simp: peers_setup_key_def setup_key_key_def zero_ObjectMeta_def)
  have "network_names w4 (nro_NetworkID n3) = Some (snd req)" using 3(8) 4(12) by (simp add: network_names_def)
  moreover have "router_site req w4 n3 (Some g3) (Some k) zone" using 3(13) 4 by (simp add: router_site_def one_zone_def)
  ultimately have "peers_up (nrr_digest r) req zone i a n3 w4"
    unfolding peers_up_def using 3(4, 5, 7, 9-12) 4(2-4, 8, 9, 11) t by (intro exI [of _ g3] exI [of _ k]) simp
  from router_run_up [OF z(1) c(1, 2) this] obtain n5 w5
    where 5: "yields (NetworkRouter_Reconcile r req) w4 (requeue_after (15 * Minute), None) w5" "peers_up (nrr_digest r) req zone i a n5 w5" "router_up r req n3 n5 w5"
      "router_settings w5 = (router_settings w4)(nro_RoutingPeerID n5 \<mapsto> netrouter_request i)" by blast
  have "yields (bring_up r gr kr req) w all_well w5"
    unfolding bring_up_def all_well_def
    by (rule yields_bind [OF 3(1)] yields_bind [OF 3(2)] yields_bind [OF 3(3)] yields_bind [OF 4(1)] yields_bind [OF 5(1)])+ (rule yields_return)
  then show ?thesis using 5 3(6, 7) by (intro exI [of _ i] exI [of _ a] exI [of _ n3] exI [of _ n5] exI [of _ w5]) simp
qed


definition demo_site_client :: "unit site Client" where
  "demo_site_client = down_Client\<lparr>
     c_AlphaGroups := down_kind\<lparr>kc_get := read_from cl_groups, kc_patch := \<lambda>g w. (Inr g, put_group g w),
       kc_apply := \<lambda>g w. (None, put_group (applied_group g (cl_groups (mock.more w) (group_key g))) w)\<rparr>,
     c_AlphaSetupKeys := down_kind\<lparr>kc_get := read_from cl_keys, kc_patch := \<lambda>k w. (Inr k, put_key k w),
       kc_apply := \<lambda>k w. (None, put_key (applied_key k (cl_keys (mock.more w) (setup_key_key k))) w)\<rparr>,
     c_NetworkRouters := down_kind\<lparr>kc_get := read_from cl_routers, kc_patch := \<lambda>n w. (Inr n, put_router n w)\<rparr>,
     c_Secrets := down_kind\<lparr>kc_apply := \<lambda>_ w. (None, w)\<rparr>,
     c_Deployments := down_kind\<lparr>kc_apply := \<lambda>_ w. (None, w), kc_get := \<lambda>_ w. (Inr \<lparr>dep_Meta = zero_ObjectMeta, dep_Replicas = None,
       dep_MatchLabels = None, dep_Template = \<lparr>pts_Labels = None, pts_NodeSelector = None, pts_Tolerations = [], pts_Containers = [], pts_Volumes = []\<rparr>,
       dep_StatusReplicas = 3, dep_ReadyReplicas = 3\<rparr>, w)\<rparr>\<rparr>"

definition demo_site_start :: "unit site" where
  "demo_site_start = \<lparr>mk_draws = 0, mk_groups = [], mk_keys = [], mk_networks = [], mk_routers = [], mk_resources = [],
     mk_zones = [(''id-z'', demo_cluster_zone)], mk_records = [],
     \<dots> = \<lparr>cl_groups = Map.empty, cl_keys = Map.empty, cl_routers = Map.empty((''ns'', ''r'') \<mapsto> demo_router)\<rparr>\<rparr>"

definition demo_site_server :: "unit site OpenZro" where
  "demo_site_server = mock_OpenZro \<lparr>rn_int = int, rn_rank = \<lambda>_ _. 0\<rparr> down_OpenZro"

definition demo_site_router :: "unit site NetworkRouterReconciler" where
  "demo_site_router = \<lparr>nrr_Client = demo_site_client, nrr_OpenZro = demo_site_server, nrr_ManagementURL = ''url'', nrr_ClientImage = ''image'',
     nrr_digest = \<lambda>u. u, nrr_merge = \<lambda>t _. Inr t\<rparr>"

definition demo_site_group :: "unit site GroupReconciler" where
  "demo_site_group = \<lparr>agr_Client = demo_site_client, agr_OpenZro = demo_site_server\<rparr>"

definition demo_site_key :: "unit site SetupKeyReconciler" where
  "demo_site_key = \<lparr>skc_Client = demo_site_client, skc_OpenZro = demo_site_server, skc_seconds = \<lambda>d. d\<rparr>"

lemma demo_site_stores: "stores_site demo_site_client" "deployments_up demo_site_client"
proof -
  have same: "\<exists>f. w = mock.more_update (cluster.more_update f) w" for w :: "unit site"
    by (rule exI [of _ id]) (auto intro!: mock.equality cluster.equality)
  show "stores_site demo_site_client" by (simp add: stores_site_def demo_site_client_def down_Client_def same del: split_paired_All)
  show "deployments_up demo_site_client" by (simp add: deployments_up_def demo_site_client_def)
qed


end
