(* ===== verification/Spec2Isabelle.thy ===== *)
theory Spec2Isabelle
  imports Part_Copy Apply_Builders Call_Bounds Service_Policy Router_Bring_Up
begin

text \<open>
  \<^bold>\<open>A verification library for openzro-operator.\<close>

  The operator keeps a Kubernetes cluster and the openZro management service in step: custom
  resources of the cluster describe groups, policies, network resources, routing peers and setup
  keys, and one reconciler per kind drives the management API and further cluster objects towards
  them. Every reconciler is level-triggered: it is called with the name of an object, reads it,
  acts, and stores the status; a finalizer holds a deleted object back until the reconciler has
  cleaned up. There are three families of controllers, which meet in the objects:

  \<^item> the api/v1 controllers: a Service becomes an \<open>OZResource\<close> (and a default \<open>OZRoutingPeer\<close>), an
    \<open>OZResource\<close> and an \<open>OZRoutingPeer\<close> create \<open>OZGroup\<close>s and wait for the IDs that the \<open>OZGroup\<close>
    controller records, an \<open>OZResource\<close> registers with \<open>OZPolicy\<close> objects, and the \<open>OZPolicy\<close> controller
    collects the ports of the registered resources;
  \<^item> the api/v1alpha1 controllers: a \<open>NetworkRouter\<close> creates a network, applies a \<open>Group\<close> and a \<open>SetupKey\<close> for
    its peers, waits for their controllers, creates the routing peer and applies a deployment; a
    \<open>NetworkResource\<close> puts a service into the network of a router, with a DNS record;
  \<^item> the Gateway API controllers: a gateway class is accepted, a gateway is programmed once its
    \<open>NetworkRouter\<close> is ready, and the routes of a gateway apply a \<open>NetworkResource\<close> for each of their
    backends, an HTTP route also a proxy service for each of its host names.

  cmd/main.go parses the flags and registers the controllers and webhooks with the manager.

  \<^bold>\<open>How the code is modelled.\<close>

  A reconciler method is a function in the state monad \<open>('w, 'a) go\<close> of theory \<open>World\<close>. The state
  holds the environment \<open>'w\<close> and the log of the calls made so far. The Kubernetes client and the
  management client are not under src/: they are the records \<open>Client\<close> and \<open>OpenZro\<close> of functions on
  the environment, so any answer, any error and any interference between two calls is covered. A
  postcondition \<open>emits m P\<close> says that for every environment and start state the result of \<open>m\<close> and the
  calls it has logged satisfy \<open>P\<close>; theorems about one particular run state it with \<open>run_state\<close> and the
  answers as hypotheses. Go's \<open>error\<close> is \<open>goerr option\<close> or the left side of a sum, with the status
  errors of the Kubernetes and management clients told apart as the code does (\<open>IsNotFound\<close>, or the
  text of the message). A pointer is an \<open>option\<close>, a nil map differs from an empty one (\<open>gomap\<close>), and a
  panic (a write to a nil map, a nil pointer, an index out of range) is the value \<open>Panicked\<close>. Maps that
  the code ranges over are association lists; where the order shows in the result, every order is
  covered (\<open>udp_first\<close> in \<open>OZPolicy_Reconcile\<close>, \<open>map_range\<close> in the route controllers). Ports are 32-bit
  words. \<open>time.Now\<close> is the function \<open>clock\<close> of the client. Logging is left out.

  \<^bold>\<open>The theories.\<close>

  \<^item> \<open>Prelude\<close>: weakest preconditions of the state monad, the loop \<open>for_each\<close> with early return, Go maps.
  \<^item> \<open>Go_Strings\<close>: the functions of Go's \<open>strings\<close> and \<open>strconv\<close> that the sources use, with the round trip of
    decimal numbers and of splitting and joining.
  \<^item> \<open>Util\<close>: internal/util/slices.go, internal/k8sutil/finalizer.go.
  \<^item> \<open>Api_Types\<close>: the records of api/v1 and api/v1alpha1 and of the Kubernetes and management objects, the
    \<open>Equal\<close> methods, the condition constructors.
  \<^item> \<open>World\<close>: the environment, the call log, \<open>emits\<close> and its rules, predicates on logs.
  \<^item> \<open>Constants\<close>: internal/controller/constants.go and the loop that gives up groups, which the resource
    controller uses twice.
  \<^item> \<open>OZGroup_Controller\<close>: ozgroup_controller.go. A group is created only if none of that name is listed, the
    recorded ID belongs to the named group, and a deleted object is released only when its group is gone or
    held by another object. The locale \<open>finish_contract\<close> states what the deferred function of a reconciler
    does with the status; it is interpreted for the group, policy and resource controllers.
  \<^item> \<open>OZPolicy_Controller\<close>: ozpolicy_controller.go. The port mapping is sorted, duplicate-free and exact;
    after a successful synchronisation each protocol's policy is created, updated or deleted as wanted.
  \<^item> \<open>OZResource_Controller\<close>: ozresource_controller.go. Upstream resource, groups, registration with policies,
    generated policies, deletion.
  \<^item> \<open>OZRoutingPeer_Controller\<close>: ozroutingpeer_controller.go. Setup key with its secret, router, admission
    exemption, deployment, deletion.
  \<^item> \<open>Service_Controller\<close>: service_controller.go. Ports and filters from the annotations, exposing and hiding.
  \<^item> \<open>OZSetupKey_Controller\<close>: ozsetupkey_controller.go. The map of referenced secrets as the state of a step
    relation (\<open>ref_step\<close>, \<open>refs_reachable\<close>), its invariant, and the watch on secrets.
  \<^item> \<open>Webhooks\<close>: internal/webhook/v1. Injection by profile and by annotation, the validation of deletions.
  \<^item> \<open>Alpha_Common\<close>: internal/k8sutil/owner.go, internal/openzroutil and the two idioms of the v1alpha1
    controllers: \<open>upsert\<close> (update under the recorded ID, create when that is not found) and
    \<open>delete_recorded\<close>. Their contracts are the locales \<open>upserting\<close>, interpreted for the five collections,
    \<open>finalized\<close> (a deleted object is released after its clean-up) and \<open>finalizer_first\<close> (nothing is created
    before the finalizer is stored), interpreted for the controllers.
  \<^item> \<open>Group_Controller\<close>, \<open>SetupKey_Controller\<close>, \<open>NetworkRouter_Controller\<close>, \<open>NetworkResource_Controller\<close>: the
    files of these names. Each has one definition per stage of \<open>Reconcile\<close>, a predicate on logs per stage,
    and the theorem that what a run stored and sent is what the object asks for.
  \<^item> \<open>Gateway_Controllers\<close>: gatewayutil.go, gatewayclass_controller.go, gateway_controller.go. The runs of the
    gateway controller as an inductive predicate (\<open>gateway_run\<close>).
  \<^item> \<open>Route_Common\<close>, \<open>TCPRoute_Controller\<close>, \<open>HTTPRoute_Controller\<close>: the route controllers; the code they share
    word for word is in the first, with the locale \<open>route_controller\<close>.
  \<^item> \<open>Manager\<close>: cmd/main.go. Flags, default labels, and which controllers are registered with which fields.
  \<^item> \<open>OpenZro_Mock\<close>: the in-memory management server of the tests. Its handlers are an instance of the
    locale \<open>rest_store\<close>, in which \<open>upsert\<close> refines the update of a map; on it the group controller
    converges in one run and then is stable.
  \<^item> \<open>Call_Bounds\<close>: how many calls a run of the v1alpha1 and Gateway API reconcilers makes, in terms of the sizes of
    the objects it was answered (\<open>calls\<close>, \<open>small_answer\<close>); so every run ends.
  \<^item> \<open>Server_Invariant\<close>: what all calls keep, every run keeps (\<open>keeps\<close>); the stores of the management server stay well
    formed through any sequence of runs (\<open>served\<close>), by the locale \<open>keyed_collection\<close> for the seven collections.
  \<^item> \<open>Resource_Convergence\<close>: runs as functions of the environment (\<open>yields\<close>); the network resource controller
    converges on the management server, the deletion takes back what it put there, and the backends of a route become
    reachable.
  \<^item> \<open>Router_Bring_Up\<close>: the controllers of routers, groups and setup keys, which wait for each other's objects in the cluster,
    bring a network router up on the management server; a further run of the router keeps what it has there.
  \<^item> \<open>Service_Policy\<close>: from the ports of a Service to the ports of the rules that the \<open>OZPolicy\<close> controller sends.
  \<^item> \<open>Deep_Copy\<close>: api/v1/zz_generated.deepcopy.go on an explicit memory. Elsewhere pointers are values, and a comparison
    of an object with its deep copy compares pointers only by whether they are nil; here the structs hold addresses, and the locale
    \<open>deep_copy\<close> (the copy has the same value, in fresh memory) justifies that.
  \<^item> \<open>Memory_Layout\<close>, \<open>Object_Copy\<close>, \<open>Part_Copy\<close>: the deep copies of objects, their lists and their parts of api/v1 and api/v1alpha1, whose structs
    point to structs and arrays of structs. A layout says what a type reaches in memory and what value it has there; layouts are put
    together like the types, the contract of a copy is the locale \<open>object_copy\<close> (of which \<open>deep_copy\<close> is a sublocale), and the
    copies of all ten kinds, of their lists and of their parts are independent of the original.
  \<^item> \<open>Apply_Configurations\<close>: the builders of pkg/applyconfigurations that the controllers call; what they build describes
    the objects that the model of the controllers applies.
  \<^item> \<open>Apply_Builders\<close>: the other builders of pkg/applyconfigurations; a configuration into which an object is written describes it.
  \<^item> This theory: what spans the controllers, the release of deleted objects and the way from a network
    router to the group its peers are enrolled in.

  \<^bold>\<open>Parameters.\<close> Besides the two clients: \<open>uuid.Parse\<close> (\<open>uuidOk\<close>), label selectors (\<open>sm\<close>), the strategic
  merge of a container override (\<open>mc\<close>) and of a pod template (\<open>nrr_merge\<close>), whether a strategic merge patch
  is empty (\<open>patchEmpty\<close>), the digest in the names of a router's peers (\<open>nrr_digest\<close>), the whole seconds of a
  duration (\<open>skc_seconds\<close>), the order of a range over a map (\<open>hrr_rank\<close>, \<open>trr_rank\<close>), random numbers
  (\<open>randomness\<close>), and in \<open>Platform\<close> the answers of the libraries that cmd/main.go calls. No theorem assumes
  anything of them beyond the answers it names, but for the theorems on convergence, which assume of the cluster
  that it answers what it has stored (\<open>stores_groups\<close>, \<open>stores_resources\<close>, \<open>stores_site\<close>) and that its deployments become ready
  (\<open>deployments_up\<close>), and for the invariant of the server, which assumes
  that the cluster does not write into it (\<open>leaves_server\<close>). Every function is total: the loops run over finite
  lists, so no fuel is needed.

  \<^bold>\<open>What is not modelled.\<close> The calls that register a controller with the manager (the watch and index
  functions with logic of their own are modelled); of the generated code, the embedded schema of the apply configurations with its parser; and in the
  mock the HTTP transport and JSON coding. The caches and work queues of controller-runtime are
  represented only by the arbitrary answers of the client.
\<close>

section \<open>Objects are released last\<close>

text \<open>
  A reconciler that has read an object which is being deleted creates nothing upstream, and changes the
  object in no other way than taking its finalizer off, after what it stands for is cleaned up.
\<close>

definition released_last ::
  "string \<Rightarrow> ('o \<Rightarrow> kobj) \<Rightarrow> ('o \<Rightarrow> ObjectMeta) \<Rightarrow> ('o \<Rightarrow> 'o) \<Rightarrow> ('o \<Rightarrow> event list \<Rightarrow> bool) \<Rightarrow> nn \<Rightarrow> event list \<Rightarrow> bool" where
  "released_last kind obj meta released cleaned req evs \<longleftrightarrow>
     (\<forall>x. hd evs = EGet kind req (Inr (obj x)) \<longrightarrow> om_DeletionTimestamp (meta x) \<noteq> None \<longrightarrow>
        no_creates evs \<and> patches_only (\<lambda>o'. o' = obj (released x) \<and> cleaned x (tl evs)) evs)"

text \<open>
  C10. A v1alpha1 object that is being deleted is released last, by each of the four reconcilers and in every
  run: a group once its group, a setup key once its key, a network router once its routing peer and
  its network, a network resource once its resource and its DNS record are deleted upstream or not
  found there. Until then, and whatever fails, nothing is created upstream and the finalizer stays.
\<close>

theorem alpha_objects_released_last:
  "emits (Group_Reconcile rg req) (\<lambda>_. released_last ''Group'' KGroup grp_Meta (Group_released rg)
     (\<lambda>g. gone CGroups (nonempty (grp_GroupID g))) req) \<and>
   emits (SetupKey_Reconcile rk req) (\<lambda>_. released_last ''SetupKey'' KSetupKey sk_Meta (SetupKey_released rk)
     (\<lambda>k. gone CSetupKeys (nonempty (sk_SetupKeyID k))) req) \<and>
   emits (NetworkRouter_Reconcile rn req) (\<lambda>_. released_last ''NetworkRouter'' KNetworkRouter nro_Meta (NetworkRouter_released rn)
     (\<lambda>n evs. gone (CRouters (nro_NetworkID n)) (nonempty (nro_RoutingPeerID n)) evs \<and> gone CNetworks (nonempty (nro_NetworkID n)) evs) req) \<and>
   emits (NetworkResource_Reconcile rs req) (\<lambda>_. released_last ''NetworkResource'' KNetworkResource nrs_Meta (NetworkResource_released rs)
     (\<lambda>n evs. gone (CResources (nrs_NetworkID n)) (recorded_resource n) evs \<and> gone (CRecords (nrs_DNSZoneID n)) (recorded_record n) evs) req)"
  using alpha_group.reconcile_deleted [of rg req] alpha_setup_key.reconcile_deleted [of rk req]
    network_router.reconcile_deleted [of rn req] network_resource.reconcile_deleted [of rs req]
  by (simp add: released_last_def [abs_def] AlphaGroups_def AlphaSetupKeys_def NetworkRouters_def NetworkResources_def resource_cleaned_def)


section \<open>The peers of a network router\<close>

lemma NetworkRouter_delete_result: "emits (NetworkRouter_reconcileDelete r n) (\<lambda>(res, err) _. res = zero_Result)"
  unfolding NetworkRouter_reconcileDelete_def k_patch_def NetworkRouters_def
  by (auto intro!: emits_bind [OF emits_delete_recorded] emits_intros split: option.splits)

lemma NetworkRouter_body_ready:
  "emits (NetworkRouter_body r req n) (\<lambda>(res, err) evs. res = requeue_after (15 * Minute) \<longrightarrow> (\<exists>owner. network_router_ready r owner req n evs))"
  unfolding NetworkRouter_body_def
  by (auto intro!: emits_intros emits_mono [OF NetworkRouter_delete_result] emits_mono [OF NetworkRouter_sync_ready] split: sum.splits)

text \<open>What enrols the peers: one group, named by the setup key of the workload and by the routing peer upstream.\<close>

definition peers_enrolled :: "'w NetworkRouterReconciler \<Rightarrow> nn \<Rightarrow> string \<Rightarrow> event list \<Rightarrow> bool" where
  "peers_enrolled r req groupID evs \<longleftrightarrow> groupID \<noteq> '''' \<and> (\<exists>k peerKey q a networkID n d.
     EApply (KSetupKey k) None \<in> set evs \<and> sk_AutoGroups (sk_Spec k) = [\<lparr>gref_Name = None, gref_ID = Some groupID, gref_LocalRef = None\<rparr>] \<and>
     EGet ''SetupKey'' (om_Namespace (sk_Meta k), om_Name (sk_Meta k)) (Inr (KSetupKey peerKey)) \<in> set evs \<and> sk_SetupKeyID peerKey \<noteq> '''' \<and>
     rr_PeerGroups q = Some [groupID] \<and>
     (OCreate (CRouters networkID) (QRouter q) (Inr a) \<in> set evs \<or> (\<exists>i. OUpdate (CRouters networkID) i (QRouter q) (Inr a) \<in> set evs)) \<and>
     EApply (KDeployment d) None \<in> set evs \<and> depTemplate r req peerKey n = Inr (dep_Template d))"

lemma peers_enrolledI:
  assumes "groupID \<noteq> ''''" "EApply (KSetupKey k) None \<in> set evs" "sk_AutoGroups (sk_Spec k) = [\<lparr>gref_Name = None, gref_ID = Some groupID, gref_LocalRef = None\<rparr>]"
    "EGet ''SetupKey'' (om_Namespace (sk_Meta k), om_Name (sk_Meta k)) (Inr (KSetupKey peerKey)) \<in> set evs" "sk_SetupKeyID peerKey \<noteq> ''''"
    "rr_PeerGroups q = Some [groupID]"
    "OCreate (CRouters networkID) (QRouter q) (Inr a) \<in> set evs \<or> (\<exists>i. OUpdate (CRouters networkID) i (QRouter q) (Inr a) \<in> set evs)"
    "EApply (KDeployment d) None \<in> set evs" "depTemplate r req peerKey n = Inr (dep_Template d)"
  shows "peers_enrolled r req groupID evs"
  unfolding peers_enrolled_def using assms by blast

lemma upsert_trace_ok:
  "upsert_trace cu cc ans idOf i q (Inr j) evs \<Longrightarrow> \<exists>a. OCreate cc q (Inr a) \<in> set evs \<or> (\<exists>k. OUpdate cu k q (Inr a) \<in> set evs)"
  by (auto simp: trace_defs split: option.splits)

lemma ready_enrolled:
  assumes "network_router_ready r owner req n evs"
  shows "\<exists>groupID. peers_enrolled r req groupID evs"
proof -
  from assms obtain e1 e2 e3 e4 networkID groupID k n1 n2 where evs: "evs = e1 @ e2 @ e3 @ e4"
    and p: "peers_stage r owner req n1 networkID groupID k e2" and s: "routing_stage networkID groupID n1 n2 e3"
    and w: "workload_stage r owner req k n2 e4"
    unfolding network_router_ready_def by blast
  from s obtain a where a: "OCreate (CRouters networkID) (QRouter (netrouter_request groupID)) (Inr a) \<in> set e3 \<or>
      (\<exists>i. OUpdate (CRouters networkID) i (QRouter (netrouter_request groupID)) (Inr a) \<in> set e3)"
    unfolding routing_stage_def using upsert_trace_ok by fastforce
  from w obtain template where t: "depTemplate r req k n2 = Inr template" "EApply (KDeployment (router_deployment owner req n2 template)) None \<in> set e4"
    unfolding workload_stage_def by auto
  have "peers_enrolled r req groupID evs"
    by (rule peers_enrolledI [where q = "netrouter_request groupID" and peerKey = k and n = n2 and k = "peers_setup_key r owner req n1 networkID groupID" and a = a and networkID = networkID and
          d = "router_deployment owner req n2 template"])
       (use p a t in \<open>auto simp: evs peers_stage_def peers_setup_key_def netrouter_request_def router_deployment_def\<close>)
  then show ?thesis ..
qed

lemma peers_enrolled_Cons: "peers_enrolled r req groupID evs \<Longrightarrow> peers_enrolled r req groupID (e # evs)"
  unfolding peers_enrolled_def by (meson list.set_intros(2))

text \<open>The key that is kept or created upstream puts peers into the group that the API answered for the ID.\<close>

definition key_joins :: "string \<Rightarrow> event list \<Rightarrow> bool" where
  "key_joins groupID evs \<longleftrightarrow> (\<exists>grp. OGet CGroups groupID (Inr (RGroup grp)) \<in> set evs \<and>
     ((\<exists>i a. OUpdate CSetupKeys i (QSetupKeyGroups [ag_Id grp]) (Inr a) \<in> set evs) \<or>
      (\<exists>q a. OCreate CSetupKeys (QSetupKey q) (Inr a) \<in> set evs \<and> skr_AutoGroups q = [ag_Id grp])))"

lemma synced_enrols:
  assumes "setup_key_synced sk owner req k evs"
    and "sk_AutoGroups (sk_Spec k) = [\<lparr>gref_Name = None, gref_ID = Some groupID, gref_LocalRef = None\<rparr>]"
  shows "key_joins groupID evs"
proof -
  from assms obtain reads ids k1 check rest where evs: "set evs \<supseteq> set reads \<union> set check \<union> set rest"
    and ids: "list_all2 (resolved (om_Namespace (sk_Meta k)) reads) [\<lparr>gref_Name = None, gref_ID = Some groupID, gref_LocalRef = None\<rparr>] ids"
    and key: "key_kept req k1 ids check \<or> key_renewed sk owner req k1 ids rest"
    unfolding setup_key_synced_def by (fastforce simp: names_group_def)
  from ids obtain grp where grp: "ids = [ag_Id grp]" "OGet CGroups groupID (Inr (RGroup grp)) \<in> set reads"
    by (auto simp: list_all2_Cons1 resolved_def)
  from key have "(\<exists>i a. OUpdate CSetupKeys i (QSetupKeyGroups ids) (Inr a) \<in> set check) \<or>
      (\<exists>q a. OCreate CSetupKeys (QSetupKey q) (Inr a) \<in> set rest \<and> skr_AutoGroups q = ids)"
    by (fastforce simp: key_kept_def key_renewed_def new_key_request_def)
  with grp evs show ?thesis unfolding key_joins_def by blast
qed

lemma SetupKey_body_synced:
  "emits (SetupKey_body sk kreq k) (\<lambda>out evs. \<forall>owner res. om_DeletionTimestamp (sk_Meta k) = None \<and>
     ControllerReference (skc_Client sk) (KSetupKey k) (sk_Meta k) = Inr owner \<and> out = Returned (res, None) \<longrightarrow>
     setup_key_synced sk owner kreq k evs)"
  unfolding SetupKey_body_def
  by (auto intro!: emits_intros emits_bind [OF SetupKey_delete_spec] emits_mono [OF SetupKey_sync_outcome]
       simp: sync_outcome_Returned split: sum.splits)

text \<open>
  C8. The peers of a network router end up in the group that routes. When the router's reconciliation ends with the
  long interval, one group with a nonempty ID was used throughout: the setup key that was applied puts
  peers into it, the routing peer that was updated or created upstream consists of it, and the deployment that was applied has the pod
  template of that setup key. And when the controller of setup keys
  reconciles such a key without an error, the key that it keeps or creates upstream puts peers into
  exactly the group that the API answered for that ID.
\<close>

theorem router_peers_enrolled:
  "emits (NetworkRouter_Reconcile r req) (\<lambda>(res, err) evs. res = requeue_after (15 * Minute) \<longrightarrow> (\<exists>groupID. peers_enrolled r req groupID evs)) \<and>
   emits (SetupKey_Reconcile sk kreq) (\<lambda>out evs. \<forall>k rest owner res.
     evs = EGet ''SetupKey'' kreq (Inr (KSetupKey k)) # rest \<and> om_DeletionTimestamp (sk_Meta k) = None \<and>
     ControllerReference (skc_Client sk) (KSetupKey k) (sk_Meta k) = Inr owner \<and>
     sk_AutoGroups (sk_Spec k) = [\<lparr>gref_Name = None, gref_ID = Some groupID, gref_LocalRef = None\<rparr>] \<and> out = Returned (res, None) \<longrightarrow>
     key_joins groupID rest)"
proof
  show "emits (NetworkRouter_Reconcile r req) (\<lambda>(res, err) evs. res = requeue_after (15 * Minute) \<longrightarrow> (\<exists>groupID. peers_enrolled r req groupID evs))"
    by (rule emits_mono [OF network_router.reconcile_emits [OF NetworkRouter_body_ready]])
       (auto dest!: ready_enrolled intro: peers_enrolled_Cons)
  show "emits (SetupKey_Reconcile sk kreq) (\<lambda>out evs. \<forall>k rest owner res.
     evs = EGet ''SetupKey'' kreq (Inr (KSetupKey k)) # rest \<and> om_DeletionTimestamp (sk_Meta k) = None \<and>
     ControllerReference (skc_Client sk) (KSetupKey k) (sk_Meta k) = Inr owner \<and>
     sk_AutoGroups (sk_Spec k) = [\<lparr>gref_Name = None, gref_ID = Some groupID, gref_LocalRef = None\<rparr>] \<and> out = Returned (res, None) \<longrightarrow>
     key_joins groupID rest)"
    by (rule emits_mono [OF alpha_setup_key.reconcile_emits [OF SetupKey_body_synced]])
       (auto simp: AlphaSetupKeys_def intro: synced_enrols)
qed

theorem router_peers_enrolled_witness:
  "let (x, t) = run_state (NetworkRouter_Reconcile (demo_router_env Inr) (''ns'', ''r'')) start
   in fst x = requeue_after (15 * Minute) \<and> (\<exists>groupID. peers_enrolled (demo_router_env Inr) (''ns'', ''r'') groupID (wlog t))"
proof -
  have "fst (fst (run_state (NetworkRouter_Reconcile (demo_router_env Inr) (''ns'', ''r'')) start)) = requeue_after (15 * Minute)"
    by (simp add: NetworkRouter_Reconcile_def NetworkRouter_body_def NetworkRouter_sync_def router_peers_def router_routing_peer_def
        router_workload_def depTemplate_def ControllerReference_def router_deployment_def demo_router_defs)
  then show ?thesis
    using emits_start [OF conjunct1 [OF router_peers_enrolled [of "demo_router_env Inr" "(''ns'', ''r'')"
      "demo_setup_key_env ''expired'' None" "(''ns'', ''k'')" "''g1''"]]]
    by (auto simp: split_beta)
qed

end
